(* ===== verification/Forge_Prelude.thy ===== *)
theory Forge_Prelude
  imports Main "HOL-Library.Word" "HOL-Library.Char_ord" "HOL-Library.List_Lexorder"
    "HOL-Library.Product_Lexorder" "HOL-Library.Multiset"
begin

text \<open>
  Shared vocabulary of the development: the machine integers of the Rust sources, the
  \<open>Result\<close> type as a sum, the loops that stop at the first error, the saturating
  arithmetic of the standard library, and the handful of list operations
  (\<open>iter_mut().find\<close>, \<open>max_by_key\<close>, \<open>min_by_key\<close>) that the components share.
\<close>

section \<open>Machine integers\<close>

type_synonym u8 = "8 word"
type_synonym u32 = "32 word"
type_synonym u64 = "64 word"

named_theorems status_simps \<open>the string forms and predicates of the enumerations\<close>
named_theorems reduce_simps \<open>the reducer of the run projection, one case per payload\<close>
named_theorems projection_frame \<open>fields an update of the projection leaves alone\<close>

subsection \<open>Saturating arithmetic\<close>

text \<open>\<open>saturate n\<close> is the unsigned value \<open>n\<close> clipped to the width of the result.\<close>

definition saturate :: "nat \<Rightarrow> 'a::len word" where
  "saturate n = of_nat (min n (2 ^ LENGTH('a) - 1))"

lemma unat_saturate [simp]: "unat (saturate n :: 'a::len word) = min n (2 ^ LENGTH('a) - 1)"
proof -
  have "min n (2 ^ LENGTH('a) - 1) < 2 ^ LENGTH('a)"
    by (simp add: min_less_iff_disj)
  then show ?thesis
    by (simp add: saturate_def unat_of_nat take_bit_nat_eq_self)
qed

lemma unat_le_limit [simp]: "unat a \<le> 2 ^ LENGTH('a) - Suc 0" for a :: "'a::len word"
  using unsigned_less [of a] by (simp add: le_diff_conv2 Suc_le_eq)

definition sat_add :: "'a::len word \<Rightarrow> 'a word \<Rightarrow> 'a word" where
  "sat_add a b = saturate (unat a + unat b)"

definition sat_sub :: "'a::len word \<Rightarrow> 'a word \<Rightarrow> 'a word" where
  "sat_sub a b = saturate (unat a - unat b)"

definition sat_mul :: "'a::len word \<Rightarrow> 'a word \<Rightarrow> 'a word" where
  "sat_mul a b = saturate (unat a * unat b)"

definition sat_pow :: "'a::len word \<Rightarrow> nat \<Rightarrow> 'a word" where
  "sat_pow a k = saturate (unat a ^ k)"

lemma unat_sat_add: "unat (sat_add a b) = min (unat a + unat b) (2 ^ LENGTH('a) - 1)"
  for a b :: "'a::len word"
  by (simp add: sat_add_def)

lemma unat_sat_sub: "unat (sat_sub a b) = unat a - unat b" for a b :: "'a::len word"
proof -
  have "unat a - unat b \<le> 2 ^ LENGTH('a) - Suc 0"
    using unat_le_limit [of a] by (rule order_trans [OF diff_le_self])
  then show ?thesis by (simp add: sat_sub_def)
qed

lemma unat_sat_mul: "unat (sat_mul a b) = min (unat a * unat b) (2 ^ LENGTH('a) - 1)"
  for a b :: "'a::len word"
  by (simp add: sat_mul_def)

lemma unat_sat_pow: "unat (sat_pow a k) = min (unat a ^ k) (2 ^ LENGTH('a) - 1)"
  for a :: "'a::len word"
  by (simp add: sat_pow_def)

lemma sat_add_mono_left: "a \<le> sat_add a b" for a b :: "'a::len word"
  by (simp add: word_le_nat_alt unat_sat_add)

lemma unat_min: "unat (min a b) = min (unat a) (unat b)" for a b :: "'a::len word"
  by (simp add: min_def word_le_nat_alt)

section \<open>Results\<close>

text \<open>
  \<open>Result<T, E>\<close> is \<open>'e + 'a\<close> with the error on the left; \<open>and_then\<close> is the
  \<open>?\<close> operator followed by the rest of the function.
\<close>

fun and_then :: "'e + 'a \<Rightarrow> ('a \<Rightarrow> 'e + 'b) \<Rightarrow> 'e + 'b" where
  "and_then (Inl e) f = Inl e"
| "and_then (Inr a) f = f a"

fun map_ok :: "('a \<Rightarrow> 'b) \<Rightarrow> 'e + 'a \<Rightarrow> 'e + 'b" where
  "map_ok f (Inl e) = Inl e"
| "map_ok f (Inr a) = Inr (f a)"

fun map_err :: "('e \<Rightarrow> 'f) \<Rightarrow> 'e + 'a \<Rightarrow> 'f + 'a" where
  "map_err f (Inl e) = Inl (f e)"
| "map_err f (Inr a) = Inr a"

fun ok_or :: "'e \<Rightarrow> 'a option \<Rightarrow> 'e + 'a" where
  "ok_or e None = Inl e"
| "ok_or e (Some a) = Inr a"

fun is_ok :: "'e + 'a \<Rightarrow> bool" where
  "is_ok (Inl e) = False"
| "is_ok (Inr a) = True"

lemma and_then_Inr [simp]:
  "and_then m f = Inr b \<longleftrightarrow> (\<exists>a. m = Inr a \<and> f a = Inr b)"
  by (cases m) auto

lemma and_then_Inl [simp]:
  "and_then m f = Inl e \<longleftrightarrow> m = Inl e \<or> (\<exists>a. m = Inr a \<and> f a = Inl e)"
  by (cases m) auto

lemma map_ok_Inr [simp]: "map_ok f m = Inr b \<longleftrightarrow> (\<exists>a. m = Inr a \<and> b = f a)"
  by (cases m) auto

lemma map_ok_Inl [simp]: "map_ok f m = Inl e \<longleftrightarrow> m = Inl e"
  by (cases m) auto

lemma map_err_Inr [simp]: "map_err f m = Inr a \<longleftrightarrow> m = Inr a"
  by (cases m) auto

lemma map_err_Inl [simp]: "map_err f m = Inl e \<longleftrightarrow> (\<exists>d. m = Inl d \<and> e = f d)"
  by (cases m) auto

lemma ok_or_Inr [simp]: "ok_or e m = Inr a \<longleftrightarrow> m = Some a"
  by (cases m) auto

lemma ok_or_Inl [simp]: "ok_or e m = Inl d \<longleftrightarrow> m = None \<and> d = e"
  by (cases m) auto

text \<open>An early return: \<open>if b { return Err(e); }\<close> before the rest of a function.\<close>

lemma guard_Inr: "(if b then Inl e else m) = Inr a \<longleftrightarrow> \<not> b \<and> m = Inr a"
  by simp

lemma is_ok_iff: "is_ok m \<longleftrightarrow> (\<exists>a. m = Inr a)"
  by (cases m) auto

subsection \<open>Loops that stop at the first error\<close>

fun try_fold :: "('s \<Rightarrow> 'x \<Rightarrow> 'e + 's) \<Rightarrow> 's \<Rightarrow> 'x list \<Rightarrow> 'e + 's" where
  "try_fold f s [] = Inr s"
| "try_fold f s (x # xs) = and_then (f s x) (\<lambda>t. try_fold f t xs)"

fun try_each :: "('x \<Rightarrow> 'e + unit) \<Rightarrow> 'x list \<Rightarrow> 'e + unit" where
  "try_each f [] = Inr ()"
| "try_each f (x # xs) = and_then (f x) (\<lambda>_. try_each f xs)"

lemma try_fold_append:
  "try_fold f s (xs @ ys) = and_then (try_fold f s xs) (\<lambda>t. try_fold f t ys)"
proof (induction xs arbitrary: s)
  case (Cons x xs)
  then show ?case by (cases "f s x") simp_all
qed simp

lemma try_fold_snoc:
  "try_fold f s (xs @ [x]) = and_then (try_fold f s xs) (\<lambda>t. f t x)"
proof -
  have "try_fold f t [x] = f t x" for t by (cases "f t x") simp_all
  then show ?thesis by (simp add: try_fold_append)
qed

lemma try_fold_invariant:
  assumes step: "\<And>s x t. P s \<Longrightarrow> f s x = Inr t \<Longrightarrow> P t"
    and "P s" and "try_fold f s xs = Inr t"
  shows "P t"
  using assms(2,3)
proof (induction xs arbitrary: s)
  case (Cons x xs)
  then obtain u where "f s x = Inr u" and "try_fold f u xs = Inr t" by auto
  with Cons show ?case by (blast intro: step)
qed simp

lemma try_each_Inr: "try_each f xs = Inr u \<longleftrightarrow> (\<forall>x \<in> set xs. f x = Inr ())"
  by (induction xs) auto

section \<open>Lists\<close>

text \<open>
  \<open>iter_mut().find(p)\<close> followed by writes through the reference changes the first element
  that satisfies \<open>p\<close>.
\<close>

fun update_first :: "('a \<Rightarrow> bool) \<Rightarrow> ('a \<Rightarrow> 'a) \<Rightarrow> 'a list \<Rightarrow> 'a list" where
  "update_first p f [] = []"
| "update_first p f (x # xs) = (if p x then f x # xs else x # update_first p f xs)"

lemma length_update_first [simp]: "length (update_first p f xs) = length xs"
  by (induction xs) auto

lemma map_update_first:
  assumes "\<And>x. x \<in> set xs \<Longrightarrow> p x \<Longrightarrow> g (f x) = g x"
  shows "map g (update_first p f xs) = map g xs"
  using assms by (induction xs) auto

lemma set_update_first_subset: "set (update_first p f xs) \<subseteq> set xs \<union> f ` {x \<in> set xs. p x}"
  by (induction xs) auto

lemma update_first_cases:
  "y \<in> set (update_first p f xs) \<Longrightarrow> y \<in> set xs \<or> (\<exists>x. find p xs = Some x \<and> y = f x)"
  by (induction xs) (auto split: if_splits)

lemma update_first_none: "find p xs = None \<Longrightarrow> update_first p f xs = xs"
  by (induction xs) (auto split: if_splits)

lemma find_SomeD: "find p xs = Some x \<Longrightarrow> x \<in> set xs \<and> p x"
  by (induction xs) (auto split: if_splits)

lemma find_None_iff_set: "find p xs = None \<longleftrightarrow> (\<forall>x \<in> set xs. \<not> p x)"
  by (induction xs) auto

lemma find_unique:
  assumes "distinct (map k xs)" and "x \<in> set xs"
  shows "find (\<lambda>y. k y = k x) xs = Some x"
  using assms by (induction xs) (auto simp: image_iff)

text \<open>
  \<open>max_by_key\<close> returns the last of the elements with the greatest key and
  \<open>min_by_key\<close> the first of those with the least, as the iterator adaptors document.
\<close>

fun max_by_key :: "('a \<Rightarrow> 'k::linorder) \<Rightarrow> 'a list \<Rightarrow> 'a option" where
  "max_by_key k [] = None"
| "max_by_key k (x # xs) =
     (case max_by_key k xs of
        None \<Rightarrow> Some x
      | Some y \<Rightarrow> if k x \<le> k y then Some y else Some x)"

fun min_by_key :: "('a \<Rightarrow> 'k::linorder) \<Rightarrow> 'a list \<Rightarrow> 'a option" where
  "min_by_key k [] = None"
| "min_by_key k (x # xs) =
     (case min_by_key k xs of
        None \<Rightarrow> Some x
      | Some y \<Rightarrow> if k x \<le> k y then Some x else Some y)"

lemma max_by_key_None [simp]: "max_by_key k xs = None \<longleftrightarrow> xs = []"
  by (cases xs) (auto split: option.splits)

lemma max_by_key_Some:
  "max_by_key k xs = Some x \<Longrightarrow> x \<in> set xs \<and> (\<forall>y \<in> set xs. k y \<le> k x)"
  by (induction xs arbitrary: x) (fastforce split: option.splits if_splits)+

lemma min_by_key_None [simp]: "min_by_key k xs = None \<longleftrightarrow> xs = []"
  by (cases xs) (auto split: option.splits)

lemma min_by_key_Some:
  "min_by_key k xs = Some x \<Longrightarrow> x \<in> set xs \<and> (\<forall>y \<in> set xs. k x \<le> k y)"
  by (induction xs arbitrary: x) (fastforce split: option.splits if_splits)+

lemma sort_key_permutation:
  "mset (sort_key k xs) = mset xs"
  by simp

lemma sort_key_mset_cong:
  assumes "mset xs = mset ys" and "inj_on k (set xs)"
  shows "sort_key k xs = sort_key k ys"
proof (rule properties_for_sort_key)
  show "mset (sort_key k ys) = mset xs" using assms by simp
next
  fix x assume "x \<in> set (sort_key k ys)"
  have sets: "set ys = set xs" using assms(1) by (metis set_mset_mset)
  with \<open>x \<in> set (sort_key k ys)\<close> have x: "x \<in> set xs" by simp
  have eq: "filter (\<lambda>y. k x = k y) zs = filter (\<lambda>y. x = y) zs" if "set zs = set xs" for zs
    using assms(2) x that by (intro filter_cong) (auto simp: inj_on_def)
  have rep: "filter (\<lambda>y. x = y) zs = replicate (count (mset zs) x) x" for zs
    by (induction zs) auto
  show "filter (\<lambda>y. k x = k y) (sort_key k ys) = filter (\<lambda>y. k x = k y) xs"
    using sets assms(1) by (simp add: eq rep)
next
  show "sorted (map k (sort_key k ys))" by simp
qed

end
