(* ===== verification/Forge_Text.thy ===== *)
theory Forge_Text
  imports Forge_Prelude
begin

text \<open>
  Rust strings. A \<open>String\<close> or \<open>&str\<close> is the list of its UTF-8 bytes, one \<open>char\<close>
  of HOL per byte, so \<open>len()\<close> is \<open>length\<close>, and the derived ordering is the bytewise
  lexicographic one. The operations of the standard library the sources call are
  defined here, with the laws (split and join, decimal printing and parsing) the components
  need.
\<close>

section \<open>Bytes and characters\<close>

definition byte :: "char \<Rightarrow> nat" where
  "byte c = of_char c"

definition chr :: "nat \<Rightarrow> char" where
  "chr n = char_of n"

lemma byte_chr [simp]: "n < 256 \<Longrightarrow> byte (chr n) = n"
  by (simp add: byte_def chr_def)

lemma chr_byte [simp]: "chr (byte c) = c"
  by (simp add: byte_def chr_def)

lemma byte_less [simp]: "byte c < 256"
  by (simp add: byte_def)

lemma char_eq_byte: "c = d \<longleftrightarrow> byte c = byte d"
  by (metis chr_byte)

lemma byte_literals:
  "byte (CHR ''/'') = 47" "byte (CHR ''-'') = 45" "byte (CHR ''.'') = 46" "byte (CHR '':'') = 58"
  "byte (CHR ''0'') = 48" "byte (CHR ''+'') = 43" "byte (CHR ''c'') = 99" "byte (CHR ''~'') = 126"
  by (simp_all add: byte_def)

definition newline :: char where "newline = chr 10"
definition carriage_return :: char where "carriage_return = chr 13"
definition unit_separator :: char where "unit_separator = chr 31"
definition record_separator :: char where "record_separator = chr 30"

definition is_ascii_lowercase :: "char \<Rightarrow> bool" where
  "is_ascii_lowercase c \<longleftrightarrow> 97 \<le> byte c \<and> byte c \<le> 122"

definition is_ascii_uppercase :: "char \<Rightarrow> bool" where
  "is_ascii_uppercase c \<longleftrightarrow> 65 \<le> byte c \<and> byte c \<le> 90"

definition is_ascii_digit :: "char \<Rightarrow> bool" where
  "is_ascii_digit c \<longleftrightarrow> 48 \<le> byte c \<and> byte c \<le> 57"

definition is_ascii_alphabetic :: "char \<Rightarrow> bool" where
  "is_ascii_alphabetic c \<longleftrightarrow> is_ascii_lowercase c \<or> is_ascii_uppercase c"

definition is_ascii_alphanumeric :: "char \<Rightarrow> bool" where
  "is_ascii_alphanumeric c \<longleftrightarrow> is_ascii_alphabetic c \<or> is_ascii_digit c"

definition is_ascii_hexdigit :: "char \<Rightarrow> bool" where
  "is_ascii_hexdigit c \<longleftrightarrow>
     is_ascii_digit c \<or> (97 \<le> byte c \<and> byte c \<le> 102) \<or> (65 \<le> byte c \<and> byte c \<le> 70)"

definition ascii_lower :: "char \<Rightarrow> char" where
  "ascii_lower c = (if is_ascii_uppercase c then chr (byte c + 32) else c)"

definition to_ascii_lowercase :: "string \<Rightarrow> string" where
  "to_ascii_lowercase s = map ascii_lower s"

definition eq_ignore_ascii_case :: "string \<Rightarrow> string \<Rightarrow> bool" where
  "eq_ignore_ascii_case a b \<longleftrightarrow> to_ascii_lowercase a = to_ascii_lowercase b"

lemma eq_ignore_ascii_case_refl [simp]: "eq_ignore_ascii_case a a"
  by (simp add: eq_ignore_ascii_case_def)

text \<open>A byte that continues a multi-byte character; \<open>chars().take(n)\<close> keeps \<open>n\<close> whole ones.\<close>

definition is_continuation :: "char \<Rightarrow> bool" where
  "is_continuation c \<longleftrightarrow> 128 \<le> byte c \<and> byte c < 192"

definition chars_count :: "string \<Rightarrow> nat" where
  "chars_count s = length (filter (\<lambda>c. \<not> is_continuation c) s)"

fun chars_take :: "nat \<Rightarrow> string \<Rightarrow> string" where
  "chars_take n [] = []"
| "chars_take n (c # s) =
     (if is_continuation c then c # chars_take n s
      else case n of 0 \<Rightarrow> [] | Suc m \<Rightarrow> c # chars_take m s)"

section \<open>Prefixes, containment, trimming\<close>

definition starts_with :: "string \<Rightarrow> string \<Rightarrow> bool" where
  "starts_with p s \<longleftrightarrow> take (length p) s = p"

definition ends_with :: "string \<Rightarrow> string \<Rightarrow> bool" where
  "ends_with p s \<longleftrightarrow> length p \<le> length s \<and> drop (length s - length p) s = p"

definition strip_prefix :: "string \<Rightarrow> string \<Rightarrow> string option" where
  "strip_prefix p s = (if starts_with p s then Some (drop (length p) s) else None)"

fun contains_str :: "string \<Rightarrow> string \<Rightarrow> bool" where
  "contains_str p [] \<longleftrightarrow> p = []"
| "contains_str p (c # s) \<longleftrightarrow> starts_with p (c # s) \<or> contains_str p s"

lemma starts_with_append [simp]: "starts_with p (p @ s)"
  by (simp add: starts_with_def)

lemma starts_with_length: "starts_with p s \<Longrightarrow> length p \<le> length s"
  by (metis length_take min.cobounded1 starts_with_def)

text \<open>The UTF-8 encodings of the characters with the Unicode property \<open>White_Space\<close>.\<close>

definition whitespace :: "string list" where
  "whitespace = map (map chr)
     [[9], [10], [11], [12], [13], [32], [194, 133], [194, 160], [225, 154, 128],
      [226, 128, 128], [226, 128, 129], [226, 128, 130], [226, 128, 131], [226, 128, 132],
      [226, 128, 133], [226, 128, 134], [226, 128, 135], [226, 128, 136], [226, 128, 137],
      [226, 128, 138], [226, 128, 168], [226, 128, 169], [226, 128, 175], [226, 129, 159],
      [227, 128, 128]]"

function strip_any :: "string list \<Rightarrow> string \<Rightarrow> string" where
  "strip_any ws s =
     (case find (\<lambda>w. w \<noteq> [] \<and> starts_with w s) ws of
        None \<Rightarrow> s
      | Some w \<Rightarrow> strip_any ws (drop (length w) s))"
  by pat_completeness auto
termination
proof (relation "measure (\<lambda>(ws, s). length s)")
  fix ws s w
  assume "find (\<lambda>w. w \<noteq> [] \<and> starts_with w s) ws = Some w"
  then have "w \<noteq> []" and "starts_with w s" by (auto dest: find_SomeD)
  then have "0 < length w" and "length w \<le> length s" by (auto dest: starts_with_length)
  then have "length s - length w < length s" by linarith
  then show "((ws, drop (length w) s), (ws, s)) \<in> measure (\<lambda>(ws, s). length s)" by simp
qed simp

declare strip_any.simps [simp del]

definition trim_start :: "string \<Rightarrow> string" where
  "trim_start s = strip_any whitespace s"

definition trim_end :: "string \<Rightarrow> string" where
  "trim_end s = rev (strip_any (map rev whitespace) (rev s))"

definition trim :: "string \<Rightarrow> string" where
  "trim s = trim_end (trim_start s)"

lemma strip_any_suffix: "\<exists>p. s = p @ strip_any ws s"
proof (induction ws s rule: strip_any.induct)
  case (1 ws s)
  show ?case
  proof (cases "find (\<lambda>w. w \<noteq> [] \<and> starts_with w s) ws")
    case None
    then show ?thesis by (simp add: strip_any.simps [of ws s])
  next
    case (Some w)
    with 1 obtain p where "drop (length w) s = p @ strip_any ws (drop (length w) s)" by blast
    then have "s = (take (length w) s @ p) @ strip_any ws (drop (length w) s)"
      by (metis append.assoc append_take_drop_id)
    moreover have "strip_any ws s = strip_any ws (drop (length w) s)"
      by (subst strip_any.simps) (simp add: Some)
    ultimately show ?thesis by (metis append.assoc)
  qed
qed

lemma strip_any_idem [simp]: "strip_any ws (strip_any ws s) = strip_any ws s"
proof (induction ws s rule: strip_any.induct)
  case (1 ws s)
  show ?case
  proof (cases "find (\<lambda>w. w \<noteq> [] \<and> starts_with w s) ws")
    case None
    then show ?thesis by (simp add: strip_any.simps [of ws s])
  next
    case (Some w)
    then show ?thesis using 1 by (simp add: strip_any.simps [of ws s])
  qed
qed

lemma trim_end_prefix: "\<exists>q. s = trim_end s @ q"
proof -
  obtain p where "rev s = p @ strip_any (map rev whitespace) (rev s)"
    using strip_any_suffix by blast
  then have "s = trim_end s @ rev p" by (metis rev_append rev_rev_ident trim_end_def)
  then show ?thesis by blast
qed

lemma trim_infix: "\<exists>p q. s = p @ trim s @ q"
proof -
  obtain p where "s = p @ trim_start s"
    using strip_any_suffix [of s whitespace] by (auto simp: trim_start_def)
  moreover obtain q where "trim_start s = trim s @ q"
    using trim_end_prefix [of "trim_start s"] by (auto simp: trim_def)
  ultimately show ?thesis by metis
qed

lemma set_trim_subset: "set (trim s) \<subseteq> set s"
proof -
  obtain p q where "s = p @ trim s @ q" using trim_infix by blast
  then have "set s = set p \<union> set (trim s) \<union> set q" by (metis set_append Un_assoc)
  then show ?thesis by blast
qed

text \<open>\<open>trim_matches(c)\<close> and \<open>trim_start_matches(c)\<close> for one character.\<close>

definition trim_start_char :: "char \<Rightarrow> string \<Rightarrow> string" where
  "trim_start_char c s = dropWhile (\<lambda>x. x = c) s"

definition trim_char :: "char \<Rightarrow> string \<Rightarrow> string" where
  "trim_char c s = rev (dropWhile (\<lambda>x. x = c) (rev (trim_start_char c s)))"

section \<open>Splitting and joining\<close>

fun split_char :: "char \<Rightarrow> string \<Rightarrow> string list" where
  "split_char c [] = [[]]"
| "split_char c (x # s) =
     (if x = c then [] # split_char c s
      else case split_char c s of [] \<Rightarrow> [[x]] | y # ys \<Rightarrow> (x # y) # ys)"

fun join_str :: "string \<Rightarrow> string list \<Rightarrow> string" where
  "join_str sep [] = []"
| "join_str sep [x] = x"
| "join_str sep (x # y # ys) = x @ sep @ join_str sep (y # ys)"

lemma split_char_not_Nil [simp]: "split_char c s \<noteq> []"
  by (cases s) (auto split: list.splits)

lemma split_char_no_sep: "x \<in> set (split_char c s) \<Longrightarrow> c \<notin> set x"
proof (induction s arbitrary: x)
  case (Cons a s)
  then show ?case
    by (cases "split_char c s") (auto split: if_splits)
qed simp

lemma split_char_set: "x \<in> set (split_char c s) \<Longrightarrow> set x \<subseteq> set s"
proof (induction s arbitrary: x)
  case (Cons a s)
  then show ?case
    by (cases "split_char c s") (fastforce split: if_splits)+
qed simp

lemma split_char_append:
  assumes "c \<notin> set x"
  shows "split_char c (x @ c # s) = x # split_char c s"
  using assms by (induction x) auto

lemma split_char_id: "c \<notin> set x \<Longrightarrow> split_char c x = [x]"
  by (induction x) auto

lemma join_split: "join_str [c] (split_char c s) = s"
proof (induction s)
  case (Cons a s)
  show ?case
  proof (cases "split_char c s")
    case Nil
    then show ?thesis by simp
  next
    case (Cons y ys)
    with Cons.IH show ?thesis by (cases ys) auto
  qed
qed simp

lemma split_join:
  assumes "xs \<noteq> []" and "\<And>x. x \<in> set xs \<Longrightarrow> c \<notin> set x"
  shows "split_char c (join_str [c] xs) = xs"
  using assms
proof (induction "[c]" xs rule: join_str.induct)
  case (3 x y ys)
  then have "split_char c (x @ c # join_str [c] (y # ys)) = x # y # ys"
    by (subst split_char_append) auto
  then show ?case by simp
qed (auto simp: split_char_id)

lemma set_join_str: "set (join_str sep xs) \<subseteq> set sep \<union> (\<Union>x \<in> set xs. set x)"
  by (induction sep xs rule: join_str.induct) auto

text \<open>
  \<open>str::lines\<close>: every newline ends a line, a carriage return right before it is part of the
  line ending, and an empty last piece is not a line.
\<close>

definition strip_cr :: "string \<Rightarrow> string" where
  "strip_cr l = (if l \<noteq> [] \<and> last l = carriage_return then butlast l else l)"

definition lines :: "string \<Rightarrow> string list" where
  "lines s = (let ps = split_char newline s
              in map strip_cr (butlast ps) @ (if last ps = [] then [] else [last ps]))"

section \<open>Decimal numbers\<close>

fun nat_dec :: "nat \<Rightarrow> string" where
  "nat_dec n = (if n < 10 then [chr (48 + n)] else nat_dec (n div 10) @ [chr (48 + n mod 10)])"

declare nat_dec.simps [simp del]

definition dec :: "'a::len word \<Rightarrow> string" where
  "dec w = nat_dec (unat w)"

definition dec_value :: "string \<Rightarrow> nat" where
  "dec_value s = foldl (\<lambda>v c. 10 * v + (byte c - 48)) 0 s"

lemma dec_value_nat_dec [simp]: "dec_value (nat_dec n) = n"
proof (induction n rule: nat_dec.induct)
  case (1 n)
  show ?case
  proof (cases "n < 10")
    case True
    then show ?thesis by (subst nat_dec.simps) (simp add: dec_value_def)
  next
    case False
    with 1 have "dec_value (nat_dec (n div 10)) = n div 10" by simp
    with False show ?thesis by (subst nat_dec.simps) (simp add: dec_value_def)
  qed
qed

lemma nat_dec_inject [simp]: "nat_dec m = nat_dec n \<longleftrightarrow> m = n"
  by (metis dec_value_nat_dec)

lemma dec_inject [simp]: "dec a = dec b \<longleftrightarrow> a = b"
  by (simp add: dec_def word_unat_eq_iff)

lemma nat_dec_digits: "c \<in> set (nat_dec n) \<Longrightarrow> is_ascii_digit c"
proof (induction n rule: nat_dec.induct)
  case (1 n)
  then show ?case
    by (subst (asm) nat_dec.simps) (auto simp: is_ascii_digit_def split: if_splits)
qed

lemma dec_digits: "c \<in> set (dec w) \<Longrightarrow> is_ascii_digit c"
  by (simp add: dec_def nat_dec_digits)

lemma nat_dec_not_Nil [simp]: "nat_dec n \<noteq> []"
  by (subst nat_dec.simps) simp

text \<open>
  \<open>str::parse\<close> to an unsigned integer: an optional plus sign, then at least one digit,
  and no overflow of the width.
\<close>

definition parse_unsigned :: "string \<Rightarrow> 'a::len word option" where
  "parse_unsigned s =
     (let digits = (if starts_with ''+'' s then tl s else s)
      in if digits \<noteq> [] \<and> list_all is_ascii_digit digits \<and> dec_value digits < 2 ^ LENGTH('a)
         then Some (of_nat (dec_value digits)) else None)"

lemma parse_unsigned_dec [simp]: "parse_unsigned (dec w) = Some (w :: 'a::len word)"
proof -
  have plus: "byte (CHR ''+'') = 43" by (simp add: byte_def)
  have "\<not> starts_with ''+'' (dec w)"
  proof
    assume "starts_with ''+'' (dec w)"
    then have "CHR ''+'' \<in> set (dec w)"
      by (cases "dec w") (auto simp: starts_with_def)
    then show False using dec_digits [of "CHR ''+''" w] by (simp add: is_ascii_digit_def plus)
  qed
  moreover have "list_all is_ascii_digit (dec w)"
    by (auto simp: list_all_iff dec_digits)
  moreover have "dec_value (dec w) = unat w" and "dec w \<noteq> []" by (simp_all add: dec_def)
  ultimately show ?thesis by (simp add: parse_unsigned_def unsigned_less)
qed

text \<open>\<open>{:03}\<close> and \<open>{:02}\<close>: zero padding on the left.\<close>

definition pad_dec :: "nat \<Rightarrow> nat \<Rightarrow> string" where
  "pad_dec k n = replicate (k - length (nat_dec n)) (CHR ''0'') @ nat_dec n"

end
