(* ===== verification/Forge_Vocabulary.thy ===== *)
theory Forge_Vocabulary
  imports Forge_Text
begin

text \<open>
  The enumerations every component mentions (\<open>run.rs\<close>, \<open>candidate.rs\<close>, \<open>graph.rs\<close>), the
  domain error of \<open>error.rs\<close>, and the contract the string forms of the enumerations share:
  \<open>FromStr\<close> searches the constant \<open>ALL\<close> for the variant whose \<open>as_str\<close> is the input.
  Identifiers that are validated strings in Rust (\<open>CandidateId\<close>, \<open>ContentDigest\<close>,
  \<open>CommitHash\<close>, \<open>BranchName\<close>, \<open>CommandId\<close>) are strings here, built by the parsers of
  Forge_Identity and Forge_Commands.
\<close>

section \<open>Identifiers\<close>

type_synonym candidate_id = string
type_synonym content_digest = string
type_synonym commit_hash = string
type_synonym branch_name = string
type_synonym command_id = string
type_synonym attempt_number = u32
type_synonym candidate_ordinal = u8
type_synonym plan_hash = content_digest

datatype run_id = RunId (run_uuid: "128 word")
datatype event_id = EventId (event_uuid: "128 word")
datatype approval_id = ApprovalId (approval_uuid: "128 word")

section \<open>Enumerations\<close>

datatype run_status =
    Created
  | Validating
  | Planning
  | AwaitingPlanApproval
  | RunningCandidates
  | Joining
  | Integrating
  | AwaitingCommitApproval
  | Succeeded
  | Exhausted
  | Failed
  | Cancelled
  | RecoveryRequired

datatype candidate_status =
    Pending
  | Preparing
  | Implementing
  | Testing
  | Reviewing
  | Repairing
  | Eligible
  | Ineligible
  | Interrupted
  | Cancelled

datatype node_id =
    Prepare
  | Plan
  | Approval
  | FanOut
  | ImplementCandidate
  | TestCandidate
  | ReviewCandidate
  | RepairCandidate
  | Join
  | IntegrateWinner
  | FinalTest
  | FinalReview
  | CommitApproval
  | Commit

section \<open>The domain error\<close>

datatype domain_error =
    InvalidIdentifier string string
  | IllegalRunTransition run_status run_status
  | IllegalCandidateTransition candidate_status candidate_status
  | IllegalNodeTransition node_id node_id
  | EventSequenceGap u64 u64
  | EventChainBroken u64
  | EventPayloadHashMismatch u64
  | ApprovalHashMismatch string string
  | PathEscapesWorktree string
  | PathProtected string string
  | PathSensitive string string
  | CandidateCountOutOfRange u32
  | ValueOutOfRange string string
  | MissingField string
  | ConflictingStatePatch string
  | UnknownCandidate string
  | UnknownNode string
  | UnknownPlanVersion u32
  | InvariantViolated string

type_synonym 'a domain_result = "domain_error + 'a"

section \<open>The shared contract of the string forms\<close>

text \<open>
  \<open>parse_by all as_str err v\<close> is the body the \<open>FromStr\<close> implementations share:
  \<open>ALL.into_iter().find(|x| x.as_str() == value).ok_or_else(err)\<close>.
\<close>

definition parse_by :: "'a list \<Rightarrow> ('a \<Rightarrow> string) \<Rightarrow> (string \<Rightarrow> 'e) \<Rightarrow> string \<Rightarrow> 'e + 'a" where
  "parse_by all as_str err value = ok_or (err value) (find (\<lambda>x. as_str x = value) all)"

locale string_enum =
  fixes all :: "'a list" and as_str :: "'a \<Rightarrow> string" and err :: "string \<Rightarrow> 'e"
  assumes complete: "x \<in> set all"
    and distinct_strings: "distinct (map as_str all)"
begin

lemma parse_as_str: "parse_by all as_str err (as_str x) = Inr x"
  using find_unique [OF distinct_strings complete] by (simp add: parse_by_def)

lemma parse_iff: "parse_by all as_str err v = Inr x \<longleftrightarrow> as_str x = v"
  using parse_as_str [of x]
  by (auto simp: parse_by_def dest: find_SomeD)

lemma parse_error: "parse_by all as_str err v = Inl e \<longleftrightarrow> v \<notin> range as_str \<and> e = err v"
  by (auto simp: parse_by_def find_None_iff_set complete)

lemma as_str_inject: "as_str x = as_str y \<longleftrightarrow> x = y"
  by (metis parse_as_str sum.inject(2))

lemma listed_once: "distinct all" and all_is_universe: "set all = UNIV"
  using distinct_strings complete by (auto simp: distinct_map)

end

section \<open>The shared contract of the transition tables\<close>

text \<open>
  \<open>RunStatus::transition_to\<close> and \<open>CandidateStatus::transition_to\<close> both accept a move to the
  same status or to one the table allows and refuse every other move with their own error.
\<close>

locale transition_table =
  fixes allowed :: "'s \<Rightarrow> 's list"
    and transition :: "'s \<Rightarrow> 's \<Rightarrow> 'e + 's"
    and illegal :: "'s \<Rightarrow> 's \<Rightarrow> 'e"
  assumes transition_eq:
    "transition s t = (if s = t \<or> t \<in> set (allowed s) then Inr t else Inl (illegal s t))"
begin

lemma transition_Inr: "transition s t = Inr u \<longleftrightarrow> u = t \<and> (s = t \<or> t \<in> set (allowed s))"
  by (auto simp: transition_eq)

lemma transition_Inl: "transition s t = Inl e \<longleftrightarrow> e = illegal s t \<and> s \<noteq> t \<and> t \<notin> set (allowed s)"
  by (auto simp: transition_eq)

lemma transition_refl: "transition s s = Inr s"
  by (simp add: transition_eq)

lemma walk_closed:
  assumes closed: "\<And>s. s \<in> S \<Longrightarrow> set (allowed s) \<subseteq> S"
    and "try_fold transition s ts = Inr t" and "s \<in> S"
  shows "t \<in> S"
  using try_fold_invariant [of "\<lambda>s. s \<in> S" transition s ts t] assms
  by (auto simp: transition_Inr)

lemma walk_absorbed: "allowed s = [] \<Longrightarrow> try_fold transition s ts = Inr t \<Longrightarrow> t = s"
  using walk_closed [of "{s}" s ts t] by simp

end

end
