(* ===== verification/Forge_Paths.thy ===== *)
theory Forge_Paths
  imports Forge_Vocabulary
begin

text \<open>
  \<open>crates/domain/src/path_policy.rs\<close>: parsing a path an agent names into a path relative to
  its worktree, and the policy that keeps sensitive and protected paths out of reach. The
  glob matcher of the \<open>globset\<close> crate is a parameter, as it is in the source (the trait
  \<open>PatternMatcher\<close>).
\<close>

section \<open>Relative workspace paths\<close>

type_synonym relative_path = string

definition backslash :: char where "backslash = chr 92"
definition nul :: char where "nul = chr 0"

definition has_windows_drive_prefix :: "string \<Rightarrow> bool" where
  "has_windows_drive_prefix value \<longleftrightarrow>
     2 \<le> length value \<and> is_ascii_alphabetic (value ! 0) \<and> value ! 1 = CHR '':''"

fun collect_segments :: "string \<Rightarrow> string list \<Rightarrow> string list domain_result" where
  "collect_segments raw [] = Inr []"
| "collect_segments raw (segment # rest) =
     (if segment = '''' \<or> segment = ''.'' then collect_segments raw rest
      else if segment = ''..'' then Inl (PathEscapesWorktree raw)
      else map_ok (\<lambda>segments. segment # segments) (collect_segments raw rest))"

definition normalise_separators :: "string \<Rightarrow> string" where
  "normalise_separators s = map (\<lambda>c. if c = backslash then CHR ''/'' else c) s"

definition path_parse :: "string \<Rightarrow> relative_path domain_result" where
  "path_parse raw =
     (let trimmed = trim raw
      in if trimmed = [] then Inl (MissingField ''path'')
         else if nul \<in> set trimmed \<or> newline \<in> set trimmed \<or> carriage_return \<in> set trimmed
         then Inl (PathEscapesWorktree raw)
         else
           let normalised = normalise_separators trimmed
           in if starts_with ''/'' normalised \<or> starts_with ''~'' normalised
              then Inl (PathEscapesWorktree raw)
              else if has_windows_drive_prefix normalised then Inl (PathEscapesWorktree raw)
              else and_then (collect_segments raw (split_char (CHR ''/'') normalised)) (\<lambda>segments.
                     if segments = [] then Inl (PathEscapesWorktree raw)
                     else Inr (join_str ''/'' segments)))"

definition path_segments :: "relative_path \<Rightarrow> string list" where
  "path_segments p = split_char (CHR ''/'') p"

definition path_file_name :: "relative_path \<Rightarrow> string" where
  "path_file_name p = last (path_segments p)"

text \<open>\<open>rfind('.')\<close>, with the index 0 (a dot file) giving no extension.\<close>

definition path_extension :: "relative_path \<Rightarrow> string option" where
  "path_extension p =
     (let name = path_file_name p; pieces = split_char (CHR ''.'') name
      in if length pieces < 2 then None
         else if length name - length (last pieces) = 1 then None
         else Some (last pieces))"

definition starts_with_segment :: "relative_path \<Rightarrow> string \<Rightarrow> bool" where
  "starts_with_segment p segment \<longleftrightarrow> hd (path_segments p) = segment"

section \<open>Policy\<close>

datatype path_access = Read | Write | Delete

primrec path_access_as_str :: "path_access \<Rightarrow> string" where
  "path_access_as_str Read = ''read''"
| "path_access_as_str Write = ''write''"
| "path_access_as_str Delete = ''delete''"

record path_policy =
  pp_protected_patterns :: "string list"
  pp_sensitive_patterns :: "string list"
  pp_approved_protected_paths :: "string list"
  pp_maximum_read_bytes :: u64
  pp_maximum_write_bytes :: u64

definition default_protected_patterns :: "string list" where
  "default_protected_patterns =
     [''.git/**'', ''.git'', ''.githooks/**'', ''.github/workflows/**'', ''.heikas/**'',
      ''.gitmodules'', ''.gitattributes'', ''.cargo/**'', ''.npmrc'', ''.yarnrc'',
      ''.yarnrc.yml'', ''.pypirc'']"

definition default_sensitive_patterns :: "string list" where
  "default_sensitive_patterns =
     [''**/.env'', ''**/.env.*'', ''**/*.pem'', ''**/*.key'', ''**/*.p12'', ''**/*.pfx'',
      ''**/id_rsa'', ''**/id_ed25519'', ''**/.ssh/**'', ''**/.aws/**'', ''**/.gnupg/**'',
      ''**/.npmrc'', ''**/.netrc'', ''**/.docker/config.json'', ''**/.kube/config'',
      ''**/secrets.*'', ''**/*.keystore'']"

definition path_policy_default :: path_policy where
  "path_policy_default =
     \<lparr>pp_protected_patterns = default_protected_patterns,
      pp_sensitive_patterns = default_sensitive_patterns,
      pp_approved_protected_paths = [],
      pp_maximum_read_bytes = 1048576, pp_maximum_write_bytes = 4194304\<rparr>"

type_synonym pattern_matcher = "string \<Rightarrow> string \<Rightarrow> bool"

text \<open>
  \<open>GlobPatternMatcher\<close> over the compiler of the \<open>globset\<close> crate: a pattern that does not
  compile matches only the path it spells.
\<close>

definition glob_pattern_matcher :: "(string \<Rightarrow> (string \<Rightarrow> bool) option) \<Rightarrow> pattern_matcher" where
  "glob_pattern_matcher compile pattern path =
     (case compile pattern of Some is_match \<Rightarrow> is_match path | None \<Rightarrow> pattern = path)"

definition evaluate_path ::
    "path_policy \<Rightarrow> pattern_matcher \<Rightarrow> relative_path \<Rightarrow> path_access \<Rightarrow> unit domain_result" where
  "evaluate_path policy matcher path access =
     (case find (\<lambda>pattern. matcher pattern path) (pp_sensitive_patterns policy) of
        Some pattern \<Rightarrow> Inl (PathSensitive path pattern)
      | None \<Rightarrow>
          if access = Read then Inr ()
          else if list_ex (\<lambda>approved_path. approved_path = path) (pp_approved_protected_paths policy)
          then Inr ()
          else case find (\<lambda>pattern. matcher pattern path) (pp_protected_patterns policy) of
                 Some pattern \<Rightarrow> Inl (PathProtected path pattern)
               | None \<Rightarrow> Inr ())"

datatype worktree_role = Candidate | Integration | Source

primrec worktree_role_as_str :: "worktree_role \<Rightarrow> string" where
  "worktree_role_as_str Candidate = ''candidate''"
| "worktree_role_as_str Integration = ''integration''"
| "worktree_role_as_str Source = ''source''"

definition permits_write :: "worktree_role \<Rightarrow> bool" where
  "permits_write r \<longleftrightarrow> (case r of Candidate \<Rightarrow> True | Integration \<Rightarrow> True | Source \<Rightarrow> False)"

section \<open>Properties\<close>

definition proper_segment :: "string \<Rightarrow> bool" where
  "proper_segment s \<longleftrightarrow>
     s \<notin> {'''', ''.'', ''..''}
     \<and> set s \<inter> {CHR ''/'', backslash, nul, newline, carriage_return} = {}"

lemma collect_segments_Inr:
  "collect_segments raw xs = Inr ys \<Longrightarrow> set ys \<subseteq> set xs \<and> set ys \<inter> {'''', ''.'', ''..''} = {}"
  by (induction raw xs arbitrary: ys rule: collect_segments.induct) (fastforce split: if_splits)+

lemma collect_segments_ok_iff:
  "(\<exists>ys. collect_segments raw xs = Inr ys) \<longleftrightarrow> ''..'' \<notin> set xs"
  by (induction raw xs rule: collect_segments.induct) auto

lemma path_parse_Inr:
  assumes "path_parse raw = Inr p"
  shows "set (trim raw) \<inter> {nul, newline, carriage_return} = {}"
    and "\<exists>segments. collect_segments raw
           (split_char (CHR ''/'') (normalise_separators (trim raw))) = Inr segments
         \<and> segments \<noteq> [] \<and> p = join_str ''/'' segments"
proof -
  let ?t = "trim raw"
  let ?c = "collect_segments raw (split_char (CHR ''/'') (normalise_separators ?t))"
  note parts = assms [unfolded path_parse_def Let_def guard_Inr]
  from parts have clean: "\<not> (nul \<in> set ?t \<or> newline \<in> set ?t \<or> carriage_return \<in> set ?t)"
    by (elim conjE)
  from parts have body: "and_then ?c (\<lambda>segments. if segments = [] then Inl (PathEscapesWorktree raw)
                 else Inr (join_str ''/'' segments)) = Inr p"
    by (elim conjE)
  from clean show "set ?t \<inter> {nul, newline, carriage_return} = {}" by blast
  from body show "\<exists>segments. ?c = Inr segments \<and> segments \<noteq> [] \<and> p = join_str ''/'' segments"
    by (cases ?c) (auto split: if_splits)
qed

lemma normalise_separators_set:
  assumes "set s \<inter> {nul, newline, carriage_return} = {}"
  shows "set (normalise_separators s) \<inter> {backslash, nul, newline, carriage_return} = {}"
proof -
  have "CHR ''/'' \<notin> {backslash, nul, newline, carriage_return}"
    by (simp add: char_eq_byte byte_literals backslash_def nul_def newline_def carriage_return_def)
  with assms show ?thesis by (auto simp: normalise_separators_def)
qed

lemma path_parse_segments:
  assumes "path_parse raw = Inr p"
  shows "p \<noteq> []" and "list_all proper_segment (path_segments p)"
proof -
  let ?n = "normalise_separators (trim raw)"
  from assms obtain segs where segs: "collect_segments raw (split_char (CHR ''/'') ?n) = Inr segs"
      and ne: "segs \<noteq> []" and p: "p = join_str ''/'' segs"
    using path_parse_Inr(2) [OF assms] by blast
  note clean = path_parse_Inr(1) [OF assms]
  note sub = collect_segments_Inr [OF segs]
  have slash: "CHR ''/'' \<notin> set s" if "s \<in> set segs" for s
    by (rule split_char_no_sep [OF subsetD [OF conjunct1 [OF sub] that]])
  have split: "path_segments p = segs"
    unfolding path_segments_def p by (intro split_join ne slash)
  have within: "set s \<subseteq> set ?n" if "s \<in> set segs" for s
    by (rule split_char_set [OF subsetD [OF conjunct1 [OF sub] that]])
  have proper: "proper_segment s" if s: "s \<in> set segs" for s
  proof -
    have "set s \<inter> {backslash, nul, newline, carriage_return} = {}"
      using within [OF s] normalise_separators_set [OF clean] by blast
    then have "set s \<inter> {CHR ''/'', backslash, nul, newline, carriage_return} = {}"
      using slash [OF s] by blast
    moreover have "s \<notin> {'''', ''.'', ''..''}"
      by (rule mp [OF spec [OF iffD1 [OF disjoint_iff conjunct2 [OF sub]]] s])
    ultimately show ?thesis unfolding proper_segment_def by (intro conjI)
  qed
  then show "list_all proper_segment (path_segments p)" by (simp add: split list_all_iff)
  show "p \<noteq> []"
  proof
    assume "p = []"
    then have "path_segments p = [[]]" by (simp add: path_segments_def)
    then show False using sub by (simp add: split)
  qed
qed

text \<open>\<open>path.components()\<close> below a root: a lexical walk that never leaves it.\<close>

fun lexical_walk :: "string list \<Rightarrow> string list \<Rightarrow> string list" where
  "lexical_walk here [] = here"
| "lexical_walk here (s # ss) =
     (if s = '''' \<or> s = ''.'' then lexical_walk here ss
      else if s = ''..'' then lexical_walk (butlast here) ss
      else lexical_walk (here @ [s]) ss)"

lemma lexical_walk_proper:
  "list_all proper_segment ss \<Longrightarrow> lexical_walk here ss = here @ ss"
  by (induction here ss rule: lexical_walk.induct) (auto simp: proper_segment_def)

lemma path_parse_confined:
  "path_parse raw = Inr p \<Longrightarrow> lexical_walk root (path_segments p) = root @ path_segments p"
  by (intro lexical_walk_proper path_parse_segments)

lemma path_parse_parent_refused:
  assumes "''..'' \<in> set (split_char (CHR ''/'') (normalise_separators (trim raw)))"
  shows "\<exists>e. path_parse raw = Inl e"
proof (cases "path_parse raw")
  case (Inr p)
  then have "\<exists>ys. collect_segments raw (split_char (CHR ''/'') (normalise_separators (trim raw)))
      = Inr ys"
    using path_parse_Inr(2) by blast
  then have "''..'' \<notin> set (split_char (CHR ''/'') (normalise_separators (trim raw)))"
    using collect_segments_ok_iff by blast
  with assms show ?thesis by blast
qed blast

lemma evaluate_path_ok_iff:
  "evaluate_path policy matcher path access = Inr () \<longleftrightarrow>
     (\<forall>p \<in> set (pp_sensitive_patterns policy). \<not> matcher p path)
     \<and> (access = Read \<or> path \<in> set (pp_approved_protected_paths policy)
        \<or> (\<forall>p \<in> set (pp_protected_patterns policy). \<not> matcher p path))"
  by (auto simp: evaluate_path_def find_None_iff_set list_ex_iff split: option.split
      dest: find_SomeD)

lemma evaluate_path_error_cases:
  "evaluate_path policy matcher path access = Inl e \<Longrightarrow>
     (\<exists>p \<in> set (pp_sensitive_patterns policy). matcher p path \<and> e = PathSensitive path p)
     \<or> (access \<noteq> Read \<and> path \<notin> set (pp_approved_protected_paths policy)
        \<and> (\<exists>p \<in> set (pp_protected_patterns policy). matcher p path \<and> e = PathProtected path p))"
  by (auto simp: evaluate_path_def list_ex_iff split: option.splits if_splits dest: find_SomeD)

end
