(* ===== verification/Forge_Float.thy ===== *)
theory Forge_Float
  imports Forge_Text Complex_Main "HOL-Library.Log_Nat"
begin

text \<open>
  The part of IEEE 754 binary64 the sources use. A finite value is a sign and an exact
  non-negative rational, so the two zeros stay apart (\<open>format!\<close> prints the sign of a zero);
  every arithmetic operation is the exact rational operation followed by \<open>round64\<close>,
  rounding to the nearest representable magnitude with ties to even. Casts to integers
  truncate and saturate, as \<open>as\<close> does in Rust.
\<close>

section \<open>Rounding\<close>

text \<open>The binary exponent: the integer \<open>k\<close> with \<open>2 powi k \<le> x < 2 powi (k + 1)\<close>.\<close>

definition flog2 :: "rat \<Rightarrow> int" where
  "flog2 x = (let (n, d) = quotient_of x; k = bitlen n - bitlen d
              in if 2 powi k \<le> x then k else k - 1)"

definition round_even :: "rat \<Rightarrow> int" where
  "round_even x = (let f = \<lfloor>x\<rfloor>; r = x - of_int f
                   in if r < 1 / 2 then f else if 1 / 2 < r then f + 1
                      else if even f then f else f + 1)"

definition ulp_exponent :: "rat \<Rightarrow> int" where
  "ulp_exponent x = max (flog2 x) (- 1022) - 52"

definition round64 :: "rat \<Rightarrow> rat" where
  "round64 x = (if x \<le> 0 then 0
                else 2 powi ulp_exponent x * of_int (round_even (x / 2 powi ulp_exponent x)))"

lemma flog2_bounds:
  assumes "0 < x"
  shows "2 powi flog2 x \<le> x" and "x < 2 powi (flog2 x + 1)"
proof -
  obtain n d where q: "quotient_of x = (n, d)" by (cases "quotient_of x")
  have d: "0 < d" using quotient_of_denom_pos [OF q] .
  have x: "x = of_int n / of_int d" using quotient_of_div [OF q] .
  with assms d have n: "0 < n" by (simp add: zero_less_divide_iff)
  have pow: "(2 :: rat) powi (bitlen m - 1) \<le> of_int m \<and> of_int m < (2 :: rat) powi bitlen m"
    if "0 < m" for m
  proof -
    have b: "2 ^ nat (bitlen m - 1) \<le> m \<and> m < 2 ^ nat (bitlen m)"
      using bitlen_bounds [OF that] by simp
    have "0 \<le> bitlen m - 1" using that bitlen_ge_iff_power [of 1 m] by simp
    moreover have "(2 :: rat) ^ nat (bitlen m - 1) \<le> of_int m"
      using b by (metis of_int_le_iff of_int_numeral of_int_power)
    moreover have "of_int m < (2 :: rat) ^ nat (bitlen m)"
      using b by (metis of_int_less_iff of_int_numeral of_int_power)
    ultimately show ?thesis by (simp add: power_int_def)
  qed
  let ?k = "bitlen n - bitlen d"
  have upper: "x < 2 powi (?k + 1)"
  proof -
    have "of_int n < (2 :: rat) powi bitlen n" using pow [OF n] by simp
    also have "\<dots> = 2 powi (?k + 1) * 2 powi (bitlen d - 1)"
      by (simp flip: power_int_add)
    also have "\<dots> \<le> 2 powi (?k + 1) * of_int d"
      using pow [OF d] by (intro mult_left_mono) simp_all
    finally show ?thesis using d by (simp add: x divide_less_eq)
  qed
  have lower: "2 powi (?k - 1) \<le> x"
  proof -
    have "2 powi (?k - 1) * of_int d \<le> 2 powi (?k - 1) * (2 :: rat) powi bitlen d"
      using pow [OF d] by (intro mult_left_mono) simp_all
    also have "\<dots> = 2 powi (bitlen n - 1)" by (simp flip: power_int_add)
    also have "\<dots> \<le> of_int n" using pow [OF n] by simp
    finally show ?thesis using d by (simp add: x le_divide_eq)
  qed
  show "2 powi flog2 x \<le> x" and "x < 2 powi (flog2 x + 1)"
    using upper lower by (auto simp: flog2_def q not_le Let_def)
qed

lemma round_even_mono: "x \<le> y \<Longrightarrow> round_even x \<le> round_even y"
proof -
  assume le: "x \<le> y"
  have near: "\<lfloor>z\<rfloor> \<le> round_even z \<and> round_even z \<le> \<lfloor>z\<rfloor> + 1" for z
    by (simp add: round_even_def Let_def)
  show ?thesis
  proof (cases "\<lfloor>x\<rfloor> = \<lfloor>y\<rfloor>")
    case True
    with le show ?thesis by (simp add: round_even_def Let_def)
  next
    case False
    with le floor_mono [OF le] have "\<lfloor>x\<rfloor> + 1 \<le> \<lfloor>y\<rfloor>" by simp
    with near [of x] near [of y] show ?thesis by linarith
  qed
qed

lemma round_even_of_int [simp]: "round_even (of_int k) = k"
  by (simp add: round_even_def)

lemma flog2_mono: "0 < x \<Longrightarrow> x \<le> y \<Longrightarrow> flog2 x \<le> flog2 y"
proof (rule ccontr)
  assume x: "0 < x" and xy: "x \<le> y" and "\<not> flog2 x \<le> flog2 y"
  then have "(2 :: rat) powi (flog2 y + 1) \<le> 2 powi flog2 x"
    by (intro power_int_increasing) auto
  moreover have "y < 2 powi (flog2 y + 1)" and "2 powi flog2 x \<le> x"
    using flog2_bounds x xy by auto
  ultimately show False using xy by linarith
qed

lemma round64_nonneg [simp]: "0 \<le> round64 x"
proof (cases "x \<le> 0")
  case False
  then have "round_even 0 \<le> round_even (x / 2 powi ulp_exponent x)"
    by (intro round_even_mono) simp
  moreover have "round_even 0 = 0" using round_even_of_int [of 0] by simp
  ultimately show ?thesis using False by (simp add: round64_def)
qed (simp add: round64_def)

lemma round64_mono:
  assumes "x \<le> y"
  shows "round64 x \<le> round64 y"
proof (cases "0 < x")
  case False
  then show ?thesis by (simp add: round64_def [of x])
next
  case True
  with assms have y: "0 < y" by simp
  let ?e = "ulp_exponent x" and ?f = "ulp_exponent y"
  have ef: "?e \<le> ?f" using flog2_mono [OF True assms] by (simp add: ulp_exponent_def)
  show ?thesis
  proof (cases "?e = ?f")
    case True
    have "round_even (x / 2 powi ?f) \<le> round_even (y / 2 powi ?f)"
      using assms by (intro round_even_mono divide_right_mono) simp_all
    with True \<open>0 < x\<close> y show ?thesis by (simp add: round64_def)
  next
    case False
    with ef have lt: "?e + 1 \<le> ?f" by simp
    then have fy: "?f = flog2 y - 52" by (auto simp: ulp_exponent_def split: if_splits simp: max_def)
    have "x < 2 powi (?e + 53)"
    proof -
      have "(2 :: rat) powi (flog2 x + 1) \<le> 2 powi (?e + 53)"
        by (intro power_int_increasing) (simp_all add: ulp_exponent_def)
      with flog2_bounds(2) [OF \<open>0 < x\<close>] show ?thesis by linarith
    qed
    then have "x / 2 powi ?e \<le> of_int (2 ^ 53)"
      by (simp add: divide_le_eq power_int_add mult.commute)
    then have "round_even (x / 2 powi ?e) \<le> 2 ^ 53"
      using round_even_mono round_even_of_int by metis
    then have "rat_of_int (round_even (x / 2 powi ?e)) \<le> of_int (2 ^ 53)"
      by (simp only: of_int_le_iff)
    then have "round64 x \<le> 2 powi ?e * of_int (2 ^ 53)"
      using \<open>0 < x\<close> by (simp add: round64_def mult_left_mono)
    also have "\<dots> = 2 powi (?e + 53)" by (simp add: power_int_add)
    also have "\<dots> \<le> 2 powi (?f + 52)" using lt by (intro power_int_increasing) simp_all
    also have "\<dots> = 2 powi ?f * of_int (2 ^ 52)" by (simp add: power_int_add)
    also have "\<dots> \<le> round64 y"
    proof -
      have "2 powi (?f + 52) \<le> y" using flog2_bounds(1) [OF y] fy by simp
      then have "of_int (2 ^ 52) \<le> y / 2 powi ?f"
        by (simp add: le_divide_eq power_int_add mult.commute)
      then have "2 ^ 52 \<le> round_even (y / 2 powi ?f)"
        using round_even_mono round_even_of_int by metis
      then have "rat_of_int (2 ^ 52) \<le> of_int (round_even (y / 2 powi ?f))"
        by (simp only: of_int_le_iff)
      then show ?thesis using y by (simp add: round64_def mult_left_mono)
    qed
    finally show ?thesis .
  qed
qed

text \<open>A whole number below \<open>2 ^ 53\<close> is represented exactly.\<close>

lemma round64_of_nat: "n < 2 ^ 53 \<Longrightarrow> round64 (of_nat n) = of_nat n"
proof (cases "n = 0")
  case False
  assume small: "n < 2 ^ 53"
  let ?x = "of_nat n :: rat"
  have x: "0 < ?x" using False by simp
  have "?x < of_nat (2 ^ 53)" using small by (simp only: of_nat_less_iff)
  then have "?x < 2 powi 53" by simp
  moreover have "(2 :: rat) powi flog2 ?x \<le> ?x" using flog2_bounds(1) [OF x] .
  ultimately have "(2 :: rat) powi flog2 ?x < 2 powi 53" by linarith
  then have "flog2 ?x < 53"
    using power_int_increasing [of 53 "flog2 ?x" "2 :: rat"] by (meson leI not_le one_le_numeral)
  then have e: "ulp_exponent ?x \<le> 0" by (simp add: ulp_exponent_def)
  let ?k = "nat (- ulp_exponent ?x)"
  have p: "(2 :: rat) powi ulp_exponent ?x = inverse (2 ^ ?k)"
    using e by (simp add: power_int_def power_inverse [symmetric] inverse_eq_divide power_divide)
  have "?x / 2 powi ulp_exponent ?x = of_int (int n * 2 ^ ?k)"
    by (simp add: p divide_inverse)
  then have "round_even (?x / 2 powi ulp_exponent ?x) = int n * 2 ^ ?k"
    by (metis round_even_of_int)
  then show ?thesis using x by (simp add: round64_def p)
qed (simp add: round64_def)

section \<open>Values and operations\<close>

datatype f64 = Finite bool rat | Infinite bool | NaN

definition mk_f64 :: "bool \<Rightarrow> rat \<Rightarrow> f64" where
  "mk_f64 neg m = (let r = round64 m in if 2 ^ 1024 \<le> r then Infinite neg else Finite neg r)"

fun f64_rat :: "f64 \<Rightarrow> rat option" where
  "f64_rat (Finite neg m) = Some (if neg then - m else m)"
| "f64_rat (Infinite neg) = None"
| "f64_rat NaN = None"

definition f64_of_rat :: "rat \<Rightarrow> f64" where
  "f64_of_rat v = mk_f64 (v < 0) \<bar>v\<bar>"

definition f64_of_nat :: "nat \<Rightarrow> f64" where
  "f64_of_nat n = mk_f64 False (of_nat n)"

definition f64_of_int :: "int \<Rightarrow> f64" where
  "f64_of_int k = mk_f64 (k < 0) (of_int \<bar>k\<bar>)"

fun f64_neg :: "f64 \<Rightarrow> f64" where
  "f64_neg (Finite s m) = Finite (\<not> s) m"
| "f64_neg (Infinite s) = Infinite (\<not> s)"
| "f64_neg NaN = NaN"

fun f64_mul :: "f64 \<Rightarrow> f64 \<Rightarrow> f64" where
  "f64_mul (Finite s a) (Finite t b) = mk_f64 (s \<noteq> t) (a * b)"
| "f64_mul (Finite s a) (Infinite t) = (if a = 0 then NaN else Infinite (s \<noteq> t))"
| "f64_mul (Infinite s) (Finite t b) = (if b = 0 then NaN else Infinite (s \<noteq> t))"
| "f64_mul (Infinite s) (Infinite t) = Infinite (s \<noteq> t)"
| "f64_mul NaN y = NaN"
| "f64_mul x NaN = NaN"

fun f64_div :: "f64 \<Rightarrow> f64 \<Rightarrow> f64" where
  "f64_div (Finite s a) (Finite t b) =
     (if b = 0 then (if a = 0 then NaN else Infinite (s \<noteq> t)) else mk_f64 (s \<noteq> t) (a / b))"
| "f64_div (Finite s a) (Infinite t) = Finite (s \<noteq> t) 0"
| "f64_div (Infinite s) (Finite t b) = Infinite (s \<noteq> t)"
| "f64_div (Infinite s) (Infinite t) = NaN"
| "f64_div NaN y = NaN"
| "f64_div x NaN = NaN"

definition signed_rat :: "bool \<Rightarrow> rat \<Rightarrow> rat" where
  "signed_rat neg m = (if neg then - m else m)"

fun f64_add :: "f64 \<Rightarrow> f64 \<Rightarrow> f64" where
  "f64_add (Finite s a) (Finite t b) =
     (let v = signed_rat s a + signed_rat t b
      in if v = 0 then Finite (s \<and> t) 0 else mk_f64 (v < 0) \<bar>v\<bar>)"
| "f64_add (Finite s a) (Infinite t) = Infinite t"
| "f64_add (Infinite s) (Finite t b) = Infinite s"
| "f64_add (Infinite s) (Infinite t) = (if s = t then Infinite s else NaN)"
| "f64_add NaN y = NaN"
| "f64_add x NaN = NaN"

fun f64_less :: "f64 \<Rightarrow> f64 \<Rightarrow> bool" where
  "f64_less (Finite s a) (Finite t b) \<longleftrightarrow> signed_rat s a < signed_rat t b"
| "f64_less (Finite s a) (Infinite t) \<longleftrightarrow> \<not> t"
| "f64_less (Infinite s) (Finite t b) \<longleftrightarrow> s"
| "f64_less (Infinite s) (Infinite t) \<longleftrightarrow> s \<and> \<not> t"
| "f64_less NaN y \<longleftrightarrow> False"
| "f64_less x NaN \<longleftrightarrow> False"

text \<open>\<open>f64::clamp\<close>: a value that is not a number passes through.\<close>

definition f64_clamp :: "f64 \<Rightarrow> f64 \<Rightarrow> f64 \<Rightarrow> f64" where
  "f64_clamp x lo hi =
     (let y = (if f64_less x lo then lo else x) in if f64_less hi y then hi else y)"

text \<open>\<open>f64::round\<close>: halves away from zero.\<close>

fun f64_round :: "f64 \<Rightarrow> f64" where
  "f64_round (Finite s m) = Finite s (of_int \<lfloor>m + 1 / 2\<rfloor>)"
| "f64_round (Infinite s) = Infinite s"
| "f64_round NaN = NaN"

text \<open>\<open>as i64\<close> and \<open>as u64\<close>.\<close>

fun f64_as_i64 :: "f64 \<Rightarrow> int" where
  "f64_as_i64 (Finite s m) =
     max (- (2 ^ 63)) (min (2 ^ 63 - 1) (if s then - \<lfloor>m\<rfloor> else \<lfloor>m\<rfloor>))"
| "f64_as_i64 (Infinite s) = (if s then - (2 ^ 63) else 2 ^ 63 - 1)"
| "f64_as_i64 NaN = 0"

fun f64_as_u64 :: "f64 \<Rightarrow> u64" where
  "f64_as_u64 (Finite s m) = (if s then 0 else saturate (nat \<lfloor>m\<rfloor>))"
| "f64_as_u64 (Infinite s) = (if s then 0 else - 1)"
| "f64_as_u64 NaN = 0"

definition f64_epsilon :: f64 where
  "f64_epsilon = Finite False (1 / 2 ^ 52)"

text \<open>
  \<open>{:.2}\<close>: the sign, the whole part and two digits, rounded to nearest from the exact value
  with ties to even.
\<close>

fun f64_fixed2 :: "f64 \<Rightarrow> string" where
  "f64_fixed2 (Finite s m) =
     (let h = nat (round_even (m * 100))
      in (if s then ''-'' else []) @ nat_dec (h div 100) @ ''.'' @ pad_dec 2 (h mod 100))"
| "f64_fixed2 (Infinite s) = (if s then ''-inf'' else ''inf'')"
| "f64_fixed2 NaN = ''NaN''"

end
