(* ===== verification/Forge_Clock.thy ===== *)
theory Forge_Clock
  imports Forge_Text Forge_Float Forge_Vocabulary
begin

text \<open>
  \<open>crates/domain/src/clock.rs\<close>: instants, durations in milliseconds and bounded timeouts. An
  instant is its \<open>unix_nanos\<close>; reading and printing calendar dates belongs to the \<open>time\<close>
  crate and is the parameter \<open>rfc3339\<close> of the record \<open>externals\<close>, which collects the
  functions of third-party crates (BLAKE3, UUID printing and parsing, date printing) the
  domain layer calls.
\<close>

record externals =
  blake3_hex :: "string \<Rightarrow> string"
  uuid_simple :: "128 word \<Rightarrow> string"
  uuid_hyphenated :: "128 word \<Rightarrow> string"
  rfc3339 :: "int \<Rightarrow> string"

type_synonym timestamp = int
type_synonym duration_ms = u64

definition sat_i128 :: "int \<Rightarrow> int" where
  "sat_i128 x = max (- (2 ^ 127)) (min (2 ^ 127 - 1) x)"

definition duration_since :: "timestamp \<Rightarrow> timestamp \<Rightarrow> duration_ms" where
  "duration_since self earlier =
     (let delta = sat_i128 (self - earlier) in word_of_int (max delta 0 div 1000000))"

definition duration_from_seconds :: "u64 \<Rightarrow> duration_ms" where
  "duration_from_seconds value = sat_mul value 1000"

definition duration_human :: "duration_ms \<Rightarrow> string" where
  "duration_human d =
     (let total_seconds = unat d div 1000; millis = unat d mod 1000;
          hours = total_seconds div 3600; minutes = (total_seconds mod 3600) div 60;
          seconds = total_seconds mod 60
      in if 0 < hours then
           nat_dec hours @ ''h '' @ nat_dec minutes @ ''m '' @ nat_dec seconds @ ''s''
         else if 0 < minutes then nat_dec minutes @ ''m '' @ nat_dec seconds @ ''s''
         else if 0 < seconds then nat_dec seconds @ ''.'' @ pad_dec 3 millis @ ''s''
         else dec d @ ''ms'')"

text \<open>\<open>TimeoutSeconds\<close> is its number of seconds.\<close>

type_synonym timeout_seconds = u32

definition timeout_clamped :: "u32 \<Rightarrow> u32 \<Rightarrow> timeout_seconds" where
  "timeout_clamped value upper_bound = max 1 (min (max upper_bound 1) value)"

definition timeout_new :: "u32 \<Rightarrow> u32 \<Rightarrow> timeout_seconds domain_result" where
  "timeout_new value upper_bound =
     (if value = 0 \<or> upper_bound < value
      then Inl (ValueOutOfRange ''TimeoutSeconds'' (dec value)) else Inr value)"

lemma duration_since_earlier: "self \<le> earlier \<Longrightarrow> duration_since self earlier = 0"
  by (simp add: duration_since_def sat_i128_def Let_def max_def min_def)

text \<open>Within the range of dates the elapsed time is exact to the millisecond.\<close>

lemma unat_duration_since:
  assumes "earlier \<le> self" and "self - earlier < 2 ^ 80"
  shows "unat (duration_since self earlier) = nat ((self - earlier) div 1000000)"
proof -
  have "sat_i128 (self - earlier) = self - earlier"
    using assms by (simp add: sat_i128_def max_def min_def)
  moreover have "(self - earlier) div 1000000 < 2 ^ 64"
    using zdiv_mono1 [of "self - earlier" "2 ^ 80" 1000000] assms by simp
  moreover have "0 \<le> (self - earlier) div 1000000"
    using assms by (simp add: pos_imp_zdiv_nonneg_iff)
  ultimately show ?thesis using assms
    by (simp add: duration_since_def unat_eq_nat_uint uint_word_of_int_eq take_bit_int_eq_self
        max_def)
qed

lemma timeout_new_within:
  "timeout_new v b = Inr t \<Longrightarrow> 0 < t \<and> t \<le> b \<and> timeout_clamped v b = t"
  by (auto simp: timeout_new_def timeout_clamped_def min_def max_def word_le_nat_alt
      word_less_nat_alt word_unat_eq_iff split: if_splits)

end
