(* ===== verification/Forge_Graph.thy ===== *)
theory Forge_Graph
  imports Forge_Vocabulary
begin

text \<open>
  \<open>crates/domain/src/graph.rs\<close>: the fixed node graph a run executes. \<open>allowed_successors\<close> is
  the relation node results are validated against; \<open>graph_edges\<close> is the same relation as the
  labelled list the interface draws.
\<close>

datatype node_scope = RunScope | CandidateScope

datatype node_class =
    Preparation
  | Agent
  | Command
  | Review
  | Decision
  | Git

definition node_all :: "node_id list" where
  "node_all =
     [Prepare, Plan, Approval, FanOut, ImplementCandidate, TestCandidate, ReviewCandidate,
      RepairCandidate, Join, IntegrateWinner, FinalTest, FinalReview, CommitApproval, Commit]"

primrec node_as_str :: "node_id \<Rightarrow> string" where
  "node_as_str Prepare = ''prepare''"
| "node_as_str Plan = ''plan''"
| "node_as_str Approval = ''approval''"
| "node_as_str FanOut = ''fan_out''"
| "node_as_str ImplementCandidate = ''implement_candidate''"
| "node_as_str TestCandidate = ''test_candidate''"
| "node_as_str ReviewCandidate = ''review_candidate''"
| "node_as_str RepairCandidate = ''repair_candidate''"
| "node_as_str Join = ''join''"
| "node_as_str IntegrateWinner = ''integrate_winner''"
| "node_as_str FinalTest = ''final_test''"
| "node_as_str FinalReview = ''final_review''"
| "node_as_str CommitApproval = ''commit_approval''"
| "node_as_str Commit = ''commit''"

primrec node_label :: "node_id \<Rightarrow> string" where
  "node_label Prepare = ''Prepare''"
| "node_label Plan = ''Plan''"
| "node_label Approval = ''Plan approval''"
| "node_label FanOut = ''Fan out''"
| "node_label ImplementCandidate = ''Implement''"
| "node_label TestCandidate = ''Test''"
| "node_label ReviewCandidate = ''Review''"
| "node_label RepairCandidate = ''Repair''"
| "node_label Join = ''Join''"
| "node_label IntegrateWinner = ''Integrate winner''"
| "node_label FinalTest = ''Final test''"
| "node_label FinalReview = ''Final review''"
| "node_label CommitApproval = ''Commit approval''"
| "node_label Commit = ''Commit''"

definition node_scope_of :: "node_id \<Rightarrow> node_scope" where
  "node_scope_of n =
     (case n of ImplementCandidate \<Rightarrow> CandidateScope | TestCandidate \<Rightarrow> CandidateScope
      | ReviewCandidate \<Rightarrow> CandidateScope | RepairCandidate \<Rightarrow> CandidateScope
      | _ \<Rightarrow> RunScope)"

definition node_is_read_only :: "node_id \<Rightarrow> bool" where
  "node_is_read_only n \<longleftrightarrow>
     (case n of Prepare \<Rightarrow> True | Plan \<Rightarrow> True | Approval \<Rightarrow> True | Join \<Rightarrow> True
      | CommitApproval \<Rightarrow> True | _ \<Rightarrow> False)"

primrec node_allowed_successors :: "node_id \<Rightarrow> node_id list" where
  "node_allowed_successors Prepare = [Plan]"
| "node_allowed_successors Plan = [Approval]"
| "node_allowed_successors Approval = [FanOut, Plan]"
| "node_allowed_successors FanOut = [ImplementCandidate]"
| "node_allowed_successors ImplementCandidate = [TestCandidate]"
| "node_allowed_successors TestCandidate = [ReviewCandidate, RepairCandidate, Join]"
| "node_allowed_successors ReviewCandidate = [RepairCandidate, Join]"
| "node_allowed_successors RepairCandidate = [TestCandidate, Join]"
| "node_allowed_successors Join = [IntegrateWinner]"
| "node_allowed_successors IntegrateWinner = [FinalTest, IntegrateWinner]"
| "node_allowed_successors FinalTest = [FinalReview, IntegrateWinner]"
| "node_allowed_successors FinalReview = [CommitApproval, IntegrateWinner]"
| "node_allowed_successors CommitApproval = [Commit]"
| "node_allowed_successors Commit = []"

definition node_accepts_successor :: "node_id \<Rightarrow> node_id \<Rightarrow> bool" where
  "node_accepts_successor self next \<longleftrightarrow> next \<in> set (node_allowed_successors self)"

definition node_validate_transition :: "node_id \<Rightarrow> node_id \<Rightarrow> unit domain_result" where
  "node_validate_transition self next =
     (if node_accepts_successor self next then Inr ()
      else Inl (IllegalNodeTransition self next))"

definition node_from_str :: "string \<Rightarrow> node_id domain_result" where
  "node_from_str = parse_by node_all node_as_str UnknownNode"

definition node_class_of :: "node_id \<Rightarrow> node_class" where
  "node_class_of n =
     (case n of Prepare \<Rightarrow> Preparation
      | Plan \<Rightarrow> Agent | ImplementCandidate \<Rightarrow> Agent | RepairCandidate \<Rightarrow> Agent
      | TestCandidate \<Rightarrow> Command | FinalTest \<Rightarrow> Command
      | ReviewCandidate \<Rightarrow> Review | FinalReview \<Rightarrow> Review
      | Approval \<Rightarrow> Decision | FanOut \<Rightarrow> Decision | Join \<Rightarrow> Decision | CommitApproval \<Rightarrow> Decision
      | IntegrateWinner \<Rightarrow> Git | Commit \<Rightarrow> Git)"

record graph_edge =
  edge_from :: node_id
  edge_to :: node_id
  edge_label :: string

definition mk_edge :: "node_id \<Rightarrow> node_id \<Rightarrow> string \<Rightarrow> graph_edge" where
  "mk_edge a b l = \<lparr>edge_from = a, edge_to = b, edge_label = l\<rparr>"

definition graph_edges :: "graph_edge list" where
  "graph_edges =
     [mk_edge Prepare Plan ''prepared'',
      mk_edge Plan Approval ''plan written'',
      mk_edge Approval FanOut ''approve'',
      mk_edge Approval Plan ''revise'',
      mk_edge FanOut ImplementCandidate ''candidate'',
      mk_edge ImplementCandidate TestCandidate ''implemented'',
      mk_edge TestCandidate ReviewCandidate ''tests passed'',
      mk_edge TestCandidate RepairCandidate ''tests failed'',
      mk_edge TestCandidate Join ''budget exhausted'',
      mk_edge ReviewCandidate Join ''eligible'',
      mk_edge ReviewCandidate RepairCandidate ''review failed'',
      mk_edge RepairCandidate TestCandidate ''repaired'',
      mk_edge RepairCandidate Join ''budget exhausted'',
      mk_edge Join IntegrateWinner ''winner'',
      mk_edge IntegrateWinner FinalTest ''applied'',
      mk_edge IntegrateWinner IntegrateWinner ''promote next'',
      mk_edge FinalTest FinalReview ''passed'',
      mk_edge FinalTest IntegrateWinner ''promote next'',
      mk_edge FinalReview CommitApproval ''passed'',
      mk_edge FinalReview IntegrateWinner ''promote next'',
      mk_edge CommitApproval Commit ''approved'']"

section \<open>Properties\<close>

interpretation node_strings: string_enum node_all node_as_str UnknownNode
proof unfold_locales
  fix x :: node_id show "x \<in> set node_all" by (cases x) (simp_all add: node_all_def)
qed (simp add: node_all_def)

lemma node_scope_candidate_iff:
  "node_scope_of n = CandidateScope \<longleftrightarrow>
     n \<in> {ImplementCandidate, TestCandidate, ReviewCandidate, RepairCandidate}"
  by (cases n) (simp_all add: node_scope_of_def)

lemma node_self_loop_iff: "node_accepts_successor n n \<longleftrightarrow> n = IntegrateWinner"
  by (cases n) (simp_all add: node_accepts_successor_def)

text \<open>The drawn edges are exactly the permitted transitions, each drawn once.\<close>

lemma graph_edges_exact:
  "distinct (map (\<lambda>e. (edge_from e, edge_to e)) graph_edges)"
  "set (map (\<lambda>e. (edge_from e, edge_to e)) graph_edges) = {(a, b). node_accepts_successor a b}"
proof -
  show "distinct (map (\<lambda>e. (edge_from e, edge_to e)) graph_edges)"
    by (simp add: graph_edges_def mk_edge_def)
  have "(a, b) \<in> set (map (\<lambda>e. (edge_from e, edge_to e)) graph_edges)
      \<longleftrightarrow> node_accepts_successor a b" for a b
    by (cases a; cases b; simp add: graph_edges_def mk_edge_def node_accepts_successor_def)
  then show "set (map (\<lambda>e. (edge_from e, edge_to e)) graph_edges)
      = {(a, b). node_accepts_successor a b}" by auto
qed

text \<open>
  Every path of the graph to the commit node has passed the plan approval, the join, both
  final gates and the commit approval: \<open>path_to\<close> is a walk along permitted successors.
\<close>

fun node_walk :: "node_id \<Rightarrow> node_id list \<Rightarrow> bool" where
  "node_walk a [] \<longleftrightarrow> True"
| "node_walk a (b # bs) \<longleftrightarrow> node_accepts_successor a b \<and> node_walk b bs"

lemma node_walk_avoiding:
  assumes closed: "\<And>a b. a \<in> S \<Longrightarrow> node_accepts_successor a b \<Longrightarrow> b \<noteq> gate \<Longrightarrow> b \<in> S"
    and "a \<in> S" and "node_walk a bs" and "gate \<notin> set bs"
  shows "last (a # bs) \<in> S"
  using assms(2-)
proof (induction bs arbitrary: a)
  case (Cons b bs)
  then have "b \<in> S" using closed by auto
  with Cons show ?case by auto
qed simp

lemma node_walk_gates:
  assumes "node_walk Prepare bs" and "last (Prepare # bs) = Commit"
    and "gate \<in> {Approval, Join, FinalTest, FinalReview, CommitApproval}"
  shows "gate \<in> set bs"
proof (rule ccontr)
  assume miss: "gate \<notin> set bs"
  have walk: "last (Prepare # bs) \<in> S"
    if "Prepare \<in> S" "\<And>a b. a \<in> S \<Longrightarrow> node_accepts_successor a b \<Longrightarrow> b \<noteq> gate \<Longrightarrow> b \<in> S" for S
    using node_walk_avoiding [of S gate Prepare bs] that assms(1) miss by blast
  let ?candidates = "{Prepare, Plan, Approval, FanOut, ImplementCandidate, TestCandidate,
    ReviewCandidate, RepairCandidate}"
  from assms(3) consider "gate = Approval" | "gate = Join" | "gate = FinalTest"
    | "gate = FinalReview" | "gate = CommitApproval" by blast
  then have "last (Prepare # bs) \<noteq> Commit"
  proof cases
    case 1
    then show ?thesis using walk [of "{Prepare, Plan}"]
      by (fastforce simp: node_accepts_successor_def)
  next
    case 2
    then show ?thesis using walk [of ?candidates] by (fastforce simp: node_accepts_successor_def)
  next
    case 3
    then show ?thesis using walk [of "?candidates \<union> {Join, IntegrateWinner}"]
      by (fastforce simp: node_accepts_successor_def)
  next
    case 4
    then show ?thesis using walk [of "?candidates \<union> {Join, IntegrateWinner, FinalTest}"]
      by (fastforce simp: node_accepts_successor_def)
  next
    case 5
    then show ?thesis using walk [of "?candidates \<union> {Join, IntegrateWinner, FinalTest, FinalReview}"]
      by (fastforce simp: node_accepts_successor_def)
  qed
  with assms(2) show False by simp
qed

end
