(* ===== verification/Forge_Identity.thy ===== *)
theory Forge_Identity
  imports Forge_Clock Forge_Graph
begin

text \<open>
  \<open>crates/domain/src/identity.rs\<close>: the identifiers of runs, events, candidates, attempts,
  content, commits and branches. Each parser returns the validated string or the
  \<open>InvalidIdentifier\<close> error of its kind. Printing a UUID and hashing bytes are functions of
  \<open>externals\<close>.
\<close>

definition run_short :: "externals \<Rightarrow> run_id \<Rightarrow> string" where
  "run_short X r = take 12 (uuid_simple X (run_uuid r))"

definition run_display :: "externals \<Rightarrow> run_id \<Rightarrow> string" where
  "run_display X r = uuid_hyphenated X (run_uuid r)"

definition event_display :: "externals \<Rightarrow> event_id \<Rightarrow> string" where
  "event_display X e = uuid_hyphenated X (event_uuid e)"

section \<open>Candidates\<close>

definition ordinal_max :: u8 where "ordinal_max = 8"

definition ordinal_new :: "u8 \<Rightarrow> candidate_ordinal domain_result" where
  "ordinal_new value =
     (if value = 0 \<or> ordinal_max < value
      then Inl (InvalidIdentifier ''CandidateOrdinal'' (dec value)) else Inr value)"

definition candidate_id_derive :: "externals \<Rightarrow> run_id \<Rightarrow> candidate_ordinal \<Rightarrow> candidate_id" where
  "candidate_id_derive X run ordinal =
     ''c'' @ pad_dec 2 (unat ordinal) @ ''-'' @ take 8 (run_short X run)"

text \<open>\<open>str::get(..n)\<close>: nothing when \<open>n\<close> is out of range or inside a character.\<close>

definition get_prefix :: "nat \<Rightarrow> string \<Rightarrow> string option" where
  "get_prefix n s =
     (if n \<le> length s \<and> (n = length s \<or> \<not> is_continuation (s ! n)) then Some (take n s) else None)"

definition candidate_id_ordinal :: "candidate_id \<Rightarrow> candidate_ordinal option" where
  "candidate_id_ordinal self =
     Option.bind (strip_prefix ''c'' self) (\<lambda>rest.
     Option.bind (get_prefix 2 rest) (\<lambda>digits.
     Option.bind (parse_unsigned digits) (\<lambda>parsed.
       case ordinal_new parsed of Inl _ \<Rightarrow> None | Inr ordinal \<Rightarrow> Some ordinal)))"

definition candidate_id_from_str :: "string \<Rightarrow> candidate_id domain_result" where
  "candidate_id_from_str value =
     (if 4 \<le> length value \<and> length value \<le> 32 \<and> starts_with ''c'' value
         \<and> list_all (\<lambda>c. is_ascii_alphanumeric c \<or> c = CHR ''-'') value
      then Inr value else Inl (InvalidIdentifier ''CandidateId'' value))"

section \<open>Attempts\<close>

definition attempt_first :: attempt_number where "attempt_first = 1"

definition attempt_new :: "u32 \<Rightarrow> attempt_number domain_result" where
  "attempt_new value =
     (if value = 0 then Inl (InvalidIdentifier ''AttemptNumber'' (dec value)) else Inr value)"

definition attempt_next :: "attempt_number \<Rightarrow> attempt_number" where
  "attempt_next self = sat_add self 1"

record attempt_id =
  ai_node :: node_id
  ai_candidate :: "candidate_id option"
  ai_attempt :: attempt_number

definition attempt_id_display :: "attempt_id \<Rightarrow> string" where
  "attempt_id_display a =
     (case ai_candidate a of
        Some candidate \<Rightarrow>
          candidate @ ''/'' @ node_as_str (ai_node a) @ ''/'' @ dec (ai_attempt a)
      | None \<Rightarrow> node_as_str (ai_node a) @ ''/'' @ dec (ai_attempt a))"

section \<open>Digests, commits, branches\<close>

definition digest_of_bytes :: "externals \<Rightarrow> string \<Rightarrow> content_digest" where
  "digest_of_bytes X bytes = blake3_hex X bytes"

definition digest_of_str :: "externals \<Rightarrow> string \<Rightarrow> content_digest" where
  "digest_of_str X value = digest_of_bytes X value"

definition digest_short :: "content_digest \<Rightarrow> string" where
  "digest_short d = take 16 d"

definition digest_from_str :: "string \<Rightarrow> content_digest domain_result" where
  "digest_from_str value =
     (if length value = 64 \<and> list_all is_ascii_hexdigit value
      then Inr (to_ascii_lowercase value)
      else Inl (InvalidIdentifier ''ContentDigest'' value))"

definition commit_short :: "commit_hash \<Rightarrow> string" where
  "commit_short h = take (min (length h) 12) h"

definition commit_hash_from_str :: "string \<Rightarrow> commit_hash domain_result" where
  "commit_hash_from_str value =
     (if 7 \<le> length value \<and> length value \<le> 64 \<and> list_all is_ascii_hexdigit value
      then Inr (to_ascii_lowercase value)
      else Inl (InvalidIdentifier ''CommitHash'' value))"

text \<open>\<open>char::is_control\<close> on UTF-8 bytes: U+0000 to U+001F, U+007F and U+0080 to U+009F.\<close>

fun has_control :: "string \<Rightarrow> bool" where
  "has_control [] \<longleftrightarrow> False"
| "has_control (c # s) \<longleftrightarrow>
     byte c < 32 \<or> byte c = 127
     \<or> (byte c = 194 \<and> s \<noteq> [] \<and> 128 \<le> byte (hd s) \<and> byte (hd s) < 160)
     \<or> has_control s"

definition branch_name_from_str :: "string \<Rightarrow> branch_name domain_result" where
  "branch_name_from_str value =
     (let forbidden_sequences = [''..'', [CHR ''@'', CHR ''{''], ''//'', [chr 92]];
          has_forbidden_sequence = list_ex (\<lambda>sequence. contains_str sequence value) forbidden_sequences;
          has_forbidden_character =
            has_control value \<or> list_ex (\<lambda>c. c \<in> set '' ~^:?*['') value
      in if value \<noteq> [] \<and> length value \<le> 200 \<and> \<not> starts_with ''-'' value
            \<and> \<not> starts_with ''/'' value \<and> \<not> ends_with ''/'' value
            \<and> \<not> ends_with ''.lock'' value
            \<and> \<not> has_forbidden_sequence \<and> \<not> has_forbidden_character
         then Inr value else Inl (InvalidIdentifier ''BranchName'' value))"

section \<open>Properties\<close>

text \<open>
  \<open>uuid_simple_ok\<close> is the documented behaviour of \<open>Uuid::simple\<close>: thirty-two lowercase
  hexadecimal digits.
\<close>

definition uuid_simple_ok :: "externals \<Rightarrow> bool" where
  "uuid_simple_ok X \<longleftrightarrow>
     (\<forall>u. length (uuid_simple X u) = 32
          \<and> list_all (\<lambda>c. is_ascii_digit c \<or> is_ascii_lowercase c) (uuid_simple X u))"

lemma list_all_take: "list_all p xs \<Longrightarrow> list_all p (take n xs)"
  by (auto simp: list_all_iff dest: in_set_takeD)

lemma ordinal_cases:
  assumes "ordinal_new v = Inr o'"
  shows "o' = v" and "unat v \<in> {1, 2, 3, 4, 5, 6, 7, 8}"
proof -
  from assms have v: "v \<noteq> 0" "v \<le> 8" and "o' = v"
    by (auto simp: ordinal_new_def ordinal_max_def split: if_splits)
  then have "0 < unat v" and "unat v \<le> 8"
    by (simp_all add: word_neq_0_conv word_less_nat_alt word_le_nat_alt)
  then show "unat v \<in> {1, 2, 3, 4, 5, 6, 7, 8}" by auto
  show "o' = v" by fact
qed

lemma pad_dec_small: "n < 10 \<Longrightarrow> pad_dec 2 n = [CHR ''0'', chr (48 + n)]"
proof -
  assume n: "n < 10"
  then have "nat_dec n = [chr (48 + n)]" by (subst nat_dec.simps) simp
  then show ?thesis by (simp add: pad_dec_def)
qed

lemma candidate_id_derive_small:
  assumes "ordinal_new v = Inr v"
  shows "candidate_id_derive X run v
    = CHR ''c'' # CHR ''0'' # chr (48 + unat v) # CHR ''-'' # take 8 (run_short X run)"
proof -
  have "unat v < 10" using ordinal_cases(2) [OF assms] by auto
  then show ?thesis by (simp add: candidate_id_derive_def pad_dec_small)
qed

text \<open>The identifier derived for an ordinal is well formed and gives the ordinal back.\<close>

lemma candidate_id_derive_ordinal:
  assumes "ordinal_new v = Inr v"
  shows "candidate_id_ordinal (candidate_id_derive X run v) = Some v"
proof -
  let ?digits = "[CHR ''0'', chr (48 + unat v)]"
  have le: "unat v \<le> 8" using ordinal_cases(2) [OF assms] by auto
  then have lt: "48 + unat v < 256" by simp
  have zero: "byte (CHR ''0'') = 48" and plus: "CHR ''0'' \<noteq> CHR ''+''" by (simp_all add: byte_def)
  have "\<not> is_continuation (CHR ''-'')" by (simp add: is_continuation_def byte_def)
  then have "get_prefix 2 (?digits @ CHR ''-'' # take 8 (run_short X run)) = Some ?digits"
    by (simp add: get_prefix_def)
  moreover have "parse_unsigned ?digits = Some v"
  proof -
    have "byte (chr (48 + unat v)) = 48 + unat v" using lt by (rule byte_chr)
    then have "dec_value ?digits = unat v" and "list_all is_ascii_digit ?digits"
      using le by (simp_all add: dec_value_def zero is_ascii_digit_def)
    moreover have "unat v < 2 ^ LENGTH(8)" by (rule unsigned_less)
    moreover have "\<not> starts_with ''+'' ?digits" using plus by (simp add: starts_with_def)
    ultimately show ?thesis unfolding parse_unsigned_def Let_def by (simp only: if_True if_False) simp
  qed
  ultimately show ?thesis
    by (simp add: candidate_id_ordinal_def candidate_id_derive_small [OF assms] strip_prefix_def
        starts_with_def assms)
qed

lemma candidate_id_derive_valid:
  assumes "ordinal_new v = Inr v" and "uuid_simple_ok X"
  shows "candidate_id_from_str (candidate_id_derive X run v)
    = Inr (candidate_id_derive X run v)"
proof -
  have lt: "48 + unat v < 256" and digit: "is_ascii_digit (chr (48 + unat v))"
    using ordinal_cases(2) [OF assms(1)] by (auto simp: is_ascii_digit_def)
  have len: "length (take 8 (run_short X run)) = 8"
    using assms(2) by (simp add: run_short_def uuid_simple_ok_def)
  have "list_all (\<lambda>c. is_ascii_digit c \<or> is_ascii_lowercase c) (take 8 (run_short X run))"
    using assms(2) unfolding run_short_def uuid_simple_ok_def by (intro list_all_take) blast
  then have "list_all is_ascii_alphanumeric (take 8 (run_short X run))"
    by (auto simp: list_all_iff is_ascii_alphanumeric_def is_ascii_alphabetic_def)
  moreover have "is_ascii_alphanumeric (CHR ''c'')" and "is_ascii_alphanumeric (CHR ''0'')"
    by (simp_all add: is_ascii_alphanumeric_def is_ascii_alphabetic_def is_ascii_lowercase_def
        is_ascii_digit_def byte_def)
  ultimately show ?thesis using len digit
    by (auto simp: candidate_id_from_str_def candidate_id_derive_small [OF assms(1)]
        starts_with_def is_ascii_alphanumeric_def list_all_iff)
qed

lemma candidate_id_derive_inject:
  assumes "ordinal_new v = Inr v" and "ordinal_new w = Inr w"
    and "candidate_id_derive X run v = candidate_id_derive X run w"
  shows "v = w"
proof -
  have "Some v = candidate_id_ordinal (candidate_id_derive X run v)"
    by (rule candidate_id_derive_ordinal [OF assms(1), symmetric])
  also have "\<dots> = candidate_id_ordinal (candidate_id_derive X run w)"
    by (simp only: assms(3))
  also have "\<dots> = Some w" by (rule candidate_id_derive_ordinal [OF assms(2)])
  finally show ?thesis by (simp only: option.inject)
qed

lemma attempt_next_positive: "0 < unat (attempt_next a)"
  by (simp add: attempt_next_def unat_sat_add)

lemma unat_attempt_next: "unat (attempt_next a) = min (unat a + 1) (2 ^ 32 - 1)"
  by (simp add: attempt_next_def unat_sat_add)

end
