(* ===== verification/Forge_Review.thy ===== *)
theory Forge_Review
  imports Forge_Identity
begin

text \<open>
  \<open>crates/domain/src/review.rs\<close>: the issues a review provider reports, the report of one
  provider with its validation, and the aggregate of all reports that scoring reads. Sums of
  weights are \<open>u64\<close> sums and wrap as the release build does.
\<close>

section \<open>Severities, categories, gate outcomes\<close>

datatype issue_severity = Info | Low | Medium | High | Critical | Blocker

definition issue_severity_all :: "issue_severity list" where
  "issue_severity_all = [Info, Low, Medium, High, Critical, Blocker]"

primrec issue_severity_as_str :: "issue_severity \<Rightarrow> string" where
  "issue_severity_as_str Info = ''info''"
| "issue_severity_as_str Low = ''low''"
| "issue_severity_as_str Medium = ''medium''"
| "issue_severity_as_str High = ''high''"
| "issue_severity_as_str Critical = ''critical''"
| "issue_severity_as_str Blocker = ''blocker''"

primrec issue_severity_weight :: "issue_severity \<Rightarrow> u64" where
  "issue_severity_weight Info = 0"
| "issue_severity_weight Low = 1"
| "issue_severity_weight Medium = 3"
| "issue_severity_weight High = 9"
| "issue_severity_weight Critical = 27"
| "issue_severity_weight Blocker = 81"

definition issue_severity_from_str :: "string \<Rightarrow> issue_severity domain_result" where
  "issue_severity_from_str value =
     (let normalised = to_ascii_lowercase value
      in parse_by issue_severity_all issue_severity_as_str
           (\<lambda>_. InvalidIdentifier ''IssueSeverity'' value) normalised)"

datatype issue_category =
    Security
  | Reliability
  | Maintainability
  | Coverage
  | Formatting
  | Policy
  | TestIntegrity
  | Dependency
  | Secret

definition issue_category_all :: "issue_category list" where
  "issue_category_all =
     [Security, Reliability, Maintainability, Coverage, Formatting, Policy, TestIntegrity,
      Dependency, Secret]"

primrec issue_category_as_str :: "issue_category \<Rightarrow> string" where
  "issue_category_as_str Security = ''security''"
| "issue_category_as_str Reliability = ''reliability''"
| "issue_category_as_str Maintainability = ''maintainability''"
| "issue_category_as_str Coverage = ''coverage''"
| "issue_category_as_str Formatting = ''formatting''"
| "issue_category_as_str Policy = ''policy''"
| "issue_category_as_str TestIntegrity = ''test_integrity''"
| "issue_category_as_str Dependency = ''dependency''"
| "issue_category_as_str Secret = ''secret''"

definition issue_category_from_str :: "string \<Rightarrow> issue_category domain_result" where
  "issue_category_from_str value =
     (let normalised = to_ascii_lowercase value
      in parse_by issue_category_all issue_category_as_str
           (\<lambda>_. InvalidIdentifier ''IssueCategory'' value) normalised)"

interpretation severity_strings: string_enum issue_severity_all issue_severity_as_str
    "\<lambda>_. InvalidIdentifier ''IssueSeverity'' v" for v
proof unfold_locales
  fix x :: issue_severity
  show "x \<in> set issue_severity_all" by (cases x) (simp_all add: issue_severity_all_def)
qed (simp add: issue_severity_all_def)

interpretation category_strings: string_enum issue_category_all issue_category_as_str
    "\<lambda>_. InvalidIdentifier ''IssueCategory'' v" for v
proof unfold_locales
  fix x :: issue_category
  show "x \<in> set issue_category_all" by (cases x) (simp_all add: issue_category_all_def)
qed (simp add: issue_category_all_def)

text \<open>The derived order of the severities is their declaration order.\<close>

primrec severity_rank :: "issue_severity \<Rightarrow> nat" where
  "severity_rank Info = 0"
| "severity_rank Low = 1"
| "severity_rank Medium = 2"
| "severity_rank High = 3"
| "severity_rank Critical = 4"
| "severity_rank Blocker = 5"

lemma severity_rank_inject [simp]: "severity_rank a = severity_rank b \<longleftrightarrow> a = b"
  by (cases a; cases b) simp_all

instantiation issue_severity :: linorder
begin
definition less_eq_issue_severity :: "issue_severity \<Rightarrow> issue_severity \<Rightarrow> bool" where
  "less_eq_issue_severity a b \<longleftrightarrow> severity_rank a \<le> severity_rank b"
definition less_issue_severity :: "issue_severity \<Rightarrow> issue_severity \<Rightarrow> bool" where
  "less_issue_severity a b \<longleftrightarrow> severity_rank a < severity_rank b"
instance
  by standard (auto simp: less_eq_issue_severity_def less_issue_severity_def
      dest: order_antisym [of "severity_rank a" "severity_rank b" for a b])
end

lemma severity_weight_mono: "a < b \<Longrightarrow> issue_severity_weight a < issue_severity_weight b"
  for a b :: issue_severity
  by (cases a; cases b) (simp_all add: less_issue_severity_def)

lemma severity_weight_dominates:
  "a < b \<Longrightarrow> a \<noteq> Info \<Longrightarrow> 3 * issue_severity_weight a \<le> issue_severity_weight b"
  for a b :: issue_severity
  by (cases a; cases b) (simp_all add: less_issue_severity_def)

lemma issue_severity_parse_any_case:
  "to_ascii_lowercase v = issue_severity_as_str s \<Longrightarrow> issue_severity_from_str v = Inr s"
  by (simp add: issue_severity_from_str_def severity_strings.parse_as_str)

lemma issue_category_parse_any_case:
  "to_ascii_lowercase v = issue_category_as_str s \<Longrightarrow> issue_category_from_str v = Inr s"
  by (simp add: issue_category_from_str_def category_strings.parse_as_str)

datatype quality_gate_outcome = Passed | Failed | NotApplicable

primrec quality_gate_outcome_as_str :: "quality_gate_outcome \<Rightarrow> string" where
  "quality_gate_outcome_as_str Passed = ''passed''"
| "quality_gate_outcome_as_str quality_gate_outcome.Failed = ''failed''"
| "quality_gate_outcome_as_str NotApplicable = ''not_applicable''"

section \<open>Issues and reports\<close>

record review_issue =
  ri_provider :: string
  ri_fingerprint :: string
  ri_rule_id :: string
  ri_category :: issue_category
  ri_severity :: issue_severity
  ri_file :: "string option"
  ri_line :: "u32 option"
  ri_column :: "u32 option"
  ri_message :: string
  ri_help_reference :: "string option"
  ri_is_new :: bool

definition compute_fingerprint ::
    "externals \<Rightarrow> string \<Rightarrow> string \<Rightarrow> string option \<Rightarrow> string \<Rightarrow> string" where
  "compute_fingerprint X provider rule_id file message =
     (let material = provider @ [unit_separator] @ rule_id @ [unit_separator]
            @ (case file of Some f \<Rightarrow> f | None \<Rightarrow> '''') @ [unit_separator] @ message
      in digest_short (digest_of_str X material))"

record review_metrics =
  rm_line_coverage_percent :: "f64 option"
  rm_branch_coverage_percent :: "f64 option"
  rm_changed_lines :: "u64 option"
  rm_changed_files :: "u32 option"
  rm_analysed_files :: "u32 option"
  rm_duplicated_lines :: "u64 option"

record review_artifact_reference =
  ra_label :: string
  ra_relative_path :: string
  ra_media_type :: string
  ra_digest :: content_digest
  ra_byte_length :: u64

record review_report =
  rr_schema_version :: u32
  rr_provider :: string
  rr_required :: bool
  rr_advisory :: bool
  rr_passed :: bool
  rr_quality_gate :: quality_gate_outcome
  rr_issues :: "review_issue list"
  rr_metrics :: review_metrics
  rr_artifacts :: "review_artifact_reference list"
  rr_started_at :: timestamp
  rr_finished_at :: timestamp
  rr_failure_summary :: "string option"

definition review_report_schema_version :: u32 where "review_report_schema_version = 1"

definition report_issue_count :: "review_report \<Rightarrow> issue_severity \<Rightarrow> u64" where
  "report_issue_count self severity =
     of_nat (length (filter (\<lambda>issue. ri_severity issue = severity) (rr_issues self)))"

definition report_weighted_new_score :: "review_report \<Rightarrow> issue_category \<Rightarrow> u64" where
  "report_weighted_new_score self category =
     sum_list (map (\<lambda>issue. issue_severity_weight (ri_severity issue))
       (filter (\<lambda>issue. ri_is_new issue \<and> ri_category issue = category) (rr_issues self)))"

definition blocking_issues :: "review_report \<Rightarrow> review_issue list" where
  "blocking_issues self = filter (\<lambda>issue. ri_severity issue = Blocker) (rr_issues self)"

definition review_report_validate :: "review_report \<Rightarrow> unit domain_result" where
  "review_report_validate self =
     (if rr_schema_version self \<noteq> review_report_schema_version
      then Inl (InvariantViolated (''review report schema version ''
                  @ dec (rr_schema_version self) @ '' is not supported''))
      else if trim (rr_provider self) = [] then Inl (MissingField ''provider'')
      else if rr_required self \<and> rr_advisory self
      then Inl (InvariantViolated ''a review provider cannot be both required and advisory'')
      else if rr_passed self \<and> rr_quality_gate self = quality_gate_outcome.Failed
      then Inl (InvariantViolated ''a passed review report cannot carry a failed quality gate'')
      else if rr_finished_at self < rr_started_at self
      then Inl (InvariantViolated ''review report finished before it started'')
      else Inr ())"

lemma review_report_validate_iff:
  "review_report_validate r = Inr () \<longleftrightarrow>
     rr_schema_version r = 1 \<and> trim (rr_provider r) \<noteq> []
     \<and> \<not> (rr_required r \<and> rr_advisory r)
     \<and> \<not> (rr_passed r \<and> rr_quality_gate r = quality_gate_outcome.Failed)
     \<and> rr_started_at r \<le> rr_finished_at r"
  unfolding review_report_validate_def guard_Inr review_report_schema_version_def
  by (simp add: linorder_not_less)

section \<open>Aggregated reviews\<close>

record aggregated_review =
  ag_reports :: "review_report list"

definition required_reports_passed :: "aggregated_review \<Rightarrow> bool" where
  "required_reports_passed self = list_all rr_passed (filter rr_required (ag_reports self))"

definition has_required_provider :: "aggregated_review \<Rightarrow> bool" where
  "has_required_provider self = list_ex rr_required (ag_reports self)"

definition failed_required_providers :: "aggregated_review \<Rightarrow> string list" where
  "failed_required_providers self =
     map rr_provider (filter (\<lambda>report. rr_required report \<and> \<not> rr_passed report) (ag_reports self))"

definition issue_count :: "aggregated_review \<Rightarrow> issue_severity \<Rightarrow> u64" where
  "issue_count self severity =
     sum_list (map (\<lambda>report. report_issue_count report severity) (ag_reports self))"

definition weighted_new_score :: "aggregated_review \<Rightarrow> issue_category \<Rightarrow> u64" where
  "weighted_new_score self category =
     sum_list (map (\<lambda>report. report_weighted_new_score report category) (ag_reports self))"

definition last_some :: "('a \<Rightarrow> 'b option) \<Rightarrow> 'a list \<Rightarrow> 'b option" where
  "last_some f xs = (let ys = List.map_filter f xs in if ys = [] then None else Some (last ys))"

definition review_line_coverage_percent :: "aggregated_review \<Rightarrow> f64 option" where
  "review_line_coverage_percent self =
     last_some (\<lambda>report. rm_line_coverage_percent (rr_metrics report)) (ag_reports self)"

definition blocker_policy_issues :: "aggregated_review \<Rightarrow> review_issue list" where
  "blocker_policy_issues self =
     filter (\<lambda>issue. ri_severity issue = Blocker
               \<and> (ri_category issue = Policy \<or> ri_category issue = TestIntegrity))
       (concat (map rr_issues (ag_reports self)))"

definition test_integrity_penalty :: "aggregated_review \<Rightarrow> u64" where
  "test_integrity_penalty self =
     sum_list (map (\<lambda>issue. issue_severity_weight (ri_severity issue))
       (filter (\<lambda>issue. ri_category issue = TestIntegrity)
         (concat (map rr_issues (ag_reports self)))))"

lemma failed_required_providers_empty:
  "failed_required_providers r = [] \<longleftrightarrow> required_reports_passed r"
  by (auto simp: failed_required_providers_def required_reports_passed_def filter_empty_conv
      list_all_iff)

text \<open>The per-report counts add up to the count over all issues.\<close>

lemma issue_count_concat:
  "issue_count r s =
     of_nat (length (filter (\<lambda>i. ri_severity i = s) (concat (map rr_issues (ag_reports r)))))"
proof -
  have "sum_list (map (\<lambda>report. report_issue_count report s) xs)
      = of_nat (length (filter (\<lambda>i. ri_severity i = s) (concat (map rr_issues xs))))" for xs
    by (induction xs) (simp_all add: report_issue_count_def)
  then show ?thesis by (simp add: issue_count_def)
qed

lemma weighted_new_score_concat:
  "weighted_new_score r c =
     sum_list (map (\<lambda>i. issue_severity_weight (ri_severity i))
       (filter (\<lambda>i. ri_is_new i \<and> ri_category i = c) (concat (map rr_issues (ag_reports r)))))"
proof -
  have "sum_list (map (\<lambda>report. report_weighted_new_score report c) xs)
      = sum_list (map (\<lambda>i. issue_severity_weight (ri_severity i))
          (filter (\<lambda>i. ri_is_new i \<and> ri_category i = c) (concat (map rr_issues xs))))" for xs
    by (induction xs) (simp_all add: report_weighted_new_score_def)
  then show ?thesis by (simp add: weighted_new_score_def)
qed

end
