(* ===== verification/Forge_Commands.thy ===== *)
theory Forge_Commands
  imports Forge_Paths Forge_Review
begin

text \<open>
  \<open>command.rs\<close> and \<open>test_evidence.rs\<close> of \<open>crates/domain/src\<close>: the commands a project
  declares, their validation, and the evidence their executions leave.
\<close>

section \<open>Command identifiers and kinds\<close>

definition command_id_from_str :: "string \<Rightarrow> command_id domain_result" where
  "command_id_from_str value =
     (let valid = (value \<noteq> [] \<and> length value \<le> 64
            \<and> list_all (\<lambda>character. is_ascii_lowercase character \<or> is_ascii_digit character
                          \<or> character = CHR ''-'' \<or> character = CHR ''_'') value)
      in if \<not> valid then Inl (InvalidIdentifier ''CommandId'' value) else Inr value)"

datatype command_kind =
    Format
  | Lint
  | Test
  | Coverage
  | Audit
  | SecretScan
  | StaticAnalysis
  | Policy
  | Build

definition command_kind_all :: "command_kind list" where
  "command_kind_all =
     [Format, Lint, Test, command_kind.Coverage, Audit, SecretScan, StaticAnalysis,
      command_kind.Policy, Build]"

primrec command_kind_as_str :: "command_kind \<Rightarrow> string" where
  "command_kind_as_str Format = ''format''"
| "command_kind_as_str Lint = ''lint''"
| "command_kind_as_str Test = ''test''"
| "command_kind_as_str command_kind.Coverage = ''coverage''"
| "command_kind_as_str Audit = ''audit''"
| "command_kind_as_str SecretScan = ''secret_scan''"
| "command_kind_as_str StaticAnalysis = ''static_analysis''"
| "command_kind_as_str command_kind.Policy = ''policy''"
| "command_kind_as_str Build = ''build''"

primrec command_kind_label :: "command_kind \<Rightarrow> string" where
  "command_kind_label Format = ''Format check''"
| "command_kind_label Lint = ''Lint''"
| "command_kind_label Test = ''Tests''"
| "command_kind_label command_kind.Coverage = ''Coverage''"
| "command_kind_label Audit = ''Dependency audit''"
| "command_kind_label SecretScan = ''Secret scan''"
| "command_kind_label StaticAnalysis = ''Static analysis''"
| "command_kind_label command_kind.Policy = ''Repository policy''"
| "command_kind_label Build = ''Build''"

definition is_test_phase :: "command_kind \<Rightarrow> bool" where
  "is_test_phase k \<longleftrightarrow>
     (case k of Test \<Rightarrow> True | command_kind.Coverage \<Rightarrow> True | Build \<Rightarrow> True | _ \<Rightarrow> False)"

definition is_review_phase :: "command_kind \<Rightarrow> bool" where
  "is_review_phase k \<longleftrightarrow> \<not> is_test_phase k"

primrec default_issue_category :: "command_kind \<Rightarrow> issue_category" where
  "default_issue_category Format = Formatting"
| "default_issue_category Lint = Maintainability"
| "default_issue_category Build = Maintainability"
| "default_issue_category Test = Reliability"
| "default_issue_category command_kind.Coverage = issue_category.Coverage"
| "default_issue_category Audit = Dependency"
| "default_issue_category SecretScan = Secret"
| "default_issue_category StaticAnalysis = Security"
| "default_issue_category command_kind.Policy = issue_category.Policy"

definition command_kind_from_str :: "string \<Rightarrow> command_kind domain_result" where
  "command_kind_from_str =
     parse_by command_kind_all command_kind_as_str (InvalidIdentifier ''CommandKind'')"

interpretation kind_strings: string_enum command_kind_all command_kind_as_str
    "InvalidIdentifier ''CommandKind''"
proof unfold_locales
  fix x :: command_kind
  show "x \<in> set command_kind_all" by (cases x) (simp_all add: command_kind_all_def)
qed (simp add: command_kind_all_def)

section \<open>Report formats\<close>

text \<open>The variant \<open>ReportFormat::None\<close> is written \<open>NoReport\<close>.\<close>

datatype report_format =
    NoReport
  | JUnitXml
  | Lcov
  | Sarif
  | CargoTestJson
  | CargoTestText
  | GoTestJson
  | PytestText
  | NodeTestText
  | CTestText
  | Text

primrec report_format_as_str :: "report_format \<Rightarrow> string" where
  "report_format_as_str NoReport = ''none''"
| "report_format_as_str JUnitXml = ''junit_xml''"
| "report_format_as_str Lcov = ''lcov''"
| "report_format_as_str Sarif = ''sarif''"
| "report_format_as_str CargoTestJson = ''cargo_test_json''"
| "report_format_as_str CargoTestText = ''cargo_test_text''"
| "report_format_as_str GoTestJson = ''go_test_json''"
| "report_format_as_str PytestText = ''pytest_text''"
| "report_format_as_str NodeTestText = ''node_test_text''"
| "report_format_as_str CTestText = ''ctest_text''"
| "report_format_as_str Text = ''text''"

definition reads_stdout_only :: "report_format \<Rightarrow> bool" where
  "reads_stdout_only f \<longleftrightarrow>
     f \<in> {CargoTestJson, CargoTestText, GoTestJson, PytestText, NodeTestText, CTestText}"

definition counts_executed_tests :: "report_format \<Rightarrow> bool" where
  "counts_executed_tests f \<longleftrightarrow>
     f \<in> {JUnitXml, CargoTestJson, CargoTestText, GoTestJson, PytestText, NodeTestText, CTestText}"

definition report_format_from_str :: "string \<Rightarrow> report_format domain_result" where
  "report_format_from_str value =
     (if value = ''none'' then Inr NoReport
      else if value = ''junit_xml'' then Inr JUnitXml
      else if value = ''lcov'' then Inr Lcov
      else if value = ''sarif'' then Inr Sarif
      else if value = ''cargo_test_json'' then Inr CargoTestJson
      else if value = ''cargo_test_text'' then Inr CargoTestText
      else if value = ''go_test_json'' then Inr GoTestJson
      else if value = ''pytest_text'' then Inr PytestText
      else if value = ''node_test_text'' then Inr NodeTestText
      else if value = ''ctest_text'' then Inr CTestText
      else if value = ''text'' then Inr Text
      else Inl (InvalidIdentifier ''ReportFormat'' value))"

lemma report_format_round_trip: "report_format_from_str (report_format_as_str f) = Inr f"
  by (cases f) (simp_all add: report_format_from_str_def)

section \<open>Command specifications\<close>

text \<open>Exit codes are \<open>i32\<close>; the code only compares them, so they are integers here.\<close>

record command_specification =
  cs_id :: command_id
  cs_kind :: command_kind
  cs_program :: string
  cs_args :: "string list"
  cs_working_subdirectory :: "string option"
  cs_timeout :: timeout_seconds
  cs_required :: bool
  cs_report_format :: report_format
  cs_report_path :: "string option"
  cs_environment :: "(string \<times> string) list"
  cs_success_exit_codes :: "int list"

definition optional_path_ok :: "string option \<Rightarrow> unit domain_result" where
  "optional_path_ok path =
     (case path of None \<Rightarrow> Inr () | Some p \<Rightarrow> map_ok (\<lambda>_. ()) (path_parse p))"

definition check_argument :: "string \<Rightarrow> unit domain_result" where
  "check_argument argument =
     (if nul \<in> set argument then Inl (InvalidIdentifier ''CommandArgument'' argument) else Inr ())"

definition command_specification_validate :: "command_specification \<Rightarrow> unit domain_result" where
  "command_specification_validate self =
     (if trim (cs_program self) = [] then Inl (MissingField ''program'')
      else if newline \<in> set (cs_program self) \<or> carriage_return \<in> set (cs_program self)
              \<or> nul \<in> set (cs_program self)
      then Inl (InvalidIdentifier ''CommandProgram'' (cs_program self))
      else
        and_then (try_each check_argument (cs_args self)) (\<lambda>_.
        and_then (optional_path_ok (cs_working_subdirectory self)) (\<lambda>_.
        and_then (optional_path_ok (cs_report_path self)) (\<lambda>_.
          if cs_report_format self \<noteq> NoReport \<and> \<not> reads_stdout_only (cs_report_format self)
             \<and> cs_report_path self = None
          then Inl (MissingField ''report_path'')
          else Inr ()))))"

definition exit_is_success :: "command_specification \<Rightarrow> int option \<Rightarrow> bool" where
  "exit_is_success self exit_code =
     (case exit_code of
        Some code \<Rightarrow>
          if cs_success_exit_codes self = [] then code = 0
          else code \<in> set (cs_success_exit_codes self)
      | None \<Rightarrow> False)"

definition display_line :: "command_specification \<Rightarrow> string" where
  "display_line self = join_str '' '' (cs_program self # cs_args self)"

section \<open>The catalogue\<close>

type_synonym command_catalogue = "command_specification list"

definition catalogue_find :: "command_catalogue \<Rightarrow> command_id \<Rightarrow> command_specification option" where
  "catalogue_find self command_id = find (\<lambda>command. cs_id command = command_id) self"

definition catalogue_of_kind ::
    "command_catalogue \<Rightarrow> command_kind \<Rightarrow> command_specification list" where
  "catalogue_of_kind self kind = filter (\<lambda>command. cs_kind command = kind) self"

definition catalogue_test_phase :: "command_catalogue \<Rightarrow> command_specification list" where
  "catalogue_test_phase self = filter (\<lambda>command. is_test_phase (cs_kind command)) self"

definition catalogue_review_phase :: "command_catalogue \<Rightarrow> command_specification list" where
  "catalogue_review_phase self = filter (\<lambda>command. is_review_phase (cs_kind command)) self"

definition catalogue_step ::
    "command_id list \<Rightarrow> command_specification \<Rightarrow> command_id list domain_result" where
  "catalogue_step seen command =
     and_then (command_specification_validate command) (\<lambda>_.
       if cs_id command \<in> set seen
       then Inl (InvariantViolated (''command identifier `'' @ cs_id command
                   @ ''` is declared more than once''))
       else Inr (seen @ [cs_id command]))"

definition catalogue_validate :: "command_catalogue \<Rightarrow> unit domain_result" where
  "catalogue_validate self = map_ok (\<lambda>_. ()) (try_fold catalogue_step [] self)"

lemma catalogue_fold:
  "try_fold catalogue_step seen cs = Inr out \<longleftrightarrow>
     out = seen @ map cs_id cs
     \<and> (\<forall>c \<in> set cs. command_specification_validate c = Inr ())
     \<and> distinct (map cs_id cs) \<and> set (map cs_id cs) \<inter> set seen = {}"
proof (induction cs arbitrary: seen)
  case (Cons c cs)
  then show ?case by (auto simp: catalogue_step_def guard_Inr)
qed auto

lemma catalogue_validate_iff:
  "catalogue_validate cs = Inr () \<longleftrightarrow>
     (\<forall>c \<in> set cs. command_specification_validate c = Inr ()) \<and> distinct (map cs_id cs)"
  by (simp add: catalogue_validate_def catalogue_fold)

lemma catalogue_find_declared:
  "catalogue_validate cs = Inr () \<Longrightarrow> c \<in> set cs \<Longrightarrow> catalogue_find cs (cs_id c) = Some c"
  by (simp add: catalogue_validate_iff catalogue_find_def find_unique)

lemma catalogue_phases_partition:
  "mset cs = mset (catalogue_test_phase cs) + mset (catalogue_review_phase cs)"
  by (simp add: catalogue_test_phase_def catalogue_review_phase_def is_review_phase_def)

section \<open>Test evidence\<close>

datatype command_outcome = Passed | Failed | TimedOut | Cancelled | NotRun | ReportMissing

primrec command_outcome_as_str :: "command_outcome \<Rightarrow> string" where
  "command_outcome_as_str command_outcome.Passed = ''passed''"
| "command_outcome_as_str command_outcome.Failed = ''failed''"
| "command_outcome_as_str TimedOut = ''timed_out''"
| "command_outcome_as_str command_outcome.Cancelled = ''cancelled''"
| "command_outcome_as_str NotRun = ''not_run''"
| "command_outcome_as_str ReportMissing = ''report_missing''"

definition outcome_is_pass :: "command_outcome \<Rightarrow> bool" where
  "outcome_is_pass outcome \<longleftrightarrow> outcome = command_outcome.Passed"

record test_failure_detail =
  tf_suite :: string
  tf_case :: string
  tf_message :: string
  tf_file :: "string option"
  tf_line :: "u32 option"

record command_execution_record =
  ce_command_id :: command_id
  ce_required :: bool
  ce_outcome :: command_outcome
  ce_exit_code :: "int option"
  ce_duration :: duration_ms
  ce_stdout_artifact :: "content_digest option"
  ce_stderr_artifact :: "content_digest option"
  ce_stdout_truncated :: bool
  ce_stderr_truncated :: bool
  ce_tests_total :: "u32 option"
  ce_tests_failed :: "u32 option"
  ce_tests_skipped :: "u32 option"
  ce_failures :: "test_failure_detail list"
  ce_line_coverage_percent :: "f64 option"
  ce_detail :: "string option"

definition int_dec :: "int \<Rightarrow> string" where
  "int_dec k = (if k < 0 then ''-'' @ nat_dec (nat (- k)) else nat_dec (nat k))"

definition failure_summary :: "command_execution_record \<Rightarrow> string" where
  "failure_summary self =
     (case ce_detail self of
        Some detail \<Rightarrow> detail
      | None \<Rightarrow>
          case ce_outcome self of
            TimedOut \<Rightarrow> ''the command exceeded its timeout''
          | command_outcome.Cancelled \<Rightarrow> ''the command was cancelled''
          | ReportMissing \<Rightarrow> ''the command produced no valid report''
          | NotRun \<Rightarrow> ''the command was not run''
          | _ \<Rightarrow> (case ce_exit_code self of
                    Some code \<Rightarrow> ''the command exited with status '' @ int_dec code
                  | None \<Rightarrow> ''the command failed without an exit status''))"

record test_evidence =
  te_commands :: "command_execution_record list"
  te_line_coverage_percent :: "f64 option"
  te_total_duration :: duration_ms

definition all_required_passed :: "test_evidence \<Rightarrow> bool" where
  "all_required_passed self =
     list_all (\<lambda>record. outcome_is_pass (ce_outcome record)) (filter ce_required (te_commands self))"

definition failed_required :: "test_evidence \<Rightarrow> (string \<times> string) list" where
  "failed_required self =
     map (\<lambda>record. (ce_command_id record, failure_summary record))
       (filter (\<lambda>record. ce_required record
                  \<and> (ce_outcome record = command_outcome.Failed \<or> ce_outcome record = TimedOut
                     \<or> ce_outcome record = command_outcome.Cancelled)) (te_commands self))"

definition missing_required :: "test_evidence \<Rightarrow> string list" where
  "missing_required self =
     map ce_command_id
       (filter (\<lambda>record. ce_required record
                  \<and> (ce_outcome record = ReportMissing \<or> ce_outcome record = NotRun))
         (te_commands self))"

definition fingerprint_line :: "command_execution_record \<Rightarrow> string" where
  "fingerprint_line record =
     ce_command_id record @ [unit_separator] @ command_outcome_as_str (ce_outcome record)
     @ concat (map (\<lambda>failure. [unit_separator] @ tf_suite failure @ [record_separator]
                                @ tf_case failure) (ce_failures record))
     @ [newline]"

definition failure_fingerprint :: "externals \<Rightarrow> test_evidence \<Rightarrow> string option" where
  "failure_fingerprint X self =
     (let material = concat (map fingerprint_line
            (filter (\<lambda>record. \<not> outcome_is_pass (ce_outcome record)) (te_commands self)))
      in if material = [] then None else Some (digest_short (digest_of_str X material)))"

definition recompute_totals :: "test_evidence \<Rightarrow> test_evidence" where
  "recompute_totals self = self\<lparr>
     te_total_duration := foldl (\<lambda>total record. sat_add total (ce_duration record)) 0 (te_commands self),
     te_line_coverage_percent := last_some ce_line_coverage_percent (te_commands self)\<rparr>"

text \<open>A run of the required commands passes exactly when none failed and none is missing.\<close>

lemma all_required_passed_iff:
  "all_required_passed e \<longleftrightarrow> failed_required e = [] \<and> missing_required e = []"
proof -
  have "outcome_is_pass x \<longleftrightarrow> \<not> (x = command_outcome.Failed \<or> x = TimedOut
      \<or> x = command_outcome.Cancelled) \<and> \<not> (x = ReportMissing \<or> x = NotRun)" for x
    by (cases x) (simp_all add: outcome_is_pass_def)
  then show ?thesis
    by (auto simp: all_required_passed_def failed_required_def missing_required_def list_all_iff
        filter_empty_conv)
qed

lemma failure_fingerprint_None_iff:
  "failure_fingerprint X e = None \<longleftrightarrow>
     (\<forall>r \<in> set (te_commands e). outcome_is_pass (ce_outcome r))"
  by (auto simp: failure_fingerprint_def Let_def fingerprint_line_def)

lemma total_duration_saturates:
  "unat (te_total_duration (recompute_totals e)) =
     min (sum_list (map (\<lambda>r. unat (ce_duration r)) (te_commands e))) (2 ^ 64 - 1)"
proof -
  have "unat (foldl (\<lambda>t r. sat_add t (ce_duration r)) d rs) =
      min (unat d + sum_list (map (\<lambda>r. unat (ce_duration r)) rs)) (2 ^ 64 - 1)"
    for d :: u64 and rs
  proof (induction rs arbitrary: d)
    case Nil
    show ?case using unat_le_limit [of d] by simp
  next
    case (Cons r rs)
    show ?case by (simp add: Cons.IH unat_sat_add)
  qed
  from this [of 0 "te_commands e"] show ?thesis by (simp add: recompute_totals_def)
qed

end
