(* ===== verification/Forge_Score.thy ===== *)
theory Forge_Score
  imports Forge_Commands
begin

text \<open>
  \<open>crates/domain/src/score.rs\<close>: the score tuple with its lexicographic order, the reasons a
  candidate is excluded for, the eligibility of a candidate and the ranking of all candidates.
  The derived orders of \<open>CoverageRank\<close> and \<open>ScoreTuple\<close> are instances of \<open>linorder\<close>.
\<close>

section \<open>Coverage\<close>

text \<open>The \<open>i64\<close> of \<open>Measured\<close> stays within \<open>-100000..0\<close>, so it is an integer.\<close>

datatype coverage_rank = Measured int | Missing

definition coverage_scale :: f64 where "coverage_scale = Finite False 1000"

definition coverage_from_percent :: "f64 option \<Rightarrow> coverage_rank" where
  "coverage_from_percent percent =
     (case percent of
        Some v \<Rightarrow>
          (let scaled = f64_as_i64 (f64_round (f64_mul
                 (f64_clamp v (Finite False 0) (Finite False 100)) coverage_scale))
           in Measured (- scaled))
      | None \<Rightarrow> Missing)"

primrec coverage_percent :: "coverage_rank \<Rightarrow> f64 option" where
  "coverage_percent (Measured scaled) = Some (f64_div (f64_neg (f64_of_int scaled)) coverage_scale)"
| "coverage_percent Missing = None"

definition coverage_display :: "coverage_rank \<Rightarrow> string" where
  "coverage_display r =
     (case coverage_percent r of Some v \<Rightarrow> f64_fixed2 v @ ''%'' | None \<Rightarrow> ''not measured'')"

primrec coverage_key :: "coverage_rank \<Rightarrow> bool \<times> int" where
  "coverage_key (Measured v) = (False, v)"
| "coverage_key Missing = (True, 0)"

lemma coverage_key_inject [simp]: "coverage_key a = coverage_key b \<longleftrightarrow> a = b"
  by (cases a; cases b) simp_all

instantiation coverage_rank :: linorder
begin
definition less_eq_coverage_rank :: "coverage_rank \<Rightarrow> coverage_rank \<Rightarrow> bool" where
  "less_eq_coverage_rank a b \<longleftrightarrow> coverage_key a \<le> coverage_key b"
definition less_coverage_rank :: "coverage_rank \<Rightarrow> coverage_rank \<Rightarrow> bool" where
  "less_coverage_rank a b \<longleftrightarrow> coverage_key a < coverage_key b"
instance
proof
  fix a b :: coverage_rank
  assume "a \<le> b" and "b \<le> a"
  then have "coverage_key a = coverage_key b"
    unfolding less_eq_coverage_rank_def by (rule order_antisym)
  then show "a = b" by simp
qed (auto simp: less_eq_coverage_rank_def less_coverage_rank_def less_le_not_le)
end

lemma coverage_missing_last: "a \<le> Missing" "Missing \<le> a \<longleftrightarrow> a = Missing"
  by (cases a; simp add: less_eq_coverage_rank_def)+

section \<open>The score tuple\<close>

datatype score_tuple =
  ScoreTuple (blocker_issues: u64) (critical_issues: u64) (high_issues: u64)
    (medium_issues: u64) (new_security_weight: u64) (new_reliability_weight: u64)
    (new_maintainability_weight: u64) (coverage_rank: coverage_rank)
    (score_test_integrity_penalty: u64) (score_changed_lines: u64)
    (score_repair_attempts: u32) (gate_duration_ms: u64) (score_candidate_id: candidate_id)

definition score_key where
  "score_key s =
     (blocker_issues s, critical_issues s, high_issues s, medium_issues s,
      new_security_weight s, new_reliability_weight s, new_maintainability_weight s,
      coverage_rank s, score_test_integrity_penalty s, score_changed_lines s,
      score_repair_attempts s, gate_duration_ms s, score_candidate_id s)"

lemma score_key_inject [simp]: "score_key a = score_key b \<longleftrightarrow> a = b"
  by (cases a; cases b) (simp add: score_key_def)

instantiation score_tuple :: linorder
begin
definition less_eq_score_tuple :: "score_tuple \<Rightarrow> score_tuple \<Rightarrow> bool" where
  "less_eq_score_tuple a b \<longleftrightarrow> score_key a \<le> score_key b"
definition less_score_tuple :: "score_tuple \<Rightarrow> score_tuple \<Rightarrow> bool" where
  "less_score_tuple a b \<longleftrightarrow> score_key a < score_key b"
instance
proof
  fix a b :: score_tuple
  assume "a \<le> b" and "b \<le> a"
  then have "score_key a = score_key b"
    unfolding less_eq_score_tuple_def by (rule order_antisym)
  then show "a = b" by simp
qed (auto simp: less_eq_score_tuple_def less_score_tuple_def less_le_not_le)
end

record score_component =
  sc_label :: string
  sc_value :: string

definition score_component_new :: "string \<Rightarrow> string \<Rightarrow> score_component" where
  "score_component_new label v = \<lparr>sc_label = label, sc_value = v\<rparr>"

definition score_components :: "score_tuple \<Rightarrow> score_component list" where
  "score_components self =
     [score_component_new ''Blocker issues'' (dec (blocker_issues self)),
      score_component_new ''Critical issues'' (dec (critical_issues self)),
      score_component_new ''High issues'' (dec (high_issues self)),
      score_component_new ''Medium issues'' (dec (medium_issues self)),
      score_component_new ''New security weight'' (dec (new_security_weight self)),
      score_component_new ''New reliability weight'' (dec (new_reliability_weight self)),
      score_component_new ''New maintainability weight'' (dec (new_maintainability_weight self)),
      score_component_new ''Line coverage'' (coverage_display (coverage_rank self)),
      score_component_new ''Test integrity penalty'' (dec (score_test_integrity_penalty self)),
      score_component_new ''Changed lines'' (dec (score_changed_lines self)),
      score_component_new ''Repair attempts'' (dec (score_repair_attempts self)),
      score_component_new ''Total gate duration'' (duration_human (gate_duration_ms self)),
      score_component_new ''Candidate identifier'' (score_candidate_id self)]"

section \<open>Exclusion\<close>

datatype exclusion_reason =
    RequiredTestFailed (failed_command_id: string) (failed_detail: string)
  | RequiredTestMissing (missing_command_id: string)
  | RequiredReviewFailed (review_provider: string) (review_detail: string)
  | RequiredReviewMissing
  | BlockerPolicyFinding (finding_rule_id: string) (finding_detail: string)
  | EmptyDiff
  | DiffDoesNotApply (diff_detail: string)
  | CoverageBelowThreshold (coverage_measured: f64) (coverage_required: f64)
  | RepairBudgetExhausted (repairs_done: u32) (repairs_allowed: u32)
  | TimeBudgetExceeded (time_detail: string)
  | Cancelled
  | Interrupted
  | IntegrationFailed (integration_detail: string)

primrec exclusion_summary :: "exclusion_reason \<Rightarrow> string" where
  "exclusion_summary (RequiredTestFailed command_id detail) =
     ''Required test command `'' @ command_id @ ''` failed: '' @ detail"
| "exclusion_summary (RequiredTestMissing command_id) =
     ''Required test command `'' @ command_id @ ''` produced no valid report''"
| "exclusion_summary (RequiredReviewFailed provider detail) =
     ''Required review provider `'' @ provider @ ''` failed: '' @ detail"
| "exclusion_summary RequiredReviewMissing =
     ''No required review provider produced a report''"
| "exclusion_summary (BlockerPolicyFinding rule_id detail) =
     ''Blocker policy finding `'' @ rule_id @ ''`: '' @ detail"
| "exclusion_summary EmptyDiff =
     ''The candidate produced no change while the task requires one''"
| "exclusion_summary (DiffDoesNotApply detail) =
     ''The candidate patch does not apply to the baseline: '' @ detail"
| "exclusion_summary (CoverageBelowThreshold measured required) =
     ''Line coverage '' @ f64_fixed2 measured @ ''% is below the required ''
     @ f64_fixed2 required @ ''%''"
| "exclusion_summary (RepairBudgetExhausted used budget) =
     ''The repair budget was exhausted after '' @ dec used @ '' of '' @ dec budget @ '' attempts''"
| "exclusion_summary (TimeBudgetExceeded detail) =
     ''The candidate exceeded its time budget: '' @ detail"
| "exclusion_summary exclusion_reason.Cancelled = ''The candidate was cancelled''"
| "exclusion_summary exclusion_reason.Interrupted =
     ''The candidate was interrupted and could not be resumed''"
| "exclusion_summary (IntegrationFailed detail) =
     ''Integration of this candidate failed: '' @ detail"

record eligibility_input =
  el_candidate_status :: candidate_status
  el_required_tests_passed :: bool
  el_failed_test_commands :: "(string \<times> string) list"
  el_missing_test_commands :: "string list"
  el_diff_is_empty :: bool
  el_change_required :: bool
  el_diff_applies :: "string + unit"
  el_coverage_percent :: "f64 option"
  el_minimum_line_coverage :: "f64 option"
  el_repairs_used :: u32
  el_repair_budget :: u32
  el_repair_budget_exhausted :: bool
  el_time_budget_exceeded :: "string option"

record eligibility_outcome =
  eo_eligible :: bool
  eo_reasons :: "exclusion_reason list"

text \<open>The pushes onto \<open>reasons\<close>, one definition per block of the function.\<close>

definition status_reasons :: "eligibility_input \<Rightarrow> exclusion_reason list" where
  "status_reasons input =
     (case el_candidate_status input of
        candidate_status.Cancelled \<Rightarrow> [exclusion_reason.Cancelled]
      | candidate_status.Interrupted \<Rightarrow> [exclusion_reason.Interrupted]
      | _ \<Rightarrow> [])"

definition test_reasons :: "eligibility_input \<Rightarrow> exclusion_reason list" where
  "test_reasons input =
     map (\<lambda>(command_id, detail). RequiredTestFailed command_id detail)
       (el_failed_test_commands input)
     @ map RequiredTestMissing (el_missing_test_commands input)
     @ (if \<not> el_required_tests_passed input \<and> el_failed_test_commands input = []
           \<and> el_missing_test_commands input = []
        then [RequiredTestMissing ''test''] else [])"

definition review_reasons :: "aggregated_review \<Rightarrow> exclusion_reason list" where
  "review_reasons review =
     (if \<not> has_required_provider review then [RequiredReviewMissing] else [])
     @ map (\<lambda>report. RequiredReviewFailed (rr_provider report)
              (case rr_failure_summary report of
                 Some detail \<Rightarrow> detail | None \<Rightarrow> ''the required quality gate did not pass''))
         (filter (\<lambda>report. rr_required report \<and> \<not> rr_passed report) (ag_reports review))
     @ map (\<lambda>issue. BlockerPolicyFinding (ri_rule_id issue) (ri_message issue))
         (blocker_policy_issues review)"

definition diff_reasons :: "eligibility_input \<Rightarrow> exclusion_reason list" where
  "diff_reasons input =
     (if el_diff_is_empty input \<and> el_change_required input then [EmptyDiff] else [])
     @ (case el_diff_applies input of Inl detail \<Rightarrow> [DiffDoesNotApply detail] | Inr _ \<Rightarrow> [])"

definition coverage_reasons :: "eligibility_input \<Rightarrow> exclusion_reason list" where
  "coverage_reasons input =
     (case (el_coverage_percent input, el_minimum_line_coverage input) of
        (Some measured, Some required) \<Rightarrow>
          if f64_less (f64_add measured f64_epsilon) required
          then [CoverageBelowThreshold measured required] else []
      | _ \<Rightarrow> [])"

definition budget_reasons :: "eligibility_input \<Rightarrow> exclusion_reason list" where
  "budget_reasons input =
     (if el_repair_budget_exhausted input
      then [RepairBudgetExhausted (el_repairs_used input) (el_repair_budget input)] else [])
     @ (case el_time_budget_exceeded input of
          Some detail \<Rightarrow> [TimeBudgetExceeded detail] | None \<Rightarrow> [])"

definition evaluate_eligibility ::
    "eligibility_input \<Rightarrow> aggregated_review \<Rightarrow> eligibility_outcome" where
  "evaluate_eligibility input review =
     (let reasons = status_reasons input @ test_reasons input @ review_reasons review
            @ diff_reasons input @ coverage_reasons input @ budget_reasons input
      in \<lparr>eo_eligible = (reasons = []), eo_reasons = reasons\<rparr>)"

lemma evaluate_eligibility_iff:
  "eo_eligible (evaluate_eligibility i r) \<longleftrightarrow>
     el_candidate_status i \<notin> {candidate_status.Cancelled, candidate_status.Interrupted}
     \<and> el_required_tests_passed i \<and> el_failed_test_commands i = []
     \<and> el_missing_test_commands i = []
     \<and> has_required_provider r \<and> required_reports_passed r \<and> blocker_policy_issues r = []
     \<and> \<not> (el_diff_is_empty i \<and> el_change_required i) \<and> el_diff_applies i = Inr ()
     \<and> (\<forall>m q. el_coverage_percent i = Some m \<and> el_minimum_line_coverage i = Some q
          \<longrightarrow> \<not> f64_less (f64_add m f64_epsilon) q)
     \<and> \<not> el_repair_budget_exhausted i \<and> el_time_budget_exceeded i = None"
proof -
  have s: "status_reasons i = [] \<longleftrightarrow>
      el_candidate_status i \<notin> {candidate_status.Cancelled, candidate_status.Interrupted}"
    by (cases "el_candidate_status i") (simp_all add: status_reasons_def)
  have t: "test_reasons i = [] \<longleftrightarrow> el_required_tests_passed i
      \<and> el_failed_test_commands i = [] \<and> el_missing_test_commands i = []"
    by (auto simp: test_reasons_def)
  have v: "review_reasons r = [] \<longleftrightarrow>
      has_required_provider r \<and> required_reports_passed r \<and> blocker_policy_issues r = []"
    by (auto simp: review_reasons_def required_reports_passed_def filter_empty_conv list_all_iff)
  have d: "diff_reasons i = [] \<longleftrightarrow>
      \<not> (el_diff_is_empty i \<and> el_change_required i) \<and> el_diff_applies i = Inr ()"
    by (auto simp: diff_reasons_def split: sum.splits)
  have c: "coverage_reasons i = [] \<longleftrightarrow>
      (\<forall>m q. el_coverage_percent i = Some m \<and> el_minimum_line_coverage i = Some q
          \<longrightarrow> \<not> f64_less (f64_add m f64_epsilon) q)"
    by (auto simp: coverage_reasons_def split: option.splits)
  have b: "budget_reasons i = [] \<longleftrightarrow>
      \<not> el_repair_budget_exhausted i \<and> el_time_budget_exceeded i = None"
    by (auto simp: budget_reasons_def split: option.splits)
  show ?thesis by (simp add: evaluate_eligibility_def Let_def s t v d c b)
qed

end
