(* ===== verification/Forge_Ranking.thy ===== *)
theory Forge_Ranking
  imports Forge_Score
begin

text \<open>
  The ranking half of \<open>crates/domain/src/score.rs\<close>: \<open>rank_candidates\<close>, the rationale it
  writes, and what the ranking guarantees.
\<close>

record ranked_candidate =
  rk_candidate_id :: candidate_id
  rk_eligible :: bool
  rk_score :: "score_tuple option"
  rk_exclusion_reasons :: "exclusion_reason list"
  rk_rank :: "u32 option"

record ranking =
  rg_entries :: "ranked_candidate list"
  rg_winner :: "candidate_id option"
  rg_rationale :: "string list"

text \<open>
  The closure of \<open>sort_by\<close> compares two scores, puts an entry with a score before one
  without, and two entries without by their identifiers: the order of these keys.
\<close>

datatype entry_key = Scored score_tuple | Unscored candidate_id

fun entry_key_le :: "entry_key \<Rightarrow> entry_key \<Rightarrow> bool" where
  "entry_key_le (Scored left_score) (Scored right_score) \<longleftrightarrow> left_score \<le> right_score"
| "entry_key_le (Scored _) (Unscored _) \<longleftrightarrow> True"
| "entry_key_le (Unscored _) (Scored _) \<longleftrightarrow> False"
| "entry_key_le (Unscored left_id) (Unscored right_id) \<longleftrightarrow> left_id \<le> right_id"

instantiation entry_key :: linorder
begin
definition less_eq_entry_key :: "entry_key \<Rightarrow> entry_key \<Rightarrow> bool" where
  "less_eq_entry_key = entry_key_le"
definition less_entry_key :: "entry_key \<Rightarrow> entry_key \<Rightarrow> bool" where
  "less_entry_key a b \<longleftrightarrow> entry_key_le a b \<and> \<not> entry_key_le b a"
instance
proof
  fix a b c :: entry_key
  show "a < b \<longleftrightarrow> a \<le> b \<and> \<not> b \<le> a"
    by (simp add: less_entry_key_def less_eq_entry_key_def)
  show "a \<le> a" by (cases a) (simp_all add: less_eq_entry_key_def)
  show "a \<le> b \<Longrightarrow> b \<le> c \<Longrightarrow> a \<le> c"
    by (cases a; cases b; cases c) (auto simp: less_eq_entry_key_def)
  show "a \<le> b \<Longrightarrow> b \<le> a \<Longrightarrow> a = b"
    by (cases a; cases b) (auto simp: less_eq_entry_key_def)
  show "a \<le> b \<or> b \<le> a"
    by (cases a; cases b) (auto simp: less_eq_entry_key_def)
qed
end

definition ranked_key :: "ranked_candidate \<Rightarrow> entry_key" where
  "ranked_key e =
     (case rk_score e of Some score \<Rightarrow> Scored score | None \<Rightarrow> Unscored (rk_candidate_id e))"

definition rankable :: "ranked_candidate \<Rightarrow> bool" where
  "rankable e \<longleftrightarrow> rk_eligible e \<and> rk_score e \<noteq> None"

fun assign_ranks :: "u32 \<Rightarrow> ranked_candidate list \<Rightarrow> ranked_candidate list" where
  "assign_ranks counter [] = []"
| "assign_ranks counter (e # es) =
     (if rankable e
      then e\<lparr>rk_rank := Some (counter + 1)\<rparr> # assign_ranks (counter + 1) es
      else e\<lparr>rk_rank := None\<rparr> # assign_ranks counter es)"

fun difference_of :: "score_component list \<Rightarrow> score_component list \<Rightarrow> string" where
  "difference_of (l # ls) (r # rs) =
     (if sc_value l \<noteq> sc_value r
      then sc_label l @ '' ('' @ sc_value l @ '' against '' @ sc_value r @ '')''
      else difference_of ls rs)"
| "difference_of _ _ = ''the candidate identifier tie-break''"

definition first_difference :: "score_tuple \<Rightarrow> score_tuple \<Rightarrow> string" where
  "first_difference left right =
     difference_of (score_components left) (score_components right)"

definition build_rationale :: "ranked_candidate list \<Rightarrow> candidate_id option \<Rightarrow> string list" where
  "build_rationale entries winner =
     (let eligible_count = length (filter rk_eligible entries);
          opening = nat_dec eligible_count @ '' of '' @ nat_dec (length entries)
            @ '' candidates satisfied every required gate.''
      in case winner of
           None \<Rightarrow> [opening, ''No candidate was eligible, so no winner was selected.'']
         | Some winner_id \<Rightarrow>
             (case find (\<lambda>entry. rk_candidate_id entry = winner_id) entries of
                None \<Rightarrow> [opening]
              | Some winning_entry \<Rightarrow>
                  (case rk_score winning_entry of
                     None \<Rightarrow> [opening]
                   | Some winning_score \<Rightarrow>
                       (let runner_up = List.map_filter rk_score
                              (filter (\<lambda>entry. rk_eligible entry \<and> rk_candidate_id entry \<noteq> winner_id)
                                entries);
                            decision = (case runner_up of
                              other # _ \<Rightarrow>
                                ''Candidate '' @ winner_id
                                @ '' ranked first on the deterministic tuple, decided by ''
                                @ first_difference winning_score other @ ''.''
                            | [] \<Rightarrow>
                                ''Candidate '' @ winner_id
                                @ '' was the only eligible candidate and satisfied every required gate.'')
                        in [opening, decision]
                           @ map (\<lambda>c. sc_label c @ '': '' @ sc_value c)
                               (score_components winning_score)))))"

definition rank_candidates :: "ranked_candidate list \<Rightarrow> ranking" where
  "rank_candidates es =
     (let entries = assign_ranks 0 (sort_key ranked_key es);
          winner = map_option rk_candidate_id (find (\<lambda>entry. rk_rank entry = Some 1) entries)
      in \<lparr>rg_entries = entries, rg_winner = winner, rg_rationale = build_rationale entries winner\<rparr>)"

section \<open>What the ranking guarantees\<close>

definition unranked :: "ranked_candidate \<Rightarrow> ranked_candidate" where
  "unranked e = e\<lparr>rk_rank := None\<rparr>"

lemma unranked_simps [simp]:
  "rk_candidate_id (unranked e) = rk_candidate_id e" "rk_eligible (unranked e) = rk_eligible e"
  "rk_score (unranked e) = rk_score e" "rankable (unranked e) = rankable e"
  "ranked_key (unranked e) = ranked_key e" "unranked (e\<lparr>rk_rank := r\<rparr>) = unranked e"
  by (simp_all add: unranked_def rankable_def ranked_key_def split: option.split)

lemma unranked_assign_ranks: "map unranked (assign_ranks c es) = map unranked es"
  by (induction es arbitrary: c) simp_all

text \<open>The counter before position \<open>i\<close> counts the ranked entries above it.\<close>

lemma assign_ranks_nth:
  "i < length es \<Longrightarrow>
     assign_ranks c es ! i =
       (es ! i)\<lparr>rk_rank := if rankable (es ! i)
          then Some (c + of_nat (length (filter rankable (take (Suc i) es)))) else None\<rparr>"
proof (induction es arbitrary: c i)
  case (Cons e es)
  then show ?case by (cases i) (simp_all add: algebra_simps)
qed simp

lemma length_assign_ranks [simp]: "length (assign_ranks c es) = length es"
  by (induction es arbitrary: c) simp_all

lemma find_first_ranked:
  "map_option unranked (find (\<lambda>e. rk_rank e = Some (c + 1)) (assign_ranks c es))
     = map_option unranked (find rankable es)"
  by (induction es) simp_all

lemma ranking_winner_first:
  "rg_winner (rank_candidates es)
     = map_option rk_candidate_id (find rankable (sort_key ranked_key es))"
proof -
  have "map_option rk_candidate_id
      (map_option unranked (find (\<lambda>e. rk_rank e = Some 1) (assign_ranks 0 ss)))
      = map_option rk_candidate_id (map_option unranked (find rankable ss))" for ss
    using find_first_ranked [of 0 ss] by simp
  then show ?thesis
    by (simp add: rank_candidates_def Let_def option.map_comp comp_def)
qed

lemma find_sorted_least:
  assumes "sorted (map k xs)" and "find p xs = Some x" and "y \<in> set xs" and "p y"
  shows "k x \<le> k y"
  using assms by (induction xs) (auto split: if_splits)

lemma ranking_winner_least:
  assumes "rg_winner (rank_candidates es) = Some w"
  shows "\<exists>e \<in> set es. rk_candidate_id e = w \<and> rankable e
           \<and> (\<forall>d \<in> set es. rankable d \<longrightarrow> the (rk_score e) \<le> the (rk_score d))"
proof -
  from assms obtain e where e: "find rankable (sort_key ranked_key es) = Some e"
      and w: "rk_candidate_id e = w"
    unfolding ranking_winner_first by auto
  from find_SomeD [OF e] have "e \<in> set es" and r: "rankable e" by simp_all
  moreover have "the (rk_score e) \<le> the (rk_score d)" if "d \<in> set es" "rankable d" for d
  proof -
    have "ranked_key e \<le> ranked_key d"
      by (rule find_sorted_least [OF _ e]) (use that in auto)
    then show ?thesis using r that(2)
      by (auto simp: rankable_def ranked_key_def less_eq_entry_key_def)
  qed
  ultimately show ?thesis using w by blast
qed

lemma ranking_winner_exists:
  "rg_winner (rank_candidates es) \<noteq> None \<longleftrightarrow> (\<exists>e \<in> set es. rankable e)"
proof -
  have "find rankable (sort_key ranked_key es) = None \<longleftrightarrow> (\<forall>e \<in> set es. \<not> rankable e)"
    by (simp add: find_None_iff_set)
  then show ?thesis by (auto simp: ranking_winner_first)
qed

lemma ranking_entries_permutation:
  "mset (map unranked (rg_entries (rank_candidates es))) = mset (map unranked es)"
  by (simp add: rank_candidates_def Let_def unranked_assign_ranks)

lemma ranking_entries_sorted: "sorted (map ranked_key (rg_entries (rank_candidates es)))"
proof -
  have "map ranked_key (assign_ranks c ss) = map ranked_key ss" for c ss
  proof -
    have "map ranked_key (assign_ranks c ss) = map ranked_key (map unranked (assign_ranks c ss))"
      by simp
    also have "\<dots> = map ranked_key ss" by (simp add: unranked_assign_ranks)
    finally show ?thesis .
  qed
  then show ?thesis by (simp add: rank_candidates_def Let_def)
qed

text \<open>Distinct identifiers make the keys distinct: the score ends with the identifier.\<close>

definition scores_named :: "ranked_candidate list \<Rightarrow> bool" where
  "scores_named es \<longleftrightarrow>
     (\<forall>e \<in> set es. \<forall>s. rk_score e = Some s \<longrightarrow> score_candidate_id s = rk_candidate_id e)"

lemma ranked_key_inj:
  assumes "distinct (map rk_candidate_id es)" and "scores_named es"
  shows "inj_on ranked_key (set es)"
proof (rule inj_onI)
  fix d e assume de: "d \<in> set es" "e \<in> set es" and eq: "ranked_key d = ranked_key e"
  have "rk_candidate_id d = rk_candidate_id e"
    using eq de assms(2) unfolding ranked_key_def scores_named_def
    by (metis (no_types, lifting) entry_key.distinct(1) entry_key.inject option.case_eq_if
        option.collapse)
  then show "d = e" using assms(1) de by (auto simp: distinct_map inj_on_def)
qed

lemma ranking_order_independent:
  assumes "mset es = mset fs" and "distinct (map rk_candidate_id es)" and "scores_named es"
  shows "rank_candidates es = rank_candidates fs"
proof -
  have "sort_key ranked_key es = sort_key ranked_key fs"
    by (rule sort_key_mset_cong [OF assms(1) ranked_key_inj [OF assms(2,3)]])
  then show ?thesis by (simp add: rank_candidates_def)
qed

lemma rankable_with_rank [simp]: "rankable (e\<lparr>rk_rank := r\<rparr>) = rankable e"
  by (simp add: rankable_def)

lemma rankable_assign_ranks: "map rankable (assign_ranks c es) = map rankable es"
  by (induction es arbitrary: c) simp_all

lemma length_filter_map: "length (filter p xs) = length (filter id (map p xs))"
  by (induction xs) simp_all

lemma ranking_ranks_count:
  "map rk_rank (rg_entries (rank_candidates es))
     = map (\<lambda>i. if rankable (rg_entries (rank_candidates es) ! i)
               then Some (of_nat (length (filter rankable
                      (take (i + 1) (rg_entries (rank_candidates es))))))
               else None)
         [0..<length es]"
proof -
  let ?s = "sort_key ranked_key es"
  have entries: "rg_entries (rank_candidates es) = assign_ranks 0 ?s"
    by (simp add: rank_candidates_def Let_def)
  have counts: "length (filter rankable (take n (assign_ranks 0 ?s)))
      = length (filter rankable (take n ?s))" for n
    unfolding length_filter_map [of rankable] take_map [symmetric] rankable_assign_ranks ..
  show ?thesis
    unfolding entries
    by (rule nth_equalityI) (simp_all add: counts assign_ranks_nth)
qed

end
