(* ===== verification/Forge_Run.thy ===== *)
theory Forge_Run
  imports Forge_Vocabulary
begin

text \<open>
  \<open>crates/domain/src/run.rs\<close>: the run status machine, the commit policy and the candidate
  strategies. The status machine is an instance of the transition-table contract and the three
  string forms are instances of the string-enumeration contract of Forge_Vocabulary.
\<close>

section \<open>Run status\<close>

definition run_status_all :: "run_status list" where
  "run_status_all =
     [Created, Validating, Planning, AwaitingPlanApproval, RunningCandidates, Joining,
      Integrating, AwaitingCommitApproval, Succeeded, Exhausted, Failed, run_status.Cancelled,
      RecoveryRequired]"

primrec run_status_as_str :: "run_status \<Rightarrow> string" where
  "run_status_as_str Created = ''created''"
| "run_status_as_str Validating = ''validating''"
| "run_status_as_str Planning = ''planning''"
| "run_status_as_str AwaitingPlanApproval = ''awaiting_plan_approval''"
| "run_status_as_str RunningCandidates = ''running_candidates''"
| "run_status_as_str Joining = ''joining''"
| "run_status_as_str Integrating = ''integrating''"
| "run_status_as_str AwaitingCommitApproval = ''awaiting_commit_approval''"
| "run_status_as_str Succeeded = ''succeeded''"
| "run_status_as_str Exhausted = ''exhausted''"
| "run_status_as_str Failed = ''failed''"
| "run_status_as_str run_status.Cancelled = ''cancelled''"
| "run_status_as_str RecoveryRequired = ''recovery_required''"

primrec run_status_label :: "run_status \<Rightarrow> string" where
  "run_status_label Created = ''Created''"
| "run_status_label Validating = ''Validating''"
| "run_status_label Planning = ''Planning''"
| "run_status_label AwaitingPlanApproval = ''Awaiting plan approval''"
| "run_status_label RunningCandidates = ''Running candidates''"
| "run_status_label Joining = ''Joining''"
| "run_status_label Integrating = ''Integrating''"
| "run_status_label AwaitingCommitApproval = ''Awaiting commit approval''"
| "run_status_label Succeeded = ''Succeeded''"
| "run_status_label Exhausted = ''Exhausted''"
| "run_status_label Failed = ''Failed''"
| "run_status_label run_status.Cancelled = ''Cancelled''"
| "run_status_label RecoveryRequired = ''Recovery required''"

definition run_is_terminal :: "run_status \<Rightarrow> bool" where
  "run_is_terminal s \<longleftrightarrow>
     (case s of Succeeded \<Rightarrow> True | Exhausted \<Rightarrow> True | Failed \<Rightarrow> True
      | run_status.Cancelled \<Rightarrow> True | _ \<Rightarrow> False)"

definition run_is_paused :: "run_status \<Rightarrow> bool" where
  "run_is_paused s \<longleftrightarrow>
     (case s of AwaitingPlanApproval \<Rightarrow> True | AwaitingCommitApproval \<Rightarrow> True
      | RecoveryRequired \<Rightarrow> True | _ \<Rightarrow> False)"

definition run_is_active :: "run_status \<Rightarrow> bool" where
  "run_is_active s \<longleftrightarrow> \<not> run_is_terminal s \<and> \<not> run_is_paused s"

primrec run_allowed_next :: "run_status \<Rightarrow> run_status list" where
  "run_allowed_next Created = [Validating, run_status.Cancelled, Failed, RecoveryRequired]"
| "run_allowed_next Validating = [Planning, Failed, run_status.Cancelled, RecoveryRequired]"
| "run_allowed_next Planning =
     [AwaitingPlanApproval, Failed, run_status.Cancelled, RecoveryRequired]"
| "run_allowed_next AwaitingPlanApproval =
     [Planning, RunningCandidates, run_status.Cancelled, Failed, RecoveryRequired]"
| "run_allowed_next RunningCandidates =
     [Joining, run_status.Cancelled, Failed, RecoveryRequired]"
| "run_allowed_next Joining =
     [Integrating, Exhausted, run_status.Cancelled, Failed, RecoveryRequired]"
| "run_allowed_next Integrating =
     [AwaitingCommitApproval, Succeeded, Exhausted, run_status.Cancelled, Failed,
      RecoveryRequired]"
| "run_allowed_next AwaitingCommitApproval =
     [Succeeded, run_status.Cancelled, Failed, RecoveryRequired]"
| "run_allowed_next RecoveryRequired =
     [Validating, Planning, AwaitingPlanApproval, RunningCandidates, Joining, Integrating,
      AwaitingCommitApproval, run_status.Cancelled, Failed]"
| "run_allowed_next Succeeded = []"
| "run_allowed_next Exhausted = []"
| "run_allowed_next Failed = []"
| "run_allowed_next run_status.Cancelled = []"

definition run_transition_to :: "run_status \<Rightarrow> run_status \<Rightarrow> run_status domain_result" where
  "run_transition_to self next =
     (if self = next then Inr next
      else if next \<in> set (run_allowed_next self) then Inr next
      else Inl (IllegalRunTransition self next))"

definition run_status_from_str :: "string \<Rightarrow> run_status domain_result" where
  "run_status_from_str =
     parse_by run_status_all run_status_as_str (InvalidIdentifier ''RunStatus'')"

interpretation run_strings: string_enum run_status_all run_status_as_str
    "InvalidIdentifier ''RunStatus''"
proof unfold_locales
  fix x :: run_status show "x \<in> set run_status_all" by (cases x) (simp_all add: run_status_all_def)
qed (simp add: run_status_all_def)

interpretation run_machine: transition_table run_allowed_next run_transition_to
    IllegalRunTransition
  by unfold_locales (simp add: run_transition_to_def)

lemma run_is_terminal_simps [status_simps, simp]:
  "run_is_terminal Created = False" "run_is_terminal Validating = False"
  "run_is_terminal Planning = False" "run_is_terminal AwaitingPlanApproval = False"
  "run_is_terminal RunningCandidates = False" "run_is_terminal Joining = False"
  "run_is_terminal Integrating = False" "run_is_terminal AwaitingCommitApproval = False"
  "run_is_terminal RecoveryRequired = False" "run_is_terminal Succeeded = True"
  "run_is_terminal Exhausted = True" "run_is_terminal Failed = True"
  "run_is_terminal run_status.Cancelled = True"
  by (simp_all add: run_is_terminal_def)

lemma run_terminal_iff_stuck: "run_is_terminal s \<longleftrightarrow> run_allowed_next s = []"
  by (cases s) simp_all

lemma run_cancellable: "\<not> run_is_terminal s \<Longrightarrow> run_transition_to s run_status.Cancelled = Inr run_status.Cancelled"
  by (cases s) (simp_all add: run_transition_to_def)

lemma run_failable: "\<not> run_is_terminal s \<Longrightarrow> run_transition_to s Failed = Inr Failed"
  by (cases s) (simp_all add: run_transition_to_def)

lemma run_terminal_absorbing:
  "run_is_terminal s \<Longrightarrow> run_transition_to s t = Inr u \<Longrightarrow> t = s \<and> u = s"
  by (auto simp: run_machine.transition_Inr run_terminal_iff_stuck)

lemma run_classes:
  "(run_is_terminal s \<and> \<not> run_is_paused s \<and> \<not> run_is_active s)
   \<or> (\<not> run_is_terminal s \<and> run_is_paused s \<and> \<not> run_is_active s)
   \<or> (\<not> run_is_terminal s \<and> \<not> run_is_paused s \<and> run_is_active s)"
  by (cases s) (simp_all add: run_is_paused_def run_is_active_def)

section \<open>Commit policy\<close>

text \<open>The variant \<open>CommitPolicy::None\<close> is written \<open>NoCommit\<close>.\<close>

datatype commit_policy = Manual | Automatic | NoCommit

primrec commit_policy_as_str :: "commit_policy \<Rightarrow> string" where
  "commit_policy_as_str Manual = ''manual''"
| "commit_policy_as_str Automatic = ''automatic''"
| "commit_policy_as_str NoCommit = ''none''"

definition commit_policy_from_str :: "string \<Rightarrow> commit_policy domain_result" where
  "commit_policy_from_str value =
     (if value = ''manual'' then Inr Manual
      else if value = ''automatic'' then Inr Automatic
      else if value = ''none'' then Inr NoCommit
      else Inl (InvalidIdentifier ''CommitPolicy'' value))"

lemma commit_policy_round_trip: "commit_policy_from_str (commit_policy_as_str p) = Inr p"
  by (cases p) (simp_all add: commit_policy_from_str_def)

section \<open>Candidate strategy\<close>

datatype candidate_strategy = MinimalPatch | TestLed | ArchitectureAware

definition strategy_rotation :: "candidate_strategy list" where
  "strategy_rotation = [MinimalPatch, TestLed, ArchitectureAware]"

definition strategy_for_ordinal :: "u8 \<Rightarrow> candidate_strategy" where
  "strategy_for_ordinal ordinal =
     (let index = unat (sat_sub ordinal 1) mod length strategy_rotation
      in strategy_rotation ! index)"

primrec strategy_as_str :: "candidate_strategy \<Rightarrow> string" where
  "strategy_as_str MinimalPatch = ''minimal_patch''"
| "strategy_as_str TestLed = ''test_led''"
| "strategy_as_str ArchitectureAware = ''architecture_aware''"

primrec strategy_label :: "candidate_strategy \<Rightarrow> string" where
  "strategy_label MinimalPatch = ''Minimal patch''"
| "strategy_label TestLed = ''Test led''"
| "strategy_label ArchitectureAware = ''Architecture aware''"

primrec strategy_emphasis :: "candidate_strategy \<Rightarrow> string" where
  "strategy_emphasis MinimalPatch =
     ''Favour the smallest safe change that satisfies the approved plan.''"
| "strategy_emphasis TestLed =
     ''Drive the change from failing and regression tests before adjusting production code.''"
| "strategy_emphasis ArchitectureAware =
     ''Favour consistency with the existing abstractions and long-term maintainability.''"

definition strategy_from_str :: "string \<Rightarrow> candidate_strategy domain_result" where
  "strategy_from_str =
     parse_by strategy_rotation strategy_as_str (InvalidIdentifier ''CandidateStrategy'')"

interpretation strategy_strings: string_enum strategy_rotation strategy_as_str
    "InvalidIdentifier ''CandidateStrategy''"
proof unfold_locales
  fix x :: candidate_strategy
  show "x \<in> set strategy_rotation" by (cases x) (simp_all add: strategy_rotation_def)
qed (simp add: strategy_rotation_def)

text \<open>Three consecutive candidates always receive the three different strategies.\<close>

lemma strategy_for_ordinal_nth:
  "unat n = k + 1 \<Longrightarrow> strategy_for_ordinal n = strategy_rotation ! (k mod 3)"
  by (simp add: strategy_for_ordinal_def unat_sat_sub strategy_rotation_def)

lemma strategies_rotate:
  assumes "unat a = k + 1" and "unat b = k + 2" and "unat c = k + 3"
  shows "set [strategy_for_ordinal a, strategy_for_ordinal b, strategy_for_ordinal c] = UNIV"
proof -
  have b: "unat b = (k + 1) + 1" and c: "unat c = (k + 2) + 1" using assms by simp_all
  have "(k mod 3 = 0 \<and> (k + 1) mod 3 = 1 \<and> (k + 2) mod 3 = 2)
      \<or> (k mod 3 = 1 \<and> (k + 1) mod 3 = 2 \<and> (k + 2) mod 3 = 0)
      \<or> (k mod 3 = 2 \<and> (k + 1) mod 3 = 0 \<and> (k + 2) mod 3 = 1)" by presburger
  then have "set [strategy_rotation ! (k mod 3), strategy_rotation ! ((k + 1) mod 3),
      strategy_rotation ! ((k + 2) mod 3)] = {MinimalPatch, TestLed, ArchitectureAware}"
    by (elim disjE conjE; simp only:) (auto simp: strategy_rotation_def numeral_2_eq_2)
  moreover have "{MinimalPatch, TestLed, ArchitectureAware} = UNIV"
    using candidate_strategy.exhaust by blast
  ultimately show ?thesis
    using strategy_for_ordinal_nth [OF assms(1)] strategy_for_ordinal_nth [OF b]
      strategy_for_ordinal_nth [OF c] by simp
qed

end
