(* ===== verification/Forge_Candidate.thy ===== *)
theory Forge_Candidate
  imports Forge_Ranking Forge_Run
begin

text \<open>
  \<open>crates/domain/src/candidate.rs\<close>, and \<open>ScoreTuple::build\<close> of \<open>score.rs\<close>, which reads a
  candidate: the status machine of a candidate, its record, its repair budget and the score
  its evidence yields.
\<close>

section \<open>Candidate status\<close>

definition candidate_status_all :: "candidate_status list" where
  "candidate_status_all =
     [Pending, Preparing, Implementing, Testing, Reviewing, Repairing, Eligible, Ineligible,
      candidate_status.Interrupted, candidate_status.Cancelled]"

primrec candidate_status_as_str :: "candidate_status \<Rightarrow> string" where
  "candidate_status_as_str Pending = ''pending''"
| "candidate_status_as_str Preparing = ''preparing''"
| "candidate_status_as_str Implementing = ''implementing''"
| "candidate_status_as_str Testing = ''testing''"
| "candidate_status_as_str Reviewing = ''reviewing''"
| "candidate_status_as_str Repairing = ''repairing''"
| "candidate_status_as_str Eligible = ''eligible''"
| "candidate_status_as_str Ineligible = ''ineligible''"
| "candidate_status_as_str candidate_status.Interrupted = ''interrupted''"
| "candidate_status_as_str candidate_status.Cancelled = ''cancelled''"

primrec candidate_status_label :: "candidate_status \<Rightarrow> string" where
  "candidate_status_label Pending = ''Pending''"
| "candidate_status_label Preparing = ''Preparing''"
| "candidate_status_label Implementing = ''Implementing''"
| "candidate_status_label Testing = ''Testing''"
| "candidate_status_label Reviewing = ''Reviewing''"
| "candidate_status_label Repairing = ''Repairing''"
| "candidate_status_label Eligible = ''Eligible''"
| "candidate_status_label Ineligible = ''Ineligible''"
| "candidate_status_label candidate_status.Interrupted = ''Interrupted''"
| "candidate_status_label candidate_status.Cancelled = ''Cancelled''"

definition candidate_is_terminal :: "candidate_status \<Rightarrow> bool" where
  "candidate_is_terminal s \<longleftrightarrow>
     (case s of Eligible \<Rightarrow> True | Ineligible \<Rightarrow> True | candidate_status.Cancelled \<Rightarrow> True
      | _ \<Rightarrow> False)"

primrec candidate_allowed_next :: "candidate_status \<Rightarrow> candidate_status list" where
  "candidate_allowed_next Pending = [Preparing, candidate_status.Cancelled, Ineligible]"
| "candidate_allowed_next Preparing =
     [Implementing, Ineligible, candidate_status.Interrupted, candidate_status.Cancelled]"
| "candidate_allowed_next Implementing =
     [Testing, Ineligible, candidate_status.Interrupted, candidate_status.Cancelled]"
| "candidate_allowed_next Testing =
     [Reviewing, Repairing, Ineligible, candidate_status.Interrupted,
      candidate_status.Cancelled]"
| "candidate_allowed_next Reviewing =
     [Eligible, Repairing, Ineligible, candidate_status.Interrupted, candidate_status.Cancelled]"
| "candidate_allowed_next Repairing =
     [Testing, Ineligible, candidate_status.Interrupted, candidate_status.Cancelled]"
| "candidate_allowed_next candidate_status.Interrupted =
     [Preparing, Implementing, Testing, Reviewing, Repairing, Ineligible,
      candidate_status.Cancelled]"
| "candidate_allowed_next Eligible = [Ineligible]"
| "candidate_allowed_next Ineligible = []"
| "candidate_allowed_next candidate_status.Cancelled = []"

definition candidate_transition_to ::
    "candidate_status \<Rightarrow> candidate_status \<Rightarrow> candidate_status domain_result" where
  "candidate_transition_to self next =
     (if self = next then Inr next
      else if next \<in> set (candidate_allowed_next self) then Inr next
      else Inl (IllegalCandidateTransition self next))"

definition candidate_status_from_str :: "string \<Rightarrow> candidate_status domain_result" where
  "candidate_status_from_str =
     parse_by candidate_status_all candidate_status_as_str (InvalidIdentifier ''CandidateStatus'')"

interpretation candidate_strings: string_enum candidate_status_all candidate_status_as_str
    "InvalidIdentifier ''CandidateStatus''"
proof unfold_locales
  fix x :: candidate_status
  show "x \<in> set candidate_status_all" by (cases x) (simp_all add: candidate_status_all_def)
qed (simp add: candidate_status_all_def)

interpretation candidate_machine: transition_table candidate_allowed_next candidate_transition_to
    IllegalCandidateTransition
  by unfold_locales (simp add: candidate_transition_to_def)

lemma candidate_is_terminal_simps [status_simps, simp]:
  "candidate_is_terminal Pending = False" "candidate_is_terminal Preparing = False"
  "candidate_is_terminal Implementing = False" "candidate_is_terminal Testing = False"
  "candidate_is_terminal Reviewing = False" "candidate_is_terminal Repairing = False"
  "candidate_is_terminal candidate_status.Interrupted = False"
  "candidate_is_terminal Eligible = True" "candidate_is_terminal Ineligible = True"
  "candidate_is_terminal candidate_status.Cancelled = True"
  by (simp_all add: candidate_is_terminal_def)

lemma candidate_terminal_next:
  "candidate_is_terminal s \<Longrightarrow> candidate_transition_to s t = Inr u \<Longrightarrow>
     u = s \<or> (s = Eligible \<and> u = Ineligible)"
  by (cases s) (auto simp: candidate_machine.transition_Inr)

text \<open>Only a reviewed candidate becomes eligible.\<close>

lemma candidate_eligible_from:
  "candidate_transition_to s Eligible = Inr u \<Longrightarrow> s = Reviewing \<or> s = Eligible"
  by (cases s) (auto simp: candidate_machine.transition_Inr)

lemma candidate_excludable:
  "s \<noteq> candidate_status.Cancelled \<Longrightarrow> candidate_transition_to s Ineligible = Inr Ineligible"
  by (cases s) (simp_all add: candidate_transition_to_def)

lemma candidate_cancellable:
  "\<not> candidate_is_terminal s \<Longrightarrow>
     candidate_transition_to s candidate_status.Cancelled = Inr candidate_status.Cancelled"
  by (cases s) (simp_all add: candidate_transition_to_def)

section \<open>The candidate record\<close>

record candidate_record =
  cr_id :: candidate_id
  cr_ordinal :: candidate_ordinal
  cr_strategy :: candidate_strategy
  cr_status :: candidate_status
  cr_baseline_commit :: commit_hash
  cr_branch :: string
  cr_worktree_relative_path :: string
  cr_repairs_used :: u32
  cr_repair_budget :: u32
  cr_changed_lines :: u64
  cr_changed_files :: u32
  cr_diff_digest :: "content_digest option"
  cr_started_at :: "timestamp option"
  cr_finished_at :: "timestamp option"
  cr_gate_duration :: duration_ms
  cr_last_failure_fingerprint :: "string option"
  cr_repeated_fingerprint_count :: u32
  cr_score :: "score_tuple option"
  cr_exclusion_reasons :: "exclusion_reason list"
  cr_promotable :: bool
  cr_integration_attempted :: bool

definition candidate_record_new ::
    "candidate_id \<Rightarrow> candidate_ordinal \<Rightarrow> candidate_strategy \<Rightarrow> commit_hash \<Rightarrow> string \<Rightarrow> string
      \<Rightarrow> u32 \<Rightarrow> candidate_record" where
  "candidate_record_new candidate_id ordinal strategy baseline_commit branch
      worktree_relative_path repair_budget =
     \<lparr>cr_id = candidate_id, cr_ordinal = ordinal, cr_strategy = strategy, cr_status = Pending,
      cr_baseline_commit = baseline_commit, cr_branch = branch,
      cr_worktree_relative_path = worktree_relative_path, cr_repairs_used = 0,
      cr_repair_budget = repair_budget, cr_changed_lines = 0, cr_changed_files = 0,
      cr_diff_digest = None, cr_started_at = None, cr_finished_at = None, cr_gate_duration = 0,
      cr_last_failure_fingerprint = None, cr_repeated_fingerprint_count = 0, cr_score = None,
      cr_exclusion_reasons = [], cr_promotable = True, cr_integration_attempted = False\<rparr>"

definition repair_budget_remaining :: "candidate_record \<Rightarrow> u32" where
  "repair_budget_remaining self = sat_sub (cr_repair_budget self) (cr_repairs_used self)"

definition has_repair_budget :: "candidate_record \<Rightarrow> bool" where
  "has_repair_budget self \<longleftrightarrow>
     repair_budget_remaining self > 0 \<and> cr_repeated_fingerprint_count self < 2"

definition observe_failure_fingerprint :: "string \<Rightarrow> candidate_record \<Rightarrow> candidate_record" where
  "observe_failure_fingerprint fingerprint self =
     self\<lparr>cr_repeated_fingerprint_count :=
            (if cr_last_failure_fingerprint self = Some fingerprint
             then sat_add (cr_repeated_fingerprint_count self) 1 else 0),
          cr_last_failure_fingerprint := Some fingerprint\<rparr>"

lemma has_repair_budget_iff:
  "has_repair_budget c \<longleftrightarrow>
     unat (cr_repairs_used c) < unat (cr_repair_budget c)
     \<and> unat (cr_repeated_fingerprint_count c) < 2"
  by (auto simp: has_repair_budget_def repair_budget_remaining_def word_less_nat_alt unat_sat_sub)

text \<open>The same failure three times in a row ends the repairs of a candidate.\<close>

lemma repeated_failure_stops_repair:
  "\<not> has_repair_budget (observe_failure_fingerprint f (observe_failure_fingerprint f
       (observe_failure_fingerprint f c)))"
  by (simp add: has_repair_budget_iff observe_failure_fingerprint_def unat_sat_add)

lemma new_failure_resets_count:
  "cr_last_failure_fingerprint c \<noteq> Some f \<Longrightarrow>
     cr_repeated_fingerprint_count (observe_failure_fingerprint f c) = 0"
  by (simp add: observe_failure_fingerprint_def)

section \<open>The score of a candidate\<close>

definition score_build ::
    "candidate_record \<Rightarrow> aggregated_review \<Rightarrow> test_evidence \<Rightarrow> score_tuple" where
  "score_build candidate review tests =
     (let coverage = (case review_line_coverage_percent review of
                        Some v \<Rightarrow> Some v | None \<Rightarrow> te_line_coverage_percent tests)
      in ScoreTuple
           (issue_count review Blocker) (issue_count review Critical)
           (issue_count review High) (issue_count review Medium)
           (weighted_new_score review Security) (weighted_new_score review Reliability)
           (weighted_new_score review Maintainability)
           (coverage_from_percent coverage) (test_integrity_penalty review)
           (cr_changed_lines candidate) (cr_repairs_used candidate)
           (cr_gate_duration candidate) (cr_id candidate))"

lemma score_build_named: "score_candidate_id (score_build c r t) = cr_id c"
  by (simp add: score_build_def Let_def)

text \<open>Fewer blockers beat every later component.\<close>

lemma score_blockers_decide:
  "blocker_issues a < blocker_issues b \<Longrightarrow> a < b"
  by (simp add: less_score_tuple_def score_key_def)

end
