(* ===== verification/Forge_Failure.thy ===== *)
theory Forge_Failure
  imports Forge_Clock Forge_Graph
begin

text \<open>
  \<open>failure.rs\<close>, \<open>retry.rs\<close> and \<open>budget.rs\<close> of \<open>crates/domain/src\<close>: the failure classes, the
  backoff of automatic retries, the decision what a failed node leads to, the node timeouts
  and the limits of a run.
\<close>

section \<open>Failure classes\<close>

datatype failure_class =
    TaskFailure
  | TransientInfrastructure
  | PermanentConfiguration
  | PolicyViolation
  | UserActionRequired
  | Cancelled
  | InternalInvariant

definition failure_class_all :: "failure_class list" where
  "failure_class_all =
     [TaskFailure, TransientInfrastructure, PermanentConfiguration, PolicyViolation,
      UserActionRequired, failure_class.Cancelled, InternalInvariant]"

primrec failure_class_as_str :: "failure_class \<Rightarrow> string" where
  "failure_class_as_str TaskFailure = ''task_failure''"
| "failure_class_as_str TransientInfrastructure = ''transient_infrastructure''"
| "failure_class_as_str PermanentConfiguration = ''permanent_configuration''"
| "failure_class_as_str PolicyViolation = ''policy_violation''"
| "failure_class_as_str UserActionRequired = ''user_action_required''"
| "failure_class_as_str failure_class.Cancelled = ''cancelled''"
| "failure_class_as_str InternalInvariant = ''internal_invariant''"

primrec failure_class_label :: "failure_class \<Rightarrow> string" where
  "failure_class_label TaskFailure = ''Task failure''"
| "failure_class_label TransientInfrastructure = ''Transient infrastructure failure''"
| "failure_class_label PermanentConfiguration = ''Permanent configuration failure''"
| "failure_class_label PolicyViolation = ''Policy violation''"
| "failure_class_label UserActionRequired = ''User action required''"
| "failure_class_label failure_class.Cancelled = ''Cancelled''"
| "failure_class_label InternalInvariant = ''Internal invariant violation''"

definition is_automatically_retryable :: "failure_class \<Rightarrow> bool" where
  "is_automatically_retryable c \<longleftrightarrow> c = TransientInfrastructure"

definition routes_to_repair :: "failure_class \<Rightarrow> bool" where
  "routes_to_repair c \<longleftrightarrow> c = TaskFailure"

definition requires_user_action :: "failure_class \<Rightarrow> bool" where
  "requires_user_action c \<longleftrightarrow> c = UserActionRequired"

definition failure_class_from_str :: "string \<Rightarrow> failure_class domain_result" where
  "failure_class_from_str =
     parse_by failure_class_all failure_class_as_str (InvalidIdentifier ''FailureClass'')"

interpretation failure_strings: string_enum failure_class_all failure_class_as_str
    "InvalidIdentifier ''FailureClass''"
proof unfold_locales
  fix x :: failure_class
  show "x \<in> set failure_class_all" by (cases x) (simp_all add: failure_class_all_def)
qed (simp add: failure_class_all_def)

record node_failure =
  nf_class :: failure_class
  nf_code :: string
  nf_message :: string
  nf_remedy :: "string option"
  nf_evidence_reference :: "string option"
  nf_fingerprint :: "string option"

definition node_failure_new :: "failure_class \<Rightarrow> string \<Rightarrow> string \<Rightarrow> node_failure" where
  "node_failure_new class code message =
     \<lparr>nf_class = class, nf_code = code, nf_message = message, nf_remedy = None,
      nf_evidence_reference = None, nf_fingerprint = None\<rparr>"

definition with_remedy :: "string \<Rightarrow> node_failure \<Rightarrow> node_failure" where
  "with_remedy remedy f = f\<lparr>nf_remedy := Some remedy\<rparr>"

definition with_evidence_reference :: "string \<Rightarrow> node_failure \<Rightarrow> node_failure" where
  "with_evidence_reference reference f = f\<lparr>nf_evidence_reference := Some reference\<rparr>"

definition with_fingerprint :: "string \<Rightarrow> node_failure \<Rightarrow> node_failure" where
  "with_fingerprint fingerprint f = f\<lparr>nf_fingerprint := Some fingerprint\<rparr>"

definition node_failure_display :: "node_failure \<Rightarrow> string" where
  "node_failure_display f =
     ''['' @ failure_class_as_str (nf_class f) @ ''] '' @ nf_code f @ '': '' @ nf_message f"

section \<open>Retries\<close>

record retry_policy =
  rt_maximum_attempts :: u32
  rt_initial_delay_ms :: u64
  rt_multiplier :: u32
  rt_maximum_delay_ms :: u64

definition retry_policy_default :: retry_policy where
  "retry_policy_default =
     \<lparr>rt_maximum_attempts = 3, rt_initial_delay_ms = 500, rt_multiplier = 2,
      rt_maximum_delay_ms = 8000\<rparr>"

text \<open>The delays are \<open>Duration::from_millis\<close> of the value returned here.\<close>

definition base_delay :: "retry_policy \<Rightarrow> u32 \<Rightarrow> u64" where
  "base_delay self attempt =
     (let exponent = min (sat_sub attempt 1) 16;
          multiplier = sat_pow (ucast (rt_multiplier self) :: u64) (unat exponent);
          delay = sat_mul (rt_initial_delay_ms self) multiplier
      in min delay (rt_maximum_delay_ms self))"

definition delay_with_jitter :: "retry_policy \<Rightarrow> u32 \<Rightarrow> f64 \<Rightarrow> u64" where
  "delay_with_jitter self attempt jitter_fraction =
     (let base = f64_of_nat (unat (base_delay self attempt));
          bounded = f64_clamp jitter_fraction (Finite False 0) (Finite False 1)
      in f64_as_u64 (f64_mul base bounded))"

definition permits_attempt :: "retry_policy \<Rightarrow> u32 \<Rightarrow> bool" where
  "permits_attempt self attempt \<longleftrightarrow> attempt < rt_maximum_attempts self"

datatype retry_decision =
    RetrySameNode
  | RouteToRepair
  | PauseForUser
  | FailRun
  | FailCandidate
  | Cancel

primrec retry_decision_as_str :: "retry_decision \<Rightarrow> string" where
  "retry_decision_as_str RetrySameNode = ''retry_same_node''"
| "retry_decision_as_str RouteToRepair = ''route_to_repair''"
| "retry_decision_as_str PauseForUser = ''pause_for_user''"
| "retry_decision_as_str FailRun = ''fail_run''"
| "retry_decision_as_str FailCandidate = ''fail_candidate''"
| "retry_decision_as_str Cancel = ''cancel''"

definition classify_retry ::
    "node_id \<Rightarrow> failure_class \<Rightarrow> u32 \<Rightarrow> retry_policy \<Rightarrow> bool \<Rightarrow> retry_decision" where
  "classify_retry node class attempt policy repair_budget_remaining =
     (case class of
        failure_class.Cancelled \<Rightarrow> Cancel
      | UserActionRequired \<Rightarrow> PauseForUser
      | TransientInfrastructure \<Rightarrow>
          if permits_attempt policy attempt then RetrySameNode
          else if node_scope_of node = CandidateScope then FailCandidate
          else FailRun
      | TaskFailure \<Rightarrow>
          if node_scope_of node = CandidateScope \<and> repair_budget_remaining then RouteToRepair
          else if node_scope_of node = CandidateScope then FailCandidate
          else FailRun
      | PolicyViolation \<Rightarrow>
          if node_scope_of node = CandidateScope then FailCandidate else FailRun
      | PermanentConfiguration \<Rightarrow>
          if node_scope_of node = CandidateScope then FailCandidate else FailRun
      | InternalInvariant \<Rightarrow> FailRun)"

record node_timeouts =
  to_agent_seconds :: u32
  to_command_seconds :: u32
  to_review_seconds :: u32
  to_git_seconds :: u32

definition node_timeouts_default :: node_timeouts where
  "node_timeouts_default =
     \<lparr>to_agent_seconds = 1200, to_command_seconds = 900, to_review_seconds = 600,
      to_git_seconds = 120\<rparr>"

definition timeout_for_node :: "node_timeouts \<Rightarrow> node_id \<Rightarrow> u64" where
  "timeout_for_node self node =
     (let seconds =
        (case node_class_of node of
           Agent \<Rightarrow> to_agent_seconds self
         | Command \<Rightarrow> to_command_seconds self
         | Review \<Rightarrow> to_review_seconds self
         | Git \<Rightarrow> to_git_seconds self
         | Preparation \<Rightarrow> to_git_seconds self
         | Decision \<Rightarrow> to_git_seconds self)
      in ucast seconds)"

subsection \<open>Properties of the retry policy\<close>

lemma base_delay_bounded: "base_delay p n \<le> rt_maximum_delay_ms p"
  by (simp add: base_delay_def Let_def)

lemma unat_widen_32_64: "unat (ucast (w :: u32) :: u64) = unat w"
proof -
  have "unat w < 2 ^ LENGTH(32)" by (rule unsigned_less)
  then show ?thesis by (simp add: unsigned_ucast_eq take_bit_nat_eq_self)
qed

lemma unat_base_delay:
  "unat (base_delay p n) =
     min (min (unat (rt_initial_delay_ms p)
               * min (unat (rt_multiplier p) ^ min (unat n - 1) 16) (2 ^ 64 - 1)) (2 ^ 64 - 1))
         (unat (rt_maximum_delay_ms p))"
  by (simp add: base_delay_def Let_def unat_min unat_sat_sub unat_sat_mul unat_sat_pow
      unat_widen_32_64)

text \<open>The delays never shrink from one attempt to the next while the multiplier is positive.\<close>

lemma base_delay_mono:
  assumes "0 < rt_multiplier p" and "m \<le> n"
  shows "base_delay p m \<le> base_delay p n"
proof -
  have "0 < unat (rt_multiplier p)" using assms(1) by (simp add: word_less_nat_alt)
  moreover have "min (unat m - 1) 16 \<le> min (unat n - 1) (16 :: nat)"
    using assms(2) by (intro min.mono diff_le_mono) (simp_all add: word_le_nat_alt)
  ultimately have "unat (rt_multiplier p) ^ min (unat m - 1) 16
      \<le> unat (rt_multiplier p) ^ min (unat n - 1) 16"
    by (intro power_increasing) simp_all
  then have "unat (base_delay p m) \<le> unat (base_delay p n)"
    unfolding unat_base_delay by (intro min.mono mult_le_mono) simp_all
  then show ?thesis by (simp add: word_le_nat_alt)
qed

lemma classify_retry_same_node_iff:
  "classify_retry node c a p b = RetrySameNode \<longleftrightarrow>
     is_automatically_retryable c \<and> permits_attempt p a"
  by (simp add: classify_retry_def is_automatically_retryable_def split: failure_class.split)

lemma classify_retry_repair_iff:
  "classify_retry node c a p b = RouteToRepair \<longleftrightarrow>
     routes_to_repair c \<and> node_scope_of node = CandidateScope \<and> b"
  by (simp add: classify_retry_def routes_to_repair_def split: failure_class.split)

lemma classify_retry_fail_candidate:
  "classify_retry node c a p b = FailCandidate \<Longrightarrow> node_scope_of node = CandidateScope"
  by (auto simp: classify_retry_def split: failure_class.splits if_splits)

section \<open>Budgets\<close>

definition minimum_candidates :: u8 where "minimum_candidates = 1"
definition maximum_candidates :: u8 where "maximum_candidates = 8"
definition default_candidates :: u8 where "default_candidates = 3"
definition maximum_repairs :: u32 where "maximum_repairs = 10"
definition default_repairs :: u32 where "default_repairs = 3"

lemmas budget_limits = minimum_candidates_def maximum_candidates_def default_candidates_def
  maximum_repairs_def default_repairs_def

definition candidate_count_new :: "u8 \<Rightarrow> u8 domain_result" where
  "candidate_count_new value =
     (if \<not> (minimum_candidates \<le> value \<and> value \<le> maximum_candidates)
      then Inl (CandidateCountOutOfRange (ucast value)) else Inr value)"

record run_budgets =
  bd_candidates :: u8
  bd_max_parallel_candidates :: u8
  bd_max_repairs_per_candidate :: u32
  bd_wall_clock_seconds :: u32
  bd_max_agent_turns :: u32
  bd_max_output_bytes_per_stream :: u64
  bd_max_total_artifact_bytes :: u64

definition run_budgets_default :: run_budgets where
  "run_budgets_default =
     \<lparr>bd_candidates = default_candidates, bd_max_parallel_candidates = default_candidates,
      bd_max_repairs_per_candidate = default_repairs, bd_wall_clock_seconds = 10800,
      bd_max_agent_turns = 40, bd_max_output_bytes_per_stream = 2097152,
      bd_max_total_artifact_bytes = 268435456\<rparr>"

definition run_budgets_validate :: "run_budgets \<Rightarrow> unit domain_result" where
  "run_budgets_validate self =
     (if bd_max_parallel_candidates self = 0
         \<or> maximum_candidates < bd_max_parallel_candidates self
      then Inl (ValueOutOfRange ''max_parallel_candidates''
                  (dec (bd_max_parallel_candidates self)))
      else if maximum_repairs < bd_max_repairs_per_candidate self
      then Inl (ValueOutOfRange ''max_repairs_per_candidate''
                  (dec (bd_max_repairs_per_candidate self)))
      else if bd_wall_clock_seconds self = 0 \<or> 86400 < bd_wall_clock_seconds self
      then Inl (ValueOutOfRange ''wall_clock_seconds'' (dec (bd_wall_clock_seconds self)))
      else if bd_max_agent_turns self = 0 \<or> 500 < bd_max_agent_turns self
      then Inl (ValueOutOfRange ''max_agent_turns'' (dec (bd_max_agent_turns self)))
      else if bd_max_output_bytes_per_stream self < 4096
      then Inl (ValueOutOfRange ''max_output_bytes_per_stream''
                  (dec (bd_max_output_bytes_per_stream self)))
      else Inr ())"

definition effective_parallelism :: "run_budgets \<Rightarrow> u64 \<Rightarrow> u8" where
  "effective_parallelism self logical_processors =
     (let half = (ucast (max (logical_processors div 2) 1) :: u8)
      in max (min (min (bd_max_parallel_candidates self) half) (bd_candidates self)) 1)"

datatype quality_profile = Standard | Strict

primrec quality_profile_as_str :: "quality_profile \<Rightarrow> string" where
  "quality_profile_as_str Standard = ''standard''"
| "quality_profile_as_str Strict = ''strict''"

primrec strictness_rank :: "quality_profile \<Rightarrow> u8" where
  "strictness_rank Standard = 0"
| "strictness_rank Strict = 1"

primrec default_minimum_line_coverage :: "quality_profile \<Rightarrow> f64 option" where
  "default_minimum_line_coverage Standard = None"
| "default_minimum_line_coverage Strict = Some (Finite False 80)"

definition quality_profile_from_str :: "string \<Rightarrow> quality_profile domain_result" where
  "quality_profile_from_str value =
     (if value = ''standard'' then Inr Standard
      else if value = ''strict'' then Inr Strict
      else Inl (InvalidIdentifier ''QualityProfile'' value))"

lemma effective_parallelism_bounds:
  assumes "1 \<le> bd_candidates b" and "1 \<le> bd_max_parallel_candidates b"
  shows "1 \<le> effective_parallelism b n"
    and "effective_parallelism b n \<le> bd_candidates b"
    and "effective_parallelism b n \<le> bd_max_parallel_candidates b"
  using assms by (auto simp: effective_parallelism_def Let_def min_le_iff_disj)

end
