(* ===== verification/Forge_Errors.thy ===== *)
theory Forge_Errors
  imports Forge_Candidate Forge_Failure
begin

text \<open>
  \<open>crates/application/src/error.rs\<close>: the application error, its failure class, its code, its
  remedy, and the node failure it becomes; and the printed form of the domain error
  (\<open>crates/domain/src/error.rs\<close>).
\<close>

primrec domain_error_display :: "domain_error \<Rightarrow> string" where
  "domain_error_display (InvalidIdentifier kind v) = ''value `'' @ v @ ''` is not a valid '' @ kind"
| "domain_error_display (IllegalRunTransition s t) =
     ''run transition from `'' @ run_status_as_str s @ ''` to `'' @ run_status_as_str t
     @ ''` is not permitted''"
| "domain_error_display (IllegalCandidateTransition s t) =
     ''candidate transition from `'' @ candidate_status_as_str s @ ''` to `''
     @ candidate_status_as_str t @ ''` is not permitted''"
| "domain_error_display (IllegalNodeTransition m n) =
     ''node `'' @ node_as_str m @ ''` may not route to `'' @ node_as_str n @ ''`''"
| "domain_error_display (EventSequenceGap expected actual) =
     ''event sequence '' @ dec actual @ '' does not follow '' @ dec expected"
| "domain_error_display (EventChainBroken sequence) =
     ''event '' @ dec sequence @ '' previous hash does not match the recorded chain''"
| "domain_error_display (EventPayloadHashMismatch sequence) =
     ''event '' @ dec sequence @ '' payload hash does not match its payload''"
| "domain_error_display (ApprovalHashMismatch approved current) =
     ''approval references plan hash `'' @ approved @ ''` but the current plan hash is `''
     @ current @ ''`''"
| "domain_error_display (PathEscapesWorktree path) =
     ''path `'' @ path @ ''` escapes its assigned worktree''"
| "domain_error_display (PathProtected path pattern) =
     ''path `'' @ path @ ''` matches the protected pattern `'' @ pattern @ ''`''"
| "domain_error_display (PathSensitive path pattern) =
     ''path `'' @ path @ ''` matches the sensitive pattern `'' @ pattern @ ''`''"
| "domain_error_display (CandidateCountOutOfRange requested) =
     ''candidate count '' @ dec requested @ '' is outside the supported range 1 to 8''"
| "domain_error_display (ValueOutOfRange field v) =
     ''value `'' @ v @ ''` is outside the supported range for '' @ field"
| "domain_error_display (MissingField field) = ''required field `'' @ field @ ''` is missing''"
| "domain_error_display (ConflictingStatePatch field) =
     ''state patch for `'' @ field @ ''` conflicts with the recorded projection''"
| "domain_error_display (UnknownCandidate candidate) =
     ''candidate `'' @ candidate @ ''` is not registered on this run''"
| "domain_error_display (UnknownNode node) =
     ''node `'' @ node @ ''` is not registered in the graph''"
| "domain_error_display (UnknownPlanVersion version) =
     ''plan version '' @ dec version @ '' does not exist''"
| "domain_error_display (InvariantViolated message) = message"

datatype application_error =
    Domain domain_error
  | RunNotFound run_id
  | CandidateNotFound run_id candidate_id
  | RunLocked run_id
  | InvalidRunState run_id string string
  | InvalidConfiguration string
  | RepositoryUnusable string string
  | ApprovalRequired string
  | CorruptEventLog run_id string
  | ArtifactNotFound string
  | ErrorCancelled
  | ErrorTimedOut u64
  | ErrorPolicyViolation string
  | ErrorUserActionRequired string
  | Storage string
  | Process string
  | GitFailure string
  | AgentFailure string
  | QualityProvider string
  | Serialisation string
  | Internal string

type_synonym 'a application_result = "application_error + 'a"

definition lift_domain :: "'a domain_result \<Rightarrow> 'a application_result" where
  "lift_domain r = map_err Domain r"

definition failure_class_of :: "application_error \<Rightarrow> failure_class" where
  "failure_class_of e =
     (case e of
        Domain d \<Rightarrow>
          (case d of
             PathProtected _ _ \<Rightarrow> PolicyViolation
           | PathSensitive _ _ \<Rightarrow> PolicyViolation
           | PathEscapesWorktree _ \<Rightarrow> PolicyViolation
           | _ \<Rightarrow> InternalInvariant)
      | ErrorPolicyViolation _ \<Rightarrow> PolicyViolation
      | ErrorCancelled \<Rightarrow> failure_class.Cancelled
      | ErrorUserActionRequired _ \<Rightarrow> UserActionRequired
      | ApprovalRequired _ \<Rightarrow> UserActionRequired
      | InvalidConfiguration _ \<Rightarrow> PermanentConfiguration
      | RepositoryUnusable _ _ \<Rightarrow> PermanentConfiguration
      | RunNotFound _ \<Rightarrow> PermanentConfiguration
      | CandidateNotFound _ _ \<Rightarrow> PermanentConfiguration
      | InvalidRunState _ _ _ \<Rightarrow> PermanentConfiguration
      | ArtifactNotFound _ \<Rightarrow> PermanentConfiguration
      | ErrorTimedOut _ \<Rightarrow> TransientInfrastructure
      | Storage _ \<Rightarrow> TransientInfrastructure
      | Process _ \<Rightarrow> TransientInfrastructure
      | GitFailure _ \<Rightarrow> TransientInfrastructure
      | AgentFailure _ \<Rightarrow> TransientInfrastructure
      | QualityProvider _ \<Rightarrow> TransientInfrastructure
      | RunLocked _ \<Rightarrow> TransientInfrastructure
      | CorruptEventLog _ _ \<Rightarrow> InternalInvariant
      | Serialisation _ \<Rightarrow> InternalInvariant
      | Internal _ \<Rightarrow> InternalInvariant)"

primrec error_code :: "application_error \<Rightarrow> string" where
  "error_code (Domain d) = ''domain_invariant''"
| "error_code (RunNotFound r) = ''run_not_found''"
| "error_code (CandidateNotFound r c) = ''candidate_not_found''"
| "error_code (RunLocked r) = ''run_locked''"
| "error_code (InvalidRunState r s k) = ''invalid_run_state''"
| "error_code (InvalidConfiguration s) = ''invalid_configuration''"
| "error_code (RepositoryUnusable p d) = ''repository_unusable''"
| "error_code (ApprovalRequired s) = ''approval_required''"
| "error_code (CorruptEventLog r d) = ''corrupt_event_log''"
| "error_code (ArtifactNotFound s) = ''artifact_not_found''"
| "error_code ErrorCancelled = ''cancelled''"
| "error_code (ErrorTimedOut n) = ''timed_out''"
| "error_code (ErrorPolicyViolation s) = ''policy_violation''"
| "error_code (ErrorUserActionRequired s) = ''user_action_required''"
| "error_code (Storage s) = ''storage_failure''"
| "error_code (Process s) = ''process_failure''"
| "error_code (GitFailure s) = ''git_failure''"
| "error_code (AgentFailure s) = ''agent_failure''"
| "error_code (QualityProvider s) = ''quality_provider_failure''"
| "error_code (Serialisation s) = ''serialisation_failure''"
| "error_code (Internal s) = ''internal_invariant''"

definition error_remedy :: "externals \<Rightarrow> application_error \<Rightarrow> string option" where
  "error_remedy X e =
     (case e of
        RunLocked run \<Rightarrow>
          Some (''Another dispatcher holds the lock for run '' @ run_display X run
                @ ''. Wait for it to finish or stop that process.'')
      | RepositoryUnusable _ _ \<Rightarrow>
          Some ''Point Heikas Forge at a Git working tree, or run `git init` there first.''
      | InvalidConfiguration _ \<Rightarrow>
          Some ''Run `heikas doctor` to see which configuration entry is rejected.''
      | ApprovalRequired _ \<Rightarrow>
          Some ''Approve the plan in the interface or with `heikas approve-plan`.''
      | CorruptEventLog run _ \<Rightarrow>
          Some (''Export the evidence with `heikas export '' @ run_display X run
                @ ''` before attempting any repair.'')
      | _ \<Rightarrow> None)"

primrec error_display :: "externals \<Rightarrow> application_error \<Rightarrow> string" where
  "error_display X (Domain d) = domain_error_display d"
| "error_display X (RunNotFound r) =
     ''run `'' @ run_display X r @ ''` does not exist''"
| "error_display X (CandidateNotFound r c) =
     ''candidate `'' @ c @ ''` does not exist on run `'' @ run_display X r @ ''`''"
| "error_display X (RunLocked r) =
     ''run `'' @ run_display X r @ ''` is already being dispatched by another process''"
| "error_display X (InvalidRunState r s k) =
     ''run `'' @ run_display X r @ ''` is '' @ s @ '' and cannot accept the `'' @ k
     @ ''` operation''"
| "error_display X (InvalidConfiguration s) = ''configuration is invalid: '' @ s"
| "error_display X (RepositoryUnusable p d) =
     ''the repository at `'' @ p @ ''` cannot be used: '' @ d"
| "error_display X (ApprovalRequired s) = ''required approval is missing: '' @ s"
| "error_display X (CorruptEventLog r d) =
     ''the durable event log for run `'' @ run_display X r @ ''` is corrupt: '' @ d"
| "error_display X (ArtifactNotFound s) = ''artefact `'' @ s @ ''` was not found''"
| "error_display X ErrorCancelled = ''the operation was cancelled''"
| "error_display X (ErrorTimedOut n) =
     ''the operation timed out after '' @ dec n @ '' seconds''"
| "error_display X (ErrorPolicyViolation s) = ''policy violation: '' @ s"
| "error_display X (ErrorUserActionRequired s) = ''user action required: '' @ s"
| "error_display X (Storage s) = ''storage failure: '' @ s"
| "error_display X (Process s) = ''process failure: '' @ s"
| "error_display X (GitFailure s) = ''git failure: '' @ s"
| "error_display X (AgentFailure s) = ''agent failure: '' @ s"
| "error_display X (QualityProvider s) = ''quality provider failure: '' @ s"
| "error_display X (Serialisation s) = ''serialisation failure: '' @ s"
| "error_display X (Internal s) = ''internal invariant violated: '' @ s"

definition to_node_failure :: "externals \<Rightarrow> application_error \<Rightarrow> node_failure" where
  "to_node_failure X e =
     (let failure = node_failure_new (failure_class_of e) (error_code e)
            (error_display X e)
      in case error_remedy X e of Some remedy \<Rightarrow> with_remedy remedy failure | None \<Rightarrow> failure)"

text \<open>An error is retried automatically exactly when it is a fault of the infrastructure.\<close>

lemma retryable_errors:
  "is_automatically_retryable (nf_class (to_node_failure X e)) \<longleftrightarrow>
     e \<in> range ErrorTimedOut \<union> range Storage \<union> range Process \<union> range GitFailure
       \<union> range AgentFailure \<union> range QualityProvider \<union> range RunLocked"
  by (cases e) (auto simp: to_node_failure_def Let_def with_remedy_def node_failure_new_def
      failure_class_of_def is_automatically_retryable_def error_remedy_def
      split: domain_error.splits)

end
