(* ===== verification/Forge_Configuration.thy ===== *)
theory Forge_Configuration
  imports Forge_Commands Forge_Errors Forge_Run
begin

text \<open>
  \<open>crates/application/src/configuration.rs\<close>: the configuration a run executes under, its trust
  in the repository, and the validation that precedes a run. A path is the text it is displayed
  as; the encoding behind \<open>digest\<close> belongs to the JSON crate and is not modelled.
\<close>

section \<open>Authority and trust\<close>

datatype configuration_authority = UserAuthority | RepositoryAuthority

primrec configuration_authority_as_str :: "configuration_authority \<Rightarrow> string" where
  "configuration_authority_as_str UserAuthority = ''user_configuration''"
| "configuration_authority_as_str RepositoryAuthority = ''repository''"

datatype repository_trust_state = NoRepositoryConfiguration | Trusted | Untrusted

primrec trust_state_as_str :: "repository_trust_state \<Rightarrow> string" where
  "trust_state_as_str NoRepositoryConfiguration = ''no_repository_configuration''"
| "trust_state_as_str Trusted = ''trusted''"
| "trust_state_as_str Untrusted = ''untrusted''"

primrec trust_state_label :: "repository_trust_state \<Rightarrow> string" where
  "trust_state_label NoRepositoryConfiguration = ''the repository declares no configuration''"
| "trust_state_label Trusted = ''the repository configuration is trusted''"
| "trust_state_label Untrusted = ''the repository configuration is not trusted''"

datatype withheld_reason = UserConfigurationOnly | RequiresRepositoryTrust | WouldWeakenPolicy

primrec withheld_reason_as_str :: "withheld_reason \<Rightarrow> string" where
  "withheld_reason_as_str UserConfigurationOnly = ''user_configuration_only''"
| "withheld_reason_as_str RequiresRepositoryTrust = ''requires_repository_trust''"
| "withheld_reason_as_str WouldWeakenPolicy = ''would_weaken_policy''"

primrec withheld_explanation :: "withheld_reason \<Rightarrow> string" where
  "withheld_explanation UserConfigurationOnly =
     ''only your own user configuration may set this, because a repository could ''
     @ ''otherwise redirect your credentials or authorship''"
| "withheld_explanation RequiresRepositoryTrust =
     ''this names an executable or its arguments, so it is honoured only after you ''
     @ ''trust the repository configuration''"
| "withheld_explanation WouldWeakenPolicy =
     ''a repository may tighten a safety setting but never relax one''"

record withheld_setting =
  wh_setting :: string
  wh_reason :: withheld_reason

record repository_trust_decision =
  td_state :: repository_trust_state
  td_configuration_digest :: "content_digest option"
  td_withheld :: "withheld_setting list"

definition trust_decision_default :: repository_trust_decision where
  "trust_decision_default =
     \<lparr>td_state = NoRepositoryConfiguration, td_configuration_digest = None, td_withheld = []\<rparr>"

definition honoured_in_full :: "repository_trust_decision \<Rightarrow> bool" where
  "honoured_in_full self \<longleftrightarrow> td_withheld self = []"

datatype command_catalogue_source =
    UserSource
  | RepositorySource
  | DetectedSource string
  | NothingDetected "string list"
  | NotSurveyed string
  | DeclaredForThisRun

record repository_trust_record =
  tr_repository_path :: string
  tr_configuration_digest :: content_digest
  tr_granted_at :: timestamp

section \<open>Agents\<close>

datatype network_policy = NetworkDisabled | LoopbackOnly | ApprovedEndpoints

primrec permissiveness_rank :: "network_policy \<Rightarrow> u8" where
  "permissiveness_rank NetworkDisabled = 0"
| "permissiveness_rank LoopbackOnly = 1"
| "permissiveness_rank ApprovedEndpoints = 2"

primrec network_policy_as_str :: "network_policy \<Rightarrow> string" where
  "network_policy_as_str NetworkDisabled = ''disabled''"
| "network_policy_as_str LoopbackOnly = ''loopback-only''"
| "network_policy_as_str ApprovedEndpoints = ''approved-endpoints''"

datatype agent_driver_kind = LocalAgent | FakeAgent | ClaudeCode | CodexCli | OpenCode | GenericProcess

definition agent_driver_all :: "agent_driver_kind list" where
  "agent_driver_all = [LocalAgent, FakeAgent, ClaudeCode, CodexCli, OpenCode, GenericProcess]"

primrec agent_driver_as_str :: "agent_driver_kind \<Rightarrow> string" where
  "agent_driver_as_str LocalAgent = ''local''"
| "agent_driver_as_str FakeAgent = ''fake''"
| "agent_driver_as_str ClaudeCode = ''claude-code''"
| "agent_driver_as_str CodexCli = ''codex-cli''"
| "agent_driver_as_str OpenCode = ''opencode''"
| "agent_driver_as_str GenericProcess = ''generic-process''"

primrec agent_driver_label :: "agent_driver_kind \<Rightarrow> string" where
  "agent_driver_label LocalAgent = ''Built-in local tool agent''"
| "agent_driver_label FakeAgent = ''Deterministic demonstration agent''"
| "agent_driver_label ClaudeCode = ''External Claude Code CLI''"
| "agent_driver_label CodexCli = ''External Codex CLI''"
| "agent_driver_label OpenCode = ''External OpenCode CLI''"
| "agent_driver_label GenericProcess = ''External generic process adapter''"

definition requires_paid_account :: "agent_driver_kind \<Rightarrow> bool" where
  "requires_paid_account self \<longleftrightarrow> self \<in> {ClaudeCode, CodexCli, OpenCode}"

definition is_demonstration_only :: "agent_driver_kind \<Rightarrow> bool" where
  "is_demonstration_only self \<longleftrightarrow> self = FakeAgent"

definition unknown_driver :: "string \<Rightarrow> application_error" where
  "unknown_driver value = InvalidConfiguration (''unknown agent driver `'' @ value @ ''`'')"

definition agent_driver_from_str :: "string \<Rightarrow> agent_driver_kind application_result" where
  "agent_driver_from_str = parse_by agent_driver_all agent_driver_as_str unknown_driver"

interpretation driver_strings: string_enum agent_driver_all agent_driver_as_str unknown_driver
proof unfold_locales
  fix x :: agent_driver_kind
  show "x \<in> set agent_driver_all" by (cases x) (simp_all add: agent_driver_all_def)
qed (simp add: agent_driver_all_def)

definition maximum_command_timeout_seconds :: u32 where "maximum_command_timeout_seconds = 7200"

record agent_configuration =
  ac_driver :: agent_driver_kind
  ac_model :: "string option"
  ac_endpoint :: "string option"
  ac_api_key_environment_variable :: "string option"
  ac_executable :: "string option"
  ac_extra_arguments :: "string list"
  ac_max_turns :: u32
  ac_timeout :: timeout_seconds
  ac_network :: network_policy
  ac_fixture_script :: "string option"

definition agent_configuration_default :: agent_configuration where
  "agent_configuration_default =
     \<lparr>ac_driver = LocalAgent, ac_model = None, ac_endpoint = Some ''http://127.0.0.1:11434/v1'',
      ac_api_key_environment_variable = None, ac_executable = None, ac_extra_arguments = [],
      ac_max_turns = 40, ac_timeout = timeout_clamped 1200 maximum_command_timeout_seconds,
      ac_network = LoopbackOnly, ac_fixture_script = None\<rparr>"

section \<open>Quality, git and redaction settings\<close>

record sonar_scanner_configuration =
  ss_enabled :: bool
  ss_program :: string
  ss_arguments :: "string list"
  ss_host_url :: string
  ss_project_key :: "string option"
  ss_token_environment_variable :: "string option"
  ss_wait_for_quality_gate :: bool
  ss_timeout :: timeout_seconds

record sonar_mcp_configuration =
  sm_enabled :: bool
  sm_program :: string
  sm_arguments :: "string list"
  sm_token_environment_variable :: "string option"
  sm_project_key :: "string option"
  sm_timeout :: timeout_seconds

record ai_review_configuration =
  ax_enabled :: bool
  ax_advisory_only :: bool
  ax_gate_rules :: "string list"

record quality_configuration =
  qc_profile :: quality_profile
  qc_minimum_line_coverage :: "f64 option"
  qc_protect_existing_tests :: bool
  qc_sonar_scanner :: sonar_scanner_configuration
  qc_sonar_mcp :: sonar_mcp_configuration
  qc_ai_review :: ai_review_configuration

definition quality_configuration_default :: quality_configuration where
  "quality_configuration_default =
     \<lparr>qc_profile = Strict, qc_minimum_line_coverage = None, qc_protect_existing_tests = True,
      qc_sonar_scanner =
        \<lparr>ss_enabled = False, ss_program = ''sonar-scanner'', ss_arguments = [],
         ss_host_url = ''http://127.0.0.1:9000'', ss_project_key = None,
         ss_token_environment_variable = Some ''SONAR_TOKEN'', ss_wait_for_quality_gate = True,
         ss_timeout = timeout_clamped 600 maximum_command_timeout_seconds\<rparr>,
      qc_sonar_mcp =
        \<lparr>sm_enabled = False, sm_program = ''sonarqube-mcp-server'', sm_arguments = [],
         sm_token_environment_variable = Some ''SONAR_TOKEN'', sm_project_key = None,
         sm_timeout = timeout_clamped 600 maximum_command_timeout_seconds\<rparr>,
      qc_ai_review = \<lparr>ax_enabled = False, ax_advisory_only = True, ax_gate_rules = []\<rparr>\<rparr>"

record git_configuration =
  gc_branch_prefix :: string
  gc_author_name :: string
  gc_include_dirty :: bool
  gc_require_clean_repository :: bool

definition git_configuration_default :: git_configuration where
  "git_configuration_default =
     \<lparr>gc_branch_prefix = ''heikas/run-'', gc_author_name = ''Isaac Oselukwue'',
      gc_include_dirty = False, gc_require_clean_repository = True\<rparr>"

record redaction_configuration =
  rc_secret_environment_variables :: "string list"
  rc_additional_patterns :: "string list"
  rc_redact_home_prefix :: bool

definition redaction_configuration_default :: redaction_configuration where
  "redaction_configuration_default =
     \<lparr>rc_secret_environment_variables =
        [''GITHUB_TOKEN'', ''GH_TOKEN'', ''SONAR_TOKEN'', ''ANTHROPIC_API_KEY'',
         ''OPENAI_API_KEY'', ''AWS_SECRET_ACCESS_KEY'', ''AWS_SESSION_TOKEN'', ''NPM_TOKEN'',
         ''CARGO_REGISTRY_TOKEN''],
      rc_additional_patterns = [], rc_redact_home_prefix = True\<rparr>"

section \<open>The effective configuration\<close>

record effective_configuration =
  ef_schema_version :: u32
  ef_repository_path :: string
  ef_budgets :: run_budgets
  ef_commit_policy :: commit_policy
  ef_agent :: agent_configuration
  ef_quality :: quality_configuration
  ef_git :: git_configuration
  ef_commands :: command_catalogue
  ef_path_policy :: path_policy
  ef_redaction :: redaction_configuration
  ef_retry :: retry_policy
  ef_timeouts :: node_timeouts
  ef_environment_allowlist :: "string list"
  ef_demonstration_mode :: bool
  ef_repository_trust :: repository_trust_decision
  ef_command_source :: command_catalogue_source
  ef_detection_notes :: "string list"

definition required_review_kinds :: "effective_configuration \<Rightarrow> command_kind list" where
  "required_review_kinds self =
     (case qc_profile (ef_quality self) of
        Standard \<Rightarrow> [Lint]
      | Strict \<Rightarrow> [Format, Lint, Audit, SecretScan, StaticAnalysis, command_kind.Policy])"

definition minimum_line_coverage :: "effective_configuration \<Rightarrow> f64 option" where
  "minimum_line_coverage self =
     (case qc_minimum_line_coverage (ef_quality self) of
        Some v \<Rightarrow> Some v
      | None \<Rightarrow> default_minimum_line_coverage (qc_profile (ef_quality self)))"

definition required_commands :: "effective_configuration \<Rightarrow> command_specification list" where
  "required_commands self = filter cs_required (ef_commands self)"

definition review_provider_names :: "effective_configuration \<Rightarrow> string list" where
  "review_provider_names self =
     [''local'']
     @ (if ss_enabled (qc_sonar_scanner (ef_quality self)) then [''sonar-scanner''] else [])
     @ (if sm_enabled (qc_sonar_mcp (ef_quality self)) then [''sonar-mcp''] else [])
     @ (if ax_enabled (qc_ai_review (ef_quality self)) then [''ai-review''] else [])"

definition repository_configuration_relative_path :: string where
  "repository_configuration_relative_path = ''.heikas/forge.toml''"

definition quoted :: "string \<Rightarrow> string" where "quoted s = ''`'' @ s @ ''`''"

definition describe_markers :: "string list \<Rightarrow> string" where
  "describe_markers markers =
     (if markers = [] then ''any recognised project manifest''
      else if length markers = 1 then quoted (last markers)
      else join_str '', '' (map quoted (butlast markers)) @ '' and '' @ quoted (last markers))"

definition commands_withheld :: "effective_configuration \<Rightarrow> bool" where
  "commands_withheld self \<longleftrightarrow>
     list_ex (\<lambda>entry. wh_setting entry = ''commands'') (td_withheld (ef_repository_trust self))"

definition command_source_detail :: "effective_configuration \<Rightarrow> string" where
  "command_source_detail self =
     (let repository = ef_repository_path self;
          number = length (ef_commands self)
      in if commands_withheld self
         then quoted repository_configuration_relative_path
           @ '' declares commands that have not been trusted, so none of them was honoured.''
         else case ef_command_source self of
             NothingDetected markers \<Rightarrow>
               ''No project was recognised in '' @ quoted repository
               @ '', because no tracked file is named '' @ describe_markers markers
               @ ''. Only tracked files are surveyed, because a candidate worktree is checked ''
               @ ''out from the baseline commit and holds nothing else.''
           | NotSurveyed detail \<Rightarrow>
               quoted repository @ '' could not be surveyed for a project: '' @ detail
           | DetectedSource kind \<Rightarrow>
               if ef_commands self = []
               then quoted repository @ '' was recognised as a '' @ kind
                 @ '' project, but no command could be proposed for it.''
               else quoted repository @ '' was recognised as a '' @ kind
                 @ '' project, which proposed '' @ nat_dec number @ '' ''
                 @ (if number = 1 then ''command'' else ''commands'') @ ''.''
           | DeclaredForThisRun \<Rightarrow>
               nat_dec number @ '' commands were declared for this run.''
           | UserSource \<Rightarrow>
               ''Your user configuration declares '' @ nat_dec number
               @ '' commands, none of which covers every required kind.''
           | RepositorySource \<Rightarrow>
               quoted repository_configuration_relative_path @ '' declares '' @ nat_dec number
               @ '' commands.'')"

definition without_trailing_dots :: "string \<Rightarrow> string" where
  "without_trailing_dots note_text = rev (dropWhile (\<lambda>c. c = CHR ''.'') (rev note_text))"

definition missing_commands_detail :: "effective_configuration \<Rightarrow> command_kind list \<Rightarrow> string" where
  "missing_commands_detail self missing =
     (let kinds = join_str '', '' (map (\<lambda>kind. quoted (command_kind_as_str kind)) missing);
          declarations = join_str '' ''
            (map (\<lambda>kind. ''--command '' @ command_kind_as_str kind @ ''=<program>'') missing);
          remarks = (if ef_detection_notes self = [] then []
            else '' '' @ join_str '' ''
              (map (\<lambda>n. without_trailing_dots n @ ''.'') (ef_detection_notes self)))
      in ''the '' @ quality_profile_as_str (qc_profile (ef_quality self))
         @ '' quality profile needs a command of kind '' @ kinds @ ''. ''
         @ command_source_detail self @ remarks @ '' Declare them for this run with ''
         @ quoted declarations
         @ '', giving each argument separately as `--command-arg <kind>=<argument>`, ''
         @ ''or write `[[commands]]` entries into '' @ quoted repository_configuration_relative_path
         @ '' and run '' @ quoted (''heikas trust '' @ ef_repository_path self) @ ''.'')"

section \<open>Validation\<close>

definition missing_kinds :: "effective_configuration \<Rightarrow> command_kind list" where
  "missing_kinds self =
     filter (\<lambda>kind. catalogue_of_kind (ef_commands self) kind = [])
       (Test # required_review_kinds self)"

definition unreported :: "command_specification \<Rightarrow> bool" where
  "unreported command \<longleftrightarrow>
     cs_required command \<and> cs_report_format command \<noteq> NoReport
     \<and> \<not> reads_stdout_only (cs_report_format command) \<and> cs_report_path command = None"

definition configuration_validate :: "effective_configuration \<Rightarrow> unit application_result" where
  "configuration_validate self =
     and_then (lift_domain (run_budgets_validate (ef_budgets self))) (\<lambda>_.
     and_then (lift_domain (catalogue_validate (ef_commands self))) (\<lambda>_.
       if trim (gc_author_name (ef_git self)) = []
       then Inl (InvalidConfiguration ''the Git author name must not be empty'')
       else if trim (gc_branch_prefix (ef_git self)) = []
       then Inl (InvalidConfiguration ''the Git branch prefix must not be empty'')
       else if missing_kinds self \<noteq> []
       then Inl (InvalidConfiguration (missing_commands_detail self (missing_kinds self)))
       else case find unreported (ef_commands self) of
              Some command \<Rightarrow>
                Inl (InvalidConfiguration (''command '' @ quoted (cs_id command)
                  @ '' declares a report format without a report path''))
            | None \<Rightarrow>
                if is_demonstration_only (ac_driver (ef_agent self)) \<and> \<not> ef_demonstration_mode self
                then Inl (InvalidConfiguration
                  ''the deterministic demonstration agent may only run in demonstration mode'')
                else Inr ()))"

section \<open>What a validated configuration guarantees\<close>

lemma find_None_list_all: "find p xs = None \<longleftrightarrow> list_all (\<lambda>x. \<not> p x) xs"
  by (induction xs) simp_all

lemma validated_report:
  "command_specification_validate c = Inr () \<Longrightarrow> \<not> unreported c"
  by (auto simp: command_specification_validate_def unreported_def guard_Inr)

lemma configuration_validate_iff:
  "configuration_validate self = Inr () \<longleftrightarrow>
     run_budgets_validate (ef_budgets self) = Inr () \<and> catalogue_validate (ef_commands self) = Inr ()
     \<and> trim (gc_author_name (ef_git self)) \<noteq> [] \<and> trim (gc_branch_prefix (ef_git self)) \<noteq> []
     \<and> (\<forall>kind \<in> set (Test # required_review_kinds self).
          \<exists>c \<in> set (ef_commands self). cs_kind c = kind)
     \<and> (ac_driver (ef_agent self) = FakeAgent \<longrightarrow> ef_demonstration_mode self)"
proof -
  have missing: "missing_kinds self = [] \<longleftrightarrow>
      (\<forall>kind \<in> set (Test # required_review_kinds self). \<exists>c \<in> set (ef_commands self). cs_kind c = kind)"
    unfolding missing_kinds_def catalogue_of_kind_def by (auto simp: filter_empty_conv)
  have reported: "catalogue_validate (ef_commands self) = Inr () \<Longrightarrow>
      find unreported (ef_commands self) = None"
    by (auto simp: catalogue_validate_iff find_None_list_all list_all_iff dest: validated_report)
  show ?thesis
  proof (cases "catalogue_validate (ef_commands self) = Inr ()")
    case True
    then show ?thesis
      unfolding configuration_validate_def missing [symmetric]
      by (auto simp: guard_Inr reported lift_domain_def is_demonstration_only_def)
  next
    case False
    then show ?thesis by (simp add: configuration_validate_def lift_domain_def)
  qed
qed

end
