(* ===== verification/Forge_Requests.thy ===== *)
theory Forge_Requests
  imports Forge_Configuration
begin

text \<open>
  What a caller asks for: \<open>model/request.rs\<close>, and how a request to create a run changes the
  configuration resolved for it (\<open>apply_request_overrides\<close> and \<open>apply_command_declarations\<close> of
  \<open>usecases/service.rs\<close>). The functions of the code change the configuration in place and return
  early on an error, where the caller drops it; here they return the changed configuration.
\<close>

section \<open>Requests\<close>

record command_declaration =
  cd_kind :: command_kind
  cd_program :: string
  cd_args :: "string list"
  cd_timeout_seconds :: "u32 option"

record create_run_request =
  cq_repository_path :: string
  cq_task_markdown :: string
  cq_candidate_count :: "u8 option"
  cq_max_parallel_candidates :: "u8 option"
  cq_max_repairs_per_candidate :: "u32 option"
  cq_commit_policy :: "commit_policy option"
  cq_quality_profile :: "quality_profile option"
  cq_minimum_line_coverage :: "f64 option"
  cq_include_dirty :: bool
  cq_agent_driver :: "string option"
  cq_agent_model :: "string option"
  cq_demonstration_mode :: bool
  cq_wall_clock_seconds :: "u32 option"
  cq_command_declarations :: "command_declaration list"

definition create_run_request_new :: "string \<Rightarrow> string \<Rightarrow> create_run_request" where
  "create_run_request_new repository_path task_markdown =
     \<lparr>cq_repository_path = repository_path, cq_task_markdown = task_markdown,
      cq_candidate_count = None, cq_max_parallel_candidates = None,
      cq_max_repairs_per_candidate = None, cq_commit_policy = None, cq_quality_profile = None,
      cq_minimum_line_coverage = None, cq_include_dirty = False, cq_agent_driver = None,
      cq_agent_model = None, cq_demonstration_mode = False, cq_wall_clock_seconds = None,
      cq_command_declarations = []\<rparr>"

record export_request =
  xq_output_path :: string
  xq_include_worktrees :: bool

section \<open>Commands declared for one run\<close>

definition maximum_command_declarations :: nat where "maximum_command_declarations = 16"

definition declared_identifier :: "command_kind \<Rightarrow> string" where
  "declared_identifier kind = ''declared-'' @ command_kind_as_str kind"

definition declared_specification :: "command_id \<Rightarrow> command_declaration \<Rightarrow> command_specification" where
  "declared_specification command_id declaration =
     \<lparr>cs_id = command_id, cs_kind = cd_kind declaration, cs_program = cd_program declaration,
      cs_args = cd_args declaration, cs_working_subdirectory = None,
      cs_timeout = timeout_clamped
        (case cd_timeout_seconds declaration of Some seconds \<Rightarrow> seconds | None \<Rightarrow> 900)
        maximum_command_timeout_seconds,
      cs_required = True, cs_report_format = NoReport, cs_report_path = None,
      cs_environment = [], cs_success_exit_codes = [0]\<rparr>"

text \<open>One turn of the loop over the declarations.\<close>

definition apply_declaration ::
    "command_catalogue \<Rightarrow> command_declaration \<Rightarrow> command_catalogue application_result" where
  "apply_declaration catalogue declaration =
     (if CHR ''/'' \<in> set (cd_program declaration) \<or> backslash \<in> set (cd_program declaration)
      then Inl (InvalidConfiguration (''the declared command `'' @ cd_program declaration
        @ ''` names a path. Give the name of an executable on the search path so that it cannot be resolved against whichever directory this process was started in.''))
      else
        and_then (lift_domain (command_id_from_str (declared_identifier (cd_kind declaration))))
          (\<lambda>command_id.
        let specification = declared_specification command_id declaration
        in and_then (lift_domain (command_specification_validate specification)) (\<lambda>_.
           Inr (filter (\<lambda>existing. cs_id existing \<noteq> command_id) catalogue @ [specification]))))"

definition apply_command_declarations ::
    "effective_configuration \<Rightarrow> command_declaration list
      \<Rightarrow> effective_configuration application_result" where
  "apply_command_declarations configuration declarations =
     (if declarations = [] then Inr configuration
      else if maximum_command_declarations < length declarations
      then Inl (InvalidConfiguration (''at most '' @ nat_dec maximum_command_declarations
        @ '' commands may be declared for a single run, but '' @ nat_dec (length declarations)
        @ '' were supplied''))
      else map_ok (\<lambda>catalogue. configuration\<lparr>ef_commands := catalogue,
             ef_command_source := DeclaredForThisRun\<rparr>)
           (try_fold apply_declaration (ef_commands configuration) declarations))"

section \<open>Overrides\<close>

definition overridden_budgets ::
    "run_budgets \<Rightarrow> create_run_request \<Rightarrow> run_budgets application_result" where
  "overridden_budgets budgets request =
     and_then (case cq_candidate_count request of
         Some wanted \<Rightarrow> map_ok (\<lambda>candidates. budgets\<lparr>bd_candidates := candidates\<rparr>)
           (lift_domain (candidate_count_new wanted))
       | None \<Rightarrow> Inr budgets) (\<lambda>budgets.
     let budgets = (case cq_max_parallel_candidates request of
           Some parallel \<Rightarrow> budgets\<lparr>bd_max_parallel_candidates := parallel\<rparr> | None \<Rightarrow> budgets);
         budgets = (case cq_max_repairs_per_candidate request of
           Some repairs \<Rightarrow> budgets\<lparr>bd_max_repairs_per_candidate := repairs\<rparr> | None \<Rightarrow> budgets);
         budgets = (case cq_wall_clock_seconds request of
           Some seconds \<Rightarrow> budgets\<lparr>bd_wall_clock_seconds := seconds\<rparr> | None \<Rightarrow> budgets)
     in map_ok (\<lambda>_. budgets) (lift_domain (run_budgets_validate budgets)))"

definition overridden_quality ::
    "quality_configuration \<Rightarrow> create_run_request \<Rightarrow> quality_configuration" where
  "overridden_quality quality request =
     (let quality = (case cq_quality_profile request of
            Some profile \<Rightarrow> quality\<lparr>qc_profile := profile\<rparr> | None \<Rightarrow> quality)
      in if cq_minimum_line_coverage request \<noteq> None
         then quality\<lparr>qc_minimum_line_coverage := cq_minimum_line_coverage request\<rparr>
         else quality)"

definition overridden_agent ::
    "agent_configuration \<Rightarrow> create_run_request \<Rightarrow> agent_configuration application_result" where
  "overridden_agent agent request =
     (let agent = (case cq_agent_model request of
            Some model \<Rightarrow> agent\<lparr>ac_model := Some model\<rparr> | None \<Rightarrow> agent)
      in case cq_agent_driver request of
           Some driver \<Rightarrow> map_ok (\<lambda>kind. agent\<lparr>ac_driver := kind\<rparr>) (agent_driver_from_str driver)
         | None \<Rightarrow> Inr agent)"

definition apply_request_overrides ::
    "effective_configuration \<Rightarrow> create_run_request
      \<Rightarrow> effective_configuration application_result" where
  "apply_request_overrides configuration request =
     and_then (overridden_budgets (ef_budgets configuration) request) (\<lambda>budgets.
     and_then (overridden_agent (ef_agent configuration) request) (\<lambda>agent.
     apply_command_declarations
       (configuration\<lparr>ef_budgets := budgets,
          ef_commit_policy := (case cq_commit_policy request of
            Some policy \<Rightarrow> policy | None \<Rightarrow> ef_commit_policy configuration),
          ef_quality := overridden_quality (ef_quality configuration) request,
          ef_git := (if cq_include_dirty request
            then (ef_git configuration)\<lparr>gc_include_dirty := True\<rparr> else ef_git configuration),
          ef_agent := agent,
          ef_demonstration_mode := cq_demonstration_mode request\<rparr>)
       (cq_command_declarations request)))"

section \<open>What a declaration changes\<close>

text \<open>The identifiers of declarations are valid, one for each kind.\<close>

lemma declared_identifier_valid:
  "command_id_from_str (declared_identifier kind) = Inr (declared_identifier kind)"
  by (cases kind; hypsubst; code_simp)

lemma declared_identifier_inj: "declared_identifier a = declared_identifier b \<Longrightarrow> a = b"
  by (cases a; cases b) (simp_all add: declared_identifier_def)

lemma apply_declaration_Inr:
  "apply_declaration catalogue declaration = Inr catalogue' \<longleftrightarrow>
     CHR ''/'' \<notin> set (cd_program declaration) \<and> backslash \<notin> set (cd_program declaration)
     \<and> command_specification_validate
         (declared_specification (declared_identifier (cd_kind declaration)) declaration) = Inr ()
     \<and> catalogue' = filter (\<lambda>existing. cs_id existing \<noteq> declared_identifier (cd_kind declaration))
         catalogue @ [declared_specification (declared_identifier (cd_kind declaration)) declaration]"
  by (cases "command_specification_validate
        (declared_specification (declared_identifier (cd_kind declaration)) declaration)")
    (auto simp: apply_declaration_def declared_identifier_valid lift_domain_def)

text \<open>
  A command of the catalogue is one of before whose identifier no declaration takes, or comes from
  a declaration, whose program is then a bare name.
\<close>

definition comes_from :: "command_declaration list \<Rightarrow> command_specification \<Rightarrow> bool" where
  "comes_from declarations command \<longleftrightarrow>
     (\<exists>d \<in> set declarations. CHR ''/'' \<notin> set (cd_program d) \<and> backslash \<notin> set (cd_program d)
        \<and> command = declared_specification (declared_identifier (cd_kind d)) d)"

lemma comes_from_valid:
  assumes "try_fold apply_declaration catalogue declarations = Inr catalogue'"
  shows "\<forall>command \<in> set catalogue'. (command \<in> set catalogue
      \<and> (\<forall>d \<in> set declarations. cs_id command \<noteq> declared_identifier (cd_kind d)))
    \<or> comes_from declarations command"
  using assms
proof (induction declarations arbitrary: catalogue)
  case Nil
  then show ?case by simp
next
  case (Cons d ds)
  from Cons.prems obtain middle where d: "apply_declaration catalogue d = Inr middle"
      and ds: "try_fold apply_declaration middle ds = Inr catalogue'" by auto
  from Cons.IH [OF ds] d show ?case
    by (fastforce simp: apply_declaration_Inr comes_from_def)
qed

lemma declared_ids_distinct:
  assumes "try_fold apply_declaration catalogue declarations = Inr catalogue'"
    and "distinct (map cs_id catalogue)"
  shows "distinct (map cs_id catalogue')"
  using assms
proof (induction declarations arbitrary: catalogue)
  case (Cons d ds)
  from Cons.prems(1) obtain middle where d: "apply_declaration catalogue d = Inr middle"
      and ds: "try_fold apply_declaration middle ds = Inr catalogue'" by auto
  have "distinct (map cs_id middle)"
    using d Cons.prems(2)
    by (auto simp: apply_declaration_Inr declared_specification_def distinct_map_filter)
  with Cons.IH [OF ds] show ?case by blast
qed simp

end
