(* ===== verification/Forge_Node.thy ===== *)
theory Forge_Node
  imports Forge_Candidate Forge_Failure
begin

text \<open>
  \<open>crates/domain/src/node.rs\<close>: the result a node reports, its builder and the validation the
  dispatcher relies on before it records a result. \<open>serde_json::Value\<close> is the data type
  \<open>json_value\<close> with the crate's documented variants; a number keeps its printed form.
\<close>

datatype json_value =
    JNull
  | JBool bool
  | JNumber string
  | JString string
  | JArray "json_value list"
  | JObject "(string \<times> json_value) list"

datatype node_status = Succeeded | Failed | Paused | Cancelled | Interrupted

primrec node_status_as_str :: "node_status \<Rightarrow> string" where
  "node_status_as_str node_status.Succeeded = ''succeeded''"
| "node_status_as_str node_status.Failed = ''failed''"
| "node_status_as_str node_status.Paused = ''paused''"
| "node_status_as_str node_status.Cancelled = ''cancelled''"
| "node_status_as_str node_status.Interrupted = ''interrupted''"

definition node_status_is_terminal :: "node_status \<Rightarrow> bool" where
  "node_status_is_terminal s \<longleftrightarrow> s \<noteq> node_status.Interrupted"

record artifact_reference =
  ar_id :: content_digest
  ar_label :: string
  ar_relative_path :: string
  ar_media_type :: string
  ar_byte_length :: u64
  ar_truncated :: bool

record state_patch =
  sp_run_status :: "run_status option"
  sp_candidate_status :: "candidate_status option"
  sp_plan_version :: "u32 option"
  sp_baseline_commit :: "commit_hash option"
  sp_changed_lines :: "u64 option"
  sp_changed_files :: "u32 option"
  sp_diff_digest :: "content_digest option"
  sp_repairs_used :: "u32 option"
  sp_gate_duration_ms :: "u64 option"
  sp_failure_fingerprint :: "string option"
  sp_exclusion_reasons :: "exclusion_reason list option"
  sp_score :: "score_tuple option"
  sp_winner :: "candidate_id option"
  sp_commit_hash :: "commit_hash option"
  sp_branch :: "branch_name option"
  sp_promotable :: "bool option"
  sp_integration_attempted :: "bool option"

definition state_patch_default :: state_patch where
  "state_patch_default =
     \<lparr>sp_run_status = None, sp_candidate_status = None, sp_plan_version = None,
      sp_baseline_commit = None, sp_changed_lines = None, sp_changed_files = None,
      sp_diff_digest = None, sp_repairs_used = None, sp_gate_duration_ms = None,
      sp_failure_fingerprint = None, sp_exclusion_reasons = None, sp_score = None,
      sp_winner = None, sp_commit_hash = None, sp_branch = None, sp_promotable = None,
      sp_integration_attempted = None\<rparr>"

definition state_patch_validate :: "state_patch \<Rightarrow> unit domain_result" where
  "state_patch_validate self =
     (case sp_changed_lines self of
        Some n \<Rightarrow>
          if 10000000 < n then Inl (ValueOutOfRange ''changed_lines'' (dec n)) else Inr ()
      | None \<Rightarrow> Inr ())"

definition state_patch_is_empty :: "state_patch \<Rightarrow> bool" where
  "state_patch_is_empty self \<longleftrightarrow> self = state_patch_default"

record node_result =
  nr_schema_version :: u32
  nr_run_id :: run_id
  nr_candidate_id :: "candidate_id option"
  nr_node_id :: node_id
  nr_attempt :: attempt_number
  nr_status :: node_status
  nr_started_at :: timestamp
  nr_finished_at :: timestamp
  nr_duration_ms :: duration_ms
  nr_next :: "node_id option"
  nr_state_patch :: state_patch
  nr_artifacts :: "artifact_reference list"
  nr_failure :: "node_failure option"
  nr_metrics :: json_value
  nr_warnings :: "string list"

definition node_result_schema_version :: u32 where "node_result_schema_version = 1"

definition validate_next :: "node_id \<Rightarrow> node_id option \<Rightarrow> unit domain_result" where
  "validate_next node next =
     (case next of Some n \<Rightarrow> node_validate_transition node n | None \<Rightarrow> Inr ())"

definition node_result_validate :: "node_result \<Rightarrow> unit domain_result" where
  "node_result_validate self =
     (if nr_schema_version self \<noteq> node_result_schema_version
      then Inl (InvariantViolated (''node result schema version ''
                  @ dec (nr_schema_version self) @ '' is not supported''))
      else if nr_finished_at self < nr_started_at self
      then Inl (InvariantViolated ''node result finished before it started'')
      else if node_scope_of (nr_node_id self) = CandidateScope \<and> nr_candidate_id self = None
      then Inl (MissingField ''candidate_id'')
      else if node_scope_of (nr_node_id self) = RunScope \<and> nr_candidate_id self \<noteq> None
      then Inl (InvariantViolated (''node `'' @ node_as_str (nr_node_id self)
                  @ ''` is run scoped and cannot carry a candidate identifier''))
      else and_then
        (case nr_status self of
           node_status.Succeeded \<Rightarrow>
             and_then (validate_next (nr_node_id self) (nr_next self)) (\<lambda>_.
               if nr_failure self \<noteq> None
               then Inl (InvariantViolated ''a succeeded node result cannot carry a failure'')
               else Inr ())
         | node_status.Failed \<Rightarrow>
             if nr_failure self = None then Inl (MissingField ''failure'')
             else validate_next (nr_node_id self) (nr_next self)
         | node_status.Paused \<Rightarrow> Inr ()
         | node_status.Cancelled \<Rightarrow> Inr ()
         | node_status.Interrupted \<Rightarrow> Inr ())
        (\<lambda>_. state_patch_validate (nr_state_patch self)))"

section \<open>The builder\<close>

record node_result_builder =
  nb_run_id :: run_id
  nb_candidate_id :: "candidate_id option"
  nb_node_id :: node_id
  nb_attempt :: attempt_number
  nb_started_at :: timestamp
  nb_artifacts :: "artifact_reference list"
  nb_state_patch :: state_patch
  nb_metrics :: json_value
  nb_warnings :: "string list"

definition node_result_builder_new ::
    "run_id \<Rightarrow> node_id \<Rightarrow> attempt_number \<Rightarrow> timestamp \<Rightarrow> node_result_builder" where
  "node_result_builder_new run node attempt started_at =
     \<lparr>nb_run_id = run, nb_candidate_id = None, nb_node_id = node, nb_attempt = attempt,
      nb_started_at = started_at, nb_artifacts = [], nb_state_patch = state_patch_default,
      nb_metrics = JObject [], nb_warnings = []\<rparr>"

definition builder_candidate :: "candidate_id \<Rightarrow> node_result_builder \<Rightarrow> node_result_builder" where
  "builder_candidate candidate b = b\<lparr>nb_candidate_id := Some candidate\<rparr>"

definition builder_artifact ::
    "artifact_reference \<Rightarrow> node_result_builder \<Rightarrow> node_result_builder" where
  "builder_artifact artifact b = b\<lparr>nb_artifacts := nb_artifacts b @ [artifact]\<rparr>"

definition builder_artifacts ::
    "artifact_reference list \<Rightarrow> node_result_builder \<Rightarrow> node_result_builder" where
  "builder_artifacts artifacts b = b\<lparr>nb_artifacts := nb_artifacts b @ artifacts\<rparr>"

definition builder_patch :: "state_patch \<Rightarrow> node_result_builder \<Rightarrow> node_result_builder" where
  "builder_patch patch b = b\<lparr>nb_state_patch := patch\<rparr>"

definition builder_metrics :: "json_value \<Rightarrow> node_result_builder \<Rightarrow> node_result_builder" where
  "builder_metrics metrics b = b\<lparr>nb_metrics := metrics\<rparr>"

definition builder_warning :: "string \<Rightarrow> node_result_builder \<Rightarrow> node_result_builder" where
  "builder_warning warning b = b\<lparr>nb_warnings := nb_warnings b @ [warning]\<rparr>"

definition builder_finish ::
    "node_result_builder \<Rightarrow> timestamp \<Rightarrow> node_status \<Rightarrow> node_id option \<Rightarrow> node_failure option
      \<Rightarrow> node_result" where
  "builder_finish b finished_at status next failure =
     \<lparr>nr_schema_version = node_result_schema_version, nr_run_id = nb_run_id b,
      nr_candidate_id = nb_candidate_id b, nr_node_id = nb_node_id b,
      nr_attempt = nb_attempt b, nr_status = status, nr_started_at = nb_started_at b,
      nr_finished_at = finished_at,
      nr_duration_ms = duration_since finished_at (nb_started_at b), nr_next = next,
      nr_state_patch = nb_state_patch b, nr_artifacts = nb_artifacts b, nr_failure = failure,
      nr_metrics = nb_metrics b, nr_warnings = nb_warnings b\<rparr>"

definition builder_succeeded ::
    "node_result_builder \<Rightarrow> timestamp \<Rightarrow> node_id option \<Rightarrow> node_result" where
  "builder_succeeded b finished_at next =
     builder_finish b finished_at node_status.Succeeded next None"

definition builder_failed ::
    "node_result_builder \<Rightarrow> timestamp \<Rightarrow> node_failure \<Rightarrow> node_id option \<Rightarrow> node_result" where
  "builder_failed b finished_at failure next =
     builder_finish b finished_at node_status.Failed next (Some failure)"

definition builder_paused :: "node_result_builder \<Rightarrow> timestamp \<Rightarrow> node_result" where
  "builder_paused b finished_at = builder_finish b finished_at node_status.Paused None None"

definition builder_cancelled :: "node_result_builder \<Rightarrow> timestamp \<Rightarrow> node_result" where
  "builder_cancelled b finished_at = builder_finish b finished_at node_status.Cancelled None None"

section \<open>What validation accepts\<close>

definition patch_ok :: "state_patch \<Rightarrow> bool" where
  "patch_ok p \<longleftrightarrow> (case sp_changed_lines p of Some l \<Rightarrow> l \<le> 10000000 | None \<Rightarrow> True)"

lemma state_patch_validate_iff: "state_patch_validate p = Inr () \<longleftrightarrow> patch_ok p"
  by (auto simp: state_patch_validate_def patch_ok_def split: option.split)

lemma validate_next_iff:
  "validate_next n x = Inr () \<longleftrightarrow> (\<forall>m. x = Some m \<longrightarrow> node_accepts_successor n m)"
  by (auto simp: validate_next_def node_validate_transition_def split: option.split)

lemma node_result_validate_iff:
  "node_result_validate r = Inr () \<longleftrightarrow>
     nr_schema_version r = 1 \<and> nr_started_at r \<le> nr_finished_at r
     \<and> (node_scope_of (nr_node_id r) = CandidateScope \<longleftrightarrow> nr_candidate_id r \<noteq> None)
     \<and> (nr_status r = node_status.Succeeded \<longrightarrow> nr_failure r = None)
     \<and> (nr_status r = node_status.Failed \<longrightarrow> nr_failure r \<noteq> None)
     \<and> (nr_status r \<in> {node_status.Succeeded, node_status.Failed} \<longrightarrow>
          (\<forall>m. nr_next r = Some m \<longrightarrow> node_accepts_successor (nr_node_id r) m))
     \<and> patch_ok (nr_state_patch r)"
proof -
  have scope: "node_scope_of n = RunScope \<longleftrightarrow> node_scope_of n \<noteq> CandidateScope" for n
    by (cases "node_scope_of n") simp_all
  show ?thesis
    unfolding node_result_validate_def guard_Inr and_then_Inr node_result_schema_version_def scope
      state_patch_validate_iff
    by (cases "nr_status r") (auto simp: guard_Inr validate_next_iff linorder_not_less)
qed

end
