(* ===== verification/Forge_Plan.thy ===== *)
theory Forge_Plan
  imports Forge_Identity
begin

text \<open>
  \<open>crates/domain/src/plan.rs\<close>: the versions of a plan, the approval bound to the hash of one
  version, and the check that a plan document has the required sections.
\<close>

section \<open>Versions and approvals\<close>

datatype plan_author = AgentAuthor | HumanAuthor

primrec plan_author_as_str :: "plan_author \<Rightarrow> string" where
  "plan_author_as_str AgentAuthor = ''agent''"
| "plan_author_as_str HumanAuthor = ''human''"

datatype approval_decision = Approved | RevisionRequested | Rejected

primrec approval_decision_as_str :: "approval_decision \<Rightarrow> string" where
  "approval_decision_as_str Approved = ''approved''"
| "approval_decision_as_str RevisionRequested = ''revision_requested''"
| "approval_decision_as_str Rejected = ''rejected''"

record plan_version =
  pv_version :: u32
  pv_hash :: plan_hash
  pv_created_at :: timestamp
  pv_author :: plan_author
  pv_revision_note :: "string option"
  pv_byte_length :: u64

record plan_approval =
  pa_id :: approval_id
  pa_decision :: approval_decision
  pa_plan_version :: u32
  pa_plan_hash :: plan_hash
  pa_decided_at :: timestamp
  pa_local_user :: string
  pa_note :: "string option"

definition approval_is_valid_for :: "plan_approval \<Rightarrow> plan_hash \<Rightarrow> bool" where
  "approval_is_valid_for self current_hash \<longleftrightarrow>
     pa_decision self = Approved \<and> pa_plan_hash self = current_hash"

definition ensure_valid_for :: "plan_approval \<Rightarrow> plan_hash \<Rightarrow> unit domain_result" where
  "ensure_valid_for self current_hash =
     (if approval_is_valid_for self current_hash then Inr ()
      else Inl (ApprovalHashMismatch (pa_plan_hash self) current_hash))"

record plan_history =
  ph_versions :: "plan_version list"
  ph_approval :: "plan_approval option"

definition plan_history_default :: plan_history where
  "plan_history_default = \<lparr>ph_versions = [], ph_approval = None\<rparr>"

definition plan_current :: "plan_history \<Rightarrow> plan_version option" where
  "plan_current self = (if ph_versions self = [] then None else Some (last (ph_versions self)))"

definition next_version_number :: "plan_history \<Rightarrow> u32" where
  "next_version_number self =
     (case plan_current self of Some v \<Rightarrow> pv_version v + 1 | None \<Rightarrow> 1)"

definition plan_version_of :: "plan_history \<Rightarrow> u32 \<Rightarrow> plan_version option" where
  "plan_version_of self number = find (\<lambda>v. pv_version v = number) (ph_versions self)"

definition approved_hash :: "plan_history \<Rightarrow> plan_hash option" where
  "approved_hash self =
     Option.bind (ph_approval self) (\<lambda>approval.
     Option.bind (plan_current self) (\<lambda>current.
       if approval_is_valid_for approval (pv_hash current)
       then Some (pa_plan_hash approval) else None))"

definition plan_is_approved :: "plan_history \<Rightarrow> bool" where
  "plan_is_approved self \<longleftrightarrow> approved_hash self \<noteq> None"

lemma plan_is_approved_iff:
  "plan_is_approved h \<longleftrightarrow>
     (\<exists>a v. ph_approval h = Some a \<and> plan_current h = Some v
            \<and> pa_decision a = Approved \<and> pa_plan_hash a = pv_hash v)"
  by (auto simp: plan_is_approved_def approved_hash_def approval_is_valid_for_def
      Option.bind_eq_Some_conv)

section \<open>Plan documents\<close>

definition required_plan_headings :: "string list" where
  "required_plan_headings =
     [''Task interpretation'', ''Current repository findings'', ''Assumptions'',
      ''Proposed design'', ''Files expected to change'', ''Compatibility and migration'',
      ''Test strategy'', ''Quality and security checks'', ''Risks and mitigations'',
      ''Acceptance checklist'']"

record plan_validation =
  pl_missing_headings :: "string list"
  pl_empty_sections :: "string list"
  pl_expected_files :: "string list"

definition is_acceptable :: "plan_validation \<Rightarrow> bool" where
  "is_acceptable self \<longleftrightarrow> pl_missing_headings self = []"

record plan_section =
  ps_title :: string
  ps_body :: string

text \<open>One turn of the loop over the lines: the finished sections, the open one, the fence.\<close>

type_synonym section_state = "plan_section list \<times> plan_section option \<times> bool"

fun flush_section :: "plan_section list \<Rightarrow> plan_section option \<Rightarrow> plan_section list" where
  "flush_section sections None = sections"
| "flush_section sections (Some s) = sections @ [s]"

fun section_step :: "section_state \<Rightarrow> string \<Rightarrow> section_state" where
  "section_step (sections, current, in_fence) line =
     (let trimmed = trim_start line;
          fence = (if starts_with ''```'' trimmed then \<not> in_fence else in_fence)
      in if \<not> fence \<and> starts_with ''#'' trimmed
         then (flush_section sections current,
               Some \<lparr>ps_title = trim (trim_start_char (CHR ''#'') trimmed), ps_body = []\<rparr>, fence)
         else (sections,
               map_option (\<lambda>s. s\<lparr>ps_body := ps_body s @ line @ [newline]\<rparr>) current, fence))"

definition split_sections :: "string \<Rightarrow> plan_section list" where
  "split_sections markdown =
     (case foldl section_step ([], None, False) (lines markdown) of
        (sections, current, _) \<Rightarrow> flush_section sections current)"

definition list_item :: "string \<Rightarrow> string option" where
  "list_item line =
     (let trimmed = trim line
      in Option.bind
           (case strip_prefix ''- '' trimmed of Some s \<Rightarrow> Some s
            | None \<Rightarrow> (case strip_prefix ''* '' trimmed of Some s \<Rightarrow> Some s
                       | None \<Rightarrow> strip_prefix ''+ '' trimmed))
           (\<lambda>stripped.
              let cleaned = trim (trim_char (CHR ''`'') (trim stripped))
              in if cleaned = [] then None else Some cleaned))"

definition extract_list_items :: "string \<Rightarrow> string list" where
  "extract_list_items body = List.map_filter list_item (lines body)"

definition section_titled :: "string \<Rightarrow> plan_section list \<Rightarrow> plan_section option" where
  "section_titled heading sections =
     find (\<lambda>s. eq_ignore_ascii_case (ps_title s) heading) sections"

definition validate_plan_document :: "string \<Rightarrow> plan_validation" where
  "validate_plan_document markdown =
     (let sections = split_sections markdown
      in \<lparr>pl_missing_headings =
            filter (\<lambda>h. section_titled h sections = None) required_plan_headings,
          pl_empty_sections =
            filter (\<lambda>h. case section_titled h sections of
                Some s \<Rightarrow> trim (ps_body s) = [] | None \<Rightarrow> False) required_plan_headings,
          pl_expected_files =
            (case section_titled ''Files expected to change'' sections of
               Some s \<Rightarrow> extract_list_items (ps_body s) | None \<Rightarrow> [])\<rparr>)"

text \<open>A plan is acceptable exactly when each required heading has a section.\<close>

lemma acceptable_iff:
  "is_acceptable (validate_plan_document md) \<longleftrightarrow>
     (\<forall>h \<in> set required_plan_headings. \<exists>s \<in> set (split_sections md).
        to_ascii_lowercase (ps_title s) = to_ascii_lowercase h)"
  unfolding is_acceptable_def validate_plan_document_def Let_def plan_validation.simps
    filter_empty_conv section_titled_def find_None_iff_set eq_ignore_ascii_case_def
  by blast

text \<open>A heading inside an open fence starts no section.\<close>

lemma section_step_fenced:
  "\<not> starts_with ''```'' (trim_start line) \<Longrightarrow>
     fst (section_step (sections, current, True) line) = sections
     \<and> map_option ps_title (fst (snd (section_step (sections, current, True) line)))
         = map_option ps_title current"
  by (cases current) (simp_all add: Let_def)

end
