(* ===== verification/Forge_Event.thy ===== *)
theory Forge_Event
  imports Forge_Node Forge_Plan
begin

text \<open>
  \<open>crates/domain/src/event.rs\<close>: the events of a run, their envelope and the hash chain that
  binds an event to its predecessor. The JSON encoding of a payload (\<open>serde_json::to_vec\<close>) is
  the parameter \<open>enc\<close>; it yields the bytes or the message of its error. Field names that are
  keywords are spelt \<open>from_status\<close> and \<open>to_status\<close>.
\<close>

datatype diagnostic_level = Info | Warning | Error

primrec diagnostic_level_label :: "diagnostic_level \<Rightarrow> string" where
  "diagnostic_level_label diagnostic_level.Info = ''Information''"
| "diagnostic_level_label Warning = ''Warning''"
| "diagnostic_level_label Error = ''Error''"

section \<open>Payloads\<close>

datatype event_payload =
    RunCreated string string content_digest u8 commit_policy string bool
  | RunStatusChanged run_status run_status "string option"
  | BaselineResolved commit_hash string bool
  | ConfigurationSnapshotted content_digest "string list" "string list" "string list"
  | NodeStarted node_id "candidate_id option" attempt_number "content_digest option"
  | NodeSucceeded node_id "candidate_id option" attempt_number duration_ms "node_id option"
      content_digest
  | NodeFailed node_id "candidate_id option" attempt_number duration_ms node_failure
      "node_id option" content_digest
  | NodePaused node_id "candidate_id option" attempt_number string content_digest
  | NodeCancelled node_id "candidate_id option" attempt_number content_digest
  | NodeInterrupted node_id "candidate_id option" attempt_number timestamp
  | NodeRetryScheduled node_id "candidate_id option" attempt_number duration_ms string
  | PlanVersionWritten u32 content_digest plan_author "string option" u64
  | PlanDecisionRecorded approval_id approval_decision u32 content_digest string
      "string option"
  | PlanApprovalInvalidated content_digest content_digest
  | CandidateRegistered candidate_id candidate_ordinal candidate_strategy string string u32
  | CandidateStatusChanged candidate_id candidate_status candidate_status "string option"
  | CandidateDiffRecorded candidate_id content_digest u32 u64
  | CandidateRepairStarted candidate_id u32 u32 "string option"
  | TestEvidenceRecorded "candidate_id option" node_id bool "string list" "string list"
      "f64 option" duration_ms
  | ReviewEvidenceRecorded "candidate_id option" node_id bool "string list" "string list"
      u64 duration_ms
  | CandidateScored candidate_id score_tuple
  | CandidateExcluded candidate_id "exclusion_reason list"
  | RankingComputed ranking
  | WinnerSelected candidate_id u32
  | IntegrationAttempted candidate_id bool "string option"
  | CandidatePromotionRequested candidate_id "candidate_id option" string
  | CommitApprovalRecorded approval_id string "string option"
  | CommitCreated branch_name commit_hash string string u32 bool
  | CancellationRequested string "string option"
  | RecoveryStarted u64 u32
  | RecoveryCompleted u64 "string list"
  | ProcessSupervisionRecorded node_id "candidate_id option" string "u32 option"
      "int option" bool u32
  | ArtifactStored content_digest string string u64 bool
  | RunExported string u64 bool
  | DiagnosticRecorded diagnostic_level string string "json_value option"

primrec payload_type_name :: "event_payload \<Rightarrow> string" where
  "payload_type_name (RunCreated a b c d e f g) = ''run_created''"
| "payload_type_name (RunStatusChanged a b c) = ''run_status_changed''"
| "payload_type_name (BaselineResolved a b c) = ''baseline_resolved''"
| "payload_type_name (ConfigurationSnapshotted a b c d) = ''configuration_snapshotted''"
| "payload_type_name (NodeStarted a b c d) = ''node_started''"
| "payload_type_name (NodeSucceeded a b c d e f) = ''node_succeeded''"
| "payload_type_name (NodeFailed a b c d e f g) = ''node_failed''"
| "payload_type_name (NodePaused a b c d e) = ''node_paused''"
| "payload_type_name (NodeCancelled a b c d) = ''node_cancelled''"
| "payload_type_name (NodeInterrupted a b c d) = ''node_interrupted''"
| "payload_type_name (NodeRetryScheduled a b c d e) = ''node_retry_scheduled''"
| "payload_type_name (PlanVersionWritten a b c d e) = ''plan_version_written''"
| "payload_type_name (PlanDecisionRecorded a b c d e f) = ''plan_decision_recorded''"
| "payload_type_name (PlanApprovalInvalidated a b) = ''plan_approval_invalidated''"
| "payload_type_name (CandidateRegistered a b c d e f) = ''candidate_registered''"
| "payload_type_name (CandidateStatusChanged a b c d) = ''candidate_status_changed''"
| "payload_type_name (CandidateDiffRecorded a b c d) = ''candidate_diff_recorded''"
| "payload_type_name (CandidateRepairStarted a b c d) = ''candidate_repair_started''"
| "payload_type_name (TestEvidenceRecorded a b c d e f g) = ''test_evidence_recorded''"
| "payload_type_name (ReviewEvidenceRecorded a b c d e f g) = ''review_evidence_recorded''"
| "payload_type_name (CandidateScored a b) = ''candidate_scored''"
| "payload_type_name (CandidateExcluded a b) = ''candidate_excluded''"
| "payload_type_name (RankingComputed a) = ''ranking_computed''"
| "payload_type_name (WinnerSelected a b) = ''winner_selected''"
| "payload_type_name (IntegrationAttempted a b c) = ''integration_attempted''"
| "payload_type_name (CandidatePromotionRequested a b c) = ''candidate_promotion_requested''"
| "payload_type_name (CommitApprovalRecorded a b c) = ''commit_approval_recorded''"
| "payload_type_name (CommitCreated a b c d e f) = ''commit_created''"
| "payload_type_name (CancellationRequested a b) = ''cancellation_requested''"
| "payload_type_name (RecoveryStarted a b) = ''recovery_started''"
| "payload_type_name (RecoveryCompleted a b) = ''recovery_completed''"
| "payload_type_name (ProcessSupervisionRecorded a b c d e f g) = ''process_supervision_recorded''"
| "payload_type_name (ArtifactStored a b c d e) = ''artifact_stored''"
| "payload_type_name (RunExported a b c) = ''run_exported''"
| "payload_type_name (DiagnosticRecorded a b c d) = ''diagnostic_recorded''"

definition payload_candidate_id :: "event_payload \<Rightarrow> candidate_id option" where
  "payload_candidate_id p =
     (case p of
        NodeStarted _ candidate _ _ \<Rightarrow> candidate
        | NodeSucceeded _ candidate _ _ _ _ \<Rightarrow> candidate
        | NodeFailed _ candidate _ _ _ _ _ \<Rightarrow> candidate
        | NodePaused _ candidate _ _ _ \<Rightarrow> candidate
        | NodeCancelled _ candidate _ _ \<Rightarrow> candidate
        | NodeInterrupted _ candidate _ _ \<Rightarrow> candidate
        | NodeRetryScheduled _ candidate _ _ _ \<Rightarrow> candidate
        | CandidateRegistered candidate _ _ _ _ _ \<Rightarrow> Some candidate
        | CandidateStatusChanged candidate _ _ _ \<Rightarrow> Some candidate
        | CandidateDiffRecorded candidate _ _ _ \<Rightarrow> Some candidate
        | CandidateRepairStarted candidate _ _ _ \<Rightarrow> Some candidate
        | TestEvidenceRecorded candidate _ _ _ _ _ _ \<Rightarrow> candidate
        | ReviewEvidenceRecorded candidate _ _ _ _ _ _ \<Rightarrow> candidate
        | CandidateScored candidate _ \<Rightarrow> Some candidate
        | CandidateExcluded candidate _ \<Rightarrow> Some candidate
        | WinnerSelected candidate _ \<Rightarrow> Some candidate
        | IntegrationAttempted candidate _ _ \<Rightarrow> Some candidate
        | ProcessSupervisionRecorded _ candidate _ _ _ _ _ \<Rightarrow> candidate
      | _ \<Rightarrow> None)"

definition payload_node_id :: "event_payload \<Rightarrow> node_id option" where
  "payload_node_id p =
     (case p of
        NodeStarted node _ _ _ \<Rightarrow> Some node
        | NodeSucceeded node _ _ _ _ _ \<Rightarrow> Some node
        | NodeFailed node _ _ _ _ _ _ \<Rightarrow> Some node
        | NodePaused node _ _ _ _ \<Rightarrow> Some node
        | NodeCancelled node _ _ _ \<Rightarrow> Some node
        | NodeInterrupted node _ _ _ \<Rightarrow> Some node
        | NodeRetryScheduled node _ _ _ _ \<Rightarrow> Some node
        | TestEvidenceRecorded _ node _ _ _ _ _ \<Rightarrow> Some node
        | ReviewEvidenceRecorded _ node _ _ _ _ _ \<Rightarrow> Some node
        | ProcessSupervisionRecorded node _ _ _ _ _ _ \<Rightarrow> Some node
      | _ \<Rightarrow> None)"

definition payload_attempt :: "event_payload \<Rightarrow> attempt_number option" where
  "payload_attempt p =
     (case p of
        NodeStarted _ _ attempt _ \<Rightarrow> Some attempt
        | NodeSucceeded _ _ attempt _ _ _ \<Rightarrow> Some attempt
        | NodeFailed _ _ attempt _ _ _ _ \<Rightarrow> Some attempt
        | NodePaused _ _ attempt _ _ \<Rightarrow> Some attempt
        | NodeCancelled _ _ attempt _ \<Rightarrow> Some attempt
        | NodeInterrupted _ _ attempt _ \<Rightarrow> Some attempt
        | NodeRetryScheduled _ _ attempt _ _ \<Rightarrow> Some attempt
      | _ \<Rightarrow> None)"

definition is_node_terminal :: "event_payload \<Rightarrow> bool" where
  "is_node_terminal p =
     (case p of
        NodeSucceeded _ _ _ _ _ _ \<Rightarrow> True
      | NodeFailed _ _ _ _ _ _ _ \<Rightarrow> True
      | NodePaused _ _ _ _ _ \<Rightarrow> True
      | NodeCancelled _ _ _ _ \<Rightarrow> True
      | _ \<Rightarrow> False)"

definition replace_underscores :: "string \<Rightarrow> string" where
  "replace_underscores s = map (\<lambda>c. if c = CHR ''_'' then CHR '' '' else c) s"

primrec human_summary :: "event_payload \<Rightarrow> string" where
  "human_summary (RunCreated repository_path task_title task_digest candidate_count policy
       agent_driver demonstration_mode) =
     ''Run created for `'' @ task_title @ ''`''"
| "human_summary (RunStatusChanged from_status to_status reason) =
     ''Run status moved from '' @ run_status_label from_status @ '' to '' @ run_status_label
       to_status"
| "human_summary (BaselineResolved baseline_commit default_branch dirty_snapshot) =
     ''Baseline resolved at '' @ commit_short baseline_commit"
| "human_summary (ConfigurationSnapshotted digest command_ids required_command_ids
       review_providers) =
     ''Configuration snapshotted with '' @ nat_dec (length command_ids) @ '' commands''"
| "human_summary (NodeStarted node candidate attempt prompt_template_hash) =
     node_label node @ '' started, attempt '' @ dec attempt"
| "human_summary (NodeSucceeded node candidate attempt duration next_node result_digest) =
     node_label node @ '' succeeded in '' @ duration_human duration"
| "human_summary (NodeFailed node candidate attempt duration failure next_node
       result_digest) =
     node_label node @ '' failed: '' @ nf_message failure"
| "human_summary (NodePaused node candidate attempt reason result_digest) =
     node_label node @ '' paused: '' @ reason"
| "human_summary (NodeCancelled node candidate attempt result_digest) =
     node_label node @ '' cancelled''"
| "human_summary (NodeInterrupted node candidate attempt detected_at) =
     node_label node @ '' was interrupted and will be recovered''"
| "human_summary (NodeRetryScheduled node candidate attempt delay reason) =
     node_label node @ '' retry scheduled in '' @ duration_human delay @ '' because '' @
       reason"
| "human_summary (PlanVersionWritten version plan_hash author revision_note byte_length) =
     ''Plan version '' @ dec version @ '' written''"
| "human_summary (PlanDecisionRecorded approval decision version plan_hash local_user
       note_text) =
     ''Plan version '' @ dec version @ '' '' @ replace_underscores (approval_decision_as_str
       decision)"
| "human_summary (PlanApprovalInvalidated previous_plan_hash current_plan_hash) =
     ''Plan approval invalidated by a later edit''"
| "human_summary (CandidateRegistered candidate ordinal strategy branch_name
       worktree_relative_path repair_budget) =
     ''Candidate '' @ candidate @ '' registered with the '' @ strategy_label strategy @
       '' strategy''"
| "human_summary (CandidateStatusChanged candidate from_status to_status reason) =
     ''Candidate '' @ candidate @ '' is now '' @ candidate_status_label to_status"
| "human_summary (CandidateDiffRecorded candidate diff_digest changed_files changed_lines) =
     ''Candidate '' @ candidate @ '' changed '' @ dec changed_lines @ '' lines across '' @
       dec changed_files @ '' files''"
| "human_summary (CandidateRepairStarted candidate repairs_used repair_budget fingerprint) =
     ''Candidate '' @ candidate @ '' repair '' @ dec repairs_used @ '' of '' @ dec
       repair_budget @ '' started''"
| "human_summary (TestEvidenceRecorded candidate node passed commands failed_commands
       line_coverage_percent duration) =
     (if passed then ''All required test commands passed'' else ''Test commands failed: '' @
       join_str '', '' failed_commands)"
| "human_summary (ReviewEvidenceRecorded candidate node passed providers failed_providers
       blockers duration) =
     (if passed then ''All required review providers passed'' else
       ''Review providers failed: '' @ join_str '', '' failed_providers)"
| "human_summary (CandidateScored candidate score) =
     ''Candidate '' @ candidate @ '' scored''"
| "human_summary (CandidateExcluded candidate reasons) =
     ''Candidate '' @ candidate @ '' excluded: '' @ join_str ''; '' (map exclusion_summary
       reasons)"
| "human_summary (RankingComputed ranking_made) =
     ''Ranking computed across '' @ nat_dec (length (rg_entries ranking_made)) @
       '' candidates''"
| "human_summary (WinnerSelected candidate rank) =
     ''Candidate '' @ candidate @ '' selected at rank '' @ dec rank"
| "human_summary (IntegrationAttempted candidate applied detail) =
     (if applied then ''Candidate '' @ candidate @ '' applied to the integration worktree''
       else ''Candidate '' @ candidate @ '' could not be applied: '' @ (case detail of Some
       d \<Rightarrow> d | None \<Rightarrow> ''unknown reason''))"
| "human_summary (CandidatePromotionRequested previous_candidate next_candidate reason) =
     (case next_candidate of Some n \<Rightarrow> ''Promoting candidate '' @ n @
       '' because '' @ reason | None \<Rightarrow>
       ''No candidate remains to promote because '' @ reason)"
| "human_summary (CommitApprovalRecorded approval local_user note_text) =
     ''Commit approved by '' @ local_user"
| "human_summary (CommitCreated branch_name hash author_name committer_name changed_files
       was_signed) =
     ''Commit '' @ commit_short hash @ '' created on '' @ branch_name"
| "human_summary (CancellationRequested requested_by reason) =
     ''Cancellation requested by '' @ requested_by"
| "human_summary (RecoveryStarted last_applied_sequence interrupted_attempts) =
     ''Recovery started with '' @ dec interrupted_attempts @ '' interrupted attempts''"
| "human_summary (RecoveryCompleted replayed_events repaired_projections) =
     ''Recovery replayed '' @ dec replayed_events @ '' events''"
| "human_summary (ProcessSupervisionRecorded node candidate command process exit_code
       timed_out children_terminated) =
     (if timed_out then ''Command `'' @ command @
       ''` exceeded its timeout and its process tree was terminated'' else ''Command `'' @
       command @ ''` process tree completed'')"
| "human_summary (ArtifactStored artifact label relative_path byte_length truncated) =
     ''Artefact `'' @ label @ ''` stored with '' @ dec byte_length @ '' bytes''"
| "human_summary (RunExported archive_relative_path byte_length redacted) =
     ''Run exported to '' @ archive_relative_path"
| "human_summary (DiagnosticRecorded level code message detail) =
     diagnostic_level_label level @ '': '' @ message"

section \<open>The envelope\<close>

record durable_event =
  de_schema_version :: u32
  de_sequence :: u64
  de_event_id :: event_id
  de_run_id :: run_id
  de_candidate_id :: "candidate_id option"
  de_node_id :: "node_id option"
  de_attempt :: "attempt_number option"
  de_recorded_at :: timestamp
  de_event_type :: string
  de_previous_hash :: string
  de_payload_hash :: string
  de_payload :: event_payload

type_synonym payload_encoder = "event_payload \<Rightarrow> string + string"

definition event_schema_version :: u32 where "event_schema_version = 1"

definition genesis_hash :: string where "genesis_hash = replicate 64 (CHR ''0'')"

definition hash_payload :: "externals \<Rightarrow> payload_encoder \<Rightarrow> event_payload \<Rightarrow> string domain_result" where
  "hash_payload X enc payload =
     and_then
       (map_err (\<lambda>e. InvariantViolated (''event payload could not be encoded: '' @ e)) (enc payload))
       (\<lambda>encoded. Inr (digest_of_bytes X encoded))"

definition event_seal ::
    "externals \<Rightarrow> payload_encoder \<Rightarrow> u64 \<Rightarrow> event_id \<Rightarrow> run_id \<Rightarrow> timestamp \<Rightarrow> string
      \<Rightarrow> event_payload \<Rightarrow> durable_event domain_result" where
  "event_seal X enc sequence event run recorded_at previous_hash payload =
     and_then (hash_payload X enc payload) (\<lambda>payload_hash.
       Inr \<lparr>de_schema_version = event_schema_version, de_sequence = sequence,
            de_event_id = event, de_run_id = run,
            de_candidate_id = payload_candidate_id payload,
            de_node_id = payload_node_id payload, de_attempt = payload_attempt payload,
            de_recorded_at = recorded_at, de_event_type = payload_type_name payload,
            de_previous_hash = previous_hash, de_payload_hash = payload_hash,
            de_payload = payload\<rparr>)"

definition chain_material :: "externals \<Rightarrow> durable_event \<Rightarrow> string" where
  "chain_material X self =
     dec (de_sequence self) @ [unit_separator] @ event_display X (de_event_id self)
     @ [unit_separator] @ rfc3339 X (de_recorded_at self) @ [unit_separator]
     @ de_previous_hash self @ [unit_separator] @ de_payload_hash self"

definition chain_hash :: "externals \<Rightarrow> durable_event \<Rightarrow> string" where
  "chain_hash X self = digest_of_str X (chain_material X self)"

definition event_verify ::
    "externals \<Rightarrow> payload_encoder \<Rightarrow> durable_event \<Rightarrow> u64 \<Rightarrow> string \<Rightarrow> unit domain_result" where
  "event_verify X enc self expected_sequence expected_previous_hash =
     (if de_schema_version self \<noteq> event_schema_version
      then Inl (InvariantViolated (''event schema version '' @ dec (de_schema_version self)
                  @ '' is not supported''))
      else if de_sequence self \<noteq> expected_sequence
      then Inl (EventSequenceGap expected_sequence (de_sequence self))
      else if de_previous_hash self \<noteq> expected_previous_hash
      then Inl (EventChainBroken (de_sequence self))
      else and_then (hash_payload X enc (de_payload self)) (\<lambda>computed.
        if computed \<noteq> de_payload_hash self
        then Inl (EventPayloadHashMismatch (de_sequence self))
        else if de_event_type self \<noteq> payload_type_name (de_payload self)
        then Inl (InvariantViolated (''event '' @ dec (de_sequence self) @ '' declares type `''
                    @ de_event_type self @ ''` but carries `''
                    @ payload_type_name (de_payload self) @ ''`''))
        else Inr ()))"

section \<open>Sealing and verifying\<close>

lemma hash_payload_Inr:
  "hash_payload X enc p = Inr h \<longleftrightarrow> (\<exists>b. enc p = Inr b \<and> h = blake3_hex X b)"
  by (auto simp: hash_payload_def digest_of_bytes_def)

lemma event_verify_iff:
  "event_verify X enc e s h = Inr () \<longleftrightarrow>
     de_schema_version e = 1 \<and> de_sequence e = s \<and> de_previous_hash e = h
     \<and> hash_payload X enc (de_payload e) = Inr (de_payload_hash e)
     \<and> de_event_type e = payload_type_name (de_payload e)"
  unfolding event_verify_def guard_Inr event_schema_version_def and_then_Inr by auto

lemma event_seal_Inr:
  "event_seal X enc s i r t h p = Inr e \<Longrightarrow>
     hash_payload X enc p = Inr (de_payload_hash e) \<and> de_schema_version e = 1
     \<and> de_sequence e = s \<and> de_event_id e = i \<and> de_run_id e = r \<and> de_recorded_at e = t
     \<and> de_previous_hash e = h \<and> de_payload e = p \<and> de_event_type e = payload_type_name p
     \<and> de_candidate_id e = payload_candidate_id p \<and> de_node_id e = payload_node_id p
     \<and> de_attempt e = payload_attempt p"
  by (auto simp: event_seal_def event_schema_version_def)

lemma event_seal_verify:
  "event_seal X enc s i r t h p = Inr e \<Longrightarrow> event_verify X enc e s h = Inr ()"
  using event_seal_Inr [of X enc s i r t h p e] by (simp add: event_verify_iff)

lemma event_seal_total:
  "(\<exists>e. event_seal X enc s i r t h p = Inr e) \<longleftrightarrow> (\<exists>b. enc p = Inr b)"
  by (auto simp: event_seal_def hash_payload_Inr)

section \<open>Tamper evidence\<close>

text \<open>The events of a chain, each verified against the sequence and the hash before it.\<close>

fun chain_verified ::
    "externals \<Rightarrow> payload_encoder \<Rightarrow> u64 \<Rightarrow> string \<Rightarrow> durable_event list \<Rightarrow> bool" where
  "chain_verified X enc s h [] = True"
| "chain_verified X enc s h (e # es) =
     (event_verify X enc e (s + 1) h = Inr () \<and> chain_verified X enc (s + 1) (chain_hash X e) es)"

definition chain_end :: "externals \<Rightarrow> string \<Rightarrow> durable_event list \<Rightarrow> string" where
  "chain_end X h es = (if es = [] then h else chain_hash X (last es))"

text \<open>
  What the chain relies on in the crates: the printed identifiers and dates are distinct for
  distinct values and free of the separator byte, and digests are free of it too.
\<close>

definition printing_ok :: "externals \<Rightarrow> bool" where
  "printing_ok X \<longleftrightarrow>
     inj (uuid_hyphenated X) \<and> (\<forall>u. unit_separator \<notin> set (uuid_hyphenated X u))
     \<and> inj (rfc3339 X) \<and> (\<forall>t. unit_separator \<notin> set (rfc3339 X t))
     \<and> (\<forall>b. unit_separator \<notin> set (blake3_hex X b))"

text \<open>Everything that is hashed for a list of events.\<close>

definition hashed_materials ::
    "externals \<Rightarrow> payload_encoder \<Rightarrow> durable_event list \<Rightarrow> string set" where
  "hashed_materials X enc es =
     chain_material X ` set es \<union> {b. \<exists>e \<in> set es. enc (de_payload e) = Inr b}"

text \<open>What the chain hash fixes of an event.\<close>

definition event_core :: "durable_event \<Rightarrow> u64 \<times> event_id \<times> timestamp \<times> event_payload" where
  "event_core e = (de_sequence e, de_event_id e, de_recorded_at e, de_payload e)"

lemma field_split:
  assumes "a @ c # b = a' @ c # b'" and "c \<notin> set a" and "c \<notin> set a'"
  shows "a = a' \<and> b = b'"
  using assms
proof (induction a arbitrary: a')
  case Nil
  then show ?case by (cases a') auto
next
  case (Cons x a)
  then show ?case by (cases a') auto
qed

lemma dec_no_separator: "unit_separator \<notin> set (dec w)"
proof
  assume "unit_separator \<in> set (dec w)"
  then have "is_ascii_digit unit_separator" by (rule dec_digits)
  then show False by (simp add: is_ascii_digit_def unit_separator_def)
qed

lemma chain_material_inject:
  assumes "printing_ok X" and "chain_material X d = chain_material X e"
    and "unit_separator \<notin> set (de_previous_hash d)" and "unit_separator \<notin> set (de_previous_hash e)"
  shows "de_sequence d = de_sequence e \<and> de_event_id d = de_event_id e
    \<and> de_recorded_at d = de_recorded_at e \<and> de_previous_hash d = de_previous_hash e
    \<and> de_payload_hash d = de_payload_hash e"
proof -
  from assms(1) have uuid: "\<And>u. unit_separator \<notin> set (uuid_hyphenated X u)" "inj (uuid_hyphenated X)"
    and date: "\<And>t. unit_separator \<notin> set (rfc3339 X t)" "inj (rfc3339 X)"
    by (auto simp: printing_ok_def)
  note eq = assms(2) [unfolded chain_material_def event_display_def, simplified]
  from field_split [OF eq dec_no_separator dec_no_separator]
  have s: "de_sequence d = de_sequence e" and eq2: "uuid_hyphenated X (event_uuid (de_event_id d))
      @ unit_separator # rfc3339 X (de_recorded_at d) @ unit_separator # de_previous_hash d
      @ unit_separator # de_payload_hash d
    = uuid_hyphenated X (event_uuid (de_event_id e))
      @ unit_separator # rfc3339 X (de_recorded_at e) @ unit_separator # de_previous_hash e
      @ unit_separator # de_payload_hash e" by auto
  note two = field_split [OF eq2 uuid(1) uuid(1)]
  note three = field_split [OF conjunct2 [OF two] date(1) date(1)]
  note four = field_split [OF conjunct2 [OF three] assms(3,4)]
  from two three four s show ?thesis
    by (simp add: inj_eq [OF uuid(2)] inj_eq [OF date(2)] event_id.expand)
qed

lemma chain_end_Cons: "chain_end X h (e # es) = chain_end X (chain_hash X e) es"
  by (simp add: chain_end_def)

lemma tamper_evident:
  assumes ok: "printing_ok X"
    and hash: "inj_on (blake3_hex X) (hashed_materials X enc ds \<union> hashed_materials X enc es)"
    and enc: "\<And>p q b. enc p = Inr b \<Longrightarrow> enc q = Inr b \<Longrightarrow> p = q"
    and chains: "chain_verified X enc s h ds" "chain_verified X enc t k es"
    and sep: "unit_separator \<notin> set h" "unit_separator \<notin> set k"
    and len: "length ds = length es"
    and same: "chain_end X h ds = chain_end X k es"
  shows "h = k \<and> map event_core ds = map event_core es"
  using len hash chains sep same
proof (induction ds es arbitrary: s t h k rule: list_induct2)
  case Nil
  then show ?case by (simp add: chain_end_def)
next
  case (Cons d ds e es)
  note v = Cons.prems(2,3)
  from v have vd: "event_verify X enc d (s + 1) h = Inr ()" and
    ve: "event_verify X enc e (t + 1) k = Inr ()" by simp_all
  have clean: "unit_separator \<notin> set (chain_hash X x)" for x
    using ok by (simp add: printing_ok_def chain_hash_def digest_of_str_def digest_of_bytes_def)
  have sub: "hashed_materials X enc ds \<union> hashed_materials X enc es
      \<subseteq> hashed_materials X enc (d # ds) \<union> hashed_materials X enc (e # es)"
    by (auto simp: hashed_materials_def)
  have "chain_hash X d = chain_hash X e \<and> map event_core ds = map event_core es"
    by (rule Cons.IH [OF inj_on_subset [OF Cons.prems(1) sub], of "s + 1" _ "t + 1"])
      (use v clean Cons.prems(6) in \<open>simp_all add: chain_end_Cons\<close>)
  then have heads: "blake3_hex X (chain_material X d) = blake3_hex X (chain_material X e)"
    and tails: "map event_core ds = map event_core es"
    by (simp_all add: chain_hash_def digest_of_str_def digest_of_bytes_def)
  have "chain_material X d = chain_material X e"
    by (rule inj_onD [OF Cons.prems(1) heads]) (auto simp: hashed_materials_def)
  note fields = chain_material_inject [OF ok this]
  from vd ve have prev: "de_previous_hash d = h" "de_previous_hash e = k"
    by (simp_all add: event_verify_iff)
  note fields = fields [unfolded prev, OF Cons.prems(4,5)]
  from vd ve obtain b c where b: "enc (de_payload d) = Inr b" "de_payload_hash d = blake3_hex X b"
      and c: "enc (de_payload e) = Inr c" "de_payload_hash e = blake3_hex X c"
    by (auto simp: event_verify_iff hash_payload_Inr)
  have "b = c"
    by (rule inj_onD [OF Cons.prems(1)]) (use fields b c in \<open>auto simp: hashed_materials_def\<close>)
  then have "de_payload d = de_payload e" using enc b(1) c(1) by blast
  with fields have "event_core d = event_core e" by (simp add: event_core_def)
  with fields tails show ?case by simp
qed

end
