(* ===== verification/Forge_State.thy ===== *)
theory Forge_State
  imports Forge_Event
begin

text \<open>
  \<open>crates/domain/src/state.rs\<close>: the projection of a run, its queries and the reducer that
  applies one verified event. \<open>reduce\<close> changes the projection through a mutable reference and
  every error it returns precedes its first write, so it is a function from projections to
  projections or errors; each arm of its \<open>match\<close> that does more than count is a definition of
  its own.
\<close>

section \<open>Attempts, commits, integration, metrics\<close>

datatype node_attempt_status = Started | Succeeded | Failed | Paused | Cancelled | Interrupted

primrec node_attempt_status_as_str :: "node_attempt_status \<Rightarrow> string" where
  "node_attempt_status_as_str Started = ''started''"
| "node_attempt_status_as_str node_attempt_status.Succeeded = ''succeeded''"
| "node_attempt_status_as_str node_attempt_status.Failed = ''failed''"
| "node_attempt_status_as_str node_attempt_status.Paused = ''paused''"
| "node_attempt_status_as_str node_attempt_status.Cancelled = ''cancelled''"
| "node_attempt_status_as_str node_attempt_status.Interrupted = ''interrupted''"

primrec from_node_status :: "node_status \<Rightarrow> node_attempt_status" where
  "from_node_status node_status.Succeeded = node_attempt_status.Succeeded"
| "from_node_status node_status.Failed = node_attempt_status.Failed"
| "from_node_status node_status.Paused = node_attempt_status.Paused"
| "from_node_status node_status.Cancelled = node_attempt_status.Cancelled"
| "from_node_status node_status.Interrupted = node_attempt_status.Interrupted"

record node_attempt_record =
  na_node_id :: node_id
  na_candidate_id :: "candidate_id option"
  na_attempt :: attempt_number
  na_status :: node_attempt_status
  na_started_at :: timestamp
  na_finished_at :: "timestamp option"
  na_duration :: duration_ms
  na_failure_summary :: "string option"
  na_failure_class :: "failure_class option"
  na_next :: "node_id option"
  na_sequence :: u64

type_synonym attempt_key = "node_id \<times> candidate_id option \<times> attempt_number"

definition attempt_key :: "node_attempt_record \<Rightarrow> attempt_key" where
  "attempt_key self = (na_node_id self, na_candidate_id self, na_attempt self)"

definition attempt_is_open :: "node_attempt_record \<Rightarrow> bool" where
  "attempt_is_open self \<longleftrightarrow> na_status self = Started"

record commit_record =
  cm_branch :: branch_name
  cm_commit_hash :: commit_hash
  cm_author_name :: string
  cm_committer_name :: string
  cm_changed_files :: u32
  cm_signed :: bool

record integration_state =
  in_attempted_candidates :: "candidate_id list"
  in_applied_candidate :: "candidate_id option"
  in_final_tests_passed :: "bool option"
  in_final_review_passed :: "bool option"
  in_last_detail :: "string option"

definition integration_default :: integration_state where
  "integration_default =
     \<lparr>in_attempted_candidates = [], in_applied_candidate = None, in_final_tests_passed = None,
      in_final_review_passed = None, in_last_detail = None\<rparr>"

record run_metrics =
  mt_node_executions :: u64
  mt_node_failures :: u64
  mt_automatic_retries :: u64
  mt_repair_loops :: u64
  mt_candidate_duration_ms :: u64
  mt_test_duration_ms :: u64
  mt_review_duration_ms :: u64
  mt_agent_duration_ms :: u64
  mt_changed_lines :: u64
  mt_events_recorded :: u64
  mt_artifacts_stored :: u64
  mt_processes_supervised :: u64
  mt_processes_timed_out :: u64
  mt_reported_input_tokens :: "u64 option"
  mt_reported_output_tokens :: "u64 option"
  mt_reported_cost_minor_units :: "u64 option"
  mt_reported_cost_currency :: "string option"

definition metrics_default :: run_metrics where
  "metrics_default =
     \<lparr>mt_node_executions = 0, mt_node_failures = 0, mt_automatic_retries = 0,
      mt_repair_loops = 0, mt_candidate_duration_ms = 0, mt_test_duration_ms = 0,
      mt_review_duration_ms = 0, mt_agent_duration_ms = 0, mt_changed_lines = 0,
      mt_events_recorded = 0, mt_artifacts_stored = 0, mt_processes_supervised = 0,
      mt_processes_timed_out = 0, mt_reported_input_tokens = None,
      mt_reported_output_tokens = None, mt_reported_cost_minor_units = None,
      mt_reported_cost_currency = None\<rparr>"

section \<open>The projection\<close>

record run_projection =
  rp_schema_version :: u32
  rp_run_id :: run_id
  rp_created_at :: timestamp
  rp_updated_at :: timestamp
  rp_last_event_sequence :: u64
  rp_last_event_hash :: string
  rp_status :: run_status
  rp_repository_path :: string
  rp_task_title :: string
  rp_task_digest :: content_digest
  rp_candidate_count :: u8
  rp_commit_policy :: commit_policy
  rp_agent_driver :: string
  rp_demonstration_mode :: bool
  rp_baseline_commit :: "commit_hash option"
  rp_default_branch :: "string option"
  rp_dirty_snapshot :: bool
  rp_configuration_digest :: "content_digest option"
  rp_command_ids :: "string list"
  rp_required_command_ids :: "string list"
  rp_review_providers :: "string list"
  rp_plan :: plan_history
  rp_candidates :: "candidate_record list"
  rp_attempts :: "node_attempt_record list"
  rp_ranking :: "ranking option"
  rp_winner :: "candidate_id option"
  rp_integration :: integration_state
  rp_commit :: "commit_record option"
  rp_commit_approved :: bool
  rp_cancellation_requested :: bool
  rp_recovery_reason :: "string option"
  rp_metrics :: run_metrics
  rp_last_event_summary :: "string option"
  rp_export_paths :: "string list"

definition genesis :: "externals \<Rightarrow> run_id \<Rightarrow> timestamp \<Rightarrow> run_projection" where
  "genesis X run created_at =
     \<lparr>rp_schema_version = 1, rp_run_id = run, rp_created_at = created_at,
      rp_updated_at = created_at, rp_last_event_sequence = 0, rp_last_event_hash = genesis_hash,
      rp_status = Created, rp_repository_path = [], rp_task_title = [],
      rp_task_digest = digest_of_str X [], rp_candidate_count = 0, rp_commit_policy = Manual,
      rp_agent_driver = [], rp_demonstration_mode = False, rp_baseline_commit = None,
      rp_default_branch = None, rp_dirty_snapshot = False, rp_configuration_digest = None,
      rp_command_ids = [], rp_required_command_ids = [], rp_review_providers = [],
      rp_plan = plan_history_default, rp_candidates = [], rp_attempts = [], rp_ranking = None,
      rp_winner = None, rp_integration = integration_default, rp_commit = None,
      rp_commit_approved = False, rp_cancellation_requested = False,
      rp_recovery_reason = None, rp_metrics = metrics_default, rp_last_event_summary = None,
      rp_export_paths = []\<rparr>"

definition candidate_of :: "run_projection \<Rightarrow> candidate_id \<Rightarrow> candidate_record option" where
  "candidate_of self i = find (\<lambda>candidate. cr_id candidate = i) (rp_candidates self)"

text \<open>Writing through \<open>candidate_mut(id)\<close>, when it finds the candidate.\<close>

definition modify_candidate ::
    "candidate_id \<Rightarrow> (candidate_record \<Rightarrow> candidate_record) \<Rightarrow> run_projection \<Rightarrow> run_projection" where
  "modify_candidate i f self =
     self\<lparr>rp_candidates := update_first (\<lambda>candidate. cr_id candidate = i) f (rp_candidates self)\<rparr>"

definition all_candidates_terminal :: "run_projection \<Rightarrow> bool" where
  "all_candidates_terminal self \<longleftrightarrow>
     rp_candidates self \<noteq> []
     \<and> list_all (\<lambda>candidate. candidate_is_terminal (cr_status candidate)) (rp_candidates self)"

definition eligible_candidates :: "run_projection \<Rightarrow> candidate_record list" where
  "eligible_candidates self = filter (\<lambda>candidate. cr_status candidate = Eligible) (rp_candidates self)"

definition open_attempts :: "run_projection \<Rightarrow> node_attempt_record list" where
  "open_attempts self = filter attempt_is_open (rp_attempts self)"

definition latest_attempt ::
    "run_projection \<Rightarrow> node_id \<Rightarrow> candidate_id option \<Rightarrow> node_attempt_record option" where
  "latest_attempt self node candidate =
     max_by_key na_attempt
       (filter (\<lambda>record. na_node_id record = node \<and> na_candidate_id record = candidate)
         (rp_attempts self))"

definition next_attempt_number ::
    "run_projection \<Rightarrow> node_id \<Rightarrow> candidate_id option \<Rightarrow> attempt_number" where
  "next_attempt_number self node candidate =
     (case latest_attempt self node candidate of
        Some record \<Rightarrow> attempt_next (na_attempt record)
      | None \<Rightarrow> attempt_first)"

definition completed_successfully ::
    "run_projection \<Rightarrow> node_id \<Rightarrow> candidate_id option \<Rightarrow> bool" where
  "completed_successfully self node candidate =
     list_ex (\<lambda>record. na_node_id record = node \<and> na_candidate_id record = candidate
                 \<and> na_status record = node_attempt_status.Succeeded) (rp_attempts self)"

section \<open>The arms of the reducer\<close>

definition modify_metrics :: "(run_metrics \<Rightarrow> run_metrics) \<Rightarrow> run_projection \<Rightarrow> run_projection" where
  "modify_metrics f self = self\<lparr>rp_metrics := f (rp_metrics self)\<rparr>"

text \<open>\<open>candidate_mut(id).ok_or_else(UnknownCandidate)?\<close> followed by a write.\<close>

definition with_candidate ::
    "candidate_id \<Rightarrow> (candidate_record \<Rightarrow> candidate_record domain_result) \<Rightarrow> run_projection
      \<Rightarrow> run_projection domain_result" where
  "with_candidate i f self =
     (case candidate_of self i of
        None \<Rightarrow> Inl (UnknownCandidate i)
      | Some candidate \<Rightarrow>
          map_ok (\<lambda>written. modify_candidate i (\<lambda>_. written) self) (f candidate))"

definition reduce_run_created ::
    "string \<Rightarrow> string \<Rightarrow> content_digest \<Rightarrow> u8 \<Rightarrow> commit_policy \<Rightarrow> string \<Rightarrow> bool \<Rightarrow> timestamp
      \<Rightarrow> run_projection \<Rightarrow> run_projection" where
  "reduce_run_created path title digest number policy driver demonstration instant self =
     self\<lparr>rp_repository_path := path, rp_task_title := title, rp_task_digest := digest,
          rp_candidate_count := number, rp_commit_policy := policy, rp_agent_driver := driver,
          rp_demonstration_mode := demonstration, rp_created_at := instant\<rparr>"

definition reduce_run_status ::
    "run_status \<Rightarrow> run_status \<Rightarrow> string option \<Rightarrow> run_projection
      \<Rightarrow> run_projection domain_result" where
  "reduce_run_status from_status to_status reason self =
     (if rp_status self \<noteq> from_status
      then Inl (IllegalRunTransition (rp_status self) to_status)
      else and_then (run_transition_to (rp_status self) to_status) (\<lambda>status.
        Inr (self\<lparr>rp_status := status,
                  rp_recovery_reason :=
                    (if to_status = RecoveryRequired then reason else None)\<rparr>)))"

definition reduce_baseline ::
    "commit_hash \<Rightarrow> string \<Rightarrow> bool \<Rightarrow> run_projection \<Rightarrow> run_projection" where
  "reduce_baseline baseline branch dirty self =
     self\<lparr>rp_baseline_commit := Some baseline, rp_default_branch := Some branch,
          rp_dirty_snapshot := dirty\<rparr>"

definition reduce_configuration ::
    "content_digest \<Rightarrow> string list \<Rightarrow> string list \<Rightarrow> string list \<Rightarrow> run_projection
      \<Rightarrow> run_projection" where
  "reduce_configuration digest commands required providers self =
     self\<lparr>rp_configuration_digest := Some digest, rp_command_ids := commands,
          rp_required_command_ids := required, rp_review_providers := providers\<rparr>"

definition started_record ::
    "node_id \<Rightarrow> candidate_id option \<Rightarrow> attempt_number \<Rightarrow> timestamp \<Rightarrow> u64
      \<Rightarrow> node_attempt_record" where
  "started_record node candidate attempt instant sequence =
     \<lparr>na_node_id = node, na_candidate_id = candidate, na_attempt = attempt,
      na_status = Started, na_started_at = instant, na_finished_at = None, na_duration = 0,
      na_failure_summary = None, na_failure_class = None, na_next = None,
      na_sequence = sequence\<rparr>"

definition reduce_node_started ::
    "node_id \<Rightarrow> candidate_id option \<Rightarrow> attempt_number \<Rightarrow> timestamp \<Rightarrow> u64 \<Rightarrow> run_projection
      \<Rightarrow> run_projection domain_result" where
  "reduce_node_started node candidate attempt instant sequence self =
     (if list_ex (\<lambda>record. attempt_key record = (node, candidate, attempt)) (rp_attempts self)
      then Inl (InvariantViolated (''attempt '' @ dec attempt @ '' for node '' @ node_as_str node
                  @ '' was already recorded''))
      else Inr (modify_metrics (\<lambda>m. m\<lparr>mt_node_executions := sat_add (mt_node_executions m) 1\<rparr>)
        (self\<lparr>rp_attempts := rp_attempts self
                @ [started_record node candidate attempt instant sequence]\<rparr>)))"

definition closed_record ::
    "node_attempt_status \<Rightarrow> timestamp \<Rightarrow> duration_ms \<Rightarrow> string option \<Rightarrow> failure_class option
      \<Rightarrow> node_id option \<Rightarrow> node_attempt_record \<Rightarrow> node_attempt_record" where
  "closed_record status instant duration summary class next record =
     record\<lparr>na_status := status, na_finished_at := Some instant,
       na_duration := (if duration = 0 then duration_since instant (na_started_at record) else duration),
       na_failure_summary := summary, na_failure_class := class, na_next := next\<rparr>"

definition close_attempt ::
    "node_id \<Rightarrow> candidate_id option \<Rightarrow> attempt_number \<Rightarrow> node_attempt_status \<Rightarrow> timestamp
      \<Rightarrow> duration_ms \<Rightarrow> string option \<Rightarrow> failure_class option \<Rightarrow> node_id option
      \<Rightarrow> run_projection \<Rightarrow> run_projection domain_result" where
  "close_attempt node candidate attempt status instant duration summary class next self =
     (let matching = (\<lambda>record. na_node_id record = node \<and> na_candidate_id record = candidate
                         \<and> na_attempt record = attempt)
      in case find matching (rp_attempts self) of
           None \<Rightarrow> Inl (InvariantViolated (''no started attempt '' @ dec attempt
                     @ '' exists for node '' @ node_as_str node))
         | Some record \<Rightarrow>
             if \<not> attempt_is_open record
             then Inl (InvariantViolated (''attempt '' @ dec attempt @ '' for node ''
                    @ node_as_str node @ '' is already ''
                    @ node_attempt_status_as_str (na_status record)))
             else Inr (self\<lparr>rp_attempts := update_first matching
                    (closed_record status instant duration summary class next) (rp_attempts self)\<rparr>))"

definition accumulate_duration :: "node_id \<Rightarrow> duration_ms \<Rightarrow> run_projection \<Rightarrow> run_projection" where
  "accumulate_duration node duration self =
     modify_metrics (\<lambda>m.
       let agent = (if node_class_of node = Agent
             then m\<lparr>mt_agent_duration_ms := sat_add (mt_agent_duration_ms m) duration\<rparr> else m)
       in if node_scope_of node = CandidateScope
          then agent\<lparr>mt_candidate_duration_ms := sat_add (mt_candidate_duration_ms agent) duration\<rparr>
          else agent) self"

definition reduce_plan_version ::
    "u32 \<Rightarrow> content_digest \<Rightarrow> plan_author \<Rightarrow> string option \<Rightarrow> u64 \<Rightarrow> timestamp \<Rightarrow> run_projection
      \<Rightarrow> run_projection domain_result" where
  "reduce_plan_version version plan_hash author revision_note bytes instant self =
     (if list_ex (\<lambda>entry. pv_version entry = version) (ph_versions (rp_plan self))
      then Inl (InvariantViolated (''plan version '' @ dec version @ '' was already recorded''))
      else Inr (self\<lparr>rp_plan := (rp_plan self)\<lparr>ph_versions :=
        sort_key pv_version (ph_versions (rp_plan self)
          @ [\<lparr>pv_version = version, pv_hash = plan_hash, pv_created_at = instant, pv_author = author,
              pv_revision_note = revision_note, pv_byte_length = bytes\<rparr>])\<rparr>\<rparr>))"

definition reduce_plan_decision ::
    "approval_id \<Rightarrow> approval_decision \<Rightarrow> u32 \<Rightarrow> content_digest \<Rightarrow> string \<Rightarrow> string option
      \<Rightarrow> timestamp \<Rightarrow> run_projection \<Rightarrow> run_projection domain_result" where
  "reduce_plan_decision approval decision version plan_hash local_user note_text instant self =
     (if plan_version_of (rp_plan self) version = None then Inl (UnknownPlanVersion version)
      else Inr (self\<lparr>rp_plan := (rp_plan self)\<lparr>ph_approval :=
        Some \<lparr>pa_id = approval, pa_decision = decision, pa_plan_version = version,
              pa_plan_hash = plan_hash, pa_decided_at = instant, pa_local_user = local_user,
              pa_note = note_text\<rparr>\<rparr>\<rparr>))"

definition reduce_plan_invalidated :: "run_projection \<Rightarrow> run_projection" where
  "reduce_plan_invalidated self =
     self\<lparr>rp_plan := (rp_plan self)\<lparr>ph_approval :=
       map_option (\<lambda>approval. approval\<lparr>pa_decision := RevisionRequested\<rparr>)
         (ph_approval (rp_plan self))\<rparr>\<rparr>"

definition reduce_candidate_registered ::
    "candidate_id \<Rightarrow> candidate_ordinal \<Rightarrow> candidate_strategy \<Rightarrow> string \<Rightarrow> string \<Rightarrow> u32
      \<Rightarrow> run_projection \<Rightarrow> run_projection domain_result" where
  "reduce_candidate_registered candidate ordinal strategy branch path budget self =
     (if candidate_of self candidate \<noteq> None
      then Inl (InvariantViolated (''candidate '' @ candidate @ '' was already registered''))
      else and_then (ok_or (MissingField ''baseline_commit'') (rp_baseline_commit self))
        (\<lambda>baseline. Inr (self\<lparr>rp_candidates := sort_key cr_ordinal (rp_candidates self
           @ [candidate_record_new candidate ordinal strategy baseline branch path budget])\<rparr>)))"

definition change_candidate_status ::
    "candidate_status \<Rightarrow> candidate_status \<Rightarrow> timestamp \<Rightarrow> candidate_record
      \<Rightarrow> candidate_record domain_result" where
  "change_candidate_status from_status to_status instant candidate =
     (if cr_status candidate \<noteq> from_status
      then Inl (IllegalCandidateTransition (cr_status candidate) to_status)
      else and_then (candidate_transition_to (cr_status candidate) to_status) (\<lambda>status.
        Inr (candidate\<lparr>cr_status := status,
               cr_started_at := (if cr_started_at candidate = None \<and> to_status \<noteq> Pending
                                 then Some instant else cr_started_at candidate),
               cr_finished_at := (if candidate_is_terminal status
                                  then Some instant else cr_finished_at candidate)\<rparr>)))"

definition reduce_candidate_diff ::
    "candidate_id \<Rightarrow> content_digest \<Rightarrow> u32 \<Rightarrow> u64 \<Rightarrow> run_projection
      \<Rightarrow> run_projection domain_result" where
  "reduce_candidate_diff candidate digest files changed self =
     map_ok (\<lambda>q. modify_metrics (\<lambda>m. m\<lparr>mt_changed_lines :=
                   sum_list (map cr_changed_lines (rp_candidates q))\<rparr>) q)
       (with_candidate candidate (\<lambda>c. Inr (c\<lparr>cr_diff_digest := Some digest,
          cr_changed_files := files, cr_changed_lines := changed\<rparr>)) self)"

definition repair_started :: "u32 \<Rightarrow> string option \<Rightarrow> candidate_record \<Rightarrow> candidate_record" where
  "repair_started used fingerprint candidate =
     (let counted = candidate\<lparr>cr_repairs_used := used\<rparr>
      in case fingerprint of
           Some f \<Rightarrow> observe_failure_fingerprint f counted
         | None \<Rightarrow> counted)"

definition reduce_repair_started ::
    "candidate_id \<Rightarrow> u32 \<Rightarrow> string option \<Rightarrow> run_projection \<Rightarrow> run_projection domain_result" where
  "reduce_repair_started candidate used fingerprint self =
     map_ok (modify_metrics (\<lambda>m. m\<lparr>mt_repair_loops := sat_add (mt_repair_loops m) 1\<rparr>))
       (with_candidate candidate (\<lambda>c. Inr (repair_started used fingerprint c)) self)"

definition add_gate_duration ::
    "candidate_id option \<Rightarrow> duration_ms \<Rightarrow> run_projection \<Rightarrow> run_projection" where
  "add_gate_duration candidate duration self =
     (case candidate of
        Some i \<Rightarrow> modify_candidate i
          (\<lambda>c. c\<lparr>cr_gate_duration := sat_add (cr_gate_duration c) duration\<rparr>) self
      | None \<Rightarrow> self)"

definition reduce_test_evidence ::
    "candidate_id option \<Rightarrow> node_id \<Rightarrow> bool \<Rightarrow> duration_ms \<Rightarrow> run_projection \<Rightarrow> run_projection" where
  "reduce_test_evidence candidate node passed duration self =
     (let q = add_gate_duration candidate duration
            (modify_metrics (\<lambda>m. m\<lparr>mt_test_duration_ms :=
               sat_add (mt_test_duration_ms m) duration\<rparr>) self)
      in if node = FinalTest
         then q\<lparr>rp_integration := (rp_integration q)\<lparr>in_final_tests_passed := Some passed\<rparr>\<rparr>
         else q)"

definition reduce_review_evidence ::
    "candidate_id option \<Rightarrow> node_id \<Rightarrow> bool \<Rightarrow> duration_ms \<Rightarrow> run_projection \<Rightarrow> run_projection" where
  "reduce_review_evidence candidate node passed duration self =
     (let q = add_gate_duration candidate duration
            (modify_metrics (\<lambda>m. m\<lparr>mt_review_duration_ms :=
               sat_add (mt_review_duration_ms m) duration\<rparr>) self)
      in if node = FinalReview
         then q\<lparr>rp_integration := (rp_integration q)\<lparr>in_final_review_passed := Some passed\<rparr>\<rparr>
         else q)"

definition reduce_winner_selected ::
    "candidate_id \<Rightarrow> run_projection \<Rightarrow> run_projection domain_result" where
  "reduce_winner_selected candidate self =
     (if candidate_of self candidate = None then Inl (UnknownCandidate candidate)
      else Inr (self\<lparr>rp_winner := Some candidate\<rparr>))"

definition reduce_integration_attempted ::
    "candidate_id \<Rightarrow> bool \<Rightarrow> string option \<Rightarrow> run_projection \<Rightarrow> run_projection" where
  "reduce_integration_attempted candidate applied detail self =
     modify_candidate candidate
       (\<lambda>c. let marked = c\<lparr>cr_integration_attempted := True\<rparr>
            in if \<not> applied then marked\<lparr>cr_promotable := False\<rparr> else marked)
       (self\<lparr>rp_integration :=
          \<lparr>in_attempted_candidates =
             (if candidate \<in> set (in_attempted_candidates (rp_integration self))
              then in_attempted_candidates (rp_integration self)
              else in_attempted_candidates (rp_integration self) @ [candidate]),
           in_applied_candidate = (if applied then Some candidate else None),
           in_final_tests_passed = None, in_final_review_passed = None,
           in_last_detail = detail\<rparr>\<rparr>)"

definition reduce_promotion ::
    "candidate_id \<Rightarrow> candidate_id option \<Rightarrow> run_projection \<Rightarrow> run_projection" where
  "reduce_promotion previous next_candidate self =
     (modify_candidate previous (\<lambda>c. c\<lparr>cr_promotable := False\<rparr>) self)
       \<lparr>rp_winner := next_candidate\<rparr>"

definition reduce_commit_created ::
    "branch_name \<Rightarrow> commit_hash \<Rightarrow> string \<Rightarrow> string \<Rightarrow> u32 \<Rightarrow> bool \<Rightarrow> run_projection
      \<Rightarrow> run_projection" where
  "reduce_commit_created branch hash author committer files was_signed self =
     self\<lparr>rp_commit := Some \<lparr>cm_branch = branch, cm_commit_hash = hash, cm_author_name = author,
            cm_committer_name = committer, cm_changed_files = files, cm_signed = was_signed\<rparr>\<rparr>"

definition reduce_process_supervision :: "bool \<Rightarrow> run_projection \<Rightarrow> run_projection" where
  "reduce_process_supervision timed_out self =
     modify_metrics (\<lambda>m.
       let counted = m\<lparr>mt_processes_supervised := sat_add (mt_processes_supervised m) 1\<rparr>
       in if timed_out
          then counted\<lparr>mt_processes_timed_out := sat_add (mt_processes_timed_out counted) 1\<rparr>
          else counted) self"

definition reduce_run_exported :: "string \<Rightarrow> run_projection \<Rightarrow> run_projection" where
  "reduce_run_exported path self =
     (if path \<in> set (rp_export_paths self) then self
      else self\<lparr>rp_export_paths := rp_export_paths self @ [path]\<rparr>)"

section \<open>The reducer\<close>

primrec reduce ::
    "event_payload \<Rightarrow> timestamp \<Rightarrow> u64 \<Rightarrow> run_projection \<Rightarrow> run_projection domain_result" where
  "reduce (RunCreated path title digest number policy driver demonstration) instant sequence self =
     Inr (reduce_run_created path title digest number policy driver demonstration instant self)"
| "reduce (RunStatusChanged from_status to_status reason) instant sequence self =
     reduce_run_status from_status to_status reason self"
| "reduce (BaselineResolved baseline branch dirty) instant sequence self =
     Inr (reduce_baseline baseline branch dirty self)"
| "reduce (ConfigurationSnapshotted digest commands required providers) instant sequence self =
     Inr (reduce_configuration digest commands required providers self)"
| "reduce (NodeStarted node candidate attempt template) instant sequence self =
     reduce_node_started node candidate attempt instant sequence self"
| "reduce (NodeSucceeded node candidate attempt duration next result) instant sequence self =
     map_ok (accumulate_duration node duration)
       (close_attempt node candidate attempt node_attempt_status.Succeeded instant duration
          None None next self)"
| "reduce (NodeFailed node candidate attempt duration failure next result) instant sequence self =
     map_ok (\<lambda>q. modify_metrics (\<lambda>m. m\<lparr>mt_node_failures := sat_add (mt_node_failures m) 1\<rparr>)
                   (accumulate_duration node duration q))
       (close_attempt node candidate attempt node_attempt_status.Failed instant duration
          (Some (nf_message failure)) (Some (nf_class failure)) next self)"
| "reduce (NodePaused node candidate attempt reason result) instant sequence self =
     close_attempt node candidate attempt node_attempt_status.Paused instant 0
       (Some reason) None None self"
| "reduce (NodeCancelled node candidate attempt result) instant sequence self =
     close_attempt node candidate attempt node_attempt_status.Cancelled instant 0 None None None self"
| "reduce (NodeInterrupted node candidate attempt detected_at) instant sequence self =
     close_attempt node candidate attempt node_attempt_status.Interrupted detected_at 0
       (Some ''the dispatcher stopped before this attempt finished'') None None self"
| "reduce (NodeRetryScheduled node candidate attempt delay reason) instant sequence self =
     Inr (modify_metrics (\<lambda>m. m\<lparr>mt_automatic_retries := sat_add (mt_automatic_retries m) 1\<rparr>) self)"
| "reduce (PlanVersionWritten version plan_hash author revision_note bytes) instant sequence self =
     reduce_plan_version version plan_hash author revision_note bytes instant self"
| "reduce (PlanDecisionRecorded approval decision version plan_hash local_user note_text)
       instant sequence self =
     reduce_plan_decision approval decision version plan_hash local_user note_text instant self"
| "reduce (PlanApprovalInvalidated previous_hash current_hash) instant sequence self =
     Inr (reduce_plan_invalidated self)"
| "reduce (CandidateRegistered candidate ordinal strategy branch path budget) instant sequence self =
     reduce_candidate_registered candidate ordinal strategy branch path budget self"
| "reduce (CandidateStatusChanged candidate from_status to_status reason) instant sequence self =
     with_candidate candidate (change_candidate_status from_status to_status instant) self"
| "reduce (CandidateDiffRecorded candidate digest files changed) instant sequence self =
     reduce_candidate_diff candidate digest files changed self"
| "reduce (CandidateRepairStarted candidate used budget fingerprint) instant sequence self =
     reduce_repair_started candidate used fingerprint self"
| "reduce (TestEvidenceRecorded candidate node passed commands failed coverage duration)
       instant sequence self =
     Inr (reduce_test_evidence candidate node passed duration self)"
| "reduce (ReviewEvidenceRecorded candidate node passed providers failed blockers duration)
       instant sequence self =
     Inr (reduce_review_evidence candidate node passed duration self)"
| "reduce (CandidateScored candidate score) instant sequence self =
     with_candidate candidate (\<lambda>c. Inr (c\<lparr>cr_score := Some score\<rparr>)) self"
| "reduce (CandidateExcluded candidate reasons) instant sequence self =
     with_candidate candidate (\<lambda>c. Inr (c\<lparr>cr_exclusion_reasons := reasons,
       cr_promotable := False\<rparr>)) self"
| "reduce (RankingComputed computed) instant sequence self = Inr (self\<lparr>rp_ranking := Some computed\<rparr>)"
| "reduce (WinnerSelected candidate rank) instant sequence self =
     reduce_winner_selected candidate self"
| "reduce (IntegrationAttempted candidate applied detail) instant sequence self =
     Inr (reduce_integration_attempted candidate applied detail self)"
| "reduce (CandidatePromotionRequested previous next_candidate reason) instant sequence self =
     Inr (reduce_promotion previous next_candidate self)"
| "reduce (CommitApprovalRecorded approval local_user note_text) instant sequence self =
     Inr (self\<lparr>rp_commit_approved := True\<rparr>)"
| "reduce (CommitCreated branch hash author committer files was_signed) instant sequence self =
     Inr (reduce_commit_created branch hash author committer files was_signed self)"
| "reduce (CancellationRequested requested_by reason) instant sequence self =
     Inr (self\<lparr>rp_cancellation_requested := True\<rparr>)"
| "reduce (RecoveryStarted last_applied interrupted) instant sequence self = Inr self"
| "reduce (RecoveryCompleted replayed repaired) instant sequence self = Inr self"
| "reduce (ProcessSupervisionRecorded node candidate command process exit_code timed_out killed)
       instant sequence self =
     Inr (reduce_process_supervision timed_out self)"
| "reduce (ArtifactStored artifact label path bytes truncated) instant sequence self =
     Inr (modify_metrics (\<lambda>m. m\<lparr>mt_artifacts_stored := sat_add (mt_artifacts_stored m) 1\<rparr>) self)"
| "reduce (RunExported path bytes redacted) instant sequence self = Inr (reduce_run_exported path self)"
| "reduce (DiagnosticRecorded level code message detail) instant sequence self = Inr self"

text \<open>The bookkeeping of \<open>apply\<close> after the reducer.\<close>

definition stamp_event :: "externals \<Rightarrow> durable_event \<Rightarrow> run_projection \<Rightarrow> run_projection" where
  "stamp_event X event q =
     (modify_metrics (\<lambda>m. m\<lparr>mt_events_recorded := sat_add (mt_events_recorded m) 1\<rparr>) q)
       \<lparr>rp_last_event_sequence := de_sequence event, rp_last_event_hash := chain_hash X event,
        rp_updated_at := de_recorded_at event,
        rp_last_event_summary := Some (human_summary (de_payload event))\<rparr>"

definition event_apply ::
    "externals \<Rightarrow> payload_encoder \<Rightarrow> run_projection \<Rightarrow> durable_event
      \<Rightarrow> run_projection domain_result" where
  "event_apply X enc self event =
     (if de_run_id event \<noteq> rp_run_id self
      then Inl (InvariantViolated (''event for run '' @ run_display X (de_run_id event)
                  @ '' cannot be applied to run '' @ run_display X (rp_run_id self)))
      else and_then
        (event_verify X enc event (rp_last_event_sequence self + 1) (rp_last_event_hash self)) (\<lambda>_.
      and_then (reduce (de_payload event) (de_recorded_at event) (de_sequence event) self) (\<lambda>q.
        Inr (stamp_event X event q))))"

definition replay ::
    "externals \<Rightarrow> payload_encoder \<Rightarrow> run_id \<Rightarrow> timestamp \<Rightarrow> durable_event list
      \<Rightarrow> run_projection domain_result" where
  "replay X enc run created_at events =
     try_fold (event_apply X enc) (genesis X run created_at) events"

text \<open>\<open>replay_from\<close>: the projection and the number of events applied, as the code counts them.\<close>

definition replay_from_step ::
    "externals \<Rightarrow> payload_encoder \<Rightarrow> run_projection \<times> u64 \<Rightarrow> durable_event
      \<Rightarrow> (run_projection \<times> u64) domain_result" where
  "replay_from_step X enc s event =
     (if de_sequence event \<le> rp_last_event_sequence (fst s) then Inr s
      else map_ok (\<lambda>q. (q, snd s + 1)) (event_apply X enc (fst s) event))"

definition replay_from ::
    "externals \<Rightarrow> payload_encoder \<Rightarrow> run_projection \<Rightarrow> durable_event list
      \<Rightarrow> (run_projection \<times> u64) domain_result" where
  "replay_from X enc projection events =
     try_fold (replay_from_step X enc) (projection, 0) events"

record run_manifest =
  rf_schema_version :: u32
  rf_run_id :: run_id
  rf_last_event_sequence :: u64
  rf_last_event_hash :: string
  rf_node_evidence_paths :: "string list"
  rf_candidate_paths :: "string list"
  rf_artifact_count :: u64

definition manifest_empty :: "run_id \<Rightarrow> run_manifest" where
  "manifest_empty run =
     \<lparr>rf_schema_version = 1, rf_run_id = run, rf_last_event_sequence = 0,
      rf_last_event_hash = genesis_hash, rf_node_evidence_paths = [], rf_candidate_paths = [],
      rf_artifact_count = 0\<rparr>"

end
