(* ===== verification/Forge_Views.thy ===== *)
theory Forge_Views
  imports Forge_State
begin

text \<open>
  What the interfaces show of a run: \<open>model/run_summary.rs\<close>, \<open>model/detail.rs\<close> and
  \<open>usecases/views.rs\<close>. Every view is a function of the projection, the timeline one of the events.
\<close>

section \<open>The summary of a run\<close>

record candidate_progress =
  cg_total :: u32
  cg_eligible :: u32
  cg_ineligible :: u32
  cg_active :: u32
  cg_pending :: u32

record run_summary =
  sm_run_id :: run_id
  sm_status :: run_status
  sm_status_label :: string
  sm_repository_path :: string
  sm_task_title :: string
  sm_created_at :: timestamp
  sm_updated_at :: timestamp
  sm_elapsed :: duration_ms
  sm_current_nodes :: "node_id list"
  sm_candidate_progress :: candidate_progress
  sm_winner :: "candidate_id option"
  sm_last_event_summary :: "string option"
  sm_demonstration_mode :: bool
  sm_commit_hash :: "string option"
  sm_branch :: "string option"
  sm_plan_version :: "u32 option"
  sm_plan_approved :: bool
  sm_commit_approved :: bool
  sm_recovery_reason :: "string option"

text \<open>The turn of the loop that counts the candidates.\<close>

definition count_candidate :: "candidate_progress \<Rightarrow> candidate_record \<Rightarrow> candidate_progress" where
  "count_candidate progress candidate =
     (case cr_status candidate of
        Eligible \<Rightarrow> progress\<lparr>cg_eligible := cg_eligible progress + 1\<rparr>
      | Ineligible \<Rightarrow> progress\<lparr>cg_ineligible := cg_ineligible progress + 1\<rparr>
      | candidate_status.Cancelled \<Rightarrow> progress\<lparr>cg_ineligible := cg_ineligible progress + 1\<rparr>
      | Pending \<Rightarrow> progress\<lparr>cg_pending := cg_pending progress + 1\<rparr>
      | _ \<Rightarrow> progress\<lparr>cg_active := cg_active progress + 1\<rparr>)"

definition progress_of :: "candidate_record list \<Rightarrow> candidate_progress" where
  "progress_of candidates =
     foldl count_candidate
       \<lparr>cg_total = of_nat (length candidates), cg_eligible = 0, cg_ineligible = 0, cg_active = 0,
        cg_pending = 0\<rparr> candidates"

definition run_summary_of :: "run_projection \<Rightarrow> timestamp \<Rightarrow> run_summary" where
  "run_summary_of projection now =
     \<lparr>sm_run_id = rp_run_id projection, sm_status = rp_status projection,
      sm_status_label = run_status_label (rp_status projection),
      sm_repository_path = rp_repository_path projection,
      sm_task_title = rp_task_title projection, sm_created_at = rp_created_at projection,
      sm_updated_at = rp_updated_at projection,
      sm_elapsed = duration_since
        (if run_is_terminal (rp_status projection) then rp_updated_at projection else now)
        (rp_created_at projection),
      sm_current_nodes = map na_node_id (open_attempts projection),
      sm_candidate_progress = progress_of (rp_candidates projection),
      sm_winner = rp_winner projection,
      sm_last_event_summary = rp_last_event_summary projection,
      sm_demonstration_mode = rp_demonstration_mode projection,
      sm_commit_hash = map_option cm_commit_hash (rp_commit projection),
      sm_branch = map_option cm_branch (rp_commit projection),
      sm_plan_version = map_option pv_version (plan_current (rp_plan projection)),
      sm_plan_approved = plan_is_approved (rp_plan projection),
      sm_commit_approved = rp_commit_approved projection,
      sm_recovery_reason = rp_recovery_reason projection\<rparr>"

section \<open>Candidates\<close>

record candidate_view =
  cw_candidate_id :: candidate_id
  cw_ordinal :: u8
  cw_strategy :: string
  cw_strategy_label :: string
  cw_status :: candidate_status
  cw_status_label :: string
  cw_branch :: string
  cw_repairs_used :: u32
  cw_repair_budget :: u32
  cw_changed_files :: u32
  cw_changed_lines :: u64
  cw_gate_duration :: duration_ms
  cw_score :: "score_tuple option"
  cw_score_components :: "score_component list"
  cw_exclusion_reasons :: "exclusion_reason list"
  cw_exclusion_summaries :: "string list"
  cw_rank :: "u32 option"
  cw_is_winner :: bool
  cw_promotable :: bool
  cw_tests_passed :: "bool option"
  cw_review_passed :: "bool option"
  cw_line_coverage_percent :: "f64 option"

text \<open>\<open>latest_test_outcome\<close> and \<open>latest_review_outcome\<close>, which differ in the node.\<close>

definition latest_outcome :: "node_id \<Rightarrow> run_projection \<Rightarrow> candidate_id \<Rightarrow> bool option" where
  "latest_outcome node projection candidate =
     map_option (\<lambda>attempt. na_status attempt = node_attempt_status.Succeeded)
       (max_by_key na_sequence
         (filter (\<lambda>attempt. na_node_id attempt = node \<and> na_candidate_id attempt = Some candidate)
           (rp_attempts projection)))"

definition latest_test_outcome :: "run_projection \<Rightarrow> candidate_id \<Rightarrow> bool option" where
  "latest_test_outcome = latest_outcome TestCandidate"

definition latest_review_outcome :: "run_projection \<Rightarrow> candidate_id \<Rightarrow> bool option" where
  "latest_review_outcome = latest_outcome ReviewCandidate"

definition candidate_view_of :: "run_projection \<Rightarrow> candidate_record \<Rightarrow> candidate_view" where
  "candidate_view_of projection self =
     \<lparr>cw_candidate_id = cr_id self, cw_ordinal = cr_ordinal self,
      cw_strategy = strategy_as_str (cr_strategy self),
      cw_strategy_label = strategy_label (cr_strategy self), cw_status = cr_status self,
      cw_status_label = candidate_status_label (cr_status self), cw_branch = cr_branch self,
      cw_repairs_used = cr_repairs_used self, cw_repair_budget = cr_repair_budget self,
      cw_changed_files = cr_changed_files self, cw_changed_lines = cr_changed_lines self,
      cw_gate_duration = cr_gate_duration self, cw_score = cr_score self,
      cw_score_components =
        (case cr_score self of Some score \<Rightarrow> score_components score | None \<Rightarrow> []),
      cw_exclusion_reasons = cr_exclusion_reasons self,
      cw_exclusion_summaries = map exclusion_summary (cr_exclusion_reasons self),
      cw_rank = Option.bind (rp_ranking projection) (\<lambda>computed.
        Option.bind (find (\<lambda>entry. rk_candidate_id entry = cr_id self) (rg_entries computed))
          rk_rank),
      cw_is_winner = (rp_winner projection = Some (cr_id self)),
      cw_promotable = cr_promotable self,
      cw_tests_passed = latest_test_outcome projection (cr_id self),
      cw_review_passed = latest_review_outcome projection (cr_id self),
      cw_line_coverage_percent =
        Option.bind (cr_score self) (\<lambda>score. coverage_percent (coverage_rank score))\<rparr>"

definition candidate_views :: "run_projection \<Rightarrow> candidate_view list" where
  "candidate_views projection = map (candidate_view_of projection) (rp_candidates projection)"

section \<open>The graph\<close>

datatype graph_node_state =
    GraphPending
  | GraphActive
  | GraphSucceeded
  | GraphFailed
  | GraphPaused
  | GraphSkipped

record graph_node_view =
  gv_id :: string
  gv_label :: string
  gv_scope :: string
  gv_class :: string
  gv_state :: graph_node_state
  gv_attempts :: u32
  gv_total_duration_ms :: u64

record graph_edge_view =
  gw_from :: string
  gw_to :: string
  gw_label :: string
  gw_traversed :: bool

record graph_view =
  gh_nodes :: "graph_node_view list"
  gh_edges :: "graph_edge_view list"

type_synonym node_states = "node_id \<Rightarrow> graph_node_state \<times> u32 \<times> u64"

definition next_node_state :: "node_attempt_status \<Rightarrow> graph_node_state \<Rightarrow> graph_node_state" where
  "next_node_state status current =
     (case status of
        Started \<Rightarrow> GraphActive
      | node_attempt_status.Succeeded \<Rightarrow>
          if current = GraphActive then GraphActive else GraphSucceeded
      | node_attempt_status.Failed \<Rightarrow> GraphFailed
      | node_attempt_status.Paused \<Rightarrow> GraphPaused
      | node_attempt_status.Cancelled \<Rightarrow> GraphSkipped
      | node_attempt_status.Interrupted \<Rightarrow> GraphSkipped)"

definition count_attempt :: "node_states \<Rightarrow> node_attempt_record \<Rightarrow> node_states" where
  "count_attempt states attempt =
     (case states (na_node_id attempt) of (state, attempts, duration) \<Rightarrow>
        states(na_node_id attempt :=
          (next_node_state (na_status attempt) state, attempts + 1,
           sat_add duration (na_duration attempt))))"

definition node_states_of :: "run_projection \<Rightarrow> node_states" where
  "node_states_of projection =
     (let counted = foldl count_attempt (\<lambda>node. (GraphPending, 0, 0)) (rp_attempts projection);
          planned = (if plan_current (rp_plan projection) = None then counted
            else counted(Approval := (if plan_is_approved (rp_plan projection)
              then GraphSucceeded else GraphPaused, 1, 0)))
      in if rp_commit_approved projection \<or> rp_commit projection \<noteq> None
         then planned(CommitApproval := (GraphSucceeded, 1, 0))
         else if rp_status projection = AwaitingCommitApproval
         then planned(CommitApproval := (GraphPaused, 1, 0))
         else planned)"

text \<open>The class as its debug format prints it, in lower case.\<close>

primrec node_class_text :: "node_class \<Rightarrow> string" where
  "node_class_text Preparation = ''preparation''"
| "node_class_text Agent = ''agent''"
| "node_class_text Command = ''command''"
| "node_class_text Review = ''review''"
| "node_class_text Decision = ''decision''"
| "node_class_text Git = ''git''"

definition graph_node_view_of :: "node_states \<Rightarrow> node_id \<Rightarrow> graph_node_view" where
  "graph_node_view_of states node =
     (case states node of (state, attempts, duration) \<Rightarrow>
     \<lparr>gv_id = node_as_str node, gv_label = node_label node,
      gv_scope = (case node_scope_of node of RunScope \<Rightarrow> ''run'' | CandidateScope \<Rightarrow> ''candidate''),
      gv_class = node_class_text (node_class_of node), gv_state = state, gv_attempts = attempts,
      gv_total_duration_ms = duration\<rparr>)"

definition implicit_edge :: "run_projection \<Rightarrow> node_id \<Rightarrow> node_id \<Rightarrow> bool" where
  "implicit_edge projection source target \<longleftrightarrow>
     (if source = Approval \<and> target = FanOut then plan_is_approved (rp_plan projection)
      else if source = Plan \<and> target = Approval then plan_current (rp_plan projection) \<noteq> None
      else if source = CommitApproval \<and> target = Commit then rp_commit projection \<noteq> None
      else if source = FinalReview \<and> target = CommitApproval
      then in_final_review_passed (rp_integration projection) = Some True
      else False)"

definition graph_edge_view_of :: "graph_edge \<Rightarrow> bool \<Rightarrow> graph_edge_view" where
  "graph_edge_view_of edge traversed =
     \<lparr>gw_from = node_as_str (edge_from edge), gw_to = node_as_str (edge_to edge),
      gw_label = edge_label edge, gw_traversed = traversed\<rparr>"

definition was_traversed :: "run_projection \<Rightarrow> graph_edge \<Rightarrow> bool" where
  "was_traversed projection edge \<longleftrightarrow>
     list_ex (\<lambda>attempt. na_next attempt = Some (edge_to edge) \<and> na_node_id attempt = edge_from edge)
       (rp_attempts projection)
     \<or> implicit_edge projection (edge_from edge) (edge_to edge)"

definition graph_view_of :: "run_projection \<Rightarrow> graph_view" where
  "graph_view_of projection =
     \<lparr>gh_nodes = map (graph_node_view_of (node_states_of projection)) node_all,
      gh_edges = map (\<lambda>edge. graph_edge_view_of edge (was_traversed projection edge)) graph_edges\<rparr>"

section \<open>The timeline\<close>

datatype timeline_level = Information | Success | TimelineWarning | TimelineFailure

record timeline_entry =
  tl_sequence :: u64
  tl_recorded_at :: timestamp
  tl_node_id :: "node_id option"
  tl_node_label :: "string option"
  tl_candidate_id :: "candidate_id option"
  tl_attempt :: "u32 option"
  tl_event_type :: string
  tl_summary :: string
  tl_duration :: "duration_ms option"
  tl_level :: timeline_level

definition duration_of_payload :: "event_payload \<Rightarrow> duration_ms option" where
  "duration_of_payload payload =
     (case payload of
        NodeSucceeded _ _ _ duration _ _ \<Rightarrow> Some duration
      | NodeFailed _ _ _ duration _ _ _ \<Rightarrow> Some duration
      | TestEvidenceRecorded _ _ _ _ _ _ duration \<Rightarrow> Some duration
      | ReviewEvidenceRecorded _ _ _ _ _ _ duration \<Rightarrow> Some duration
      | _ \<Rightarrow> None)"

definition level_of_payload :: "event_payload \<Rightarrow> timeline_level" where
  "level_of_payload payload =
     (case payload of
        NodeFailed _ _ _ _ _ _ _ \<Rightarrow> TimelineFailure
      | CandidateExcluded _ _ \<Rightarrow> TimelineFailure
      | NodeInterrupted _ _ _ _ \<Rightarrow> TimelineFailure
      | NodeSucceeded _ _ _ _ _ _ \<Rightarrow> Success
      | CommitCreated _ _ _ _ _ _ \<Rightarrow> Success
      | WinnerSelected _ _ \<Rightarrow> Success
      | NodePaused _ _ _ _ _ \<Rightarrow> TimelineWarning
      | NodeRetryScheduled _ _ _ _ _ \<Rightarrow> TimelineWarning
      | CandidateRepairStarted _ _ _ _ \<Rightarrow> TimelineWarning
      | CandidatePromotionRequested _ _ _ \<Rightarrow> TimelineWarning
      | RecoveryStarted _ _ \<Rightarrow> TimelineWarning
      | TestEvidenceRecorded _ _ passed _ _ _ _ \<Rightarrow> if passed then Success else TimelineFailure
      | ReviewEvidenceRecorded _ _ passed _ _ _ _ \<Rightarrow> if passed then Success else TimelineFailure
      | DiagnosticRecorded level _ _ _ \<Rightarrow>
          (case level of
             diagnostic_level.Error \<Rightarrow> TimelineFailure
           | diagnostic_level.Warning \<Rightarrow> TimelineWarning
           | diagnostic_level.Info \<Rightarrow> Information)
      | _ \<Rightarrow> Information)"

definition timeline_entry_of :: "durable_event \<Rightarrow> timeline_entry" where
  "timeline_entry_of event =
     \<lparr>tl_sequence = de_sequence event, tl_recorded_at = de_recorded_at event,
      tl_node_id = de_node_id event, tl_node_label = map_option node_label (de_node_id event),
      tl_candidate_id = de_candidate_id event, tl_attempt = de_attempt event,
      tl_event_type = de_event_type event, tl_summary = human_summary (de_payload event),
      tl_duration = duration_of_payload (de_payload event),
      tl_level = level_of_payload (de_payload event)\<rparr>"

definition timeline :: "durable_event list \<Rightarrow> timeline_entry list" where
  "timeline events = map timeline_entry_of events"

section \<open>The detail of a run\<close>

record run_detail =
  rl_summary :: run_summary
  rl_projection :: run_projection
  rl_candidates :: "candidate_view list"
  rl_graph :: graph_view
  rl_timeline :: "timeline_entry list"
  rl_metrics :: run_metrics
  rl_ranking_rationale :: "string list"
  rl_integration_detail :: "string option"

record event_page =
  ep_run_id :: run_id
  ep_events :: "durable_event list"
  ep_next_sequence :: u64
  ep_complete :: bool

section \<open>What the counts add up to\<close>

text \<open>Every candidate is counted once.\<close>

lemma count_candidate_total:
  "cg_eligible (count_candidate p c) + cg_ineligible (count_candidate p c)
     + cg_active (count_candidate p c) + cg_pending (count_candidate p c)
   = cg_eligible p + cg_ineligible p + cg_active p + cg_pending p + 1"
  and count_candidate_keeps_total: "cg_total (count_candidate p c) = cg_total p"
  by (cases "cr_status c"; simp add: count_candidate_def)+

lemma progress_adds_up:
  "cg_eligible (progress_of candidates) + cg_ineligible (progress_of candidates)
     + cg_active (progress_of candidates) + cg_pending (progress_of candidates)
   = cg_total (progress_of candidates)"
proof -
  have "cg_eligible (foldl count_candidate p candidates)
      + cg_ineligible (foldl count_candidate p candidates)
      + cg_active (foldl count_candidate p candidates) + cg_pending (foldl count_candidate p candidates)
    = cg_eligible p + cg_ineligible p + cg_active p + cg_pending p + of_nat (length candidates)
    \<and> cg_total (foldl count_candidate p candidates) = cg_total p" for p
    by (induction candidates arbitrary: p)
      (simp_all add: count_candidate_total count_candidate_keeps_total)
  then show ?thesis by (simp add: progress_of_def)
qed

end
