(* ===== verification/Forge_Steps.thy ===== *)
theory Forge_Steps
  imports Forge_Errors
begin

text \<open>
  The asynchronous functions of the application as steps over an explicit state: a step returns a
  result and the state it leaves behind, and \<open>then_do\<close> is the \<open>?\<close> operator followed by the rest
  of the function, so the effects before a failure stay. \<open>triple P m Q E\<close> says what a step does
  from the states in \<open>P\<close>: \<open>Q\<close> holds of the value and the state when it succeeds and \<open>E\<close> of the
  error and the state when it fails.
\<close>

type_synonym ('s, 'a) step = "'s \<Rightarrow> 'a application_result \<times> 's"

definition ok :: "'a \<Rightarrow> ('s, 'a) step" where
  "ok a s = (Inr a, s)"

definition stop :: "application_error \<Rightarrow> ('s, 'a) step" where
  "stop e s = (Inl e, s)"

definition then_do :: "('s, 'a) step \<Rightarrow> ('a \<Rightarrow> ('s, 'b) step) \<Rightarrow> ('s, 'b) step" where
  "then_do m f s = (case m s of (Inl e, t) \<Rightarrow> (Inl e, t) | (Inr a, t) \<Rightarrow> f a t)"

text \<open>A pure result inside a function, an observation of the state, an update of it.\<close>

definition lift_result :: "'a application_result \<Rightarrow> ('s, 'a) step" where
  "lift_result r s = (r, s)"

definition look :: "('s \<Rightarrow> 'a) \<Rightarrow> ('s, 'a) step" where
  "look f s = (Inr (f s), s)"

definition update_state :: "('s \<Rightarrow> 's) \<Rightarrow> ('s, unit) step" where
  "update_state f s = (Inr (), f s)"

text \<open>A call that cannot fail.\<close>

definition ask :: "('w \<Rightarrow> 'a \<times> 'w) \<Rightarrow> ('w, 'a) step" where
  "ask f w = (case f w of (a, v) \<Rightarrow> (Inr a, v))"

text \<open>A \<open>for\<close> loop whose body may fail.\<close>

fun for_each :: "'x list \<Rightarrow> ('x \<Rightarrow> ('s, unit) step) \<Rightarrow> ('s, unit) step" where
  "for_each [] f = ok ()"
| "for_each (x # xs) f = then_do (f x) (\<lambda>_. for_each xs f)"

section \<open>Reasoning\<close>

definition triple ::
    "('s \<Rightarrow> bool) \<Rightarrow> ('s, 'a) step \<Rightarrow> ('a \<Rightarrow> 's \<Rightarrow> bool) \<Rightarrow> (application_error \<Rightarrow> 's \<Rightarrow> bool) \<Rightarrow> bool" where
  "triple P m Q E \<longleftrightarrow>
     (\<forall>s. P s \<longrightarrow> (case m s of (Inl e, t) \<Rightarrow> E e t | (Inr a, t) \<Rightarrow> Q a t))"

lemma triple_success: "triple P m Q E \<Longrightarrow> P s \<Longrightarrow> m s = (Inr a, t) \<Longrightarrow> Q a t"
  by (auto simp: triple_def)

lemma triple_failure: "triple P m Q E \<Longrightarrow> P s \<Longrightarrow> m s = (Inl e, t) \<Longrightarrow> E e t"
  by (auto simp: triple_def)

lemma triple_weaken:
  assumes "triple P m Q E" and "\<And>s. P' s \<Longrightarrow> P s" and "\<And>a s. Q a s \<Longrightarrow> Q' a s"
    and "\<And>e s. E e s \<Longrightarrow> E' e s"
  shows "triple P' m Q' E'"
  unfolding triple_def
proof (intro allI impI)
  fix s assume "P' s"
  with assms(1,2) have "case m s of (Inl e, t) \<Rightarrow> E e t | (Inr a, t) \<Rightarrow> Q a t"
    by (auto simp: triple_def)
  then show "case m s of (Inl e, t) \<Rightarrow> E' e t | (Inr a, t) \<Rightarrow> Q' a t"
    using assms(3,4) by (auto split: prod.splits sum.splits)
qed

lemma triple_then:
  assumes "triple P m R E" and "\<And>a. triple (R a) (f a) Q E"
  shows "triple P (then_do m f) Q E"
  unfolding triple_def
proof (intro allI impI)
  fix s assume "P s"
  obtain r t where m: "m s = (r, t)" by fastforce
  show "case then_do m f s of (Inl e, t) \<Rightarrow> E e t | (Inr a, t) \<Rightarrow> Q a t"
  proof (cases r)
    case (Inl e)
    with triple_failure [OF assms(1) \<open>P s\<close>] m show ?thesis by (simp add: then_do_def)
  next
    case (Inr a)
    with triple_success [OF assms(1) \<open>P s\<close>] m have "R a t" by simp
    with assms(2) [of a] m Inr show ?thesis by (auto simp: then_do_def triple_def)
  qed
qed

lemma triple_ok: "(\<And>s. P s \<Longrightarrow> Q a s) \<Longrightarrow> triple P (ok a) Q E"
  by (simp add: triple_def ok_def)

lemma triple_stop: "(\<And>s. P s \<Longrightarrow> E e s) \<Longrightarrow> triple P (stop e) Q E"
  by (simp add: triple_def stop_def)

lemma triple_look: "(\<And>s. P s \<Longrightarrow> Q (f s) s) \<Longrightarrow> triple P (look f) Q E"
  by (simp add: triple_def look_def)

lemma triple_update: "(\<And>s. P s \<Longrightarrow> Q () (f s)) \<Longrightarrow> triple P (update_state f) Q E"
  by (simp add: triple_def update_state_def)

lemma triple_lift:
  "(\<And>s a. P s \<Longrightarrow> r = Inr a \<Longrightarrow> Q a s) \<Longrightarrow> (\<And>s e. P s \<Longrightarrow> r = Inl e \<Longrightarrow> E e s) \<Longrightarrow>
     triple P (lift_result r) Q E"
  by (cases r) (auto simp: triple_def lift_result_def)

lemma triple_if:
  assumes "b \<Longrightarrow> triple P m Q E" and "\<not> b \<Longrightarrow> triple P n Q E"
  shows "triple P (if b then m else n) Q E"
  using assms by simp

lemma triple_for_each:
  assumes "\<And>x. x \<in> set xs \<Longrightarrow> triple I (f x) (\<lambda>_. I) E"
  shows "triple I (for_each xs f) (\<lambda>_. I) E"
  using assms
proof (induction xs)
  case Nil
  show ?case by (simp add: triple_ok)
next
  case (Cons x xs)
  have "triple I (then_do (f x) (\<lambda>_. for_each xs f)) (\<lambda>_. I) E"
    by (rule triple_then [where R = "\<lambda>_. I"]) (use Cons in auto)
  then show ?case by simp
qed

text \<open>An invariant of the state that a step keeps, whether it succeeds or fails.\<close>

definition keeps :: "('s \<Rightarrow> bool) \<Rightarrow> ('s, 'a) step \<Rightarrow> bool" where
  "keeps I m \<longleftrightarrow> triple I m (\<lambda>_. I) (\<lambda>_. I)"

lemma keeps_iff: "keeps I m \<longleftrightarrow> (\<forall>s. I s \<longrightarrow> I (snd (m s)))"
proof -
  have "(case m s of (Inl e, t) \<Rightarrow> I t | (Inr a, t) \<Rightarrow> I t) = I (snd (m s))" for s
    by (cases "m s") (simp split: sum.split)
  then show ?thesis by (simp add: keeps_def triple_def)
qed

lemma keepsD: "keeps I m \<Longrightarrow> I s \<Longrightarrow> I (snd (m s))"
  by (simp add: keeps_iff)

lemma keeps_then: "keeps I m \<Longrightarrow> (\<And>a. keeps I (f a)) \<Longrightarrow> keeps I (then_do m f)"
  unfolding keeps_def by (rule triple_then)

lemma keeps_for_each: "(\<And>x. x \<in> set xs \<Longrightarrow> keeps I (f x)) \<Longrightarrow> keeps I (for_each xs f)"
  unfolding keeps_def by (rule triple_for_each)

lemma keeps_simple [simp]:
  "keeps I (ok a)" "keeps I (stop e)" "keeps I (look g)" "keeps I (lift_result r)"
  by (simp_all add: keeps_def triple_def ok_def stop_def look_def lift_result_def split: sum.splits)

lemma keeps_if: "(b \<Longrightarrow> keeps I m) \<Longrightarrow> (\<not> b \<Longrightarrow> keeps I n) \<Longrightarrow> keeps I (if b then m else n)"
  by simp

text \<open>What the value of a step is, when the step is a computation.\<close>

lemma then_do_Inr:
  "then_do m f s = (Inr b, u) \<longleftrightarrow> (\<exists>a t. m s = (Inr a, t) \<and> f a t = (Inr b, u))"
  by (auto simp: then_do_def split: prod.splits sum.splits)

lemma then_do_Inl:
  "then_do m f s = (Inl e, u) \<longleftrightarrow>
     m s = (Inl e, u) \<or> (\<exists>a t. m s = (Inr a, t) \<and> f a t = (Inl e, u))"
  by (auto simp: then_do_def split: prod.splits sum.splits)

lemmas step_eval = ok_def stop_def look_def lift_result_def update_state_def then_do_def

end
