(* ===== verification/Forge_Scheduler.thy ===== *)
theory Forge_Scheduler
  imports Forge_State
begin

text \<open>
  \<open>crates/application/src/engine/scheduler.rs\<close>: the next step of a run and of a candidate,
  computed from the projection alone, and the statuses a node moves a run or candidate to.
\<close>

datatype run_step =
    RunNode node_id
  | RunCandidates
  | AwaitPlanApproval
  | AwaitCommitApproval
  | CancelRun
  | Finish run_status
  | Blocked string

datatype candidate_step =
    RunCandidateNode node_id
  | FinishCandidate
  | BlockedCandidate string

datatype plan_gate = WritePlan | Await | PlanApproved | PlanRejected

definition plan_gate_of :: "run_projection \<Rightarrow> plan_gate" where
  "plan_gate_of projection =
     (case plan_current (rp_plan projection) of
        None \<Rightarrow> WritePlan
      | Some current \<Rightarrow>
          (case ph_approval (rp_plan projection) of
             None \<Rightarrow> Await
           | Some approval \<Rightarrow>
               (case pa_decision approval of
                  Rejected \<Rightarrow> PlanRejected
                | RevisionRequested \<Rightarrow>
                    if pv_version current \<le> pa_plan_version approval then WritePlan else Await
                | Approved \<Rightarrow>
                    if pa_plan_hash approval = pv_hash current then PlanApproved else Await)))"

text \<open>The steps after the plan gate has passed.\<close>

definition next_integration_step :: "run_projection \<Rightarrow> candidate_id \<Rightarrow> run_step" where
  "next_integration_step projection winner =
     (if rp_commit projection \<noteq> None then Finish run_status.Succeeded
      else if in_applied_candidate (rp_integration projection) \<noteq> Some winner
      then RunNode IntegrateWinner
      else if in_final_tests_passed (rp_integration projection) \<noteq> Some True
      then RunNode FinalTest
      else if in_final_review_passed (rp_integration projection) \<noteq> Some True
      then RunNode FinalReview
      else case rp_commit_policy projection of
             NoCommit \<Rightarrow> Finish run_status.Succeeded
           | Automatic \<Rightarrow> RunNode Commit
           | Manual \<Rightarrow> if rp_commit_approved projection then RunNode Commit
                       else AwaitCommitApproval)"

definition next_approved_step :: "run_projection \<Rightarrow> run_step" where
  "next_approved_step projection =
     (if rp_candidates projection = [] then RunNode FanOut
      else if \<not> all_candidates_terminal projection then RunCandidates
      else if rp_ranking projection = None then RunNode Join
      else case rp_winner projection of
             None \<Rightarrow> Finish Exhausted
           | Some winner \<Rightarrow> next_integration_step projection winner)"

definition next_run_step :: "run_projection \<Rightarrow> run_step" where
  "next_run_step projection =
     (if run_is_terminal (rp_status projection) then Finish (rp_status projection)
      else if rp_status projection = RecoveryRequired
      then Blocked (case rp_recovery_reason projection of
                      Some reason \<Rightarrow> reason | None \<Rightarrow> ''the run requires manual recovery'')
      else if rp_cancellation_requested projection then CancelRun
      else if \<not> completed_successfully projection Prepare None then RunNode Prepare
      else case plan_gate_of projection of
             WritePlan \<Rightarrow> RunNode Plan
           | Await \<Rightarrow> AwaitPlanApproval
           | PlanRejected \<Rightarrow> CancelRun
           | PlanApproved \<Rightarrow> next_approved_step projection)"

definition last_attempt_of :: "run_projection \<Rightarrow> candidate_id \<Rightarrow> node_attempt_record option" where
  "last_attempt_of projection candidate =
     max_by_key na_sequence
       (filter (\<lambda>attempt. na_candidate_id attempt = Some candidate) (rp_attempts projection))"

definition step_after_attempt :: "node_attempt_record \<Rightarrow> candidate_step" where
  "step_after_attempt attempt =
     (case na_status attempt of
        Started \<Rightarrow> RunCandidateNode (na_node_id attempt)
      | node_attempt_status.Interrupted \<Rightarrow> RunCandidateNode (na_node_id attempt)
      | node_attempt_status.Succeeded \<Rightarrow>
          (case na_next attempt of
             None \<Rightarrow> FinishCandidate
           | Some next \<Rightarrow> if next = Join then FinishCandidate else RunCandidateNode next)
      | node_attempt_status.Failed \<Rightarrow>
          (case na_next attempt of
             None \<Rightarrow> FinishCandidate
           | Some next \<Rightarrow> if next = Join then FinishCandidate else RunCandidateNode next)
      | node_attempt_status.Cancelled \<Rightarrow> FinishCandidate
      | node_attempt_status.Paused \<Rightarrow>
          BlockedCandidate (case na_failure_summary attempt of
             Some summary \<Rightarrow> summary | None \<Rightarrow> ''the candidate is paused''))"

definition next_candidate_step :: "run_projection \<Rightarrow> candidate_id \<Rightarrow> candidate_step" where
  "next_candidate_step projection candidate =
     (case candidate_of projection candidate of
        None \<Rightarrow> BlockedCandidate (''candidate '' @ candidate @ '' is not registered'')
      | Some record \<Rightarrow>
          if candidate_is_terminal (cr_status record) then FinishCandidate
          else if rp_cancellation_requested projection then FinishCandidate
          else case last_attempt_of projection candidate of
                 None \<Rightarrow> RunCandidateNode ImplementCandidate
               | Some attempt \<Rightarrow> step_after_attempt attempt)"

definition active_candidates :: "run_projection \<Rightarrow> candidate_id list" where
  "active_candidates projection =
     map cr_id (filter (\<lambda>candidate. \<not> candidate_is_terminal (cr_status candidate))
       (rp_candidates projection))"

primrec run_status_for_node :: "node_id \<Rightarrow> run_status" where
  "run_status_for_node Prepare = Validating"
| "run_status_for_node Plan = Planning"
| "run_status_for_node Approval = AwaitingPlanApproval"
| "run_status_for_node FanOut = RunningCandidates"
| "run_status_for_node ImplementCandidate = RunningCandidates"
| "run_status_for_node TestCandidate = RunningCandidates"
| "run_status_for_node ReviewCandidate = RunningCandidates"
| "run_status_for_node RepairCandidate = RunningCandidates"
| "run_status_for_node Join = Joining"
| "run_status_for_node IntegrateWinner = Integrating"
| "run_status_for_node FinalTest = Integrating"
| "run_status_for_node FinalReview = Integrating"
| "run_status_for_node CommitApproval = AwaitingCommitApproval"
| "run_status_for_node Commit = Integrating"

definition candidate_status_for_node :: "node_id \<Rightarrow> candidate_status option" where
  "candidate_status_for_node node =
     (case node of
        ImplementCandidate \<Rightarrow> Some Implementing
      | TestCandidate \<Rightarrow> Some Testing
      | ReviewCandidate \<Rightarrow> Some Reviewing
      | RepairCandidate \<Rightarrow> Some Repairing
      | _ \<Rightarrow> None)"

section \<open>What the scheduler guarantees\<close>

lemma plan_gate_approved:
  "plan_gate_of p = PlanApproved \<longleftrightarrow> plan_is_approved (rp_plan p)"
  by (auto simp: plan_gate_of_def plan_is_approved_iff split: option.splits
      approval_decision.splits if_splits)

text \<open>The steps that spend agent work or touch the integration branch.\<close>

definition past_plan_gate :: "run_step \<Rightarrow> bool" where
  "past_plan_gate s \<longleftrightarrow>
     s \<in> {RunCandidates, AwaitCommitApproval}
     \<or> (\<exists>n. s = RunNode n \<and> n \<notin> {Prepare, Plan})"

lemma next_run_step_past_gate:
  "past_plan_gate (next_run_step p) \<Longrightarrow>
     plan_is_approved (rp_plan p) \<and> next_run_step p = next_approved_step p
     \<and> \<not> run_is_terminal (rp_status p) \<and> rp_status p \<noteq> RecoveryRequired
     \<and> \<not> rp_cancellation_requested p \<and> completed_successfully p Prepare None"
  by (auto simp: next_run_step_def past_plan_gate_def plan_gate_approved [symmetric]
      split: if_splits plan_gate.splits)

lemma next_approved_integration:
  "next_approved_step p \<notin> {RunNode FanOut, RunCandidates, RunNode Join, Finish Exhausted} \<Longrightarrow>
     \<exists>w. rp_winner p = Some w \<and> next_approved_step p = next_integration_step p w
         \<and> all_candidates_terminal p \<and> rp_ranking p \<noteq> None"
  by (auto simp: next_approved_step_def split: if_splits option.splits)

lemma commit_step_guarded:
  assumes "next_run_step p = RunNode Commit"
  shows "\<exists>w. rp_winner p = Some w \<and> in_applied_candidate (rp_integration p) = Some w
      \<and> in_final_tests_passed (rp_integration p) = Some True
      \<and> in_final_review_passed (rp_integration p) = Some True
      \<and> rp_commit p = None \<and> rp_commit_policy p \<noteq> NoCommit
      \<and> (rp_commit_policy p = Manual \<longrightarrow> rp_commit_approved p)"
proof -
  have "next_run_step p = next_approved_step p"
    using next_run_step_past_gate [of p] assms by (simp add: past_plan_gate_def)
  with assms obtain w where w: "rp_winner p = Some w"
      and step: "next_integration_step p w = RunNode Commit"
    using next_approved_integration [of p] by auto
  from step show ?thesis using w
    by (auto simp: next_integration_step_def split: if_splits commit_policy.splits)
qed

lemma finish_step_cases:
  assumes "next_run_step p = Finish s" and "\<not> run_is_terminal (rp_status p)"
  shows "(s = Exhausted \<and> rp_winner p = None \<and> all_candidates_terminal p)
    \<or> (s = run_status.Succeeded \<and> rp_commit p \<noteq> None)
    \<or> (s = run_status.Succeeded \<and> rp_commit_policy p = NoCommit
        \<and> in_final_tests_passed (rp_integration p) = Some True
        \<and> in_final_review_passed (rp_integration p) = Some True)"
  using assms
  by (auto simp: next_run_step_def next_approved_step_def next_integration_step_def
      split: if_splits plan_gate.splits option.splits commit_policy.splits)

lemma dispatched_nodes_run_scoped:
  assumes "next_run_step p = RunNode n"
  shows "node_scope_of n = RunScope" and "n \<notin> {Approval, CommitApproval}"
proof -
  have "n \<in> {Prepare, Plan, FanOut, Join, IntegrateWinner, FinalTest, FinalReview, Commit}"
    using assms
    by (auto simp: next_run_step_def next_approved_step_def next_integration_step_def
        split: if_splits plan_gate.splits option.splits commit_policy.splits)
  then show "node_scope_of n = RunScope" and "n \<notin> {Approval, CommitApproval}"
    by (auto simp: node_scope_of_def)
qed

lemma cancel_step_cases:
  "next_run_step p = CancelRun \<Longrightarrow>
     \<not> run_is_terminal (rp_status p)
     \<and> (rp_cancellation_requested p \<or> plan_gate_of p = PlanRejected)"
  by (auto simp: next_run_step_def next_approved_step_def next_integration_step_def
      split: if_splits plan_gate.splits option.splits commit_policy.splits)

text \<open>A cancelled or settled candidate is never given another node.\<close>

lemma candidate_step_stops:
  assumes "next_candidate_step p i = RunCandidateNode n"
  shows "\<exists>c. candidate_of p i = Some c \<and> \<not> candidate_is_terminal (cr_status c)
    \<and> \<not> rp_cancellation_requested p"
  using assms
  by (auto simp: next_candidate_step_def step_after_attempt_def
      split: option.splits if_splits node_attempt_status.splits)

end
