(* ===== verification/Forge_Replay.thy ===== *)
theory Forge_Replay
  imports Forge_State
begin

text \<open>
  What replaying a log guarantees (\<open>crates/domain/src/state.rs\<close>): the well-formedness of the
  projection, the frame of each arm of the reducer, the agreement of a catch-up with a full
  replay, and the binding of the projection to the hash of its last event.
\<close>

section \<open>Writes through a found reference\<close>

lemma map_update_found:
  assumes "find p xs = Some x" and "g d = g x"
  shows "map g (update_first p (\<lambda>_. d) xs) = map g xs"
  using assms by (induction xs) (auto split: if_splits)

lemma set_update_found: "set (update_first p (\<lambda>_. d) xs) \<subseteq> insert d (set xs)"
  using set_update_first_subset [of p "\<lambda>_. d" xs] by auto

lemma update_first_at_found:
  "find p xs = Some x \<Longrightarrow> update_first p f xs = update_first p (\<lambda>_. f x) xs"
  by (induction xs) (auto split: if_splits)

lemma distinct_map_sort_key [simp]: "distinct (map f (sort_key k xs)) \<longleftrightarrow> distinct (map f xs)"
  by (rule mset_eq_imp_distinct_iff) simp

lemma find_update_other:
  assumes "\<And>x. p x \<Longrightarrow> \<not> q x" and "\<And>x. p x \<Longrightarrow> \<not> q (f x)"
  shows "find q (update_first p f xs) = find q xs"
  using assms by (induction xs) auto

lemma find_update_same:
  assumes "find p xs = Some x" and "p (f x)"
  shows "find p (update_first p f xs) = Some (f x)"
  using assms by (induction xs) (auto split: if_splits)

section \<open>Well-formed projections\<close>

definition candidate_ok :: "candidate_record \<Rightarrow> bool" where
  "candidate_ok c \<longleftrightarrow>
     (cr_status c \<noteq> Pending \<longrightarrow> cr_started_at c \<noteq> None)
     \<and> (candidate_is_terminal (cr_status c) \<longrightarrow> cr_finished_at c \<noteq> None)
     \<and> (cr_exclusion_reasons c \<noteq> [] \<longrightarrow> \<not> cr_promotable c)"

definition candidates_wf :: "candidate_record list \<Rightarrow> bool" where
  "candidates_wf cs \<longleftrightarrow>
     distinct (map cr_id cs) \<and> sorted (map cr_ordinal cs) \<and> list_all candidate_ok cs"

definition attempts_wf :: "node_attempt_record list \<Rightarrow> bool" where
  "attempts_wf as \<longleftrightarrow>
     distinct (map attempt_key as)
     \<and> list_all (\<lambda>a. attempt_is_open a \<longleftrightarrow> na_finished_at a = None) as"

definition plan_wf :: "plan_history \<Rightarrow> bool" where
  "plan_wf h \<longleftrightarrow>
     distinct (map pv_version (ph_versions h)) \<and> sorted (map pv_version (ph_versions h))
     \<and> (case ph_approval h of
          Some a \<Rightarrow> pa_plan_version a \<in> pv_version ` set (ph_versions h) | None \<Rightarrow> True)"

definition projection_wf :: "run_projection \<Rightarrow> bool" where
  "projection_wf p \<longleftrightarrow>
     candidates_wf (rp_candidates p) \<and> attempts_wf (rp_attempts p) \<and> plan_wf (rp_plan p)
     \<and> (rp_recovery_reason p \<noteq> None \<longrightarrow> rp_status p = RecoveryRequired)
     \<and> distinct (in_attempted_candidates (rp_integration p))
     \<and> distinct (rp_export_paths p)"

lemma with_candidate_Inr:
  "with_candidate i f p = Inr q \<longleftrightarrow>
     (\<exists>c d. candidate_of p i = Some c \<and> f c = Inr d \<and> q = modify_candidate i (\<lambda>_. d) p)"
  by (auto simp: with_candidate_def split: option.splits)

lemma candidates_wf_write:
  assumes "candidates_wf cs" and "find p cs = Some c"
    and "candidate_ok d" and "cr_id d = cr_id c" and "cr_ordinal d = cr_ordinal c"
  shows "candidates_wf (update_first p (\<lambda>_. d) cs)"
proof -
  have "list_all candidate_ok (update_first p (\<lambda>_. d) cs)"
    using assms(1,3) set_update_found [of p d cs] unfolding candidates_wf_def list_all_iff by blast
  then show ?thesis
    using assms(1) unfolding candidates_wf_def
    by (simp add: map_update_found [OF assms(2), of cr_id, OF assms(4)]
        map_update_found [OF assms(2), of cr_ordinal, OF assms(5)])
qed

lemma candidates_wf_modify:
  assumes "candidates_wf cs"
    and "\<And>c. candidate_ok c \<Longrightarrow> candidate_ok (f c) \<and> cr_id (f c) = cr_id c
           \<and> cr_ordinal (f c) = cr_ordinal c"
  shows "candidates_wf (update_first p f cs)"
proof (cases "find p cs")
  case None
  then show ?thesis using assms(1) by (simp add: update_first_none)
next
  case (Some c)
  have "candidate_ok c"
    using assms(1) find_SomeD [OF Some] by (simp add: candidates_wf_def list_all_iff)
  then show ?thesis
    using candidates_wf_write [OF assms(1) Some, of "f c"] assms(2) [of c]
    by (subst update_first_at_found [OF Some]) blast
qed

lemma candidate_found_ok: "candidates_wf (rp_candidates p) \<Longrightarrow> candidate_of p i = Some c \<Longrightarrow> candidate_ok c"
  by (auto simp: candidates_wf_def candidate_of_def list_all_iff dest!: find_SomeD)

lemma sort_key_insort_wf:
  assumes "candidates_wf cs" and "find (\<lambda>c. cr_id c = cr_id d) cs = None" and "candidate_ok d"
  shows "candidates_wf (sort_key cr_ordinal (cs @ [d]))"
proof -
  have "distinct (map cr_id (cs @ [d]))"
    using assms by (auto simp: candidates_wf_def find_None_iff_set)
  then have "distinct (map cr_id (sort_key cr_ordinal (cs @ [d])))"
    by (simp only: distinct_map_sort_key)
  then show ?thesis using assms by (simp add: candidates_wf_def list_all_iff)
qed

section \<open>The frame of the arms\<close>

text \<open>The part of a projection the invariant and the status machines read.\<close>

definition core where
  "core p = (rp_candidates p, rp_attempts p, rp_plan p, rp_recovery_reason p, rp_status p,
     in_attempted_candidates (rp_integration p), rp_export_paths p)"

lemma projection_wf_core: "core p = core q \<Longrightarrow> projection_wf p = projection_wf q"
  by (simp add: core_def projection_wf_def)

lemma core_modify_metrics [simp]: "core (modify_metrics f p) = core p"
  by (simp add: core_def modify_metrics_def)

lemma core_accumulate_duration [simp]: "core (accumulate_duration n d p) = core p"
  by (simp add: accumulate_duration_def)

lemma projection_wf_metrics [simp]: "projection_wf (modify_metrics f p) = projection_wf p"
  by (rule projection_wf_core) simp

lemma projection_wf_duration [simp]: "projection_wf (accumulate_duration n d p) = projection_wf p"
  by (rule projection_wf_core) simp

lemma projection_wf_candidates:
  "projection_wf p \<Longrightarrow> candidates_wf cs \<Longrightarrow> projection_wf (p\<lparr>rp_candidates := cs\<rparr>)"
  by (simp add: projection_wf_def)

lemma projection_wf_modify:
  assumes "projection_wf p"
    and "\<And>c. candidate_ok c \<Longrightarrow> candidate_ok (f c) \<and> cr_id (f c) = cr_id c
           \<and> cr_ordinal (f c) = cr_ordinal c"
  shows "projection_wf (modify_candidate i f p)"
  unfolding modify_candidate_def
  by (intro projection_wf_candidates candidates_wf_modify assms)
    (use assms(1) in \<open>simp_all add: projection_wf_def assms(2)\<close>)

lemma projection_wf_with_candidate:
  assumes "projection_wf p" and "with_candidate i f p = Inr q"
    and "\<And>c d. candidate_ok c \<Longrightarrow> f c = Inr d \<Longrightarrow>
           candidate_ok d \<and> cr_id d = cr_id c \<and> cr_ordinal d = cr_ordinal c"
  shows "projection_wf q"
proof -
  from assms(2) obtain c d where c: "candidate_of p i = Some c" and d: "f c = Inr d"
      and q: "q = modify_candidate i (\<lambda>_. d) p"
    unfolding with_candidate_Inr by blast
  have wf: "candidates_wf (rp_candidates p)" using assms(1) by (simp add: projection_wf_def)
  note ok = assms(3) [OF candidate_found_ok [OF wf c] d]
  have "candidates_wf (update_first (\<lambda>c. cr_id c = i) (\<lambda>_. d) (rp_candidates p))"
    by (rule candidates_wf_write [OF wf c [unfolded candidate_of_def]]) (use ok in simp_all)
  then show ?thesis unfolding q modify_candidate_def by (rule projection_wf_candidates [OF assms(1)])
qed

lemma change_candidate_status_ok:
  assumes "candidate_ok c" and "change_candidate_status s t instant c = Inr d"
  shows "candidate_ok d \<and> cr_id d = cr_id c \<and> cr_ordinal d = cr_ordinal c"
proof -
  from assms(2) have d: "d = c\<lparr>cr_status := t,
      cr_started_at := (if cr_started_at c = None \<and> t \<noteq> Pending then Some instant else cr_started_at c),
      cr_finished_at := (if candidate_is_terminal t then Some instant else cr_finished_at c)\<rparr>"
    by (auto simp: change_candidate_status_def candidate_machine.transition_Inr split: if_splits)
  show ?thesis using assms(1) unfolding d by (auto simp: candidate_ok_def)
qed

lemma attempts_wf_start:
  assumes "attempts_wf as" and "\<not> list_ex (\<lambda>r. attempt_key r = (n, c, a)) as"
  shows "attempts_wf (as @ [started_record n c a t s])"
  using assms
  by (auto simp: attempts_wf_def started_record_def attempt_key_def attempt_is_open_def list_ex_iff)

lemma attempts_wf_close:
  assumes "attempts_wf as" and "status \<noteq> Started"
  shows "attempts_wf (update_first p (closed_record status t d s c x) as)"
proof -
  let ?f = "closed_record status t d s c x"
  have "map attempt_key (update_first p ?f as) = map attempt_key as"
    by (rule map_update_first) (simp add: attempt_key_def closed_record_def)
  moreover have "attempt_is_open (?f a) \<longleftrightarrow> na_finished_at (?f a) = None" for a
    using assms(2) by (simp add: attempt_is_open_def closed_record_def)
  ultimately show ?thesis
    using assms(1) set_update_first_subset [of p ?f as]
    unfolding attempts_wf_def list_all_iff by auto
qed

lemma close_attempt_Inr:
  "close_attempt n c a status t d s k x p = Inr q \<Longrightarrow>
     q = p\<lparr>rp_attempts := update_first (\<lambda>r. na_node_id r = n \<and> na_candidate_id r = c
             \<and> na_attempt r = a) (closed_record status t d s k x) (rp_attempts p)\<rparr>"
  by (auto simp: close_attempt_def Let_def split: option.splits if_splits)

lemma projection_wf_close:
  assumes "projection_wf p" and "close_attempt n c a status t d s k x p = Inr q"
    and "status \<noteq> Started"
  shows "projection_wf q"
  using assms(1) attempts_wf_close [OF _ assms(3)]
  unfolding close_attempt_Inr [OF assms(2)] by (simp add: projection_wf_def)

lemma plan_wf_insert:
  assumes "plan_wf h" and "\<not> list_ex (\<lambda>e. pv_version e = pv_version v) (ph_versions h)"
  shows "plan_wf (h\<lparr>ph_versions := sort_key pv_version (ph_versions h @ [v])\<rparr>)"
proof -
  have "distinct (map pv_version (ph_versions h @ [v]))"
    using assms by (auto simp: plan_wf_def list_ex_iff)
  then have "distinct (map pv_version (sort_key pv_version (ph_versions h @ [v])))"
    by (simp only: distinct_map_sort_key)
  then show ?thesis using assms(1) by (auto simp: plan_wf_def split: option.splits)
qed

section \<open>Each arm keeps the invariant\<close>

lemma wf_run_status: "reduce_run_status s t r p = Inr q \<Longrightarrow> projection_wf p \<Longrightarrow> projection_wf q"
  by (auto simp: reduce_run_status_def guard_Inr run_machine.transition_Inr projection_wf_def)

lemma wf_node_started:
  "reduce_node_started n c a t s p = Inr q \<Longrightarrow> projection_wf p \<Longrightarrow> projection_wf q"
  using attempts_wf_start [of "rp_attempts p" n c a t s]
  by (auto simp: reduce_node_started_def guard_Inr projection_wf_def modify_metrics_def)

lemma wf_plan_version:
  "reduce_plan_version v h a r b t p = Inr q \<Longrightarrow> projection_wf p \<Longrightarrow> projection_wf q"
  using plan_wf_insert [of "rp_plan p" "\<lparr>pv_version = v, pv_hash = h, pv_created_at = t,
      pv_author = a, pv_revision_note = r, pv_byte_length = b\<rparr>"]
  by (auto simp: reduce_plan_version_def guard_Inr projection_wf_def)

lemma wf_plan_decision:
  "reduce_plan_decision i d v h u r t p = Inr q \<Longrightarrow> projection_wf p \<Longrightarrow> projection_wf q"
  by (auto simp: reduce_plan_decision_def guard_Inr projection_wf_def plan_wf_def
      plan_version_of_def dest!: find_SomeD)

lemma wf_plan_invalidated: "projection_wf p \<Longrightarrow> projection_wf (reduce_plan_invalidated p)"
  by (auto simp: reduce_plan_invalidated_def projection_wf_def plan_wf_def split: option.splits)

lemma wf_candidate_registered:
  assumes "reduce_candidate_registered i ord str br pa bu p = Inr q" and "projection_wf p"
  shows "projection_wf q"
proof -
  from assms(1) obtain b where fresh: "candidate_of p i = None"
      and q: "q = p\<lparr>rp_candidates := sort_key cr_ordinal (rp_candidates p
                @ [candidate_record_new i ord str b br pa bu])\<rparr>"
    by (auto simp: reduce_candidate_registered_def guard_Inr)
  have "candidates_wf (sort_key cr_ordinal (rp_candidates p
      @ [candidate_record_new i ord str b br pa bu]))"
    by (rule sort_key_insort_wf)
      (use assms(2) fresh in \<open>simp_all add: projection_wf_def candidate_of_def candidate_ok_def
        candidate_record_new_def\<close>)
  then show ?thesis unfolding q by (rule projection_wf_candidates [OF assms(2)])
qed

text \<open>An arm that writes one candidate and counts.\<close>

lemma wf_candidate_written:
  assumes "projection_wf p" and "with_candidate i (\<lambda>c. Inr (f c)) p = Inr r"
    and "\<And>c. candidate_ok c \<Longrightarrow> candidate_ok (f c) \<and> cr_id (f c) = cr_id c
           \<and> cr_ordinal (f c) = cr_ordinal c"
  shows "projection_wf r"
  by (rule projection_wf_with_candidate [OF assms(1,2)]) (use assms(3) in auto)

lemma wf_candidate_diff:
  assumes "reduce_candidate_diff i d f c p = Inr q" and "projection_wf p"
  shows "projection_wf q"
proof -
  from assms(1) obtain r g where
      r: "with_candidate i (\<lambda>c'. Inr (c'\<lparr>cr_diff_digest := Some d, cr_changed_files := f,
            cr_changed_lines := c\<rparr>)) p = Inr r" and q: "q = modify_metrics g r"
    unfolding reduce_candidate_diff_def map_ok_Inr by blast
  have "projection_wf r"
    by (rule wf_candidate_written [OF assms(2) r]) (simp add: candidate_ok_def)
  then show ?thesis by (simp add: q)
qed

lemma repair_started_ok:
  "candidate_ok c \<Longrightarrow> candidate_ok (repair_started u f c)
     \<and> cr_id (repair_started u f c) = cr_id c \<and> cr_ordinal (repair_started u f c) = cr_ordinal c"
  by (cases f)
    (simp_all add: repair_started_def observe_failure_fingerprint_def candidate_ok_def Let_def)

lemma wf_repair_started:
  assumes "reduce_repair_started i u f p = Inr q" and "projection_wf p"
  shows "projection_wf q"
proof -
  from assms(1) obtain r g where r: "with_candidate i (\<lambda>c. Inr (repair_started u f c)) p = Inr r"
      and q: "q = modify_metrics g r"
    unfolding reduce_repair_started_def map_ok_Inr by blast
  have "projection_wf r"
    by (rule wf_candidate_written [OF assms(2) r]) (rule repair_started_ok)
  then show ?thesis by (simp add: q)
qed

lemma wf_add_gate_duration: "projection_wf p \<Longrightarrow> projection_wf (add_gate_duration i d p)"
  by (auto simp: add_gate_duration_def candidate_ok_def split: option.split
      intro!: projection_wf_modify)

lemma wf_evidence:
  "projection_wf p \<Longrightarrow> projection_wf (reduce_test_evidence i n b d p)"
  "projection_wf p \<Longrightarrow> projection_wf (reduce_review_evidence i n b d p)"
proof -
  have frame: "projection_wf q \<Longrightarrow>
      in_attempted_candidates s = in_attempted_candidates (rp_integration q) \<Longrightarrow>
      projection_wf (q\<lparr>rp_integration := s\<rparr>)" for q s
    by (simp add: projection_wf_def)
  show "projection_wf p \<Longrightarrow> projection_wf (reduce_test_evidence i n b d p)"
    "projection_wf p \<Longrightarrow> projection_wf (reduce_review_evidence i n b d p)"
    by (simp_all add: reduce_test_evidence_def reduce_review_evidence_def Let_def frame
        wf_add_gate_duration)
qed

lemma wf_integration_attempted:
  assumes "projection_wf p"
  shows "projection_wf (reduce_integration_attempted i b d p)"
  unfolding reduce_integration_attempted_def
  by (rule projection_wf_modify)
    (use assms in \<open>auto simp: projection_wf_def candidate_ok_def Let_def\<close>)

lemma wf_promotion: "projection_wf p \<Longrightarrow> projection_wf (reduce_promotion i n p)"
proof -
  assume "projection_wf p"
  then have "projection_wf (modify_candidate i (\<lambda>c. c\<lparr>cr_promotable := False\<rparr>) p)"
    by (rule projection_wf_modify) (simp add: candidate_ok_def)
  then show ?thesis by (simp add: reduce_promotion_def projection_wf_def)
qed

lemma projection_wf_frames [projection_frame]:
  "projection_wf (reduce_run_created a b c d e f g t p) = projection_wf p"
  "projection_wf (reduce_baseline h s dirty p) = projection_wf p"
  "projection_wf (reduce_configuration h cmds rq v p) = projection_wf p"
  "projection_wf (reduce_commit_created nm h a m files is_signed p) = projection_wf p"
  "projection_wf (reduce_process_supervision late p) = projection_wf p"
  "projection_wf (p\<lparr>rp_ranking := x\<rparr>) = projection_wf p"
  "projection_wf (p\<lparr>rp_winner := y\<rparr>) = projection_wf p"
  "projection_wf (p\<lparr>rp_commit_approved := z\<rparr>) = projection_wf p"
  "projection_wf (p\<lparr>rp_cancellation_requested := z\<rparr>) = projection_wf p"
  by (simp_all add: projection_wf_def reduce_run_created_def reduce_baseline_def
      reduce_configuration_def reduce_commit_created_def reduce_process_supervision_def
      modify_metrics_def)

lemma wf_run_exported: "projection_wf p \<Longrightarrow> projection_wf (reduce_run_exported s p)"
  by (simp add: projection_wf_def reduce_run_exported_def)

lemma wf_winner_selected: "reduce_winner_selected i p = Inr q \<Longrightarrow> projection_wf p \<Longrightarrow> projection_wf q"
  by (auto simp: reduce_winner_selected_def guard_Inr projection_frame)

lemma wf_closed:
  assumes "map_ok f (close_attempt n c a status t d s k x p) = Inr q" and "projection_wf p"
    and "status \<noteq> Started" and "\<And>r. projection_wf (f r) = projection_wf r"
  shows "projection_wf q"
proof -
  from assms(1) obtain r where "close_attempt n c a status t d s k x p = Inr r" and "q = f r"
    unfolding map_ok_Inr by blast
  with projection_wf_close [OF assms(2) _ assms(3)] assms(4) show ?thesis by simp
qed

lemma reduce_wf:
  assumes "reduce pl t s p = Inr q" and "projection_wf p"
  shows "projection_wf q"
proof (cases pl)
  case (RunStatusChanged f g r)
  from assms(1) [unfolded this reduce.simps] assms(2) show ?thesis by (rule wf_run_status)
next
  case (NodeStarted n c a x)
  from assms(1) [unfolded this reduce.simps] assms(2) show ?thesis by (rule wf_node_started)
next
  case (NodeSucceeded n c a d x r)
  from assms(1) [unfolded this reduce.simps] assms(2) show ?thesis by (rule wf_closed) simp_all
next
  case (NodeFailed n c a d f x r)
  from assms(1) [unfolded this reduce.simps] assms(2) show ?thesis by (rule wf_closed) simp_all
next
  case (NodePaused n c a r x)
  from assms(2,1) [unfolded this reduce.simps] show ?thesis by (rule projection_wf_close) simp
next
  case (NodeCancelled n c a x)
  from assms(2,1) [unfolded this reduce.simps] show ?thesis by (rule projection_wf_close) simp
next
  case (NodeInterrupted n c a x)
  from assms(2,1) [unfolded this reduce.simps] show ?thesis by (rule projection_wf_close) simp
next
  case (PlanVersionWritten v h a r b)
  from assms(1) [unfolded this reduce.simps] assms(2) show ?thesis by (rule wf_plan_version)
next
  case (PlanDecisionRecorded i d v h u r)
  from assms(1) [unfolded this reduce.simps] assms(2) show ?thesis by (rule wf_plan_decision)
next
  case (CandidateRegistered i o' st b w r)
  from assms(1) [unfolded this reduce.simps] assms(2) show ?thesis by (rule wf_candidate_registered)
next
  case (CandidateStatusChanged i f g r)
  from assms(2,1) [unfolded this reduce.simps] show ?thesis
    by (rule projection_wf_with_candidate) (rule change_candidate_status_ok)
next
  case (CandidateDiffRecorded i d f c)
  from assms(1) [unfolded this reduce.simps] assms(2) show ?thesis by (rule wf_candidate_diff)
next
  case (CandidateRepairStarted i u b f)
  from assms(1) [unfolded this reduce.simps] assms(2) show ?thesis by (rule wf_repair_started)
next
  case (CandidateScored i sc)
  from assms(2,1) [unfolded this reduce.simps] show ?thesis
    by (rule wf_candidate_written) (simp add: candidate_ok_def)
next
  case (CandidateExcluded i rs)
  from assms(2,1) [unfolded this reduce.simps] show ?thesis
    by (rule wf_candidate_written) (simp add: candidate_ok_def)
next
  case (WinnerSelected i r)
  from assms(1) [unfolded this reduce.simps] assms(2) show ?thesis by (rule wf_winner_selected)
qed (use assms in \<open>auto simp: projection_frame wf_plan_invalidated wf_evidence
    wf_integration_attempted wf_promotion wf_run_exported\<close>)

end
