(* ===== verification/Forge_History.thy ===== *)
theory Forge_History
  imports Forge_Replay
begin

text \<open>
  Histories: what a sequence of applied events leaves unchanged, which walks the status
  machines take, how a catch-up relates to a full replay, and how the hash of the last event
  determines the whole projection (\<open>crates/domain/src/state.rs\<close>).
\<close>

lemma unat_plus_one: "unat w + 1 < 2 ^ LENGTH('a) \<Longrightarrow> unat (w + 1) = unat w + 1"
  for w :: "'a::len word"
  by (simp add: unat_word_ariths(1))

section \<open>One applied event\<close>

lemma event_apply_Inr:
  "event_apply X enc p e = Inr q \<longleftrightarrow>
     de_run_id e = rp_run_id p
     \<and> event_verify X enc e (rp_last_event_sequence p + 1) (rp_last_event_hash p) = Inr ()
     \<and> (\<exists>r. reduce (de_payload e) (de_recorded_at e) (de_sequence e) p = Inr r
           \<and> q = stamp_event X e r)"
  unfolding event_apply_def guard_Inr by auto

lemma stamp_event_fields [simp]:
  "rp_last_event_sequence (stamp_event X e r) = de_sequence e"
  "rp_last_event_hash (stamp_event X e r) = chain_hash X e"
  "rp_status (stamp_event X e r) = rp_status r"
  "rp_candidates (stamp_event X e r) = rp_candidates r"
  "rp_attempts (stamp_event X e r) = rp_attempts r"
  "rp_plan (stamp_event X e r) = rp_plan r"
  "projection_wf (stamp_event X e r) = projection_wf r"
  by (simp_all add: stamp_event_def modify_metrics_def projection_wf_def)

lemma event_apply_wf: "event_apply X enc p e = Inr q \<Longrightarrow> projection_wf p \<Longrightarrow> projection_wf q"
  by (auto simp: event_apply_Inr dest: reduce_wf)

lemma genesis_wf: "projection_wf (genesis X run t)"
  by (simp add: projection_wf_def genesis_def candidates_wf_def attempts_wf_def plan_wf_def
      plan_history_default_def integration_default_def)

lemma applied_wf:
  "try_fold (event_apply X enc) p es = Inr q \<Longrightarrow> projection_wf p \<Longrightarrow> projection_wf q"
  by (rule try_fold_invariant [of projection_wf]) (auto intro: event_apply_wf)

lemma replay_wf: "replay X enc run t es = Inr p \<Longrightarrow> projection_wf p"
  unfolding replay_def by (erule applied_wf) (rule genesis_wf)

section \<open>Sequence numbers and the chain\<close>

lemma applied_sequence:
  "try_fold (event_apply X enc) p es = Inr q \<Longrightarrow>
     rp_last_event_sequence q = rp_last_event_sequence p + of_nat (length es)"
proof (induction es arbitrary: p)
  case (Cons e es)
  then obtain r where r: "event_apply X enc p e = Inr r"
      and rest: "try_fold (event_apply X enc) r es = Inr q" by auto
  from r have "rp_last_event_sequence r = rp_last_event_sequence p + 1"
    by (auto simp: event_apply_Inr event_verify_iff)
  with Cons.IH [OF rest] show ?case by simp
qed simp

lemma applied_chain:
  "try_fold (event_apply X enc) p es = Inr q \<Longrightarrow>
     chain_verified X enc (rp_last_event_sequence p) (rp_last_event_hash p) es
     \<and> rp_last_event_hash q = chain_end X (rp_last_event_hash p) es"
proof (induction es arbitrary: p)
  case Nil
  then show ?case by (simp add: chain_end_def)
next
  case (Cons e es)
  then obtain r where r: "event_apply X enc p e = Inr r"
      and rest: "try_fold (event_apply X enc) r es = Inr q" by auto
  from r have "rp_last_event_sequence r = rp_last_event_sequence p + 1"
    and "rp_last_event_hash r = chain_hash X e"
    and "event_verify X enc e (rp_last_event_sequence p + 1) (rp_last_event_hash p) = Inr ()"
    by (auto simp: event_apply_Inr event_verify_iff)
  with Cons.IH [OF rest] show ?case by (simp add: chain_end_Cons)
qed

lemma genesis_fields:
  "rp_last_event_sequence (genesis X run t) = 0" "rp_last_event_hash (genesis X run t) = genesis_hash"
  "rp_status (genesis X run t) = Created" "rp_run_id (genesis X run t) = run"
  by (simp_all add: genesis_def)

lemma replay_chain:
  assumes "replay X enc run t es = Inr p"
  shows "chain_verified X enc 0 genesis_hash es \<and> rp_last_event_hash p = chain_end X genesis_hash es"
  using applied_chain [OF assms [unfolded replay_def]] by (simp add: genesis_fields)

section \<open>Catching up\<close>

lemma replay_continues:
  assumes "replay X enc run created_at (take n events) = Inr p"
    and "replay X enc run created_at events = Inr q"
  shows "try_fold (event_apply X enc) p (drop n events) = Inr q"
proof -
  have "replay X enc run created_at (take n events @ drop n events) = Inr q"
    using assms(2) by simp
  with assms(1) show ?thesis unfolding replay_def try_fold_append by simp
qed

lemma replay_from_skips:
  assumes "\<forall>e \<in> set es. de_sequence e \<le> rp_last_event_sequence (fst s)"
  shows "try_fold (replay_from_step X enc) s (es @ fs) = try_fold (replay_from_step X enc) s fs"
  using assms by (induction es) (simp_all add: replay_from_step_def)

lemma replay_from_applies:
  assumes "try_fold (event_apply X enc) p fs = Inr q"
    and "unat (rp_last_event_sequence p) + length fs < 2 ^ 64"
  shows "try_fold (replay_from_step X enc) (p, n) fs = Inr (q, n + of_nat (length fs))"
  using assms
proof (induction fs arbitrary: p n)
  case (Cons e fs)
  then obtain r where r: "event_apply X enc p e = Inr r"
      and rest: "try_fold (event_apply X enc) r fs = Inr q" by auto
  from r have e: "de_sequence e = rp_last_event_sequence p + 1"
    and seq: "rp_last_event_sequence r = rp_last_event_sequence p + 1"
    by (auto simp: event_apply_Inr event_verify_iff)
  have up: "unat (rp_last_event_sequence p + 1) = unat (rp_last_event_sequence p) + 1"
    using Cons.prems(2) by (intro unat_plus_one) simp
  have "\<not> de_sequence e \<le> rp_last_event_sequence p"
    by (simp add: e word_le_nat_alt up)
  then have "replay_from_step X enc (p, n) e = Inr (r, n + 1)"
    by (simp add: replay_from_step_def r)
  moreover have "try_fold (replay_from_step X enc) (r, n + 1) fs = Inr (q, n + 1 + of_nat (length fs))"
    by (rule Cons.IH [OF rest]) (use Cons.prems(2) in \<open>simp add: seq up\<close>)
  ultimately show ?case by (simp add: add.assoc)
qed simp

lemma applied_sequences_below:
  assumes "try_fold (event_apply X enc) p es = Inr q"
    and "unat (rp_last_event_sequence p) + length es < 2 ^ 64" and "e \<in> set es"
  shows "de_sequence e \<le> rp_last_event_sequence q"
  using assms
proof (induction es arbitrary: p)
  case (Cons d es)
  then obtain r where r: "event_apply X enc p d = Inr r"
      and rest: "try_fold (event_apply X enc) r es = Inr q" by auto
  from r have d: "de_sequence d = rp_last_event_sequence p + 1"
    and seq: "rp_last_event_sequence r = rp_last_event_sequence p + 1"
    by (auto simp: event_apply_Inr event_verify_iff)
  have up: "unat (rp_last_event_sequence p + 1) = unat (rp_last_event_sequence p) + 1"
    using Cons.prems(2) by (intro unat_plus_one) simp
  have bound: "unat (rp_last_event_sequence r) + length es < 2 ^ 64"
    using Cons.prems(2) by (simp add: seq up)
  show ?case
  proof (cases "e \<in> set es")
    case True
    then show ?thesis by (rule Cons.IH [OF rest bound])
  next
    case False
    with Cons.prems(3) have "de_sequence e = rp_last_event_sequence r" by (simp add: d seq)
    moreover have "unat (of_nat (length es) :: u64) = length es"
      using bound by (simp add: unat_of_nat take_bit_nat_eq_self)
    then have "rp_last_event_sequence r \<le> rp_last_event_sequence q"
      using bound unfolding applied_sequence [OF rest] word_le_nat_alt
      by (subst unat_add_lem [THEN iffD1]) simp_all
    ultimately show ?thesis by simp
  qed
qed simp

lemma catch_up:
  assumes "replay X enc run t es = Inr p" and "replay X enc run t (es @ fs) = Inr q"
    and "length es + length fs < 2 ^ 64"
  shows "replay_from X enc p (es @ fs) = Inr (q, of_nat (length fs))"
proof -
  note es = assms(1) [unfolded replay_def]
  from assms(2) es have fs: "try_fold (event_apply X enc) p fs = Inr q"
    by (simp add: replay_def try_fold_append)
  have below: "\<forall>e \<in> set es. de_sequence e \<le> rp_last_event_sequence p"
    using applied_sequences_below [OF es] assms(3) by (simp add: genesis_fields)
  have "unat (rp_last_event_sequence p) \<le> length es"
    unfolding applied_sequence [OF es] by (simp add: genesis_fields unat_of_nat)
  with assms(3) have "unat (rp_last_event_sequence p) + length fs < 2 ^ 64" by linarith
  note run = replay_from_applies [OF fs this, of 0]
  show ?thesis unfolding replay_from_def
    by (subst replay_from_skips) (use below run in simp_all)
qed

section \<open>The last hash determines the projection\<close>

lemma event_apply_core:
  assumes "event_apply X enc p d = Inr q" and "event_apply X enc p e = Inr r"
    and "event_core d = event_core e"
  shows "q = r"
proof -
  from assms(3) have core: "de_sequence d = de_sequence e" "de_event_id d = de_event_id e"
      "de_recorded_at d = de_recorded_at e" "de_payload d = de_payload e"
    by (simp_all add: event_core_def)
  have "de_previous_hash d = de_previous_hash e" and "de_payload_hash d = de_payload_hash e"
    using assms(1,2) core by (auto simp: event_apply_Inr event_verify_iff)
  then have "chain_hash X d = chain_hash X e"
    using core by (simp add: chain_hash_def chain_material_def)
  then show ?thesis using assms(1,2) core by (auto simp: event_apply_Inr stamp_event_def)
qed

lemma applied_core:
  assumes "try_fold (event_apply X enc) p ds = Inr q" and "try_fold (event_apply X enc) p es = Inr r"
    and "map event_core ds = map event_core es"
  shows "q = r"
proof -
  have "length ds = length es" using assms(3) by (metis length_map)
  then show ?thesis using assms
  proof (induction ds es arbitrary: p rule: list_induct2)
    case (Cons d ds e es)
    then obtain a b where a: "event_apply X enc p d = Inr a" and b: "event_apply X enc p e = Inr b"
        and rest: "try_fold (event_apply X enc) a ds = Inr q"
          "try_fold (event_apply X enc) b es = Inr r" by auto
    have "a = b" by (rule event_apply_core [OF a b]) (use Cons.prems(3) in simp)
    with Cons.IH [of a] rest Cons.prems(3) show ?case by simp
  qed simp
qed

lemma genesis_hash_clean: "unit_separator \<notin> set genesis_hash"
  by (simp add: genesis_hash_def unit_separator_def char_eq_byte byte_literals)

lemma hash_determines_projection:
  assumes "printing_ok X"
    and "inj_on (blake3_hex X) (hashed_materials X enc ds \<union> hashed_materials X enc es)"
    and "\<And>p q b. enc p = Inr b \<Longrightarrow> enc q = Inr b \<Longrightarrow> p = q"
    and "replay X enc run t ds = Inr p" and "replay X enc run t es = Inr q"
    and "length ds = length es" and "rp_last_event_hash p = rp_last_event_hash q"
  shows "p = q"
proof -
  note d = replay_chain [OF assms(4)] and e = replay_chain [OF assms(5)]
  have "map event_core ds = map event_core es"
    using tamper_evident [OF assms(1,2,3) conjunct1 [OF d] conjunct1 [OF e] genesis_hash_clean
        genesis_hash_clean assms(6)] d e assms(7) by simp
  then show ?thesis by (rule applied_core [OF assms(4,5) [unfolded replay_def]])
qed

end
