(* ===== verification/Forge_Event_Log.thy ===== *)
theory Forge_Event_Log
  imports Forge_History Forge_Errors
begin

text \<open>
  \<open>crates/infrastructure/src/store/event_log.rs\<close>: the append-only file of events, byte by byte.
  The state is the content of the log file and of the quarantine file, the cached tail of the
  chain and the cached verified prefix. JSON is the parameter \<open>event_codec\<close>. Appending an event may
  fail at every system call it makes (\<open>write_fault\<close>); the calls that read, quarantine and truncate
  succeed, apart from the missing file the code handles. File positions are natural numbers.
\<close>

record event_codec =
  ec_encode :: "durable_event \<Rightarrow> string + string"
  ec_decode :: "string \<Rightarrow> durable_event option"

record chain_tail =
  ct_sequence :: u64
  ct_hash :: string

record verified_prefix =
  vp_events :: "durable_event list"
  vp_verified_bytes :: nat
  vp_last_hash :: string

definition verified_prefix_empty :: verified_prefix where
  "verified_prefix_empty =
     \<lparr>vp_events = [], vp_verified_bytes = 0, vp_last_hash = genesis_hash\<rparr>"

record event_log =
  lg_path :: string
  lg_file :: "string option"
  lg_quarantine :: string
  lg_tail :: "chain_tail option"
  lg_prefix :: verified_prefix

definition event_log_new :: "string \<Rightarrow> string option \<Rightarrow> string \<Rightarrow> event_log" where
  "event_log_new path content quarantine =
     \<lparr>lg_path = path, lg_file = content, lg_quarantine = quarantine, lg_tail = None,
      lg_prefix = verified_prefix_empty\<rparr>"

definition maximum_record_bytes :: nat where "maximum_record_bytes = 4194304"

text \<open>The capacity of a standard \<open>BufReader\<close>.\<close>

definition buffer_capacity :: nat where "buffer_capacity = 8192"

section \<open>Reading a bounded line\<close>

text \<open>
  \<open>position\<close> is the distance from the place the reader was opened at: \<open>fill_buf\<close> offers the
  bytes up to the next multiple of the buffer capacity.
\<close>

definition line_limit_message :: string where
  "line_limit_message =
     ''an event record exceeds the '' @ nat_dec maximum_record_bytes @ '' byte limit''"

function read_bounded_line ::
    "nat \<Rightarrow> string \<Rightarrow> string \<Rightarrow> nat \<Rightarrow> string + string \<times> nat \<times> string" where
  "read_bounded_line position rest target sofar =
     (let available = take (buffer_capacity - position mod buffer_capacity) rest;
          index = length (takeWhile (\<lambda>c. c \<noteq> newline) available)
      in if available = [] then Inr (target, sofar, rest)
         else if index < length available
         then Inr (target @ take (index + 1) available, sofar + index + 1, drop (index + 1) rest)
         else let size = length available
              in if maximum_record_bytes < sofar + size then Inl line_limit_message
                 else read_bounded_line (position + size) (drop size rest) (target @ available)
                        (sofar + size))"
  by pat_completeness auto
termination
  by (relation "measure (\<lambda>(_, rest, _, _). length rest)") auto

declare read_bounded_line.simps [simp del]

lemma read_bounded_line_consumes:
  "read_bounded_line position rest target sofar = Inr (record, read, rest') \<Longrightarrow>
     sofar + length rest = read + length rest'"
proof (induction position rest target sofar rule: read_bounded_line.induct)
  case (1 position rest target sofar)
  let ?a = "take (buffer_capacity - position mod buffer_capacity) rest"
  let ?i = "length (takeWhile (\<lambda>c. c \<noteq> newline) ?a)"
  note eq = "1.prems" [unfolded read_bounded_line.simps [of position] Let_def]
  consider "?a = []" | "?a \<noteq> []" "?i < length ?a" | "?a \<noteq> []" "\<not> ?i < length ?a" by blast
  then show ?case
  proof cases
    case 1
    with eq show ?thesis by simp
  next
    case 2
    with eq show ?thesis by auto
  next
    case 3
    with eq have "\<not> maximum_record_bytes < sofar + length ?a" by auto
    with 3 "1.IH" [OF refl refl 3 refl] eq show ?thesis by auto
  qed
qed

section \<open>Loading\<close>

record load_state =
  ld_appended :: "durable_event list"
  ld_consumed :: nat
  ld_previous_hash :: string
  ld_next_sequence :: u64
  ld_partial :: bool
  ld_pending :: "string option"
  ld_quarantine :: string

definition strip_line_end :: "string \<Rightarrow> string" where
  "strip_line_end record =
     rev (dropWhile (\<lambda>c. c = newline \<or> c = carriage_return) (rev record))"

definition quarantine_record :: "string \<Rightarrow> load_state \<Rightarrow> load_state" where
  "quarantine_record record st =
     st\<lparr>ld_quarantine := ld_quarantine st @ record @ [newline], ld_partial := True,
        ld_pending := None\<rparr>"

text \<open>
  One turn of the loop after a line was read: an error with the quarantine file at that
  moment, or the new state and whether the loop goes on.
\<close>

definition load_record ::
    "externals \<Rightarrow> payload_encoder \<Rightarrow> event_codec \<Rightarrow> string \<Rightarrow> nat \<Rightarrow> load_state
      \<Rightarrow> application_error \<times> string + bool \<times> load_state" where
  "load_record X enc C record read st =
     (let terminated = (record \<noteq> [] \<and> last record = newline);
          stripped = strip_line_end record
      in if stripped = [] then Inr (True, st\<lparr>ld_consumed := ld_consumed st + read\<rparr>)
         else
           let settled = (case ld_pending st of
                            Some previous \<Rightarrow> quarantine_record previous st | None \<Rightarrow> st)
           in if \<not> terminated then Inr (False, settled\<lparr>ld_pending := Some stripped\<rparr>)
              else case ec_decode C stripped of
                     None \<Rightarrow> Inr (True, settled\<lparr>ld_pending := Some stripped\<rparr>)
                   | Some event \<Rightarrow>
                       (case event_verify X enc event (ld_next_sequence settled)
                               (ld_previous_hash settled) of
                          Inl e \<Rightarrow> Inl (Domain e, ld_quarantine settled)
                        | Inr _ \<Rightarrow> Inr (True, settled
                            \<lparr>ld_previous_hash := chain_hash X event,
                             ld_next_sequence := ld_next_sequence settled + 1,
                             ld_appended := ld_appended settled @ [event],
                             ld_consumed := ld_consumed settled + read\<rparr>)))"

definition storage_error :: "string \<Rightarrow> string \<Rightarrow> string \<Rightarrow> application_error" where
  "storage_error path action error =
     Storage (''could not '' @ action @ '' `'' @ path @ ''`: '' @ error)"

function load_loop ::
    "externals \<Rightarrow> payload_encoder \<Rightarrow> event_codec \<Rightarrow> string \<Rightarrow> nat \<Rightarrow> string \<Rightarrow> load_state
      \<Rightarrow> application_error \<times> string + load_state" where
  "load_loop X enc C path position rest st =
     (case read_bounded_line position rest [] 0 of
        Inl message \<Rightarrow> Inl (storage_error path ''read'' message, ld_quarantine st)
      | Inr (record, read, rest') \<Rightarrow>
          if read = 0 then Inr st
          else (case load_record X enc C record read st of
                  Inl failure \<Rightarrow> Inl failure
                | Inr (go_on, st') \<Rightarrow>
                    if go_on then load_loop X enc C path (position + read) rest' st'
                    else Inr st'))"
  by pat_completeness auto
termination
  by (relation "measure (\<lambda>(_, _, _, _, _, rest, _). length rest)")
    (auto dest!: read_bounded_line_consumes)

declare load_loop.simps [simp del]

definition truncate_partial_tail :: "string \<Rightarrow> string \<Rightarrow> string" where
  "truncate_partial_tail contents record =
     (if length contents < length record then contents
      else let boundary = length contents - length record
           in if drop boundary contents \<noteq> record then contents else take boundary contents)"

definition load_start :: "verified_prefix \<Rightarrow> string \<Rightarrow> load_state" where
  "load_start prefix quarantine =
     \<lparr>ld_appended = [], ld_consumed = vp_verified_bytes prefix,
      ld_previous_hash = vp_last_hash prefix,
      ld_next_sequence = of_nat (length (vp_events prefix)) + 1, ld_partial = False,
      ld_pending = None, ld_quarantine = quarantine\<rparr>"

definition load_finish :: "string \<Rightarrow> load_state \<Rightarrow> load_state \<times> string" where
  "load_finish content st =
     (case ld_pending st of
        Some remaining \<Rightarrow> (quarantine_record remaining st, truncate_partial_tail content remaining)
      | None \<Rightarrow> (st, content))"

definition log_load ::
    "externals \<Rightarrow> payload_encoder \<Rightarrow> event_codec \<Rightarrow> event_log
      \<Rightarrow> (durable_event list \<times> bool) application_result \<times> event_log" where
  "log_load X enc C self =
     (case lg_file self of
        None \<Rightarrow> (Inr ([], False), self\<lparr>lg_prefix := verified_prefix_empty\<rparr>)
      | Some content \<Rightarrow>
          let prefix = (if length content < vp_verified_bytes (lg_prefix self)
                        then verified_prefix_empty else lg_prefix self)
          in if length content = vp_verified_bytes prefix
             then (Inr (vp_events prefix, False), self\<lparr>lg_prefix := prefix\<rparr>)
             else (case load_loop X enc C (lg_path self) 0
                          (drop (vp_verified_bytes prefix) content)
                          (load_start prefix (lg_quarantine self)) of
                     Inl (e, quarantine) \<Rightarrow>
                       (Inl e, self\<lparr>lg_prefix := prefix, lg_quarantine := quarantine\<rparr>)
                   | Inr st \<Rightarrow>
                       let (final, kept) = load_finish content st;
                           events = vp_events prefix @ ld_appended final
                       in (Inr (events, ld_partial final),
                           self\<lparr>lg_file := Some kept, lg_quarantine := ld_quarantine final,
                                lg_prefix := \<lparr>vp_events = events,
                                              vp_verified_bytes = ld_consumed final,
                                              vp_last_hash = ld_previous_hash final\<rparr>\<rparr>)))"

record chain_verification =
  cv_events_verified :: u64
  cv_last_sequence :: u64
  cv_last_hash :: string
  cv_quarantined_partial_record :: bool

definition verify_internal ::
    "externals \<Rightarrow> payload_encoder \<Rightarrow> event_codec \<Rightarrow> event_log
      \<Rightarrow> chain_verification application_result \<times> event_log" where
  "verify_internal X enc C self =
     (case log_load X enc C self of
        (Inl e, journal) \<Rightarrow> (Inl e, journal)
      | (Inr (events, partial), journal) \<Rightarrow>
          (Inr \<lparr>cv_events_verified = of_nat (length events),
                cv_last_sequence = (if events = [] then 0 else de_sequence (last events)),
                cv_last_hash = chain_end X genesis_hash events,
                cv_quarantined_partial_record = partial\<rparr>, journal))"

definition log_verify ::
    "externals \<Rightarrow> payload_encoder \<Rightarrow> event_codec \<Rightarrow> event_log
      \<Rightarrow> chain_verification application_result \<times> event_log" where
  "log_verify X enc C self =
     (case verify_internal X enc C self of
        (Inl e, journal) \<Rightarrow> (Inl e, journal)
      | (Inr v, journal) \<Rightarrow>
          (Inr v, journal\<lparr>lg_tail := Some \<lparr>ct_sequence = cv_last_sequence v,
                                       ct_hash = cv_last_hash v\<rparr>\<rparr>))"

definition current_tail ::
    "externals \<Rightarrow> payload_encoder \<Rightarrow> event_codec \<Rightarrow> event_log
      \<Rightarrow> chain_tail application_result \<times> event_log" where
  "current_tail X enc C self =
     (case lg_tail self of
        Some tail \<Rightarrow> (Inr tail, self)
      | None \<Rightarrow>
          (case verify_internal X enc C self of
             (Inl e, journal) \<Rightarrow> (Inl e, journal)
           | (Inr v, journal) \<Rightarrow>
               (Inr \<lparr>ct_sequence = cv_last_sequence v, ct_hash = cv_last_hash v\<rparr>, journal)))"

text \<open>
  Where \<open>append_line_synchronised\<close> can fail, with the message of the system call: before anything
  is written, after some bytes of the line and its newline, or after all of them.
\<close>

datatype write_fault =
    DirectoryFault application_error
  | OpenFault string
  | WriteFault nat string
  | FlushFault string
  | SyncFault string

definition append_line ::
    "string \<Rightarrow> write_fault option \<Rightarrow> string \<Rightarrow> string option
      \<Rightarrow> unit application_result \<times> string option" where
  "append_line path fault line content =
     (let bytes = (case content of Some b \<Rightarrow> b | None \<Rightarrow> []);
          written = Some (bytes @ line @ [newline])
      in case fault of
           None \<Rightarrow> (Inr (), written)
         | Some (DirectoryFault e) \<Rightarrow> (Inl e, content)
         | Some (OpenFault m) \<Rightarrow> (Inl (storage_error path ''open for append'' m), content)
         | Some (WriteFault n m) \<Rightarrow>
             (Inl (storage_error path ''append'' m), Some (bytes @ take n (line @ [newline])))
         | Some (FlushFault m) \<Rightarrow> (Inl (storage_error path ''flush'' m), written)
         | Some (SyncFault m) \<Rightarrow> (Inl (storage_error path ''synchronise'' m), written))"

definition log_append ::
    "externals \<Rightarrow> payload_encoder \<Rightarrow> event_codec \<Rightarrow> write_fault option \<Rightarrow> run_id \<Rightarrow> event_id
      \<Rightarrow> timestamp \<Rightarrow> event_payload \<Rightarrow> event_log \<Rightarrow> durable_event application_result \<times> event_log" where
  "log_append X enc C fault run event recorded_at payload self =
     (case current_tail X enc C self of
        (Inl e, journal) \<Rightarrow> (Inl e, journal)
      | (Inr tail, journal) \<Rightarrow>
          (case event_seal X enc (ct_sequence tail + 1) event run recorded_at (ct_hash tail)
                  payload of
             Inl e \<Rightarrow> (Inl (Domain e), journal)
           | Inr sealed \<Rightarrow>
               (case ec_encode C sealed of
                  Inl message \<Rightarrow> (Inl (Serialisation message), journal)
                | Inr line \<Rightarrow>
                    if maximum_record_bytes < length line
                    then (Inl (Storage (''an event record of '' @ nat_dec (length line)
                            @ '' bytes exceeds the '' @ nat_dec maximum_record_bytes
                            @ '' byte record limit'')), journal)
                    else (case append_line (lg_path journal) fault line (lg_file journal) of
                            (Inl e, content) \<Rightarrow> (Inl e, journal\<lparr>lg_file := content\<rparr>)
                          | (Inr _, content) \<Rightarrow>
                              (Inr sealed,
                               journal\<lparr>lg_file := content,
                                 lg_tail := Some \<lparr>ct_sequence = de_sequence sealed,
                                                  ct_hash = chain_hash X sealed\<rparr>\<rparr>)))))"

definition log_read_after ::
    "externals \<Rightarrow> payload_encoder \<Rightarrow> event_codec \<Rightarrow> u64 \<Rightarrow> event_log
      \<Rightarrow> durable_event list application_result \<times> event_log" where
  "log_read_after X enc C sequence self =
     (case log_load X enc C self of
        (Inl e, journal) \<Rightarrow> (Inl e, journal)
      | (Inr (events, _), journal) \<Rightarrow>
          (Inr (filter (\<lambda>event. sequence < de_sequence event) events), journal))"

definition log_read_range ::
    "externals \<Rightarrow> payload_encoder \<Rightarrow> event_codec \<Rightarrow> u64 \<Rightarrow> nat \<Rightarrow> event_log
      \<Rightarrow> durable_event list application_result \<times> event_log" where
  "log_read_range X enc C from_sequence limit self =
     (case log_load X enc C self of
        (Inl e, journal) \<Rightarrow> (Inl e, journal)
      | (Inr (events, _), journal) \<Rightarrow>
          (Inr (take limit (filter (\<lambda>event. from_sequence < de_sequence event) events)), journal))"

end
