(* ===== verification/Forge_Engine.thy ===== *)
theory Forge_Engine
  imports Forge_Steps Forge_Configuration Forge_Scheduler Forge_Event_Log
begin

text \<open>
  \<open>engine/services.rs\<close>, \<open>engine/context.rs\<close> and the first half of \<open>engine/dispatcher.rs\<close>: what a
  dispatcher calls, its state, and how it commits events and moves statuses. The ports are
  functions over a world \<open>'w\<close>, as the trait objects are over the outside. The dispatcher holds the
  projection of the run beside that world; a lock is held from the append of an event until its
  metrics are stored, so \<open>commit_event\<close> is one step.
\<close>

section \<open>What nodes exchange with the engine\<close>

record attempt_evidence =
  ae_input :: json_value
  ae_invocation :: "json_value option"
  ae_stdout :: string
  ae_stderr :: string
  ae_stdout_truncated :: bool
  ae_stderr_truncated :: bool

definition attempt_evidence_default :: attempt_evidence where
  "attempt_evidence_default =
     \<lparr>ae_input = JObject [], ae_invocation = None, ae_stdout = [], ae_stderr = [],
      ae_stdout_truncated = False, ae_stderr_truncated = False\<rparr>"

definition evidence_with_input :: "json_value \<Rightarrow> attempt_evidence" where
  "evidence_with_input input = attempt_evidence_default\<lparr>ae_input := input\<rparr>"

definition with_streams :: "string \<Rightarrow> string \<Rightarrow> attempt_evidence \<Rightarrow> attempt_evidence" where
  "with_streams stdout stderr self = self\<lparr>ae_stdout := stdout, ae_stderr := stderr\<rparr>"

definition with_invocation :: "json_value \<Rightarrow> attempt_evidence \<Rightarrow> attempt_evidence" where
  "with_invocation invocation self = self\<lparr>ae_invocation := Some invocation\<rparr>"

record node_output =
  no_status :: node_status
  no_next :: "node_id option"
  no_state_patch :: state_patch
  no_artifacts :: "artifact_reference list"
  no_failure :: "node_failure option"
  no_metrics :: json_value
  no_warnings :: "string list"
  no_events :: "event_payload list"
  no_evidence :: attempt_evidence

definition output_succeeded :: "node_id option \<Rightarrow> node_output" where
  "output_succeeded next =
     \<lparr>no_status = node_status.Succeeded, no_next = next, no_state_patch = state_patch_default,
      no_artifacts = [], no_failure = None, no_metrics = JObject [], no_warnings = [],
      no_events = [], no_evidence = attempt_evidence_default\<rparr>"

definition output_failed :: "node_failure \<Rightarrow> node_id option \<Rightarrow> node_output" where
  "output_failed failure next =
     \<lparr>no_status = node_status.Failed, no_next = next, no_state_patch = state_patch_default,
      no_artifacts = [], no_failure = Some failure, no_metrics = JObject [], no_warnings = [],
      no_events = [], no_evidence = attempt_evidence_default\<rparr>"

definition output_paused :: node_output where
  "output_paused =
     \<lparr>no_status = node_status.Paused, no_next = None, no_state_patch = state_patch_default,
      no_artifacts = [], no_failure = None, no_metrics = JObject [], no_warnings = [],
      no_events = [], no_evidence = attempt_evidence_default\<rparr>"

definition with_patch :: "state_patch \<Rightarrow> node_output \<Rightarrow> node_output" where
  "with_patch patch self = self\<lparr>no_state_patch := patch\<rparr>"

definition with_events :: "event_payload list \<Rightarrow> node_output \<Rightarrow> node_output" where
  "with_events events self = self\<lparr>no_events := events\<rparr>"

definition with_event :: "event_payload \<Rightarrow> node_output \<Rightarrow> node_output" where
  "with_event event self = self\<lparr>no_events := no_events self @ [event]\<rparr>"

definition with_artifacts :: "artifact_reference list \<Rightarrow> node_output \<Rightarrow> node_output" where
  "with_artifacts artifacts self = self\<lparr>no_artifacts := artifacts\<rparr>"

definition with_evidence :: "attempt_evidence \<Rightarrow> node_output \<Rightarrow> node_output" where
  "with_evidence evidence self = self\<lparr>no_evidence := evidence\<rparr>"

definition with_metrics :: "json_value \<Rightarrow> node_output \<Rightarrow> node_output" where
  "with_metrics metrics self = self\<lparr>no_metrics := metrics\<rparr>"

definition with_warning :: "string \<Rightarrow> node_output \<Rightarrow> node_output" where
  "with_warning warning self = self\<lparr>no_warnings := no_warnings self @ [warning]\<rparr>"

lemmas output_simps = output_succeeded_def output_failed_def output_paused_def with_patch_def
  with_events_def with_event_def with_artifacts_def with_evidence_def with_metrics_def
  with_warning_def

record run_context =
  cx_run_id :: run_id
  cx_repository :: string
  cx_configuration :: effective_configuration
  cx_task_markdown :: string

record node_call =
  nc_node :: node_id
  nc_candidate :: "candidate_id option"
  nc_attempt :: attempt_number
  nc_projection :: run_projection

text \<open>How \<open>tokio::time::timeout(timeout, nodes::execute(..))\<close> ends.\<close>

datatype node_execution =
    Executed node_output
  | ExecutionError application_error
  | ExecutionTimedOut

section \<open>The ports\<close>

text \<open>
  Beside the methods of the ports there are the outcomes of what the dispatcher awaits:
  \<open>sv_execute\<close> is a node under its timeout, \<open>sv_next_task\<close> the choice of the runtime among the
  candidate tasks that hold a permit, \<open>sv_result_bytes\<close> the JSON encoding of a node result.
\<close>

record 'w run_services =
  sv_externals :: externals
  sv_encoder :: payload_encoder
  sv_append :: "run_id \<Rightarrow> event_payload \<Rightarrow> ('w, durable_event) step"
  sv_read_after :: "run_id \<Rightarrow> u64 \<Rightarrow> ('w, durable_event list) step"
  sv_verify_chain :: "run_id \<Rightarrow> ('w, chain_verification) step"
  sv_load :: "run_id \<Rightarrow> ('w, run_projection option) step"
  sv_store :: "run_projection \<Rightarrow> ('w, unit) step"
  sv_store_metrics :: "run_id \<Rightarrow> run_projection \<Rightarrow> ('w, unit) step"
  sv_load_manifest :: "run_id \<Rightarrow> ('w, run_manifest option) step"
  sv_store_manifest :: "run_manifest \<Rightarrow> ('w, unit) step"
  sv_commit_attempt :: "run_id \<Rightarrow> node_result \<Rightarrow> attempt_evidence \<Rightarrow> ('w, unit) step"
  sv_publish :: "durable_event \<Rightarrow> ('w, unit) step"
  sv_now :: "'w \<Rightarrow> timestamp \<times> 'w"
  sv_jitter :: "'w \<Rightarrow> f64 \<times> 'w"
  sv_cancelled :: "'w \<Rightarrow> bool \<times> 'w"
  sv_execute :: "run_context \<Rightarrow> node_call \<Rightarrow> 'w \<Rightarrow> node_execution \<times> 'w"
  sv_result_bytes :: "node_result \<Rightarrow> string application_result"
  sv_logical_processors :: "('w, u64) step"
  sv_next_task :: "nat \<Rightarrow> 'w \<Rightarrow> nat \<times> 'w"
  sv_exists :: "run_id \<Rightarrow> ('w, bool) step"
  sv_configuration :: "run_id \<Rightarrow> ('w, effective_configuration) step"
  sv_task_markdown :: "run_id \<Rightarrow> ('w, string) step"
  sv_lock :: "run_id \<Rightarrow> ('w, unit) step"
  sv_unlock :: "run_id \<Rightarrow> 'w \<Rightarrow> 'w"

record 'w dispatcher =
  dp_world :: 'w
  dp_projection :: run_projection

definition on_world :: "('w, 'a) step \<Rightarrow> ('w dispatcher, 'a) step" where
  "on_world m d = (case m (dp_world d) of (r, w) \<Rightarrow> (r, d\<lparr>dp_world := w\<rparr>))"

definition ask_world :: "('w \<Rightarrow> 'a \<times> 'w) \<Rightarrow> ('w dispatcher, 'a) step" where
  "ask_world f d = (case f (dp_world d) of (a, w) \<Rightarrow> (Inr a, d\<lparr>dp_world := w\<rparr>))"

section \<open>Committing events\<close>

definition commit_event ::
    "'w run_services \<Rightarrow> run_context \<Rightarrow> event_payload \<Rightarrow> ('w dispatcher, durable_event) step" where
  "commit_event S cx payload =
     then_do (on_world (sv_append S (cx_run_id cx) payload)) (\<lambda>event.
     then_do (look dp_projection) (\<lambda>projection.
     then_do (lift_result (lift_domain
         (event_apply (sv_externals S) (sv_encoder S) projection event))) (\<lambda>applied.
     then_do (update_state (\<lambda>d. d\<lparr>dp_projection := applied\<rparr>)) (\<lambda>_.
     then_do (on_world (sv_store S applied)) (\<lambda>_.
     then_do (on_world (sv_store_metrics S (cx_run_id cx) applied)) (\<lambda>_.
     then_do (on_world (sv_publish S event)) (\<lambda>_.
     ok event)))))))"

definition ensure_run_status ::
    "'w run_services \<Rightarrow> run_context \<Rightarrow> run_status \<Rightarrow> string option \<Rightarrow> ('w dispatcher, unit) step" where
  "ensure_run_status S cx target reason =
     then_do (look (\<lambda>d. rp_status (dp_projection d))) (\<lambda>current.
       if current = target then ok ()
       else then_do (lift_result (lift_domain (run_transition_to current target))) (\<lambda>_.
            then_do (commit_event S cx (RunStatusChanged current target reason)) (\<lambda>_.
            ok ())))"

definition set_candidate_status ::
    "'w run_services \<Rightarrow> run_context \<Rightarrow> candidate_id \<Rightarrow> candidate_status \<Rightarrow> string option
      \<Rightarrow> ('w dispatcher, unit) step" where
  "set_candidate_status S cx candidate target reason =
     then_do (look (\<lambda>d. map_option cr_status (candidate_of (dp_projection d) candidate))) (\<lambda>found.
     then_do (lift_result (ok_or (CandidateNotFound (cx_run_id cx) candidate) found)) (\<lambda>current.
       if current = target then ok ()
       else then_do (lift_result (lift_domain (candidate_transition_to current target))) (\<lambda>_.
            then_do (commit_event S cx (CandidateStatusChanged candidate current target reason)) (\<lambda>_.
            ok ()))))"

definition cancelled_text :: "string option" where
  "cancelled_text = Some ''the run was cancelled''"

definition finish_cancelled ::
    "'w run_services \<Rightarrow> run_context \<Rightarrow> ('w dispatcher, unit) step" where
  "finish_cancelled S cx =
     then_do (look dp_projection) (\<lambda>snapshot.
     then_do (for_each (rp_candidates snapshot) (\<lambda>candidate.
        if \<not> candidate_is_terminal (cr_status candidate)
        then set_candidate_status S cx (cr_id candidate) candidate_status.Cancelled cancelled_text
        else ok ())) (\<lambda>_.
     ensure_run_status S cx run_status.Cancelled cancelled_text))"

section \<open>Deciding about a failed attempt\<close>

definition desired_run_status :: "run_status \<Rightarrow> node_id \<Rightarrow> run_status option" where
  "desired_run_status current node =
     (let target = run_status_for_node node
      in if current = target then None
         else if node = Commit \<and> current = AwaitingCommitApproval then None
         else Some target)"

definition decide_retry ::
    "run_context \<Rightarrow> node_id \<Rightarrow> candidate_id option \<Rightarrow> attempt_number \<Rightarrow> node_failure
      \<Rightarrow> run_projection \<Rightarrow> retry_decision" where
  "decide_retry cx node candidate attempt failure snapshot =
     (let repair_budget_remaining =
        (case Option.bind candidate (candidate_of snapshot) of
           Some record \<Rightarrow> has_repair_budget record | None \<Rightarrow> False)
      in classify_retry node (nf_class failure) attempt (ef_retry (cx_configuration cx))
           repair_budget_remaining)"

definition apply_retry_decision ::
    "'w run_services \<Rightarrow> run_context \<Rightarrow> node_id \<Rightarrow> candidate_id option \<Rightarrow> retry_decision
      \<Rightarrow> node_output \<Rightarrow> ('w dispatcher, node_output) step" where
  "apply_retry_decision S cx node candidate decision output =
     (case decision of
        RetrySameNode \<Rightarrow>
          then_do (look (\<lambda>d. next_attempt_number (dp_projection d) node candidate)) (\<lambda>attempt.
          then_do (ask_world (sv_jitter S)) (\<lambda>jitter.
          then_do (commit_event S cx (NodeRetryScheduled node candidate
             (case attempt_new attempt of Inr a \<Rightarrow> a | Inl _ \<Rightarrow> attempt_first)
             (delay_with_jitter (ef_retry (cx_configuration cx)) attempt jitter)
             ''a transient infrastructure failure was detected'')) (\<lambda>_.
          ok (output\<lparr>no_next := Some node\<rparr>))))
      | RouteToRepair \<Rightarrow> ok (output\<lparr>no_next := Some RepairCandidate\<rparr>)
      | FailCandidate \<Rightarrow>
          ok (output\<lparr>no_next := Some Join,
                     no_state_patch := (no_state_patch output)
                       \<lparr>sp_candidate_status := Some Ineligible\<rparr>\<rparr>)
      | PauseForUser \<Rightarrow> ok (output\<lparr>no_status := node_status.Paused, no_next := None\<rparr>)
      | Cancel \<Rightarrow> ok (output\<lparr>no_status := node_status.Cancelled, no_next := None\<rparr>)
      | FailRun \<Rightarrow> ok (output\<lparr>no_next := None\<rparr>))"

end
