(* ===== verification/Forge_Dispatcher.thy ===== *)
theory Forge_Dispatcher
  imports Forge_Engine
begin

text \<open>
  \<open>engine/dispatcher.rs\<close> after the committing of events: the execution of a node, the end of its
  attempt, the loop over the steps of the scheduler and the tasks of the candidates. An attempt
  ends as its \<open>node_output\<close> says, changed by the retry decision. The tasks of candidates take turns
  of one node each; which task goes next is the choice of the world.
\<close>

section \<open>Attempts\<close>

record attempt_key_record =
  ak_node :: node_id
  ak_candidate :: "candidate_id option"
  ak_attempt :: attempt_number

definition attempt_key_new ::
    "node_id \<Rightarrow> candidate_id option \<Rightarrow> attempt_number \<Rightarrow> attempt_key_record" where
  "attempt_key_new node candidate attempt =
     \<lparr>ak_node = node, ak_candidate = candidate, ak_attempt = attempt\<rparr>"

definition directory_segments :: "attempt_key_record \<Rightarrow> string list" where
  "directory_segments self =
     (case ak_candidate self of
        Some candidate \<Rightarrow> [node_as_str (ak_node self) @ ''-'' @ candidate, dec (ak_attempt self)]
      | None \<Rightarrow> [node_as_str (ak_node self), dec (ak_attempt self)])"

definition missing_failure :: node_failure where
  "missing_failure = node_failure_new InternalInvariant ''missing_failure''
     ''a failed node produced no failure record''"

definition failure_or_missing :: "node_failure option \<Rightarrow> node_failure" where
  "failure_or_missing failure = (case failure of Some f \<Rightarrow> f | None \<Rightarrow> missing_failure)"

text \<open>The result record of an attempt and the event that closes it.\<close>

definition attempt_builder ::
    "run_context \<Rightarrow> node_id \<Rightarrow> candidate_id option \<Rightarrow> attempt_number \<Rightarrow> timestamp \<Rightarrow> node_output
      \<Rightarrow> node_result_builder" where
  "attempt_builder cx node candidate attempt started_at output =
     (let builder = node_result_builder_new (cx_run_id cx) node attempt started_at;
          builder = (case candidate of Some c \<Rightarrow> builder_candidate c builder | None \<Rightarrow> builder);
          builder = builder_metrics (no_metrics output)
            (builder_artifacts (no_artifacts output) (builder_patch (no_state_patch output) builder))
      in fold builder_warning (no_warnings output) builder)"

definition attempt_result ::
    "run_context \<Rightarrow> node_id \<Rightarrow> candidate_id option \<Rightarrow> attempt_number \<Rightarrow> timestamp \<Rightarrow> timestamp
      \<Rightarrow> node_output \<Rightarrow> node_result" where
  "attempt_result cx node candidate attempt started_at finished_at output =
     (let builder = attempt_builder cx node candidate attempt started_at output
      in case no_status output of
           node_status.Succeeded \<Rightarrow> builder_succeeded builder finished_at (no_next output)
         | node_status.Failed \<Rightarrow>
             builder_failed builder finished_at (failure_or_missing (no_failure output))
               (no_next output)
         | node_status.Paused \<Rightarrow> builder_paused builder finished_at
         | node_status.Cancelled \<Rightarrow> builder_cancelled builder finished_at
         | node_status.Interrupted \<Rightarrow> builder_cancelled builder finished_at)"

definition first_warning :: "string \<Rightarrow> node_output \<Rightarrow> string" where
  "first_warning otherwise output =
     (case no_warnings output of [] \<Rightarrow> otherwise | warning # _ \<Rightarrow> warning)"

definition terminal_payload ::
    "node_id \<Rightarrow> candidate_id option \<Rightarrow> attempt_number \<Rightarrow> node_output \<Rightarrow> node_result
      \<Rightarrow> content_digest \<Rightarrow> event_payload" where
  "terminal_payload node candidate attempt output result digest =
     (case no_status output of
        node_status.Succeeded \<Rightarrow>
          NodeSucceeded node candidate attempt (nr_duration_ms result) (no_next output) digest
      | node_status.Failed \<Rightarrow>
          NodeFailed node candidate attempt (nr_duration_ms result)
            (failure_or_missing (nr_failure result)) (no_next output) digest
      | node_status.Paused \<Rightarrow>
          NodePaused node candidate attempt
            (first_warning ''the node paused for user action'' output) digest
      | node_status.Cancelled \<Rightarrow> NodeCancelled node candidate attempt digest
      | node_status.Interrupted \<Rightarrow> NodeCancelled node candidate attempt digest)"

section \<open>The end of an attempt\<close>

definition apply_state_patch ::
    "'w run_services \<Rightarrow> run_context \<Rightarrow> node_id \<Rightarrow> candidate_id option \<Rightarrow> node_output
      \<Rightarrow> ('w dispatcher, unit) step" where
  "apply_state_patch S cx node candidate output =
     then_do (case (sp_candidate_status (no_state_patch output), candidate) of
         (Some status, Some c) \<Rightarrow> set_candidate_status S cx c status None | _ \<Rightarrow> ok ()) (\<lambda>_.
     then_do (case sp_run_status (no_state_patch output) of
         Some status \<Rightarrow> ensure_run_status S cx status None | None \<Rightarrow> ok ()) (\<lambda>_.
     then_do (if no_status output = node_status.Failed \<and> no_next output = None
                 \<and> node_scope_of node = RunScope
              then ensure_run_status S cx run_status.Failed
                (Some (case no_failure output of
                         Some failure \<Rightarrow> nf_message failure
                       | None \<Rightarrow> ''node '' @ node_as_str node @ '' failed''))
              else ok ()) (\<lambda>_.
     if no_status output = node_status.Paused \<and> node_scope_of node = RunScope
     then ensure_run_status S cx RecoveryRequired
       (Some (first_warning ''the run requires user action'' output))
     else ok ())))"

definition updated_manifest :: "attempt_key_record \<Rightarrow> run_projection \<Rightarrow> run_manifest \<Rightarrow> run_manifest" where
  "updated_manifest key snapshot manifest =
     (let path = ''nodes/'' @ join_str ''/'' (directory_segments key)
      in manifest\<lparr>rf_last_event_sequence := rp_last_event_sequence snapshot,
           rf_last_event_hash := rp_last_event_hash snapshot,
           rf_node_evidence_paths := (if path \<in> set (rf_node_evidence_paths manifest)
              then rf_node_evidence_paths manifest else rf_node_evidence_paths manifest @ [path]),
           rf_candidate_paths := map (\<lambda>c. ''candidates/'' @ cr_id c) (rp_candidates snapshot),
           rf_artifact_count := mt_artifacts_stored (rp_metrics snapshot)\<rparr>)"

definition update_manifest ::
    "'w run_services \<Rightarrow> run_context \<Rightarrow> attempt_key_record \<Rightarrow> ('w dispatcher, unit) step" where
  "update_manifest S cx key =
     then_do (look dp_projection) (\<lambda>snapshot.
     then_do (on_world (sv_load_manifest S (cx_run_id cx))) (\<lambda>found.
     let manifest = (case found of Some m \<Rightarrow> m | None \<Rightarrow> manifest_empty (cx_run_id cx))
     in on_world (sv_store_manifest S (updated_manifest key snapshot manifest))))"

text \<open>The first part of \<open>finalise_attempt\<close>: the retry decision about a failed output.\<close>

definition settle_output ::
    "'w run_services \<Rightarrow> run_context \<Rightarrow> node_id \<Rightarrow> candidate_id option \<Rightarrow> attempt_number \<Rightarrow> node_output
      \<Rightarrow> ('w dispatcher, node_output) step" where
  "settle_output S cx node candidate attempt output =
     (case no_failure output of
        Some failure \<Rightarrow>
          if no_status output = node_status.Failed
          then then_do (look (\<lambda>d. decide_retry cx node candidate attempt failure (dp_projection d)))
                 (\<lambda>decision. apply_retry_decision S cx node candidate decision output)
          else ok output
      | None \<Rightarrow> ok output)"

definition progressed :: "node_output \<Rightarrow> bool" where
  "progressed output \<longleftrightarrow> no_status output \<in> {node_status.Succeeded, node_status.Failed}"

definition finalise_attempt ::
    "'w run_services \<Rightarrow> run_context \<Rightarrow> node_id \<Rightarrow> candidate_id option \<Rightarrow> attempt_number \<Rightarrow> timestamp
      \<Rightarrow> node_output \<Rightarrow> ('w dispatcher, bool) step" where
  "finalise_attempt S cx node candidate attempt started_at output =
     then_do (ask_world (sv_now S)) (\<lambda>finished_at.
     then_do (settle_output S cx node candidate attempt output) (\<lambda>output.
     then_do (for_each (no_events output)
       (\<lambda>event. then_do (commit_event S cx event) (\<lambda>_. ok ()))) (\<lambda>_.
     let result = attempt_result cx node candidate attempt started_at finished_at output in
     then_do (lift_result (lift_domain (node_result_validate result))) (\<lambda>_.
     then_do (on_world (sv_commit_attempt S (cx_run_id cx) result (no_evidence output))) (\<lambda>_.
     then_do (lift_result (sv_result_bytes S result)) (\<lambda>bytes.
     then_do (commit_event S cx (terminal_payload node candidate attempt output result
       (digest_of_bytes (sv_externals S) bytes))) (\<lambda>_.
     then_do (apply_state_patch S cx node candidate output) (\<lambda>_.
     then_do (update_manifest S cx (attempt_key_new node candidate attempt)) (\<lambda>_.
     ok (progressed output))))))))))"

section \<open>Executing a node\<close>

definition node_timed_out :: "node_id \<Rightarrow> u64 \<Rightarrow> node_output" where
  "node_timed_out node seconds =
     output_failed (with_remedy
       ''Increase the node timeout in the configuration or reduce the task scope.''
       (node_failure_new TransientInfrastructure ''node_timeout''
         (''node '' @ node_as_str node @ '' exceeded its '' @ dec seconds @ '' second budget'')))
     None"

definition execution_output :: "run_context \<Rightarrow> externals \<Rightarrow> node_id \<Rightarrow> node_execution \<Rightarrow> node_output" where
  "execution_output cx X node execution =
     (case execution of
        Executed output \<Rightarrow> output
      | ExecutionError error \<Rightarrow> output_failed (to_node_failure X error) None
      | ExecutionTimedOut \<Rightarrow>
          node_timed_out node (timeout_for_node (ef_timeouts (cx_configuration cx)) node))"

definition execute_node ::
    "'w run_services \<Rightarrow> run_context \<Rightarrow> node_id \<Rightarrow> candidate_id option \<Rightarrow> ('w dispatcher, bool) step" where
  "execute_node S cx node candidate =
     then_do (ask_world (sv_cancelled S)) (\<lambda>cancelled.
       if cancelled then then_do (finish_cancelled S cx) (\<lambda>_. ok False)
       else
     then_do (look (\<lambda>d. next_attempt_number (dp_projection d) node candidate)) (\<lambda>attempt.
     then_do (ask_world (sv_now S)) (\<lambda>started_at.
     then_do (commit_event S cx (NodeStarted node candidate attempt None)) (\<lambda>_.
     then_do (look dp_projection) (\<lambda>snapshot.
     then_do (ask_world (sv_execute S cx \<lparr>nc_node = node, nc_candidate = candidate,
       nc_attempt = attempt, nc_projection = snapshot\<rparr>)) (\<lambda>execution.
     finalise_attempt S cx node candidate attempt started_at
       (execution_output cx (sv_externals S) node execution)))))))"

definition execute_run_node ::
    "'w run_services \<Rightarrow> run_context \<Rightarrow> node_id \<Rightarrow> ('w dispatcher, bool) step" where
  "execute_run_node S cx node =
     then_do (look (\<lambda>d. rp_status (dp_projection d))) (\<lambda>status.
     then_do (case desired_run_status status node of
         Some target \<Rightarrow> if isl (run_transition_to status target) then ok ()
                        else ensure_run_status S cx target None
       | None \<Rightarrow> ok ()) (\<lambda>_.
     execute_node S cx node None))"

definition execute_candidate_node ::
    "'w run_services \<Rightarrow> run_context \<Rightarrow> node_id \<Rightarrow> candidate_id \<Rightarrow> ('w dispatcher, bool) step" where
  "execute_candidate_node S cx node candidate =
     then_do (case candidate_status_for_node node of
         Some target \<Rightarrow> set_candidate_status S cx candidate target None | None \<Rightarrow> ok ()) (\<lambda>_.
     execute_node S cx node (Some candidate))"

section \<open>Candidate tasks\<close>

text \<open>
  A task is the loop of \<open>drive_candidate\<close>; its turn says whether it is over. The tasks that hold a
  permit are the first unfinished ones, as the semaphore serves its queue in order.
\<close>

definition drive_turn ::
    "'w run_services \<Rightarrow> run_context \<Rightarrow> candidate_id \<Rightarrow> ('w dispatcher, bool) step" where
  "drive_turn S cx candidate =
     then_do (look (\<lambda>d. next_candidate_step (dp_projection d) candidate)) (\<lambda>step.
       case step of
         FinishCandidate \<Rightarrow> ok True
       | BlockedCandidate reason \<Rightarrow> ok True
       | RunCandidateNode node \<Rightarrow>
           then_do (execute_candidate_node S cx node candidate) (\<lambda>progress. ok (\<not> progress)))"

record candidate_task =
  ct_candidate :: candidate_id
  ct_outcome :: "unit application_result option"

definition spawn_task :: "candidate_id \<Rightarrow> candidate_task" where
  "spawn_task candidate = \<lparr>ct_candidate = candidate, ct_outcome = None\<rparr>"

definition permitted_tasks :: "nat \<Rightarrow> candidate_task list \<Rightarrow> nat list" where
  "permitted_tasks parallelism tasks =
     take parallelism (filter (\<lambda>i. ct_outcome (tasks ! i) = None) [0..<length tasks])"

definition task_turn ::
    "'w run_services \<Rightarrow> run_context \<Rightarrow> nat \<Rightarrow> candidate_task list \<Rightarrow> 'w dispatcher
      \<Rightarrow> candidate_task list \<times> 'w dispatcher" where
  "task_turn S cx i tasks d =
     (case drive_turn S cx (ct_candidate (tasks ! i)) d of
        (Inl e, t) \<Rightarrow> (tasks[i := (tasks ! i)\<lparr>ct_outcome := Some (Inl e)\<rparr>], t)
      | (Inr over, t) \<Rightarrow>
          (if over then tasks[i := (tasks ! i)\<lparr>ct_outcome := Some (Inr ())\<rparr>] else tasks, t))"

partial_function (option) run_tasks ::
    "'w run_services \<Rightarrow> run_context \<Rightarrow> nat \<Rightarrow> candidate_task list \<Rightarrow> 'w dispatcher
      \<Rightarrow> (candidate_task list \<times> 'w dispatcher) option" where
  "run_tasks S cx parallelism tasks d =
     (let ready = permitted_tasks parallelism tasks
      in if ready = [] then Some (tasks, d)
         else let (choice, w) = sv_next_task S (length ready) (dp_world d);
                  (tasks', t) = task_turn S cx (ready ! (choice mod length ready)) tasks
                                  (d\<lparr>dp_world := w\<rparr>)
              in run_tasks S cx parallelism tasks' t)"

fun first_error :: "candidate_task list \<Rightarrow> application_error option" where
  "first_error [] = None"
| "first_error (task # tasks) =
     (case ct_outcome task of Some (Inl e) \<Rightarrow> Some e | _ \<Rightarrow> first_error tasks)"

definition joined_result :: "candidate_task list \<Rightarrow> unit application_result" where
  "joined_result tasks =
     (case first_error tasks of
        None \<Rightarrow> Inr ()
      | Some e \<Rightarrow> if e = ErrorCancelled then Inr () else Inl e)"

definition run_candidate_subgraphs ::
    "'w run_services \<Rightarrow> run_context \<Rightarrow> 'w dispatcher
      \<Rightarrow> (unit application_result \<times> 'w dispatcher) option" where
  "run_candidate_subgraphs S cx d =
     (let candidates = active_candidates (dp_projection d)
      in if candidates = [] then Some (Inr (), d)
         else case on_world (sv_logical_processors S) d of
             (Inl e, t) \<Rightarrow> Some (Inl e, t)
           | (Inr processors, t) \<Rightarrow>
               let parallelism = effective_parallelism (ef_budgets (cx_configuration cx)) processors
               in map_option (map_prod joined_result (\<lambda>u. u))
                    (run_tasks S cx (unat (max parallelism 1)) (map spawn_task candidates) t))"

section \<open>The loop of a run\<close>

datatype dispatch_outcome =
    Completed run_status
  | PausedDispatch run_status
  | BlockedDispatch string

primrec dispatch_status :: "dispatch_outcome \<Rightarrow> run_status option" where
  "dispatch_status (Completed status) = Some status"
| "dispatch_status (PausedDispatch status) = Some status"
| "dispatch_status (BlockedDispatch reason) = None"

text \<open>One iteration of the loop: an outcome ends it.\<close>

definition run_turn ::
    "'w run_services \<Rightarrow> run_context \<Rightarrow> 'w dispatcher
      \<Rightarrow> (dispatch_outcome option application_result \<times> 'w dispatcher) option" where
  "run_turn S cx d =
     (case next_run_step (dp_projection d) of
        Finish status \<Rightarrow> Some (Inr (Some (Completed status)), d)
      | Blocked reason \<Rightarrow> Some (Inr (Some (BlockedDispatch reason)), d)
      | AwaitPlanApproval \<Rightarrow>
          Some (then_do (ensure_run_status S cx AwaitingPlanApproval None)
            (\<lambda>_. ok (Some (PausedDispatch AwaitingPlanApproval))) d)
      | AwaitCommitApproval \<Rightarrow>
          Some (then_do (ensure_run_status S cx AwaitingCommitApproval None)
            (\<lambda>_. ok (Some (PausedDispatch AwaitingCommitApproval))) d)
      | CancelRun \<Rightarrow>
          Some (then_do (finish_cancelled S cx) (\<lambda>_. ok (Some (Completed run_status.Cancelled))) d)
      | RunCandidates \<Rightarrow>
          map_option (map_prod (map_ok (\<lambda>_. None)) (\<lambda>t. t)) (run_candidate_subgraphs S cx d)
      | RunNode node \<Rightarrow>
          Some (then_do (execute_run_node S cx node) (\<lambda>progress.
            if progress then ok None
            else then_do (look dp_projection) (\<lambda>snapshot.
              ok (Some (BlockedDispatch (''node '' @ node_as_str node
                @ '' could not make progress from status ''
                @ run_status_as_str (rp_status snapshot)))))) d))"

partial_function (option) run_loop ::
    "'w run_services \<Rightarrow> run_context \<Rightarrow> 'w dispatcher
      \<Rightarrow> (dispatch_outcome application_result \<times> 'w dispatcher) option" where
  "run_loop S cx d =
     (case run_turn S cx d of
        None \<Rightarrow> None
      | Some (result, t) \<Rightarrow>
          (case result of
             Inl e \<Rightarrow> Some (Inl e, t)
           | Inr found \<Rightarrow>
               (case found of None \<Rightarrow> run_loop S cx t | Some outcome \<Rightarrow> Some (Inr outcome, t))))"

end
