(* ===== verification/Forge_Walks.thy ===== *)
theory Forge_Walks
  imports Forge_History
begin

text \<open>
  The walks the status machines take while a log is replayed: the run and each candidate move
  along their transition tables, a closed attempt never changes, and the next attempt number
  of a node is always free (\<open>crates/domain/src/state.rs\<close>).
\<close>

section \<open>Walks\<close>

definition run_walk :: "run_status \<Rightarrow> run_status \<Rightarrow> bool" where
  "run_walk s t \<longleftrightarrow> (\<exists>ss. try_fold run_transition_to s ss = Inr t)"

definition candidate_walk :: "candidate_status \<Rightarrow> candidate_status \<Rightarrow> bool" where
  "candidate_walk s t \<longleftrightarrow> (\<exists>ss. try_fold candidate_transition_to s ss = Inr t)"

lemma run_walk_refl [simp]: "run_walk s s"
  unfolding run_walk_def by (rule exI [of _ "[]"]) simp

lemma candidate_walk_refl [simp]: "candidate_walk s s"
  unfolding candidate_walk_def by (rule exI [of _ "[]"]) simp

lemma run_walk_step: "run_transition_to s t = Inr u \<Longrightarrow> run_walk s u"
  unfolding run_walk_def by (rule exI [of _ "[t]"]) simp

lemma candidate_walk_step: "candidate_transition_to s t = Inr u \<Longrightarrow> candidate_walk s u"
  unfolding candidate_walk_def by (rule exI [of _ "[t]"]) simp

lemma run_walk_trans:
  assumes "run_walk s t" and "run_walk t u" shows "run_walk s u"
proof -
  from assms obtain xs ys where "try_fold run_transition_to s xs = Inr t"
      and "try_fold run_transition_to t ys = Inr u" by (auto simp: run_walk_def)
  then have "try_fold run_transition_to s (xs @ ys) = Inr u" by (simp add: try_fold_append)
  then show ?thesis unfolding run_walk_def by blast
qed

lemma candidate_walk_trans:
  assumes "candidate_walk s t" and "candidate_walk t u" shows "candidate_walk s u"
proof -
  from assms obtain xs ys where "try_fold candidate_transition_to s xs = Inr t"
      and "try_fold candidate_transition_to t ys = Inr u" by (auto simp: candidate_walk_def)
  then have "try_fold candidate_transition_to s (xs @ ys) = Inr u" by (simp add: try_fold_append)
  then show ?thesis unfolding candidate_walk_def by blast
qed

lemma run_walk_terminal: "run_is_terminal s \<Longrightarrow> run_walk s t \<Longrightarrow> t = s"
  by (auto simp: run_walk_def run_terminal_iff_stuck intro: run_machine.walk_absorbed)

lemma candidate_walk_settled:
  assumes "candidate_is_terminal s" and "candidate_walk s t"
  shows "t = s \<or> (s = Eligible \<and> t = Ineligible)"
proof -
  from assms(2) obtain ss where ss: "try_fold candidate_transition_to s ss = Inr t"
    by (auto simp: candidate_walk_def)
  show ?thesis
  proof (cases "s = Eligible")
    case True
    have closed: "s \<in> {Eligible, Ineligible} \<Longrightarrow>
        set (candidate_allowed_next s) \<subseteq> {Eligible, Ineligible}" for s :: candidate_status
      by auto
    have "t \<in> {Eligible, Ineligible}"
      using candidate_machine.walk_closed [OF closed ss] True by blast
    with True show ?thesis by auto
  next
    case False
    with assms(1) have "candidate_allowed_next s = []" by (cases s) simp_all
    then show ?thesis using candidate_machine.walk_absorbed [OF _ ss] by simp
  qed
qed

section \<open>What one event leaves behind\<close>

text \<open>The fields of a candidate its registration fixes.\<close>

definition candidate_follows :: "candidate_record \<Rightarrow> candidate_record \<Rightarrow> bool" where
  "candidate_follows c d \<longleftrightarrow>
     cr_id d = cr_id c \<and> cr_ordinal d = cr_ordinal c \<and> cr_strategy d = cr_strategy c
     \<and> cr_baseline_commit d = cr_baseline_commit c \<and> cr_branch d = cr_branch c
     \<and> cr_repair_budget d = cr_repair_budget c
     \<and> candidate_walk (cr_status c) (cr_status d)"

definition candidates_follow :: "run_projection \<Rightarrow> run_projection \<Rightarrow> bool" where
  "candidates_follow p q \<longleftrightarrow>
     (\<forall>c \<in> set (rp_candidates p). \<exists>d \<in> set (rp_candidates q). candidate_follows c d)"

lemma candidate_follows_refl [simp]: "candidate_follows c c"
  by (simp add: candidate_follows_def)

lemma candidate_follows_trans:
  "candidate_follows a b \<Longrightarrow> candidate_follows b c \<Longrightarrow> candidate_follows a c"
  unfolding candidate_follows_def by (metis candidate_walk_trans)

lemma candidates_follow_same [simp]:
  "rp_candidates q = rp_candidates p \<Longrightarrow> candidates_follow p q"
  by (auto simp: candidates_follow_def intro: candidate_follows_refl)

lemma candidates_follow_trans:
  assumes "candidates_follow p q" and "candidates_follow q r"
  shows "candidates_follow p r"
  unfolding candidates_follow_def
proof
  fix c assume "c \<in> set (rp_candidates p)"
  then obtain d where d: "d \<in> set (rp_candidates q)" "candidate_follows c d"
    using assms(1) by (auto simp: candidates_follow_def)
  then obtain e where "e \<in> set (rp_candidates r)" "candidate_follows d e"
    using assms(2) by (auto simp: candidates_follow_def)
  then show "\<exists>e \<in> set (rp_candidates r). candidate_follows c e"
    using candidate_follows_trans [OF d(2)] by blast
qed

lemma update_first_member:
  "x \<in> set xs \<Longrightarrow> x \<in> set (update_first p f xs) \<or> (find p xs = Some x \<and> f x \<in> set (update_first p f xs))"
  by (induction xs) auto

lemma candidates_follow_modify:
  assumes "\<And>c. candidate_follows c (f c)"
  shows "candidates_follow p (modify_candidate i f p)"
  unfolding candidates_follow_def
proof
  fix c assume "c \<in> set (rp_candidates p)"
  from update_first_member [OF this, of "\<lambda>c. cr_id c = i" f] assms [of c]
  show "\<exists>d \<in> set (rp_candidates (modify_candidate i f p)). candidate_follows c d"
    by (auto simp: modify_candidate_def intro: candidate_follows_refl)
qed

lemma candidates_follow_with:
  assumes "with_candidate i f p = Inr q" and "\<And>c d. f c = Inr d \<Longrightarrow> candidate_follows c d"
  shows "candidates_follow p q"
proof -
  from assms(1) obtain c d where c: "candidate_of p i = Some c" and d: "f c = Inr d"
      and q: "q = modify_candidate i (\<lambda>_. d) p"
    unfolding with_candidate_Inr by blast
  show ?thesis unfolding candidates_follow_def
  proof
    fix x assume "x \<in> set (rp_candidates p)"
    from update_first_member [OF this, of "\<lambda>c. cr_id c = i" "\<lambda>_. d"]
    show "\<exists>y \<in> set (rp_candidates q). candidate_follows x y"
      using c [unfolded candidate_of_def] assms(2) [OF d]
      by (auto simp: q modify_candidate_def intro: candidate_follows_refl)
  qed
qed

lemma change_candidate_status_follows:
  "change_candidate_status s t instant c = Inr d \<Longrightarrow> candidate_follows c d"
  unfolding change_candidate_status_def guard_Inr and_then_Inr
  by (auto simp: candidate_follows_def intro: candidate_walk_step)

lemma repair_started_follows: "candidate_follows c (repair_started u f c)"
  by (cases f) (simp_all add: repair_started_def observe_failure_fingerprint_def Let_def
      candidate_follows_def)

lemma candidates_follow_metrics [simp]:
  "candidates_follow p (modify_metrics f q) = candidates_follow p q"
  "candidates_follow p (accumulate_duration n d q) = candidates_follow p q"
  by (simp_all add: candidates_follow_def modify_metrics_def accumulate_duration_def)

lemma candidates_follow_gate: "candidates_follow p (add_gate_duration i d p)"
  by (cases i) (auto simp: add_gate_duration_def candidate_follows_def
      intro!: candidates_follow_modify)

lemma close_attempt_candidates:
  "close_attempt n c a status t d s k x p = Inr q \<Longrightarrow> rp_candidates q = rp_candidates p"
  by (drule close_attempt_Inr) simp

lemma candidates_follow_evidence:
  "candidates_follow p (reduce_test_evidence i n b d p)"
  "candidates_follow p (reduce_review_evidence i n b d p)"
proof -
  have frame: "candidates_follow p (q\<lparr>rp_integration := s\<rparr>) = candidates_follow p q" for q s
    by (simp add: candidates_follow_def)
  have "candidates_follow p (add_gate_duration i d (modify_metrics f p))" for f
    using candidates_follow_gate [of "modify_metrics f p" i d]
    by (simp add: candidates_follow_def modify_metrics_def)
  then show "candidates_follow p (reduce_test_evidence i n b d p)"
    "candidates_follow p (reduce_review_evidence i n b d p)"
    by (simp_all add: reduce_test_evidence_def reduce_review_evidence_def Let_def frame)
qed

lemma candidates_follow_integration: "candidates_follow p (reduce_integration_attempted i b d p)"
proof -
  have "candidates_follow (p\<lparr>rp_integration := s\<rparr>) (modify_candidate i f (p\<lparr>rp_integration := s\<rparr>))"
    if "\<And>c. candidate_follows c (f c)" for f s
    by (rule candidates_follow_modify [OF that])
  then have "candidates_follow p (modify_candidate i f (p\<lparr>rp_integration := s\<rparr>))"
    if "\<And>c. candidate_follows c (f c)" for f s
    using that by (simp add: candidates_follow_def)
  then show ?thesis
    by (simp add: reduce_integration_attempted_def candidate_follows_def Let_def)
qed

lemma candidates_follow_promotion: "candidates_follow p (reduce_promotion i n p)"
proof -
  have "candidates_follow p (modify_candidate i (\<lambda>c. c\<lparr>cr_promotable := False\<rparr>) p)"
    by (rule candidates_follow_modify) (simp add: candidate_follows_def)
  then show ?thesis by (simp add: reduce_promotion_def candidates_follow_def)
qed

lemma candidates_follow_registered:
  "reduce_candidate_registered i o' s b w r p = Inr q \<Longrightarrow> candidates_follow p q"
  by (auto simp: reduce_candidate_registered_def guard_Inr candidates_follow_def
      intro: candidate_follows_refl)

lemma candidates_follow_written:
  assumes "map_ok (modify_metrics g) (with_candidate i (\<lambda>c. Inr (f c)) p) = Inr q"
    and "\<And>c. candidate_follows c (f c)"
  shows "candidates_follow p q"
proof -
  from assms(1) obtain r where "with_candidate i (\<lambda>c. Inr (f c)) p = Inr r"
      and "q = modify_metrics g r" unfolding map_ok_Inr by blast
  with candidates_follow_with [of i "\<lambda>c. Inr (f c)" p r] assms(2) show ?thesis by auto
qed

lemma candidates_follow_diff:
  assumes "reduce_candidate_diff i d f c p = Inr q"
  shows "candidates_follow p q"
proof -
  from assms obtain r g where
      r: "with_candidate i (\<lambda>c'. Inr (c'\<lparr>cr_diff_digest := Some d, cr_changed_files := f,
            cr_changed_lines := c\<rparr>)) p = Inr r" and q: "q = modify_metrics g r"
    unfolding reduce_candidate_diff_def map_ok_Inr by blast
  have "candidates_follow p r"
    by (rule candidates_follow_with [OF r]) (auto simp: candidate_follows_def)
  then show ?thesis by (simp add: q)
qed

lemma reduce_candidates_follow:
  assumes "reduce pl t s p = Inr q"
  shows "candidates_follow p q"
proof (cases pl)
  case (CandidateStatusChanged i f g r)
  from assms [unfolded this reduce.simps] show ?thesis
    by (rule candidates_follow_with) (rule change_candidate_status_follows)
next
  case (CandidateScored i sc)
  from assms [unfolded this reduce.simps] show ?thesis
    by (rule candidates_follow_with) (auto simp: candidate_follows_def)
next
  case (CandidateExcluded i rs)
  from assms [unfolded this reduce.simps] show ?thesis
    by (rule candidates_follow_with) (auto simp: candidate_follows_def)
next
  case (CandidateRepairStarted i u b f)
  from assms [unfolded this reduce.simps reduce_repair_started_def] show ?thesis
    by (rule candidates_follow_written) (rule repair_started_follows)
next
  case (CandidateDiffRecorded i d f c)
  from assms [unfolded this reduce.simps] show ?thesis by (rule candidates_follow_diff)
next
  case (CandidateRegistered i o' st b w r)
  from assms [unfolded this reduce.simps] show ?thesis by (rule candidates_follow_registered)
qed (use assms in \<open>auto simp: reduce_run_created_def reduce_baseline_def reduce_configuration_def
    reduce_run_status_def reduce_node_started_def reduce_plan_version_def reduce_plan_decision_def
    reduce_plan_invalidated_def reduce_winner_selected_def reduce_commit_created_def
    reduce_process_supervision_def reduce_run_exported_def guard_Inr
    candidates_follow_evidence candidates_follow_integration candidates_follow_promotion
    dest: close_attempt_candidates\<close>)


lemma map_ok_candidates_status:
  "rp_status (modify_candidate i f p) = rp_status p" "rp_status (modify_metrics g p) = rp_status p"
  "rp_status (accumulate_duration n d p) = rp_status p"
  "rp_status (add_gate_duration j e p) = rp_status p"
  by (simp_all add: modify_candidate_def modify_metrics_def accumulate_duration_def
      add_gate_duration_def split: option.split)

lemma with_candidate_status: "with_candidate i f p = Inr q \<Longrightarrow> rp_status q = rp_status p"
  by (auto simp: with_candidate_Inr map_ok_candidates_status)

lemma close_attempt_status:
  "close_attempt n c a status t d s k x p = Inr q \<Longrightarrow> rp_status q = rp_status p"
  by (drule close_attempt_Inr) simp

lemma reduce_run_walk:
  assumes "reduce pl t s p = Inr q"
  shows "run_walk (rp_status p) (rp_status q)"
proof (cases pl)
  case (RunStatusChanged f g r)
  with assms show ?thesis
    by (auto simp: reduce_run_status_def guard_Inr intro: run_walk_step)
qed (use assms in \<open>auto simp: reduce_run_created_def reduce_baseline_def reduce_configuration_def
    reduce_node_started_def reduce_plan_version_def reduce_plan_decision_def
    reduce_plan_invalidated_def reduce_candidate_registered_def reduce_candidate_diff_def
    reduce_repair_started_def reduce_test_evidence_def reduce_review_evidence_def
    reduce_winner_selected_def reduce_integration_attempted_def reduce_promotion_def
    reduce_commit_created_def reduce_process_supervision_def reduce_run_exported_def
    guard_Inr map_ok_candidates_status Let_def
    dest!: close_attempt_status with_candidate_status\<close>)

section \<open>Attempts\<close>

definition attempts_kept :: "run_projection \<Rightarrow> run_projection \<Rightarrow> bool" where
  "attempts_kept p q \<longleftrightarrow>
     {a \<in> set (rp_attempts p). \<not> attempt_is_open a} \<subseteq> set (rp_attempts q)"

lemma attempts_kept_same [simp]: "rp_attempts q = rp_attempts p \<Longrightarrow> attempts_kept p q"
  by (auto simp: attempts_kept_def)

lemma close_attempt_kept:
  assumes "close_attempt n c a status t d s k x p = Inr q"
  shows "attempts_kept p q"
proof -
  let ?m = "\<lambda>r. na_node_id r = n \<and> na_candidate_id r = c \<and> na_attempt r = a"
  from assms obtain r where r: "find ?m (rp_attempts p) = Some r" "attempt_is_open r"
    by (auto simp: close_attempt_def Let_def split: option.splits if_splits)
  show ?thesis unfolding attempts_kept_def
  proof
    fix y assume "y \<in> {a \<in> set (rp_attempts p). \<not> attempt_is_open a}"
    then show "y \<in> set (rp_attempts q)"
      using update_first_member [of y "rp_attempts p" ?m "closed_record status t d s k x"] r
      unfolding close_attempt_Inr [OF assms] by auto
  qed
qed

lemma attempts_frame [simp]:
  "rp_attempts (modify_candidate i f p) = rp_attempts p"
  "rp_attempts (modify_metrics g p) = rp_attempts p"
  "rp_attempts (accumulate_duration n d p) = rp_attempts p"
  "rp_attempts (add_gate_duration j e p) = rp_attempts p"
  by (simp_all add: modify_candidate_def modify_metrics_def accumulate_duration_def
      add_gate_duration_def split: option.split)

lemma with_candidate_attempts: "with_candidate i f p = Inr q \<Longrightarrow> rp_attempts q = rp_attempts p"
  by (auto simp: with_candidate_Inr)

lemma attempts_kept_counted:
  "attempts_kept p (modify_metrics f q) = attempts_kept p q"
  "attempts_kept p (accumulate_duration n d q) = attempts_kept p q"
  by (simp_all add: attempts_kept_def)

lemma reduce_attempts_kept:
  assumes "reduce pl t s p = Inr q"
  shows "attempts_kept p q"
proof (cases pl)
  case (NodeStarted n c a x)
  with assms show ?thesis by (auto simp: reduce_node_started_def guard_Inr attempts_kept_def)
qed (use assms in \<open>auto simp: reduce_run_created_def reduce_run_status_def reduce_baseline_def
    reduce_configuration_def reduce_plan_version_def reduce_plan_decision_def
    reduce_plan_invalidated_def reduce_candidate_registered_def reduce_candidate_diff_def
    reduce_repair_started_def reduce_test_evidence_def reduce_review_evidence_def
    reduce_winner_selected_def reduce_integration_attempted_def reduce_promotion_def
    reduce_commit_created_def reduce_process_supervision_def reduce_run_exported_def
    guard_Inr Let_def attempts_kept_counted close_attempt_kept
    dest: with_candidate_attempts\<close>)

text \<open>A number above every recorded attempt of the node is free.\<close>

lemma next_attempt_fresh:
  assumes "\<And>r. r \<in> set (rp_attempts p) \<Longrightarrow> na_attempt r \<noteq> - 1"
  shows "(n, c, next_attempt_number p n c) \<notin> attempt_key ` set (rp_attempts p)"
proof
  let ?rs = "filter (\<lambda>r. na_node_id r = n \<and> na_candidate_id r = c) (rp_attempts p)"
  assume "(n, c, next_attempt_number p n c) \<in> attempt_key ` set (rp_attempts p)"
  then obtain r where r: "r \<in> set ?rs" and num: "na_attempt r = next_attempt_number p n c"
    by (auto simp: attempt_key_def)
  then have "?rs \<noteq> []" by force
  then obtain m where m: "latest_attempt p n c = Some m"
    unfolding latest_attempt_def using max_by_key_None [of na_attempt ?rs] by blast
  from max_by_key_Some [OF m [unfolded latest_attempt_def]]
  have m_in: "m \<in> set (rp_attempts p)" and le: "na_attempt r \<le> na_attempt m"
    using r by auto
  have "unat (na_attempt m) < 2 ^ 32 - 1"
  proof -
    have "unat (na_attempt m) \<noteq> unat (- 1 :: u32)" 
      using assms [OF m_in] by (metis word_unat_eq_iff)
    then show ?thesis using unat_le_limit [of "na_attempt m"] by (simp add: unsigned_minus_1_eq_mask mask_eq_exp_minus_1)
  qed
  then have "unat (na_attempt m) < unat (next_attempt_number p n c)"
    by (simp add: next_attempt_number_def m unat_attempt_next)
  with le num show False by (simp add: word_le_nat_alt)
qed

section \<open>Whole histories\<close>

lemma applied_walks:
  assumes "try_fold (event_apply X enc) p es = Inr q"
  shows "run_walk (rp_status p) (rp_status q) \<and> candidates_follow p q \<and> attempts_kept p q"
  using assms
proof (induction es arbitrary: p)
  case (Cons e es)
  then obtain r where r: "event_apply X enc p e = Inr r"
      and rest: "try_fold (event_apply X enc) r es = Inr q" by auto
  from r obtain m where m: "reduce (de_payload e) (de_recorded_at e) (de_sequence e) p = Inr m"
      and rm: "r = stamp_event X e m" by (auto simp: event_apply_Inr)
  have "run_walk (rp_status p) (rp_status r)" "candidates_follow p r" "attempts_kept p r"
    using reduce_run_walk [OF m] reduce_candidates_follow [OF m] reduce_attempts_kept [OF m]
    by (simp_all add: rm candidates_follow_def attempts_kept_def)
  moreover have "attempts_kept p q" if "attempts_kept p r" "attempts_kept r q"
    using that unfolding attempts_kept_def by blast
  ultimately show ?case
    using Cons.IH [OF rest] run_walk_trans candidates_follow_trans by blast
qed simp

end
