(* ===== verification/Forge_Run_Store.thy ===== *)
theory Forge_Run_Store
  imports Forge_Dispatcher Forge_Walks
begin

text \<open>
  What the engine relies on in the store of a run, as a locale, and what the engine keeps of it.
  \<open>holds w es\<close> says that the log of the run in world \<open>w\<close> holds exactly the events \<open>es\<close>,
  \<open>saved w\<close> is the stored projection and \<open>written p\<close> the payload the log keeps for \<open>p\<close>, which the
  store redacts. A dispatcher is \<^emph>\<open>caught up\<close> when its projection is the replay
  of the log and is stored; it is \<^emph>\<open>lagging\<close> when its projection is the replay of a prefix, which
  is what every failure leaves behind.
\<close>

section \<open>The run of a projection\<close>

lemma run_id_frame [simp]:
  "rp_run_id (modify_candidate i f p) = rp_run_id p"
  "rp_run_id (modify_metrics g p) = rp_run_id p"
  "rp_run_id (accumulate_duration n d p) = rp_run_id p"
  "rp_run_id (add_gate_duration j e p) = rp_run_id p"
  by (simp_all add: modify_candidate_def modify_metrics_def accumulate_duration_def
      add_gate_duration_def split: option.split)

lemma with_candidate_run_id: "with_candidate i f p = Inr q \<Longrightarrow> rp_run_id q = rp_run_id p"
  by (auto simp: with_candidate_Inr)

lemma close_attempt_run_id:
  "close_attempt n c a status t d s k x p = Inr q \<Longrightarrow> rp_run_id q = rp_run_id p"
  by (auto dest: close_attempt_Inr)

lemma reduce_run_id:
  assumes "reduce pl t s p = Inr q"
  shows "rp_run_id q = rp_run_id p"
  by (cases pl) (use assms in \<open>auto simp: reduce_run_created_def reduce_run_status_def
    reduce_baseline_def reduce_configuration_def reduce_plan_version_def reduce_plan_decision_def
    reduce_plan_invalidated_def reduce_candidate_registered_def reduce_candidate_diff_def
    reduce_repair_started_def reduce_test_evidence_def reduce_review_evidence_def
    reduce_winner_selected_def reduce_integration_attempted_def reduce_promotion_def
    reduce_commit_created_def reduce_process_supervision_def reduce_run_exported_def
    reduce_node_started_def guard_Inr Let_def dest: with_candidate_run_id close_attempt_run_id\<close>)

lemma event_apply_run_id: "event_apply X enc p e = Inr q \<Longrightarrow> rp_run_id q = rp_run_id p"
  by (auto simp: event_apply_Inr stamp_event_def modify_metrics_def dest: reduce_run_id)

lemma applied_run_id:
  "try_fold (event_apply X enc) p es = Inr q \<Longrightarrow> rp_run_id q = rp_run_id p"
proof (induction es arbitrary: p)
  case (Cons e es)
  then show ?case by (auto dest: event_apply_run_id)
qed simp

lemma replay_run_id: "replay X enc run t es = Inr p \<Longrightarrow> rp_run_id p = run"
  unfolding replay_def by (drule applied_run_id) (simp add: genesis_fields)

lemma replay_snoc:
  assumes "replay X enc run t es = Inr p" and "event_apply X enc p e = Inr q"
  shows "replay X enc run t (es @ [e]) = Inr q"
  using assms by (simp add: replay_def try_fold_append)

section \<open>Disciplined steps\<close>

text \<open>
  A step is disciplined when it keeps \<open>I\<close> unless it fails, leaves \<open>J\<close> when it fails, and keeps \<open>J\<close>
  anyway.
\<close>

definition disciplined :: "('s \<Rightarrow> bool) \<Rightarrow> ('s \<Rightarrow> bool) \<Rightarrow> ('s, 'a) step \<Rightarrow> bool" where
  "disciplined I J m \<longleftrightarrow> triple I m (\<lambda>_. I) (\<lambda>_. J) \<and> keeps J m"

lemma disciplined_then:
  assumes "disciplined I J m" and "\<And>a. disciplined I J (f a)"
  shows "disciplined I J (then_do m f)"
  using assms unfolding disciplined_def by (blast intro: triple_then keeps_then)

lemma disciplined_pure:
  assumes "\<And>s. I s \<Longrightarrow> J s"
  shows "disciplined I J (ok a)" and "disciplined I J (stop e)" and "disciplined I J (look g)"
    and "disciplined I J (lift_result r)"
  unfolding disciplined_def
  by (auto intro: triple_ok triple_stop triple_look triple_lift assms)

lemma disciplined_for_each:
  "(\<And>s. I s \<Longrightarrow> J s) \<Longrightarrow> (\<And>x. x \<in> set xs \<Longrightarrow> disciplined I J (f x)) \<Longrightarrow>
     disciplined I J (for_each xs f)"
  unfolding disciplined_def by (auto intro: triple_for_each keeps_for_each)

lemma disciplined_if:
  "(b \<Longrightarrow> disciplined I J m) \<Longrightarrow> (\<not> b \<Longrightarrow> disciplined I J n) \<Longrightarrow>
     disciplined I J (if b then m else n)"
  by simp

lemma disciplined_option:
  "disciplined I J m \<Longrightarrow> (\<And>x. disciplined I J (f x)) \<Longrightarrow>
     disciplined I J (case v of None \<Rightarrow> m | Some x \<Rightarrow> f x)"
  by (cases v) simp_all

lemmas disciplined_rules = disciplined_then disciplined_pure disciplined_for_each disciplined_if
  disciplined_option

lemma disciplined_success: "disciplined I J m \<Longrightarrow> I s \<Longrightarrow> m s = (Inr a, t) \<Longrightarrow> I t"
  unfolding disciplined_def using triple_success by fastforce

lemma disciplined_any:
  assumes "disciplined I J m" and "J s" and "m s = (r, t)" shows "J t"
  using assms keepsD [of J m s] by (simp add: disciplined_def)

section \<open>The interface of the store\<close>

text \<open>A call that leaves the log and the stored projection of the run alone.\<close>

definition leaves_run ::
    "('w \<Rightarrow> durable_event list \<Rightarrow> bool) \<Rightarrow> ('w \<Rightarrow> run_projection option) \<Rightarrow> ('w \<Rightarrow> 'x \<times> 'w) \<Rightarrow> bool" where
  "leaves_run holds saved f \<longleftrightarrow>
     (\<forall>w es. holds w es \<longrightarrow> holds (snd (f w)) es \<and> saved (snd (f w)) = saved w)"

locale run_store =
  fixes S :: "'w run_services" and R :: run_id
    and holds :: "'w \<Rightarrow> durable_event list \<Rightarrow> bool"
    and saved :: "'w \<Rightarrow> run_projection option"
    and written :: "event_payload \<Rightarrow> event_payload"
  assumes holds_bounded: "holds w es \<Longrightarrow> length es < 2 ^ 64"
    and append_done: "holds w es \<Longrightarrow> sv_append S R p w = (Inr e, v) \<Longrightarrow>
      holds v (es @ [e]) \<and> saved v = saved w \<and> de_run_id e = R \<and> de_payload e = written p
      \<and> event_verify (sv_externals S) (sv_encoder S) e (of_nat (length es) + 1)
          (chain_end (sv_externals S) genesis_hash es) = Inr ()"
    and append_failed: "holds w es \<Longrightarrow> sv_append S R p w = (Inl x, v) \<Longrightarrow>
      holds v es \<and> saved v = saved w"
    and store_done: "holds w es \<Longrightarrow> rp_run_id q = R \<Longrightarrow> sv_store S q w = (Inr u, v) \<Longrightarrow>
      holds v es \<and> saved v = Some q"
    and store_failed: "holds w es \<Longrightarrow> rp_run_id q = R \<Longrightarrow> sv_store S q w = (Inl x, v) \<Longrightarrow>
      holds v es \<and> saved v \<in> {saved w, Some q}"
    and ports_leave_run:
      "leaves_run holds saved (sv_store_metrics S R q)" "leaves_run holds saved (sv_publish S e)"
      "leaves_run holds saved (sv_load_manifest S R)"
      "leaves_run holds saved (sv_store_manifest S m)"
      "leaves_run holds saved (sv_commit_attempt S R result evidence)"
      "leaves_run holds saved (sv_now S)" "leaves_run holds saved (sv_jitter S)"
      "leaves_run holds saved (sv_cancelled S)" "leaves_run holds saved (sv_execute S cx c)"
      "leaves_run holds saved (sv_logical_processors S)"
      "leaves_run holds saved (sv_next_task S n)"

text \<open>The stored projection is the replay of a prefix of the log, when there is one.\<close>

definition recoverable ::
    "'w run_services \<Rightarrow> run_id \<Rightarrow> ('w \<Rightarrow> durable_event list \<Rightarrow> bool) \<Rightarrow> ('w \<Rightarrow> run_projection option)
      \<Rightarrow> durable_event list \<Rightarrow> 'w \<Rightarrow> bool" where
  "recoverable S R holds saved es w \<longleftrightarrow>
     holds w es \<and> (\<forall>q. saved w = Some q \<longrightarrow>
       (\<exists>t k. k \<le> length es \<and> replay (sv_externals S) (sv_encoder S) R t (take k es) = Inr q))"

definition caught_up ::
    "'w run_services \<Rightarrow> run_id \<Rightarrow> ('w \<Rightarrow> durable_event list \<Rightarrow> bool) \<Rightarrow> ('w \<Rightarrow> run_projection option)
      \<Rightarrow> durable_event list \<Rightarrow> 'w dispatcher \<Rightarrow> bool" where
  "caught_up S R holds saved es0 d \<longleftrightarrow>
     (\<exists>t fs. holds (dp_world d) (es0 @ fs) \<and> saved (dp_world d) = Some (dp_projection d)
        \<and> replay (sv_externals S) (sv_encoder S) R t (es0 @ fs) = Inr (dp_projection d))"

definition lagging ::
    "'w run_services \<Rightarrow> run_id \<Rightarrow> ('w \<Rightarrow> durable_event list \<Rightarrow> bool) \<Rightarrow> ('w \<Rightarrow> run_projection option)
      \<Rightarrow> durable_event list \<Rightarrow> 'w dispatcher \<Rightarrow> bool" where
  "lagging S R holds saved es0 d \<longleftrightarrow>
     (\<exists>t fs gs. recoverable S R holds saved (es0 @ fs @ gs) (dp_world d)
        \<and> replay (sv_externals S) (sv_encoder S) R t (es0 @ fs) = Inr (dp_projection d))"

lemma caught_up_lagging:
  "caught_up S R holds saved es0 d \<Longrightarrow> lagging S R holds saved es0 d"
proof -
  assume "caught_up S R holds saved es0 d"
  then obtain t fs where held: "holds (dp_world d) (es0 @ fs)"
      and kept: "saved (dp_world d) = Some (dp_projection d)"
      and r: "replay (sv_externals S) (sv_encoder S) R t (es0 @ fs) = Inr (dp_projection d)"
    by (auto simp: caught_up_def)
  have "recoverable S R holds saved (es0 @ fs @ []) (dp_world d)"
    unfolding recoverable_def using held kept r
    by (auto intro!: exI [of _ t] exI [of _ "length (es0 @ fs)"])
  with r show ?thesis unfolding lagging_def by blast
qed

lemma dispatcher_rebuilt:
  "d\<lparr>dp_projection := q, dp_world := w\<rparr> = \<lparr>dp_world = w, dp_projection = q\<rparr>" for d :: "'w dispatcher"
  by (cases d) simp

lemma laggingI:
  assumes "recoverable S R holds saved (es0 @ fs @ gs) (dp_world d)"
    and "replay (sv_externals S) (sv_encoder S) R t (es0 @ fs) = Inr (dp_projection d)"
  shows "lagging S R holds saved es0 d"
  using assms unfolding lagging_def by blast

lemma recoverable_same:
  assumes "recoverable S R holds saved es w" and "holds v es" and "saved v = saved w"
  shows "recoverable S R holds saved es v"
  using assms by (simp add: recoverable_def)

lemma recoverable_extend:
  assumes "recoverable S R holds saved es w" and "holds v (es @ fs)" and "saved v = saved w"
  shows "recoverable S R holds saved (es @ fs) v"
proof -
  have "\<exists>t k. k \<le> length (es @ fs)
      \<and> replay (sv_externals S) (sv_encoder S) R t (take k (es @ fs)) = Inr q"
    if "saved w = Some q" for q
  proof -
    from assms(1) that obtain t k where "k \<le> length es"
        and "replay (sv_externals S) (sv_encoder S) R t (take k es) = Inr q"
      unfolding recoverable_def by blast
    then have "k \<le> length (es @ fs)
        \<and> replay (sv_externals S) (sv_encoder S) R t (take k (es @ fs)) = Inr q" by simp
    then show ?thesis by blast
  qed
  with assms(2,3) show ?thesis by (simp add: recoverable_def)
qed

section \<open>Invariants of the loops\<close>

lemma run_tasks_invariant:
  assumes "run_tasks S cx n tasks d = Some (tasks', t)" and "I tasks d"
    and "\<And>i ts d ts' t. i < length ts \<Longrightarrow> I ts d \<Longrightarrow> task_turn S cx i ts d = (ts', t) \<Longrightarrow>
      I ts' t"
    and "\<And>k ts d. I ts d \<Longrightarrow> I ts (d\<lparr>dp_world := snd (sv_next_task S k (dp_world d))\<rparr>)"
  shows "I tasks' t \<and> permitted_tasks n tasks' = []"
proof -
  have "S = S \<longrightarrow> cx = cx \<longrightarrow> I tasks d \<longrightarrow> I (fst y) (snd y) \<and> permitted_tasks n (fst y) = []"
    if "run_tasks S cx n tasks d = Some y" for y
  proof (rule run_tasks.raw_induct [where P = "\<lambda>S' cx' n tasks d y. S' = S \<longrightarrow> cx' = cx \<longrightarrow>
      I tasks d \<longrightarrow> I (fst y) (snd y) \<and> permitted_tasks n (fst y) = []", OF _ that], intro impI)
    fix loop :: "'a run_services \<Rightarrow> run_context \<Rightarrow> nat \<Rightarrow> candidate_task list \<Rightarrow> 'a dispatcher
      \<Rightarrow> (candidate_task list \<times> 'a dispatcher) option"
    fix S' cx' n tasks d y
    assume IH: "\<And>S' cx' n tasks d y. loop S' cx' n tasks d = Some y \<Longrightarrow> S' = S \<longrightarrow> cx' = cx \<longrightarrow>
        I tasks d \<longrightarrow> I (fst y) (snd y) \<and> permitted_tasks n (fst y) = []"
      and body: "(let ready = permitted_tasks n tasks
         in if ready = [] then Some (tasks, d)
            else let (choice, w) = sv_next_task S' (length ready) (dp_world d);
                     (tasks', t) = task_turn S' cx' (ready ! (choice mod length ready)) tasks
                                     (d\<lparr>dp_world := w\<rparr>)
                 in loop S' cx' n tasks' t) = Some y"
      and eqs: "S' = S" "cx' = cx" and I: "I tasks d"
    show "I (fst y) (snd y) \<and> permitted_tasks n (fst y) = []"
    proof (cases "permitted_tasks n tasks = []")
      case True
      with body I show ?thesis by auto
    next
      case False
      let ?k = "length (permitted_tasks n tasks)"
      obtain choice w where next_task: "sv_next_task S ?k (dp_world d) = (choice, w)" by fastforce
      obtain ts u where turn: "task_turn S cx (permitted_tasks n tasks ! (choice mod ?k)) tasks
          (d\<lparr>dp_world := w\<rparr>) = (ts, u)" by fastforce
      have "permitted_tasks n tasks ! (choice mod ?k) \<in> set (permitted_tasks n tasks)"
        using False by simp
      then have "permitted_tasks n tasks ! (choice mod ?k) < length tasks"
        unfolding permitted_tasks_def by (auto dest: in_set_takeD)
      from assms(3) [OF this _ turn] assms(4) [OF I, of ?k] next_task have "I ts u" by simp
      moreover have "loop S cx n ts u = Some y"
        using body False next_task turn by (simp add: Let_def eqs)
      ultimately show ?thesis using IH by blast
    qed
  qed
  with assms(1,2) show ?thesis by fastforce
qed

lemma run_loop_invariant:
  assumes "run_loop S cx d = Some (r, t)" and "I d"
    and "\<And>d r t. run_turn S cx d = Some (r, t) \<Longrightarrow> I d \<Longrightarrow> I t"
  shows "I t"
proof -
  have "S = S \<longrightarrow> cx = cx \<longrightarrow> I d \<longrightarrow> I (snd y)" if "run_loop S cx d = Some y" for y
  proof (rule run_loop.raw_induct [where P = "\<lambda>S' cx' d y. S' = S \<longrightarrow> cx' = cx \<longrightarrow> I d \<longrightarrow> I (snd y)",
      OF _ that], intro impI)
    fix loop :: "'a run_services \<Rightarrow> run_context \<Rightarrow> 'a dispatcher
      \<Rightarrow> (dispatch_outcome application_result \<times> 'a dispatcher) option"
    fix S' cx' d y
    assume IH: "\<And>S' cx' d y. loop S' cx' d = Some y \<Longrightarrow>
        S' = S \<longrightarrow> cx' = cx \<longrightarrow> I d \<longrightarrow> I (snd y)"
      and body: "(case run_turn S' cx' d of None \<Rightarrow> None
        | Some (result, t) \<Rightarrow>
            (case result of Inl e \<Rightarrow> Some (Inl e, t)
             | Inr found \<Rightarrow> (case found of None \<Rightarrow> loop S' cx' t
                 | Some outcome \<Rightarrow> Some (Inr outcome, t)))) = Some y"
      and eqs: "S' = S" "cx' = cx" and I: "I d"
    from body obtain r t where turn: "run_turn S cx d = Some (r, t)"
      by (cases "run_turn S cx d") (auto simp: eqs)
    then have "I t" using assms(3) I by blast
    with body IH turn show "I (snd y)" by (auto simp: eqs split: sum.splits option.splits)
  qed
  with assms(1,2) show ?thesis by fastforce
qed

section \<open>The dispatcher over a store\<close>

locale dispatching = run_store S R holds saved written
  for S :: "'w run_services" and R :: run_id
    and holds :: "'w \<Rightarrow> durable_event list \<Rightarrow> bool"
    and saved :: "'w \<Rightarrow> run_projection option"
    and written :: "event_payload \<Rightarrow> event_payload"
    and cx :: run_context +
  assumes same_run: "cx_run_id cx = R"
begin

lemma on_world_disciplined:
  assumes "leaves_run holds saved f"
  shows "disciplined (caught_up S R holds saved es0) (lagging S R holds saved es0) (on_world f)"
proof -
  have kept: "holds (snd (f w)) es \<and> saved (snd (f w)) = saved w" if "holds w es" for w es
    using assms that by (simp add: leaves_run_def)
  have caught: "caught_up S R holds saved es0 (d\<lparr>dp_world := snd (f (dp_world d))\<rparr>)"
    if "caught_up S R holds saved es0 d" for d
  proof -
    from that obtain t fs where "holds (dp_world d) (es0 @ fs)"
        and "saved (dp_world d) = Some (dp_projection d)"
        and "replay (sv_externals S) (sv_encoder S) R t (es0 @ fs) = Inr (dp_projection d)"
      by (auto simp: caught_up_def)
    with kept show ?thesis unfolding caught_up_def by (intro exI [of _ t] exI [of _ fs]) simp
  qed
  have lag: "lagging S R holds saved es0 (d\<lparr>dp_world := snd (f (dp_world d))\<rparr>)"
    if "lagging S R holds saved es0 d" for d
  proof -
    from that obtain t fs gs where "recoverable S R holds saved (es0 @ fs @ gs) (dp_world d)"
        and "replay (sv_externals S) (sv_encoder S) R t (es0 @ fs) = Inr (dp_projection d)"
      by (auto simp: lagging_def)
    moreover from this(1) have "holds (dp_world d) (es0 @ fs @ gs)" by (simp add: recoverable_def)
    with kept have "recoverable S R holds saved (es0 @ fs @ gs) (snd (f (dp_world d)))"
      by (blast intro: recoverable_same [OF calculation(1)])
    ultimately show ?thesis unfolding lagging_def
      by (intro exI [of _ t] exI [of _ fs] exI [of _ gs]) simp
  qed
  have out: "on_world f d = (fst (f (dp_world d)), d\<lparr>dp_world := snd (f (dp_world d))\<rparr>)" for d
    by (simp add: on_world_def split: prod.split)
  show ?thesis unfolding disciplined_def triple_def keeps_iff out
    using caught lag caught_up_lagging [OF caught] by (auto split: sum.split)
qed

lemma ask_world_disciplined:
  assumes "leaves_run holds saved f"
  shows "disciplined (caught_up S R holds saved es0) (lagging S R holds saved es0) (ask_world f)"
proof -
  have "leaves_run holds saved (\<lambda>w. (Inr (fst (f w)), snd (f w)))"
    using assms by (simp add: leaves_run_def)
  moreover have "on_world (\<lambda>w. (Inr (fst (f w)), snd (f w))) = ask_world f"
    by (rule ext) (simp add: on_world_def ask_world_def split: prod.split)
  ultimately show ?thesis using on_world_disciplined by fastforce
qed

text \<open>An event appended behind the projection of a dispatcher is refused by it.\<close>

lemma appended_applies_at_end:
  assumes "holds w (es @ gs)" and "replay (sv_externals S) (sv_encoder S) R t es = Inr p"
    and "event_verify (sv_externals S) (sv_encoder S) e (of_nat (length (es @ gs)) + 1) h = Inr ()"
    and "event_apply (sv_externals S) (sv_encoder S) p e = Inr q"
  shows "gs = []"
proof -
  have "rp_last_event_sequence p = of_nat (length es)"
    using applied_sequence [OF assms(2) [unfolded replay_def]] by (simp add: genesis_fields)
  with assms(3,4) have "(of_nat (length es) :: u64) = of_nat (length (es @ gs))"
    by (simp add: event_apply_Inr event_verify_iff)
  then have "unat (of_nat (length es) :: u64) = unat (of_nat (length (es @ gs)) :: u64)" by simp
  moreover have "unat (of_nat n :: u64) = n" if "n < 2 ^ 64" for n
    using that by (simp add: unat_of_nat take_bit_nat_eq_self)
  moreover have "length (es @ gs) < 2 ^ 64" by (rule holds_bounded [OF assms(1)])
  moreover have "length es < 2 ^ 64" using calculation(3) by simp
  ultimately have "length es = length (es @ gs)" by metis
  then show ?thesis by simp
qed

text \<open>What \<open>commit_event\<close> does once the event is applied.\<close>

lemma recorded_event:
  assumes "recoverable S R holds saved (es @ [e]) w"
    and "replay (sv_externals S) (sv_encoder S) R t (es @ [e]) = Inr q" and "es = es0 @ fs"
    and "then_do (on_world (sv_store S q)) (\<lambda>_. then_do (on_world (sv_store_metrics S R q)) (\<lambda>_.
           then_do (on_world (sv_publish S e)) (\<lambda>_. ok e))) \<lparr>dp_world = w, dp_projection = q\<rparr>
         = (r, d')"
  shows "lagging S R holds saved es0 d'
    \<and> (case r of Inl _ \<Rightarrow> True | Inr _ \<Rightarrow> caught_up S R holds saved es0 d')"
proof -
  have held: "holds w (es @ [e])" using assms(1) by (simp add: recoverable_def)
  note run_q = replay_run_id [OF assms(2)]
  obtain b v where st: "sv_store S q w = (b, v)" by fastforce
  show ?thesis
  proof (cases b)
    case (Inl x)
    with store_failed [OF held run_q] st have v: "holds v (es @ [e])"
        "saved v \<in> {saved w, Some q}" by blast+
    have "recoverable S R holds saved (es @ [e]) v"
    proof (cases "saved v = Some q")
      case True
      then show ?thesis using v(1) assms(2) unfolding recoverable_def
        by (auto intro!: exI [of _ t] exI [of _ "length (es @ [e])"])
    next
      case False
      with v assms(1) show ?thesis by (auto simp: recoverable_def)
    qed
    then have "lagging S R holds saved es0 \<lparr>dp_world = v, dp_projection = q\<rparr>"
      by (intro laggingI [of S R holds saved es0 "fs @ [e]" "[]" _ t])
        (use assms(2,3) in simp_all)
    moreover have "r = Inl x" "d' = \<lparr>dp_world = v, dp_projection = q\<rparr>"
      using assms(4) st Inl by (auto simp: step_eval on_world_def)
    ultimately show ?thesis by simp
  next
    case (Inr u)
    let ?rest = "then_do (on_world (sv_store_metrics S R q)) (\<lambda>_.
      then_do (on_world (sv_publish S e)) (\<lambda>_. ok e))"
    from store_done [OF held run_q] st Inr have "holds v (es @ [e])" "saved v = Some q"
      by blast+
    then have up: "caught_up S R holds saved es0 \<lparr>dp_world = v, dp_projection = q\<rparr>"
      unfolding caught_up_def using assms(2,3)
      by (intro exI [of _ t] exI [of _ "fs @ [e]"]) simp
    have "disciplined (caught_up S R holds saved es0) (lagging S R holds saved es0) ?rest"
      by (intro disciplined_then on_world_disciplined ports_leave_run disciplined_pure
          caught_up_lagging)
    moreover have "?rest \<lparr>dp_world = v, dp_projection = q\<rparr> = (r, d')"
      using assms(4) st Inr by (simp add: step_eval on_world_def)
    ultimately show ?thesis
      using disciplined_success [where I = "caught_up S R holds saved es0", OF _ up]
        disciplined_any [where J = "lagging S R holds saved es0", OF _ caught_up_lagging [OF up]]
      by (auto split: sum.split)
  qed
qed

lemma committed_event:
  assumes "recoverable S R holds saved (es0 @ fs @ gs) (dp_world d)"
    and "replay (sv_externals S) (sv_encoder S) R t (es0 @ fs) = Inr (dp_projection d)"
    and "commit_event S cx p d = (r, d')"
  shows "lagging S R holds saved es0 d'
    \<and> (case r of Inl _ \<Rightarrow> True | Inr _ \<Rightarrow> caught_up S R holds saved es0 d')"
proof -
  let ?X = "sv_externals S" and ?enc = "sv_encoder S"
  have held: "holds (dp_world d) (es0 @ fs @ gs)" using assms(1) by (simp add: recoverable_def)
  obtain a w where app: "sv_append S R p (dp_world d) = (a, w)" by fastforce
  show ?thesis
  proof (cases a)
    case (Inl x)
    with append_failed [OF held] app have "recoverable S R holds saved (es0 @ fs @ gs) w"
      by (blast intro: recoverable_same [OF assms(1)])
    then have "lagging S R holds saved es0 (d\<lparr>dp_world := w\<rparr>)"
      by (intro laggingI [of S R holds saved es0 fs gs _ t]) (use assms(2) in simp_all)
    moreover have "r = Inl x" "d' = d\<lparr>dp_world := w\<rparr>"
      using assms(3) app Inl by (auto simp: commit_event_def then_do_def on_world_def same_run)
    ultimately show ?thesis by simp
  next
    case (Inr e)
    with append_done [OF held] app have
      w: "holds w ((es0 @ fs @ gs) @ [e])" "saved w = saved (dp_world d)" and
      verified: "event_verify ?X ?enc e (of_nat (length ((es0 @ fs) @ gs)) + 1)
        (chain_end ?X genesis_hash (es0 @ fs @ gs)) = Inr ()" by auto
    note rec_w = recoverable_extend [OF assms(1) w]
    show ?thesis
    proof (cases "event_apply ?X ?enc (dp_projection d) e")
      case (Inl x)
      then have "r = Inl (Domain x)" "d' = d\<lparr>dp_world := w\<rparr>"
        using assms(3) app \<open>a = Inr e\<close>
        by (auto simp: commit_event_def step_eval on_world_def same_run lift_domain_def)
      moreover have "lagging S R holds saved es0 (d\<lparr>dp_world := w\<rparr>)"
        by (rule laggingI [of S R holds saved es0 fs "gs @ [e]" _ t])
          (use rec_w assms(2) in simp_all)
      ultimately show ?thesis by simp
    next
      case (Inr q)
      have gs: "gs = []"
        by (rule appended_applies_at_end [of "dp_world d" "es0 @ fs" gs, OF _ assms(2) verified Inr])
          (use held in simp)
      show ?thesis
      proof (rule recorded_event [OF _ _ refl])
        show "recoverable S R holds saved ((es0 @ fs) @ [e]) w" using rec_w gs by simp
        show "replay ?X ?enc R t ((es0 @ fs) @ [e]) = Inr q" by (rule replay_snoc [OF assms(2) Inr])
        show "then_do (on_world (sv_store S q)) (\<lambda>_. then_do (on_world (sv_store_metrics S R q)) (\<lambda>_.
            then_do (on_world (sv_publish S e)) (\<lambda>_. ok e))) \<lparr>dp_world = w, dp_projection = q\<rparr>
          = (r, d')"
          using assms(3) app \<open>a = Inr e\<close> Inr
          by (simp add: commit_event_def step_eval on_world_def same_run lift_domain_def
              dispatcher_rebuilt)
      qed
    qed
  qed
qed

lemma commit_event_disciplined:
  "disciplined (caught_up S R holds saved es0) (lagging S R holds saved es0) (commit_event S cx p)"
  unfolding disciplined_def triple_def keeps_iff
proof (intro conjI allI impI)
  have step: "lagging S R holds saved es0 (snd (commit_event S cx p d))
    \<and> (case fst (commit_event S cx p d) of Inl _ \<Rightarrow> True
        | Inr _ \<Rightarrow> caught_up S R holds saved es0 (snd (commit_event S cx p d)))"
    if "lagging S R holds saved es0 d" for d
    using that committed_event unfolding lagging_def by (metis prod.collapse)
  fix d assume "lagging S R holds saved es0 d"
  with step show "lagging S R holds saved es0 (snd (commit_event S cx p d))" by blast
next
  fix d assume "caught_up S R holds saved es0 d"
  then have "lagging S R holds saved es0 d" by (rule caught_up_lagging)
  then obtain t fs gs where l: "recoverable S R holds saved (es0 @ fs @ gs) (dp_world d)"
      "replay (sv_externals S) (sv_encoder S) R t (es0 @ fs) = Inr (dp_projection d)"
    by (auto simp: lagging_def)
  obtain r d' where run: "commit_event S cx p d = (r, d')" by fastforce
  from committed_event [OF l run]
  show "case commit_event S cx p d of (Inl e, t) \<Rightarrow> lagging S R holds saved es0 t
      | (Inr a, t) \<Rightarrow> caught_up S R holds saved es0 t"
    by (simp add: run split: sum.splits)
qed

text \<open>The dispatcher's own functions.\<close>

lemmas engine_rules = disciplined_rules on_world_disciplined ask_world_disciplined ports_leave_run
  caught_up_lagging commit_event_disciplined

lemma ensure_run_status_disciplined:
  "disciplined (caught_up S R holds saved es0) (lagging S R holds saved es0)
     (ensure_run_status S cx status reason)"
  unfolding ensure_run_status_def by (intro engine_rules)

lemma set_candidate_status_disciplined:
  "disciplined (caught_up S R holds saved es0) (lagging S R holds saved es0)
     (set_candidate_status S cx candidate status reason)"
  unfolding set_candidate_status_def by (intro engine_rules)

lemma finish_cancelled_disciplined:
  "disciplined (caught_up S R holds saved es0) (lagging S R holds saved es0) (finish_cancelled S cx)"
  unfolding finish_cancelled_def
  by (intro engine_rules ensure_run_status_disciplined set_candidate_status_disciplined)

lemma apply_retry_decision_disciplined:
  "disciplined (caught_up S R holds saved es0) (lagging S R holds saved es0)
     (apply_retry_decision S cx node candidate decision output)"
  by (cases decision; simp add: apply_retry_decision_def; intro engine_rules)

lemma apply_state_patch_disciplined:
  "disciplined (caught_up S R holds saved es0) (lagging S R holds saved es0)
     (apply_state_patch S cx node candidate output)"
  unfolding apply_state_patch_def prod.case
  by (intro engine_rules ensure_run_status_disciplined set_candidate_status_disciplined)

lemma update_manifest_disciplined:
  "disciplined (caught_up S R holds saved es0) (lagging S R holds saved es0)
     (update_manifest S cx key)"
  unfolding update_manifest_def Let_def same_run by (intro engine_rules)

lemma finalise_attempt_disciplined:
  "disciplined (caught_up S R holds saved es0) (lagging S R holds saved es0)
     (finalise_attempt S cx node candidate attempt started_at output)"
  unfolding finalise_attempt_def settle_output_def Let_def same_run
  by (intro engine_rules apply_retry_decision_disciplined apply_state_patch_disciplined
      update_manifest_disciplined)

lemma execute_node_disciplined:
  "disciplined (caught_up S R holds saved es0) (lagging S R holds saved es0)
     (execute_node S cx node candidate)"
  unfolding execute_node_def
  by (intro engine_rules finish_cancelled_disciplined finalise_attempt_disciplined)

lemma execute_run_node_disciplined:
  "disciplined (caught_up S R holds saved es0) (lagging S R holds saved es0)
     (execute_run_node S cx node)"
  unfolding execute_run_node_def
  by (intro engine_rules ensure_run_status_disciplined execute_node_disciplined)

lemma execute_candidate_node_disciplined:
  "disciplined (caught_up S R holds saved es0) (lagging S R holds saved es0)
     (execute_candidate_node S cx node candidate)"
  unfolding execute_candidate_node_def
  by (intro engine_rules set_candidate_status_disciplined execute_node_disciplined)

lemma drive_turn_disciplined:
  "disciplined (caught_up S R holds saved es0) (lagging S R holds saved es0)
     (drive_turn S cx candidate)"
proof -
  have "disciplined (caught_up S R holds saved es0) (lagging S R holds saved es0)
      (case step of FinishCandidate \<Rightarrow> ok True | BlockedCandidate reason \<Rightarrow> ok True
       | RunCandidateNode node \<Rightarrow>
           then_do (execute_candidate_node S cx node candidate) (\<lambda>progress. ok (\<not> progress)))"
    for step
    by (cases step; simp; intro engine_rules execute_candidate_node_disciplined)
  then show ?thesis unfolding drive_turn_def by (intro engine_rules)
qed

text \<open>
  The tasks of candidates: a failed task does not stop the others, so the projection may lag while
  they go on.
\<close>

lemma task_turn_lagging:
  "lagging S R holds saved es0 d \<Longrightarrow> task_turn S cx i tasks d = (tasks', t) \<Longrightarrow>
     lagging S R holds saved es0 t"
  using drive_turn_disciplined disciplined_any unfolding task_turn_def
  by (fastforce split: prod.splits sum.splits)

lemma run_tasks_lagging:
  assumes "run_tasks S cx n tasks d = Some (tasks', t)" and "lagging S R holds saved es0 d"
  shows "lagging S R holds saved es0 t"
proof (rule conjunct1 [OF run_tasks_invariant [where I = "\<lambda>_. lagging S R holds saved es0", OF assms]])
  fix i ts d ts' t
  assume "lagging S R holds saved es0 d" and "task_turn S cx i ts d = (ts', t)"
  then show "lagging S R holds saved es0 t" by (rule task_turn_lagging)
next
  fix k and ts :: "candidate_task list" and d
  assume l: "lagging S R holds saved es0 d"
  have "snd (ask_world (sv_next_task S k) d) = d\<lparr>dp_world := snd (sv_next_task S k (dp_world d))\<rparr>"
    by (simp add: ask_world_def split: prod.split)
  moreover have "lagging S R holds saved es0 (snd (ask_world (sv_next_task S k) d))"
    by (rule disciplined_any [OF ask_world_disciplined [OF ports_leave_run(11)] l])
      (rule prod.collapse [symmetric])
  ultimately show "lagging S R holds saved es0 (d\<lparr>dp_world := snd (sv_next_task S k (dp_world d))\<rparr>)"
    by simp
qed

lemma run_candidate_subgraphs_lagging:
  assumes "run_candidate_subgraphs S cx d = Some (r, t)" and "lagging S R holds saved es0 d"
  shows "lagging S R holds saved es0 t"
proof (cases "active_candidates (dp_projection d) = []")
  case True
  with assms show ?thesis by (simp add: run_candidate_subgraphs_def)
next
  case False
  obtain a u where p: "on_world (sv_logical_processors S) d = (a, u)" by fastforce
  with disciplined_any [OF on_world_disciplined [OF ports_leave_run(10)] assms(2)]
  have u: "lagging S R holds saved es0 u" by blast
  with False assms(1) p show ?thesis
    by (cases a) (auto simp: run_candidate_subgraphs_def Let_def dest: run_tasks_lagging)
qed

lemma run_turn_lagging:
  assumes "run_turn S cx d = Some (r, t)" and "lagging S R holds saved es0 d"
  shows "lagging S R holds saved es0 t"
proof -
  let ?D = "disciplined (caught_up S R holds saved es0) (lagging S R holds saved es0)
    :: ('w dispatcher, dispatch_outcome option) step \<Rightarrow> bool"
  have step: "lagging S R holds saved es0 t" if "?D m" and "m d = (r, t)" for m
    using disciplined_any [OF that(1) assms(2) that(2)] .
  have "?D (then_do (ensure_run_status S cx status None) (\<lambda>_. ok x))" for status x
    by (intro engine_rules ensure_run_status_disciplined)
  moreover have "?D (then_do (finish_cancelled S cx) (\<lambda>_. ok x))" for x
    by (intro engine_rules finish_cancelled_disciplined)
  ultimately have others: ?thesis if "\<nexists>node. next_run_step (dp_projection d) = RunNode node"
    using assms that by (cases "next_run_step (dp_projection d)")
      (auto simp: run_turn_def intro: step dest: run_candidate_subgraphs_lagging)
  show ?thesis
  proof (cases "\<exists>node. next_run_step (dp_projection d) = RunNode node")
    case True
    then obtain node where "next_run_step (dp_projection d) = RunNode node" by blast
    with assms(1) have run: "then_do (execute_run_node S cx node) (\<lambda>progress.
        if progress then ok None
        else then_do (look dp_projection) (\<lambda>snapshot.
          ok (Some (BlockedDispatch (''node '' @ node_as_str node
            @ '' could not make progress from status ''
            @ run_status_as_str (rp_status snapshot)))))) d = (r, t)"
      by (simp add: run_turn_def)
    from run show ?thesis
      by (rule step [rotated]) (intro engine_rules execute_run_node_disciplined)
  qed (rule others)
qed

lemma run_loop_lagging:
  assumes "run_loop S cx d = Some (r, t)" and "lagging S R holds saved es0 d"
  shows "lagging S R holds saved es0 t"
  using assms run_turn_lagging by (rule run_loop_invariant)

end

end
