(* ===== verification/Forge_Log_Recovery.thy ===== *)
theory Forge_Log_Recovery
  imports Forge_Event_Log
begin

text \<open>
  What the event log guarantees: a file of complete records is read back exactly, a torn last
  record is the only thing a crash loses, and an append extends what a later load returns.
\<close>

section \<open>What is relied on of the codec\<close>

text \<open>
  The documented behaviour of the JSON crate for this type: an encoding is one non-empty line
  that does not end in a carriage return, and decoding it gives the event back.
\<close>

definition codec_ok :: "event_codec \<Rightarrow> bool" where
  "codec_ok C \<longleftrightarrow>
     (\<forall>e b. ec_encode C e = Inr b \<longrightarrow>
        b \<noteq> [] \<and> newline \<notin> set b \<and> last b \<noteq> carriage_return \<and> ec_decode C b = Some e)"

fun log_bytes :: "event_codec \<Rightarrow> durable_event list \<Rightarrow> string option" where
  "log_bytes C [] = Some []"
| "log_bytes C (e # es) =
     (case ec_encode C e of
        Inl _ \<Rightarrow> None
      | Inr b \<Rightarrow> if length b \<le> maximum_record_bytes
                  then map_option (\<lambda>r. b @ newline # r) (log_bytes C es) else None)"

lemma log_bytes_Cons:
  "log_bytes C (e # es) = Some s \<longleftrightarrow>
     (\<exists>b r. ec_encode C e = Inr b \<and> length b \<le> maximum_record_bytes
            \<and> log_bytes C es = Some r \<and> s = b @ newline # r)"
  by (auto split: sum.splits if_splits)

lemma log_bytes_append:
  "log_bytes C (es @ fs) = Some s \<longleftrightarrow>
     (\<exists>a b. log_bytes C es = Some a \<and> log_bytes C fs = Some b \<and> s = a @ b)"
  by (induction es arbitrary: s) (auto simp: log_bytes_Cons simp del: log_bytes.simps(2))

section \<open>Lines\<close>

lemma takeWhile_until: "newline \<notin> set b \<Longrightarrow> takeWhile (\<lambda>c. c \<noteq> newline) (b @ newline # r) = b"
  by (induction b) auto

lemma takeWhile_clean: "newline \<notin> set b \<Longrightarrow> takeWhile (\<lambda>c. c \<noteq> newline) b = b"
  by (induction b) auto

lemma buffer_room: "0 < buffer_capacity - position mod buffer_capacity"
  by (simp add: buffer_capacity_def)

lemma read_complete_line:
  assumes "newline \<notin> set b" and "sofar + length b \<le> maximum_record_bytes"
  shows "read_bounded_line position (b @ newline # r) target sofar
    = Inr (target @ b @ [newline], sofar + length b + 1, r)"
  using assms
proof (induction b arbitrary: position target sofar rule: length_induct)
  case (1 b)
  let ?k = "buffer_capacity - position mod buffer_capacity"
  let ?rest = "b @ newline # r"
  show ?case
  proof (cases "length b < ?k")
    case True
    then obtain j where k: "?k = Suc (length b + j)" using less_imp_Suc_add by blast
    have avail: "take ?k ?rest = b @ newline # take j r" by (simp add: k)
    show ?thesis
      unfolding read_bounded_line.simps [of position] Let_def avail takeWhile_until [OF "1.prems"(1)]
      by simp
  next
    case False
    then have long: "?k \<le> length b" by simp
    have avail: "take ?k ?rest = take ?k b" using long by simp
    have size: "length (take ?k b) = ?k" using long by simp
    have clean: "newline \<notin> set (take ?k b)" using "1.prems"(1) by (meson in_set_takeD)
    have ne: "take ?k b \<noteq> []" using buffer_room [of position] size by force
    have rest: "drop ?k ?rest = drop ?k b @ newline # r" using long by simp
    have "length (drop ?k b) < length b" using buffer_room [of position] long by simp
    moreover have "newline \<notin> set (drop ?k b)" using "1.prems"(1) by (meson in_set_dropD)
    moreover have "sofar + ?k + length (drop ?k b) \<le> maximum_record_bytes"
      using "1.prems"(2) long by simp
    ultimately have "read_bounded_line (position + ?k) (drop ?k b @ newline # r)
        (target @ take ?k b) (sofar + ?k)
      = Inr ((target @ take ?k b) @ drop ?k b @ [newline], sofar + ?k + length (drop ?k b) + 1, r)"
      using "1.IH" by blast
    moreover have "sofar + ?k \<le> maximum_record_bytes" using "1.prems"(2) long by simp
    ultimately show ?thesis
      unfolding read_bounded_line.simps [of position] Let_def avail takeWhile_clean [OF clean] size
        rest
      using ne long by simp
  qed
qed

lemma read_torn_line:
  assumes "newline \<notin> set t" and "sofar + length t \<le> maximum_record_bytes"
  shows "read_bounded_line position t target sofar = Inr (target @ t, sofar + length t, [])"
  using assms
proof (induction t arbitrary: position target sofar rule: length_induct)
  case (1 t)
  let ?k = "buffer_capacity - position mod buffer_capacity"
  show ?case
  proof (cases "t = []")
    case True
    then show ?thesis by (simp add: read_bounded_line.simps [of position])
  next
    case False
    have ne: "take ?k t \<noteq> []" using False buffer_room [of position] by simp
    have clean: "newline \<notin> set (take ?k t)" using "1.prems"(1) by (meson in_set_takeD)
    have size: "length (take ?k t) \<le> length t" by simp
    have drop: "drop (length (take ?k t)) t = drop ?k t" by (simp add: min_def)
    have "length (drop ?k t) < length t"
      using False buffer_room [of position] by (metis diff_less length_drop length_greater_0_conv)
    moreover have "newline \<notin> set (drop ?k t)" using "1.prems"(1) by (meson in_set_dropD)
    moreover have len: "length (take ?k t) + length (drop ?k t) = length t"
      by (metis append_take_drop_id length_append)
    ultimately have "read_bounded_line (position + length (take ?k t)) (drop ?k t)
        (target @ take ?k t) (sofar + length (take ?k t))
      = Inr ((target @ take ?k t) @ drop ?k t,
          sofar + length (take ?k t) + length (drop ?k t), [])"
      using "1.IH" "1.prems"(2) by (metis add.assoc)
    then show ?thesis
      unfolding read_bounded_line.simps [of position] Let_def takeWhile_clean [OF clean] drop
      using ne len "1.prems"(2) by (simp del: length_take add: add.assoc)
  qed
qed

lemma strip_line_end_complete:
  assumes "b \<noteq> []" and "newline \<notin> set b" and "last b \<noteq> carriage_return"
  shows "strip_line_end (b @ [newline]) = b" and "strip_line_end b = b"
proof -
  obtain c b' where b: "b = b' @ [c]" using assms(1) by (metis append_butlast_last_id)
  have "c \<noteq> newline" "c \<noteq> carriage_return" using assms(2,3) by (auto simp: b)
  then show "strip_line_end (b @ [newline]) = b" and "strip_line_end b = b"
    by (simp_all add: strip_line_end_def b)
qed

section \<open>Loading complete records\<close>

lemma load_complete_records:
  assumes "codec_ok C" and "log_bytes C es = Some s"
    and "chain_verified X enc (ld_next_sequence st - 1) (ld_previous_hash st) es"
    and "ld_pending st = None"
  shows "load_loop X enc C path position (s @ t) st =
    load_loop X enc C path (position + length s) t (st\<lparr>
      ld_appended := ld_appended st @ es, ld_consumed := ld_consumed st + length s,
      ld_previous_hash := chain_end X (ld_previous_hash st) es,
      ld_next_sequence := ld_next_sequence st + of_nat (length es)\<rparr>)"
  using assms(2,3,4)
proof (induction es arbitrary: s position st)
  case Nil
  then show ?case by (simp add: chain_end_def)
next
  case (Cons e es)
  from Cons.prems(1) obtain b r where b: "ec_encode C e = Inr b"
      and small: "length b \<le> maximum_record_bytes" and r: "log_bytes C es = Some r"
      and s: "s = b @ newline # r" unfolding log_bytes_Cons by blast
  from assms(1) b have bs: "b \<noteq> []" "newline \<notin> set b" "last b \<noteq> carriage_return"
      "ec_decode C b = Some e" by (auto simp: codec_ok_def)
  note line = read_complete_line [OF bs(2), of 0 position "r @ t" "[]"]
  have verified: "event_verify X enc e (ld_next_sequence st) (ld_previous_hash st) = Inr ()"
    and chain: "chain_verified X enc (ld_next_sequence st) (chain_hash X e) es"
    using Cons.prems(2) by simp_all
  let ?st = "st\<lparr>ld_previous_hash := chain_hash X e, ld_next_sequence := ld_next_sequence st + 1,
    ld_appended := ld_appended st @ [e], ld_consumed := ld_consumed st + (length b + 1)\<rparr>"
  have turn: "load_record X enc C (b @ [newline]) (length b + 1) st = Inr (True, ?st)"
    using bs Cons.prems(3) strip_line_end_complete(1) [OF bs(1-3)] verified
    by (simp add: load_record_def Let_def)
  have "load_loop X enc C path position (s @ t) st
      = load_loop X enc C path (position + (length b + 1)) (r @ t) ?st"
    using line small turn by (subst load_loop.simps) (simp add: s)
  also have "\<dots> = load_loop X enc C path (position + (length b + 1) + length r) t (?st\<lparr>
      ld_appended := ld_appended ?st @ es, ld_consumed := ld_consumed ?st + length r,
      ld_previous_hash := chain_end X (ld_previous_hash ?st) es,
      ld_next_sequence := ld_next_sequence ?st + of_nat (length es)\<rparr>)"
    by (rule Cons.IH [OF r]) (use chain Cons.prems(3) in simp_all)
  finally show ?case by (simp add: s chain_end_Cons algebra_simps)
qed

lemma load_loop_end: "load_loop X enc C path position [] st = Inr st"
  by (subst load_loop.simps) (simp add: read_torn_line [of "[]" 0])

lemma load_loop_torn:
  assumes "t \<noteq> []" and "newline \<notin> set t" and "last t \<noteq> carriage_return"
    and "length t \<le> maximum_record_bytes" and "ld_pending st = None"
  shows "load_loop X enc C path position t st = Inr (st\<lparr>ld_pending := Some t\<rparr>)"
proof -
  have "last t \<noteq> newline" using assms(1,2) last_in_set by fastforce
  then show ?thesis
    using read_torn_line [OF assms(2), of 0 position "[]"] assms
      strip_line_end_complete(2) [OF assms(1-3)]
    by (subst load_loop.simps) (simp add: load_record_def Let_def)
qed

section \<open>The state of a log\<close>

text \<open>
  \<open>log_holds\<close>: the file holds the records of \<open>es\<close>, the cached prefix is a prefix of them and
  a cached tail is their end.
\<close>

definition log_holds ::
    "externals \<Rightarrow> payload_encoder \<Rightarrow> event_codec \<Rightarrow> event_log \<Rightarrow> durable_event list \<Rightarrow> bool" where
  "log_holds X enc C self es \<longleftrightarrow>
     codec_ok C \<and> chain_verified X enc 0 genesis_hash es
     \<and> (case lg_file self of None \<Rightarrow> es = [] | Some s \<Rightarrow> log_bytes C es = Some s)
     \<and> (\<exists>fs gs s. es = fs @ gs \<and> log_bytes C fs = Some s
          \<and> lg_prefix self = \<lparr>vp_events = fs, vp_verified_bytes = length s,
                              vp_last_hash = chain_end X genesis_hash fs\<rparr>)
     \<and> (case lg_tail self of
          None \<Rightarrow> True
        | Some tail \<Rightarrow> tail = \<lparr>ct_sequence = of_nat (length es),
                               ct_hash = chain_end X genesis_hash es\<rparr>)"

lemma chain_verified_append:
  "chain_verified X enc s h (es @ fs) \<longleftrightarrow>
     chain_verified X enc s h es
     \<and> chain_verified X enc (s + of_nat (length es)) (chain_end X h es) fs"
  by (induction es arbitrary: s h) (auto simp: chain_end_Cons chain_end_def algebra_simps)

lemma chain_verified_sequence:
  "chain_verified X enc s h es \<Longrightarrow> es \<noteq> [] \<Longrightarrow> de_sequence (last es) = s + of_nat (length es)"
proof (induction es arbitrary: s h)
  case (Cons e es)
  then show ?case by (cases "es = []") (auto simp: event_verify_iff algebra_simps)
qed simp

definition torn_record :: "string \<Rightarrow> bool" where
  "torn_record t \<longleftrightarrow> newline \<notin> set t \<and> (t \<noteq> [] \<longrightarrow> last t \<noteq> carriage_return)
     \<and> length t \<le> maximum_record_bytes"

lemma load_loop_from_prefix:
  assumes "codec_ok C" and "chain_verified X enc 0 genesis_hash (fs @ gs)"
    and "log_bytes C gs = Some b" and "torn_record t"
  shows "load_loop X enc C path 0 (b @ t)
      (load_start \<lparr>vp_events = fs, vp_verified_bytes = n,
                   vp_last_hash = chain_end X genesis_hash fs\<rparr> q)
    = Inr \<lparr>ld_appended = gs, ld_consumed = n + length b,
           ld_previous_hash = chain_end X genesis_hash (fs @ gs),
           ld_next_sequence = of_nat (length (fs @ gs)) + 1, ld_partial = False,
           ld_pending = (if t = [] then None else Some t), ld_quarantine = q\<rparr>"
proof -
  let ?p = "\<lparr>vp_events = fs, vp_verified_bytes = n, vp_last_hash = chain_end X genesis_hash fs\<rparr>"
  have chain: "chain_verified X enc (ld_next_sequence (load_start ?p q) - 1)
      (ld_previous_hash (load_start ?p q)) gs"
    using assms(2) by (simp add: load_start_def chain_verified_append)
  have ends: "chain_end X (chain_end X genesis_hash fs) gs = chain_end X genesis_hash (fs @ gs)"
    by (simp add: chain_end_def)
  have pending: "ld_pending (load_start ?p q) = None" by (simp add: load_start_def)
  let ?st = "\<lparr>ld_appended = gs, ld_consumed = n + length b,
      ld_previous_hash = chain_end X genesis_hash (fs @ gs),
      ld_next_sequence = of_nat (length (fs @ gs)) + 1, ld_partial = False, ld_pending = None,
      ld_quarantine = q\<rparr>"
  have "load_loop X enc C path 0 (b @ t) (load_start ?p q)
      = load_loop X enc C path (0 + length b) t ?st"
    unfolding load_complete_records [OF assms(1,3) chain pending]
    by (rule arg_cong [of _ _ "load_loop X enc C path (0 + length b) t"])
      (simp add: load_start_def ends)
  also have "\<dots> = Inr (?st\<lparr>ld_pending := (if t = [] then None else Some t)\<rparr>)"
  proof (cases "t = []")
    case True
    then show ?thesis by (simp add: load_loop_end)
  next
    case False
    then show ?thesis using assms(4) by (simp add: load_loop_torn torn_record_def)
  qed
  finally show ?thesis by simp
qed

text \<open>The central fact: loading complete records followed by a torn one.\<close>

lemma log_load_torn:
  assumes "log_holds X enc C (self\<lparr>lg_file := Some s\<rparr>) es" and "lg_file self = Some (s @ t)"
    and "torn_record t"
  shows "\<exists>p. log_load X enc C self =
      (Inr (es, t \<noteq> []), self\<lparr>lg_file := Some s,
         lg_quarantine := lg_quarantine self @ (if t = [] then [] else t @ [newline]),
         lg_prefix := p\<rparr>)
    \<and> log_holds X enc C (self\<lparr>lg_file := Some s, lg_prefix := p\<rparr>) es"
proof -
  from assms(1) obtain fs gs a where codec: "codec_ok C" and s: "log_bytes C es = Some s"
      and chain: "chain_verified X enc 0 genesis_hash es" and es: "es = fs @ gs"
      and a: "log_bytes C fs = Some a"
      and p: "lg_prefix self = \<lparr>vp_events = fs, vp_verified_bytes = length a,
                 vp_last_hash = chain_end X genesis_hash fs\<rparr>"
    by (auto simp: log_holds_def)
  from s a obtain b where b: "log_bytes C gs = Some b" and sab: "s = a @ b"
    unfolding es log_bytes_append by auto
  let ?full = "\<lparr>vp_events = es, vp_verified_bytes = length s,
      vp_last_hash = chain_end X genesis_hash es\<rparr>"
  have holds: "log_holds X enc C (self\<lparr>lg_file := Some s, lg_prefix := ?full\<rparr>) es"
    using assms(1) s by (auto simp: log_holds_def)
  show ?thesis
  proof (cases "gs = [] \<and> t = []")
    case True
    then have "b = []" using b by simp
    with True have "log_load X enc C self = (Inr (es, False), self)"
      by (simp add: log_load_def assms(2) p sab es)
    moreover have "self\<lparr>lg_file := Some s, lg_quarantine := lg_quarantine self @ [],
        lg_prefix := lg_prefix self\<rparr> = self"
      using assms(2) True by simp
    moreover have "log_holds X enc C (self\<lparr>lg_file := Some s, lg_prefix := lg_prefix self\<rparr>) es"
      using assms(1) by (simp add: log_holds_def)
    ultimately have "log_load X enc C self = (Inr (es, t \<noteq> []), self\<lparr>lg_file := Some s,
         lg_quarantine := lg_quarantine self @ (if t = [] then [] else t @ [newline]),
         lg_prefix := lg_prefix self\<rparr>)
      \<and> log_holds X enc C (self\<lparr>lg_file := Some s, lg_prefix := lg_prefix self\<rparr>) es"
      using True by (simp only: simp_thms if_True)
    then show ?thesis by (rule exI)
  next
    case False
    have more: "b @ t \<noteq> []"
    proof
      assume "b @ t = []"
      then have "b = []" and "t = []" by (rule append_is_Nil_conv [THEN iffD1, THEN conjunct1],
          rule append_is_Nil_conv [THEN iffD1, THEN conjunct2])
      with False have "gs \<noteq> []" by blast
      then obtain g gs' where gs: "gs = g # gs'" unfolding neq_Nil_conv by blast
      from b [unfolded gs log_bytes_Cons \<open>b = []\<close>] show False by blast
    qed
    note loop = load_loop_from_prefix [OF codec chain [unfolded es] b assms(3), of "lg_path self"
        "length a" "lg_quarantine self"]
    have cut: "truncate_partial_tail (s @ t) t = s"
      by (simp add: truncate_partial_tail_def)
    have "log_load X enc C self = (Inr (es, t \<noteq> []), self\<lparr>lg_file := Some s,
         lg_quarantine := lg_quarantine self @ (if t = [] then [] else t @ [newline]),
         lg_prefix := ?full\<rparr>)"
    proof (cases "t = []")
      case True
      then show ?thesis using more loop
        by (simp add: log_load_def assms(2) p sab es load_finish_def Let_def)
    next
      case False
      then show ?thesis using more loop cut
        by (simp add: log_load_def assms(2) p sab es load_finish_def quarantine_record_def Let_def)
    qed
    then show ?thesis using holds by blast
  qed
qed

lemma log_load_complete:
  assumes "log_holds X enc C self es"
  shows "\<exists>p. log_load X enc C self = (Inr (es, False), self\<lparr>lg_prefix := p\<rparr>)
    \<and> log_holds X enc C (self\<lparr>lg_prefix := p\<rparr>) es"
proof (cases "lg_file self")
  case None
  with assms show ?thesis
    by (auto simp: log_load_def log_holds_def verified_prefix_empty_def chain_end_def)
next
  case (Some s)
  have same: "self\<lparr>lg_file := Some s\<rparr> = self" using Some by simp
  from log_load_torn [where X = X and enc = enc and C = C and self = self and s = s and es = es
      and t = "[]"] assms Some
  obtain p where "log_load X enc C self =
      (Inr (es, False), self\<lparr>lg_file := Some s, lg_quarantine := lg_quarantine self,
         lg_prefix := p\<rparr>)"
    and "log_holds X enc C (self\<lparr>lg_file := Some s, lg_prefix := p\<rparr>) es"
    by (auto simp: same torn_record_def)
  moreover have "self\<lparr>lg_file := Some s, lg_quarantine := lg_quarantine self, lg_prefix := p\<rparr>
      = self\<lparr>lg_prefix := p\<rparr>"
    and "self\<lparr>lg_file := Some s, lg_prefix := p\<rparr> = self\<lparr>lg_prefix := p\<rparr>"
    using Some by simp_all
  ultimately show ?thesis by metis
qed

section \<open>Appending\<close>

lemma chain_last_sequence:
  "chain_verified X enc 0 h es \<Longrightarrow>
     (if es = [] then 0 else de_sequence (last es)) = of_nat (length es)"
  using chain_verified_sequence [of X enc 0 h es] by simp

lemma verify_internal_complete:
  assumes "log_holds X enc C self es"
  shows "\<exists>p. verify_internal X enc C self =
      (Inr \<lparr>cv_events_verified = of_nat (length es), cv_last_sequence = of_nat (length es),
            cv_last_hash = chain_end X genesis_hash es, cv_quarantined_partial_record = False\<rparr>,
       self\<lparr>lg_prefix := p\<rparr>)
    \<and> log_holds X enc C (self\<lparr>lg_prefix := p\<rparr>) es"
proof -
  from log_load_complete [OF assms] obtain p where
    p: "log_load X enc C self = (Inr (es, False), self\<lparr>lg_prefix := p\<rparr>)"
      "log_holds X enc C (self\<lparr>lg_prefix := p\<rparr>) es" by blast
  have "chain_verified X enc 0 genesis_hash es" using assms by (simp add: log_holds_def)
  note last = chain_last_sequence [OF this]
  have "verify_internal X enc C self =
      (Inr \<lparr>cv_events_verified = of_nat (length es), cv_last_sequence = of_nat (length es),
            cv_last_hash = chain_end X genesis_hash es, cv_quarantined_partial_record = False\<rparr>,
       self\<lparr>lg_prefix := p\<rparr>)"
    using last by (simp add: verify_internal_def p(1) split: if_splits)
  with p(2) show ?thesis by blast
qed

lemma current_tail_complete:
  assumes "log_holds X enc C self es"
  shows "\<exists>p. current_tail X enc C self =
      (Inr \<lparr>ct_sequence = of_nat (length es), ct_hash = chain_end X genesis_hash es\<rparr>,
       self\<lparr>lg_prefix := p\<rparr>)
    \<and> log_holds X enc C (self\<lparr>lg_prefix := p\<rparr>) es"
proof (cases "lg_tail self")
  case None
  with verify_internal_complete [OF assms] show ?thesis by (auto simp: current_tail_def)
next
  case (Some tail)
  have "current_tail X enc C self =
      (Inr \<lparr>ct_sequence = of_nat (length es), ct_hash = chain_end X genesis_hash es\<rparr>,
       self\<lparr>lg_prefix := lg_prefix self\<rparr>)"
    using assms Some by (simp add: current_tail_def log_holds_def)
  moreover have "self\<lparr>lg_prefix := lg_prefix self\<rparr> = self" by simp
  ultimately show ?thesis using assms by metis
qed

definition written_bytes :: "string \<Rightarrow> string option \<Rightarrow> string" where
  "written_bytes line content =
     (case content of Some b \<Rightarrow> b | None \<Rightarrow> []) @ line @ [newline]"

lemma append_line_done:
  "append_line path None line content = (Inr (), Some (written_bytes line content))"
  by (simp add: append_line_def written_bytes_def Let_def)

lemma log_bytes_extend:
  assumes "log_holds X enc C self es" and "ec_encode C e = Inr b"
    and "length b \<le> maximum_record_bytes"
  shows "log_bytes C (es @ [e]) = Some (written_bytes b (lg_file self))"
proof -
  have "log_bytes C [e] = Some (b @ [newline])" using assms(2,3) by simp
  then show ?thesis
    using assms(1) unfolding log_bytes_append
    by (cases "lg_file self") (auto simp: log_holds_def written_bytes_def)
qed

lemma log_holds_extend:
  assumes "log_holds X enc C self es"
    and "event_verify X enc e (of_nat (length es) + 1) (chain_end X genesis_hash es) = Inr ()"
    and "ec_encode C e = Inr b" and "length b \<le> maximum_record_bytes"
  shows "log_holds X enc C (self\<lparr>lg_file := Some (written_bytes b (lg_file self)),
      lg_tail := Some \<lparr>ct_sequence = of_nat (length es) + 1, ct_hash = chain_hash X e\<rparr>\<rparr>)
    (es @ [e])"
proof -
  note bytes = log_bytes_extend [OF assms(1,3,4)]
  have chain: "chain_verified X enc 0 genesis_hash (es @ [e])"
    using assms(1,2) by (simp add: log_holds_def chain_verified_append)
  have "chain_end X genesis_hash (es @ [e]) = chain_hash X e" by (simp add: chain_end_def)
  moreover from assms(1) have "\<exists>fs gs s. es @ [e] = fs @ gs \<and> log_bytes C fs = Some s
          \<and> lg_prefix self = \<lparr>vp_events = fs, vp_verified_bytes = length s,
                              vp_last_hash = chain_end X genesis_hash fs\<rparr>"
    unfolding log_holds_def by (metis append.assoc)
  ultimately show ?thesis
    using assms(1) chain bytes unfolding log_holds_def by (simp add: add.commute)
qed

text \<open>
  An append whose system calls succeed either extends the log by one event that is sealed on
  its end, or reports an error and leaves what it holds.
\<close>

lemma log_append_result:
  assumes "log_holds X enc C self es"
    and "log_append X enc C None run event recorded_at payload self = (result, journal)"
  shows "case result of
      Inl _ \<Rightarrow> log_holds X enc C journal es \<and> lg_file journal = lg_file self
    | Inr e \<Rightarrow> event_seal X enc (of_nat (length es) + 1) event run recorded_at
                (chain_end X genesis_hash es) payload = Inr e
              \<and> log_holds X enc C journal (es @ [e])"
proof -
  let ?seal = "event_seal X enc (of_nat (length es) + 1) event run recorded_at
                (chain_end X genesis_hash es) payload"
  from current_tail_complete [OF assms(1)] obtain p where
    tail: "current_tail X enc C self =
      (Inr \<lparr>ct_sequence = of_nat (length es), ct_hash = chain_end X genesis_hash es\<rparr>,
       self\<lparr>lg_prefix := p\<rparr>)"
    and holds: "log_holds X enc C (self\<lparr>lg_prefix := p\<rparr>) es" by blast
  note run = assms(2) [unfolded log_append_def tail append_line_done, simplified]
  show ?thesis
  proof (cases ?seal)
    case (Inl e)
    with run holds show ?thesis by auto
  next
    case (Inr e)
    note verified = event_seal_verify [OF Inr] and fields = event_seal_Inr [OF Inr]
    show ?thesis
    proof (cases "ec_encode C e")
      case (Inl m)
      with run Inr holds show ?thesis by auto
    next
      case b: (Inr b)
      show ?thesis
      proof (cases "maximum_record_bytes < length b")
        case True
        with run Inr b holds show ?thesis by auto
      next
        case False
        then have "length b \<le> maximum_record_bytes" by simp
        from log_holds_extend [OF holds verified b this] show ?thesis
          using run Inr b False fields by auto
      qed
    qed
  qed
qed

text \<open>An append that reaches the file: the payload is encoded and its record is short enough.\<close>

lemma log_append_reaches:
  assumes "log_holds X enc C self es"
    and "event_seal X enc (of_nat (length es) + 1) event run recorded_at
           (chain_end X genesis_hash es) payload = Inr e"
    and "ec_encode C e = Inr b" and "length b \<le> maximum_record_bytes"
  shows "\<exists>p. log_holds X enc C (self\<lparr>lg_prefix := p\<rparr>) es
    \<and> log_append X enc C fault run event recorded_at payload self =
      (case append_line (lg_path self) fault b (lg_file self) of
         (Inl failure, content) \<Rightarrow> (Inl failure, self\<lparr>lg_prefix := p, lg_file := content\<rparr>)
       | (Inr _, content) \<Rightarrow>
           (Inr e, self\<lparr>lg_prefix := p, lg_file := content,
              lg_tail := Some \<lparr>ct_sequence = de_sequence e, ct_hash = chain_hash X e\<rparr>\<rparr>))"
proof -
  from current_tail_complete [OF assms(1)] obtain p where
    "current_tail X enc C self =
      (Inr \<lparr>ct_sequence = of_nat (length es), ct_hash = chain_end X genesis_hash es\<rparr>,
       self\<lparr>lg_prefix := p\<rparr>)"
    and "log_holds X enc C (self\<lparr>lg_prefix := p\<rparr>) es" by blast
  then show ?thesis using assms(2-4) by (intro exI [of _ p]) (simp add: log_append_def)
qed

lemma log_append_succeeds:
  assumes "log_holds X enc C self es"
    and "event_seal X enc (of_nat (length es) + 1) event run recorded_at
           (chain_end X genesis_hash es) payload = Inr e"
    and "ec_encode C e = Inr b" and "length b \<le> maximum_record_bytes"
  shows "fst (log_append X enc C None run event recorded_at payload self) = Inr e"
  using log_append_reaches [OF assms, of None] by (auto simp: append_line_done)

text \<open>
  A failed write leaves the caches alone, and the file holds what it held followed by a
  beginning of the new line.
\<close>

lemma append_line_failed:
  assumes "append_line path fault line content = (Inl failure, content')"
  shows "content' = content
    \<or> (\<exists>n. content' = Some ((case content of Some b \<Rightarrow> b | None \<Rightarrow> []) @ take n (line @ [newline])))"
proof -
  let ?old = "case content of Some b \<Rightarrow> b | None \<Rightarrow> []"
  have whole: "\<exists>n. ?old @ line @ [newline] = ?old @ take n (line @ [newline])"
    by (rule exI [of _ "length line + 1"]) simp
  from assms obtain f where f: "fault = Some f" by (cases fault) (auto simp: append_line_def Let_def)
  from assms show ?thesis
    using whole by (cases f) (auto simp: append_line_def Let_def f)
qed

section \<open>Records that are durable but reported as failed\<close>

text \<open>Two records with the same sequence number: no load of such a file succeeds.\<close>

lemma second_record_rejected:
  assumes "codec_ok C" and "chain_verified X enc 0 genesis_hash ds" and "log_bytes C ds = Some s"
    and "ds \<noteq> []" and "ec_encode C e = Inr b" and "length b \<le> maximum_record_bytes"
    and "de_sequence e = of_nat (length ds)" and "de_schema_version e = 1"
  shows "fst (log_load X enc C (event_log_new path (Some (s @ b @ [newline])) q))
    = Inl (Domain (EventSequenceGap (of_nat (length ds) + 1) (of_nat (length ds))))"
proof -
  let ?start = "load_start verified_prefix_empty q"
  have empty: "ld_pending ?start = None" "ld_next_sequence ?start = 1"
      "ld_previous_hash ?start = genesis_hash"
    by (simp_all add: load_start_def verified_prefix_empty_def)
  have chain: "chain_verified X enc (ld_next_sequence ?start - 1) (ld_previous_hash ?start) ds"
    using assms(2) by (simp add: empty)
  note complete = load_complete_records [OF assms(1,3) chain empty(1), of path 0 "b @ [newline]"]
  from assms(1,5) have clean: "b \<noteq> []" "newline \<notin> set b" "last b \<noteq> carriage_return"
      "ec_decode C b = Some e" by (auto simp: codec_ok_def)
  have line: "read_bounded_line (length s) (b @ [newline]) [] 0
      = Inr (b @ [newline], length b + 1, [])"
    using read_complete_line [OF clean(2), of 0 "length s" "[]" "[]"] assms(6) by simp
  have gap: "event_verify X enc e (1 + of_nat (length ds)) h
      = Inl (EventSequenceGap (of_nat (length ds) + 1) (of_nat (length ds)))" for h
    using assms(7,8) by (simp add: event_verify_def event_schema_version_def)
  have "\<exists>quarantined. load_loop X enc C path 0 (s @ b @ [newline]) ?start
      = Inl (Domain (EventSequenceGap (of_nat (length ds) + 1) (of_nat (length ds))), quarantined)"
    unfolding complete
    by (subst load_loop.simps)
      (simp add: line load_record_def Let_def strip_line_end_complete(1) [OF clean(1-3)] clean empty
        gap)
  then show ?thesis
    by (auto simp: log_load_def event_log_new_def verified_prefix_empty_def)
qed

text \<open>
  An append whose record is written but whose \<open>sync_all\<close> fails, while the tail is cached, reports
  an error and leaves the cached tail: the next append seals a record with the same number.
\<close>

lemma failed_sync_breaks_log:
  assumes "log_holds X enc C self es" and "lg_tail self = Some tail"
    and "event_seal X enc (of_nat (length es) + 1) i run t (chain_end X genesis_hash es) a = Inr d"
    and "ec_encode C d = Inr da" and "length da \<le> maximum_record_bytes"
    and "event_seal X enc (of_nat (length es) + 1) j run u (chain_end X genesis_hash es) b = Inr e"
    and "ec_encode C e = Inr eb" and "length eb \<le> maximum_record_bytes"
    and "log_append X enc C (Some (SyncFault m)) run i t a self = (first, mid)"
    and "log_append X enc C None run j u b mid = (second, final)"
  shows "first = Inl (storage_error (lg_path self) ''synchronise'' m) \<and> second = Inr e
    \<and> (\<exists>content. lg_file final = Some content
        \<and> fst (log_load X enc C (event_log_new path (Some content) q))
          = Inl (Domain (EventSequenceGap (of_nat (length es) + 2) (of_nat (length es) + 1))))"
proof -
  let ?w = "written_bytes da (lg_file self)"
  have tail: "current_tail X enc C journal =
      (Inr \<lparr>ct_sequence = of_nat (length es), ct_hash = chain_end X genesis_hash es\<rparr>, journal)"
    if "lg_tail journal = lg_tail self" for journal
    using that assms(1,2) by (simp add: current_tail_def log_holds_def)
  have sync: "append_line (lg_path self) (Some (SyncFault m)) da (lg_file self)
      = (Inl (storage_error (lg_path self) ''synchronise'' m), Some ?w)"
    by (simp add: append_line_def written_bytes_def Let_def)
  have first: "first = Inl (storage_error (lg_path self) ''synchronise'' m)"
      and mid: "mid = self\<lparr>lg_file := Some ?w\<rparr>"
    using assms(9) assms(5) by (simp_all add: log_append_def tail assms(3,4) sync)
  have "lg_tail mid = lg_tail self" by (simp add: mid)
  then have second: "second = Inr e" and final: "lg_file final = Some (?w @ eb @ [newline])"
    using assms(10) assms(8)
    by (auto simp: log_append_def tail assms(6,7) append_line_done written_bytes_def mid)
  have bytes: "log_bytes C (es @ [d]) = Some ?w" by (rule log_bytes_extend [OF assms(1,4,5)])
  have chain: "chain_verified X enc 0 genesis_hash (es @ [d])"
    using assms(1) event_seal_verify [OF assms(3)] by (simp add: log_holds_def chain_verified_append)
  have codec: "codec_ok C" using assms(1) by (simp add: log_holds_def)
  have "fst (log_load X enc C (event_log_new path (Some (?w @ eb @ [newline])) q))
    = Inl (Domain (EventSequenceGap (of_nat (length (es @ [d])) + 1) (of_nat (length (es @ [d])))))"
    by (rule second_record_rejected [OF codec chain bytes _ assms(7,8)])
      (use event_seal_Inr [OF assms(6)] in \<open>simp_all add: add.commute\<close>)
  with first second final show ?thesis by (simp add: add.commute)
qed

section \<open>Crashes\<close>

text \<open>
  A crash during an append leaves a prefix of the line behind and loses the caches. The log
  opened afterwards holds the events that were there, or all of them with the new one.
\<close>

lemma log_holds_reopened:
  assumes "log_holds X enc C self es" and "lg_file self = Some s"
  shows "log_holds X enc C ((event_log_new path (Some s) q)) es"
  using assms
  by (auto simp: log_holds_def event_log_new_def verified_prefix_empty_def chain_end_def
      intro!: exI [of _ "[]"])

lemma torn_append_recovers:
  assumes "log_holds X enc C self es" and "lg_file self = Some s"
    and "ec_encode C e = Inr b" and "length b \<le> maximum_record_bytes"
    and "t = take k b" and "t \<noteq> [] \<longrightarrow> last t \<noteq> carriage_return"
  shows "\<exists>journal. log_load X enc C (event_log_new path (Some (s @ t)) q)
      = (Inr (es, t \<noteq> []), journal)
    \<and> log_holds X enc C journal es \<and> lg_file journal = Some s
    \<and> lg_quarantine journal = q @ (if t = [] then [] else t @ [newline])"
proof -
  have "codec_ok C" using assms(1) by (simp add: log_holds_def)
  with assms(3) have "newline \<notin> set b" by (auto simp: codec_ok_def)
  then have torn: "torn_record t" using assms(4,5,6)
    by (auto simp: torn_record_def dest: in_set_takeD)
  let ?log = "event_log_new path (Some (s @ t)) q"
  have "?log\<lparr>lg_file := Some s\<rparr> = event_log_new path (Some s) q"
    by (simp add: event_log_new_def)
  with log_holds_reopened [OF assms(1,2)]
  have "log_holds X enc C (?log\<lparr>lg_file := Some s\<rparr>) es" by simp
  from log_load_torn [OF this _ torn] obtain p where
    load: "log_load X enc C ?log = (Inr (es, t \<noteq> []), ?log\<lparr>lg_file := Some s,
         lg_quarantine := lg_quarantine ?log @ (if t = [] then [] else t @ [newline]),
         lg_prefix := p\<rparr>)"
    and holds: "log_holds X enc C (?log\<lparr>lg_file := Some s, lg_prefix := p\<rparr>) es"
    by (auto simp: event_log_new_def)
  from holds have "log_holds X enc C (?log\<lparr>lg_file := Some s,
         lg_quarantine := lg_quarantine ?log @ (if t = [] then [] else t @ [newline]),
         lg_prefix := p\<rparr>) es" by (simp add: log_holds_def)
  with load show ?thesis by (simp add: event_log_new_def)
qed

section \<open>Reading\<close>

lemma unat_plus_small:
  "unat s + n < 2 ^ 64 \<Longrightarrow> unat (s + of_nat n) = unat s + n" for s :: u64
  by (simp add: unat_word_ariths(1) unat_of_nat)

lemma chain_sequences_after:
  assumes "chain_verified X enc s h es" and "unat s + length es < 2 ^ 64" and "n \<le> length es"
  shows "filter (\<lambda>e. s + of_nat n < de_sequence e) es = drop n es"
  using assms
proof (induction es arbitrary: s h n)
  case (Cons e es)
  have head: "de_sequence e = s + 1" and rest: "chain_verified X enc (s + 1) (chain_hash X e) es"
    using Cons.prems(1) by (auto simp: event_verify_iff)
  have next_s: "unat (s + 1) = unat s + 1" using Cons.prems(2) by (simp add: unat_plus_one)
  then have small: "unat (s + 1) + length es < 2 ^ 64" using Cons.prems(2) by simp
  show ?case
  proof (cases n)
    case 0
    have "filter (\<lambda>e. s + 1 + of_nat 0 < de_sequence e) es = drop 0 es"
      by (rule Cons.IH [OF rest small]) simp
    then have above: "\<forall>e \<in> set es. s + 1 < de_sequence e" by (simp add: filter_id_conv)
    have "s < s + 1" using next_s by (simp add: word_less_nat_alt)
    then have "filter (\<lambda>e. s < de_sequence e) (e # es) = e # es"
      using above by (auto simp: filter_id_conv head intro: less_trans)
    then show ?thesis by (simp add: 0)
  next
    case (Suc m)
    then have m: "m \<le> length es" using Cons.prems(3) by simp
    from m small have "unat (s + 1 + of_nat m) = unat (s + 1) + m"
      by (intro unat_plus_small) simp
    then have "\<not> s + 1 + of_nat m < s + 1" by (simp add: word_less_nat_alt)
    then show ?thesis using Cons.IH [OF rest small m] by (simp add: Suc head add.assoc)
  qed
qed simp

lemma log_read_after_suffix:
  assumes "log_holds X enc C self es" and "length es < 2 ^ 64" and "n \<le> length es"
  shows "fst (log_read_after X enc C (of_nat n) self) = Inr (drop n es)"
    and "fst (log_read_range X enc C (of_nat n) limit self) = Inr (take limit (drop n es))"
proof -
  from log_load_complete [OF assms(1)] obtain p where
    "log_load X enc C self = (Inr (es, False), self\<lparr>lg_prefix := p\<rparr>)" by blast
  moreover have "filter (\<lambda>e. of_nat n < de_sequence e) es = drop n es"
    using chain_sequences_after [of X enc 0 genesis_hash es n] assms by (simp add: log_holds_def)
  ultimately show "fst (log_read_after X enc C (of_nat n) self) = Inr (drop n es)"
    and "fst (log_read_range X enc C (of_nat n) limit self) = Inr (take limit (drop n es))"
    by (simp_all add: log_read_after_def log_read_range_def)
qed

end
