(* ===== verification/Forge_Recovery.thy ===== *)
theory Forge_Recovery
  imports Forge_Run_Store Forge_Log_Recovery
begin

text \<open>
  \<open>engine/recovery.rs\<close>: what a dispatcher does before it runs. The log is verified, the stored
  projection is brought up to date with it, attempts that were open when the process ended are
  interrupted, and the result is stored.
\<close>

section \<open>The code\<close>

text \<open>A loop that threads a projection through fallible steps.\<close>

fun fold_each :: "('x \<Rightarrow> 'p \<Rightarrow> ('s, 'p) step) \<Rightarrow> 'x list \<Rightarrow> 'p \<Rightarrow> ('s, 'p) step" where
  "fold_each f [] p = ok p"
| "fold_each f (x # xs) p = then_do (f x p) (\<lambda>q. fold_each f xs q)"

definition append_applied ::
    "'w run_services \<Rightarrow> run_id \<Rightarrow> event_payload \<Rightarrow> run_projection \<Rightarrow> ('w, run_projection) step" where
  "append_applied S run payload projection =
     then_do (sv_append S run payload) (\<lambda>event.
       lift_result (lift_domain
         (event_apply (sv_externals S) (sv_encoder S) projection event)))"

definition interrupt_candidate ::
    "'w run_services \<Rightarrow> run_id \<Rightarrow> candidate_id \<Rightarrow> run_projection \<Rightarrow> ('w, run_projection) step" where
  "interrupt_candidate S run candidate projection =
     (case map_option cr_status (candidate_of projection candidate) of
        Some status \<Rightarrow>
          if \<not> candidate_is_terminal status \<and> status \<noteq> candidate_status.Interrupted
             \<and> \<not> isl (candidate_transition_to status candidate_status.Interrupted)
          then append_applied S run
            (CandidateStatusChanged candidate status candidate_status.Interrupted
              (Some ''the dispatcher stopped while this candidate was active'')) projection
          else ok projection
      | None \<Rightarrow> ok projection)"

definition interrupt_attempts ::
    "'w run_services \<Rightarrow> run_id \<Rightarrow> attempt_key list \<Rightarrow> u64 \<Rightarrow> run_projection
      \<Rightarrow> ('w, run_projection) step" where
  "interrupt_attempts S run attempts replayed projection =
     then_do (append_applied S run
       (RecoveryStarted (rp_last_event_sequence projection) (of_nat (length attempts))) projection)
       (\<lambda>projection.
     then_do (ask (sv_now S)) (\<lambda>detected_at.
     then_do (fold_each (\<lambda>(node, candidate, attempt).
         append_applied S run (NodeInterrupted node candidate attempt detected_at))
       attempts projection) (\<lambda>projection.
     then_do (fold_each (interrupt_candidate S run)
       (List.map_filter (\<lambda>(node, candidate, attempt). candidate) attempts) projection) (\<lambda>projection.
     append_applied S run (RecoveryCompleted replayed [''state.json'', ''manifest.json''])
       projection))))"

definition explained :: "run_projection \<Rightarrow> run_projection" where
  "explained projection =
     (if rp_status projection = RecoveryRequired \<and> rp_recovery_reason projection = None
      then projection\<lparr>rp_recovery_reason := Some ''the run requires manual recovery''\<rparr>
      else projection)"

definition stored_projection ::
    "'w run_services \<Rightarrow> run_id \<Rightarrow> ('w, run_projection) step" where
  "stored_projection S run =
     then_do (sv_verify_chain S run) (\<lambda>verification.
     then_do (sv_load S run) (\<lambda>stored.
       case stored of
         Some projection \<Rightarrow>
           if rp_last_event_sequence projection \<le> cv_last_sequence verification
           then ok projection
           else stop (CorruptEventLog run
             ''the stored projection is newer than the durable event log'')
       | None \<Rightarrow>
           then_do (ask (sv_now S)) (\<lambda>genesis_time.
             ok (genesis (sv_externals S) run genesis_time))))"

definition finish_recovery ::
    "'w run_services \<Rightarrow> run_id \<Rightarrow> run_projection \<Rightarrow> u64 \<Rightarrow> ('w, run_projection) step" where
  "finish_recovery S run projection replayed =
     (let attempts = map attempt_key (open_attempts projection)
      in if attempts = [] \<and> replayed = 0
         then then_do (sv_store S projection) (\<lambda>_. ok projection)
         else then_do (if attempts = [] then ok projection
                       else interrupt_attempts S run attempts replayed projection) (\<lambda>projection.
              then_do (sv_store S (explained projection)) (\<lambda>_.
              then_do (sv_store_metrics S run (explained projection)) (\<lambda>_.
              ok (explained projection)))))"

definition recover :: "'w run_services \<Rightarrow> run_id \<Rightarrow> ('w, run_projection) step" where
  "recover S run =
     then_do (stored_projection S run) (\<lambda>projection.
     then_do (sv_read_after S run (rp_last_event_sequence projection)) (\<lambda>pending.
     then_do (lift_result (lift_domain
       (replay_from (sv_externals S) (sv_encoder S) projection pending))) (\<lambda>caught.
     finish_recovery S run (fst caught) (snd caught))))"

section \<open>The store a recovery needs\<close>

locale recoverable_store = run_store S R holds saved written
  for S :: "'w run_services" and R :: run_id
    and holds :: "'w \<Rightarrow> durable_event list \<Rightarrow> bool"
    and saved :: "'w \<Rightarrow> run_projection option"
    and written :: "event_payload \<Rightarrow> event_payload" +
  assumes holds_chain: "holds w es \<Longrightarrow>
      chain_verified (sv_externals S) (sv_encoder S) 0 genesis_hash es"
    and verify_done: "holds w es \<Longrightarrow> sv_verify_chain S R w = (Inr verification, v) \<Longrightarrow>
      cv_last_sequence verification = of_nat (length es)"
    and load_done: "holds w es \<Longrightarrow> sv_load S R w = (Inr stored, v) \<Longrightarrow> stored = saved w"
    and read_done: "holds w es \<Longrightarrow> k \<le> length es \<Longrightarrow>
      sv_read_after S R (of_nat k) w = (Inr fs, v) \<Longrightarrow> fs = drop k es"
    and reads_leave_run: "leaves_run holds saved (sv_verify_chain S R)"
      "leaves_run holds saved (sv_load S R)" "leaves_run holds saved (sv_read_after S R n)"

section \<open>Catching up without a bound on the events read\<close>

lemma replay_from_applied:
  assumes "chain_verified X enc (rp_last_event_sequence p) h es"
    and "unat (rp_last_event_sequence p) + length es < 2 ^ 64"
    and "try_fold (replay_from_step X enc) (p, n) es = Inr (q, m)"
  shows "try_fold (event_apply X enc) p es = Inr q \<and> m = n + of_nat (length es)"
  using assms
proof (induction es arbitrary: p h n)
  case (Cons e es)
  have seq: "de_sequence e = rp_last_event_sequence p + 1"
    using Cons.prems(1) by (simp add: event_verify_iff)
  have next_seq: "unat (rp_last_event_sequence p + 1) = unat (rp_last_event_sequence p) + 1"
    using Cons.prems(2) by (simp add: unat_plus_one)
  then have "\<not> de_sequence e \<le> rp_last_event_sequence p"
    by (simp add: seq word_le_nat_alt)
  then have step: "replay_from_step X enc (p, n) e
      = map_ok (\<lambda>q. (q, n + 1)) (event_apply X enc p e)"
    by (simp add: replay_from_step_def)
  from Cons.prems(3) obtain s where "replay_from_step X enc (p, n) e = Inr s"
      and "try_fold (replay_from_step X enc) s es = Inr (q, m)" by auto
  then obtain r where r: "event_apply X enc p e = Inr r"
      and rest: "try_fold (replay_from_step X enc) (r, n + 1) es = Inr (q, m)"
    by (auto simp: step)
  have last: "rp_last_event_sequence r = rp_last_event_sequence p + 1"
    using r by (auto simp: event_apply_Inr seq)
  have "chain_verified X enc (rp_last_event_sequence r) (chain_hash X e) es"
    using Cons.prems(1) by (simp add: last)
  moreover have "unat (rp_last_event_sequence r) + length es < 2 ^ 64"
    using Cons.prems(2) by (simp add: last next_seq)
  ultimately show ?case using Cons.IH [OF _ _ rest] r by (auto simp: algebra_simps)
qed simp

section \<open>Open attempts\<close>

definition open_keys :: "run_projection \<Rightarrow> attempt_key set" where
  "open_keys p = attempt_key ` set (open_attempts p)"

lemma open_keys_attempts: "rp_attempts q = rp_attempts p \<Longrightarrow> open_keys q = open_keys p"
  by (simp add: open_keys_def open_attempts_def)

lemma interrupted_open_keys:
  assumes "event_apply X enc p e = Inr q" and "de_payload e = NodeInterrupted n c a d"
    and "projection_wf p"
  shows "open_keys q \<subseteq> open_keys p - {(n, c, a)}"
proof -
  from assms(1,2) obtain r where
      r: "close_attempt n c a node_attempt_status.Interrupted d 0
            (Some ''the dispatcher stopped before this attempt finished'') None None p = Inr r"
      and q: "rp_attempts q = rp_attempts r"
    by (auto simp: event_apply_Inr)
  let ?m = "\<lambda>r. na_node_id r = n \<and> na_candidate_id r = c \<and> na_attempt r = a"
  let ?f = "closed_record node_attempt_status.Interrupted d 0
    (Some ''the dispatcher stopped before this attempt finished'') None None"
  have as: "rp_attempts q = update_first ?m ?f (rp_attempts p)"
    using close_attempt_Inr [OF r] q by simp
  have dist: "distinct (map attempt_key (rp_attempts p))"
    using assms(3) by (simp add: projection_wf_def attempts_wf_def)
  have "attempt_key y \<in> open_keys p - {(n, c, a)}"
    if "y \<in> set (update_first ?m ?f as)" and "attempt_is_open y"
      and "distinct (map attempt_key as)" and "set as \<subseteq> set (rp_attempts p)" for y as
    using that
  proof (induction as)
    case (Cons x as)
    have shut: "\<not> attempt_is_open (?f x)" by (simp add: closed_record_def attempt_is_open_def)
    have known: "attempt_key z \<in> open_keys p" if "z \<in> set (x # as)" "attempt_is_open z" for z
      using that Cons.prems(4) by (auto simp: open_keys_def open_attempts_def)
    show ?case
    proof (cases "?m x")
      case True
      then have "attempt_key x = (n, c, a)" by (simp add: attempt_key_def)
      moreover from True shut Cons.prems(1,2) have "y \<in> set as" by auto
      moreover from this have "attempt_key y \<in> attempt_key ` set as" by (rule imageI)
      then have "attempt_key y \<noteq> attempt_key x" using Cons.prems(3) by (metis distinct.simps(2) list.set_map list.simps(9))
      ultimately show ?thesis using known [of y] Cons.prems(2) by auto
    next
      case False
      show ?thesis
      proof (cases "y = x")
        case True
        with False have "attempt_key y \<noteq> (n, c, a)" by (auto simp: attempt_key_def)
        with known [of y] True Cons.prems(2) show ?thesis by simp
      next
        case neq: False
        with False Cons.prems have "y \<in> set (update_first ?m ?f as)" by auto
        with Cons show ?thesis by simp
      qed
    qed
  qed simp
  note member = this [OF _ _ dist subset_refl]
  show ?thesis
  proof
    fix k assume "k \<in> open_keys q"
    then obtain y where k: "k = attempt_key y" and still: "attempt_is_open y"
        and y: "y \<in> set (update_first ?m ?f (rp_attempts p))"
      by (auto simp: open_keys_def open_attempts_def as)
    show "k \<in> open_keys p - {(n, c, a)}" using member [OF y still] by (simp only: k)
  qed
qed

text \<open>Events of a recovery that leave the attempts alone.\<close>

definition marks_recovery :: "event_payload \<Rightarrow> bool" where
  "marks_recovery payload =
     (case payload of
        CandidateStatusChanged c s t r \<Rightarrow> True
      | RecoveryStarted n k \<Rightarrow> True
      | RecoveryCompleted n f \<Rightarrow> True
      | _ \<Rightarrow> False)"

lemma marks_recoveryE:
  assumes "marks_recovery payload"
  obtains (status) c s t r where "payload = CandidateStatusChanged c s t r"
    | (started) n k where "payload = RecoveryStarted n k"
    | (completed) n f where "payload = RecoveryCompleted n f"
proof (cases payload)
  case (CandidateStatusChanged c s t r)
  then show ?thesis by (rule status)
next
  case (RecoveryStarted n k)
  then show ?thesis by (rule started)
next
  case (RecoveryCompleted n f)
  then show ?thesis by (rule completed)
qed (use assms in \<open>simp_all add: marks_recovery_def\<close>)

lemma applied_attempts_frame:
  assumes "event_apply X enc p e = Inr q" and "marks_recovery (de_payload e)"
  shows "rp_attempts q = rp_attempts p"
proof -
  from assms(1) obtain r where r: "reduce (de_payload e) (de_recorded_at e) (de_sequence e) p = Inr r"
      and q: "rp_attempts q = rp_attempts r" by (auto simp: event_apply_Inr)
  from assms(2) show ?thesis
    by (rule marks_recoveryE) (use r q in \<open>auto dest: with_candidate_attempts\<close>)
qed

text \<open>
  The redaction of a store leaves identifiers, attempts and statuses alone; it may rewrite the
  reason of a status change.
\<close>

definition recovery_payloads_kept :: "(event_payload \<Rightarrow> event_payload) \<Rightarrow> bool" where
  "recovery_payloads_kept written \<longleftrightarrow>
     (\<forall>n c a t. written (NodeInterrupted n c a t) = NodeInterrupted n c a t)
     \<and> (\<forall>payload. marks_recovery payload \<longrightarrow> marks_recovery (written payload))"

section \<open>What a recovery does\<close>

lemma then_do_assoc: "then_do (then_do m f) g = then_do m (\<lambda>a. then_do (f a) g)"
  by (rule ext) (simp add: then_do_def split: prod.split sum.split)

lemma triple_fold_each:
  assumes "\<And>x p. x \<in> set xs \<Longrightarrow> triple (I p) (f x p) I E"
  shows "triple (I p) (fold_each f xs p) I E"
  using assms
proof (induction xs arbitrary: p)
  case (Cons x xs)
  have "triple (I p) (then_do (f x p) (\<lambda>q. fold_each f xs q)) I E"
    by (rule triple_then [where R = I]) (use Cons in auto)
  then show ?case by simp
qed (simp add: triple_ok)

text \<open>
  \<open>at_end log p w\<close>: the projection is the replay of the log, which begins with \<open>log\<close>;
  \<open>grown log w\<close>: the log begins with \<open>log\<close> and can be recovered.
\<close>

definition at_end ::
    "'w run_services \<Rightarrow> run_id \<Rightarrow> ('w \<Rightarrow> durable_event list \<Rightarrow> bool) \<Rightarrow> ('w \<Rightarrow> run_projection option)
      \<Rightarrow> durable_event list \<Rightarrow> run_projection \<Rightarrow> 'w \<Rightarrow> bool" where
  "at_end S R holds saved es0 p w \<longleftrightarrow>
     (\<exists>t fs. recoverable S R holds saved (es0 @ fs) w
        \<and> replay (sv_externals S) (sv_encoder S) R t (es0 @ fs) = Inr p)"

definition grown ::
    "'w run_services \<Rightarrow> run_id \<Rightarrow> ('w \<Rightarrow> durable_event list \<Rightarrow> bool) \<Rightarrow> ('w \<Rightarrow> run_projection option)
      \<Rightarrow> durable_event list \<Rightarrow> 'w \<Rightarrow> bool" where
  "grown S R holds saved es0 w \<longleftrightarrow> (\<exists>fs. recoverable S R holds saved (es0 @ fs) w)"

lemma at_end_grown: "at_end S R holds saved es0 p w \<Longrightarrow> grown S R holds saved es0 w"
  by (auto simp: at_end_def grown_def)

lemma at_end_whole:
  "recoverable S R holds saved es w \<Longrightarrow>
     replay (sv_externals S) (sv_encoder S) R t es = Inr p \<Longrightarrow> at_end S R holds saved es p w"
  unfolding at_end_def by (intro exI [of _ t] exI [of _ "[]"]) simp

lemma at_end_wf: "at_end S R holds saved es0 p w \<Longrightarrow> projection_wf p"
  by (auto simp: at_end_def intro: replay_wf)

context recoverable_store
begin

lemma leaves_run_at_end:
  assumes "leaves_run holds saved f" and "at_end S R holds saved es0 p w"
  shows "at_end S R holds saved es0 p (snd (f w))"
proof -
  from assms(2) obtain t fs where r: "recoverable S R holds saved (es0 @ fs) w"
      "replay (sv_externals S) (sv_encoder S) R t (es0 @ fs) = Inr p" by (auto simp: at_end_def)
  moreover from r(1) have "holds w (es0 @ fs)" by (simp add: recoverable_def)
  with assms(1) have "holds (snd (f w)) (es0 @ fs)" "saved (snd (f w)) = saved w"
    unfolding leaves_run_def by blast+
  then have "recoverable S R holds saved (es0 @ fs) (snd (f w))" by (rule recoverable_same [OF r(1)])
  with r(2) show ?thesis unfolding at_end_def by blast
qed

lemma append_applied_triple:
  "triple (at_end S R holds saved es0 p) (append_applied S R payload p)
     (\<lambda>q w. at_end S R holds saved es0 q w
        \<and> (\<exists>e. event_apply (sv_externals S) (sv_encoder S) p e = Inr q
               \<and> de_payload e = written payload))
     (\<lambda>_. grown S R holds saved es0)"
  unfolding triple_def
proof (intro allI impI)
  fix w assume "at_end S R holds saved es0 p w"
  then obtain t fs where rec: "recoverable S R holds saved (es0 @ fs) w"
      and rep: "replay (sv_externals S) (sv_encoder S) R t (es0 @ fs) = Inr p"
    by (auto simp: at_end_def)
  from rec have held: "holds w (es0 @ fs)" by (simp add: recoverable_def)
  obtain a v where app: "sv_append S R payload w = (a, v)" by fastforce
  show "case append_applied S R payload p w of
      (Inl e, u) \<Rightarrow> grown S R holds saved es0 u
    | (Inr q, u) \<Rightarrow> at_end S R holds saved es0 q u
        \<and> (\<exists>e. event_apply (sv_externals S) (sv_encoder S) p e = Inr q
               \<and> de_payload e = written payload)"
  proof (cases a)
    case (Inl x)
    with append_failed [OF held] app have "recoverable S R holds saved (es0 @ fs) v"
      by (blast intro: recoverable_same [OF rec])
    with app Inl show ?thesis by (auto simp: append_applied_def then_do_def grown_def)
  next
    case (Inr e)
    with append_done [OF held] app have v: "holds v ((es0 @ fs) @ [e])" "saved v = saved w"
        "de_payload e = written payload" by auto
    have rec_v: "recoverable S R holds saved (es0 @ (fs @ [e])) v"
      using recoverable_extend [OF rec v(1,2)] by simp
    show ?thesis
    proof (cases "event_apply (sv_externals S) (sv_encoder S) p e")
      case (Inl x)
      with app \<open>a = Inr e\<close> rec_v show ?thesis unfolding grown_def
        by (auto simp: append_applied_def step_eval lift_domain_def)
    next
      case (Inr q)
      have "at_end S R holds saved es0 q v"
        using rec_v replay_snoc [OF rep Inr] unfolding at_end_def by auto
      with app \<open>a = Inr e\<close> Inr v(3) show ?thesis
        by (auto simp: append_applied_def step_eval lift_domain_def)
    qed
  qed
qed

lemma attempt_interrupted:
  assumes "recovery_payloads_kept written"
  shows "triple (\<lambda>w. at_end S R holds saved es0 p w \<and> open_keys p \<subseteq> insert (n, c, a) K)
     (append_applied S R (NodeInterrupted n c a t) p)
     (\<lambda>q w. at_end S R holds saved es0 q w \<and> open_keys q \<subseteq> K) (\<lambda>_. grown S R holds saved es0)"
  unfolding triple_def
proof (intro allI impI)
  fix w assume w: "at_end S R holds saved es0 p w \<and> open_keys p \<subseteq> insert (n, c, a) K"
  have closed: "open_keys q \<subseteq> K" if "event_apply (sv_externals S) (sv_encoder S) p e = Inr q"
      and "de_payload e = written (NodeInterrupted n c a t)" for e q
    using interrupted_open_keys [OF that(1) _ at_end_wf] that(2) assms w
    by (fastforce simp: recovery_payloads_kept_def)
  obtain r v where run: "append_applied S R (NodeInterrupted n c a t) p w = (r, v)" by fastforce
  with append_applied_triple [of es0 p "NodeInterrupted n c a t"] w closed
  show "case append_applied S R (NodeInterrupted n c a t) p w of
      (Inl e, u) \<Rightarrow> grown S R holds saved es0 u
    | (Inr q, u) \<Rightarrow> at_end S R holds saved es0 q u \<and> open_keys q \<subseteq> K"
    unfolding triple_def by (cases r) fastforce+
qed

lemma attempts_interrupted:
  assumes "recovery_payloads_kept written"
  shows "triple (\<lambda>w. at_end S R holds saved es0 p w \<and> open_keys p \<subseteq> set keys)
     (fold_each (\<lambda>(n, c, a). append_applied S R (NodeInterrupted n c a t)) keys p)
     (\<lambda>q w. at_end S R holds saved es0 q w \<and> open_keys q = {}) (\<lambda>_. grown S R holds saved es0)"
proof (induction keys arbitrary: p)
  case Nil
  show ?case by (auto intro: triple_ok)
next
  case (Cons k keys)
  obtain n c a where k: "k = (n, c, a)" by (cases k)
  have "triple (\<lambda>w. at_end S R holds saved es0 p w \<and> open_keys p \<subseteq> set (k # keys))
      (then_do (append_applied S R (NodeInterrupted n c a t) p) (\<lambda>q.
        fold_each (\<lambda>(n, c, a). append_applied S R (NodeInterrupted n c a t)) keys q))
      (\<lambda>q w. at_end S R holds saved es0 q w \<and> open_keys q = {}) (\<lambda>_. grown S R holds saved es0)"
    using attempt_interrupted [OF assms, of es0 p n c a "set keys" t]
    by (intro triple_then [OF _ Cons.IH]) (simp add: k)
  then show ?case by (simp add: k)
qed

lemma attempts_untouched:
  assumes "marks_recovery (written payload)"
  shows "triple (\<lambda>w. at_end S R holds saved es0 p w \<and> open_keys p \<subseteq> K)
     (append_applied S R payload p)
     (\<lambda>q w. at_end S R holds saved es0 q w \<and> open_keys q \<subseteq> K) (\<lambda>_. grown S R holds saved es0)"
  unfolding triple_def
proof (intro allI impI)
  fix w assume w: "at_end S R holds saved es0 p w \<and> open_keys p \<subseteq> K"
  have same: "open_keys q \<subseteq> K" if "event_apply (sv_externals S) (sv_encoder S) p e = Inr q"
      and "de_payload e = written payload" for e q
    using open_keys_attempts [OF applied_attempts_frame [OF that(1)]] that(2) assms w by simp
  obtain r v where run: "append_applied S R payload p w = (r, v)" by fastforce
  with append_applied_triple [of es0 p payload] w same
  show "case append_applied S R payload p w of
      (Inl e, u) \<Rightarrow> grown S R holds saved es0 u
    | (Inr q, u) \<Rightarrow> at_end S R holds saved es0 q u \<and> open_keys q \<subseteq> K"
    unfolding triple_def by (cases r) fastforce+
qed

lemma candidate_interrupted:
  assumes "recovery_payloads_kept written"
  shows "triple (\<lambda>w. at_end S R holds saved es0 p w \<and> open_keys p \<subseteq> K)
     (interrupt_candidate S R c p)
     (\<lambda>q w. at_end S R holds saved es0 q w \<and> open_keys q \<subseteq> K) (\<lambda>_. grown S R holds saved es0)"
proof -
  have "marks_recovery (written (CandidateStatusChanged c s t r))" for s t r
    using assms by (simp add: recovery_payloads_kept_def marks_recovery_def)
  then show ?thesis unfolding interrupt_candidate_def
    by (auto split: option.split intro!: attempts_untouched triple_ok)
qed

lemma now_asked:
  "triple (\<lambda>w. at_end S R holds saved es0 q w \<and> open_keys q \<subseteq> K) (ask (sv_now S))
     (\<lambda>_ w. at_end S R holds saved es0 q w \<and> open_keys q \<subseteq> K) (\<lambda>_. grown S R holds saved es0)"
  unfolding triple_def
proof (intro allI impI)
  fix w assume w: "at_end S R holds saved es0 q w \<and> open_keys q \<subseteq> K"
  obtain t v where now: "sv_now S w = (t, v)" by fastforce
  with leaves_run_at_end [OF ports_leave_run(6)] w have "at_end S R holds saved es0 q v" by fastforce
  with w now show "case ask (sv_now S) w of
      (Inl e, u) \<Rightarrow> grown S R holds saved es0 u
    | (Inr a, u) \<Rightarrow> at_end S R holds saved es0 q u \<and> open_keys q \<subseteq> K"
    by (simp add: ask_def)
qed

lemma interrupt_attempts_triple:
  assumes "recovery_payloads_kept written"
  shows "triple (\<lambda>w. at_end S R holds saved es0 p w \<and> open_keys p \<subseteq> set keys)
     (interrupt_attempts S R keys n p)
     (\<lambda>q w. at_end S R holds saved es0 q w \<and> open_keys q \<subseteq> {}) (\<lambda>_. grown S R holds saved es0)"
proof -
  have marks: "marks_recovery (written (RecoveryStarted i k))"
      "marks_recovery (written (RecoveryCompleted i f))" for i k f
    using assms by (simp_all add: recovery_payloads_kept_def marks_recovery_def)
  have closed: "triple (\<lambda>w. at_end S R holds saved es0 p w \<and> open_keys p \<subseteq> set keys)
     (fold_each (\<lambda>(n, c, a). append_applied S R (NodeInterrupted n c a t)) keys p)
     (\<lambda>q w. at_end S R holds saved es0 q w \<and> open_keys q \<subseteq> {}) (\<lambda>_. grown S R holds saved es0)" for p t
    using attempts_interrupted [OF assms] by simp
  show ?thesis unfolding interrupt_attempts_def
    by (intro triple_then [OF attempts_untouched [OF marks(1)]] triple_then [OF now_asked]
        triple_then [OF closed] triple_then [OF triple_fold_each [OF candidate_interrupted [OF assms]]]
        attempts_untouched [OF marks(2)])
qed

text \<open>The projection a recovery starts from: the stored one, or the empty one.\<close>

lemma leaves_run_recoverable:
  assumes "leaves_run holds saved f" and "recoverable S R holds saved es w" and "f w = (r, v)"
  shows "recoverable S R holds saved es v \<and> saved v = saved w"
proof -
  from assms(2) have "holds w es" by (simp add: recoverable_def)
  with assms(1,3) have "holds v es" "saved v = saved w" unfolding leaves_run_def by force+
  then show ?thesis using recoverable_same [OF assms(2)] by blast
qed

lemma stored_projection_triple:
  "triple (recoverable S R holds saved es) (stored_projection S R)
     (\<lambda>p w. recoverable S R holds saved es w \<and> (\<exists>t k. k \<le> length es
        \<and> replay (sv_externals S) (sv_encoder S) R t (take k es) = Inr p))
     (\<lambda>_. recoverable S R holds saved es)"
  unfolding triple_def
proof (intro allI impI)
  fix w assume rec: "recoverable S R holds saved es w"
  obtain r v where verified: "sv_verify_chain S R w = (r, v)" by fastforce
  note v = leaves_run_recoverable [OF reads_leave_run(1) rec verified]
  obtain l u where loaded: "sv_load S R v = (l, u)" by fastforce
  note u = leaves_run_recoverable [OF reads_leave_run(2) conjunct1 [OF v] loaded]
  obtain now x where asked: "sv_now S u = (now, x)" by fastforce
  note x = leaves_run_recoverable [OF ports_leave_run(6) conjunct1 [OF u] asked]
  have stored: "\<exists>t k. k \<le> length es \<and> replay (sv_externals S) (sv_encoder S) R t (take k es) = Inr p"
    if "l = Inr (Some p)" for p
  proof -
    have "saved v = Some p"
      using load_done [of v es] v that loaded by (auto simp: recoverable_def)
    with v show ?thesis by (auto simp: recoverable_def)
  qed
  have fresh: "\<exists>t k. k \<le> length es \<and> replay (sv_externals S) (sv_encoder S) R t (take k es)
      = Inr (genesis (sv_externals S) R now)"
    by (intro exI [of _ now] exI [of _ 0]) (simp add: replay_def)
  show "case stored_projection S R w of
      (Inl e, z) \<Rightarrow> recoverable S R holds saved es z
    | (Inr p, z) \<Rightarrow> recoverable S R holds saved es z \<and> (\<exists>t k. k \<le> length es
        \<and> replay (sv_externals S) (sv_encoder S) R t (take k es) = Inr p)"
  proof (cases r)
    case (Inl e)
    with verified v show ?thesis by (simp add: stored_projection_def then_do_def)
  next
    case (Inr verification)
    show ?thesis
    proof (cases l)
      case (Inl e)
      with verified \<open>r = Inr verification\<close> loaded u show ?thesis
        by (simp add: stored_projection_def then_do_def)
    next
      case (Inr found)
      show ?thesis
      proof (cases found)
        case None
        with verified \<open>r = Inr verification\<close> loaded \<open>l = Inr found\<close> asked x fresh show ?thesis
          by (auto simp: stored_projection_def step_eval ask_def)
      next
        case (Some p)
        with verified \<open>r = Inr verification\<close> loaded \<open>l = Inr found\<close> u stored [of p] show ?thesis
          by (auto simp: stored_projection_def step_eval)
      qed
    qed
  qed
qed

text \<open>Reading the rest of the log and applying it gives the replay of the whole log.\<close>

lemma caught_up_triple:
  assumes "k \<le> length es" and "replay (sv_externals S) (sv_encoder S) R t (take k es) = Inr p"
  shows "triple (recoverable S R holds saved es)
     (then_do (sv_read_after S R (rp_last_event_sequence p)) (\<lambda>pending.
        lift_result (lift_domain (replay_from (sv_externals S) (sv_encoder S) p pending))))
     (\<lambda>caught w. recoverable S R holds saved es w
        \<and> replay (sv_externals S) (sv_encoder S) R t es = Inr (fst caught))
     (\<lambda>_. recoverable S R holds saved es)"
  unfolding triple_def
proof (intro allI impI)
  fix w assume rec: "recoverable S R holds saved es w"
  then have held: "holds w es" by (simp add: recoverable_def)
  have last: "rp_last_event_sequence p = of_nat k"
    using applied_sequence [OF assms(2) [unfolded replay_def]] assms(1) by (simp add: genesis_fields)
  obtain r v where read: "sv_read_after S R (rp_last_event_sequence p) w = (r, v)" by fastforce
  note v = leaves_run_recoverable [OF reads_leave_run(3) rec read]
  have bound: "length es < 2 ^ 64" by (rule holds_bounded [OF held])
  have "chain_verified (sv_externals S) (sv_encoder S) 0 genesis_hash (take k es @ drop k es)"
    using holds_chain [OF held] by simp
  then have chain: "chain_verified (sv_externals S) (sv_encoder S) (rp_last_event_sequence p)
      (chain_end (sv_externals S) genesis_hash (take k es)) (drop k es)"
    unfolding chain_verified_append using assms(1) by (simp add: last)
  have small: "unat (rp_last_event_sequence p) + length (drop k es) < 2 ^ 64"
    using bound assms(1) by (simp add: last unat_of_nat take_bit_nat_eq_self)
  have whole: "replay (sv_externals S) (sv_encoder S) R t es = Inr (fst caught)"
    if "r = Inr fs" and "replay_from (sv_externals S) (sv_encoder S) p fs = Inr caught" for fs caught
  proof -
    have "fs = drop k es" using read_done [OF held assms(1)] read that(1) by (simp add: last)
    with that(2) have "try_fold (replay_from_step (sv_externals S) (sv_encoder S)) (p, 0) (drop k es)
        = Inr (fst caught, snd caught)" by (simp add: replay_from_def)
    then have "try_fold (event_apply (sv_externals S) (sv_encoder S)) p (drop k es)
        = Inr (fst caught)" using replay_from_applied [OF chain small] by blast
    with assms(2) have "replay (sv_externals S) (sv_encoder S) R t (take k es @ drop k es)
        = Inr (fst caught)" unfolding replay_def try_fold_append by simp
    then show ?thesis by simp
  qed
  show "case then_do (sv_read_after S R (rp_last_event_sequence p)) (\<lambda>pending.
        lift_result (lift_domain (replay_from (sv_externals S) (sv_encoder S) p pending))) w of
      (Inl e, z) \<Rightarrow> recoverable S R holds saved es z
    | (Inr caught, z) \<Rightarrow> recoverable S R holds saved es z
        \<and> replay (sv_externals S) (sv_encoder S) R t es = Inr (fst caught)"
    using read v whole
    by (cases r) (auto simp: then_do_def lift_result_def lift_domain_def map_err_Inr
        split: sum.split elim!: map_err.elims)
qed

text \<open>Storing the result.\<close>

lemma explained_fields [simp]:
  "rp_run_id (explained p) = rp_run_id p" "open_attempts (explained p) = open_attempts p"
  by (simp_all add: explained_def open_attempts_def)

lemma stored_triple:
  assumes "q = p \<or> q = explained p"
  shows "triple (at_end S R holds saved es p) (sv_store S q)
     (\<lambda>_ w. \<exists>t fs. holds w (es @ fs) \<and> saved w = Some q
        \<and> replay (sv_externals S) (sv_encoder S) R t (es @ fs) = Inr p)
     (\<lambda>_ w. \<exists>fs. holds w (es @ fs))"
  unfolding triple_def
proof (intro allI impI)
  fix w assume "at_end S R holds saved es p w"
  then obtain t fs where rec: "recoverable S R holds saved (es @ fs) w"
      and rep: "replay (sv_externals S) (sv_encoder S) R t (es @ fs) = Inr p"
    by (auto simp: at_end_def)
  then have held: "holds w (es @ fs)" by (simp add: recoverable_def)
  have run: "rp_run_id q = R" using replay_run_id [OF rep] assms by auto
  obtain r v where "sv_store S q w = (r, v)" by fastforce
  with store_done [OF held run] store_failed [OF held run] rep
  show "case sv_store S q w of
      (Inl e, u) \<Rightarrow> \<exists>fs. holds u (es @ fs)
    | (Inr a, u) \<Rightarrow> \<exists>t fs. holds u (es @ fs) \<and> saved u = Some q
        \<and> replay (sv_externals S) (sv_encoder S) R t (es @ fs) = Inr p"
    by (cases r) fastforce+
qed

lemma metrics_stored_triple:
  "triple (\<lambda>w. \<exists>t fs. holds w (es @ fs) \<and> saved w = Some q
        \<and> replay (sv_externals S) (sv_encoder S) R t (es @ fs) = Inr p)
     (sv_store_metrics S R q)
     (\<lambda>_ w. \<exists>t fs. holds w (es @ fs) \<and> saved w = Some q
        \<and> replay (sv_externals S) (sv_encoder S) R t (es @ fs) = Inr p)
     (\<lambda>_ w. \<exists>fs. holds w (es @ fs))"
  unfolding triple_def
proof (intro allI impI)
  fix w assume "\<exists>t fs. holds w (es @ fs) \<and> saved w = Some q
        \<and> replay (sv_externals S) (sv_encoder S) R t (es @ fs) = Inr p"
  then obtain t fs where held: "holds w (es @ fs)" "saved w = Some q"
      and rep: "replay (sv_externals S) (sv_encoder S) R t (es @ fs) = Inr p" by blast
  obtain r v where m: "sv_store_metrics S R q w = (r, v)" by fastforce
  have "holds v (es @ fs)" "saved v = Some q"
    using ports_leave_run(1) [of q] held m unfolding leaves_run_def by (metis snd_conv)+
  with m rep show "case sv_store_metrics S R q w of
      (Inl e, u) \<Rightarrow> \<exists>fs. holds u (es @ fs)
    | (Inr a, u) \<Rightarrow> \<exists>t fs. holds u (es @ fs) \<and> saved u = Some q
        \<and> replay (sv_externals S) (sv_encoder S) R t (es @ fs) = Inr p"
    by (cases r) fastforce+
qed

text \<open>The result of a recovery, and what a failed one leaves behind.\<close>

lemma finish_recovery_triple:
  assumes "recovery_payloads_kept written"
  shows "triple (at_end S R holds saved es projection)
     (finish_recovery S R projection replayed)
     (\<lambda>p w. open_attempts p = [] \<and> (\<exists>t fs q. holds w (es @ fs) \<and> saved w = Some p
        \<and> replay (sv_externals S) (sv_encoder S) R t (es @ fs) = Inr q
        \<and> (p = q \<or> p = explained q)))
     (\<lambda>_ w. \<exists>fs. holds w (es @ fs))"
proof -
  let ?attempts = "map attempt_key (open_attempts projection)"
  let ?Q = "\<lambda>p w. open_attempts p = [] \<and> (\<exists>t fs q. holds w (es @ fs) \<and> saved w = Some p
        \<and> replay (sv_externals S) (sv_encoder S) R t (es @ fs) = Inr q \<and> (p = q \<or> p = explained q))"
  let ?E = "\<lambda>_ w. \<exists>fs. holds w (es @ fs)"
  have none: "open_keys p \<subseteq> {} \<longleftrightarrow> open_attempts p = []" for p
    by (simp add: open_keys_def)
  have quick: "triple (at_end S R holds saved es projection)
      (then_do (sv_store S projection) (\<lambda>_. ok projection)) ?Q ?E" if "?attempts = []"
    by (rule triple_then [OF stored_triple]) (use that in \<open>auto intro: triple_ok\<close>)
  have done_up: "triple (\<lambda>w. at_end S R holds saved es p w \<and> open_keys p \<subseteq> {})
      (then_do (sv_store S (explained p)) (\<lambda>_.
         then_do (sv_store_metrics S R (explained p)) (\<lambda>_. ok (explained p)))) ?Q ?E" for p
  proof (cases "open_keys p \<subseteq> {}")
    case True
    have "triple (at_end S R holds saved es p) (then_do (sv_store S (explained p)) (\<lambda>_.
         then_do (sv_store_metrics S R (explained p)) (\<lambda>_. ok (explained p)))) ?Q ?E"
      by (intro triple_then [OF stored_triple] triple_then [OF metrics_stored_triple] triple_ok)
        (use True none in auto)
    then show ?thesis by (rule triple_weaken) auto
  qed (simp add: triple_def)
  have first: "triple (at_end S R holds saved es projection)
      (if ?attempts = [] then ok projection else interrupt_attempts S R ?attempts replayed projection)
      (\<lambda>p w. at_end S R holds saved es p w \<and> open_keys p \<subseteq> {}) ?E"
  proof (cases "?attempts = []")
    case True
    then have "open_keys projection \<subseteq> {}" by (simp add: open_keys_def)
    then have "triple (at_end S R holds saved es projection) (ok projection)
        (\<lambda>p w. at_end S R holds saved es p w \<and> open_keys p \<subseteq> {}) ?E"
      by (intro triple_ok conjI)
    then show ?thesis by (simp only: True refl if_True)
  next
    case False
    have keys: "open_keys projection \<subseteq> set ?attempts" by (simp add: open_keys_def)
    have held: "\<exists>fs. holds w (es @ fs)" if "grown S R holds saved es w" for w
      using that by (auto simp: grown_def recoverable_def)
    have "triple (at_end S R holds saved es projection)
        (interrupt_attempts S R ?attempts replayed projection)
        (\<lambda>p w. at_end S R holds saved es p w \<and> open_keys p \<subseteq> {}) ?E"
      by (rule triple_weaken [OF interrupt_attempts_triple [OF assms]]) (use keys held in auto)
    with False show ?thesis by (simp only: if_False)
  qed
  show ?thesis unfolding finish_recovery_def Let_def
    by (intro triple_if quick triple_then [OF first] done_up) simp
qed

lemma recover_triple:
  assumes "recovery_payloads_kept written"
  shows "triple (recoverable S R holds saved es) (recover S R)
     (\<lambda>p w. open_attempts p = [] \<and> (\<exists>t fs q. holds w (es @ fs) \<and> saved w = Some p
        \<and> replay (sv_externals S) (sv_encoder S) R t (es @ fs) = Inr q
        \<and> (p = q \<or> p = explained q)))
     (\<lambda>_ w. \<exists>fs. holds w (es @ fs))"
proof -
  have same: "\<exists>fs. holds w (es @ fs)" if "recoverable S R holds saved es w" for w
    using that by (intro exI [of _ "[]"]) (simp add: recoverable_def)
  have caught: "triple (\<lambda>w. recoverable S R holds saved es w \<and> (\<exists>t k. k \<le> length es
        \<and> replay (sv_externals S) (sv_encoder S) R t (take k es) = Inr p))
     (then_do (sv_read_after S R (rp_last_event_sequence p)) (\<lambda>pending.
        lift_result (lift_domain (replay_from (sv_externals S) (sv_encoder S) p pending))))
     (\<lambda>caught w. at_end S R holds saved es (fst caught) w)
     (\<lambda>_ w. \<exists>fs. holds w (es @ fs))" for p
  proof (cases "\<exists>t k. k \<le> length es
      \<and> replay (sv_externals S) (sv_encoder S) R t (take k es) = Inr p")
    case True
    then obtain t k where "k \<le> length es"
        and "replay (sv_externals S) (sv_encoder S) R t (take k es) = Inr p" by blast
    from caught_up_triple [OF this] show ?thesis
      by (rule triple_weaken) (use same at_end_whole in auto)
  next
    case False
    then show ?thesis unfolding triple_def by blast
  qed
  have "recover S R = then_do (stored_projection S R) (\<lambda>projection.
      then_do (then_do (sv_read_after S R (rp_last_event_sequence projection)) (\<lambda>pending.
          lift_result (lift_domain
            (replay_from (sv_externals S) (sv_encoder S) projection pending))))
        (\<lambda>caught. finish_recovery S R (fst caught) (snd caught)))"
    by (simp only: recover_def then_do_assoc)
  moreover have "triple (recoverable S R holds saved es) (stored_projection S R)
      (\<lambda>p w. recoverable S R holds saved es w \<and> (\<exists>t k. k \<le> length es
         \<and> replay (sv_externals S) (sv_encoder S) R t (take k es) = Inr p))
      (\<lambda>_ w. \<exists>fs. holds w (es @ fs))"
    by (rule triple_weaken [OF stored_projection_triple]) (use same in auto)
  ultimately show ?thesis
    by (simp only:) (intro triple_then [OF _ triple_then [OF caught]]
        finish_recovery_triple [OF assms])
qed

end

end
