(* ===== verification/Forge_Redaction.thy ===== *)
theory Forge_Redaction
  imports Forge_Configuration Forge_Node
begin

text \<open>
  \<open>crates/infrastructure/src/redaction.rs\<close>: secrets are replaced in text by literals taken from the
  environment, by patterns, and by the home directory; documents are redacted leaf by leaf. A
  pattern is what the regex crate makes of it: a function that replaces every match by the
  placeholder. The environment is a function from names to values.
\<close>

definition redaction_placeholder :: string where "redaction_placeholder = ''[redacted]''"

text \<open>\<open>str::replace\<close> with a pattern that is not empty.\<close>

function replace_str :: "string \<Rightarrow> string \<Rightarrow> string \<Rightarrow> string" where
  "replace_str p r s =
     (if s = [] then []
      else if p \<noteq> [] \<and> starts_with p s then r @ replace_str p r (drop (length p) s)
      else hd s # replace_str p r (tl s))"
  by pat_completeness auto
termination by (relation "measure (\<lambda>(p, r, s). length s)") auto

declare replace_str.simps [simp del]

text \<open>\<open>str::from_utf8(..).is_ok()\<close>.\<close>

definition byte_in :: "nat \<Rightarrow> nat \<Rightarrow> char \<Rightarrow> bool" where
  "byte_in low high c \<longleftrightarrow> low \<le> byte c \<and> byte c \<le> high"

fun utf8_valid :: "string \<Rightarrow> bool" where
  "utf8_valid [] \<longleftrightarrow> True"
| "utf8_valid (a # s) \<longleftrightarrow>
     (if byte a < 128 then utf8_valid s
      else case s of
        [] \<Rightarrow> False
      | b # t \<Rightarrow>
          if byte_in 194 223 a then byte_in 128 191 b \<and> utf8_valid t
          else case t of
            [] \<Rightarrow> False
          | c # u \<Rightarrow>
              if byte_in 224 239 a
              then byte_in (if byte a = 224 then 160 else 128) (if byte a = 237 then 159 else 191) b
                   \<and> byte_in 128 191 c \<and> utf8_valid u
              else case u of
                [] \<Rightarrow> False
              | d # v \<Rightarrow>
                  byte_in 240 244 a
                  \<and> byte_in (if byte a = 240 then 144 else 128) (if byte a = 244 then 143 else 191) b
                  \<and> byte_in 128 191 c \<and> byte_in 128 191 d \<and> utf8_valid v)"

section \<open>The redactor\<close>

type_synonym regex_crate = "string \<Rightarrow> (string \<Rightarrow> string) option"

record pattern_redactor =
  px_literals :: "string list"
  px_patterns :: "(string \<Rightarrow> string) list"
  px_home_prefix :: "string option"

definition default_pattern_texts :: "string list" where
  "default_pattern_texts =
     [''gh[pousr]_[A-Za-z0-9]{16,}'',
      ''github_pat_[A-Za-z0-9_]{20,}'',
      ''sk-[A-Za-z0-9'' @ [chr 92] @ ''-_]{16,}'',
      ''sk-ant-[A-Za-z0-9'' @ [chr 92] @ ''-_]{16,}'',
      ''xox[baprs]-[A-Za-z0-9'' @ [chr 92] @ ''-]{10,}'',
      ''AKIA[0-9A-Z]{16}'',
      ''AIza[0-9A-Za-z'' @ [chr 92] @ ''-_]{35}'',
      ''-----BEGIN [A-Z ]*PRIVATE KEY-----['' @ [chr 92] @ ''s'' @ [chr 92]
        @ ''S]*?-----END [A-Z ]*PRIVATE KEY-----'',
      ''eyJ[A-Za-z0-9_'' @ [chr 92] @ ''-]{10,}'' @ [chr 92] @ ''.[A-Za-z0-9_'' @ [chr 92]
        @ ''-]{10,}'' @ [chr 92] @ ''.[A-Za-z0-9_'' @ [chr 92] @ ''-]{10,}'',
      ''(?i)'' @ [chr 92] @ ''b(?:authorization|api[-_]?key|token|secret|password|passphrase|''
        @ ''credential)'' @ [chr 92] @ ''s*[:=]'' @ [chr 92] @ ''s*(?:bearer'' @ [chr 92]
        @ ''s+|token'' @ [chr 92] @ ''s+|basic'' @ [chr 92] @ ''s+)?['' @ [chr 39, chr 92]
        @ ''x22]?[A-Za-z0-9/+_'' @ [chr 92] @ ''-'' @ [chr 92] @ ''.=]{12,}['' @ [chr 39, chr 92]
        @ ''x22]?'',
      ''(?i)'' @ [chr 92] @ ''b(?:bearer|basic)'' @ [chr 92] @ ''s+[A-Za-z0-9'' @ [chr 92] @ ''-''
        @ [chr 92] @ ''._~+/]{12,}={0,2}'',
      ''[A-Za-z][A-Za-z0-9+.'' @ [chr 92] @ ''-]*://[^'' @ [chr 92] @ ''s/'' @ [CHR ''@'']
        @ '':]+:[^'' @ [chr 92] @ ''s/'' @ [CHR ''@''] @ '']+'' @ [CHR ''@''] @ ''[^'' @ [chr 92]
        @ ''s]+'']"

definition default_patterns :: "regex_crate \<Rightarrow> (string \<Rightarrow> string) list" where
  "default_patterns regex = List.map_filter regex default_pattern_texts"

text \<open>A \<open>BTreeSet\<close> of strings, in the order of its elements.\<close>

fun bytes_less :: "string \<Rightarrow> string \<Rightarrow> bool" where
  "bytes_less [] t \<longleftrightarrow> t \<noteq> []"
| "bytes_less (a # s) [] \<longleftrightarrow> False"
| "bytes_less (a # s) (b # t) \<longleftrightarrow> byte a < byte b \<or> (byte a = byte b \<and> bytes_less s t)"

fun insert_string :: "string \<Rightarrow> string list \<Rightarrow> string list" where
  "insert_string x [] = [x]"
| "insert_string x (y # ys) =
     (if x = y then y # ys else if bytes_less x y then x # y # ys else y # insert_string x ys)"

definition secret_literals :: "(string \<Rightarrow> string option) \<Rightarrow> string list \<Rightarrow> string list" where
  "secret_literals env names =
     fold (\<lambda>name literals.
       case env name of
         Some v \<Rightarrow> if 8 \<le> length (trim v) then insert_string (trim v) literals else literals
       | None \<Rightarrow> literals) names []"

definition redactor_new ::
    "regex_crate \<Rightarrow> (string \<Rightarrow> string option) \<Rightarrow> string list \<Rightarrow> string list \<Rightarrow> string option
      \<Rightarrow> pattern_redactor" where
  "redactor_new regex env secret_variables additional home_prefix =
     \<lparr>px_literals = secret_literals env secret_variables,
      px_patterns = default_patterns regex @ List.map_filter regex additional,
      px_home_prefix = home_prefix\<rparr>"

definition redactor_for_configuration ::
    "regex_crate \<Rightarrow> (string \<Rightarrow> string option) \<Rightarrow> redaction_configuration \<Rightarrow> pattern_redactor" where
  "redactor_for_configuration regex env configuration =
     redactor_new regex env (rc_secret_environment_variables configuration)
       (rc_additional_patterns configuration)
       (if rc_redact_home_prefix configuration
        then (case env ''HOME'' of Some home \<Rightarrow> Some home | None \<Rightarrow> env ''USERPROFILE'')
        else None)"

definition redactor_without_environment :: "regex_crate \<Rightarrow> pattern_redactor" where
  "redactor_without_environment regex =
     \<lparr>px_literals = [], px_patterns = default_patterns regex, px_home_prefix = None\<rparr>"

definition redact_literal :: "string \<Rightarrow> string \<Rightarrow> string" where
  "redact_literal literal text =
     (if contains_str literal text then replace_str literal redaction_placeholder text else text)"

definition redact_home :: "string option \<Rightarrow> string \<Rightarrow> string" where
  "redact_home home_prefix text =
     (case home_prefix of
        Some home \<Rightarrow>
          if home \<noteq> [] \<and> contains_str home text then replace_str home ''~'' text else text
      | None \<Rightarrow> text)"

definition redact_text :: "pattern_redactor \<Rightarrow> string \<Rightarrow> string" where
  "redact_text self text =
     redact_home (px_home_prefix self)
       (fold (\<lambda>pattern t. pattern t) (px_patterns self)
         (fold redact_literal (px_literals self) text))"

definition redact_bytes :: "pattern_redactor \<Rightarrow> string \<Rightarrow> string" where
  "redact_bytes self bytes = (if utf8_valid bytes then redact_text self bytes else bytes)"

definition sensitive_needles :: "string list" where
  "sensitive_needles =
     [''password'', ''passphrase'', ''secret'', ''token'', ''api_key'', ''apikey'', ''authorization'',
      ''credential'', ''private_key'', ''session'']"

definition is_sensitive_key :: "string \<Rightarrow> bool" where
  "is_sensitive_key key \<longleftrightarrow>
     list_ex (\<lambda>needle. contains_str needle (to_ascii_lowercase key)) sensitive_needles"

fun redact_json :: "pattern_redactor \<Rightarrow> json_value \<Rightarrow> json_value" where
  "redact_json self (JString text) = JString (redact_text self text)"
| "redact_json self (JArray items) = JArray (map (redact_json self) items)"
| "redact_json self (JObject entries) =
     JObject (map (\<lambda>(key, entry).
       if is_sensitive_key key then (key, JString redaction_placeholder)
       else (key, redact_json self entry)) entries)"
| "redact_json self JNull = JNull"
| "redact_json self (JBool b) = JBool b"
| "redact_json self (JNumber n) = JNumber n"

fun redact_text_leaves :: "(string \<Rightarrow> string) \<Rightarrow> json_value \<Rightarrow> json_value" where
  "redact_text_leaves redact (JString text) = JString (redact text)"
| "redact_text_leaves redact (JArray items) = JArray (map (redact_text_leaves redact) items)"
| "redact_text_leaves redact (JObject entries) =
     JObject (map (\<lambda>(key, entry). (key, redact_text_leaves redact entry)) entries)"
| "redact_text_leaves redact JNull = JNull"
| "redact_text_leaves redact (JBool b) = JBool b"
| "redact_text_leaves redact (JNumber n) = JNumber n"

section \<open>What redaction keeps and what it hides\<close>

text \<open>The value of every entry with a sensitive name is the placeholder, at every depth.\<close>

fun hides_sensitive :: "json_value \<Rightarrow> bool" where
  "hides_sensitive (JArray items) \<longleftrightarrow> list_all hides_sensitive items"
| "hides_sensitive (JObject entries) \<longleftrightarrow>
     list_all (\<lambda>(key, entry). if is_sensitive_key key then entry = JString redaction_placeholder
                              else hides_sensitive entry) entries"
| "hides_sensitive (JString s) \<longleftrightarrow> True"
| "hides_sensitive JNull \<longleftrightarrow> True"
| "hides_sensitive (JBool b) \<longleftrightarrow> True"
| "hides_sensitive (JNumber n) \<longleftrightarrow> True"

lemma redact_json_hides: "hides_sensitive (redact_json self v)"
  by (induction self v rule: redact_json.induct)
    (auto simp: list_all_iff split: prod.splits if_splits)

text \<open>A document with its texts erased: redaction keeps names, order, numbers and shape.\<close>

definition json_shape :: "json_value \<Rightarrow> json_value" where
  "json_shape v = redact_text_leaves (\<lambda>_. []) v"

lemma redact_text_leaves_compose:
  "redact_text_leaves f (redact_text_leaves g v) = redact_text_leaves (f \<circ> g) v"
  by (induction v) auto

lemma redact_text_leaves_shape: "json_shape (redact_text_leaves redact v) = json_shape v"
  unfolding json_shape_def redact_text_leaves_compose comp_def ..

lemma replace_str_absent: "\<not> contains_str p s \<Longrightarrow> replace_str p r s = s"
proof (induction s)
  case Nil
  show ?case by (simp add: replace_str.simps)
next
  case (Cons c s)
  have "\<not> starts_with p (c # s)" and "\<not> contains_str p s" using Cons.prems by simp_all
  with Cons.IH show ?case by (subst replace_str.simps) simp
qed

end
