(* ===== verification/Forge_Files.thy ===== *)
theory Forge_Files
  imports Forge_Recovery Forge_Redaction Forge_Ranking
begin

text \<open>
  \<open>layout.rs\<close>, \<open>atomic.rs\<close> and the files of a run. A path is the list of its components; a file holds
  the value that was written to it, since a JSON document is read by the type it was written with (a
  file of another kind does not decode). The event logs are the \<open>event_log\<close> values of
  \<open>Forge_Event_Log\<close>. What the operating system does (clock, identifiers, how a system call ends) is a
  function of the state of the outside world, so every call may fail.
\<close>

type_synonym path = "string list"

definition path_display :: "path \<Rightarrow> string" where
  "path_display p = join_str ''/'' p"

section \<open>Layout\<close>

definition config_directory :: "path \<Rightarrow> path" where "config_directory base = base @ [''config'']"

definition user_configuration_file :: "path \<Rightarrow> path" where
  "user_configuration_file base = config_directory base @ [''forge.toml'']"

definition runs_directory :: "path \<Rightarrow> path" where "runs_directory base = base @ [''runs'']"

definition run_directory :: "externals \<Rightarrow> path \<Rightarrow> run_id \<Rightarrow> path" where
  "run_directory X base run = runs_directory base @ [run_display X run]"

definition task_file :: "externals \<Rightarrow> path \<Rightarrow> run_id \<Rightarrow> path" where
  "task_file X base run = run_directory X base run @ [''task.md'']"

definition run_descriptor_file :: "externals \<Rightarrow> path \<Rightarrow> run_id \<Rightarrow> path" where
  "run_descriptor_file X base run = run_directory X base run @ [''run.json'']"

definition state_file :: "externals \<Rightarrow> path \<Rightarrow> run_id \<Rightarrow> path" where
  "state_file X base run = run_directory X base run @ [''state.json'']"

definition manifest_file :: "externals \<Rightarrow> path \<Rightarrow> run_id \<Rightarrow> path" where
  "manifest_file X base run = run_directory X base run @ [''manifest.json'']"

definition metrics_file :: "externals \<Rightarrow> path \<Rightarrow> run_id \<Rightarrow> path" where
  "metrics_file X base run = run_directory X base run @ [''metrics.json'']"

definition events_file :: "externals \<Rightarrow> path \<Rightarrow> run_id \<Rightarrow> path" where
  "events_file X base run = run_directory X base run @ [''events.jsonl'']"

definition quarantine_file :: "externals \<Rightarrow> path \<Rightarrow> run_id \<Rightarrow> path" where
  "quarantine_file X base run = run_directory X base run @ [''events.quarantine.jsonl'']"

definition plan_directory :: "externals \<Rightarrow> path \<Rightarrow> run_id \<Rightarrow> path" where
  "plan_directory X base run = run_directory X base run @ [''plan'']"

definition plan_version_file :: "externals \<Rightarrow> path \<Rightarrow> run_id \<Rightarrow> u32 \<Rightarrow> path" where
  "plan_version_file X base run version =
     plan_directory X base run @ [''plan-v'' @ dec version @ ''.md'']"

definition nodes_directory :: "externals \<Rightarrow> path \<Rightarrow> run_id \<Rightarrow> path" where
  "nodes_directory X base run = run_directory X base run @ [''nodes'']"

definition candidates_directory :: "externals \<Rightarrow> path \<Rightarrow> run_id \<Rightarrow> path" where
  "candidates_directory X base run = run_directory X base run @ [''candidates'']"

definition candidate_directory :: "externals \<Rightarrow> path \<Rightarrow> run_id \<Rightarrow> candidate_id \<Rightarrow> path" where
  "candidate_directory X base run candidate = candidates_directory X base run @ [candidate]"

definition integration_directory :: "externals \<Rightarrow> path \<Rightarrow> run_id \<Rightarrow> path" where
  "integration_directory X base run = run_directory X base run @ [''integration'']"

definition artifacts_directory :: "externals \<Rightarrow> path \<Rightarrow> run_id \<Rightarrow> path" where
  "artifacts_directory X base run = run_directory X base run @ [''artifacts'']"

definition artifact_index_file :: "externals \<Rightarrow> path \<Rightarrow> run_id \<Rightarrow> path" where
  "artifact_index_file X base run = artifacts_directory X base run @ [''index.json'']"

definition logs_directory :: "externals \<Rightarrow> path \<Rightarrow> run_id \<Rightarrow> path" where
  "logs_directory X base run = run_directory X base run @ [''logs'']"

definition run_log_file :: "externals \<Rightarrow> path \<Rightarrow> run_id \<Rightarrow> path" where
  "run_log_file X base run = logs_directory X base run @ [''run.jsonl'']"

definition exports_directory :: "externals \<Rightarrow> path \<Rightarrow> run_id \<Rightarrow> path" where
  "exports_directory X base run = run_directory X base run @ [''exports'']"

definition locks_directory :: "externals \<Rightarrow> path \<Rightarrow> run_id \<Rightarrow> path" where
  "locks_directory X base run = run_directory X base run @ [''locks'']"

definition dispatcher_lock_file :: "externals \<Rightarrow> path \<Rightarrow> run_id \<Rightarrow> path" where
  "dispatcher_lock_file X base run = locks_directory X base run @ [''dispatcher.lock'']"

definition worktrees_directory :: "path \<Rightarrow> path" where
  "worktrees_directory base = base @ [''worktrees'']"

definition run_worktrees :: "externals \<Rightarrow> path \<Rightarrow> run_id \<Rightarrow> path" where
  "run_worktrees X base run = worktrees_directory base @ [run_display X run]"

definition candidate_worktree_directory :: "externals \<Rightarrow> path \<Rightarrow> run_id \<Rightarrow> candidate_id \<Rightarrow> path" where
  "candidate_worktree_directory X base run candidate = run_worktrees X base run @ [candidate]"

definition integration_worktree_directory :: "externals \<Rightarrow> path \<Rightarrow> run_id \<Rightarrow> path" where
  "integration_worktree_directory X base run = run_worktrees X base run @ [''integration'']"

lemmas layout_defs = runs_directory_def run_directory_def task_file_def run_descriptor_file_def
  state_file_def manifest_file_def metrics_file_def events_file_def quarantine_file_def
  plan_directory_def plan_version_file_def nodes_directory_def candidates_directory_def
  candidate_directory_def integration_directory_def artifacts_directory_def
  artifact_index_file_def worktrees_directory_def run_worktrees_def
  candidate_worktree_directory_def integration_worktree_directory_def

section \<open>Documents\<close>

record run_descriptor =
  rd_schema_version :: u32
  rd_run_id :: run_id
  rd_created_at :: timestamp
  rd_repository_path :: string
  rd_configuration :: effective_configuration

record stored_artifact =
  sa_id :: content_digest
  sa_label :: string
  sa_relative_path :: string
  sa_media_type :: string
  sa_byte_length :: u64
  sa_truncated :: bool

definition artifact_to_reference :: "stored_artifact \<Rightarrow> artifact_reference" where
  "artifact_to_reference self =
     \<lparr>ar_id = sa_id self, ar_label = sa_label self, ar_relative_path = sa_relative_path self,
      ar_media_type = sa_media_type self, ar_byte_length = sa_byte_length self,
      ar_truncated = sa_truncated self\<rparr>"

definition artifact_index_find ::
    "stored_artifact list \<Rightarrow> content_digest \<Rightarrow> stored_artifact option" where
  "artifact_index_find entries i = find (\<lambda>entry. sa_id entry = i) entries"

record candidate_metrics =
  km_candidate_id :: candidate_id
  km_status :: string
  km_repairs_used :: u32
  km_changed_lines :: u64
  km_changed_files :: u32
  km_gate_duration_ms :: duration_ms

record metrics_document =
  md_schema_version :: u32
  md_run_id :: run_id
  md_last_event_sequence :: u64
  md_metrics :: run_metrics
  md_candidates :: "candidate_metrics list"

text \<open>The trust store of \<open>configuration/trust.rs\<close> is a file beside the runs.\<close>

record trust_document =
  tt_schema_version :: u32
  tt_repositories :: "repository_trust_record list"

datatype stored_file =
    BytesFile string
  | DescriptorFile run_descriptor
  | StateFile run_projection
  | ManifestFile run_manifest
  | MetricsFile metrics_document
  | IndexFile "stored_artifact list"
  | ResultFile node_result
  | JsonFile json_value
  | TestsFile test_evidence
  | ReviewFile aggregated_review
  | RankingFile ranking
  | SelectedFile "candidate_id option" "string list"
  | TrustFile trust_document

fun descriptor_kind :: "stored_file \<Rightarrow> run_descriptor option" where
  "descriptor_kind (DescriptorFile d) = Some d" | "descriptor_kind _ = None"
fun state_kind :: "stored_file \<Rightarrow> run_projection option" where
  "state_kind (StateFile p) = Some p" | "state_kind _ = None"
fun manifest_kind :: "stored_file \<Rightarrow> run_manifest option" where
  "manifest_kind (ManifestFile m) = Some m" | "manifest_kind _ = None"
fun index_kind :: "stored_file \<Rightarrow> stored_artifact list option" where
  "index_kind (IndexFile i) = Some i" | "index_kind _ = None"
fun result_kind :: "stored_file \<Rightarrow> node_result option" where
  "result_kind (ResultFile r) = Some r" | "result_kind _ = None"
fun tests_kind :: "stored_file \<Rightarrow> test_evidence option" where
  "tests_kind (TestsFile t) = Some t" | "tests_kind _ = None"
fun review_kind :: "stored_file \<Rightarrow> aggregated_review option" where
  "review_kind (ReviewFile r) = Some r" | "review_kind _ = None"
fun trust_kind :: "stored_file \<Rightarrow> trust_document option" where
  "trust_kind (TrustFile t) = Some t" | "trust_kind _ = None"
fun bytes_kind :: "stored_file \<Rightarrow> string option" where
  "bytes_kind (BytesFile b) = Some b" | "bytes_kind _ = None"

text \<open>The encoders of the documents that are redacted.\<close>

record document_codec =
  dk_payload_to_json :: "event_payload \<Rightarrow> json_value application_result"
  dk_payload_from_json :: "json_value \<Rightarrow> event_payload application_result"
  dk_file_to_json :: "stored_file \<Rightarrow> json_value application_result"
  dk_file_from_json :: "stored_file \<Rightarrow> json_value \<Rightarrow> stored_file"
  dk_decode_message :: "path \<Rightarrow> string"

section \<open>The operating system\<close>

datatype io_error_kind = NotFound | PermissionDenied | InvalidInput | OtherKind

record io_error =
  io_kind :: io_error_kind
  io_raw :: "int option"
  io_message :: string

text \<open>
  \<open>os_call\<close> is how a system call on a path ends, \<open>os_append_fault\<close> how the calls of an append to a log
  with that content end, \<open>os_temporary\<close> the process identifier and the next counter.
\<close>

record 'e operating_system =
  os_now :: "'e \<Rightarrow> timestamp \<times> 'e"
  os_event_id :: "'e \<Rightarrow> event_id \<times> 'e"
  os_append_fault :: "path \<Rightarrow> string option \<Rightarrow> 'e \<Rightarrow> write_fault option \<times> 'e"
  os_call :: "string \<Rightarrow> path \<Rightarrow> 'e \<Rightarrow> io_error option \<times> 'e"
  os_temporary :: "'e \<Rightarrow> string \<times> 'e"
  os_environment :: "string \<Rightarrow> string option"
  os_regex :: regex_crate

record 'e file_world =
  fw_files :: "(path \<times> stored_file) list"
  fw_directories :: "path list"
  fw_logs :: "run_id \<Rightarrow> event_log"
  fw_redactors :: "run_id \<Rightarrow> pattern_redactor option"
  fw_outside :: 'e

definition file_at :: "path \<Rightarrow> 'e file_world \<Rightarrow> stored_file option" where
  "file_at p w = map_of (fw_files w) p"

definition put_file :: "path \<Rightarrow> stored_file \<Rightarrow> 'e file_world \<Rightarrow> 'e file_world" where
  "put_file p content w =
     w\<lparr>fw_files := (p, content) # filter (\<lambda>f. fst f \<noteq> p) (fw_files w)\<rparr>"

definition move_file :: "path \<Rightarrow> path \<Rightarrow> 'e file_world \<Rightarrow> 'e file_world" where
  "move_file from target w =
     (case file_at from w of
        None \<Rightarrow> w
      | Some content \<Rightarrow>
          put_file target content (w\<lparr>fw_files := filter (\<lambda>f. fst f \<noteq> from) (fw_files w)\<rparr>))"

definition below :: "path \<Rightarrow> path \<Rightarrow> bool" where
  "below directory p \<longleftrightarrow> take (length directory) p = directory"

definition path_exists :: "path \<Rightarrow> 'e file_world \<Rightarrow> bool" where
  "path_exists p w \<longleftrightarrow> p \<in> set (fw_directories w) \<or> file_at p w \<noteq> None"

definition outside :: "('e \<Rightarrow> 'a \<times> 'e) \<Rightarrow> ('e file_world, 'a) step" where
  "outside f w = (case f (fw_outside w) of (a, e) \<Rightarrow> (Inr a, w\<lparr>fw_outside := e\<rparr>))"

definition system_call :: "'e operating_system \<Rightarrow> string \<Rightarrow> path \<Rightarrow> ('e file_world, unit) step" where
  "system_call os action path =
     then_do (outside (os_call os action path)) (\<lambda>fault.
       case fault of
         None \<Rightarrow> ok ()
       | Some error \<Rightarrow> stop (storage_error (path_display path) action (io_message error)))"

text \<open>A call of which some failures do not count.\<close>

definition tolerant_call ::
    "'e operating_system \<Rightarrow> string \<Rightarrow> path \<Rightarrow> (io_error \<Rightarrow> bool) \<Rightarrow> ('e file_world, bool) step" where
  "tolerant_call os action path tolerated =
     then_do (outside (os_call os action path)) (\<lambda>fault.
       case fault of
         None \<Rightarrow> ok True
       | Some error \<Rightarrow>
           if tolerated error then ok False
           else stop (storage_error (path_display path) action (io_message error)))"

section \<open>Atomic writes\<close>

definition ensure_directory :: "'e operating_system \<Rightarrow> path \<Rightarrow> ('e file_world, unit) step" where
  "ensure_directory os path =
     then_do (system_call os ''create directory'' path) (\<lambda>_.
     update_state (\<lambda>w. w\<lparr>fw_directories :=
       map (\<lambda>n. take n path) [1 ..< length path + 1] @ fw_directories w\<rparr>))"

definition sync_directory :: "'e operating_system \<Rightarrow> path \<Rightarrow> ('e file_world, unit) step" where
  "sync_directory os path =
     then_do (tolerant_call os ''open directory'' path
       (\<lambda>error. io_kind error \<in> {NotFound, PermissionDenied})) (\<lambda>opened.
       if opened
       then then_do (tolerant_call os ''synchronise directory'' path
         (\<lambda>error. io_kind error = InvalidInput \<or> io_raw error = Some 1)) (\<lambda>_. ok ())
       else ok ())"

definition temporary_sibling :: "path \<Rightarrow> string \<Rightarrow> path" where
  "temporary_sibling p unique =
     butlast p @ [''.'' @ (if p = [] then ''value'' else last p) @ ''.'' @ unique @ ''.tmp'']"

text \<open>A file whose write failed is left empty at its temporary place.\<close>

definition write_atomic ::
    "'e operating_system \<Rightarrow> path \<Rightarrow> stored_file \<Rightarrow> ('e file_world, unit) step" where
  "write_atomic os path content =
     (if path = [] then stop (Storage ''`` has no parent directory'')
      else
      let parent = butlast path in
      then_do (ensure_directory os parent) (\<lambda>_.
      then_do (outside (os_temporary os)) (\<lambda>unique.
      let temporary = temporary_sibling path unique in
      then_do (system_call os ''create'' temporary) (\<lambda>_.
      then_do (update_state (put_file temporary (BytesFile []))) (\<lambda>_.
      then_do (system_call os ''restrict permissions on'' temporary) (\<lambda>_.
      then_do (system_call os ''write'' temporary) (\<lambda>_.
      then_do (update_state (put_file temporary content)) (\<lambda>_.
      then_do (system_call os ''flush'' temporary) (\<lambda>_.
      then_do (system_call os ''synchronise'' temporary) (\<lambda>_.
      then_do (system_call os ''rename into place'' path) (\<lambda>_.
      then_do (update_state (move_file temporary path)) (\<lambda>_.
      sync_directory os parent))))))))))))"

text \<open>\<open>read_json\<close> at a type, given by the projection of that kind of file, and \<open>fs::read\<close>.\<close>

definition read_document ::
    "document_codec \<Rightarrow> 'e operating_system \<Rightarrow> (stored_file \<Rightarrow> 'a option) \<Rightarrow> path
      \<Rightarrow> ('e file_world, 'a option) step" where
  "read_document D os kind path =
     then_do (look (file_at path)) (\<lambda>content.
       case content of
         None \<Rightarrow> ok None
       | Some document \<Rightarrow>
           then_do (system_call os ''read'' path) (\<lambda>_.
           case kind document of
              Some v \<Rightarrow> ok (Some v)
            | None \<Rightarrow> stop (Serialisation (''`'' @ path_display path
                @ ''` could not be decoded: '' @ dk_decode_message D path))))"

definition missing_file :: string where
  "missing_file = ''No such file or directory (os error 2)''"

definition read_bytes ::
    "'e operating_system \<Rightarrow> path \<Rightarrow> ('e file_world, string) step" where
  "read_bytes os path =
     then_do (look (\<lambda>w. Option.bind (file_at path w) bytes_kind)) (\<lambda>content.
       case content of
         Some bytes \<Rightarrow> then_do (system_call os ''read'' path) (\<lambda>_. ok bytes)
       | None \<Rightarrow> stop (storage_error (path_display path) ''read'' missing_file))"

section \<open>Directories\<close>

definition children :: "path \<Rightarrow> 'e file_world \<Rightarrow> path list" where
  "children directory w =
     remdups (map (take (length directory + 1))
       (filter (\<lambda>p. below directory p \<and> length directory < length p)
         (map fst (fw_files w) @ fw_directories w)))"

text \<open>\<open>sync_tree\<close>, down to a depth: no path is deeper than the longest one there is.\<close>

definition deepest :: "'e file_world \<Rightarrow> nat" where
  "deepest w = foldr max (map length (map fst (fw_files w) @ fw_directories w)) 0"

fun sync_tree :: "'e operating_system \<Rightarrow> nat \<Rightarrow> path \<Rightarrow> ('e file_world, unit) step" where
  "sync_tree os 0 path = ok ()"
| "sync_tree os (Suc depth) path =
     then_do (look (\<lambda>w. path \<in> set (fw_directories w))) (\<lambda>is_directory.
       if is_directory
       then then_do (system_call os ''read directory'' path) (\<lambda>_.
            then_do (look (children path)) (\<lambda>entries.
            then_do (for_each entries (sync_tree os depth)) (\<lambda>_.
            sync_directory os path)))
       else then_do (tolerant_call os ''open for synchronisation'' path
              (\<lambda>error. io_kind error \<in> {NotFound, PermissionDenied})) (\<lambda>opened.
            if opened
            then then_do (tolerant_call os ''synchronise'' path
              (\<lambda>error. io_kind error = PermissionDenied)) (\<lambda>_. ok ())
            else ok ()))"

definition moved :: "path \<Rightarrow> path \<Rightarrow> path \<Rightarrow> path" where
  "moved temporary destination p =
     (if below temporary p then destination @ drop (length temporary) p else p)"

definition rename_directory :: "path \<Rightarrow> path \<Rightarrow> 'e file_world \<Rightarrow> 'e file_world" where
  "rename_directory temporary destination w =
     w\<lparr>fw_files := map (\<lambda>(p, content). (moved temporary destination p, content)) (fw_files w),
       fw_directories := map (moved temporary destination) (fw_directories w)\<rparr>"

definition rename_directory_into_place ::
    "'e operating_system \<Rightarrow> path \<Rightarrow> path \<Rightarrow> ('e file_world, unit) step" where
  "rename_directory_into_place os temporary destination =
     then_do (look (path_exists destination)) (\<lambda>present.
       if present
       then stop (Storage (''`'' @ path_display destination
         @ ''` already exists and completed evidence is never overwritten''))
       else if destination = [] then stop (Storage ''`` has no parent directory'')
       else
       then_do (ensure_directory os (butlast destination)) (\<lambda>_.
       then_do (look deepest) (\<lambda>depth.
       then_do (sync_tree os (Suc depth) temporary) (\<lambda>_.
       then_do (system_call os ''rename directory into place'' destination) (\<lambda>_.
       then_do (update_state (rename_directory temporary destination)) (\<lambda>_.
       sync_directory os (butlast destination)))))))"

definition remove_directory :: "'e operating_system \<Rightarrow> path \<Rightarrow> ('e file_world, unit) step" where
  "remove_directory os path =
     then_do (tolerant_call os ''remove directory'' path (\<lambda>error. io_kind error = NotFound)) (\<lambda>removed.
       if removed
       then update_state (\<lambda>w.
         w\<lparr>fw_files := filter (\<lambda>f. \<not> below path (fst f)) (fw_files w),
           fw_directories := filter (\<lambda>p. \<not> below path p) (fw_directories w)\<rparr>)
       else ok ())"

end
