(* ===== verification/Forge_Ports.thy ===== *)
theory Forge_Ports
  imports Forge_Files
begin

text \<open>
  \<open>ports/agent.rs\<close>, \<open>ports/git.rs\<close>, \<open>ports/quality.rs\<close>, \<open>ports/environment.rs\<close>: what the nodes
  exchange with an agent, with Git, with the quality gates and with the host. A path is the text
  it is displayed as; the receiver of cancellations that an invocation carries is a handle on the
  world and no field.
\<close>

section \<open>Agents\<close>

datatype agent_role = Planner | Implementer | Repairer | Reviewer

primrec agent_role_as_str :: "agent_role \<Rightarrow> string" where
  "agent_role_as_str Planner = ''planner''"
| "agent_role_as_str Implementer = ''implementer''"
| "agent_role_as_str Repairer = ''repairer''"
| "agent_role_as_str Reviewer = ''reviewer''"

definition role_is_read_only :: "agent_role \<Rightarrow> bool" where
  "role_is_read_only self \<longleftrightarrow> self = Planner \<or> self = Reviewer"

record tool_policy =
  tp_allow_read :: bool
  tp_allow_search :: bool
  tp_allow_git_inspection :: bool
  tp_allow_write :: bool
  tp_allow_delete :: bool
  tp_allow_patch :: bool
  tp_allowed_command_ids :: "command_id list"
  tp_path_policy :: path_policy
  tp_maximum_tool_calls :: u32

definition tool_policy_read_only :: "path_policy \<Rightarrow> u32 \<Rightarrow> tool_policy" where
  "tool_policy_read_only policy maximum_tool_calls =
     \<lparr>tp_allow_read = True, tp_allow_search = True, tp_allow_git_inspection = True,
      tp_allow_write = False, tp_allow_delete = False, tp_allow_patch = False,
      tp_allowed_command_ids = [], tp_path_policy = policy,
      tp_maximum_tool_calls = maximum_tool_calls\<rparr>"

definition tool_policy_editing :: "path_policy \<Rightarrow> command_id list \<Rightarrow> u32 \<Rightarrow> tool_policy" where
  "tool_policy_editing policy allowed_command_ids maximum_tool_calls =
     \<lparr>tp_allow_read = True, tp_allow_search = True, tp_allow_git_inspection = True,
      tp_allow_write = True, tp_allow_delete = True, tp_allow_patch = True,
      tp_allowed_command_ids = allowed_command_ids, tp_path_policy = policy,
      tp_maximum_tool_calls = maximum_tool_calls\<rparr>"

text \<open>What a policy lets an agent change.\<close>

definition may_change_files :: "tool_policy \<Rightarrow> bool" where
  "may_change_files policy \<longleftrightarrow>
     tp_allow_write policy \<or> tp_allow_delete policy \<or> tp_allow_patch policy"

record prompt_contract =
  pc_template_id :: string
  pc_template_version :: u32
  pc_template_hash :: content_digest
  pc_rendered :: string
  pc_completion_schema :: json_value

record agent_invocation =
  ai_run_id :: run_id
  ai_candidate_id :: "candidate_id option"
  ai_role :: agent_role
  ai_strategy :: "candidate_strategy option"
  ai_worktree :: string
  ai_prompt :: prompt_contract
  ai_tool_policy :: tool_policy
  ai_commands :: "command_specification list"
  ai_environment_allowlist :: "string list"
  ai_network :: network_policy
  ai_time_budget_seconds :: u32
  ai_turn_budget :: u32
  ai_output_budget_bytes :: u64

datatype agent_exit_reason =
    AgentCompleted
  | TurnBudgetExhausted
  | TimeBudgetExhausted
  | AgentCancelled
  | ToolPolicyViolation
  | DriverFailure

primrec exit_reason_as_str :: "agent_exit_reason \<Rightarrow> string" where
  "exit_reason_as_str AgentCompleted = ''completed''"
| "exit_reason_as_str TurnBudgetExhausted = ''turn_budget_exhausted''"
| "exit_reason_as_str TimeBudgetExhausted = ''time_budget_exhausted''"
| "exit_reason_as_str AgentCancelled = ''cancelled''"
| "exit_reason_as_str ToolPolicyViolation = ''tool_policy_violation''"
| "exit_reason_as_str DriverFailure = ''driver_failure''"

record agent_tool_call =
  tc_ordinal :: u32
  tc_tool :: string
  tc_arguments_digest :: content_digest
  tc_accepted :: bool
  tc_rejection_reason :: "string option"
  tc_duration :: duration_ms
  tc_summary :: string

record agent_usage =
  us_input_tokens :: "u64 option"
  us_output_tokens :: "u64 option"
  us_cost_minor_units :: "u64 option"
  us_cost_currency :: "string option"

definition agent_usage_default :: agent_usage where
  "agent_usage_default =
     \<lparr>us_input_tokens = None, us_output_tokens = None, us_cost_minor_units = None,
      us_cost_currency = None\<rparr>"

record agent_outcome =
  ao_exit_reason :: agent_exit_reason
  ao_model_identity :: string
  ao_driver :: agent_driver_kind
  ao_tool_calls :: "agent_tool_call list"
  ao_usage :: agent_usage
  ao_structured_response :: "json_value option"
  ao_stdout :: string
  ao_stderr :: string
  ao_changed_paths :: "string list"
  ao_duration :: duration_ms
  ao_diagnostics :: "string list"

definition agent_completed :: "agent_outcome \<Rightarrow> bool" where
  "agent_completed self \<longleftrightarrow> ao_exit_reason self = AgentCompleted"

datatype isolation_strength =
    NoIsolation
  | ProcessEnvironment
  | WorkingDirectoryRestricted
  | OperatingSystemSandbox

primrec isolation_as_str :: "isolation_strength \<Rightarrow> string" where
  "isolation_as_str NoIsolation = ''none''"
| "isolation_as_str ProcessEnvironment = ''process_environment''"
| "isolation_as_str WorkingDirectoryRestricted = ''working_directory_restricted''"
| "isolation_as_str OperatingSystemSandbox = ''operating_system_sandbox''"

primrec isolation_label :: "isolation_strength \<Rightarrow> string" where
  "isolation_label NoIsolation = ''No enforced isolation''"
| "isolation_label ProcessEnvironment = ''Environment allowlist only''"
| "isolation_label WorkingDirectoryRestricted =
     ''Working directory and environment restricted''"
| "isolation_label OperatingSystemSandbox = ''Operating system sandbox''"

record agent_capabilities =
  ak_driver :: agent_driver_kind
  ak_available :: bool
  ak_version :: "string option"
  ak_model_identity :: "string option"
  ak_supports_structured_tool_calls :: bool
  ak_supports_non_interactive :: bool
  ak_isolation :: isolation_strength
  ak_honours_write_restriction :: bool
  ak_context_window_tokens :: "u64 option"
  ak_endpoint :: "string option"
  ak_requires_paid_account :: bool
  ak_demonstration_only :: bool
  ak_diagnostics :: "string list"

section \<open>Git\<close>

record repository_facts =
  rt_root :: string
  rt_git_directory :: string
  rt_head_commit :: commit_hash
  rt_default_branch :: string
  rt_current_branch :: "string option"
  rt_is_clean :: bool
  rt_staged_paths :: "string list"
  rt_unstaged_paths :: "string list"
  rt_untracked_paths :: "string list"
  rt_configured_user_name :: "string option"
  rt_configured_user_email :: "string option"
  rt_signing_enabled :: bool
  rt_signing_key :: "string option"
  rt_has_submodules :: bool

record dirty_snapshot =
  ds_tracked_patch :: string
  ds_untracked_archive :: string
  ds_untracked_paths :: "string list"

record worktree_handle =
  wk_path :: string
  wk_branch :: branch_name
  wk_role :: worktree_role
  wk_baseline :: commit_hash
  wk_reused :: bool

record diff_summary =
  df_changed_files :: u32
  df_added_lines :: u64
  df_removed_lines :: u64
  df_paths :: "string list"
  df_is_empty :: bool

definition diff_changed_lines :: "diff_summary \<Rightarrow> u64" where
  "diff_changed_lines self = sat_add (df_added_lines self) (df_removed_lines self)"

record commit_request =
  cq_worktree :: string
  cq_branch :: branch_name
  cq_paths :: "string list"
  cq_subject :: string
  cq_body :: string
  cq_author_name :: string
  cq_committer_name :: string

record commit_outcome =
  co_commit_hash :: commit_hash
  co_branch :: branch_name
  co_signed :: bool
  co_changed_files :: u32

section \<open>Quality gates\<close>

record gate_context =
  gx_run_id :: run_id
  gx_candidate_id :: "candidate_id option"
  gx_worktree :: string
  gx_repository :: string
  gx_baseline :: commit_hash
  gx_changed_paths :: "string list"
  gx_plan_expected_files :: "string list"
  gx_configuration :: effective_configuration

record gate_artifact =
  ga_label :: string
  ga_relative_path :: string
  ga_media_type :: string
  ga_bytes :: string
  ga_truncated :: bool

record test_gate_output =
  tg_evidence :: test_evidence
  tg_artifacts :: "gate_artifact list"

record review_gate_output =
  rv_report :: review_report
  rv_artifacts :: "gate_artifact list"

section \<open>The host\<close>

record disk_space =
  dk_available_bytes :: u64
  dk_total_bytes :: u64

record host_facts =
  hf_operating_system :: string
  hf_architecture :: string
  hf_logical_processors :: u64
  hf_heikas_home :: string
  hf_data_root_writable :: bool

end
