(* ===== verification/Forge_Prompt.thy ===== *)
theory Forge_Prompt
  imports Forge_Ports
begin

text \<open>
  \<open>crates/application/src/prompt.rs\<close>: the prompts of the agents, their templates and the schemas of
  their completions.
\<close>

definition prompt_template_version :: u32 where "prompt_template_version = 1"

record prompt_facts =
  pf_task_title :: string
  pf_task_body :: string
  pf_repository_summary :: string
  pf_approved_plan_hash :: "string option"
  pf_approved_plan :: "string option"
  pf_strategy :: "string option"
  pf_strategy_emphasis :: "string option"
  pf_allowed_commands :: "string list"
  pf_protected_paths :: "string list"
  pf_previous_evidence :: "string list"
  pf_expected_files :: "string list"
  pf_attempt :: u32

section \<open>Templates\<close>

definition common_constraints :: string where
  "common_constraints =
     ''Forbidden actions:'' @ [newline]
     @ ''- Do not run a general shell command. Only the named commands listed above are available.''
     @ [newline]
     @ ''- Do not read, write or delete anything outside the assigned worktree.'' @ [newline]
     @ ''- Do not create a commit, push, fetch, merge, rebase, change a remote or alter Git ''
     @ ''configuration.'' @ [newline]
     @ ''- Do not weaken, delete, skip or disable an existing test, coverage threshold or quality ''
     @ ''rule.'' @ [newline]
     @ ''- Do not write source comments, commented-out code or task markers.'' @ [newline]
     @ ''- Do not place an em dash character in any file you create or edit.'' @ [newline]
     @ ''- Use British English in documentation, user-facing strings and messages.'' @ [newline]"

definition planner_template :: string where
  "planner_template =
     ''You are the planning node of a local-first engineering orchestrator.'' @ [newline]
     @ ''Your goal is to produce a precise, evidence-based implementation plan for the task ''
     @ ''below.'' @ [newline]
     @ ''You have read-only tools. You may list directories, read files, search the repository ''
     @ ''and inspect Git status.'' @ [newline]
     @ ''You may not change a single file during planning.'' @ [newline]
     @ ''Ground every statement in observed repository evidence. Label anything you cannot ''
     @ ''verify as an assumption.'' @ [newline]
     @ ''Return the complete plan through the structured completion tool using the exact schema ''
     @ ''provided.''"

definition implementer_template :: string where
  "implementer_template =
     ''You are the implementation node of a local-first engineering orchestrator.'' @ [newline]
     @ ''Implement the approved plan inside your assigned candidate worktree.'' @ [newline]
     @ ''Preserve existing public behaviour unless the task changes it. Add or update tests for ''
     @ ''the behaviour you introduce.'' @ [newline]
     @ ''Avoid unrelated refactoring. Leave the worktree in a state where the configured test ''
     @ ''commands can run.'' @ [newline]
     @ ''Your work is judged by the resulting Git diff and by the configured gates, not by your ''
     @ ''summary.'' @ [newline]
     @ ''Return the structured completion once the change is complete.''"

definition repairer_template :: string where
  "repairer_template =
     ''You are the repair node of a local-first engineering orchestrator.'' @ [newline]
     @ ''The configured gates rejected the current candidate. Repair the candidate worktree so ''
     @ ''that every required gate passes.'' @ [newline]
     @ ''Address the reported failures directly. Do not delete or weaken a test to make a gate ''
     @ ''pass.'' @ [newline]
     @ ''Keep the change consistent with the approved plan.'' @ [newline]
     @ ''Return the structured completion once the repair is complete.''"

definition reviewer_template :: string where
  "reviewer_template =
     ''You are an advisory review node of a local-first engineering orchestrator.'' @ [newline]
     @ ''You have read-only tools. Report maintainability and design observations for the change ''
     @ ''under review.'' @ [newline]
     @ ''Your findings are advisory. They cannot override a deterministic test or scanner ''
     @ ''result.'' @ [newline]
     @ ''Return the structured completion with your findings.''"

primrec template_source :: "agent_role \<Rightarrow> string" where
  "template_source Planner = planner_template"
| "template_source Implementer = implementer_template"
| "template_source Repairer = repairer_template"
| "template_source Reviewer = reviewer_template"

section \<open>Bodies\<close>

text \<open>The loops that push one line per entry.\<close>

definition bullet_lines :: "string list \<Rightarrow> string" where
  "bullet_lines entries = concat (map (\<lambda>entry. ''- '' @ entry @ [newline]) entries)"

definition heading_line :: "string \<Rightarrow> string" where
  "heading_line heading = [newline, newline] @ heading @ [newline]"

definition planner_body :: "prompt_facts \<Rightarrow> string" where
  "planner_body facts =
     planner_template
     @ heading_line ''Task title:'' @ pf_task_title facts
     @ heading_line ''Task description:'' @ pf_task_body facts
     @ heading_line ''Repository facts:'' @ pf_repository_summary facts
     @ heading_line ''Protected paths that must not be modified:''
     @ bullet_lines (pf_protected_paths facts)
     @ [newline] @ ''Available named commands:'' @ [newline]
     @ bullet_lines (pf_allowed_commands facts)
     @ [newline] @ ''Required plan headings, in this order:'' @ [newline]
     @ bullet_lines required_plan_headings
     @ [newline] @ common_constraints"

definition implementer_body :: "prompt_facts \<Rightarrow> string application_result" where
  "implementer_body facts =
     and_then (ok_or (Internal ''an implementation prompt requires an approved plan'')
       (pf_approved_plan facts)) (\<lambda>plan.
     and_then (ok_or (Internal ''an implementation prompt requires the approved plan hash'')
       (pf_approved_plan_hash facts)) (\<lambda>plan_hash.
     Inr (implementer_template
       @ [newline, newline] @ ''Approved plan hash: '' @ plan_hash
       @ (case (pf_strategy facts, pf_strategy_emphasis facts) of
            (Some strategy, Some emphasis) \<Rightarrow>
              [newline] @ ''Candidate strategy: '' @ strategy
              @ [newline] @ ''Strategy emphasis: '' @ emphasis
          | _ \<Rightarrow> [])
       @ heading_line ''Task title:'' @ pf_task_title facts
       @ heading_line ''Approved plan:'' @ plan
       @ heading_line ''Repository facts:'' @ pf_repository_summary facts
       @ heading_line ''Files the plan expects to change:''
       @ bullet_lines (pf_expected_files facts)
       @ [newline] @ ''Available named commands:'' @ [newline]
       @ bullet_lines (pf_allowed_commands facts)
       @ [newline] @ ''Protected paths that must not be modified:'' @ [newline]
       @ bullet_lines (pf_protected_paths facts)
       @ [newline] @ common_constraints)))"

definition repairer_body :: "prompt_facts \<Rightarrow> string application_result" where
  "repairer_body facts =
     and_then (ok_or (Internal ''a repair prompt requires an approved plan'')
       (pf_approved_plan facts)) (\<lambda>plan.
     Inr (repairer_template
       @ [newline, newline] @ ''Repair attempt: '' @ dec (pf_attempt facts)
       @ (case pf_approved_plan_hash facts of
            Some hash \<Rightarrow> [newline] @ ''Approved plan hash: '' @ hash | None \<Rightarrow> [])
       @ heading_line ''Approved plan:'' @ plan
       @ heading_line ''Evidence from the failing gates:''
       @ bullet_lines (pf_previous_evidence facts)
       @ [newline] @ ''Available named commands:'' @ [newline]
       @ bullet_lines (pf_allowed_commands facts)
       @ [newline] @ common_constraints))"

definition reviewer_body :: "prompt_facts \<Rightarrow> string" where
  "reviewer_body facts =
     reviewer_template
     @ heading_line ''Task title:'' @ pf_task_title facts
     @ heading_line ''Evidence available:'' @ bullet_lines (pf_previous_evidence facts)
     @ [newline] @ common_constraints"

section \<open>Schemas\<close>

definition string_schema :: json_value where
  "string_schema = JObject [(''type'', JString ''string'')]"

definition strings_schema :: json_value where
  "strings_schema = JObject [(''type'', JString ''array''), (''items'', string_schema)]"

definition planner_schema :: json_value where
  "planner_schema = JObject
     [(''type'', JString ''object''),
      (''required'', JArray
         [JString ''plan_markdown'', JString ''expected_files'', JString ''summary'']),
      (''additionalProperties'', JBool False),
      (''properties'', JObject
         [(''plan_markdown'', string_schema),
          (''expected_files'', strings_schema),
          (''summary'', string_schema)])]"

definition implementer_schema :: json_value where
  "implementer_schema = JObject
     [(''type'', JString ''object''),
      (''required'', JArray
         [JString ''summary'', JString ''changed_files'', JString ''tests_added'']),
      (''additionalProperties'', JBool False),
      (''properties'', JObject
         [(''summary'', string_schema),
          (''changed_files'', strings_schema),
          (''tests_added'', strings_schema),
          (''remaining_risks'', strings_schema)])]"

definition reviewer_schema :: json_value where
  "reviewer_schema = JObject
     [(''type'', JString ''object''),
      (''required'', JArray [JString ''findings'']),
      (''additionalProperties'', JBool False),
      (''properties'', JObject
         [(''findings'', JObject
            [(''type'', JString ''array''),
             (''items'', JObject
                [(''type'', JString ''object''),
                 (''required'', JArray [JString ''rule_id'', JString ''severity'',
                    JString ''category'', JString ''message'']),
                 (''additionalProperties'', JBool False),
                 (''properties'', JObject
                    [(''rule_id'', string_schema),
                     (''severity'', string_schema),
                     (''category'', string_schema),
                     (''message'', string_schema),
                     (''file'', string_schema),
                     (''line'', JObject [(''type'', JString ''integer'')])])])])])]"

section \<open>Rendering\<close>

definition render_prompt ::
    "externals \<Rightarrow> agent_role \<Rightarrow> prompt_facts \<Rightarrow> prompt_contract application_result" where
  "render_prompt X role facts =
     and_then (case role of
         Planner \<Rightarrow> Inr (''plan'', planner_body facts, planner_schema)
       | Implementer \<Rightarrow>
           map_ok (\<lambda>body. (''implement'', body, implementer_schema)) (implementer_body facts)
       | Repairer \<Rightarrow> map_ok (\<lambda>body. (''repair'', body, implementer_schema)) (repairer_body facts)
       | Reviewer \<Rightarrow> Inr (''review'', reviewer_body facts, reviewer_schema))
     (\<lambda>(template_id, body, schema).
       Inr \<lparr>pc_template_id = template_id, pc_template_version = prompt_template_version,
         pc_template_hash = digest_of_str X (template_id @ '':'' @ dec prompt_template_version
           @ '':'' @ template_source role),
         pc_rendered = body, pc_completion_schema = schema\<rparr>)"

definition strategy_facts :: "candidate_strategy \<Rightarrow> string \<times> string" where
  "strategy_facts strategy = (strategy_as_str strategy, strategy_emphasis strategy)"

text \<open>Every prompt ends with the forbidden actions.\<close>

lemma rendered_constraints:
  assumes "render_prompt X role facts = Inr contract"
  shows "\<exists>body. pc_rendered contract = body @ common_constraints"
  using assms unfolding render_prompt_def
  by (cases role) (auto simp: planner_body_def implementer_body_def repairer_body_def
      reviewer_body_def simp flip: append_assoc)

end
