(* ===== verification/Forge_Node_Ports.thy ===== *)
theory Forge_Node_Ports
  imports Forge_Prompt Forge_Dispatcher
begin

text \<open>
  What the nodes of the graph call, and \<open>nodes/support.rs\<close>. \<open>'w node_ports\<close> holds the ports of
  \<open>EngineServices\<close> the nodes use, as functions over a world \<open>'w\<close>, and the functions of other crates
  behind them: the JSON printer (\<open>np_tests_json\<close>, \<open>np_review_json\<close>, \<open>np_ranking_json\<close>, \<open>np_json_f64\<close>),
  the digest of a configuration, glob compilation, and the Unicode case tables of the standard
  library (\<open>np_lowercase\<close>, \<open>np_uppercase\<close>). \<open>write_diff\<close> and \<open>write_integration_diff\<close> are one port
  whose candidate is absent for the integration.
\<close>

record 'w review_provider =
  vp_name :: string
  vp_required :: bool
  vp_advisory :: bool
  vp_available :: "('w, bool) step"
  vp_review :: "gate_context \<Rightarrow> ('w, review_gate_output) step"

record 'w node_ports =
  np_externals :: externals
  np_read_attempt_result :: "run_id \<Rightarrow> attempt_key_record \<Rightarrow> ('w, node_result option) step"
  np_store_artifact :: "run_id \<Rightarrow> string \<Rightarrow> string \<Rightarrow> string \<Rightarrow> bool \<Rightarrow> ('w, stored_artifact) step"
  np_read_artifact :: "run_id \<Rightarrow> content_digest \<Rightarrow> ('w, string) step"
  np_write_version :: "run_id \<Rightarrow> u32 \<Rightarrow> string \<Rightarrow> plan_author \<Rightarrow> string option \<Rightarrow> timestamp
    \<Rightarrow> ('w, plan_version) step"
  np_read_version :: "run_id \<Rightarrow> u32 \<Rightarrow> ('w, string) step"
  np_write_diff :: "run_id \<Rightarrow> candidate_id option \<Rightarrow> string \<Rightarrow> ('w, content_digest) step"
  np_read_diff :: "run_id \<Rightarrow> candidate_id option \<Rightarrow> ('w, string) step"
  np_write_test_evidence :: "run_id \<Rightarrow> candidate_id option \<Rightarrow> attempt_number \<Rightarrow> test_evidence
    \<Rightarrow> ('w, unit) step"
  np_read_test_evidence :: "run_id \<Rightarrow> candidate_id option \<Rightarrow> ('w, test_evidence option) step"
  np_write_review :: "run_id \<Rightarrow> candidate_id option \<Rightarrow> attempt_number \<Rightarrow> aggregated_review
    \<Rightarrow> ('w, unit) step"
  np_read_review :: "run_id \<Rightarrow> candidate_id option \<Rightarrow> ('w, aggregated_review option) step"
  np_write_ranking :: "run_id \<Rightarrow> ranking \<Rightarrow> ('w, unit) step"
  np_now :: "'w \<Rightarrow> timestamp \<times> 'w"
  np_facts :: "('w, host_facts) step"
  np_disk_space :: "string \<Rightarrow> ('w, disk_space) step"
  np_probe_executable :: "string \<Rightarrow> ('w, string option) step"
  np_path_exists :: "string \<Rightarrow> 'w \<Rightarrow> bool \<times> 'w"
  np_inspect :: "string \<Rightarrow> ('w, repository_facts) step"
  np_capture_dirty_snapshot :: "string \<Rightarrow> ('w, dirty_snapshot) step"
  np_create_worktree :: "string \<Rightarrow> run_id \<Rightarrow> candidate_id option \<Rightarrow> worktree_role \<Rightarrow> commit_hash
    \<Rightarrow> branch_name \<Rightarrow> ('w, worktree_handle) step"
  np_apply_snapshot :: "string \<Rightarrow> dirty_snapshot \<Rightarrow> ('w, unit) step"
  np_diff_against_baseline :: "string \<Rightarrow> commit_hash \<Rightarrow> ('w, string \<times> diff_summary) step"
  np_apply_patch :: "string \<Rightarrow> string \<Rightarrow> ('w, unit) step"
  np_check_patch_applies :: "string \<Rightarrow> string \<Rightarrow> ('w, string + unit) step"
  np_reset_worktree :: "string \<Rightarrow> commit_hash \<Rightarrow> ('w, unit) step"
  np_create_commit :: "commit_request \<Rightarrow> ('w, commit_outcome) step"
  np_changed_paths :: "string \<Rightarrow> commit_hash \<Rightarrow> ('w, string list) step"
  np_list_paths :: "string \<Rightarrow> nat \<Rightarrow> ('w, string list) step"
  np_capabilities :: "('w, agent_capabilities) step"
  np_invoke :: "agent_invocation \<Rightarrow> ('w, agent_outcome) step"
  np_run_tests :: "gate_context \<Rightarrow> command_specification list \<Rightarrow> ('w, test_gate_output) step"
  np_reviews :: "'w review_provider list"
  np_redactor :: pattern_redactor
  np_configuration_digest :: "effective_configuration \<Rightarrow> content_digest application_result"
  np_tests_json :: "test_evidence \<Rightarrow> string application_result"
  np_review_json :: "aggregated_review \<Rightarrow> string application_result"
  np_ranking_json :: "ranking \<Rightarrow> string application_result"
  np_json_f64 :: "f64 \<Rightarrow> json_value"
  np_compile_glob :: "string \<Rightarrow> (string \<Rightarrow> bool) option"
  np_lowercase :: "string \<Rightarrow> string"
  np_uppercase :: "string \<Rightarrow> string"

section \<open>Calls whose error is handled\<close>

definition caught :: "('w, 'a) step \<Rightarrow> ('w, 'a application_result) step" where
  "caught m w = (case m w of (r, v) \<Rightarrow> (Inr r, v))"

definition unwrap_or :: "'a \<Rightarrow> ('w, 'a) step \<Rightarrow> ('w, 'a) step" where
  "unwrap_or otherwise m =
     then_do (caught m) (\<lambda>r. ok (case r of Inl _ \<Rightarrow> otherwise | Inr a \<Rightarrow> a))"

section \<open>JSON values\<close>

definition json_word :: "'a::len word \<Rightarrow> json_value" where "json_word w = JNumber (dec w)"
definition json_nat :: "nat \<Rightarrow> json_value" where "json_nat n = JNumber (nat_dec n)"
definition json_option :: "('a \<Rightarrow> json_value) \<Rightarrow> 'a option \<Rightarrow> json_value" where
  "json_option f v = (case v of Some a \<Rightarrow> f a | None \<Rightarrow> JNull)"
definition json_strings :: "string list \<Rightarrow> json_value" where
  "json_strings texts = JArray (map JString texts)"

definition json_tool_call :: "agent_tool_call \<Rightarrow> json_value" where
  "json_tool_call call = JObject
     [(''ordinal'', json_word (tc_ordinal call)),
      (''tool'', JString (tc_tool call)),
      (''arguments_digest'', JString (tc_arguments_digest call)),
      (''accepted'', JBool (tc_accepted call)),
      (''rejection_reason'', json_option JString (tc_rejection_reason call)),
      (''duration'', json_word (tc_duration call)),
      (''summary'', JString (tc_summary call))]"

definition json_usage :: "agent_usage \<Rightarrow> json_value" where
  "json_usage usage = JObject
     [(''input_tokens'', json_option json_word (us_input_tokens usage)),
      (''output_tokens'', json_option json_word (us_output_tokens usage)),
      (''cost_minor_units'', json_option json_word (us_cost_minor_units usage)),
      (''cost_currency'', json_option JString (us_cost_currency usage))]"

text \<open>\<open>Value::get(key)\<close> and \<open>as_str\<close>.\<close>

fun json_get :: "string \<Rightarrow> json_value \<Rightarrow> json_value option" where
  "json_get key (JObject entries) = map_of entries key"
| "json_get key _ = None"

fun json_as_str :: "json_value \<Rightarrow> string option" where
  "json_as_str (JString s) = Some s"
| "json_as_str _ = None"

section \<open>Paths\<close>

text \<open>\<open>Path::join\<close> on Unix and the equality of paths, which compares components.\<close>

definition path_join :: "string \<Rightarrow> string \<Rightarrow> string" where
  "path_join base relative =
     (if starts_with ''/'' relative then relative
      else if base = [] \<or> ends_with ''/'' base then base @ relative
      else base @ ''/'' @ relative)"

definition path_components :: "string \<Rightarrow> string list" where
  "path_components path =
     (let parts = split_char (CHR ''/'') path;
          kept = filter (\<lambda>part. part \<noteq> [] \<and> part \<noteq> ''.'') parts
      in if starts_with ''/'' path then ''/'' # kept
         else if hd parts = ''.'' then ''.'' # kept else kept)"

definition same_path :: "string \<Rightarrow> string \<Rightarrow> bool" where
  "same_path a b \<longleftrightarrow> path_components a = path_components b"

section \<open>\<open>nodes/support.rs\<close>\<close>

definition dirty_tracked_label :: string where "dirty_tracked_label = ''baseline-dirty-tracked-patch''"
definition dirty_untracked_label :: string where
  "dirty_untracked_label = ''baseline-dirty-untracked-archive''"

definition heikas_home :: "'w node_ports \<Rightarrow> ('w, string) step" where
  "heikas_home P = then_do (np_facts P) (\<lambda>facts. ok (hf_heikas_home facts))"

definition resolve_worktree :: "'w node_ports \<Rightarrow> string \<Rightarrow> ('w, string) step" where
  "resolve_worktree P relative_path =
     then_do (heikas_home P) (\<lambda>home. ok (path_join home relative_path))"

definition candidate_worktree ::
    "'w node_ports \<Rightarrow> run_context \<Rightarrow> node_call \<Rightarrow> candidate_id \<Rightarrow> ('w, string) step" where
  "candidate_worktree P cx c candidate =
     then_do (lift_result (ok_or (CandidateNotFound (cx_run_id cx) candidate)
       (map_option cr_worktree_relative_path (candidate_of (nc_projection c) candidate))))
       (resolve_worktree P)"

definition candidate_worktree_relative :: "externals \<Rightarrow> run_id \<Rightarrow> candidate_id \<Rightarrow> string" where
  "candidate_worktree_relative X run candidate =
     ''worktrees/'' @ run_display X run @ ''/'' @ candidate"

definition integration_worktree_relative :: "externals \<Rightarrow> run_id \<Rightarrow> string" where
  "integration_worktree_relative X run = ''worktrees/'' @ run_display X run @ ''/integration''"

definition integration_worktree :: "'w node_ports \<Rightarrow> run_context \<Rightarrow> ('w, string) step" where
  "integration_worktree P cx =
     resolve_worktree P (integration_worktree_relative (np_externals P) (cx_run_id cx))"

definition call_baseline :: "node_call \<Rightarrow> commit_hash application_result" where
  "call_baseline c =
     ok_or (Internal ''the run has no resolved baseline commit'')
       (rp_baseline_commit (nc_projection c))"

definition approved_plan ::
    "'w node_ports \<Rightarrow> run_context \<Rightarrow> node_call \<Rightarrow> ('w, string \<times> content_digest) step" where
  "approved_plan P cx c =
     then_do (lift_result (ok_or (ApprovalRequired ''no plan version exists'')
       (plan_current (rp_plan (nc_projection c))))) (\<lambda>current.
     then_do (lift_result (ok_or (ApprovalRequired ''the current plan version is not approved'')
       (approved_hash (rp_plan (nc_projection c))))) (\<lambda>hash.
     then_do (np_read_version P (cx_run_id cx) (pv_version current)) (\<lambda>markdown.
     ok (markdown, hash))))"

definition find_artifact :: "artifact_reference list \<Rightarrow> string \<Rightarrow> artifact_reference option" where
  "find_artifact artifacts label = find (\<lambda>artifact. ar_label artifact = label) artifacts"

definition load_dirty_snapshot ::
    "'w node_ports \<Rightarrow> run_context \<Rightarrow> node_call \<Rightarrow> ('w, dirty_snapshot option) step" where
  "load_dirty_snapshot P cx c =
     (if \<not> rp_dirty_snapshot (nc_projection c) then ok None
      else
      then_do (np_read_attempt_result P (cx_run_id cx) (attempt_key_new Prepare None attempt_first))
        (\<lambda>found.
      then_do (lift_result (ok_or (Internal ''the prepare attempt result is missing'') found))
        (\<lambda>result.
      case find_artifact (nr_artifacts result) dirty_tracked_label of
        None \<Rightarrow> ok None
      | Some tracked \<Rightarrow>
          then_do (np_read_artifact P (cx_run_id cx) (ar_id tracked)) (\<lambda>tracked_patch.
          then_do (case find_artifact (nr_artifacts result) dirty_untracked_label of
              Some reference \<Rightarrow> np_read_artifact P (cx_run_id cx) (ar_id reference)
            | None \<Rightarrow> ok []) (\<lambda>untracked_archive.
          ok (Some \<lparr>ds_tracked_patch = tracked_patch,
            ds_untracked_archive = untracked_archive, ds_untracked_paths = []\<rparr>))))))"

text \<open>The slice \<open>short[..8]\<close> of a short identifier, which has twelve bytes.\<close>

definition worktree_role_branch ::
    "externals \<Rightarrow> run_id \<Rightarrow> worktree_role \<Rightarrow> candidate_id option \<Rightarrow> string" where
  "worktree_role_branch X run role candidate =
     (let short = take 8 (run_short X run)
      in case (role, candidate) of
           (Candidate, Some candidate) \<Rightarrow> ''heikas/work-'' @ short @ ''/'' @ candidate
         | (Integration, _) \<Rightarrow> ''heikas/integration-'' @ short
         | _ \<Rightarrow> ''heikas/source-'' @ short)"

definition plan_expected_files ::
    "'w node_ports \<Rightarrow> run_context \<Rightarrow> node_call \<Rightarrow> ('w, string list) step" where
  "plan_expected_files P cx c =
     (case plan_current (rp_plan (nc_projection c)) of
        None \<Rightarrow> ok []
      | Some current \<Rightarrow>
          then_do (unwrap_or [] (np_read_version P (cx_run_id cx) (pv_version current)))
            (\<lambda>markdown. ok (pl_expected_files (validate_plan_document markdown))))"

definition truncate_for_prompt :: "string \<Rightarrow> nat \<Rightarrow> string" where
  "truncate_for_prompt v limit =
     (if chars_count v \<le> limit then v
      else chars_take limit v @ [newline] @ ''[evidence truncated]'')"

section \<open>\<open>engine/context.rs\<close>\<close>

definition task_title_of :: "string \<Rightarrow> string" where
  "task_title_of markdown =
     (let first_line = (case find (\<lambda>line. line \<noteq> []) (map trim (lines markdown)) of
            Some line \<Rightarrow> line | None \<Rightarrow> ''Untitled task'');
          cleaned = trim (trim_start_char (CHR ''#'') first_line);
          title = chars_take 120 cleaned
      in if title = [] then ''Untitled task'' else title)"

definition context_task_title :: "run_context \<Rightarrow> string" where
  "context_task_title cx = task_title_of (cx_task_markdown cx)"

definition required_review_providers :: "'w node_ports \<Rightarrow> 'w review_provider list" where
  "required_review_providers P = filter vp_required (np_reviews P)"

section \<open>What the agent nodes share\<close>

definition allowed_commands :: "effective_configuration \<Rightarrow> string list" where
  "allowed_commands configuration =
     map (\<lambda>command. cs_id command @ '' ('' @ command_kind_label (cs_kind command) @ '')'')
       (ef_commands configuration)"

definition candidate_required :: "run_context \<Rightarrow> node_call \<Rightarrow> string \<Rightarrow> ('w, candidate_id) step" where
  "candidate_required cx c message = lift_result (ok_or (Internal message) (nc_candidate c))"

definition candidate_recorded ::
    "run_context \<Rightarrow> node_call \<Rightarrow> candidate_id \<Rightarrow> ('w, candidate_record) step" where
  "candidate_recorded cx c candidate =
     lift_result (ok_or (CandidateNotFound (cx_run_id cx) candidate)
       (candidate_of (nc_projection c) candidate))"

definition redacted_streams :: "'w node_ports \<Rightarrow> agent_outcome \<Rightarrow> attempt_evidence \<Rightarrow> attempt_evidence" where
  "redacted_streams P outcome =
     with_streams (redact_text (np_redactor P) (ao_stdout outcome))
       (redact_text (np_redactor P) (ao_stderr outcome))"

end
