(* ===== verification/Forge_Node_Start.thy ===== *)
theory Forge_Node_Start
  imports Forge_Node_Ports
begin

text \<open>
  The nodes before the candidates: \<open>nodes/prepare.rs\<close>, \<open>nodes/plan.rs\<close> and \<open>nodes/fan_out.rs\<close>.
\<close>

definition refused :: "failure_class \<Rightarrow> string \<Rightarrow> string \<Rightarrow> string \<Rightarrow> attempt_evidence \<Rightarrow> node_output" where
  "refused class code message remedy evidence =
     with_evidence evidence
       (output_failed (with_remedy remedy (node_failure_new class code message)) None)"

definition refused_plainly :: "failure_class \<Rightarrow> string \<Rightarrow> string \<Rightarrow> attempt_evidence \<Rightarrow> node_output" where
  "refused_plainly class code message evidence =
     with_evidence evidence (output_failed (node_failure_new class code message) None)"

section \<open>Prepare\<close>

definition minimum_free_bytes_per_candidate :: u64 where
  "minimum_free_bytes_per_candidate = 536870912"

definition required_bytes :: "effective_configuration \<Rightarrow> u64" where
  "required_bytes configuration =
     sat_mul minimum_free_bytes_per_candidate
       (sat_add (ucast (bd_candidates (ef_budgets configuration))) 1)"

definition prepare_input :: "effective_configuration \<Rightarrow> json_value" where
  "prepare_input configuration = JObject
     [(''repository_path'', JString (ef_repository_path configuration)),
      (''candidate_count'', json_word (bd_candidates (ef_budgets configuration))),
      (''quality_profile'', JString (quality_profile_as_str (qc_profile (ef_quality configuration)))),
      (''commit_policy'', JString (commit_policy_as_str (ef_commit_policy configuration))),
      (''agent_driver'', JString (agent_driver_as_str (ac_driver (ef_agent configuration))))]"

text \<open>The snapshot of a repository that is not clean, as artifacts of the run.\<close>

definition take_snapshot ::
    "'w node_ports \<Rightarrow> run_context \<Rightarrow> ('w, artifact_reference list) step" where
  "take_snapshot P cx =
     then_do (np_capture_dirty_snapshot P (ef_repository_path (cx_configuration cx))) (\<lambda>snapshot.
     then_do (np_store_artifact P (cx_run_id cx) dirty_tracked_label
       ''artifacts/baseline-dirty.patch'' (ds_tracked_patch snapshot) False) (\<lambda>tracked.
     if ds_untracked_archive snapshot = [] then ok [artifact_to_reference tracked]
     else then_do (np_store_artifact P (cx_run_id cx) dirty_untracked_label
         ''artifacts/baseline-untracked.zip'' (ds_untracked_archive snapshot) False) (\<lambda>untracked.
       ok [artifact_to_reference tracked, artifact_to_reference untracked])))"

text \<open>The loops that end at the first missing executable or provider.\<close>

fun missing_executable ::
    "'w node_ports \<Rightarrow> command_specification list \<Rightarrow> ('w, command_specification option) step" where
  "missing_executable P [] = ok None"
| "missing_executable P (command # commands) =
     then_do (np_probe_executable P (cs_program command)) (\<lambda>found.
       if found = None then ok (Some command) else missing_executable P commands)"

fun missing_provider :: "'w review_provider list \<Rightarrow> ('w, 'w review_provider option) step" where
  "missing_provider [] = ok None"
| "missing_provider (provider # providers) =
     (if vp_required provider
      then then_do (vp_available provider) (\<lambda>available.
        if available then missing_provider providers else ok (Some provider))
      else missing_provider providers)"

definition prepare_events ::
    "'w node_ports \<Rightarrow> effective_configuration \<Rightarrow> repository_facts \<Rightarrow> bool \<Rightarrow> content_digest
      \<Rightarrow> event_payload list" where
  "prepare_events P configuration facts dirty digest =
     [BaselineResolved (rt_head_commit facts) (rt_default_branch facts) dirty,
      ConfigurationSnapshotted digest (map cs_id (ef_commands configuration))
        (map cs_id (required_commands configuration)) (map vp_name (np_reviews P))]"

text \<open>The second half of the node, once the repository is accepted.\<close>

definition prepare_environment ::
    "'w node_ports \<Rightarrow> run_context \<Rightarrow> attempt_evidence \<Rightarrow> repository_facts \<Rightarrow> bool
      \<Rightarrow> artifact_reference list \<Rightarrow> ('w, node_output) step" where
  "prepare_environment P cx evidence facts dirty artifacts =
     (let configuration = cx_configuration cx in
     then_do (np_capabilities P) (\<lambda>capabilities.
     if \<not> ak_available capabilities
     then ok (refused PermanentConfiguration ''agent_unavailable''
       (''the '' @ agent_driver_as_str (ak_driver capabilities)
         @ '' agent driver is not available: '' @ join_str ''; '' (ak_diagnostics capabilities))
       ''Run `heikas doctor` and configure an available agent driver.'' evidence)
     else if \<not> ak_supports_structured_tool_calls capabilities
     then ok (refused PermanentConfiguration ''agent_lacks_structured_tool_calls''
       ''the selected agent driver cannot make reliable structured tool calls''
       ''Select a model or driver that supports structured tool calling.'' evidence)
     else
     then_do (missing_executable P (ef_commands configuration)) (\<lambda>missing.
     case missing of
       Some command \<Rightarrow>
         ok (refused PermanentConfiguration ''command_executable_missing''
           (''the executable `'' @ cs_program command @ ''` for command `'' @ cs_id command
             @ ''` was not found'')
           ''Install the executable or correct the command in the configuration.'' evidence)
     | None \<Rightarrow>
     then_do (missing_provider (np_reviews P)) (\<lambda>absent.
     case absent of
       Some provider \<Rightarrow>
         ok (refused PermanentConfiguration ''required_review_provider_unavailable''
           (''the required review provider `'' @ vp_name provider @ ''` is not available'')
           ''Install the provider or change the quality profile.'' evidence)
     | None \<Rightarrow>
     then_do (np_facts P) (\<lambda>host.
     then_do (np_disk_space P (hf_heikas_home host)) (\<lambda>disk.
     if dk_available_bytes disk < required_bytes configuration
     then ok (refused PermanentConfiguration ''insufficient_disk_space''
       (dec (dk_available_bytes disk) @ '' bytes are available but ''
         @ dec (required_bytes configuration) @ '' bytes are required for ''
         @ dec (bd_candidates (ef_budgets configuration)) @ '' candidate worktrees'')
       ''Free disk space or reduce the candidate count.'' evidence)
     else
     then_do (lift_result (np_configuration_digest P configuration)) (\<lambda>digest.
     ok (with_evidence evidence
       (with_metrics (JObject
          [(''available_disk_bytes'', json_word (dk_available_bytes disk)),
           (''logical_processors'', json_word (hf_logical_processors host)),
           (''agent_isolation'', JString (isolation_as_str (ak_isolation capabilities))),
           (''agent_model'', json_option JString (ak_model_identity capabilities)),
           (''dirty_snapshot'', JBool dirty)])
       (with_artifacts artifacts
       (with_events (prepare_events P configuration facts dirty digest)
       (with_patch (state_patch_default\<lparr>sp_baseline_commit := Some (rt_head_commit facts)\<rparr>)
       (output_succeeded (Some Plan))))))))))))))"

definition prepare_execute :: "'w node_ports \<Rightarrow> run_context \<Rightarrow> node_call \<Rightarrow> ('w, node_output) step" where
  "prepare_execute P cx c =
     (let configuration = cx_configuration cx;
          repository = ef_repository_path configuration;
          evidence = evidence_with_input (prepare_input configuration) in
     case configuration_validate configuration of
       Inl error \<Rightarrow>
         ok (with_evidence evidence
           (output_failed (to_node_failure (np_externals P) error) None))
     | Inr _ \<Rightarrow>
     then_do (caught (np_inspect P repository)) (\<lambda>inspected.
     case inspected of
       Inl error \<Rightarrow>
         ok (with_evidence evidence
           (output_failed (to_node_failure (np_externals P) error) None))
     | Inr facts \<Rightarrow>
     if rt_has_submodules facts
     then ok (refused PermanentConfiguration ''submodules_unsupported''
       ''the repository declares submodules, which Heikas Forge does not orchestrate''
       (''Remove the submodule requirement or run Heikas Forge on a repository without ''
         @ ''submodules.'') evidence)
     else if rt_is_clean facts then prepare_environment P cx evidence facts False []
     else if gc_require_clean_repository (ef_git configuration)
             \<and> \<not> gc_include_dirty (ef_git configuration)
     then ok (refused UserActionRequired ''repository_not_clean''
       (''the repository has '' @ nat_dec (length (rt_staged_paths facts)) @ '' staged, ''
         @ nat_dec (length (rt_unstaged_paths facts)) @ '' unstaged and ''
         @ nat_dec (length (rt_untracked_paths facts)) @ '' untracked changes'')
       ''Commit or stash the changes, or start the run with the include dirty option.'' evidence)
     else then_do (take_snapshot P cx) (prepare_environment P cx evidence facts True)))"

section \<open>Plan\<close>

definition repository_summary ::
    "effective_configuration \<Rightarrow> run_projection \<Rightarrow> string list \<Rightarrow> string" where
  "repository_summary configuration projection paths =
     ''Repository root: '' @ ef_repository_path configuration @ [newline]
     @ (case rp_baseline_commit projection of
          Some baseline \<Rightarrow> ''Baseline commit: '' @ baseline @ [newline] | None \<Rightarrow> [])
     @ (case rp_default_branch projection of
          Some branch \<Rightarrow> ''Default branch: '' @ branch @ [newline] | None \<Rightarrow> [])
     @ ''Tracked paths sampled: '' @ nat_dec (length paths) @ [newline]
     @ ''Paths:'' @ [newline] @ bullet_lines (take 300 paths)"

definition revision_note_of :: "plan_history \<Rightarrow> string option" where
  "revision_note_of plan =
     (case ph_approval plan of
        Some approval \<Rightarrow>
          if pa_decision approval = RevisionRequested then pa_note approval else None
      | None \<Rightarrow> None)"

definition previous_plan_evidence ::
    "'w node_ports \<Rightarrow> run_context \<Rightarrow> node_call \<Rightarrow> ('w, string list) step" where
  "previous_plan_evidence P cx c =
     (let noted = (case revision_note_of (rp_plan (nc_projection c)) of
            Some note_text \<Rightarrow> [''Requested revision: '' @ note_text] | None \<Rightarrow> []) in
     case plan_current (rp_plan (nc_projection c)) of
       None \<Rightarrow> ok noted
     | Some current \<Rightarrow>
         then_do (unwrap_or [] (np_read_version P (cx_run_id cx) (pv_version current)))
           (\<lambda>previous. ok (noted @ [''Previous plan version '' @ dec (pv_version current)
             @ '' follows:'' @ [newline] @ truncate_for_prompt previous 6000])))"

definition plan_facts :: "run_context \<Rightarrow> node_call \<Rightarrow> string \<Rightarrow> string list \<Rightarrow> prompt_facts" where
  "plan_facts cx c summary previous_evidence =
     \<lparr>pf_task_title = context_task_title cx, pf_task_body = cx_task_markdown cx,
      pf_repository_summary = summary, pf_approved_plan_hash = None, pf_approved_plan = None,
      pf_strategy = None, pf_strategy_emphasis = None,
      pf_allowed_commands = allowed_commands (cx_configuration cx),
      pf_protected_paths = pp_protected_patterns (ef_path_policy (cx_configuration cx)),
      pf_previous_evidence = previous_evidence, pf_expected_files = [],
      pf_attempt = nc_attempt c\<rparr>"

definition plan_input :: "node_call \<Rightarrow> prompt_contract \<Rightarrow> json_value" where
  "plan_input c prompt = JObject
     [(''role'', JString (agent_role_as_str Planner)),
      (''attempt'', json_word (nc_attempt c)),
      (''prompt_template_id'', JString (pc_template_id prompt)),
      (''prompt_template_version'', json_word (pc_template_version prompt)),
      (''prompt_template_hash'', JString (pc_template_hash prompt)),
      (''revision_note'', json_option JString (revision_note_of (rp_plan (nc_projection c))))]"

definition plan_invocation :: "run_context \<Rightarrow> prompt_contract \<Rightarrow> agent_invocation" where
  "plan_invocation cx prompt =
     (let configuration = cx_configuration cx in
     \<lparr>ai_run_id = cx_run_id cx, ai_candidate_id = None, ai_role = Planner, ai_strategy = None,
      ai_worktree = ef_repository_path configuration, ai_prompt = prompt,
      ai_tool_policy = tool_policy_read_only (ef_path_policy configuration)
        (sat_mul (bd_max_agent_turns (ef_budgets configuration)) 4),
      ai_commands = [], ai_environment_allowlist = ef_environment_allowlist configuration,
      ai_network = ac_network (ef_agent configuration),
      ai_time_budget_seconds = ac_timeout (ef_agent configuration),
      ai_turn_budget = bd_max_agent_turns (ef_budgets configuration),
      ai_output_budget_bytes = bd_max_output_bytes_per_stream (ef_budgets configuration)\<rparr>)"

definition invocation_record :: "agent_outcome \<Rightarrow> (string \<times> json_value) list" where
  "invocation_record outcome =
     [(''driver'', JString (agent_driver_as_str (ao_driver outcome))),
      (''model'', JString (ao_model_identity outcome)),
      (''exit_reason'', JString (exit_reason_as_str (ao_exit_reason outcome))),
      (''tool_calls'', JArray (map json_tool_call (ao_tool_calls outcome))),
      (''usage'', json_usage (ao_usage outcome))]"

definition agent_evidence ::
    "'w node_ports \<Rightarrow> json_value \<Rightarrow> prompt_contract \<Rightarrow> agent_outcome \<Rightarrow> attempt_evidence" where
  "agent_evidence P input prompt outcome =
     redacted_streams P outcome
       (with_invocation (JObject (invocation_record outcome
           @ [(''prompt_template_hash'', JString (pc_template_hash prompt))]))
         (evidence_with_input input))"

definition plan_markdown_of :: "json_value \<Rightarrow> string" where
  "plan_markdown_of response =
     (case Option.bind (json_get ''plan_markdown'' response) json_as_str of
        Some markdown \<Rightarrow> markdown | None \<Rightarrow> [])"

text \<open>What the node makes of an acceptable plan.\<close>

definition plan_written ::
    "'w node_ports \<Rightarrow> run_context \<Rightarrow> node_call \<Rightarrow> attempt_evidence \<Rightarrow> prompt_contract
      \<Rightarrow> agent_outcome \<Rightarrow> string \<Rightarrow> ('w, node_output) step" where
  "plan_written P cx c evidence prompt outcome markdown =
     (let validation = validate_plan_document markdown;
          revision_note = revision_note_of (rp_plan (nc_projection c)) in
     then_do (ask (np_now P)) (\<lambda>recorded_at.
     then_do (np_write_version P (cx_run_id cx)
       (next_version_number (rp_plan (nc_projection c))) markdown AgentAuthor revision_note
       recorded_at) (\<lambda>version.
     ok (fold with_warning
       (map (\<lambda>section. ''the plan section `'' @ section @ ''` is empty'')
         (pl_empty_sections validation))
       (with_evidence evidence
       (with_metrics (JObject
          [(''expected_files'', json_strings (pl_expected_files validation)),
           (''plan_bytes'', json_word (pv_byte_length version)),
           (''model'', JString (ao_model_identity outcome)),
           (''tool_calls'', json_nat (length (ao_tool_calls outcome))),
           (''prompt_template_hash'', JString (pc_template_hash prompt))])
       (with_event (PlanVersionWritten (pv_version version) (pv_hash version) AgentAuthor
          revision_note (pv_byte_length version))
       (with_patch (state_patch_default\<lparr>sp_plan_version := Some (pv_version version)\<rparr>)
       (output_succeeded (Some Approval))))))))))"

definition plan_judged ::
    "'w node_ports \<Rightarrow> run_context \<Rightarrow> node_call \<Rightarrow> attempt_evidence \<Rightarrow> prompt_contract
      \<Rightarrow> agent_outcome \<Rightarrow> ('w, node_output) step" where
  "plan_judged P cx c evidence prompt outcome =
     (if \<not> agent_completed outcome
      then ok (refused TaskFailure ''planning_incomplete''
        (''the planning agent stopped with reason `''
          @ exit_reason_as_str (ao_exit_reason outcome) @ ''`'')
        ''Review the agent diagnostics and retry planning.'' evidence)
      else if ao_changed_paths outcome \<noteq> []
      then ok (refused_plainly PolicyViolation ''plan_node_modified_files''
        (''the planning node is read-only but '' @ nat_dec (length (ao_changed_paths outcome))
          @ '' paths changed'') evidence)
      else case ao_structured_response outcome of
        None \<Rightarrow> ok (refused_plainly TaskFailure ''planning_response_missing''
          ''the planning agent returned no structured completion'' evidence)
      | Some response \<Rightarrow>
          let markdown = plan_markdown_of response;
              validation = validate_plan_document markdown
          in if \<not> is_acceptable validation
             then ok (refused TaskFailure ''plan_missing_required_headings''
               (''the plan is missing the required headings: ''
                 @ join_str '', '' (pl_missing_headings validation))
               ''Ask the planning agent for a revision that includes every required heading.''
               evidence)
             else plan_written P cx c evidence prompt outcome markdown)"

definition plan_execute :: "'w node_ports \<Rightarrow> run_context \<Rightarrow> node_call \<Rightarrow> ('w, node_output) step" where
  "plan_execute P cx c =
     then_do (np_list_paths P (ef_repository_path (cx_configuration cx)) 400) (\<lambda>paths.
     then_do (previous_plan_evidence P cx c) (\<lambda>previous_evidence.
     then_do (lift_result (render_prompt (np_externals P) Planner (plan_facts cx c
       (repository_summary (cx_configuration cx) (nc_projection c) paths) previous_evidence)))
       (\<lambda>prompt.
     then_do (np_invoke P (plan_invocation cx prompt)) (\<lambda>outcome.
     plan_judged P cx c (agent_evidence P (plan_input c prompt) prompt outcome) prompt outcome))))"

section \<open>Fan out\<close>

definition fan_out_input :: "run_context \<Rightarrow> commit_hash \<Rightarrow> json_value" where
  "fan_out_input cx baseline =
     (let budgets = ef_budgets (cx_configuration cx) in JObject
     [(''candidate_count'', json_word (bd_candidates budgets)),
      (''baseline_commit'', JString baseline),
      (''max_parallel_candidates'', json_word (bd_max_parallel_candidates budgets)),
      (''repair_budget'', json_word (bd_max_repairs_per_candidate budgets))])"

text \<open>One turn of the loop: the worktree of a candidate and the events that register it.\<close>

definition fan_out_candidate ::
    "'w node_ports \<Rightarrow> run_context \<Rightarrow> commit_hash \<Rightarrow> dirty_snapshot option \<Rightarrow> string \<Rightarrow> u8
      \<Rightarrow> ('w, event_payload list) step" where
  "fan_out_candidate P cx baseline snapshot home ordinal_value =
     then_do (lift_result (lift_domain (ordinal_new ordinal_value))) (\<lambda>ordinal.
     let candidate = candidate_id_derive (np_externals P) (cx_run_id cx) ordinal;
         relative = candidate_worktree_relative (np_externals P) (cx_run_id cx) candidate in
     then_do (lift_result (lift_domain (branch_name_from_str (worktree_role_branch (np_externals P)
       (cx_run_id cx) Candidate (Some candidate))))) (\<lambda>branch.
     then_do (np_create_worktree P (ef_repository_path (cx_configuration cx)) (cx_run_id cx)
       (Some candidate) Candidate baseline branch) (\<lambda>handle.
     if \<not> same_path (wk_path handle) (path_join home relative)
     then stop (Internal (''the worktree service created `'' @ wk_path handle
       @ ''` but the run store expects `'' @ path_join home relative @ ''`''))
     else
     then_do (case snapshot of
         Some taken \<Rightarrow> np_apply_snapshot P (wk_path handle) taken | None \<Rightarrow> ok ()) (\<lambda>_.
     ok [CandidateRegistered candidate ordinal (strategy_for_ordinal ordinal_value) branch relative
           (bd_max_repairs_per_candidate (ef_budgets (cx_configuration cx))),
         CandidateStatusChanged candidate Pending Preparing
           (Some ''the candidate worktree was created from the baseline'')]))))"

fun fan_out_candidates ::
    "'w node_ports \<Rightarrow> run_context \<Rightarrow> commit_hash \<Rightarrow> dirty_snapshot option \<Rightarrow> string \<Rightarrow> u8 list
      \<Rightarrow> event_payload list \<Rightarrow> ('w, event_payload list) step" where
  "fan_out_candidates P cx baseline snapshot home [] events = ok events"
| "fan_out_candidates P cx baseline snapshot home (ordinal # ordinals) events =
     then_do (fan_out_candidate P cx baseline snapshot home ordinal) (\<lambda>registered.
       fan_out_candidates P cx baseline snapshot home ordinals (events @ registered))"

text \<open>The range \<open>1..=count\<close>.\<close>

definition ordinals_to :: "u8 \<Rightarrow> u8 list" where
  "ordinals_to number = map of_nat [1..<Suc (unat number)]"

definition fan_out_execute :: "'w node_ports \<Rightarrow> run_context \<Rightarrow> node_call \<Rightarrow> ('w, node_output) step" where
  "fan_out_execute P cx c =
     then_do (lift_result (call_baseline c)) (\<lambda>baseline.
     then_do (load_dirty_snapshot P cx c) (\<lambda>snapshot.
     then_do (heikas_home P) (\<lambda>home.
     then_do (fan_out_candidates P cx baseline snapshot home
       (ordinals_to (bd_candidates (ef_budgets (cx_configuration cx)))) []) (\<lambda>events.
     ok (with_evidence (evidence_with_input (fan_out_input cx baseline))
       (with_metrics (JObject
          [(''candidates_created'', json_word (bd_candidates (ef_budgets (cx_configuration cx)))),
           (''dirty_snapshot_applied'', JBool (snapshot \<noteq> None))])
       (with_events events (output_succeeded (Some ImplementCandidate)))))))))"

end
