(* ===== verification/Forge_Node_Work.thy ===== *)
theory Forge_Node_Work
  imports Forge_Node_Start
begin

text \<open>
  The nodes that have an agent edit a candidate: \<open>nodes/implement.rs\<close> and \<open>nodes/repair.rs\<close>.
\<close>

section \<open>What both nodes do\<close>

definition editing_invocation ::
    "run_context \<Rightarrow> agent_role \<Rightarrow> candidate_record \<Rightarrow> candidate_id \<Rightarrow> string \<Rightarrow> prompt_contract
      \<Rightarrow> agent_invocation" where
  "editing_invocation cx role candidate_entry candidate worktree prompt =
     (let configuration = cx_configuration cx in
     \<lparr>ai_run_id = cx_run_id cx, ai_candidate_id = Some candidate, ai_role = role,
      ai_strategy = Some (cr_strategy candidate_entry), ai_worktree = worktree,
      ai_prompt = prompt,
      ai_tool_policy = tool_policy_editing (ef_path_policy configuration)
        (map cs_id (ef_commands configuration))
        (sat_mul (bd_max_agent_turns (ef_budgets configuration)) 8),
      ai_commands = ef_commands configuration,
      ai_environment_allowlist = ef_environment_allowlist configuration,
      ai_network = ac_network (ef_agent configuration),
      ai_time_budget_seconds = ac_timeout (ef_agent configuration),
      ai_turn_budget = bd_max_agent_turns (ef_budgets configuration),
      ai_output_budget_bytes = bd_max_output_bytes_per_stream (ef_budgets configuration)\<rparr>)"

text \<open>The diff of the worktree, stored as the candidate's.\<close>

definition record_diff ::
    "'w node_ports \<Rightarrow> run_context \<Rightarrow> candidate_id \<Rightarrow> string \<Rightarrow> commit_hash
      \<Rightarrow> ('w, diff_summary \<times> content_digest) step" where
  "record_diff P cx candidate worktree baseline =
     then_do (np_diff_against_baseline P worktree baseline) (\<lambda>(patch, summary).
     then_do (np_write_diff P (cx_run_id cx) (Some candidate) patch) (\<lambda>digest.
     ok (summary, digest)))"

definition diff_event :: "candidate_id \<Rightarrow> diff_summary \<Rightarrow> content_digest \<Rightarrow> event_payload" where
  "diff_event candidate summary digest =
     CandidateDiffRecorded candidate digest (df_changed_files summary) (diff_changed_lines summary)"

definition diff_patch :: "diff_summary \<Rightarrow> content_digest \<Rightarrow> state_patch" where
  "diff_patch summary digest =
     state_patch_default\<lparr>sp_diff_digest := Some digest,
       sp_changed_files := Some (df_changed_files summary),
       sp_changed_lines := Some (diff_changed_lines summary)\<rparr>"

section \<open>Implement\<close>

definition implement_facts ::
    "run_context \<Rightarrow> node_call \<Rightarrow> candidate_record \<Rightarrow> candidate_id \<Rightarrow> commit_hash \<Rightarrow> string
      \<Rightarrow> content_digest \<Rightarrow> prompt_facts" where
  "implement_facts cx c candidate_entry candidate baseline plan_markdown plan_hash =
     \<lparr>pf_task_title = context_task_title cx, pf_task_body = cx_task_markdown cx,
      pf_repository_summary =
        ''Candidate worktree baseline: '' @ baseline @ [newline]
        @ ''Candidate identifier: '' @ candidate @ [newline]
        @ ''Repair budget: '' @ dec (cr_repair_budget candidate_entry) @ [newline],
      pf_approved_plan_hash = Some plan_hash, pf_approved_plan = Some plan_markdown,
      pf_strategy = Some (fst (strategy_facts (cr_strategy candidate_entry))),
      pf_strategy_emphasis = Some (snd (strategy_facts (cr_strategy candidate_entry))),
      pf_allowed_commands = allowed_commands (cx_configuration cx),
      pf_protected_paths = pp_protected_patterns (ef_path_policy (cx_configuration cx)),
      pf_previous_evidence = [],
      pf_expected_files = pl_expected_files (validate_plan_document plan_markdown),
      pf_attempt = nc_attempt c\<rparr>"

definition implement_input ::
    "node_call \<Rightarrow> candidate_record \<Rightarrow> candidate_id \<Rightarrow> content_digest \<Rightarrow> prompt_contract \<Rightarrow> json_value" where
  "implement_input c candidate_entry candidate plan_hash prompt = JObject
     [(''role'', JString (agent_role_as_str Implementer)),
      (''candidate'', JString candidate),
      (''strategy'', JString (strategy_as_str (cr_strategy candidate_entry))),
      (''attempt'', json_word (nc_attempt c)),
      (''approved_plan_hash'', JString plan_hash),
      (''prompt_template_hash'', JString (pc_template_hash prompt))]"

definition implement_output ::
    "attempt_evidence \<Rightarrow> agent_outcome \<Rightarrow> candidate_id \<Rightarrow> diff_summary \<Rightarrow> content_digest
      \<Rightarrow> node_output" where
  "implement_output evidence outcome candidate summary digest =
     (if \<not> agent_completed outcome
      then with_evidence evidence
        (with_patch (diff_patch summary digest)
        (with_event (diff_event candidate summary digest)
        (output_failed (node_failure_new TaskFailure ''implementation_incomplete''
          (''the implementation agent stopped with reason `''
            @ exit_reason_as_str (ao_exit_reason outcome) @ ''`'')) None)))
      else
        let output = with_evidence evidence
          (with_metrics (JObject
            [(''changed_files'', json_word (df_changed_files summary)),
             (''added_lines'', json_word (df_added_lines summary)),
             (''removed_lines'', json_word (df_removed_lines summary)),
             (''tool_calls'', json_nat (length (ao_tool_calls outcome))),
             (''model'', JString (ao_model_identity outcome))])
          (with_patch (diff_patch summary digest)
          (with_event (diff_event candidate summary digest)
          (output_succeeded (Some TestCandidate)))))
        in if df_is_empty summary
           then with_warning ''the candidate produced no change against the baseline'' output
           else output)"

definition implement_execute :: "'w node_ports \<Rightarrow> run_context \<Rightarrow> node_call \<Rightarrow> ('w, node_output) step" where
  "implement_execute P cx c =
     then_do (candidate_required cx c ''the implementation node requires a candidate'') (\<lambda>candidate.
     then_do (candidate_recorded cx c candidate) (\<lambda>candidate_entry.
     then_do (candidate_worktree P cx c candidate) (\<lambda>worktree.
     then_do (lift_result (call_baseline c)) (\<lambda>baseline.
     then_do (approved_plan P cx c) (\<lambda>(plan_markdown, plan_hash).
     then_do (lift_result (render_prompt (np_externals P) Implementer
       (implement_facts cx c candidate_entry candidate baseline plan_markdown plan_hash))) (\<lambda>prompt.
     then_do (np_invoke P (editing_invocation cx Implementer candidate_entry candidate worktree
       prompt)) (\<lambda>outcome.
     then_do (record_diff P cx candidate worktree baseline) (\<lambda>(summary, digest).
     ok (implement_output (agent_evidence P
         (implement_input c candidate_entry candidate plan_hash prompt) prompt outcome)
       outcome candidate summary digest)))))))))"

section \<open>Repair\<close>

definition failing_test_line :: "test_failure_detail \<Rightarrow> string" where
  "failing_test_line failure =
     ''Failing test '' @ tf_suite failure @ ''::'' @ tf_case failure @ '' at ''
     @ (case tf_file failure of Some path \<Rightarrow> path | None \<Rightarrow> ''unknown'') @ '':''
     @ dec (case tf_line failure of Some line \<Rightarrow> line | None \<Rightarrow> 0) @ '' reported ''
     @ truncate_for_prompt (tf_message failure) 600"

definition command_lines :: "command_execution_record \<Rightarrow> string list" where
  "command_lines executed =
     (''Command `'' @ ce_command_id executed @ ''` finished as ''
       @ command_outcome_as_str (ce_outcome executed) @ '': '' @ failure_summary executed)
     # map failing_test_line (take 20 (ce_failures executed))"

definition issue_line :: "review_issue \<Rightarrow> string" where
  "issue_line issue =
     issue_severity_as_str (ri_severity issue) @ '' '' @ ri_rule_id issue @ '' at ''
     @ (case ri_file issue of Some path \<Rightarrow> path | None \<Rightarrow> ''unknown'') @ '':''
     @ dec (case ri_line issue of Some line \<Rightarrow> line | None \<Rightarrow> 0) @ '' reported ''
     @ truncate_for_prompt (ri_message issue) 400"

definition report_lines :: "review_report \<Rightarrow> string list" where
  "report_lines report =
     (''Review provider `'' @ rr_provider report @ ''` failed: ''
       @ (case rr_failure_summary report of
            Some summary \<Rightarrow> summary | None \<Rightarrow> ''the quality gate did not pass''))
     # map issue_line (take 30 (rr_issues report))"

definition evidence_lines :: "test_evidence option \<Rightarrow> aggregated_review option \<Rightarrow> string list" where
  "evidence_lines tests review =
     (let gathered =
        (case tests of
           Some evidence \<Rightarrow> concat (map command_lines
             (filter (\<lambda>executed. \<not> outcome_is_pass (ce_outcome executed)) (te_commands evidence)))
         | None \<Rightarrow> [])
        @ (case review of
             Some aggregated \<Rightarrow> concat (map report_lines
               (filter (\<lambda>report. \<not> rr_passed report) (ag_reports aggregated)))
           | None \<Rightarrow> [])
      in if gathered = []
         then [''No structured gate evidence was recorded for the previous attempt.'']
         else gathered)"

definition collect_evidence ::
    "'w node_ports \<Rightarrow> run_context \<Rightarrow> candidate_id \<Rightarrow> ('w, string list) step" where
  "collect_evidence P cx candidate =
     then_do (np_read_test_evidence P (cx_run_id cx) (Some candidate)) (\<lambda>tests.
     then_do (np_read_review P (cx_run_id cx) (Some candidate)) (\<lambda>review.
     ok (evidence_lines tests review)))"

definition latest_failure_fingerprint ::
    "externals \<Rightarrow> run_projection \<Rightarrow> candidate_id \<Rightarrow> string option" where
  "latest_failure_fingerprint X projection candidate =
     map_option (\<lambda>summary. digest_short (digest_of_str X summary))
       (Option.bind (max_by_key na_sequence
         (filter (\<lambda>attempt. na_candidate_id attempt = Some candidate
             \<and> na_status attempt = node_attempt_status.Failed) (rp_attempts projection)))
         na_failure_summary)"

definition repair_exhausted :: "candidate_record \<Rightarrow> candidate_id \<Rightarrow> node_output" where
  "repair_exhausted candidate_entry candidate =
     with_patch (state_patch_default\<lparr>sp_candidate_status := Some Ineligible,
         sp_exclusion_reasons := Some [RepairBudgetExhausted (cr_repairs_used candidate_entry)
           (cr_repair_budget candidate_entry)]\<rparr>)
       (output_failed (node_failure_new TaskFailure ''repair_budget_exhausted''
         (''candidate '' @ candidate @ '' used '' @ dec (cr_repairs_used candidate_entry) @ '' of ''
           @ dec (cr_repair_budget candidate_entry) @ '' repair attempts'')) (Some Join))"

definition repair_facts ::
    "run_context \<Rightarrow> candidate_record \<Rightarrow> candidate_id \<Rightarrow> u32 \<Rightarrow> string \<Rightarrow> content_digest \<Rightarrow> string list
      \<Rightarrow> prompt_facts" where
  "repair_facts cx candidate_entry candidate repairs_used plan_markdown plan_hash evidence =
     \<lparr>pf_task_title = context_task_title cx, pf_task_body = cx_task_markdown cx,
      pf_repository_summary =
        ''Candidate identifier: '' @ candidate @ [newline]
        @ ''Repair attempt '' @ dec repairs_used @ '' of ''
        @ dec (cr_repair_budget candidate_entry) @ [newline],
      pf_approved_plan_hash = Some plan_hash, pf_approved_plan = Some plan_markdown,
      pf_strategy = Some (fst (strategy_facts (cr_strategy candidate_entry))),
      pf_strategy_emphasis = Some (snd (strategy_facts (cr_strategy candidate_entry))),
      pf_allowed_commands = allowed_commands (cx_configuration cx),
      pf_protected_paths = pp_protected_patterns (ef_path_policy (cx_configuration cx)),
      pf_previous_evidence = evidence, pf_expected_files = [], pf_attempt = repairs_used\<rparr>"

definition repair_input ::
    "candidate_record \<Rightarrow> candidate_id \<Rightarrow> u32 \<Rightarrow> string option \<Rightarrow> prompt_contract \<Rightarrow> json_value" where
  "repair_input candidate_entry candidate repairs_used fingerprint prompt = JObject
     [(''role'', JString (agent_role_as_str Repairer)),
      (''candidate'', JString candidate),
      (''repairs_used'', json_word repairs_used),
      (''repair_budget'', json_word (cr_repair_budget candidate_entry)),
      (''failure_fingerprint'', json_option JString fingerprint),
      (''prompt_template_hash'', JString (pc_template_hash prompt))]"

definition repair_evidence ::
    "'w node_ports \<Rightarrow> json_value \<Rightarrow> agent_outcome \<Rightarrow> attempt_evidence" where
  "repair_evidence P input outcome =
     redacted_streams P outcome
       (with_invocation (JObject (invocation_record outcome)) (evidence_with_input input))"

definition repair_output ::
    "attempt_evidence \<Rightarrow> agent_outcome \<Rightarrow> event_payload list \<Rightarrow> u32 \<Rightarrow> diff_summary \<Rightarrow> content_digest
      \<Rightarrow> node_output" where
  "repair_output evidence outcome events repairs_used summary digest =
     (let patch = (diff_patch summary digest)\<lparr>sp_repairs_used := Some repairs_used\<rparr> in
      if \<not> agent_completed outcome
      then with_evidence evidence (with_patch patch (with_events events
        (output_failed (node_failure_new TaskFailure ''repair_incomplete''
          (''the repair agent stopped with reason `''
            @ exit_reason_as_str (ao_exit_reason outcome) @ ''`'')) None)))
      else with_evidence evidence
        (with_metrics (JObject
          [(''repairs_used'', json_word repairs_used),
           (''changed_files'', json_word (df_changed_files summary)),
           (''changed_lines'', json_word (diff_changed_lines summary)),
           (''tool_calls'', json_nat (length (ao_tool_calls outcome)))])
        (with_patch patch (with_events events (output_succeeded (Some TestCandidate))))))"

definition repair_execute :: "'w node_ports \<Rightarrow> run_context \<Rightarrow> node_call \<Rightarrow> ('w, node_output) step" where
  "repair_execute P cx c =
     then_do (candidate_required cx c ''the repair node requires a candidate'') (\<lambda>candidate.
     then_do (candidate_recorded cx c candidate) (\<lambda>candidate_entry.
     if \<not> has_repair_budget candidate_entry then ok (repair_exhausted candidate_entry candidate)
     else
     then_do (candidate_worktree P cx c candidate) (\<lambda>worktree.
     then_do (lift_result (call_baseline c)) (\<lambda>baseline.
     then_do (approved_plan P cx c) (\<lambda>(plan_markdown, plan_hash).
     then_do (collect_evidence P cx candidate) (\<lambda>evidence.
     let fingerprint = latest_failure_fingerprint (np_externals P) (nc_projection c) candidate;
         repairs_used = sat_add (cr_repairs_used candidate_entry) 1 in
     then_do (lift_result (render_prompt (np_externals P) Repairer (repair_facts cx candidate_entry
       candidate repairs_used plan_markdown plan_hash evidence))) (\<lambda>prompt.
     then_do (np_invoke P (editing_invocation cx Repairer candidate_entry candidate worktree
       prompt)) (\<lambda>outcome.
     then_do (record_diff P cx candidate worktree baseline) (\<lambda>(summary, digest).
     ok (repair_output (repair_evidence P
         (repair_input candidate_entry candidate repairs_used fingerprint prompt) outcome) outcome
       [CandidateRepairStarted candidate repairs_used (cr_repair_budget candidate_entry) fingerprint,
        diff_event candidate summary digest]
       repairs_used summary digest))))))))))"

end
