(* ===== verification/Forge_Node_Gates.thy ===== *)
theory Forge_Node_Gates
  imports Forge_Node_Work
begin

text \<open>
  The gates: \<open>nodes/test.rs\<close>, \<open>nodes/review.rs\<close>, \<open>nodes/join.rs\<close> and the gates of
  \<open>nodes/final_gates.rs\<close> before they decide about a promotion.
\<close>

section \<open>What the gates share\<close>

definition gate_context_of ::
    "run_context \<Rightarrow> candidate_id option \<Rightarrow> string \<Rightarrow> commit_hash \<Rightarrow> string list \<Rightarrow> string list
      \<Rightarrow> gate_context" where
  "gate_context_of cx candidate worktree baseline changed_paths expected_files =
     \<lparr>gx_run_id = cx_run_id cx, gx_candidate_id = candidate, gx_worktree = worktree,
      gx_repository = ef_repository_path (cx_configuration cx), gx_baseline = baseline,
      gx_changed_paths = changed_paths, gx_plan_expected_files = expected_files,
      gx_configuration = cx_configuration cx\<rparr>"

text \<open>The changed paths and the expected files, then the context of the gate.\<close>

definition prepare_gate ::
    "'w node_ports \<Rightarrow> run_context \<Rightarrow> node_call \<Rightarrow> candidate_id option \<Rightarrow> string \<Rightarrow> commit_hash
      \<Rightarrow> ('w, gate_context) step" where
  "prepare_gate P cx c candidate worktree baseline =
     then_do (unwrap_or [] (np_changed_paths P worktree baseline)) (\<lambda>changed_paths.
     then_do (plan_expected_files P cx c) (\<lambda>expected_files.
     ok (gate_context_of cx candidate worktree baseline changed_paths expected_files)))"

fun store_artifacts ::
    "'w node_ports \<Rightarrow> run_context \<Rightarrow> gate_artifact list \<Rightarrow> artifact_reference list
      \<Rightarrow> ('w, artifact_reference list) step" where
  "store_artifacts P cx [] references = ok references"
| "store_artifacts P cx (artifact # artifacts) references =
     then_do (np_store_artifact P (cx_run_id cx) (ga_label artifact) (ga_relative_path artifact)
       (redact_bytes (np_redactor P) (ga_bytes artifact)) (ga_truncated artifact)) (\<lambda>stored.
     store_artifacts P cx artifacts (references @ [artifact_to_reference stored]))"

definition printed_evidence ::
    "'w node_ports \<Rightarrow> json_value \<Rightarrow> string \<Rightarrow> attempt_evidence" where
  "printed_evidence P input printed =
     with_streams (redact_text (np_redactor P) printed) [] (evidence_with_input input)"

section \<open>Tests\<close>

text \<open>A run of the test commands: the evidence with its totals, stored, and its artifacts.\<close>

definition run_test_gate ::
    "'w node_ports \<Rightarrow> run_context \<Rightarrow> node_call \<Rightarrow> gate_context
      \<Rightarrow> ('w, test_evidence \<times> artifact_reference list \<times> string) step" where
  "run_test_gate P cx c gate =
     then_do (np_run_tests P gate (catalogue_test_phase (ef_commands (cx_configuration cx))))
       (\<lambda>output.
     let evidence = recompute_totals (tg_evidence output) in
     then_do (np_write_test_evidence P (cx_run_id cx) (gx_candidate_id gate) (nc_attempt c) evidence)
       (\<lambda>_.
     then_do (store_artifacts P cx (tg_artifacts output) []) (\<lambda>artifacts.
     then_do (lift_result (np_tests_json P evidence)) (\<lambda>printed.
     ok (evidence, artifacts, printed)))))"

definition test_event ::
    "run_context \<Rightarrow> candidate_id option \<Rightarrow> node_id \<Rightarrow> test_evidence \<Rightarrow> event_payload" where
  "test_event cx candidate node evidence =
     TestEvidenceRecorded candidate node (all_required_passed evidence)
       (map cs_id (catalogue_test_phase (ef_commands (cx_configuration cx))))
       (map fst (failed_required evidence)) (te_line_coverage_percent evidence)
       (te_total_duration evidence)"

definition test_input :: "run_context \<Rightarrow> node_call \<Rightarrow> candidate_id \<Rightarrow> json_value" where
  "test_input cx c candidate = JObject
     [(''candidate'', JString candidate),
      (''attempt'', json_word (nc_attempt c)),
      (''commands'', json_strings
        (map cs_id (catalogue_test_phase (ef_commands (cx_configuration cx)))))]"

definition test_metrics :: "'w node_ports \<Rightarrow> run_context \<Rightarrow> test_evidence \<Rightarrow> json_value" where
  "test_metrics P cx evidence = JObject
     [(''passed'', JBool (all_required_passed evidence)),
      (''commands'', json_nat (length (catalogue_test_phase (ef_commands (cx_configuration cx))))),
      (''failed_commands'', json_strings (map fst (failed_required evidence))),
      (''line_coverage_percent'', json_option (np_json_f64 P) (te_line_coverage_percent evidence)),
      (''duration_ms'', json_word (te_total_duration evidence))]"

definition tests_failure :: "externals \<Rightarrow> test_evidence \<Rightarrow> node_failure" where
  "tests_failure X evidence =
     (let failure = node_failure_new TaskFailure ''required_tests_failed''
        (''required test commands failed: '' @ join_str '', '' (map fst (failed_required evidence)))
      in case failure_fingerprint X evidence of
           Some fingerprint \<Rightarrow> with_fingerprint fingerprint failure | None \<Rightarrow> failure)"

definition test_execute :: "'w node_ports \<Rightarrow> run_context \<Rightarrow> node_call \<Rightarrow> ('w, node_output) step" where
  "test_execute P cx c =
     then_do (candidate_required cx c ''the test node requires a candidate'') (\<lambda>candidate.
     then_do (candidate_worktree P cx c candidate) (\<lambda>worktree.
     then_do (lift_result (call_baseline c)) (\<lambda>baseline.
     then_do (prepare_gate P cx c (Some candidate) worktree baseline) (\<lambda>gate.
     then_do (run_test_gate P cx c gate) (\<lambda>(evidence, artifacts, printed).
     ok (with_evidence (printed_evidence P (test_input cx c candidate) printed)
       (with_metrics (test_metrics P cx evidence)
       (with_artifacts artifacts
       (with_event (test_event cx (Some candidate) TestCandidate evidence)
       (if all_required_passed evidence then output_succeeded (Some ReviewCandidate)
        else output_failed (tests_failure (np_externals P) evidence) None))))))))))"

section \<open>Reviews\<close>

fun run_providers_from ::
    "'w review_provider list \<Rightarrow> gate_context \<Rightarrow> review_report list \<Rightarrow> gate_artifact list \<Rightarrow> duration_ms
      \<Rightarrow> ('w, aggregated_review \<times> gate_artifact list \<times> duration_ms) step" where
  "run_providers_from [] gate reports artifacts duration =
     ok (\<lparr>ag_reports = reports\<rparr>, artifacts, duration)"
| "run_providers_from (provider # providers) gate reports artifacts duration =
     then_do (vp_available provider) (\<lambda>available.
     if \<not> available
     then if vp_required provider
          then stop (QualityProvider (''the required review provider `'' @ vp_name provider
            @ ''` is not available''))
          else run_providers_from providers gate reports artifacts duration
     else
     then_do (vp_review provider gate) (\<lambda>output.
     then_do (lift_result (lift_domain (review_report_validate (rv_report output)))) (\<lambda>_.
     run_providers_from providers gate (reports @ [rv_report output])
       (artifacts @ rv_artifacts output)
       (sat_add duration (duration_since (rr_finished_at (rv_report output))
         (rr_started_at (rv_report output)))))))"

definition run_providers ::
    "'w node_ports \<Rightarrow> gate_context \<Rightarrow> ('w, aggregated_review \<times> gate_artifact list \<times> duration_ms) step" where
  "run_providers P gate = run_providers_from (np_reviews P) gate [] [] 0"

definition review_gate_passed :: "aggregated_review \<Rightarrow> bool" where
  "review_gate_passed review \<longleftrightarrow> required_reports_passed review \<and> has_required_provider review"

definition run_review_gate ::
    "'w node_ports \<Rightarrow> run_context \<Rightarrow> node_call \<Rightarrow> gate_context
      \<Rightarrow> ('w, aggregated_review \<times> artifact_reference list \<times> duration_ms \<times> string) step" where
  "run_review_gate P cx c gate =
     then_do (run_providers P gate) (\<lambda>(review, artifacts, duration).
     then_do (store_artifacts P cx artifacts []) (\<lambda>stored.
     then_do (np_write_review P (cx_run_id cx) (gx_candidate_id gate) (nc_attempt c) review) (\<lambda>_.
     then_do (lift_result (np_review_json P review)) (\<lambda>printed.
     ok (review, stored, duration, printed)))))"

definition review_event ::
    "candidate_id option \<Rightarrow> node_id \<Rightarrow> aggregated_review \<Rightarrow> duration_ms \<Rightarrow> event_payload" where
  "review_event candidate node review duration =
     ReviewEvidenceRecorded candidate node (review_gate_passed review)
       (map rr_provider (ag_reports review)) (failed_required_providers review)
       (issue_count review Blocker) duration"

definition review_input :: "run_context \<Rightarrow> node_call \<Rightarrow> candidate_id \<Rightarrow> json_value" where
  "review_input cx c candidate = JObject
     [(''candidate'', JString candidate),
      (''attempt'', json_word (nc_attempt c)),
      (''providers'', json_strings (review_provider_names (cx_configuration cx)))]"

definition review_metrics_json :: "aggregated_review \<Rightarrow> duration_ms \<Rightarrow> json_value" where
  "review_metrics_json review duration = JObject
     [(''passed'', JBool (review_gate_passed review)),
      (''failed_providers'', json_strings (failed_required_providers review)),
      (''blocker_issues'', json_word (issue_count review Blocker)),
      (''critical_issues'', json_word (issue_count review Critical)),
      (''high_issues'', json_word (issue_count review High)),
      (''duration_ms'', json_word duration)]"

definition review_fingerprint :: "externals \<Rightarrow> aggregated_review \<Rightarrow> string" where
  "review_fingerprint X review =
     (let material = concat (map (\<lambda>report. rr_provider report
            @ concat (map (\<lambda>issue. [unit_separator] @ ri_fingerprint issue) (rr_issues report))
            @ [newline])
          (filter (\<lambda>report. \<not> rr_passed report) (ag_reports review)))
      in digest_short (digest_of_str X material))"

definition review_failure :: "externals \<Rightarrow> aggregated_review \<Rightarrow> node_failure" where
  "review_failure X review =
     with_fingerprint (review_fingerprint X review)
       (node_failure_new TaskFailure ''required_review_failed''
         (''required review providers failed: ''
           @ (if failed_required_providers review = []
              then ''no required provider produced a report''
              else join_str '', '' (failed_required_providers review))))"

definition review_execute :: "'w node_ports \<Rightarrow> run_context \<Rightarrow> node_call \<Rightarrow> ('w, node_output) step" where
  "review_execute P cx c =
     then_do (candidate_required cx c ''the review node requires a candidate'') (\<lambda>candidate.
     then_do (candidate_worktree P cx c candidate) (\<lambda>worktree.
     then_do (lift_result (call_baseline c)) (\<lambda>baseline.
     then_do (prepare_gate P cx c (Some candidate) worktree baseline) (\<lambda>gate.
     then_do (run_review_gate P cx c gate) (\<lambda>(review, stored, duration, printed).
     ok (with_evidence (printed_evidence P (review_input cx c candidate) printed)
       (with_metrics (review_metrics_json review duration)
       (if review_gate_passed review
        then with_patch (state_patch_default\<lparr>sp_candidate_status := Some Eligible\<rparr>)
          (with_artifacts stored
          (with_event (review_event (Some candidate) ReviewCandidate review duration)
          (output_succeeded (Some Join))))
        else with_artifacts stored
          (with_event (review_event (Some candidate) ReviewCandidate review duration)
          (output_failed (review_failure (np_externals P) review) None))))))))))"

section \<open>Join\<close>

definition check_patch ::
    "'w node_ports \<Rightarrow> run_context \<Rightarrow> string \<Rightarrow> ('w, string + unit) step" where
  "check_patch P cx patch =
     then_do (integration_worktree P cx) (\<lambda>worktree.
     then_do (ask (np_path_exists P worktree)) (\<lambda>present.
     if \<not> present then ok (Inr ()) else np_check_patch_applies P worktree patch))"

definition test_evidence_default :: test_evidence where
  "test_evidence_default =
     \<lparr>te_commands = [], te_line_coverage_percent = None, te_total_duration = 0\<rparr>"

definition eligibility_of ::
    "effective_configuration \<Rightarrow> candidate_record \<Rightarrow> test_evidence \<Rightarrow> aggregated_review \<Rightarrow> string
      \<Rightarrow> string + unit \<Rightarrow> eligibility_outcome" where
  "eligibility_of configuration candidate_entry tests review patch diff_applies =
     evaluate_eligibility
       \<lparr>el_candidate_status = cr_status candidate_entry,
        el_required_tests_passed = all_required_passed tests,
        el_failed_test_commands = failed_required tests,
        el_missing_test_commands = missing_required tests,
        el_diff_is_empty = (patch = []), el_change_required = True,
        el_diff_applies = diff_applies,
        el_coverage_percent = (case review_line_coverage_percent review of
            Some coverage \<Rightarrow> Some coverage | None \<Rightarrow> te_line_coverage_percent tests),
        el_minimum_line_coverage = minimum_line_coverage configuration,
        el_repairs_used = cr_repairs_used candidate_entry,
        el_repair_budget = cr_repair_budget candidate_entry,
        el_repair_budget_exhausted =
          (cr_repair_budget candidate_entry \<le> cr_repairs_used candidate_entry
           \<and> \<not> all_required_passed tests),
        el_time_budget_exceeded = None\<rparr> review"

definition join_candidate ::
    "'w node_ports \<Rightarrow> run_context \<Rightarrow> candidate_record \<Rightarrow> ('w, ranked_candidate) step" where
  "join_candidate P cx candidate_entry =
     then_do (np_read_test_evidence P (cx_run_id cx) (Some (cr_id candidate_entry))) (\<lambda>found_tests.
     then_do (np_read_review P (cx_run_id cx) (Some (cr_id candidate_entry))) (\<lambda>found_review.
     let tests = (case found_tests of Some t \<Rightarrow> t | None \<Rightarrow> test_evidence_default);
         review = (case found_review of Some r \<Rightarrow> r | None \<Rightarrow> \<lparr>ag_reports = []\<rparr>) in
     then_do (unwrap_or [] (np_read_diff P (cx_run_id cx) (Some (cr_id candidate_entry)))) (\<lambda>patch.
     then_do (if patch = [] then ok (Inr ()) else check_patch P cx patch) (\<lambda>diff_applies.
     let outcome = eligibility_of (cx_configuration cx) candidate_entry tests review patch
           diff_applies
     in ok \<lparr>rk_candidate_id = cr_id candidate_entry, rk_eligible = eo_eligible outcome,
          rk_score = (if eo_eligible outcome
            then Some (score_build candidate_entry review tests) else None),
          rk_exclusion_reasons = eo_reasons outcome, rk_rank = None\<rparr>))))"

text \<open>The event of an entry: scored when eligible, else excluded.\<close>

definition entry_event :: "ranked_candidate \<Rightarrow> event_payload" where
  "entry_event ranked =
     (case rk_score ranked of
        Some score \<Rightarrow> CandidateScored (rk_candidate_id ranked) score
      | None \<Rightarrow> CandidateExcluded (rk_candidate_id ranked) (rk_exclusion_reasons ranked))"

fun join_candidates ::
    "'w node_ports \<Rightarrow> run_context \<Rightarrow> candidate_record list \<Rightarrow> ranked_candidate list
      \<Rightarrow> ('w, ranked_candidate list) step" where
  "join_candidates P cx [] entries = ok entries"
| "join_candidates P cx (candidate_entry # candidates) entries =
     then_do (join_candidate P cx candidate_entry) (\<lambda>joined.
       join_candidates P cx candidates (entries @ [joined]))"

definition join_metrics :: "ranking \<Rightarrow> json_value" where
  "join_metrics computed = JObject
     [(''eligible'', json_nat (length (filter rk_eligible (rg_entries computed)))),
      (''ineligible'', json_nat (length (filter (\<lambda>e. \<not> rk_eligible e) (rg_entries computed)))),
      (''winner'', json_option JString (rg_winner computed)),
      (''rationale'', json_strings (rg_rationale computed))]"

definition join_output :: "ranked_candidate list \<Rightarrow> attempt_evidence \<Rightarrow> node_output" where
  "join_output entries evidence =
     (let computed = rank_candidates entries;
          events = map entry_event entries @ [RankingComputed computed] in
      case rg_winner computed of
        Some winner \<Rightarrow>
          with_evidence evidence (with_metrics (join_metrics computed)
            (with_patch (state_patch_default\<lparr>sp_winner := Some winner\<rparr>)
            (with_events (events @ [WinnerSelected winner 1])
            (output_succeeded (Some IntegrateWinner)))))
      | None \<Rightarrow>
          with_warning ''no candidate satisfied every required gate''
            (with_evidence evidence (with_metrics (join_metrics computed)
            (with_patch (state_patch_default\<lparr>sp_run_status := Some Exhausted\<rparr>)
            (with_events events (output_succeeded None))))))"

definition join_input :: "'w node_ports \<Rightarrow> run_context \<Rightarrow> node_call \<Rightarrow> commit_hash \<Rightarrow> json_value" where
  "join_input P cx c baseline = JObject
     [(''candidates'', json_nat (length (rp_candidates (nc_projection c)))),
      (''minimum_line_coverage'',
        json_option (np_json_f64 P) (minimum_line_coverage (cx_configuration cx))),
      (''baseline_commit'', JString baseline)]"

definition join_execute :: "'w node_ports \<Rightarrow> run_context \<Rightarrow> node_call \<Rightarrow> ('w, node_output) step" where
  "join_execute P cx c =
     then_do (lift_result (call_baseline c)) (\<lambda>baseline.
     then_do (join_candidates P cx (rp_candidates (nc_projection c)) []) (\<lambda>entries.
     then_do (np_write_ranking P (cx_run_id cx) (rank_candidates entries)) (\<lambda>_.
     then_do (lift_result (np_ranking_json P (rank_candidates entries))) (\<lambda>printed.
     ok (join_output entries
       (with_streams printed [] (evidence_with_input (join_input P cx c baseline))))))))"

definition exclusion_summaries :: "exclusion_reason list \<Rightarrow> string list" where
  "exclusion_summaries reasons = map exclusion_summary reasons"

definition terminal_candidate_status :: "bool \<Rightarrow> candidate_status" where
  "terminal_candidate_status eligible = (if eligible then Eligible else Ineligible)"

end
