(* ===== verification/Forge_Node_Finish.thy ===== *)
theory Forge_Node_Finish
  imports Forge_Node_Gates
begin

text \<open>
  The nodes after the winner is known: \<open>nodes/integrate.rs\<close>, \<open>nodes/final_gates.rs\<close> and
  \<open>nodes/commit.rs\<close>, and \<open>nodes/mod.rs\<close>, which chooses among all nodes.
\<close>

section \<open>Promotion\<close>

definition may_be_promoted :: "run_projection \<Rightarrow> candidate_id \<Rightarrow> ranked_candidate \<Rightarrow> bool" where
  "may_be_promoted projection failed_candidate entry \<longleftrightarrow>
     rk_eligible entry \<and> rk_rank entry \<noteq> None \<and> rk_candidate_id entry \<noteq> failed_candidate
     \<and> (case candidate_of projection (rk_candidate_id entry) of
          Some candidate_entry \<Rightarrow>
            cr_promotable candidate_entry \<and> \<not> cr_integration_attempted candidate_entry
        | None \<Rightarrow> False)"

definition rank_or_last :: "ranked_candidate \<Rightarrow> u32" where
  "rank_or_last entry = (case rk_rank entry of Some rank \<Rightarrow> rank | None \<Rightarrow> - 1)"

definition next_promotable :: "run_projection \<Rightarrow> candidate_id \<Rightarrow> candidate_id option" where
  "next_promotable projection failed_candidate =
     Option.bind (rp_ranking projection) (\<lambda>computed.
       map_option rk_candidate_id (min_by_key rank_or_last
         (filter (may_be_promoted projection failed_candidate) (rg_entries computed))))"

definition exhausted_output :: "string \<Rightarrow> node_output \<Rightarrow> node_output" where
  "exhausted_output warning output =
     with_warning warning
       (with_patch (state_patch_default\<lparr>sp_run_status := Some Exhausted\<rparr>) output)"

definition promote_events :: "run_projection \<Rightarrow> candidate_id \<Rightarrow> string \<Rightarrow> event_payload list" where
  "promote_events projection failed_candidate detail =
     [IntegrationAttempted failed_candidate False (Some detail),
      CandidateExcluded failed_candidate [IntegrationFailed detail],
      CandidatePromotionRequested failed_candidate (next_promotable projection failed_candidate)
        detail]"

definition promote_next ::
    "run_projection \<Rightarrow> candidate_id \<Rightarrow> string \<Rightarrow> attempt_evidence \<Rightarrow> node_output" where
  "promote_next projection failed_candidate detail evidence =
     (let next_candidate = next_promotable projection failed_candidate;
          finished = with_evidence evidence
            (with_metrics (JObject
              [(''applied'', JBool False), (''detail'', JString detail),
               (''next_candidate'', json_option JString next_candidate)])
            (with_events (promote_events projection failed_candidate detail)
            (output_succeeded
              (if next_candidate = None then None else Some IntegrateWinner))))
      in if next_candidate = None
         then exhausted_output ''no further candidate could be promoted'' finished
         else finished)"

section \<open>Integrate\<close>

definition integrate_input ::
    "externals \<Rightarrow> run_context \<Rightarrow> candidate_id \<Rightarrow> string \<Rightarrow> json_value" where
  "integrate_input X cx winner patch = JObject
     [(''winner'', JString winner),
      (''integration_worktree'', JString (integration_worktree_relative X (cx_run_id cx))),
      (''patch_bytes'', json_nat (length patch))]"

definition integrate_patch ::
    "'w node_ports \<Rightarrow> run_context \<Rightarrow> node_call \<Rightarrow> candidate_id \<Rightarrow> string \<Rightarrow> string
      \<Rightarrow> ('w, node_output) step" where
  "integrate_patch P cx c winner worktree patch =
     (let evidence = evidence_with_input (integrate_input (np_externals P) cx winner patch) in
     if patch = []
     then ok (promote_next (nc_projection c) winner ''the winning candidate produced an empty patch''
       evidence)
     else
     then_do (caught (np_apply_patch P worktree patch)) (\<lambda>applied.
     case applied of
       Inr _ \<Rightarrow>
         then_do (np_write_diff P (cx_run_id cx) None patch) (\<lambda>digest.
         ok (with_evidence evidence
           (with_metrics (JObject
              [(''applied'', JBool True), (''integration_diff_digest'', JString digest)])
           (with_event (IntegrationAttempted winner True None)
           (output_succeeded (Some FinalTest))))))
     | Inl error \<Rightarrow>
         ok (promote_next (nc_projection c) winner
           (''the winning candidate patch did not apply: '' @ error_display (np_externals P) error)
           evidence)))"

definition integrate_execute :: "'w node_ports \<Rightarrow> run_context \<Rightarrow> node_call \<Rightarrow> ('w, node_output) step" where
  "integrate_execute P cx c =
     then_do (lift_result (call_baseline c)) (\<lambda>baseline.
     then_do (lift_result (ok_or (Internal ''no winner is selected for integration'')
       (rp_winner (nc_projection c)))) (\<lambda>winner.
     then_do (lift_result (lift_domain (branch_name_from_str
       (worktree_role_branch (np_externals P) (cx_run_id cx) Integration None)))) (\<lambda>branch.
     then_do (np_create_worktree P (ef_repository_path (cx_configuration cx)) (cx_run_id cx) None
       Integration baseline branch) (\<lambda>handle.
     then_do (np_reset_worktree P (wk_path handle) baseline) (\<lambda>_.
     then_do (load_dirty_snapshot P cx c) (\<lambda>snapshot.
     then_do (case snapshot of
         Some taken \<Rightarrow> np_apply_snapshot P (wk_path handle) taken | None \<Rightarrow> ok ()) (\<lambda>_.
     then_do (unwrap_or [] (np_read_diff P (cx_run_id cx) (Some winner)))
       (integrate_patch P cx c winner (wk_path handle)))))))))"

section \<open>Final gates\<close>

definition winner_of :: "node_call \<Rightarrow> candidate_id application_result" where
  "winner_of c =
     ok_or (Internal ''no winner is selected for the final gates'') (rp_winner (nc_projection c))"

definition promotion_events :: "run_projection \<Rightarrow> candidate_id \<Rightarrow> string \<Rightarrow> event_payload list" where
  "promotion_events projection winner detail =
     [CandidateExcluded winner [IntegrationFailed detail],
      CandidatePromotionRequested winner (next_promotable projection winner) detail]"

definition finish_with_promotion ::
    "run_projection \<Rightarrow> candidate_id \<Rightarrow> event_payload list \<Rightarrow> artifact_reference list \<Rightarrow> json_value
      \<Rightarrow> attempt_evidence \<Rightarrow> node_output" where
  "finish_with_promotion projection winner events artifacts metrics evidence =
     (let finished = (\<lambda>next. with_evidence evidence (with_metrics metrics
            (with_artifacts artifacts (with_events events (output_succeeded next))))) in
      case next_promotable projection winner of
        Some _ \<Rightarrow> finished (Some IntegrateWinner)
      | None \<Rightarrow>
          exhausted_output ''no further candidate could be promoted after a final gate failure''
            (finished None))"

text \<open>The end of either final gate: its event, and when it failed the promotion of the next.\<close>

definition final_gate_output ::
    "run_projection \<Rightarrow> candidate_id \<Rightarrow> event_payload \<Rightarrow> bool \<Rightarrow> node_id \<Rightarrow> string
      \<Rightarrow> artifact_reference list \<Rightarrow> json_value \<Rightarrow> attempt_evidence \<Rightarrow> node_output" where
  "final_gate_output projection winner event passed next detail artifacts metrics evidence =
     (if passed
      then with_evidence evidence (with_metrics metrics (with_artifacts artifacts
        (with_events [event] (output_succeeded (Some next)))))
      else finish_with_promotion projection winner
        (event # promotion_events projection winner detail) artifacts metrics evidence)"

definition final_test_input :: "run_context \<Rightarrow> candidate_id \<Rightarrow> json_value" where
  "final_test_input cx winner = JObject
     [(''phase'', JString ''final_test''), (''winner'', JString winner),
      (''commands'', json_strings
        (map cs_id (catalogue_test_phase (ef_commands (cx_configuration cx)))))]"

definition final_test_metrics :: "'w node_ports \<Rightarrow> test_evidence \<Rightarrow> json_value" where
  "final_test_metrics P evidence = JObject
     [(''passed'', JBool (all_required_passed evidence)),
      (''failed_commands'', json_strings (map fst (failed_required evidence))),
      (''line_coverage_percent'', json_option (np_json_f64 P) (te_line_coverage_percent evidence))]"

definition final_test_execute :: "'w node_ports \<Rightarrow> run_context \<Rightarrow> node_call \<Rightarrow> ('w, node_output) step" where
  "final_test_execute P cx c =
     then_do (integration_worktree P cx) (\<lambda>worktree.
     then_do (lift_result (call_baseline c)) (\<lambda>baseline.
     then_do (lift_result (winner_of c)) (\<lambda>winner.
     then_do (prepare_gate P cx c None worktree baseline) (\<lambda>gate.
     then_do (run_test_gate P cx c gate) (\<lambda>(evidence, artifacts, printed).
     ok (final_gate_output (nc_projection c) winner (test_event cx None FinalTest evidence)
       (all_required_passed evidence) FinalReview
       (''the final tests failed in the integration worktree: ''
         @ join_str '', '' (map fst (failed_required evidence)))
       artifacts (final_test_metrics P evidence)
       (printed_evidence P (final_test_input cx winner) printed)))))))"

definition final_review_input :: "run_context \<Rightarrow> candidate_id \<Rightarrow> json_value" where
  "final_review_input cx winner = JObject
     [(''phase'', JString ''final_review''), (''winner'', JString winner),
      (''providers'', json_strings (review_provider_names (cx_configuration cx)))]"

definition final_review_metrics :: "aggregated_review \<Rightarrow> json_value" where
  "final_review_metrics review = JObject
     [(''passed'', JBool (review_gate_passed review)),
      (''failed_providers'', json_strings (failed_required_providers review)),
      (''blocker_issues'', json_word (issue_count review Blocker))]"

definition final_review_execute ::
    "'w node_ports \<Rightarrow> run_context \<Rightarrow> node_call \<Rightarrow> ('w, node_output) step" where
  "final_review_execute P cx c =
     then_do (integration_worktree P cx) (\<lambda>worktree.
     then_do (lift_result (call_baseline c)) (\<lambda>baseline.
     then_do (lift_result (winner_of c)) (\<lambda>winner.
     then_do (prepare_gate P cx c None worktree baseline) (\<lambda>gate.
     then_do (run_review_gate P cx c gate) (\<lambda>(review, stored, duration, printed).
     ok (final_gate_output (nc_projection c) winner (review_event None FinalReview review duration)
       (review_gate_passed review) CommitApproval
       (''the final review failed in the integration worktree: ''
         @ join_str '', '' (failed_required_providers review))
       stored (final_review_metrics review)
       (printed_evidence P (final_review_input cx winner) printed)))))))"

section \<open>Commit\<close>

definition maximum_subject_length :: nat where "maximum_subject_length = 72"

definition strip_politeness :: "string \<Rightarrow> string" where
  "strip_politeness lowered =
     (case strip_prefix ''please '' lowered of Some rest \<Rightarrow> rest
      | None \<Rightarrow> (case strip_prefix ''can you '' lowered of Some rest \<Rightarrow> rest
      | None \<Rightarrow> (case strip_prefix ''we need to '' lowered of Some rest \<Rightarrow> rest
      | None \<Rightarrow> (case strip_prefix ''i want to '' lowered of Some rest \<Rightarrow> rest
      | None \<Rightarrow> lowered))))"

text \<open>The case tables of the standard library are \<open>np_lowercase\<close> and \<open>np_uppercase\<close>.\<close>

definition to_imperative :: "'w node_ports \<Rightarrow> string \<Rightarrow> string" where
  "to_imperative P title =
     (let stripped = strip_politeness (np_lowercase P title);
          first = chars_take 1 stripped
      in if stripped = [] then [] else np_uppercase P first @ drop (length first) stripped)"

definition one_line :: "string \<Rightarrow> string" where
  "one_line text = map (\<lambda>c. if c = newline \<or> c = carriage_return then CHR '' '' else c) text"

definition trim_end_char :: "char \<Rightarrow> string \<Rightarrow> string" where
  "trim_end_char ch text = rev (dropWhile (\<lambda>c. c = ch) (rev text))"

definition commit_subject :: "'w node_ports \<Rightarrow> string \<Rightarrow> string" where
  "commit_subject P task_title =
     (let cleaned = one_line (trim_end_char (CHR ''.'') (trim task_title));
          subject = chars_take maximum_subject_length (to_imperative P cleaned)
      in if subject = [] then ''Apply the approved implementation plan'' else subject)"

definition commit_body :: "run_context \<Rightarrow> node_call \<Rightarrow> string list \<Rightarrow> string" where
  "commit_body cx c changed_paths =
     ''Validated changes:'' @ [newline] @ bullet_lines (take 50 changed_paths)
     @ (if 50 < length changed_paths
        then ''- and '' @ nat_dec (length changed_paths - 50) @ '' further paths'' @ [newline]
        else [])
     @ [newline] @ ''Gates satisfied:'' @ [newline]
     @ bullet_lines (map (\<lambda>command.
         cs_id command @ '' ('' @ command_kind_label (cs_kind command) @ '')'')
         (required_commands (cx_configuration cx)))
     @ bullet_lines (map (\<lambda>provider. ''review provider '' @ provider)
         (review_provider_names (cx_configuration cx)))
     @ (case plan_current (rp_plan (nc_projection c)) of
          Some plan \<Rightarrow> [newline] @ ''Approved plan version '' @ dec (pv_version plan) @ ''.''
            @ [newline]
        | None \<Rightarrow> [])"

text \<open>The loop over the changed paths: the first path the policy refuses to have written.\<close>

fun refused_path ::
    "'w node_ports \<Rightarrow> path_policy \<Rightarrow> string list \<Rightarrow> (string \<times> domain_error) option application_result" where
  "refused_path P policy [] = Inr None"
| "refused_path P policy (path # paths) =
     and_then (lift_domain (path_parse path)) (\<lambda>relative.
       case evaluate_path policy (glob_pattern_matcher (np_compile_glob P)) relative Write of
         Inl violation \<Rightarrow> Inr (Some (path, violation))
       | Inr _ \<Rightarrow> refused_path P policy paths)"

definition commit_request_of ::
    "'w node_ports \<Rightarrow> run_context \<Rightarrow> node_call \<Rightarrow> string \<Rightarrow> branch_name \<Rightarrow> string list
      \<Rightarrow> commit_request" where
  "commit_request_of P cx c worktree branch changed_paths =
     \<lparr>cq_worktree = worktree, cq_branch = branch, cq_paths = changed_paths,
      cq_subject = commit_subject P (context_task_title cx),
      cq_body = commit_body cx c changed_paths,
      cq_author_name = gc_author_name (ef_git (cx_configuration cx)),
      cq_committer_name = gc_author_name (ef_git (cx_configuration cx))\<rparr>"

definition commit_output :: "run_context \<Rightarrow> commit_outcome \<Rightarrow> attempt_evidence \<Rightarrow> node_output" where
  "commit_output cx outcome evidence =
     with_evidence evidence
       (with_metrics (JObject
          [(''commit'', JString (co_commit_hash outcome)),
           (''branch'', JString (co_branch outcome)),
           (''changed_files'', json_word (co_changed_files outcome)),
           (''signed'', JBool (co_signed outcome))])
       (with_patch (state_patch_default\<lparr>sp_run_status := Some run_status.Succeeded,
          sp_commit_hash := Some (co_commit_hash outcome), sp_branch := Some (co_branch outcome)\<rparr>)
       (with_event (CommitCreated (co_branch outcome) (co_commit_hash outcome)
          (gc_author_name (ef_git (cx_configuration cx)))
          (gc_author_name (ef_git (cx_configuration cx))) (co_changed_files outcome)
          (co_signed outcome))
       (output_succeeded None))))"

definition paused_with :: "string \<Rightarrow> attempt_evidence \<Rightarrow> node_output" where
  "paused_with warning evidence = with_warning warning (with_evidence evidence output_paused)"

definition commit_paths ::
    "'w node_ports \<Rightarrow> run_context \<Rightarrow> node_call \<Rightarrow> string \<Rightarrow> attempt_evidence \<Rightarrow> string list
      \<Rightarrow> ('w, node_output) step" where
  "commit_paths P cx c worktree evidence changed_paths =
     (let configuration = cx_configuration cx in
     if changed_paths = []
     then ok (refused_plainly TaskFailure ''empty_integration_diff''
       ''the integration worktree contains no change to commit'' evidence)
     else
     then_do (lift_result (refused_path P (ef_path_policy configuration) changed_paths)) (\<lambda>violation.
     case violation of
       Some (path, reason) \<Rightarrow>
         ok (refused_plainly PolicyViolation ''protected_path_in_commit''
           (''the integration diff may not include `'' @ path @ ''`: ''
             @ domain_error_display reason) evidence)
     | None \<Rightarrow>
     then_do (lift_result (lift_domain (branch_name_from_str
       (gc_branch_prefix (ef_git configuration)
         @ take 8 (run_short (np_externals P) (cx_run_id cx)))))) (\<lambda>branch.
     then_do (caught (np_create_commit P (commit_request_of P cx c worktree branch changed_paths)))
       (\<lambda>created.
     case created of
       Inr outcome \<Rightarrow> ok (commit_output cx outcome evidence)
     | Inl error \<Rightarrow>
         (case error of
            ErrorUserActionRequired detail \<Rightarrow> ok (paused_with detail evidence)
          | _ \<Rightarrow> stop error)))))"

definition commit_input :: "run_context \<Rightarrow> candidate_id \<Rightarrow> json_value" where
  "commit_input cx winner = JObject
     [(''winner'', JString winner),
      (''commit_policy'', JString (commit_policy_as_str (ef_commit_policy (cx_configuration cx)))),
      (''author_name'', JString (gc_author_name (ef_git (cx_configuration cx))))]"

definition commit_execute :: "'w node_ports \<Rightarrow> run_context \<Rightarrow> node_call \<Rightarrow> ('w, node_output) step" where
  "commit_execute P cx c =
     then_do (integration_worktree P cx) (\<lambda>worktree.
     then_do (lift_result (call_baseline c)) (\<lambda>baseline.
     then_do (lift_result (ok_or (Internal ''no winner is selected for the commit'')
       (rp_winner (nc_projection c)))) (\<lambda>winner.
     then_do (np_inspect P (ef_repository_path (cx_configuration cx))) (\<lambda>facts.
     let evidence = evidence_with_input (commit_input cx winner) in
     case rt_configured_user_email facts of
       None \<Rightarrow> ok (paused_with
         (''the repository has no configured Git email, so no commit identity can be derived'')
         evidence)
     | Some email \<Rightarrow>
         if trim email = []
         then ok (paused_with
           ''the configured Git email is empty, so no commit identity can be derived'' evidence)
         else then_do (np_changed_paths P worktree baseline)
           (commit_paths P cx c worktree evidence)))))"

section \<open>All nodes\<close>

definition execute_call :: "'w node_ports \<Rightarrow> run_context \<Rightarrow> node_call \<Rightarrow> ('w, node_output) step" where
  "execute_call P cx c =
     (case nc_node c of
        Prepare \<Rightarrow> prepare_execute P cx c
      | Plan \<Rightarrow> plan_execute P cx c
      | FanOut \<Rightarrow> fan_out_execute P cx c
      | ImplementCandidate \<Rightarrow> implement_execute P cx c
      | TestCandidate \<Rightarrow> test_execute P cx c
      | ReviewCandidate \<Rightarrow> review_execute P cx c
      | RepairCandidate \<Rightarrow> repair_execute P cx c
      | Join \<Rightarrow> join_execute P cx c
      | IntegrateWinner \<Rightarrow> integrate_execute P cx c
      | FinalTest \<Rightarrow> final_test_execute P cx c
      | FinalReview \<Rightarrow> final_review_execute P cx c
      | Commit \<Rightarrow> commit_execute P cx c
      | _ \<Rightarrow> stop (Internal (''node '' @ node_as_str (nc_node c)
          @ '' is resolved by the scheduler and is never dispatched'')))"

end
