(* ===== verification/Forge_Store.thy ===== *)
theory Forge_Store
  imports Forge_Files
begin

text \<open>
  \<open>store/file_store.rs\<close>: the run store over the files of \<open>Forge_Files\<close>, one definition per method of
  its traits.
\<close>

record file_store =
  fs_externals :: externals
  fs_encoder :: payload_encoder
  fs_codec :: event_codec
  fs_documents :: document_codec
  fs_root :: path

section \<open>Redactors\<close>

definition store_descriptor ::
    "file_store \<Rightarrow> 'e operating_system \<Rightarrow> run_id \<Rightarrow> ('e file_world, run_descriptor) step" where
  "store_descriptor F os run =
     then_do (read_document (fs_documents F) os descriptor_kind
       (run_descriptor_file (fs_externals F) (fs_root F) run)) (\<lambda>found.
     lift_result (ok_or (RunNotFound run) found))"

text \<open>The redactor of a run is built once and kept, whatever its descriptor becomes.\<close>

definition redactor_for ::
    "file_store \<Rightarrow> 'e operating_system \<Rightarrow> run_id \<Rightarrow> ('e file_world, pattern_redactor) step" where
  "redactor_for F os run w =
     (case fw_redactors w run of
        Some redactor \<Rightarrow> (Inr redactor, w)
      | None \<Rightarrow>
          let (found, v) = store_descriptor F os run w;
              redactor = (case found of
                  Inr descriptor \<Rightarrow> redactor_for_configuration (os_regex os) (os_environment os)
                    (ef_redaction (rd_configuration descriptor))
                | Inl _ \<Rightarrow> redactor_without_environment (os_regex os))
          in (Inr redactor, v\<lparr>fw_redactors := (fw_redactors v)(run \<mapsto> redactor)\<rparr>))"

definition redact_payload ::
    "file_store \<Rightarrow> pattern_redactor \<Rightarrow> event_payload \<Rightarrow> event_payload application_result" where
  "redact_payload F redactor payload =
     and_then (dk_payload_to_json (fs_documents F) payload) (\<lambda>encoded.
       dk_payload_from_json (fs_documents F) (redact_text_leaves (redact_text redactor) encoded))"

definition redact_document ::
    "file_store \<Rightarrow> pattern_redactor \<Rightarrow> stored_file \<Rightarrow> stored_file application_result" where
  "redact_document F redactor document =
     map_ok (\<lambda>encoded. dk_file_from_json (fs_documents F) document
         (redact_text_leaves (redact_text redactor) encoded))
       (dk_file_to_json (fs_documents F) document)"

section \<open>Events\<close>

definition on_log ::
    "run_id \<Rightarrow> (event_log \<Rightarrow> 'a application_result \<times> event_log) \<Rightarrow> ('e file_world, 'a) step" where
  "on_log run f w =
     (case f (fw_logs w run) of (r, journal) \<Rightarrow>
        (r, w\<lparr>fw_logs := (fw_logs w)(run := journal)\<rparr>))"

definition store_append ::
    "file_store \<Rightarrow> 'e operating_system \<Rightarrow> run_id \<Rightarrow> event_payload
      \<Rightarrow> ('e file_world, durable_event) step" where
  "store_append F os run payload =
     then_do (redactor_for F os run) (\<lambda>redactor.
     then_do (lift_result (redact_payload F redactor payload)) (\<lambda>redacted.
     then_do (outside (os_event_id os)) (\<lambda>event.
     then_do (outside (os_now os)) (\<lambda>recorded_at.
     then_do (look (\<lambda>w. lg_file (fw_logs w run))) (\<lambda>content.
     then_do (outside (os_append_fault os (events_file (fs_externals F) (fs_root F) run) content))
       (\<lambda>fault.
     on_log run (log_append (fs_externals F) (fs_encoder F) (fs_codec F) fault run event
       recorded_at redacted)))))))"

definition store_read_after ::
    "file_store \<Rightarrow> run_id \<Rightarrow> u64 \<Rightarrow> ('e file_world, durable_event list) step" where
  "store_read_after F run sequence =
     on_log run (log_read_after (fs_externals F) (fs_encoder F) (fs_codec F) sequence)"

definition store_read_range ::
    "file_store \<Rightarrow> run_id \<Rightarrow> u64 \<Rightarrow> nat \<Rightarrow> ('e file_world, durable_event list) step" where
  "store_read_range F run from_sequence limit =
     on_log run (log_read_range (fs_externals F) (fs_encoder F) (fs_codec F) from_sequence limit)"

definition store_verify_chain ::
    "file_store \<Rightarrow> run_id \<Rightarrow> ('e file_world, chain_verification) step" where
  "store_verify_chain F run =
     on_log run (log_verify (fs_externals F) (fs_encoder F) (fs_codec F))"

section \<open>Projections, manifests and metrics\<close>

definition store_load :: "file_store \<Rightarrow> 'e operating_system \<Rightarrow> run_id \<Rightarrow> ('e file_world, run_projection option) step" where
  "store_load F os run =
     read_document (fs_documents F) os state_kind (state_file (fs_externals F) (fs_root F) run)"

definition store_store ::
    "file_store \<Rightarrow> 'e operating_system \<Rightarrow> run_projection \<Rightarrow> ('e file_world, unit) step" where
  "store_store F os projection =
     write_atomic os (state_file (fs_externals F) (fs_root F) (rp_run_id projection))
       (StateFile projection)"

definition store_store_manifest ::
    "file_store \<Rightarrow> 'e operating_system \<Rightarrow> run_manifest \<Rightarrow> ('e file_world, unit) step" where
  "store_store_manifest F os manifest =
     write_atomic os (manifest_file (fs_externals F) (fs_root F) (rf_run_id manifest))
       (ManifestFile manifest)"

definition store_load_manifest ::
    "file_store \<Rightarrow> 'e operating_system \<Rightarrow> run_id \<Rightarrow> ('e file_world, run_manifest option) step" where
  "store_load_manifest F os run =
     read_document (fs_documents F) os manifest_kind (manifest_file (fs_externals F) (fs_root F) run)"

definition metrics_of :: "run_id \<Rightarrow> run_projection \<Rightarrow> metrics_document" where
  "metrics_of run projection =
     \<lparr>md_schema_version = 1, md_run_id = run,
      md_last_event_sequence = rp_last_event_sequence projection,
      md_metrics = rp_metrics projection,
      md_candidates = map (\<lambda>c. \<lparr>km_candidate_id = cr_id c,
          km_status = candidate_status_as_str (cr_status c),
          km_repairs_used = cr_repairs_used c, km_changed_lines = cr_changed_lines c,
          km_changed_files = cr_changed_files c, km_gate_duration_ms = cr_gate_duration c\<rparr>)
        (rp_candidates projection)\<rparr>"

definition store_store_metrics ::
    "file_store \<Rightarrow> 'e operating_system \<Rightarrow> run_id \<Rightarrow> run_projection \<Rightarrow> ('e file_world, unit) step" where
  "store_store_metrics F os run projection =
     write_atomic os (metrics_file (fs_externals F) (fs_root F) run)
       (MetricsFile (metrics_of run projection))"

section \<open>The catalogue of runs\<close>

definition store_initialise ::
    "file_store \<Rightarrow> 'e operating_system \<Rightarrow> run_id \<Rightarrow> string \<Rightarrow> effective_configuration
      \<Rightarrow> ('e file_world, unit) step" where
  "store_initialise F os run task_markdown configuration =
     then_do (for_each (map (\<lambda>directory. directory (fs_externals F) (fs_root F) run)
       [run_directory, plan_directory, nodes_directory, candidates_directory,
        integration_directory, artifacts_directory, logs_directory, exports_directory,
        locks_directory]) (ensure_directory os)) (\<lambda>_.
     then_do (write_atomic os (task_file (fs_externals F) (fs_root F) run)
       (BytesFile task_markdown)) (\<lambda>_.
     then_do (outside (os_now os)) (\<lambda>created_at.
     then_do (write_atomic os (run_descriptor_file (fs_externals F) (fs_root F) run)
       (DescriptorFile \<lparr>rd_schema_version = 1, rd_run_id = run, rd_created_at = created_at,
          rd_repository_path = ef_repository_path configuration,
          rd_configuration = configuration\<rparr>)) (\<lambda>_.
     write_atomic os (artifact_index_file (fs_externals F) (fs_root F) run) (IndexFile [])))))"

definition store_exists :: "file_store \<Rightarrow> run_id \<Rightarrow> ('e file_world, bool) step" where
  "store_exists F run =
     look (path_exists (run_descriptor_file (fs_externals F) (fs_root F) run))"

definition store_task_markdown ::
    "file_store \<Rightarrow> 'e operating_system \<Rightarrow> run_id \<Rightarrow> ('e file_world, string) step" where
  "store_task_markdown F os run = read_bytes os (task_file (fs_externals F) (fs_root F) run)"

definition store_configuration ::
    "file_store \<Rightarrow> 'e operating_system \<Rightarrow> run_id \<Rightarrow> ('e file_world, effective_configuration) step" where
  "store_configuration F os run =
     then_do (store_descriptor F os run) (\<lambda>descriptor. ok (rd_configuration descriptor))"

definition store_remove_worktrees ::
    "file_store \<Rightarrow> 'e operating_system \<Rightarrow> run_id \<Rightarrow> ('e file_world, string list) step" where
  "store_remove_worktrees F os run =
     (let directory = run_worktrees (fs_externals F) (fs_root F) run
      in then_do (look (path_exists directory)) (\<lambda>found.
         if found
         then then_do (remove_directory os directory) (\<lambda>_. ok [path_display directory])
         else ok []))"

record run_header =
  rh_run_id :: run_id
  rh_created_at :: timestamp
  rh_status :: run_status
  rh_repository_path :: string
  rh_task_title :: string

definition header_of :: "run_id \<Rightarrow> run_projection \<Rightarrow> run_header" where
  "header_of run projection =
     \<lparr>rh_run_id = run, rh_created_at = rp_created_at projection,
      rh_status = rp_status projection, rh_repository_path = rp_repository_path projection,
      rh_task_title = rp_task_title projection\<rparr>"

text \<open>The names in a directory; a directory that is not there has none.\<close>

definition directory_names :: "'e operating_system \<Rightarrow> path \<Rightarrow> ('e file_world, string list) step" where
  "directory_names os path =
     then_do (look (path_exists path)) (\<lambda>present.
       if present
       then then_do (system_call os ''read'' path) (\<lambda>_. look (\<lambda>w. map last (children path w)))
       else ok [])"

text \<open>
  \<open>headers\<close>: the entries of the directory of runs whose names parse as identifiers (\<open>parse\<close> is the
  parser of the uuid crate).
\<close>

fun collect_headers ::
    "file_store \<Rightarrow> 'e operating_system \<Rightarrow> (string \<Rightarrow> run_id option) \<Rightarrow> string list \<Rightarrow> run_header list
      \<Rightarrow> ('e file_world, run_header list) step" where
  "collect_headers F os parse [] headers = ok headers"
| "collect_headers F os parse (name # names) headers =
     (case parse name of
        None \<Rightarrow> collect_headers F os parse names headers
      | Some run \<Rightarrow>
          then_do (store_load F os run) (\<lambda>found.
            case found of
              None \<Rightarrow> collect_headers F os parse names headers
            | Some projection \<Rightarrow>
                collect_headers F os parse names (headers @ [header_of run projection])))"

definition store_headers ::
    "file_store \<Rightarrow> 'e operating_system \<Rightarrow> (string \<Rightarrow> run_id option)
      \<Rightarrow> ('e file_world, run_header list) step" where
  "store_headers F os parse =
     then_do (directory_names os (runs_directory (fs_root F))) (\<lambda>names.
     then_do (collect_headers F os parse names []) (\<lambda>headers.
       ok (sort_key (\<lambda>header. - rh_created_at header) headers)))"

definition header_matches :: "externals \<Rightarrow> string \<Rightarrow> run_header \<Rightarrow> bool" where
  "header_matches X normalised header \<longleftrightarrow>
     starts_with normalised (run_display X (rh_run_id header))
     \<or> starts_with normalised (run_short X (rh_run_id header))"

definition resolve_run_reference ::
    "file_store \<Rightarrow> 'e operating_system \<Rightarrow> (string \<Rightarrow> run_id option) \<Rightarrow> string
      \<Rightarrow> ('e file_world, run_id) step" where
  "resolve_run_reference F os parse reference =
     (case parse reference of
        Some run \<Rightarrow> ok run
      | None \<Rightarrow>
          then_do (store_headers F os parse) (\<lambda>headers.
            case filter (header_matches (fs_externals F) (to_ascii_lowercase reference)) headers of
              [single] \<Rightarrow> ok (rh_run_id single)
            | [] \<Rightarrow> stop (Storage (''no run matches the reference `'' @ reference @ ''`''))
            | matches \<Rightarrow> stop (Storage (''the reference `'' @ reference @ ''` matches ''
                @ nat_dec (length matches) @ '' runs''))))"

section \<open>Evidence of attempts\<close>

definition attempt_directory :: "file_store \<Rightarrow> run_id \<Rightarrow> attempt_key_record \<Rightarrow> path" where
  "attempt_directory F run key =
     nodes_directory (fs_externals F) (fs_root F) run @ directory_segments key"

definition store_commit_attempt ::
    "file_store \<Rightarrow> 'e operating_system \<Rightarrow> run_id \<Rightarrow> node_result \<Rightarrow> attempt_evidence
      \<Rightarrow> ('e file_world, unit) step" where
  "store_commit_attempt F os run result evidence =
     (let key = attempt_key_new (nr_node_id result) (nr_candidate_id result) (nr_attempt result);
          destination = attempt_directory F run key
      in then_do (look (path_exists destination)) (\<lambda>present.
         if present
         then stop (Storage (''attempt evidence at `'' @ path_display destination
           @ ''` already exists''))
         else
         then_do (redactor_for F os run) (\<lambda>redactor.
         then_do (outside (os_temporary os)) (\<lambda>unique.
         let staging = temporary_sibling destination unique in
         then_do (ensure_directory os staging) (\<lambda>_.
         then_do (write_atomic os (staging @ [''input.json''])
           (JsonFile (redact_text_leaves (redact_text redactor) (ae_input evidence)))) (\<lambda>_.
         then_do (case ae_invocation evidence of
             Some invocation \<Rightarrow> write_atomic os (staging @ [''invocation.json''])
               (JsonFile (redact_text_leaves (redact_text redactor) invocation))
           | None \<Rightarrow> ok ()) (\<lambda>_.
         then_do (lift_result (redact_document F redactor (ResultFile result))) (\<lambda>document.
         then_do (write_atomic os (staging @ [''result.json'']) document) (\<lambda>_.
         then_do (write_atomic os (staging @ [''stdout.log''])
           (BytesFile (redact_bytes redactor (ae_stdout evidence)))) (\<lambda>_.
         then_do (write_atomic os (staging @ [''stderr.log''])
           (BytesFile (redact_bytes redactor (ae_stderr evidence)))) (\<lambda>_.
         rename_directory_into_place os staging destination)))))))))))"

definition store_read_attempt_result ::
    "file_store \<Rightarrow> 'e operating_system \<Rightarrow> run_id \<Rightarrow> attempt_key_record \<Rightarrow> ('e file_world, node_result option) step" where
  "store_read_attempt_result F os run key =
     read_document (fs_documents F) os result_kind (attempt_directory F run key @ [''result.json''])"

section \<open>Artifacts\<close>

definition media_type_for :: "string \<Rightarrow> string" where
  "media_type_for path =
     (let extension = last (split_char (CHR ''.'') path)
      in if extension = ''json'' then ''application/json''
         else if extension = ''xml'' then ''application/xml''
         else if extension = ''sarif'' then ''application/sarif+json''
         else if extension \<in> {''patch'', ''diff''} then ''text/x-diff''
         else if extension \<in> {''log'', ''txt'', ''info''} then ''text/plain''
         else if extension = ''md'' then ''text/markdown''
         else if extension = ''tar'' then ''application/x-tar''
         else if extension = ''zip'' then ''application/zip''
         else ''application/octet-stream'')"

definition store_artifact_index ::
    "file_store \<Rightarrow> 'e operating_system \<Rightarrow> run_id \<Rightarrow> ('e file_world, stored_artifact list) step" where
  "store_artifact_index F os run =
     then_do (read_document (fs_documents F) os index_kind
       (artifact_index_file (fs_externals F) (fs_root F) run)) (\<lambda>found.
     ok (case found of Some entries \<Rightarrow> entries | None \<Rightarrow> []))"

definition store_store_artifact ::
    "file_store \<Rightarrow> 'e operating_system \<Rightarrow> run_id \<Rightarrow> string \<Rightarrow> string \<Rightarrow> string \<Rightarrow> bool
      \<Rightarrow> ('e file_world, stored_artifact) step" where
  "store_store_artifact F os run label relative_path bytes truncated =
     then_do (lift_result (lift_domain (path_parse relative_path))) (\<lambda>relative.
     then_do (write_atomic os (run_directory (fs_externals F) (fs_root F) run
       @ path_segments relative) (BytesFile bytes)) (\<lambda>_.
     let artifact = \<lparr>sa_id = digest_of_bytes (fs_externals F) bytes, sa_label = label,
           sa_relative_path = relative, sa_media_type = media_type_for relative,
           sa_byte_length = of_nat (length bytes), sa_truncated = truncated\<rparr> in
     then_do (store_artifact_index F os run) (\<lambda>entries.
     then_do (write_atomic os (artifact_index_file (fs_externals F) (fs_root F) run)
       (IndexFile (filter (\<lambda>entry. sa_id entry \<noteq> sa_id artifact) entries @ [artifact]))) (\<lambda>_.
     ok artifact))))"

definition indexed_artifact ::
    "file_store \<Rightarrow> 'e operating_system \<Rightarrow> run_id \<Rightarrow> content_digest \<Rightarrow> ('e file_world, stored_artifact) step" where
  "indexed_artifact F os run i =
     then_do (store_artifact_index F os run) (\<lambda>entries.
     lift_result (ok_or (ArtifactNotFound i) (artifact_index_find entries i)))"

definition store_read_artifact ::
    "file_store \<Rightarrow> 'e operating_system \<Rightarrow> run_id \<Rightarrow> content_digest \<Rightarrow> ('e file_world, string) step" where
  "store_read_artifact F os run i =
     then_do (indexed_artifact F os run i) (\<lambda>entry.
     read_bytes os (run_directory (fs_externals F) (fs_root F) run
       @ path_segments (sa_relative_path entry)))"

definition maximum_range_bytes :: u64 where "maximum_range_bytes = 4194304"

text \<open>A read of a file returns all the bytes there are, up to the capped length.\<close>

definition store_read_artifact_range ::
    "file_store \<Rightarrow> 'e operating_system \<Rightarrow> run_id \<Rightarrow> content_digest \<Rightarrow> u64 \<Rightarrow> u64
      \<Rightarrow> ('e file_world, string) step" where
  "store_read_artifact_range F os run i offset wanted =
     then_do (indexed_artifact F os run i) (\<lambda>entry.
     let path = run_directory (fs_externals F) (fs_root F) run
       @ path_segments (sa_relative_path entry) in
     then_do (look (\<lambda>w. Option.bind (file_at path w) bytes_kind)) (\<lambda>content.
     case content of
       None \<Rightarrow> stop (storage_error (path_display path) ''open'' missing_file)
     | Some bytes \<Rightarrow>
         then_do (system_call os ''open'' path) (\<lambda>_.
         then_do (system_call os ''seek'' path) (\<lambda>_.
         then_do (system_call os ''read'' path) (\<lambda>_.
         ok (take (unat (min wanted maximum_range_bytes)) (drop (unat offset) bytes)))))))"

section \<open>Plans\<close>

definition store_write_version ::
    "file_store \<Rightarrow> 'e operating_system \<Rightarrow> run_id \<Rightarrow> u32 \<Rightarrow> string \<Rightarrow> plan_author \<Rightarrow> string option
      \<Rightarrow> timestamp \<Rightarrow> ('e file_world, plan_version) step" where
  "store_write_version F os run version markdown author revision_note recorded_at =
     then_do (write_atomic os (plan_version_file (fs_externals F) (fs_root F) run version)
       (BytesFile markdown)) (\<lambda>_.
     ok \<lparr>pv_version = version, pv_hash = digest_of_str (fs_externals F) markdown,
         pv_created_at = recorded_at, pv_author = author, pv_revision_note = revision_note,
         pv_byte_length = of_nat (length markdown)\<rparr>)"

definition store_read_version ::
    "file_store \<Rightarrow> 'e operating_system \<Rightarrow> run_id \<Rightarrow> u32 \<Rightarrow> ('e file_world, string) step" where
  "store_read_version F os run version =
     read_bytes os (plan_version_file (fs_externals F) (fs_root F) run version)"

definition strip_suffix :: "string \<Rightarrow> string \<Rightarrow> string option" where
  "strip_suffix p s = (if ends_with p s then Some (take (length s - length p) s) else None)"

definition plan_file_number :: "string \<Rightarrow> u32 option" where
  "plan_file_number name =
     Option.bind (strip_prefix ''plan-v'' name) (\<lambda>rest.
     Option.bind (strip_suffix ''.md'' rest) parse_unsigned)"

definition best_plan_version :: "string list \<Rightarrow> u32 option" where
  "best_plan_version names =
     fold (\<lambda>name best.
       case plan_file_number name of
         None \<Rightarrow> best
       | Some number \<Rightarrow> Some (case best of None \<Rightarrow> number | Some current \<Rightarrow> max current number))
       names None"

definition store_read_current ::
    "file_store \<Rightarrow> 'e operating_system \<Rightarrow> run_id
      \<Rightarrow> ('e file_world, (u32 \<times> string) option) step" where
  "store_read_current F os run =
     then_do (directory_names os (plan_directory (fs_externals F) (fs_root F) run)) (\<lambda>names.
     case best_plan_version names of
        Some version \<Rightarrow>
          then_do (store_read_version F os run version) (\<lambda>markdown. ok (Some (version, markdown)))
      | None \<Rightarrow> ok None)"

section \<open>Evidence of candidates\<close>

definition evidence_root :: "file_store \<Rightarrow> run_id \<Rightarrow> candidate_id option \<Rightarrow> path" where
  "evidence_root F run candidate =
     (case candidate of
        Some c \<Rightarrow> candidate_directory (fs_externals F) (fs_root F) run c
      | None \<Rightarrow> integration_directory (fs_externals F) (fs_root F) run)"

text \<open>A candidate's diff, and with \<open>None\<close> the diff of the integration.\<close>

definition diff_file :: "file_store \<Rightarrow> run_id \<Rightarrow> candidate_id option \<Rightarrow> path" where
  "diff_file F run candidate = evidence_root F run candidate @ [''diff.patch'']"

definition store_write_diff ::
    "file_store \<Rightarrow> 'e operating_system \<Rightarrow> run_id \<Rightarrow> candidate_id option \<Rightarrow> string
      \<Rightarrow> ('e file_world, content_digest) step" where
  "store_write_diff F os run candidate patch =
     then_do (write_atomic os (diff_file F run candidate) (BytesFile patch)) (\<lambda>_.
     ok (digest_of_bytes (fs_externals F) patch))"

definition store_read_diff ::
    "file_store \<Rightarrow> 'e operating_system \<Rightarrow> run_id \<Rightarrow> candidate_id option \<Rightarrow> ('e file_world, string) step" where
  "store_read_diff F os run candidate =
     then_do (look (path_exists (diff_file F run candidate))) (\<lambda>present.
       if present then read_bytes os (diff_file F run candidate) else ok [])"

definition write_report ::
    "file_store \<Rightarrow> 'e operating_system \<Rightarrow> run_id \<Rightarrow> candidate_id option \<Rightarrow> attempt_number
      \<Rightarrow> string \<Rightarrow> stored_file \<Rightarrow> ('e file_world, unit) step" where
  "write_report F os run candidate attempt name document =
     (let base = evidence_root F run candidate @ [''reports'']
      in then_do (redactor_for F os run) (\<lambda>redactor.
         then_do (lift_result (redact_document F redactor document)) (\<lambda>redacted.
         then_do (write_atomic os (base @ [name @ ''-attempt-'' @ dec attempt @ ''.json'']) redacted)
           (\<lambda>_.
         write_atomic os (base @ [name @ ''-latest.json'']) redacted))))"

definition store_write_test_evidence ::
    "file_store \<Rightarrow> 'e operating_system \<Rightarrow> run_id \<Rightarrow> candidate_id option \<Rightarrow> attempt_number
      \<Rightarrow> test_evidence \<Rightarrow> ('e file_world, unit) step" where
  "store_write_test_evidence F os run candidate attempt evidence =
     write_report F os run candidate attempt ''tests'' (TestsFile evidence)"

definition store_write_review ::
    "file_store \<Rightarrow> 'e operating_system \<Rightarrow> run_id \<Rightarrow> candidate_id option \<Rightarrow> attempt_number
      \<Rightarrow> aggregated_review \<Rightarrow> ('e file_world, unit) step" where
  "store_write_review F os run candidate attempt review =
     write_report F os run candidate attempt ''review'' (ReviewFile review)"

definition store_read_test_evidence ::
    "file_store \<Rightarrow> 'e operating_system \<Rightarrow> run_id \<Rightarrow> candidate_id option \<Rightarrow> ('e file_world, test_evidence option) step" where
  "store_read_test_evidence F os run candidate =
     read_document (fs_documents F) os tests_kind
       (evidence_root F run candidate @ [''reports'', ''tests-latest.json''])"

definition store_read_review ::
    "file_store \<Rightarrow> 'e operating_system \<Rightarrow> run_id \<Rightarrow> candidate_id option \<Rightarrow> ('e file_world, aggregated_review option) step" where
  "store_read_review F os run candidate =
     read_document (fs_documents F) os review_kind
       (evidence_root F run candidate @ [''reports'', ''review-latest.json''])"

definition store_write_ranking ::
    "file_store \<Rightarrow> 'e operating_system \<Rightarrow> run_id \<Rightarrow> ranking \<Rightarrow> ('e file_world, unit) step" where
  "store_write_ranking F os run computed =
     (let directory = integration_directory (fs_externals F) (fs_root F) run
      in then_do (write_atomic os (directory @ [''ranking.json'']) (RankingFile computed)) (\<lambda>_.
         write_atomic os (directory @ [''selected.json''])
           (SelectedFile (rg_winner computed) (rg_rationale computed))))"

end
