(* ===== verification/Forge_File_Runs.thy ===== *)
theory Forge_File_Runs
  imports Forge_Store
begin

text \<open>
  The file store as the store the engine relies on: the ports of the engine over the files
  (\<open>file_services\<close>), which of them leave the log and the stored projection of a run alone, and the
  interpretations of \<open>run_store\<close>, \<open>recoverable_store\<close> and \<open>dispatching\<close> on them.
\<close>

section \<open>Steps that leave a run alone\<close>

lemma leaves_then:
  assumes "leaves_run holds saved m" and "\<And>a. leaves_run holds saved (f a)"
  shows "leaves_run holds saved (then_do m f)"
  unfolding leaves_run_def
proof (intro allI impI)
  fix w es assume w: "holds w es"
  obtain r v where m: "m w = (r, v)" by fastforce
  with assms(1) w have v: "holds v es" "saved v = saved w" by (force simp: leaves_run_def)+
  show "holds (snd (then_do m f w)) es \<and> saved (snd (then_do m f w)) = saved w"
  proof (cases r)
    case (Inl e)
    with m v show ?thesis by (simp add: then_do_def)
  next
    case (Inr a)
    with assms(2) [of a] v have "holds (snd (f a v)) es" "saved (snd (f a v)) = saved v"
      by (auto simp: leaves_run_def)
    with m v Inr show ?thesis by (simp add: then_do_def)
  qed
qed

lemma leaves_pure:
  "leaves_run holds saved (ok a)" "leaves_run holds saved (stop e)"
  "leaves_run holds saved (look g)" "leaves_run holds saved (lift_result r)"
  by (simp_all add: leaves_run_def ok_def stop_def look_def lift_result_def)

lemma leaves_for_each:
  "(\<And>x. x \<in> set xs \<Longrightarrow> leaves_run holds saved (f x)) \<Longrightarrow> leaves_run holds saved (for_each xs f)"
proof (induction xs)
  case (Cons x xs)
  have "leaves_run holds saved (then_do (f x) (\<lambda>_. for_each xs f))"
    by (rule leaves_then) (use Cons in auto)
  then show ?case by simp
qed (simp add: leaves_pure)

lemma leaves_if:
  "(b \<Longrightarrow> leaves_run holds saved m) \<Longrightarrow> (\<not> b \<Longrightarrow> leaves_run holds saved n) \<Longrightarrow>
     leaves_run holds saved (if b then m else n)"
  by simp

lemma leaves_option:
  "leaves_run holds saved m \<Longrightarrow> (\<And>x. leaves_run holds saved (f x)) \<Longrightarrow>
     leaves_run holds saved (case v of None \<Rightarrow> m | Some x \<Rightarrow> f x)"
  by (cases v) simp_all

lemmas leaves_rules = leaves_then leaves_pure leaves_for_each leaves_if leaves_option

section \<open>What the store keeps of a run\<close>

definition state_path :: "file_store \<Rightarrow> run_id \<Rightarrow> path" where
  "state_path F R = state_file (fs_externals F) (fs_root F) R"

definition descriptor_path :: "file_store \<Rightarrow> run_id \<Rightarrow> path" where
  "descriptor_path F R = run_descriptor_file (fs_externals F) (fs_root F) R"

definition saved_projection :: "file_store \<Rightarrow> run_id \<Rightarrow> 'e file_world \<Rightarrow> run_projection option" where
  "saved_projection F R w = Option.bind (file_at (state_path F R) w) state_kind"

definition redacts_with ::
    "file_store \<Rightarrow> 'e operating_system \<Rightarrow> run_id \<Rightarrow> pattern_redactor \<Rightarrow> 'e file_world \<Rightarrow> bool" where
  "redacts_with F os R redactor w \<longleftrightarrow>
     fw_redactors w R \<in> {None, Some redactor}
     \<and> (\<exists>d. file_at (descriptor_path F R) w = Some (DescriptorFile d)
          \<and> redactor = redactor_for_configuration (os_regex os) (os_environment os)
              (ef_redaction (rd_configuration d)))"

definition run_files ::
    "file_store \<Rightarrow> 'e operating_system \<Rightarrow> run_id \<Rightarrow> pattern_redactor \<Rightarrow> 'e file_world
      \<Rightarrow> durable_event list \<Rightarrow> bool" where
  "run_files F os R redactor w es \<longleftrightarrow>
     log_holds (fs_externals F) (fs_encoder F) (fs_codec F) (fw_logs w R) es
     \<and> length (case lg_file (fw_logs w R) of Some s \<Rightarrow> s | None \<Rightarrow> []) < 2 ^ 64
     \<and> redacts_with F os R redactor w"

text \<open>What a change of the world may touch without touching the run.\<close>

definition same_files :: "file_store \<Rightarrow> run_id \<Rightarrow> 'e file_world \<Rightarrow> 'e file_world \<Rightarrow> bool" where
  "same_files F R w v \<longleftrightarrow>
     fw_logs v R = fw_logs w R \<and> fw_redactors v R = fw_redactors w R
     \<and> file_at (state_path F R) v = file_at (state_path F R) w
     \<and> file_at (descriptor_path F R) v = file_at (descriptor_path F R) w"

lemma same_files_run:
  assumes "same_files F R w v"
  shows "run_files F os R redactor v es = run_files F os R redactor w es"
    and "saved_projection F R v = saved_projection F R w"
  using assms by (simp_all add: same_files_def run_files_def redacts_with_def saved_projection_def)

lemma leaves_files:
  assumes "\<And>w. same_files F R w (snd (f w))"
  shows "leaves_run (run_files F os R redactor) (saved_projection F R) f"
  unfolding leaves_run_def using same_files_run [OF assms] by blast

text \<open>The names of the two documents the run depends on, and paths that are neither of them.\<close>

definition other_name :: "path \<Rightarrow> bool" where
  "other_name p \<longleftrightarrow> last p \<noteq> ''state.json'' \<and> last p \<noteq> ''run.json''"

lemma other_name_paths: "other_name p \<Longrightarrow> state_path F R \<noteq> p \<and> descriptor_path F R \<noteq> p"
  by (auto simp: other_name_def state_path_def descriptor_path_def state_file_def
      run_descriptor_file_def)

lemma temporary_other_name: "other_name (temporary_sibling p unique)"
  by (simp add: other_name_def temporary_sibling_def)

lemma file_at_put [simp]: "file_at p (put_file q c w) = (if p = q then Some c else file_at p w)"
proof -
  have "map_of (filter (\<lambda>f. fst f \<noteq> q) fs) p = map_of fs p" if "p \<noteq> q"
      for fs :: "(path \<times> stored_file) list"
    using that by (induction fs) auto
  then show ?thesis by (simp add: file_at_def put_file_def)
qed

lemma file_at_moved:
  assumes "p \<noteq> from"
  shows "file_at p (move_file from target w)
    = (if p = target \<and> file_at from w \<noteq> None then file_at from w else file_at p w)"
proof -
  have "map_of (filter (\<lambda>f. fst f \<noteq> from) fs) p = map_of fs p" for fs :: "(path \<times> stored_file) list"
    using assms by (induction fs) auto
  then have "file_at p (w\<lparr>fw_files := filter (\<lambda>f. fst f \<noteq> from) (fw_files w)\<rparr>) = file_at p w"
    by (simp add: file_at_def)
  then show ?thesis by (simp add: move_file_def split: option.split)
qed

lemma world_frame [simp]:
  "fw_logs (put_file q c w) = fw_logs w" "fw_redactors (put_file q c w) = fw_redactors w"
  "fw_logs (move_file a b w) = fw_logs w" "fw_redactors (move_file a b w) = fw_redactors w"
  "file_at p (w\<lparr>fw_outside := e\<rparr>) = file_at p w" "file_at p (w\<lparr>fw_directories := ds\<rparr>) = file_at p w"
  "file_at p (w\<lparr>fw_logs := ls\<rparr>) = file_at p w" "file_at p (w\<lparr>fw_redactors := rs\<rparr>) = file_at p w"
  by (simp_all add: put_file_def move_file_def file_at_def split: option.split)

section \<open>The methods that leave a run alone\<close>

lemma leaves_outside:
  "leaves_run (run_files F os R redactor) (saved_projection F R) (outside f)"
  by (rule leaves_files) (simp add: same_files_def outside_def split: prod.split)

lemma leaves_call:
  "leaves_run (run_files F os R redactor) (saved_projection F R) (system_call o1 action path)"
  "leaves_run (run_files F os R redactor) (saved_projection F R)
     (tolerant_call o1 action path tolerated)"
  unfolding system_call_def tolerant_call_def by (intro leaves_rules leaves_outside)+

lemma leaves_put:
  "other_name p \<Longrightarrow>
     leaves_run (run_files F os R redactor) (saved_projection F R) (update_state (put_file p c))"
  by (rule leaves_files) (use other_name_paths in \<open>auto simp: same_files_def update_state_def\<close>)

lemma leaves_move:
  "other_name a \<Longrightarrow> other_name b \<Longrightarrow>
     leaves_run (run_files F os R redactor) (saved_projection F R) (update_state (move_file a b))"
  by (rule leaves_files)
    (use other_name_paths in \<open>auto simp: same_files_def update_state_def file_at_moved\<close>)

lemma leaves_directories:
  "leaves_run (run_files F os R redactor) (saved_projection F R) (ensure_directory o1 path)"
  "leaves_run (run_files F os R redactor) (saved_projection F R) (sync_directory o1 path)"
proof -
  have "leaves_run (run_files F os R redactor) (saved_projection F R)
      (update_state (\<lambda>w. w\<lparr>fw_directories := g w\<rparr>))" for g
    by (rule leaves_files) (simp add: same_files_def update_state_def)
  then show "leaves_run (run_files F os R redactor) (saved_projection F R) (ensure_directory o1 path)"
    unfolding ensure_directory_def by (intro leaves_rules leaves_call)
  show "leaves_run (run_files F os R redactor) (saved_projection F R) (sync_directory o1 path)"
    unfolding sync_directory_def by (intro leaves_rules leaves_call)
qed

lemma leaves_write:
  assumes "other_name p"
  shows "leaves_run (run_files F os R redactor) (saved_projection F R) (write_atomic o1 p c)"
  unfolding write_atomic_def Let_def
  by (intro leaves_rules leaves_outside leaves_call leaves_put leaves_move leaves_directories
      temporary_other_name assms)

lemma leaves_read:
  "leaves_run (run_files F os R redactor) (saved_projection F R) (read_document D o1 kind p)"
  "leaves_run (run_files F os R redactor) (saved_projection F R) (read_bytes o1 p)"
  unfolding read_document_def read_bytes_def by (intro leaves_rules leaves_call)+

lemma leaves_sync_tree:
  "leaves_run (run_files F os R redactor) (saved_projection F R) (sync_tree o1 n p)"
  by (induction n arbitrary: p)
    (simp_all only: sync_tree.simps, (intro leaves_rules leaves_call leaves_directories | assumption)+)

lemma store_descriptor_leaves:
  "leaves_run (run_files F os R redactor) (saved_projection F R) (store_descriptor G o1 run)"
  unfolding store_descriptor_def by (intro leaves_rules leaves_read)

section \<open>An operating system that keeps what it was given\<close>

text \<open>
  What is assumed of the operating system: an append that fails leaves no bytes in the log, a file
  does not grow past the largest offset, and a file that exists can be read.
\<close>

fun clean_fault :: "write_fault \<Rightarrow> bool" where
  "clean_fault (DirectoryFault e) = True"
| "clean_fault (OpenFault m) = True"
| "clean_fault (WriteFault n m) = (n = 0)"
| "clean_fault (FlushFault m) = False"
| "clean_fault (SyncFault m) = False"

definition clean_system :: "'e operating_system \<Rightarrow> bool" where
  "clean_system os \<longleftrightarrow>
     (\<forall>path content e. case fst (os_append_fault os path content e) of
        None \<Rightarrow> length (case content of Some s \<Rightarrow> s | None \<Rightarrow> []) < 2 ^ 63
      | Some fault \<Rightarrow> clean_fault fault)
     \<and> (\<forall>path e. fst (os_call os ''read'' path e) = None)"

lemma system_read:
  assumes "clean_system os"
  shows "\<exists>e. system_call os ''read'' path w = (Inr (), w\<lparr>fw_outside := e\<rparr>)"
proof -
  obtain r e where call: "os_call os ''read'' path (fw_outside w) = (r, e)" by fastforce
  from assms have "fst (os_call os ''read'' path (fw_outside w)) = None" by (simp add: clean_system_def)
  with call have "r = None" by simp
  with call show ?thesis by (auto simp: system_call_def outside_def step_eval)
qed

text \<open>The redactor of the run is the one it had, or the one its descriptor asks for.\<close>

lemma redactor_for_run:
  assumes "clean_system os" and "redacts_with F os R redactor w"
  shows "\<exists>v. redactor_for F os R w = (Inr redactor, v) \<and> redacts_with F os R redactor v
    \<and> fw_logs v = fw_logs w \<and> file_at (state_path F R) v = file_at (state_path F R) w"
proof (cases "fw_redactors w R")
  case (Some r)
  with assms(2) show ?thesis by (auto simp: redacts_with_def redactor_for_def)
next
  case None
  from assms(2) obtain d where d: "file_at (descriptor_path F R) w = Some (DescriptorFile d)"
      and r: "redactor = redactor_for_configuration (os_regex os) (os_environment os)
        (ef_redaction (rd_configuration d))" by (auto simp: redacts_with_def)
  obtain e where read: "system_call os ''read'' (descriptor_path F R) w = (Inr (), w\<lparr>fw_outside := e\<rparr>)"
    using system_read [OF assms(1)] by blast
  have "store_descriptor F os R w = (Inr d, w\<lparr>fw_outside := e\<rparr>)"
    using d read unfolding store_descriptor_def read_document_def descriptor_path_def [symmetric]
    by (simp add: step_eval)
  with None r have "redactor_for F os R w = (Inr redactor, w\<lparr>fw_outside := e,
      fw_redactors := (fw_redactors w)(R \<mapsto> redactor)\<rparr>)"
    by (simp add: redactor_for_def Let_def)
  with assms(2) show ?thesis by (simp add: redacts_with_def)
qed

lemma redactor_for_leaves:
  assumes "clean_system os"
  shows "leaves_run (run_files F os R redactor) (saved_projection F R) (redactor_for F os R)"
  unfolding leaves_run_def
proof (intro allI impI)
  fix w es assume w: "run_files F os R redactor w es"
  then have "redacts_with F os R redactor w" by (simp add: run_files_def)
  from redactor_for_run [OF assms this] obtain v where
    "redactor_for F os R w = (Inr redactor, v)" "redacts_with F os R redactor v"
    "fw_logs v = fw_logs w" "file_at (state_path F R) v = file_at (state_path F R) w" by blast
  with w show "run_files F os R redactor (snd (redactor_for F os R w)) es
      \<and> saved_projection F R (snd (redactor_for F os R w)) = saved_projection F R w"
    by (simp add: run_files_def saved_projection_def)
qed

lemma store_manifest_leaves:
  "leaves_run (run_files F os R redactor) (saved_projection F R) (store_store_manifest G o1 m)"
  "leaves_run (run_files F os R redactor) (saved_projection F R) (store_load_manifest G o1 run)"
  "leaves_run (run_files F os R redactor) (saved_projection F R) (store_store_metrics G o1 run q)"
  "leaves_run (run_files F os R redactor) (saved_projection F R) (store_load G o1 run)"
  unfolding store_store_manifest_def store_load_manifest_def store_store_metrics_def store_load_def
  by (intro leaves_write leaves_read;
      simp add: other_name_def manifest_file_def metrics_file_def)+

section \<open>Evidence is moved into place beside the run's documents\<close>

lemma moved_state:
  assumes "length p < length temporary" and "length p < length destination"
  shows "moved temporary destination q = p \<longleftrightarrow> q = p"
proof
  assume "moved temporary destination q = p"
  then show "q = p" using assms(2) by (auto simp: moved_def split: if_splits)
next
  assume "q = p"
  moreover have "\<not> below temporary p"
  proof
    assume "below temporary p"
    then have "length (take (length temporary) p) = length temporary" by (simp add: below_def)
    with assms(1) show False by simp
  qed
  ultimately show "moved temporary destination q = p" by (simp add: moved_def)
qed

lemma file_at_renamed:
  assumes "length p < length temporary" and "length p < length destination"
  shows "file_at p (rename_directory temporary destination w) = file_at p w"
proof -
  have "map_of (map (\<lambda>(q, c). (moved temporary destination q, c)) fs) p = map_of fs p"
      for fs :: "(path \<times> stored_file) list"
  proof (induction fs)
    case (Cons f fs)
    obtain q c where f: "f = (q, c)" by fastforce
    have "(p = moved temporary destination q) = (p = q)" using moved_state [OF assms] by metis
    with Cons show ?case by (simp only: f list.map prod.case map_of.simps fst_conv snd_conv fun_upd_apply)
  qed simp
  then show ?thesis by (simp add: file_at_def rename_directory_def)
qed

lemma attempt_directory_length:
  "length (attempt_directory F R key) = length (run_directory (fs_externals F) (fs_root F) R) + 3"
  by (simp add: attempt_directory_def nodes_directory_def directory_segments_def split: option.split)

lemma leaves_rename:
  assumes "length (state_path F R) < length temporary" and "length (state_path F R) < length destination"
  shows "leaves_run (run_files F os R redactor) (saved_projection F R)
    (rename_directory_into_place o1 temporary destination)"
proof -
  have "length (descriptor_path F R) = length (state_path F R)"
    by (simp add: state_path_def descriptor_path_def state_file_def run_descriptor_file_def)
  with assms have "leaves_run (run_files F os R redactor) (saved_projection F R)
      (update_state (rename_directory temporary destination))"
    by (intro leaves_files)
      (simp add: same_files_def update_state_def file_at_renamed, simp add: rename_directory_def)
  then show ?thesis unfolding rename_directory_into_place_def Let_def
    by (intro leaves_rules leaves_call leaves_directories leaves_sync_tree)
qed

lemma commit_attempt_leaves:
  assumes "clean_system os"
  shows "leaves_run (run_files F os R redactor) (saved_projection F R)
    (store_commit_attempt F os R result evidence)"
proof -
  let ?d = "attempt_directory F R (attempt_key_new (nr_node_id result) (nr_candidate_id result)
    (nr_attempt result))"
  have "length (state_path F R) < length ?d"
    unfolding attempt_directory_length by (simp add: state_path_def state_file_def)
  moreover have "length (temporary_sibling ?d unique) = length ?d" for unique
  proof -
    have "?d \<noteq> []" using attempt_directory_length [of F R] by (metis add_is_0 length_0_conv zero_neq_numeral)
    then show ?thesis by (simp add: temporary_sibling_def)
  qed
  ultimately have rename: "leaves_run (run_files F os R redactor) (saved_projection F R)
      (rename_directory_into_place os (temporary_sibling ?d unique) ?d)" for unique
    by (intro leaves_rename) simp_all
  have evidence_file: "leaves_run (run_files F os R redactor) (saved_projection F R)
      (write_atomic os (q @ [x]) c)" if "x \<noteq> ''state.json''" "x \<noteq> ''run.json''" for q x c
    by (rule leaves_write) (use that in \<open>simp add: other_name_def\<close>)
  show ?thesis unfolding store_commit_attempt_def Let_def
    by (intro leaves_rules leaves_outside leaves_directories redactor_for_leaves assms rename evidence_file)
      simp_all
qed

section \<open>A write that happens or not\<close>

definition steady :: "('e file_world \<Rightarrow> bool) \<Rightarrow> bool" where
  "steady I \<longleftrightarrow> (\<forall>w e ds. I w \<longrightarrow> I (w\<lparr>fw_outside := e\<rparr>) \<and> I (w\<lparr>fw_directories := ds\<rparr>))"

lemma steady_calls:
  assumes "steady I" and "\<forall>w. I w \<longrightarrow> E w"
  shows "triple I (outside f) (\<lambda>_. I) (\<lambda>_. E)" and "triple I (system_call os action p) (\<lambda>_. I) (\<lambda>_. E)"
    and "triple I (tolerant_call os action p t) (\<lambda>_. I) (\<lambda>_. E)"
    and "triple I (ensure_directory os p) (\<lambda>_. I) (\<lambda>_. E)"
    and "triple I (sync_directory os p) (\<lambda>_. I) (\<lambda>_. E)"
proof -
  have out: "triple I (outside f) (\<lambda>_. I) (\<lambda>_. E)" for f :: "'a \<Rightarrow> 'b \<times> 'a"
    using assms(1) by (simp add: triple_def outside_def steady_def split: prod.split)
  have faults: "triple I (outside f) (\<lambda>_. I) (\<lambda>_. E)" for f :: "'a \<Rightarrow> io_error option \<times> 'a"
    using assms(1) by (simp add: triple_def outside_def steady_def split: prod.split)
  show "triple I (outside f) (\<lambda>_. I) (\<lambda>_. E)" by (rule out)
  have call: "triple I (system_call os action p) (\<lambda>_. I) (\<lambda>_. E)" for action p
    unfolding system_call_def
    by (rule triple_then [OF faults]) (use assms(2) in \<open>auto intro: triple_ok triple_stop split: option.split\<close>)
  have tolerant: "triple I (tolerant_call os action p t) (\<lambda>_. I) (\<lambda>_. E)" for action p t
    unfolding tolerant_call_def
    by (rule triple_then [OF faults]) (use assms(2) in \<open>auto intro: triple_ok triple_stop split: option.split\<close>)
  show "triple I (system_call os action p) (\<lambda>_. I) (\<lambda>_. E)" by (rule call)
  show "triple I (tolerant_call os action p t) (\<lambda>_. I) (\<lambda>_. E)" by (rule tolerant)
  show "triple I (ensure_directory os p) (\<lambda>_. I) (\<lambda>_. E)"
    unfolding ensure_directory_def
    by (rule triple_then [OF call], rule triple_update) (use assms(1) in \<open>simp add: steady_def\<close>)
  have settled: "triple I (then_do (tolerant_call os action p t) (\<lambda>_. ok ())) (\<lambda>_. I) (\<lambda>_. E)"
    for action p t by (rule triple_then [OF tolerant], rule triple_ok)
  show "triple I (sync_directory os p) (\<lambda>_. I) (\<lambda>_. E)"
    unfolding sync_directory_def
    by (rule triple_then [OF tolerant]) (auto intro: settled triple_ok)
qed

lemma write_atomic_triple:
  assumes "p \<noteq> []" and "steady P" and "steady Q"
    and "\<And>w u c. P w \<Longrightarrow> P (put_file (temporary_sibling p u) c w)"
    and "\<And>w u. P w \<Longrightarrow> file_at (temporary_sibling p u) w = Some content \<Longrightarrow>
      Q (move_file (temporary_sibling p u) p w)"
  shows "triple P (write_atomic os p content) (\<lambda>_. Q) (\<lambda>_ w. P w \<or> Q w)"
proof -
  let ?E = "\<lambda>w. P w \<or> Q w"
  let ?W = "\<lambda>u w. P w \<and> file_at (temporary_sibling p u) w = Some content"
  have weaker: "\<forall>w. P w \<longrightarrow> ?E w" "\<forall>w. Q w \<longrightarrow> ?E w" "\<forall>w. ?W u w \<longrightarrow> ?E w" for u by simp_all
  note p = steady_calls [OF assms(2) weaker(1)] and q = steady_calls [OF assms(3) weaker(2)]
  have written: "steady (?W u)" for u using assms(2) by (simp add: steady_def)
  note r = steady_calls [OF written weaker(3)]
  have placed: "triple P
      (then_do (update_state (put_file (temporary_sibling p u) content)) (\<lambda>_.
       then_do (system_call os ''flush'' (temporary_sibling p u)) (\<lambda>_.
       then_do (system_call os ''synchronise'' (temporary_sibling p u)) (\<lambda>_.
       then_do (system_call os ''rename into place'' p) (\<lambda>_.
       then_do (update_state (move_file (temporary_sibling p u) p)) (\<lambda>_.
       sync_directory os (butlast p))))))) (\<lambda>_. Q) (\<lambda>_. ?E)" for u
    apply (rule triple_then [where R = "\<lambda>_. ?W u"], rule triple_update)
     apply (simp add: assms(4))
    apply (rule triple_then [OF r(2)], rule triple_then [OF r(2)], rule triple_then [OF r(2)])
    apply (rule triple_then [where R = "\<lambda>_. Q"], rule triple_update)
     apply (simp add: assms(5))
    apply (rule q(5))
    done
  show ?thesis
    unfolding write_atomic_def Let_def
    apply (rule triple_if)
     apply (simp add: assms(1))
    apply (rule triple_then [OF p(4)], rule triple_then [OF p(1)], rule triple_then [OF p(2)])
    apply (rule triple_then [where R = "\<lambda>_. P"], rule triple_update, erule assms(4))
    apply (rule triple_then [OF p(2)], rule triple_then [OF p(2)])
    apply (rule placed)
    done
qed

text \<open>Storing the projection of the run.\<close>

lemma store_store_result:
  assumes "run_files F os R redactor w es" and "rp_run_id q = R" and "store_store F o1 q w = (r, v)"
  shows "run_files F os R redactor v es
    \<and> (case r of Inl _ \<Rightarrow> saved_projection F R v \<in> {saved_projection F R w, Some q}
        | Inr _ \<Rightarrow> saved_projection F R v = Some q)"
proof -
  let ?p = "state_path F R" and ?d = "descriptor_path F R"
  let ?K = "\<lambda>v. fw_logs v = fw_logs w \<and> fw_redactors v = fw_redactors w \<and> file_at ?d v = file_at ?d w"
  have temp: "?p \<noteq> temporary_sibling ?p u" "?d \<noteq> temporary_sibling ?p u" for u
    using other_name_paths [OF temporary_other_name, of F R ?p] by auto
  have d: "?d \<noteq> ?p"
    by (simp add: state_path_def descriptor_path_def state_file_def run_descriptor_file_def)
  have nonempty: "?p \<noteq> []" by (simp add: state_path_def state_file_def)
  have "triple (\<lambda>v. ?K v \<and> file_at ?p v = file_at ?p w) (write_atomic o1 ?p (StateFile q))
     (\<lambda>_ v. ?K v \<and> file_at ?p v = Some (StateFile q))
     (\<lambda>_ v. (?K v \<and> file_at ?p v = file_at ?p w) \<or> (?K v \<and> file_at ?p v = Some (StateFile q)))"
    by (rule write_atomic_triple)
      (simp_all add: steady_def temp d file_at_moved nonempty)
  moreover have run: "write_atomic o1 ?p (StateFile q) w = (r, v)"
    using assms(2,3) by (simp add: store_store_def state_path_def)
  ultimately have K: "?K v \<and> (case r of Inl _ \<Rightarrow> file_at ?p v \<in> {file_at ?p w, Some (StateFile q)}
      | Inr _ \<Rightarrow> file_at ?p v = Some (StateFile q))"
    by (cases r) (auto dest: triple_success triple_failure)
  then have "run_files F os R redactor v es"
    using assms(1) by (simp add: run_files_def redacts_with_def)
  moreover from K have "case r of Inl _ \<Rightarrow> saved_projection F R v \<in> {saved_projection F R w, Some q}
        | Inr _ \<Rightarrow> saved_projection F R v = Some q"
    by (cases r) (auto simp: saved_projection_def)
  ultimately show ?thesis by blast
qed

section \<open>The log of the run\<close>

lemma append_line_clean:
  assumes "clean_fault fault"
  shows "\<exists>e. append_line path (Some fault) line content = (Inl e, content)
    \<or> append_line path (Some fault) line content
      = (Inl e, Some (case content of Some s \<Rightarrow> s | None \<Rightarrow> []))"
  using assms by (cases fault) (auto simp: append_line_def Let_def)

lemma log_holds_touched:
  assumes "log_holds X enc C self es"
  shows "log_holds X enc C (self\<lparr>lg_file := Some (case lg_file self of Some s \<Rightarrow> s | None \<Rightarrow> [])\<rparr>) es"
proof (cases "lg_file self")
  case None
  with assms show ?thesis by (auto simp: log_holds_def)
next
  case (Some s)
  then have "self\<lparr>lg_file := Some s\<rparr> = self" by simp
  then show ?thesis using assms by (simp only: Some option.case)
qed

text \<open>An append that fails without leaving bytes behind leaves what the log holds.\<close>

lemma log_append_clean:
  assumes "log_holds X enc C self es" and "clean_fault f"
    and "log_append X enc C (Some f) run event recorded_at payload self = (result, journal)"
  shows "isl result \<and> log_holds X enc C journal es
    \<and> (lg_file journal = lg_file self
       \<or> lg_file journal = Some (case lg_file self of Some s \<Rightarrow> s | None \<Rightarrow> []))"
proof -
  let ?t = "\<lparr>ct_sequence = of_nat (length es), ct_hash = chain_end X genesis_hash es\<rparr> :: chain_tail"
  from current_tail_complete [OF assms(1)] obtain p where
    tail: "current_tail X enc C self = (Inr ?t, self\<lparr>lg_prefix := p\<rparr>)"
    and holds: "log_holds X enc C (self\<lparr>lg_prefix := p\<rparr>) es" by blast
  note touched = log_holds_touched [OF holds]
  have unmoved: "self\<lparr>lg_prefix := p, lg_file := lg_file self\<rparr> = self\<lparr>lg_prefix := p\<rparr>" by simp
  show ?thesis
  proof (cases "event_seal X enc (ct_sequence ?t + 1) event run recorded_at (ct_hash ?t) payload")
    case (Inl e)
    with assms(3) tail holds show ?thesis by (auto simp: log_append_def)
  next
    case (Inr sealed)
    show ?thesis
    proof (cases "ec_encode C sealed")
      case (Inl m)
      with assms(3) tail holds Inr show ?thesis by (auto simp: log_append_def)
    next
      case line: (Inr line)
      from append_line_clean [OF assms(2)] obtain e where
        "append_line (lg_path self) (Some f) line (lg_file self) = (Inl e, lg_file self)
         \<or> append_line (lg_path self) (Some f) line (lg_file self)
           = (Inl e, Some (case lg_file self of Some s \<Rightarrow> s | None \<Rightarrow> []))" by blast
      with assms(3) tail holds touched Inr line unmoved show ?thesis
        by (auto simp: log_append_def split: if_splits)
    qed
  qed
qed

lemma log_append_grows:
  assumes "log_append X enc C fault run event recorded_at payload self = (Inr e, journal)"
  shows "\<exists>b p. length b \<le> maximum_record_bytes \<and> lg_file journal = Some (written_bytes b p)
    \<and> p = lg_file (snd (current_tail X enc C self))"
proof -
  have "\<exists>b. length b \<le> maximum_record_bytes \<and> lg_file journal = Some (written_bytes b q)"
    if "append_line path fault b q = (Inr u, c)" "length b \<le> maximum_record_bytes"
      "lg_file journal = c" for path b q u c
  proof -
    from that(1) have "fault = None" by (cases fault) (auto simp: append_line_def Let_def split: write_fault.splits)
    with that show ?thesis by (auto simp: append_line_done)
  qed
  with assms show ?thesis
    by (auto simp: log_append_def split: prod.splits sum.splits if_splits)
qed

lemma log_events_short:
  "log_bytes C es = Some s \<Longrightarrow> length es \<le> length s"
proof (induction es arbitrary: s)
  case (Cons e es)
  from Cons.prems obtain b r where "log_bytes C es = Some r" "s = b @ newline # r"
    by (auto simp: log_bytes_Cons simp del: log_bytes.simps)
  with Cons.IH show ?case by fastforce
qed simp

lemma run_files_bounded:
  assumes "run_files F os R redactor w es"
  shows "length es < 2 ^ 64"
proof -
  let ?log = "fw_logs w R"
  from assms have log: "log_holds (fs_externals F) (fs_encoder F) (fs_codec F) ?log es"
    and size: "length (case lg_file ?log of Some s \<Rightarrow> s | None \<Rightarrow> []) < 2 ^ 64"
    by (simp_all add: run_files_def)
  show ?thesis
  proof (cases "lg_file ?log")
    case None
    with log show ?thesis by (simp add: log_holds_def)
  next
    case (Some s)
    with log have "log_bytes (fs_codec F) es = Some s" by (simp add: log_holds_def)
    with log_events_short [OF this] size Some show ?thesis by simp
  qed
qed

lemma maximum_record_small: "maximum_record_bytes + 1 + 2 ^ 63 < 2 ^ 64"
  by (simp add: maximum_record_bytes_def)

lemma log_append_run:
  assumes "log_holds X enc C self es"
    and "length (case lg_file self of Some s \<Rightarrow> s | None \<Rightarrow> []) < 2 ^ 64"
    and "case fault of
        None \<Rightarrow> length (case lg_file self of Some s \<Rightarrow> s | None \<Rightarrow> []) < 2 ^ 63
      | Some f \<Rightarrow> clean_fault f"
    and "log_append X enc C fault run event recorded_at payload self = (result, journal)"
  shows "length (case lg_file journal of Some s \<Rightarrow> s | None \<Rightarrow> []) < 2 ^ 64
    \<and> (case result of
        Inl _ \<Rightarrow> log_holds X enc C journal es
      | Inr e \<Rightarrow> event_seal X enc (of_nat (length es) + 1) event run recorded_at
                  (chain_end X genesis_hash es) payload = Inr e
                \<and> log_holds X enc C journal (es @ [e]))"
proof (cases fault)
  case (Some f)
  then have "clean_fault f" using assms(3) by simp
  from log_append_clean [OF assms(1) this] assms(4) Some have
    "isl result" "log_holds X enc C journal es"
    "lg_file journal = lg_file self
       \<or> lg_file journal = Some (case lg_file self of Some s \<Rightarrow> s | None \<Rightarrow> [])" by blast+
  with assms(2) show ?thesis by (cases result) auto
next
  case None
  with assms(3) have room: "length (case lg_file self of Some s \<Rightarrow> s | None \<Rightarrow> []) < 2 ^ 63" by simp
  note run = assms(4) [unfolded None]
  from log_append_result [OF assms(1) run] have res: "case result of
      Inl _ \<Rightarrow> log_holds X enc C journal es \<and> lg_file journal = lg_file self
    | Inr e \<Rightarrow> event_seal X enc (of_nat (length es) + 1) event run recorded_at
                (chain_end X genesis_hash es) payload = Inr e
              \<and> log_holds X enc C journal (es @ [e])" .
  show ?thesis
  proof (cases result)
    case (Inl e)
    with res assms(2) show ?thesis by simp
  next
    case (Inr e)
    from current_tail_complete [OF assms(1)] have "lg_file (snd (current_tail X enc C self)) = lg_file self"
      by auto
    with log_append_grows [OF run [unfolded Inr]] obtain b where
      "length b \<le> maximum_record_bytes" "lg_file journal = Some (written_bytes b (lg_file self))"
      by auto
    with room maximum_record_small have
      "length (case lg_file journal of Some s \<Rightarrow> s | None \<Rightarrow> []) < 2 ^ 64"
      by (simp add: written_bytes_def)
    with res Inr show ?thesis by simp
  qed
qed

lemma run_files_logged:
  assumes "redacts_with F os R redactor w"
    and "log_holds (fs_externals F) (fs_encoder F) (fs_codec F) journal es"
    and "length (case lg_file journal of Some s \<Rightarrow> s | None \<Rightarrow> []) < 2 ^ 64"
  shows "run_files F os R redactor (w\<lparr>fw_logs := (fw_logs w)(R := journal)\<rparr>) es
    \<and> saved_projection F R (w\<lparr>fw_logs := (fw_logs w)(R := journal)\<rparr>) = saved_projection F R w"
  using assms by (simp add: run_files_def redacts_with_def saved_projection_def)

definition written_payload :: "file_store \<Rightarrow> pattern_redactor \<Rightarrow> event_payload \<Rightarrow> event_payload" where
  "written_payload F redactor payload =
     (case redact_payload F redactor payload of Inr p \<Rightarrow> p | Inl _ \<Rightarrow> payload)"

lemma store_append_result:
  assumes "clean_system os" and "run_files F os R redactor w es"
    and "store_append F os R payload w = (r, v)"
  shows "saved_projection F R v = saved_projection F R w
    \<and> (case r of Inl _ \<Rightarrow> run_files F os R redactor v es
        | Inr e \<Rightarrow> run_files F os R redactor v (es @ [e]) \<and> de_run_id e = R
            \<and> de_payload e = written_payload F redactor payload
            \<and> event_verify (fs_externals F) (fs_encoder F) e (of_nat (length es) + 1)
                (chain_end (fs_externals F) genesis_hash es) = Inr ())"
proof -
  let ?X = "fs_externals F" and ?enc = "fs_encoder F" and ?C = "fs_codec F"
  from assms(2) have red: "redacts_with F os R redactor w" by (simp add: run_files_def)
  from redactor_for_run [OF assms(1) red] obtain w1 where
    step: "redactor_for F os R w = (Inr redactor, w1)" by blast
  with redactor_for_leaves [OF assms(1), of F R redactor] assms(2)
  have w1: "run_files F os R redactor w1 es" "saved_projection F R w1 = saved_projection F R w"
    by (auto simp: leaves_run_def dest!: spec [of _ w])
  show ?thesis
  proof (cases "redact_payload F redactor payload")
    case (Inl e)
    with assms(3) step w1 show ?thesis by (auto simp: store_append_def step_eval)
  next
    case (Inr redacted)
    obtain event e1 where e1: "os_event_id os (fw_outside w1) = (event, e1)" by fastforce
    obtain recorded e2 where e2: "os_now os e1 = (recorded, e2)" by fastforce
    let ?log = "fw_logs w1 R"
    obtain fault e3 where e3: "os_append_fault os (events_file ?X (fs_root F) R) (lg_file ?log) e2
        = (fault, e3)" by fastforce
    let ?w = "w1\<lparr>fw_outside := e3\<rparr>"
    obtain result journal where app: "log_append ?X ?enc ?C fault R event recorded redacted ?log
        = (result, journal)" by fastforce
    have run: "r = result" "v = ?w\<lparr>fw_logs := (fw_logs ?w)(R := journal)\<rparr>"
      using assms(3) step Inr e1 e2 e3 app
      by (auto simp: store_append_def step_eval outside_def on_log_def)
    have "case fault of None \<Rightarrow> length (case lg_file ?log of Some s \<Rightarrow> s | None \<Rightarrow> []) < 2 ^ 63
        | Some f \<Rightarrow> clean_fault f"
      using assms(1) e3 unfolding clean_system_def by (metis fst_conv)
    from log_append_run [OF _ _ this app, of es] w1(1) have
      small: "length (case lg_file journal of Some s \<Rightarrow> s | None \<Rightarrow> []) < 2 ^ 64" and
      res: "case result of Inl _ \<Rightarrow> log_holds ?X ?enc ?C journal es
        | Inr e \<Rightarrow> event_seal ?X ?enc (of_nat (length es) + 1) event R recorded
                    (chain_end ?X genesis_hash es) redacted = Inr e
                  \<and> log_holds ?X ?enc ?C journal (es @ [e])"
      by (auto simp: run_files_def)
    have red': "redacts_with F os R redactor ?w"
      using w1(1) by (simp add: run_files_def redacts_with_def)
    have saved': "saved_projection F R ?w = saved_projection F R w"
      using w1(2) by (simp add: saved_projection_def)
    show ?thesis
    proof (cases result)
      case (Inl x)
      with res run_files_logged [OF red' _ small, of es] saved' run show ?thesis by simp
    next
      case r: (Inr e)
      with res have sealed: "event_seal ?X ?enc (of_nat (length es) + 1) event R recorded
          (chain_end ?X genesis_hash es) redacted = Inr e"
        and holds: "log_holds ?X ?enc ?C journal (es @ [e])" by simp_all
      note fields = event_seal_Inr [OF sealed] event_seal_verify [OF sealed]
      from run_files_logged [OF red' holds small] saved' run r fields Inr show ?thesis
        by (simp add: written_payload_def)
    qed
  qed
qed

section \<open>Reading the log\<close>

lemma log_reads_hold:
  assumes "log_holds X enc C self es"
  shows "log_holds X enc C (snd (log_verify X enc C self)) es"
    and "lg_file (snd (log_verify X enc C self)) = lg_file self"
    and "log_holds X enc C (snd (log_read_after X enc C n self)) es"
    and "lg_file (snd (log_read_after X enc C n self)) = lg_file self"
    and "fst (log_verify X enc C self) = Inr
      \<lparr>cv_events_verified = of_nat (length es), cv_last_sequence = of_nat (length es),
       cv_last_hash = chain_end X genesis_hash es, cv_quarantined_partial_record = False\<rparr>"
proof -
  from verify_internal_complete [OF assms] obtain p where
    v: "verify_internal X enc C self =
      (Inr \<lparr>cv_events_verified = of_nat (length es), cv_last_sequence = of_nat (length es),
            cv_last_hash = chain_end X genesis_hash es, cv_quarantined_partial_record = False\<rparr>,
       self\<lparr>lg_prefix := p\<rparr>)" and holds: "log_holds X enc C (self\<lparr>lg_prefix := p\<rparr>) es" by blast
  from holds have "log_holds X enc C (self\<lparr>lg_prefix := p, lg_tail := Some
      \<lparr>ct_sequence = of_nat (length es), ct_hash = chain_end X genesis_hash es\<rparr>\<rparr>) es"
    by (simp add: log_holds_def)
  with v show "log_holds X enc C (snd (log_verify X enc C self)) es"
      "lg_file (snd (log_verify X enc C self)) = lg_file self"
      "fst (log_verify X enc C self) = Inr
      \<lparr>cv_events_verified = of_nat (length es), cv_last_sequence = of_nat (length es),
       cv_last_hash = chain_end X genesis_hash es, cv_quarantined_partial_record = False\<rparr>"
    by (simp_all add: log_verify_def)
  from log_load_complete [OF assms] show "log_holds X enc C (snd (log_read_after X enc C n self)) es"
      "lg_file (snd (log_read_after X enc C n self)) = lg_file self"
    by (auto simp: log_read_after_def)
qed

lemma on_log_leaves:
  assumes "\<And>self es. log_holds (fs_externals F) (fs_encoder F) (fs_codec F) self es \<Longrightarrow>
      log_holds (fs_externals F) (fs_encoder F) (fs_codec F) (snd (f self)) es
      \<and> lg_file (snd (f self)) = lg_file self"
  shows "leaves_run (run_files F os R redactor) (saved_projection F R) (on_log R f)"
  unfolding leaves_run_def
proof (intro allI impI)
  fix w es assume w: "run_files F os R redactor w es"
  obtain r journal where f: "f (fw_logs w R) = (r, journal)" by fastforce
  with assms [of "fw_logs w R" es] w run_files_logged [of F os R redactor w journal es]
  show "run_files F os R redactor (snd (on_log R f w)) es
      \<and> saved_projection F R (snd (on_log R f w)) = saved_projection F R w"
    by (simp add: on_log_def run_files_def)
qed

lemma log_reads_leave:
  "leaves_run (run_files F os R redactor) (saved_projection F R) (store_verify_chain F R)"
  "leaves_run (run_files F os R redactor) (saved_projection F R) (store_read_after F R n)"
  unfolding store_verify_chain_def store_read_after_def
  by (rule on_log_leaves; simp add: log_reads_hold)+

section \<open>The ports of the engine over the files\<close>

text \<open>
  What the engine calls besides the store: the publisher of events, the random jitter, the
  cancellation, the nodes, the encoder of results, the processors, the runtime and the locks.
\<close>

record 'e host =
  ho_publish :: "durable_event \<Rightarrow> 'e \<Rightarrow> unit application_result \<times> 'e"
  ho_jitter :: "'e \<Rightarrow> f64 \<times> 'e"
  ho_cancelled :: "'e \<Rightarrow> bool \<times> 'e"
  ho_execute :: "run_context \<Rightarrow> node_call \<Rightarrow> 'e file_world \<Rightarrow> node_execution \<times> 'e file_world"
  ho_result_bytes :: "node_result \<Rightarrow> string application_result"
  ho_logical_processors :: "'e \<Rightarrow> u64 application_result \<times> 'e"
  ho_next_task :: "nat \<Rightarrow> 'e \<Rightarrow> nat \<times> 'e"
  ho_lock :: "run_id \<Rightarrow> 'e \<Rightarrow> unit application_result \<times> 'e"
  ho_unlock :: "run_id \<Rightarrow> 'e \<Rightarrow> 'e"

definition beyond :: "('e \<Rightarrow> 'a \<times> 'e) \<Rightarrow> 'e file_world \<Rightarrow> 'a \<times> 'e file_world" where
  "beyond f w = (case f (fw_outside w) of (a, e) \<Rightarrow> (a, w\<lparr>fw_outside := e\<rparr>))"

definition file_services ::
    "file_store \<Rightarrow> 'e operating_system \<Rightarrow> 'e host \<Rightarrow> 'e file_world run_services" where
  "file_services F os H =
     \<lparr>sv_externals = fs_externals F, sv_encoder = fs_encoder F, sv_append = store_append F os,
      sv_read_after = store_read_after F, sv_verify_chain = store_verify_chain F,
      sv_load = store_load F os, sv_store = store_store F os,
      sv_store_metrics = store_store_metrics F os, sv_load_manifest = store_load_manifest F os,
      sv_store_manifest = store_store_manifest F os, sv_commit_attempt = store_commit_attempt F os,
      sv_publish = (\<lambda>e. beyond (ho_publish H e)), sv_now = beyond (os_now os),
      sv_jitter = beyond (ho_jitter H), sv_cancelled = beyond (ho_cancelled H),
      sv_execute = ho_execute H, sv_result_bytes = ho_result_bytes H,
      sv_logical_processors = beyond (ho_logical_processors H),
      sv_next_task = (\<lambda>n. beyond (ho_next_task H n)), sv_exists = store_exists F,
      sv_configuration = store_configuration F os, sv_task_markdown = store_task_markdown F os,
      sv_lock = (\<lambda>run. beyond (ho_lock H run)),
      sv_unlock = (\<lambda>run w. w\<lparr>fw_outside := ho_unlock H run (fw_outside w)\<rparr>)\<rparr>"

lemma leaves_beyond:
  "leaves_run (run_files F os R redactor) (saved_projection F R) (beyond f)"
  by (rule leaves_files) (simp add: same_files_def beyond_def split: prod.split)

text \<open>
  A run over files: the operating system is clean, the nodes leave the log, the stored projection
  and the redactor of the run alone, and the context is the one of the run.
\<close>

locale file_runs =
  fixes F :: file_store and os :: "'e operating_system" and H :: "'e host"
    and cx :: run_context and redactor :: pattern_redactor
  assumes clean: "clean_system os"
    and nodes_leave_run: "leaves_run (run_files F os (cx_run_id cx) redactor)
      (saved_projection F (cx_run_id cx)) (ho_execute H c call)"

sublocale file_runs \<subseteq> files: recoverable_store "file_services F os H" "cx_run_id cx"
    "run_files F os (cx_run_id cx) redactor" "saved_projection F (cx_run_id cx)"
    "written_payload F redactor"
proof unfold_locales
  fix w es assume held: "run_files F os (cx_run_id cx) redactor w es"
  show "length es < 2 ^ 64" by (rule run_files_bounded [OF held])
  show "chain_verified (sv_externals (file_services F os H)) (sv_encoder (file_services F os H))
      0 genesis_hash es"
    using held by (simp add: run_files_def log_holds_def file_services_def)
  fix p e v assume "sv_append (file_services F os H) (cx_run_id cx) p w = (Inr e, v)"
  then show "run_files F os (cx_run_id cx) redactor v (es @ [e])
      \<and> saved_projection F (cx_run_id cx) v = saved_projection F (cx_run_id cx) w
      \<and> de_run_id e = cx_run_id cx \<and> de_payload e = written_payload F redactor p
      \<and> event_verify (sv_externals (file_services F os H)) (sv_encoder (file_services F os H)) e
          (of_nat (length es) + 1)
          (chain_end (sv_externals (file_services F os H)) genesis_hash es) = Inr ()"
    using store_append_result [OF clean held, of p "Inr e" v] by (simp add: file_services_def)
next
  fix w es p x v assume held: "run_files F os (cx_run_id cx) redactor w es"
  assume "sv_append (file_services F os H) (cx_run_id cx) p w = (Inl x, v)"
  then show "run_files F os (cx_run_id cx) redactor v es
      \<and> saved_projection F (cx_run_id cx) v = saved_projection F (cx_run_id cx) w"
    using store_append_result [OF clean held, of p "Inl x" v] by (simp add: file_services_def)
next
  fix w es q u v assume held: "run_files F os (cx_run_id cx) redactor w es"
    and "rp_run_id q = cx_run_id cx" and "sv_store (file_services F os H) q w = (Inr u, v)"
  then show "run_files F os (cx_run_id cx) redactor v es
      \<and> saved_projection F (cx_run_id cx) v = Some q"
    using store_store_result [OF held, of q os "Inr u" v] by (simp add: file_services_def)
next
  fix w es q x v assume held: "run_files F os (cx_run_id cx) redactor w es"
    and "rp_run_id q = cx_run_id cx" and "sv_store (file_services F os H) q w = (Inl x, v)"
  then show "run_files F os (cx_run_id cx) redactor v es
      \<and> saved_projection F (cx_run_id cx) v \<in> {saved_projection F (cx_run_id cx) w, Some q}"
    using store_store_result [OF held, of q os "Inl x" v] by (simp add: file_services_def)
next
  fix w es n v verification
  assume held: "run_files F os (cx_run_id cx) redactor w es"
    and "sv_verify_chain (file_services F os H) (cx_run_id cx) w = (Inr verification, v)"
  moreover have "fst (log_verify (fs_externals F) (fs_encoder F) (fs_codec F)
      (fw_logs w (cx_run_id cx))) = Inr
        \<lparr>cv_events_verified = of_nat (length es), cv_last_sequence = of_nat (length es),
         cv_last_hash = chain_end (fs_externals F) genesis_hash es,
         cv_quarantined_partial_record = False\<rparr>"
    by (rule log_reads_hold(5)) (use held in \<open>simp add: run_files_def\<close>)
  ultimately show "cv_last_sequence verification = of_nat (length es)"
    by (auto simp: file_services_def store_verify_chain_def on_log_def split: prod.splits)
next
  fix w es stored v
  assume "run_files F os (cx_run_id cx) redactor w es"
    and "sv_load (file_services F os H) (cx_run_id cx) w = (Inr stored, v)"
  then show "stored = saved_projection F (cx_run_id cx) w"
    by (auto simp: file_services_def store_load_def read_document_def step_eval saved_projection_def
        state_path_def split: option.splits prod.splits sum.splits)
next
  fix w es k fs v
  assume held: "run_files F os (cx_run_id cx) redactor w es" and k: "k \<le> length es"
    and read: "sv_read_after (file_services F os H) (cx_run_id cx) (of_nat k) w = (Inr fs, v)"
  have "fst (log_read_after (fs_externals F) (fs_encoder F) (fs_codec F) (of_nat k)
      (fw_logs w (cx_run_id cx))) = Inr (drop k es)"
    by (rule log_read_after_suffix(1) [OF _ run_files_bounded [OF held] k])
      (use held in \<open>simp add: run_files_def\<close>)
  with read show "fs = drop k es"
    by (auto simp: file_services_def store_read_after_def on_log_def split: prod.splits)
qed (use nodes_leave_run in \<open>simp_all add: file_services_def store_manifest_leaves leaves_beyond
    commit_attempt_leaves [OF clean] log_reads_leave\<close>)

sublocale file_runs \<subseteq> engine: dispatching "file_services F os H" "cx_run_id cx"
    "run_files F os (cx_run_id cx) redactor" "saved_projection F (cx_run_id cx)"
    "written_payload F redactor" cx
  by unfold_locales (rule refl)

section \<open>Stopping and starting again\<close>

text \<open>A new process finds the files and none of the caches.\<close>

definition restarted :: "file_store \<Rightarrow> run_id \<Rightarrow> 'e file_world \<Rightarrow> 'e file_world" where
  "restarted F R w =
     w\<lparr>fw_logs := (fw_logs w)(R := event_log_new (path_display (events_file (fs_externals F) (fs_root F) R))
         (lg_file (fw_logs w R)) (lg_quarantine (fw_logs w R))),
       fw_redactors := (\<lambda>_. None)\<rparr>"

lemma restarted_run:
  assumes "run_files F os R redactor w es"
  shows "run_files F os R redactor (restarted F R w) es"
    and "saved_projection F R (restarted F R w) = saved_projection F R w"
proof -
  let ?log = "fw_logs w R"
  from assms have log: "log_holds (fs_externals F) (fs_encoder F) (fs_codec F) ?log es"
    by (simp add: run_files_def)
  have "log_holds (fs_externals F) (fs_encoder F) (fs_codec F)
      (event_log_new path (lg_file ?log) quarantine) es" for path quarantine
  proof (cases "lg_file ?log")
    case None
    with log show ?thesis
      by (auto simp: log_holds_def event_log_new_def verified_prefix_empty_def chain_end_def)
  next
    case (Some s)
    show ?thesis unfolding Some by (rule log_holds_reopened [OF log Some])
  qed
  with assms show "run_files F os R redactor (restarted F R w) es"
    by (simp add: run_files_def restarted_def redacts_with_def event_log_new_def file_at_def)
  show "saved_projection F R (restarted F R w) = saved_projection F R w"
    by (simp add: saved_projection_def restarted_def file_at_def)
qed

lemma restarted_recoverable:
  assumes "recoverable S R (run_files F os R redactor) (saved_projection F R) es w"
  shows "recoverable S R (run_files F os R redactor) (saved_projection F R) es (restarted F R w)"
  by (rule recoverable_same [OF assms])
    (use assms restarted_run in \<open>auto simp: recoverable_def\<close>)

text \<open>A recovery calls no node.\<close>

definition without_nodes :: "'e host \<Rightarrow> 'e host" where
  "without_nodes H = H\<lparr>ho_execute := (\<lambda>cx c w. (ExecutionTimedOut, w))\<rparr>"

lemma recover_without_nodes:
  "recover (file_services F os (without_nodes H)) R = recover (file_services F os H) R"
proof -
  let ?S = "file_services F os H" and ?T = "file_services F os (without_nodes H)"
  have same: "sv_externals ?T = sv_externals ?S" "sv_encoder ?T = sv_encoder ?S"
      "sv_append ?T = sv_append ?S" "sv_now ?T = sv_now ?S" "sv_store ?T = sv_store ?S"
      "sv_store_metrics ?T = sv_store_metrics ?S" "sv_verify_chain ?T = sv_verify_chain ?S"
      "sv_load ?T = sv_load ?S" "sv_read_after ?T = sv_read_after ?S"
    by (simp_all add: file_services_def without_nodes_def)
  have applied: "append_applied ?T = append_applied ?S"
    by (intro ext) (simp only: append_applied_def same)
  have candidate: "interrupt_candidate ?T = interrupt_candidate ?S"
    by (intro ext) (simp only: interrupt_candidate_def applied)
  have attempts: "interrupt_attempts ?T = interrupt_attempts ?S"
    by (intro ext) (simp only: interrupt_attempts_def applied candidate same)
  have finish: "finish_recovery ?T = finish_recovery ?S"
    by (intro ext) (simp only: finish_recovery_def attempts same)
  have stored: "stored_projection ?T = stored_projection ?S"
    by (intro ext) (simp only: stored_projection_def same)
  show ?thesis by (simp only: recover_def finish stored same)
qed

lemma file_runs_without_nodes:
  "clean_system os \<Longrightarrow> file_runs F os (without_nodes H) cx redactor"
  by unfold_locales (simp_all add: without_nodes_def leaves_run_def)

lemma recoverable_services:
  "recoverable (file_services F os (without_nodes H)) = recoverable (file_services F os H)"
  by (intro ext) (simp add: recoverable_def file_services_def without_nodes_def)

text \<open>What the interpretations say of the run over files.\<close>

context file_runs
begin

lemma recover_run:
  assumes "recovery_payloads_kept (written_payload F redactor)"
    and "recoverable (file_services F os H) (cx_run_id cx) (run_files F os (cx_run_id cx) redactor)
      (saved_projection F (cx_run_id cx)) es w"
    and "recover (file_services F os H) (cx_run_id cx) w = (r, v)"
  shows "case r of
      Inl _ \<Rightarrow> \<exists>fs. run_files F os (cx_run_id cx) redactor v (es @ fs)
    | Inr p \<Rightarrow> open_attempts p = [] \<and> (\<exists>t fs q. run_files F os (cx_run_id cx) redactor v (es @ fs)
        \<and> saved_projection F (cx_run_id cx) v = Some p
        \<and> replay (fs_externals F) (fs_encoder F) (cx_run_id cx) t (es @ fs) = Inr q
        \<and> (p = q \<or> p = explained q))"
proof -
  note t = files.recover_triple [OF assms(1)]
  have services: "sv_externals (file_services F os H) = fs_externals F"
      "sv_encoder (file_services F os H) = fs_encoder F" by (simp_all add: file_services_def)
  show ?thesis
  proof (cases r)
    case (Inl x)
    then show ?thesis using triple_failure [OF t assms(2)] assms(3) by simp
  next
    case (Inr p)
    then show ?thesis using triple_success [OF t assms(2)] assms(3) by (simp add: services)
  qed
qed

lemma run_loop_recovers:
  assumes "recovery_payloads_kept (written_payload F redactor)"
    and "lagging (file_services F os H) (cx_run_id cx) (run_files F os (cx_run_id cx) redactor)
      (saved_projection F (cx_run_id cx)) es d"
    and "run_loop (file_services F os H) cx d = Some (outcome, stopped)"
    and "recover (file_services F os H) (cx_run_id cx)
      (restarted F (cx_run_id cx) (dp_world stopped)) = (Inr p, v)"
  shows "open_attempts p = [] \<and> (\<exists>t fs q. run_files F os (cx_run_id cx) redactor v (es @ fs)
        \<and> saved_projection F (cx_run_id cx) v = Some p
        \<and> replay (fs_externals F) (fs_encoder F) (cx_run_id cx) t (es @ fs) = Inr q
        \<and> (p = q \<or> p = explained q))"
proof -
  from engine.run_loop_lagging [OF assms(3,2)] obtain fs gs where
    "recoverable (file_services F os H) (cx_run_id cx) (run_files F os (cx_run_id cx) redactor)
      (saved_projection F (cx_run_id cx)) (es @ fs @ gs) (dp_world stopped)"
    by (auto simp: lagging_def)
  from recover_run [OF assms(1) restarted_recoverable [OF this] assms(4)]
  show ?thesis by auto
qed

end

lemma recover_files:
  fixes cx :: run_context
  assumes "clean_system os" and "recovery_payloads_kept (written_payload F redactor)"
    and "recoverable (file_services F os H) (cx_run_id cx) (run_files F os (cx_run_id cx) redactor)
      (saved_projection F (cx_run_id cx)) es w"
    and "recover (file_services F os H) (cx_run_id cx) w = (r, v)"
  shows "case r of
      Inl _ \<Rightarrow> \<exists>fs. run_files F os (cx_run_id cx) redactor v (es @ fs)
    | Inr p \<Rightarrow> open_attempts p = [] \<and> (\<exists>t fs q. run_files F os (cx_run_id cx) redactor v (es @ fs)
        \<and> saved_projection F (cx_run_id cx) v = Some p
        \<and> replay (fs_externals F) (fs_encoder F) (cx_run_id cx) t (es @ fs) = Inr q
        \<and> (p = q \<or> p = explained q))"
proof -
  have "recoverable (file_services F os (without_nodes H)) (cx_run_id cx)
      (run_files F os (cx_run_id cx) redactor) (saved_projection F (cx_run_id cx)) es w"
    using assms(3) by (simp only: recoverable_services)
  moreover have "recover (file_services F os (without_nodes H)) (cx_run_id cx) w = (r, v)"
    using assms(4) by (simp only: recover_without_nodes)
  ultimately show ?thesis
    by (rule file_runs.recover_run [OF file_runs_without_nodes [OF assms(1)] assms(2)])
qed

end
