(* ===== verification/Forge_Node_Runs.thy ===== *)
theory Forge_Node_Runs
  imports Forge_Node_Finish Forge_File_Runs
begin

text \<open>
  A node leaves the log and the stored projection of a run alone when the ports it calls do: the
  locale \<open>leaving_ports\<close>, with one lemma per node. A gate artifact is stored where its provider says,
  so the providers must not name a document of the store.
\<close>

section \<open>More steps that leave a run alone\<close>

lemma leaves_then_value:
  assumes "leaves_run holds saved m" and "\<And>w a v. m w = (Inr a, v) \<Longrightarrow> leaves_run holds saved (f a)"
  shows "leaves_run holds saved (then_do m f)"
  unfolding leaves_run_def
proof (intro allI impI)
  fix w es assume w: "holds w es"
  obtain r v where m: "m w = (r, v)" by fastforce
  with assms(1) w have v: "holds v es" "saved v = saved w" by (force simp: leaves_run_def)+
  show "holds (snd (then_do m f w)) es \<and> saved (snd (then_do m f w)) = saved w"
  proof (cases r)
    case (Inl e)
    with m v show ?thesis by (simp add: then_do_def)
  next
    case (Inr a)
    with assms(2) m v have "holds (snd (f a v)) es" "saved (snd (f a v)) = saved v"
      by (auto simp: leaves_run_def)
    with m v Inr show ?thesis by (simp add: then_do_def)
  qed
qed

lemma leaves_sum:
  "(\<And>e. leaves_run holds saved (g e)) \<Longrightarrow> (\<And>a. leaves_run holds saved (f a)) \<Longrightarrow>
     leaves_run holds saved (case x of Inl e \<Rightarrow> g e | Inr a \<Rightarrow> f a)"
  by (cases x) simp_all

lemma leaves_prod:
  "(\<And>a b. leaves_run holds saved (f a b)) \<Longrightarrow> leaves_run holds saved (case x of (a, b) \<Rightarrow> f a b)"
  by (cases x) simp

lemma leaves_caught: "leaves_run holds saved m \<Longrightarrow> leaves_run holds saved (caught m)"
  by (simp add: leaves_run_def caught_def case_prod_unfold)

lemma leaves_unwrap_or: "leaves_run holds saved m \<Longrightarrow> leaves_run holds saved (unwrap_or d m)"
  unfolding unwrap_or_def by (intro leaves_then leaves_caught leaves_pure)

lemma leaves_ask: "leaves_run holds saved f \<Longrightarrow> leaves_run holds saved (ask f)"
  by (simp add: leaves_run_def ask_def case_prod_unfold)

lemma leaves_action_required:
  "(\<And>s. leaves_run holds saved (g s)) \<Longrightarrow>
     leaves_run holds saved (case error of ErrorUserActionRequired s \<Rightarrow> g s | _ \<Rightarrow> stop error)"
  by (cases error) (simp_all add: leaves_pure)

lemmas leaves_node_rules = leaves_then leaves_pure leaves_if leaves_option leaves_sum leaves_prod
  leaves_caught leaves_unwrap_or leaves_ask leaves_action_required

section \<open>The interface of the ports\<close>

definition plain_path :: "string \<Rightarrow> bool" where
  "plain_path path \<longleftrightarrow>
     (\<forall>relative. path_parse path = Inr relative \<longrightarrow>
        last (path_segments relative) \<notin>
          {''state.json'', ''run.json'', ''events.jsonl'', ''events.quarantine.jsonl''})"

text \<open>Every one of those names has the letter j, which parsing does not add.\<close>

lemma plain_path_letter:
  assumes "CHR ''j'' \<notin> set path"
  shows "plain_path path"
  unfolding plain_path_def
proof (intro allI impI)
  fix relative assume relative: "path_parse path = Inr relative"
  let ?n = "normalise_separators (trim path)"
  obtain segments where collected: "collect_segments path (split_char (CHR ''/'') ?n) = Inr segments"
      and "segments \<noteq> []" and p: "relative = join_str ''/'' segments"
    using path_parse_Inr(2) [OF relative] by blast
  note sub = collect_segments_Inr [OF collected]
  have "CHR ''/'' \<notin> set s" if "s \<in> set segments" for s
    by (rule split_char_no_sep [OF subsetD [OF conjunct1 [OF sub] that]])
  then have "path_segments relative = segments"
    unfolding path_segments_def p by (intro split_join \<open>segments \<noteq> []\<close>)
  then have "last (path_segments relative) \<in> set (split_char (CHR ''/'') ?n)"
    using sub \<open>segments \<noteq> []\<close> by (auto dest: last_in_set)
  then have "set (last (path_segments relative)) \<subseteq> set ?n" by (rule split_char_set)
  moreover have "CHR ''j'' \<notin> set ?n"
    using assms set_trim_subset [of path] by (auto simp: normalise_separators_def)
  ultimately have "CHR ''j'' \<notin> set (last (path_segments relative))" by blast
  then show "last (path_segments relative) \<notin>
      {''state.json'', ''run.json'', ''events.jsonl'', ''events.quarantine.jsonl''}"
    by auto
qed

definition plain_artifacts :: "gate_artifact list \<Rightarrow> bool" where
  "plain_artifacts artifacts \<longleftrightarrow> list_all (\<lambda>artifact. plain_path (ga_relative_path artifact)) artifacts"

definition names_plainly :: "('w, 'a) step \<Rightarrow> ('a \<Rightarrow> gate_artifact list) \<Rightarrow> bool" where
  "names_plainly m artifacts \<longleftrightarrow> (\<forall>w a v. m w = (Inr a, v) \<longrightarrow> plain_artifacts (artifacts a))"

locale leaving_ports =
  fixes P :: "'w node_ports" and holds :: "'w \<Rightarrow> durable_event list \<Rightarrow> bool"
    and saved :: "'w \<Rightarrow> run_projection option"
  assumes evidence_ports [intro]:
      "leaves_run holds saved (np_read_attempt_result P run key)"
      "plain_path path \<Longrightarrow> leaves_run holds saved (np_store_artifact P run label path bytes truncated)"
      "leaves_run holds saved (np_read_artifact P run digest)"
      "leaves_run holds saved (np_write_version P run version markdown author note_text instant)"
      "leaves_run holds saved (np_read_version P run version)"
      "leaves_run holds saved (np_write_diff P run candidate patch)"
      "leaves_run holds saved (np_read_diff P run candidate)"
      "leaves_run holds saved (np_write_test_evidence P run candidate attempt tests)"
      "leaves_run holds saved (np_read_test_evidence P run candidate)"
      "leaves_run holds saved (np_write_review P run candidate attempt review)"
      "leaves_run holds saved (np_read_review P run candidate)"
      "leaves_run holds saved (np_write_ranking P run computed)"
    and host_ports [intro]:
      "leaves_run holds saved (np_now P)" "leaves_run holds saved (np_facts P)"
      "leaves_run holds saved (np_disk_space P location)"
      "leaves_run holds saved (np_probe_executable P program)"
      "leaves_run holds saved (np_path_exists P location)"
    and git_ports [intro]:
      "leaves_run holds saved (np_inspect P repository)"
      "leaves_run holds saved (np_capture_dirty_snapshot P repository)"
      "leaves_run holds saved (np_create_worktree P repository run candidate role baseline branch)"
      "leaves_run holds saved (np_apply_snapshot P worktree snapshot)"
      "leaves_run holds saved (np_diff_against_baseline P worktree baseline)"
      "leaves_run holds saved (np_apply_patch P worktree patch)"
      "leaves_run holds saved (np_check_patch_applies P worktree patch)"
      "leaves_run holds saved (np_reset_worktree P worktree baseline)"
      "leaves_run holds saved (np_create_commit P request)"
      "leaves_run holds saved (np_changed_paths P worktree baseline)"
      "leaves_run holds saved (np_list_paths P repository limit)"
    and agent_ports [intro]:
      "leaves_run holds saved (np_capabilities P)" "leaves_run holds saved (np_invoke P invocation)"
    and gate_ports [intro]:
      "leaves_run holds saved (np_run_tests P gate commands)"
      "provider \<in> set (np_reviews P) \<Longrightarrow> leaves_run holds saved (vp_available provider)"
      "provider \<in> set (np_reviews P) \<Longrightarrow> leaves_run holds saved (vp_review provider gate)"
    and tests_named: "names_plainly (np_run_tests P gate commands) tg_artifacts"
    and reviews_named:
      "provider \<in> set (np_reviews P) \<Longrightarrow> names_plainly (vp_review provider gate) rv_artifacts"
begin

lemma home_leaves [intro]:
  "leaves_run holds saved (heikas_home P)" "leaves_run holds saved (resolve_worktree P location)"
  "leaves_run holds saved (integration_worktree P cx)"
  "leaves_run holds saved (candidate_worktree P cx c candidate)"
  unfolding integration_worktree_def candidate_worktree_def resolve_worktree_def heikas_home_def
  by (intro leaves_node_rules host_ports)+

lemma support_leaves [intro]:
  "leaves_run holds saved (approved_plan P cx c)"
  "leaves_run holds saved (load_dirty_snapshot P cx c)"
  "leaves_run holds saved (plan_expected_files P cx c)"
  "leaves_run holds saved (candidate_required cx c message)"
  "leaves_run holds saved (candidate_recorded cx c candidate)"
  unfolding approved_plan_def load_dirty_snapshot_def plan_expected_files_def candidate_required_def
    candidate_recorded_def
  by (intro leaves_node_rules evidence_ports)+

lemma executables_leave: "leaves_run holds saved (missing_executable P commands)"
  by (induction commands) (auto intro!: leaves_node_rules host_ports)

lemma providers_leave:
  "set providers \<subseteq> set (np_reviews P) \<Longrightarrow> leaves_run holds saved (missing_provider providers)"
  by (induction providers) (auto intro!: leaves_node_rules gate_ports)

lemmas snapshot_named = plain_path_letter [of "''artifacts/baseline-dirty.patch''"]
  plain_path_letter [of "''artifacts/baseline-untracked.zip''"]

lemma prepare_leaves: "leaves_run holds saved (prepare_execute P cx c)"
proof -
  have "leaves_run holds saved (prepare_environment P cx evidence facts dirty artifacts)"
      for evidence facts dirty artifacts
    unfolding prepare_environment_def Let_def
    by (intro leaves_node_rules host_ports agent_ports executables_leave providers_leave) simp
  moreover have "leaves_run holds saved (take_snapshot P cx)"
    unfolding take_snapshot_def by (intro leaves_node_rules git_ports evidence_ports snapshot_named)
      simp_all
  ultimately show ?thesis
    unfolding prepare_execute_def Let_def by (intro leaves_node_rules git_ports)
qed

lemma plan_leaves: "leaves_run holds saved (plan_execute P cx c)"
  unfolding plan_execute_def plan_judged_def plan_written_def previous_plan_evidence_def Let_def
  by (intro leaves_node_rules git_ports evidence_ports agent_ports host_ports)

lemma fan_out_leaves: "leaves_run holds saved (fan_out_execute P cx c)"
proof -
  have one: "leaves_run holds saved (fan_out_candidate P cx baseline snapshot home o')"
      for baseline snapshot home o'
    unfolding fan_out_candidate_def Let_def by (intro leaves_node_rules git_ports)
  have "leaves_run holds saved (fan_out_candidates P cx baseline snapshot home os es)"
      for baseline snapshot home os es
    by (induction os arbitrary: es) (auto intro!: leaves_node_rules one)
  then show ?thesis
    unfolding fan_out_execute_def by (intro leaves_node_rules support_leaves home_leaves)
qed

lemma diff_leaves: "leaves_run holds saved (record_diff P cx candidate worktree baseline)"
  unfolding record_diff_def by (intro leaves_node_rules git_ports evidence_ports)

lemma implement_leaves: "leaves_run holds saved (implement_execute P cx c)"
  unfolding implement_execute_def
  by (intro leaves_node_rules support_leaves home_leaves agent_ports diff_leaves)

lemma repair_leaves: "leaves_run holds saved (repair_execute P cx c)"
  unfolding repair_execute_def Let_def collect_evidence_def
  by (intro leaves_node_rules support_leaves home_leaves agent_ports evidence_ports diff_leaves)

lemma artifacts_leave:
  "plain_artifacts artifacts \<Longrightarrow> leaves_run holds saved (store_artifacts P cx artifacts references)"
  by (induction artifacts arbitrary: references)
    (auto simp: plain_artifacts_def intro!: leaves_node_rules evidence_ports)

lemma gate_leaves:
  "leaves_run holds saved (prepare_gate P cx c candidate worktree baseline)"
  "leaves_run holds saved (run_test_gate P cx c gate)"
proof -
  show "leaves_run holds saved (prepare_gate P cx c candidate worktree baseline)"
    unfolding prepare_gate_def by (intro leaves_node_rules git_ports support_leaves)
  show "leaves_run holds saved (run_test_gate P cx c gate)"
    unfolding run_test_gate_def Let_def
  proof (rule leaves_then_value [OF gate_ports(1)])
    fix w out v
    assume "np_run_tests P gate (catalogue_test_phase (ef_commands (cx_configuration cx))) w
      = (Inr out, v)"
    with tests_named have "plain_artifacts (tg_artifacts out)" unfolding names_plainly_def by blast
    then show "leaves_run holds saved
      (then_do (np_write_test_evidence P (cx_run_id cx) (gx_candidate_id gate) (nc_attempt c)
          (recompute_totals (tg_evidence out))) (\<lambda>_.
       then_do (store_artifacts P cx (tg_artifacts out) []) (\<lambda>artifacts.
       then_do (lift_result (np_tests_json P (recompute_totals (tg_evidence out)))) (\<lambda>printed.
       ok (recompute_totals (tg_evidence out), artifacts, printed)))))"
      by (intro leaves_node_rules evidence_ports artifacts_leave)
  qed
qed

lemma run_providers_plain:
  assumes "set providers \<subseteq> set (np_reviews P)" and "plain_artifacts artifacts"
  shows "leaves_run holds saved (run_providers_from providers gate reports artifacts duration)
    \<and> (\<forall>w review kept time v. run_providers_from providers gate reports artifacts duration w
         = (Inr (review, kept, time), v) \<longrightarrow> plain_artifacts kept)"
  using assms
proof (induction providers arbitrary: reports artifacts duration)
  case Nil
  have "leaves_run holds saved (run_providers_from [] gate reports artifacts duration)"
    by (simp add: leaves_pure)
  moreover have "\<forall>w review kept time v. run_providers_from [] gate reports artifacts duration w
      = (Inr (review, kept, time), v) \<longrightarrow> plain_artifacts kept"
    using Nil by (auto simp: ok_def)
  ultimately show ?case by blast
next
  case (Cons provider providers)
  then have provider: "provider \<in> set (np_reviews P)" and rest: "set providers \<subseteq> set (np_reviews P)"
    by simp_all
  have kept: "plain_artifacts (artifacts @ rv_artifacts out)"
      if "vp_review provider gate w = (Inr out, v)" for out w v
  proof -
    have "plain_artifacts (rv_artifacts out)"
      using reviews_named [OF provider, of gate] that unfolding names_plainly_def by blast
    with Cons.prems(2) show ?thesis by (simp add: plain_artifacts_def)
  qed
  have "leaves_run holds saved (run_providers_from (provider # providers) gate reports artifacts duration)"
    unfolding run_providers_from.simps
    by (intro leaves_node_rules gate_ports provider leaves_then_value
        [where m = "vp_review provider gate"]
        conjunct1 [OF Cons.IH [OF rest Cons.prems(2)]] conjunct1 [OF Cons.IH [OF rest kept]])
      assumption
  moreover have "plain_artifacts final"
    if "run_providers_from (provider # providers) gate reports artifacts duration w
      = (Inr (review, final, time), v)" for w review final time v
  proof -
    from that consider (skipped) u where "run_providers_from providers gate reports artifacts duration u
        = (Inr (review, final, time), v)"
      | (reviewed) out u1 u2 rs d u where "vp_review provider gate u1 = (Inr out, u2)"
          "run_providers_from providers gate rs (artifacts @ rv_artifacts out) d u
            = (Inr (review, final, time), v)"
      by (auto simp: then_do_Inr stop_def split: if_splits)
    then show ?thesis
    proof cases
      case skipped
      with Cons.IH [OF rest Cons.prems(2)] show ?thesis by blast
    next
      case reviewed
      with Cons.IH [OF rest kept [OF reviewed(1)]] show ?thesis by blast
    qed
  qed
  ultimately show ?case by blast
qed

lemma review_gate_leaves: "leaves_run holds saved (run_review_gate P cx c gate)"
  unfolding run_review_gate_def run_providers_def
proof (rule leaves_then_value)
  have start: "plain_artifacts []" by (simp add: plain_artifacts_def)
  note plain = run_providers_plain [OF subset_refl start, of gate "[]" 0]
  from plain show "leaves_run holds saved (run_providers_from (np_reviews P) gate [] [] 0)" by blast
  fix w v and result :: "aggregated_review \<times> gate_artifact list \<times> duration_ms"
  assume "run_providers_from (np_reviews P) gate [] [] 0 w = (Inr result, v)"
  moreover obtain review artifacts duration where result: "result = (review, artifacts, duration)"
    by (cases result)
  ultimately have "plain_artifacts artifacts" using plain by blast
  then show "leaves_run holds saved (case result of (review, artifacts, duration) \<Rightarrow>
     then_do (store_artifacts P cx artifacts []) (\<lambda>stored.
     then_do (np_write_review P (cx_run_id cx) (gx_candidate_id gate) (nc_attempt c) review) (\<lambda>_.
     then_do (lift_result (np_review_json P review)) (\<lambda>printed.
     ok (review, stored, duration, printed)))))"
    unfolding result prod.case by (intro leaves_node_rules evidence_ports artifacts_leave)
qed

lemma candidate_gates_leave:
  "leaves_run holds saved (test_execute P cx c)" "leaves_run holds saved (review_execute P cx c)"
  unfolding test_execute_def review_execute_def
  by (intro leaves_node_rules support_leaves home_leaves gate_leaves review_gate_leaves)+

lemma join_leaves: "leaves_run holds saved (join_execute P cx c)"
proof -
  have one: "leaves_run holds saved (join_candidate P cx k)" for k
    unfolding join_candidate_def check_patch_def Let_def
    by (intro leaves_node_rules evidence_ports home_leaves host_ports git_ports)
  have "leaves_run holds saved (join_candidates P cx ks es)" for ks es
    by (induction ks arbitrary: es) (auto intro!: leaves_node_rules one)
  then show ?thesis unfolding join_execute_def by (intro leaves_node_rules evidence_ports)
qed

lemma integrate_leaves: "leaves_run holds saved (integrate_execute P cx c)"
  unfolding integrate_execute_def integrate_patch_def Let_def
  by (intro leaves_node_rules git_ports support_leaves evidence_ports)

lemma final_gates_leave:
  "leaves_run holds saved (final_test_execute P cx c)"
  "leaves_run holds saved (final_review_execute P cx c)"
  unfolding final_test_execute_def final_review_execute_def
  by (intro leaves_node_rules home_leaves gate_leaves review_gate_leaves)+

lemma commit_leaves: "leaves_run holds saved (commit_execute P cx c)"
  unfolding commit_execute_def commit_paths_def Let_def
  by (intro leaves_node_rules home_leaves git_ports)

lemma execute_call_leaves: "leaves_run holds saved (execute_call P cx c)"
proof (cases "nc_node c")
qed (simp_all add: execute_call_def prepare_leaves plan_leaves fan_out_leaves implement_leaves
    candidate_gates_leave repair_leaves join_leaves integrate_leaves final_gates_leave commit_leaves
    leaves_pure)

end

end
