(* ===== verification/Forge_File_Nodes.thy ===== *)
theory Forge_File_Nodes
  imports Forge_Node_Runs
begin

text \<open>
  The nodes over the files of a run. The evidence ports are the store's (\<open>file_ports\<close>), the others
  reach the world outside, and a node runs under its timeout: \<open>tokio::time::timeout\<close> drops the node
  at the first call it awaits past the deadline, which \<open>timed_ports\<close> renders as a call that stops
  with no effect, and its result, if it has one, counts only when it is there in time. A call that
  is under way at the deadline completes. The interpretation of \<open>leaving_ports\<close> shows that no node
  touches the log or the stored projection of a run, the law the engine asks of them.
\<close>

section \<open>The ports over the files\<close>

definition file_provider :: "'e review_provider \<Rightarrow> 'e file_world review_provider" where
  "file_provider provider =
     \<lparr>vp_name = vp_name provider, vp_required = vp_required provider,
      vp_advisory = vp_advisory provider, vp_available = beyond (vp_available provider),
      vp_review = (\<lambda>gate. beyond (vp_review provider gate))\<rparr>"

text \<open>The evidence ports of \<open>N\<close> are not used.\<close>

definition file_ports ::
    "file_store \<Rightarrow> 'e operating_system \<Rightarrow> 'e node_ports \<Rightarrow> 'e file_world node_ports" where
  "file_ports F os N =
     \<lparr>np_externals = fs_externals F,
      np_read_attempt_result = store_read_attempt_result F os,
      np_store_artifact = store_store_artifact F os,
      np_read_artifact = store_read_artifact F os,
      np_write_version = store_write_version F os,
      np_read_version = store_read_version F os,
      np_write_diff = store_write_diff F os, np_read_diff = store_read_diff F os,
      np_write_test_evidence = store_write_test_evidence F os,
      np_read_test_evidence = store_read_test_evidence F os,
      np_write_review = store_write_review F os, np_read_review = store_read_review F os,
      np_write_ranking = store_write_ranking F os,
      np_now = beyond (os_now os), np_facts = beyond (np_facts N),
      np_disk_space = (\<lambda>location. beyond (np_disk_space N location)),
      np_probe_executable = (\<lambda>program. beyond (np_probe_executable N program)),
      np_path_exists = (\<lambda>location. beyond (np_path_exists N location)),
      np_inspect = (\<lambda>repository. beyond (np_inspect N repository)),
      np_capture_dirty_snapshot = (\<lambda>repository. beyond (np_capture_dirty_snapshot N repository)),
      np_create_worktree = (\<lambda>repository run candidate role baseline branch.
        beyond (np_create_worktree N repository run candidate role baseline branch)),
      np_apply_snapshot = (\<lambda>worktree snapshot. beyond (np_apply_snapshot N worktree snapshot)),
      np_diff_against_baseline =
        (\<lambda>worktree baseline. beyond (np_diff_against_baseline N worktree baseline)),
      np_apply_patch = (\<lambda>worktree patch. beyond (np_apply_patch N worktree patch)),
      np_check_patch_applies =
        (\<lambda>worktree patch. beyond (np_check_patch_applies N worktree patch)),
      np_reset_worktree = (\<lambda>worktree baseline. beyond (np_reset_worktree N worktree baseline)),
      np_create_commit = (\<lambda>request. beyond (np_create_commit N request)),
      np_changed_paths = (\<lambda>worktree baseline. beyond (np_changed_paths N worktree baseline)),
      np_list_paths = (\<lambda>repository limit. beyond (np_list_paths N repository limit)),
      np_capabilities = beyond (np_capabilities N),
      np_invoke = (\<lambda>invocation. beyond (np_invoke N invocation)),
      np_run_tests = (\<lambda>gate commands. beyond (np_run_tests N gate commands)),
      np_reviews = map file_provider (np_reviews N),
      np_redactor = np_redactor N, np_configuration_digest = np_configuration_digest N,
      np_tests_json = np_tests_json N, np_review_json = np_review_json N,
      np_ranking_json = np_ranking_json N, np_json_f64 = np_json_f64 N,
      np_compile_glob = np_compile_glob N, np_lowercase = np_lowercase N,
      np_uppercase = np_uppercase N\<rparr>"

section \<open>A node under its timeout\<close>

definition before_deadline :: "('w \<Rightarrow> bool \<times> 'w) \<Rightarrow> ('w, 'a) step \<Rightarrow> ('w, 'a) step" where
  "before_deadline expired m =
     then_do (ask expired) (\<lambda>late. if late then stop ErrorCancelled else m)"

definition timed_provider :: "('w \<Rightarrow> bool \<times> 'w) \<Rightarrow> 'w review_provider \<Rightarrow> 'w review_provider" where
  "timed_provider expired provider = provider\<lparr>
     vp_available := before_deadline expired (vp_available provider),
     vp_review := (\<lambda>gate. before_deadline expired (vp_review provider gate))\<rparr>"

text \<open>The clock and the test of a path do not await.\<close>

definition timed_ports :: "('w \<Rightarrow> bool \<times> 'w) \<Rightarrow> 'w node_ports \<Rightarrow> 'w node_ports" where
  "timed_ports expired P =
     P\<lparr>
      np_read_attempt_result := (\<lambda>run key. before_deadline expired (np_read_attempt_result P run key)),
      np_store_artifact := (\<lambda>run label path bytes truncated.
        before_deadline expired (np_store_artifact P run label path bytes truncated)),
      np_read_artifact := (\<lambda>run digest. before_deadline expired (np_read_artifact P run digest)),
      np_write_version := (\<lambda>run version markdown author note_text instant.
        before_deadline expired (np_write_version P run version markdown author note_text instant)),
      np_read_version := (\<lambda>run version. before_deadline expired (np_read_version P run version)),
      np_write_diff := (\<lambda>run candidate patch.
        before_deadline expired (np_write_diff P run candidate patch)),
      np_read_diff := (\<lambda>run candidate. before_deadline expired (np_read_diff P run candidate)),
      np_write_test_evidence := (\<lambda>run candidate attempt tests.
        before_deadline expired (np_write_test_evidence P run candidate attempt tests)),
      np_read_test_evidence := (\<lambda>run candidate.
        before_deadline expired (np_read_test_evidence P run candidate)),
      np_write_review := (\<lambda>run candidate attempt review.
        before_deadline expired (np_write_review P run candidate attempt review)),
      np_read_review := (\<lambda>run candidate. before_deadline expired (np_read_review P run candidate)),
      np_write_ranking := (\<lambda>run computed. before_deadline expired (np_write_ranking P run computed)),
      np_facts := before_deadline expired (np_facts P),
      np_disk_space := (\<lambda>location. before_deadline expired (np_disk_space P location)),
      np_probe_executable := (\<lambda>program. before_deadline expired (np_probe_executable P program)),
      np_inspect := (\<lambda>repository. before_deadline expired (np_inspect P repository)),
      np_capture_dirty_snapshot := (\<lambda>repository.
        before_deadline expired (np_capture_dirty_snapshot P repository)),
      np_create_worktree := (\<lambda>repository run candidate role baseline branch.
        before_deadline expired (np_create_worktree P repository run candidate role baseline branch)),
      np_apply_snapshot := (\<lambda>worktree snapshot.
        before_deadline expired (np_apply_snapshot P worktree snapshot)),
      np_diff_against_baseline := (\<lambda>worktree baseline.
        before_deadline expired (np_diff_against_baseline P worktree baseline)),
      np_apply_patch := (\<lambda>worktree patch. before_deadline expired (np_apply_patch P worktree patch)),
      np_check_patch_applies := (\<lambda>worktree patch.
        before_deadline expired (np_check_patch_applies P worktree patch)),
      np_reset_worktree := (\<lambda>worktree baseline.
        before_deadline expired (np_reset_worktree P worktree baseline)),
      np_create_commit := (\<lambda>request. before_deadline expired (np_create_commit P request)),
      np_changed_paths := (\<lambda>worktree baseline.
        before_deadline expired (np_changed_paths P worktree baseline)),
      np_list_paths := (\<lambda>repository limit. before_deadline expired (np_list_paths P repository limit)),
      np_capabilities := before_deadline expired (np_capabilities P),
      np_invoke := (\<lambda>invocation. before_deadline expired (np_invoke P invocation)),
      np_run_tests := (\<lambda>gate commands. before_deadline expired (np_run_tests P gate commands)),
      np_reviews := map (timed_provider expired) (np_reviews P)\<rparr>"

definition node_under_timeout ::
    "('w \<Rightarrow> bool \<times> 'w) \<Rightarrow> 'w node_ports \<Rightarrow> run_context \<Rightarrow> node_call \<Rightarrow> 'w
      \<Rightarrow> node_execution \<times> 'w" where
  "node_under_timeout expired P cx c w =
     (case execute_call (timed_ports expired P) cx c w of (result, v) \<Rightarrow>
      case expired v of (late, u) \<Rightarrow>
        (if late then ExecutionTimedOut
         else case result of Inl e \<Rightarrow> ExecutionError e | Inr out \<Rightarrow> Executed out, u))"

text \<open>A host whose nodes are the program's.\<close>

definition node_host ::
    "file_store \<Rightarrow> 'e operating_system \<Rightarrow> 'e node_ports \<Rightarrow> (node_call \<Rightarrow> 'e \<Rightarrow> bool \<times> 'e)
      \<Rightarrow> 'e host \<Rightarrow> 'e host" where
  "node_host F os N expired H = H\<lparr>ho_execute := (\<lambda>cx c.
     node_under_timeout (beyond (expired c)) (file_ports F os N) cx c)\<rparr>"

section \<open>No node touches the log or the projection of a run\<close>

lemma redactor_leaves:
  assumes "clean_system os"
  shows "leaves_run (run_files F os R redactor) (saved_projection F R) (redactor_for F os run)"
proof (cases "run = R")
  case True
  with redactor_for_leaves [OF assms] show ?thesis by simp
next
  case False
  show ?thesis
    unfolding leaves_run_def
  proof (intro allI impI)
    fix w es assume w: "run_files F os R redactor w es"
    obtain found v where found: "store_descriptor F os run w = (found, v)" by fastforce
    with store_descriptor_leaves [of F os R redactor F os run] w
    have v: "run_files F os R redactor v es" "saved_projection F R v = saved_projection F R w"
      unfolding leaves_run_def by (metis snd_conv)+
    have "same_files F R v (v\<lparr>fw_redactors := (fw_redactors v)(run \<mapsto> r)\<rparr>)" for r
      using False by (simp add: same_files_def file_at_def)
    note kept = same_files_run [OF this]
    show "run_files F os R redactor (snd (redactor_for F os run w)) es
        \<and> saved_projection F R (snd (redactor_for F os run w)) = saved_projection F R w"
      using w v kept by (cases "fw_redactors w run") (simp_all add: redactor_for_def found Let_def)
  qed
qed

lemma segments_other_name:
  "plain_path path \<Longrightarrow> path_parse path = Inr relative \<Longrightarrow> other_name (base @ path_segments relative)"
  by (auto simp: plain_path_def other_name_def path_segments_def)

lemma store_evidence_leaves:
  assumes "clean_system os"
  shows "leaves_run (run_files F os R redactor) (saved_projection F R)
      (store_read_attempt_result F os run key)"
    and "plain_path path \<Longrightarrow> leaves_run (run_files F os R redactor) (saved_projection F R)
      (store_store_artifact F os run label path bytes truncated)"
    and "leaves_run (run_files F os R redactor) (saved_projection F R) (store_read_artifact F os run i)"
    and "leaves_run (run_files F os R redactor) (saved_projection F R)
      (store_write_version F os run version markdown author note_text instant)"
    and "leaves_run (run_files F os R redactor) (saved_projection F R) (store_read_version F os run version)"
    and "leaves_run (run_files F os R redactor) (saved_projection F R)
      (store_write_diff F os run candidate patch)"
    and "leaves_run (run_files F os R redactor) (saved_projection F R) (store_read_diff F os run candidate)"
    and "leaves_run (run_files F os R redactor) (saved_projection F R)
      (store_write_test_evidence F os run candidate attempt tests)"
    and "leaves_run (run_files F os R redactor) (saved_projection F R)
      (store_read_test_evidence F os run candidate)"
    and "leaves_run (run_files F os R redactor) (saved_projection F R)
      (store_write_review F os run candidate attempt review)"
    and "leaves_run (run_files F os R redactor) (saved_projection F R) (store_read_review F os run candidate)"
    and "leaves_run (run_files F os R redactor) (saved_projection F R) (store_write_ranking F os run computed)"
proof -
  let ?leaves = "leaves_run (run_files F os R redactor) (saved_projection F R)"
  have index: "?leaves (store_artifact_index F os run)"
    unfolding store_artifact_index_def by (intro leaves_rules leaves_read)
  have written: "?leaves (write_atomic os (q @ [x]) c)"
    if "x \<noteq> ''state.json''" "x \<noteq> ''run.json''" for q x c
    by (rule leaves_write) (use that in \<open>simp add: other_name_def\<close>)
  have report: "?leaves (write_report F os run candidate attempt name document)"
    if "name = ''tests'' \<or> name = ''review''" for name document
    unfolding write_report_def Let_def
    by (intro leaves_rules redactor_leaves assms written) (use that in auto)
  show "?leaves (store_read_attempt_result F os run key)"
    unfolding store_read_attempt_result_def by (rule leaves_read)
  show "?leaves (store_read_artifact F os run i)"
    unfolding store_read_artifact_def indexed_artifact_def by (intro leaves_rules leaves_read index)
  show "?leaves (store_write_version F os run version markdown author note_text instant)"
    unfolding store_write_version_def plan_version_file_def by (intro leaves_rules written) simp_all
  show "?leaves (store_read_version F os run version)"
    unfolding store_read_version_def by (rule leaves_read)
  show "?leaves (store_write_diff F os run candidate patch)"
    unfolding store_write_diff_def diff_file_def by (intro leaves_rules written) simp_all
  show "?leaves (store_read_diff F os run candidate)"
    unfolding store_read_diff_def by (intro leaves_rules leaves_read)
  show "?leaves (store_write_test_evidence F os run candidate attempt tests)"
    unfolding store_write_test_evidence_def by (rule report) simp
  show "?leaves (store_read_test_evidence F os run candidate)"
    unfolding store_read_test_evidence_def by (rule leaves_read)
  show "?leaves (store_write_review F os run candidate attempt review)"
    unfolding store_write_review_def by (rule report) simp
  show "?leaves (store_read_review F os run candidate)"
    unfolding store_read_review_def by (rule leaves_read)
  show "?leaves (store_write_ranking F os run computed)"
    unfolding store_write_ranking_def Let_def by (intro leaves_rules written) simp_all
  show "?leaves (store_store_artifact F os run label path bytes truncated)" if plain: "plain_path path"
    unfolding store_store_artifact_def
  proof (rule leaves_then_value)
    show "?leaves (lift_result (lift_domain (path_parse path)))" by (rule leaves_pure)
    fix w relative v
    assume "lift_result (lift_domain (path_parse path)) w = (Inr relative, v)"
    then have "path_parse path = Inr relative"
      by (cases "path_parse path") (simp_all add: lift_result_def lift_domain_def)
    note other = segments_other_name [OF plain this]
    have "other_name (artifact_index_file X base run)" for X base
      by (simp add: artifact_index_file_def other_name_def)
    then show "?leaves (then_do (write_atomic os (run_directory (fs_externals F) (fs_root F) run
        @ path_segments relative) (BytesFile bytes)) (\<lambda>_. Let \<lparr>sa_id = digest_of_bytes (fs_externals F) bytes,
          sa_label = label, sa_relative_path = relative, sa_media_type = media_type_for relative,
          sa_byte_length = of_nat (length bytes), sa_truncated = truncated\<rparr> (\<lambda>artifact.
       then_do (store_artifact_index F os run) (\<lambda>entries.
       then_do (write_atomic os (artifact_index_file (fs_externals F) (fs_root F) run)
         (IndexFile (filter (\<lambda>entry. sa_id entry \<noteq> sa_id artifact) entries @ [artifact]))) (\<lambda>_.
       ok artifact)))))"
      unfolding Let_def by (intro leaves_rules leaves_write other index)
  qed
qed

definition gates_name_plainly :: "'e node_ports \<Rightarrow> bool" where
  "gates_name_plainly N \<longleftrightarrow>
     (\<forall>gate commands. names_plainly (np_run_tests N gate commands) tg_artifacts)
     \<and> (\<forall>provider \<in> set (np_reviews N). \<forall>gate. names_plainly (vp_review provider gate) rv_artifacts)"

lemma names_beyond: "names_plainly m artifacts \<Longrightarrow> names_plainly (beyond m) artifacts"
  by (auto simp: names_plainly_def beyond_def split: prod.splits)

lemma names_before_deadline:
  "names_plainly m artifacts \<Longrightarrow> names_plainly (before_deadline expired m) artifacts"
  unfolding names_plainly_def before_deadline_def
  by (simp add: then_do_Inr stop_def split: if_splits) blast

lemma file_ports_leave:
  assumes "clean_system os" and "gates_name_plainly N"
  shows "leaving_ports (file_ports F os N) (run_files F os R redactor) (saved_projection F R)"
  by unfold_locales
    (use assms(2) in \<open>auto simp: file_ports_def file_provider_def gates_name_plainly_def leaves_beyond
      store_evidence_leaves [OF assms(1)] intro!: names_beyond\<close>)

lemma timed_ports_leave:
  assumes "leaving_ports P holds saved" and "leaves_run holds saved (ask expired)"
  shows "leaving_ports (timed_ports expired P) holds saved"
proof -
  have timed: "leaves_run holds saved m \<Longrightarrow> leaves_run holds saved (before_deadline expired m)" for m :: "('a, 'c) step"
    unfolding before_deadline_def by (intro leaves_node_rules assms(2))
  note ports = leaving_ports.evidence_ports [OF assms(1)] leaving_ports.host_ports [OF assms(1)]
    leaving_ports.git_ports [OF assms(1)] leaving_ports.agent_ports [OF assms(1)]
    leaving_ports.gate_ports [OF assms(1)]
  show ?thesis
    by unfold_locales
      (auto simp: timed_ports_def timed_provider_def timed ports names_before_deadline
        leaving_ports.tests_named [OF assms(1)] leaving_ports.reviews_named [OF assms(1)])
qed

lemma node_under_timeout_leaves:
  assumes "leaving_ports P holds saved" and "leaves_run holds saved expired"
  shows "leaves_run holds saved (node_under_timeout expired P cx c)"
proof -
  have "leaves_run holds saved (execute_call (timed_ports expired P) cx c)"
    by (rule leaving_ports.execute_call_leaves [OF timed_ports_leave [OF assms(1) leaves_ask [OF assms(2)]]])
  moreover have "snd (node_under_timeout expired P cx c w)
      = snd (expired (snd (execute_call (timed_ports expired P) cx c w)))" for w
    by (simp add: node_under_timeout_def split: prod.split)
  ultimately show ?thesis
    using assms(2) unfolding leaves_run_def by metis
qed

lemma node_host_leaves:
  assumes "clean_system os" and "gates_name_plainly N"
  shows "leaves_run (run_files F os R redactor) (saved_projection F R)
    (ho_execute (node_host F os N expired H) cx c)"
  unfolding node_host_def
  by (simp add: node_under_timeout_leaves file_ports_leave leaves_beyond assms)

lemma node_host_runs:
  "clean_system os \<Longrightarrow> gates_name_plainly N \<Longrightarrow>
     file_runs F os (node_host F os N expired H) cx redactor"
  by (simp add: file_runs_def node_host_leaves)

end
