(* ===== verification/Forge_Service.thy ===== *)
theory Forge_Service
  imports Forge_Requests Forge_Views Forge_Recovery Forge_File_Nodes
begin

text \<open>
  \<open>usecases/service.rs\<close> and the entry of \<open>engine/dispatcher.rs\<close>: the operations of
  \<open>ApplicationService\<close>, which every interface calls. The operations that only read and append are
  steps over the world; dispatching and cancelling also keep the table of cancellation channels
  and so are functions of an \<^emph>\<open>application\<close>. A dispatch runs the loop of the dispatcher, which may
  not end, and its result is optional.
\<close>

section \<open>What a service is built from\<close>

record 'w agent_port =
  dr_capabilities :: "('w, agent_capabilities) step"
  dr_invoke :: "agent_invocation \<Rightarrow> ('w, agent_outcome) step"

record 'w runtime_factory =
  rn_agent_driver :: "effective_configuration \<Rightarrow> ('w, 'w agent_port) step"
  rn_test_runner :: "effective_configuration
    \<Rightarrow> ('w, gate_context \<Rightarrow> command_specification list \<Rightarrow> ('w, test_gate_output) step) step"
  rn_review_providers :: "effective_configuration \<Rightarrow> ('w, 'w review_provider list) step"
  rn_redactor :: "effective_configuration \<Rightarrow> ('w, pattern_redactor) step"

record export_outcome =
  eo_archive_path :: string
  eo_byte_length :: u64
  eo_entry_count :: u64
  eo_redacted_entries :: u64
  eo_unredactable_entries :: u64
  eo_excluded_sensitive_paths :: "string list"

definition fully_redacted :: "export_outcome \<Rightarrow> bool" where
  "fully_redacted self \<longleftrightarrow> eo_unredactable_entries self = 0"

text \<open>
  The ports of \<open>BaseServices\<close> are those the engine and the nodes use, beside the ones only the
  service calls. A watch channel is a number: \<open>bs_channel\<close> opens one with its first value,
  \<open>bs_send\<close> sends \<open>true\<close> to it and \<open>bs_receiver\<close> reads it. \<open>bs_expired\<close> is the timer of a node.
\<close>

record 'w base_services =
  bs_engine :: "'w run_services"
  bs_nodes :: "'w node_ports"
  bs_factory :: "'w runtime_factory"
  bs_expired :: "node_call \<Rightarrow> 'w \<Rightarrow> bool \<times> 'w"
  bs_channel :: "bool \<Rightarrow> 'w \<Rightarrow> nat \<times> 'w"
  bs_send :: "nat \<Rightarrow> 'w \<Rightarrow> 'w"
  bs_receiver :: "nat \<Rightarrow> 'w \<Rightarrow> bool \<times> 'w"
  bs_detect :: "string \<Rightarrow> ('w, effective_configuration) step"
  bs_resolve :: "create_run_request \<Rightarrow> ('w, effective_configuration) step"
  bs_export :: "run_id \<Rightarrow> string \<Rightarrow> bool \<Rightarrow> ('w, export_outcome) step"
  bs_initialise :: "run_id \<Rightarrow> string \<Rightarrow> effective_configuration \<Rightarrow> ('w, unit) step"
  bs_headers :: "('w, run_header list) step"
  bs_remove_worktrees :: "run_id \<Rightarrow> ('w, string list) step"
  bs_resolve_run_reference :: "string \<Rightarrow> ('w, run_id) step"
  bs_read_range :: "run_id \<Rightarrow> u64 \<Rightarrow> nat \<Rightarrow> ('w, durable_event list) step"
  bs_read_current :: "run_id \<Rightarrow> ('w, (u32 \<times> string) option) step"
  bs_read_artifact_range :: "run_id \<Rightarrow> content_digest \<Rightarrow> u64 \<Rightarrow> u64 \<Rightarrow> ('w, string) step"
  bs_new_run_id :: "'w \<Rightarrow> run_id \<times> 'w"
  bs_new_approval_id :: "'w \<Rightarrow> approval_id \<times> 'w"
  bs_user_name :: "'w \<Rightarrow> string \<times> 'w"

definition engine_services ::
    "'w base_services \<Rightarrow> effective_configuration \<Rightarrow> ('w, 'w node_ports) step" where
  "engine_services B configuration =
     then_do (rn_agent_driver (bs_factory B) configuration) (\<lambda>agent.
     then_do (rn_test_runner (bs_factory B) configuration) (\<lambda>tests.
     then_do (rn_review_providers (bs_factory B) configuration) (\<lambda>reviews.
     then_do (rn_redactor (bs_factory B) configuration) (\<lambda>redactor.
     ok ((bs_nodes B)\<lparr>np_capabilities := dr_capabilities agent, np_invoke := dr_invoke agent,
           np_run_tests := tests, np_reviews := reviews, np_redactor := redactor\<rparr>)))))"

text \<open>The services of one dispatch: its nodes call these ports, its cancellation is a channel.\<close>

definition dispatch_services ::
    "'w base_services \<Rightarrow> 'w node_ports \<Rightarrow> nat \<Rightarrow> 'w run_services" where
  "dispatch_services B P channel = (bs_engine B)\<lparr>
     sv_cancelled := bs_receiver B channel,
     sv_execute := (\<lambda>cx c. node_under_timeout (bs_expired B c) P cx c)\<rparr>"

section \<open>The entry of the dispatcher\<close>

definition dispatch_context :: "'w run_services \<Rightarrow> run_id \<Rightarrow> ('w, run_context \<times> run_projection) step" where
  "dispatch_context S run =
     then_do (sv_exists S run) (\<lambda>found.
     if \<not> found then stop (RunNotFound run)
     else
       then_do (sv_configuration S run) (\<lambda>configuration.
       then_do (sv_task_markdown S run) (\<lambda>task_markdown.
       then_do (recover S run) (\<lambda>projection.
       ok (\<lparr>cx_run_id = run, cx_repository = ef_repository_path configuration,
            cx_configuration = configuration, cx_task_markdown = task_markdown\<rparr>, projection)))))"

definition dispatch_locked ::
    "'w run_services \<Rightarrow> run_id \<Rightarrow> 'w \<Rightarrow> (dispatch_outcome application_result \<times> 'w) option" where
  "dispatch_locked S run w =
     (case dispatch_context S run w of
        (Inl e, v) \<Rightarrow> Some (Inl e, v)
      | (Inr (cx, projection), v) \<Rightarrow>
          map_option (map_prod (\<lambda>r. r) dp_world)
            (run_loop S cx \<lparr>dp_world = v, dp_projection = projection\<rparr>))"

definition dispatch_run ::
    "'w run_services \<Rightarrow> run_id \<Rightarrow> 'w \<Rightarrow> (dispatch_outcome application_result \<times> 'w) option" where
  "dispatch_run S run w =
     (case sv_lock S run w of
        (Inl e, v) \<Rightarrow> Some (Inl e, v)
      | (Inr _, v) \<Rightarrow> map_option (map_prod (\<lambda>r. r) (sv_unlock S run)) (dispatch_locked S run v))"

section \<open>The current projection\<close>

definition current_projection :: "'w run_services \<Rightarrow> run_id \<Rightarrow> ('w, run_projection) step" where
  "current_projection S run =
     then_do (then_do (sv_load S run) (\<lambda>stored.
       case stored of
         Some projection \<Rightarrow> ok projection
       | None \<Rightarrow>
           then_do (sv_exists S run) (\<lambda>found.
             if \<not> found then stop (RunNotFound run)
             else then_do (ask (sv_now S)) (\<lambda>created_at.
                    ok (genesis (sv_externals S) run created_at))))) (\<lambda>projection.
     then_do (sv_read_after S run (rp_last_event_sequence projection)) (\<lambda>pending.
       if pending = [] then ok projection
       else then_do (lift_result (lift_domain
              (replay_from (sv_externals S) (sv_encoder S) projection pending)))
              (\<lambda>replayed. ok (fst replayed))))"

section \<open>Appending\<close>

text \<open>The body of the loop over the payloads, with the projection and the events so far.\<close>

definition commit_payload ::
    "'w run_services \<Rightarrow> run_id \<Rightarrow> event_payload \<Rightarrow> run_projection \<times> durable_event list
      \<Rightarrow> ('w, run_projection \<times> durable_event list) step" where
  "commit_payload S run payload progress =
     then_do (sv_append S run payload) (\<lambda>event.
     then_do (lift_result (lift_domain
         (event_apply (sv_externals S) (sv_encoder S) (fst progress) event))) (\<lambda>projection.
     ok (projection, snd progress @ [event])))"

definition append_locked ::
    "'w run_services \<Rightarrow> run_id \<Rightarrow> event_payload list \<Rightarrow> ('w, durable_event list) step" where
  "append_locked S run payloads =
     then_do (then_do (sv_load S run) (\<lambda>stored.
       case stored of
         Some projection \<Rightarrow> ok projection
       | None \<Rightarrow> then_do (ask (sv_now S)) (\<lambda>created_at.
           ok (genesis (sv_externals S) run created_at)))) (\<lambda>projection.
     then_do (sv_read_after S run (rp_last_event_sequence projection)) (\<lambda>pending.
     then_do (lift_result (lift_domain
         (replay_from (sv_externals S) (sv_encoder S) projection pending))) (\<lambda>replayed.
     then_do (fold_each (commit_payload S run) payloads (fst replayed, [])) (\<lambda>progress.
     then_do (sv_store S (fst progress)) (\<lambda>_.
     then_do (sv_store_metrics S run (fst progress)) (\<lambda>_.
     then_do (for_each (snd progress) (sv_publish S)) (\<lambda>_.
     ok (snd progress))))))))"

definition under_lock :: "'w run_services \<Rightarrow> run_id \<Rightarrow> ('w, 'a) step \<Rightarrow> ('w, 'a) step" where
  "under_lock S run m =
     then_do (sv_lock S run) (\<lambda>_ w. case m w of (r, v) \<Rightarrow> (r, sv_unlock S run v))"

definition append_events ::
    "'w base_services \<Rightarrow> run_id \<Rightarrow> event_payload list \<Rightarrow> ('w, durable_event list) step" where
  "append_events B run payloads =
     under_lock (bs_engine B) run (append_locked (bs_engine B) run payloads)"

definition record_event :: "'w base_services \<Rightarrow> run_id \<Rightarrow> event_payload \<Rightarrow> ('w, unit) step" where
  "record_event B run payload = then_do (append_events B run [payload]) (\<lambda>_. ok ())"

section \<open>Creating a run\<close>

definition admit_repository :: "'w base_services \<Rightarrow> string \<Rightarrow> ('w, unit) step" where
  "admit_repository B path =
     (if \<not> starts_with ''/'' path
      then stop (RepositoryUnusable path ''the repository path must be absolute, because a relative path would be resolved against whichever directory this process was started in'')
      else then_do (np_inspect (bs_nodes B) path) (\<lambda>_. ok ()))"

definition run_created_payload ::
    "externals \<Rightarrow> effective_configuration \<Rightarrow> create_run_request \<Rightarrow> event_payload" where
  "run_created_payload X configuration request =
     RunCreated (ef_repository_path configuration) (task_title_of (cq_task_markdown request))
       (digest_of_str X (cq_task_markdown request)) (bd_candidates (ef_budgets configuration))
       (ef_commit_policy configuration) (agent_driver_as_str (ac_driver (ef_agent configuration)))
       (ef_demonstration_mode configuration)"

definition create_run :: "'w base_services \<Rightarrow> create_run_request \<Rightarrow> ('w, run_id) step" where
  "create_run B request =
     then_do (admit_repository B (cq_repository_path request)) (\<lambda>_.
     then_do (bs_resolve B request) (\<lambda>resolved.
     then_do (lift_result (apply_request_overrides resolved request)) (\<lambda>configuration.
     then_do (lift_result (configuration_validate configuration)) (\<lambda>_.
     then_do (ask (bs_new_run_id B)) (\<lambda>run.
     then_do (bs_initialise B run (cq_task_markdown request) configuration) (\<lambda>_.
     then_do (append_events B run
       [run_created_payload (sv_externals (bs_engine B)) configuration request]) (\<lambda>_.
     ok run)))))))"

section \<open>Plans and approvals\<close>

definition ensure_plan_editable :: "run_projection \<Rightarrow> string \<Rightarrow> unit application_result" where
  "ensure_plan_editable projection operation =
     (if run_is_terminal (rp_status projection)
      then Inl (InvalidRunState (rp_run_id projection) (run_status_as_str (rp_status projection))
             operation)
      else if list_ex (\<lambda>candidate. cr_status candidate \<noteq> Pending) (rp_candidates projection)
      then Inl (InvalidRunState (rp_run_id projection) ''candidate work has already started''
             operation)
      else Inr ())"

definition plan_version_events :: "run_projection \<Rightarrow> plan_version \<Rightarrow> event_payload list" where
  "plan_version_events projection version =
     (case plan_current (rp_plan projection) of
        Some previous \<Rightarrow>
          if ph_approval (rp_plan projection) \<noteq> None \<and> pv_hash previous \<noteq> pv_hash version
          then [PlanApprovalInvalidated (pv_hash previous) (pv_hash version)] else []
      | None \<Rightarrow> [])
     @ [PlanVersionWritten (pv_version version) (pv_hash version) HumanAuthor None
          (pv_byte_length version)]"

definition update_plan :: "'w base_services \<Rightarrow> run_id \<Rightarrow> string \<Rightarrow> ('w, u32) step" where
  "update_plan B run markdown =
     then_do (current_projection (bs_engine B) run) (\<lambda>projection.
     then_do (lift_result (ensure_plan_editable projection ''update_plan'')) (\<lambda>_.
     then_do (ask (sv_now (bs_engine B))) (\<lambda>recorded_at.
     then_do (np_write_version (bs_nodes B) run (next_version_number (rp_plan projection)) markdown
       HumanAuthor None recorded_at) (\<lambda>version.
     then_do (append_events B run (plan_version_events projection version)) (\<lambda>_.
     ok (pv_version version))))))"

text \<open>What the three decisions about a plan share.\<close>

definition decide_plan ::
    "'w base_services \<Rightarrow> run_id \<Rightarrow> string \<Rightarrow> approval_decision \<Rightarrow> string option
      \<Rightarrow> ('w, unit) step" where
  "decide_plan B run operation decision note_text =
     then_do (current_projection (bs_engine B) run) (\<lambda>projection.
     then_do (lift_result (ensure_plan_editable projection operation)) (\<lambda>_.
     then_do (lift_result (ok_or (ApprovalRequired ''no plan version exists yet'')
       (plan_current (rp_plan projection)))) (\<lambda>current.
     then_do (ask (bs_new_approval_id B)) (\<lambda>approval.
     then_do (ask (bs_user_name B)) (\<lambda>local_user.
     record_event B run (PlanDecisionRecorded approval decision (pv_version current)
       (pv_hash current) local_user note_text))))))"

definition approve_plan ::
    "'w base_services \<Rightarrow> run_id \<Rightarrow> string option \<Rightarrow> string option \<Rightarrow> ('w, unit) step" where
  "approve_plan B run plan_markdown note_text =
     then_do (case plan_markdown of
         Some markdown \<Rightarrow> then_do (update_plan B run markdown) (\<lambda>_. ok ()) | None \<Rightarrow> ok ()) (\<lambda>_.
     decide_plan B run ''approve_plan'' Approved note_text)"

definition revise_plan :: "'w base_services \<Rightarrow> run_id \<Rightarrow> string \<Rightarrow> ('w, unit) step" where
  "revise_plan B run note_text =
     decide_plan B run ''revise_plan'' RevisionRequested (Some note_text)"

definition reject_plan :: "'w base_services \<Rightarrow> run_id \<Rightarrow> string option \<Rightarrow> ('w, unit) step" where
  "reject_plan B run reason = decide_plan B run ''reject_plan'' Rejected reason"

definition approve_commit :: "'w base_services \<Rightarrow> run_id \<Rightarrow> string option \<Rightarrow> ('w, unit) step" where
  "approve_commit B run note_text =
     then_do (current_projection (bs_engine B) run) (\<lambda>projection.
     if rp_status projection \<noteq> AwaitingCommitApproval
     then stop (InvalidRunState run (run_status_as_str (rp_status projection)) ''approve_commit'')
     else
       then_do (ask (bs_new_approval_id B)) (\<lambda>approval.
       then_do (ask (bs_user_name B)) (\<lambda>local_user.
       record_event B run (CommitApprovalRecorded approval local_user note_text))))"

section \<open>Views\<close>

text \<open>A run whose projection cannot be read is left out of the list.\<close>

fun collect_summaries ::
    "'w run_services \<Rightarrow> timestamp \<Rightarrow> run_header list \<Rightarrow> ('w, run_summary list) step" where
  "collect_summaries S now [] = ok []"
| "collect_summaries S now (header # headers) =
     then_do (caught (current_projection S (rh_run_id header))) (\<lambda>found.
     then_do (collect_summaries S now headers) (\<lambda>summaries.
     ok (case found of Inr projection \<Rightarrow> run_summary_of projection now # summaries
                     | Inl _ \<Rightarrow> summaries)))"

definition list_runs :: "'w base_services \<Rightarrow> ('w, run_summary list) step" where
  "list_runs B =
     then_do (bs_headers B) (\<lambda>headers.
     then_do (ask (sv_now (bs_engine B))) (\<lambda>now.
     then_do (collect_summaries (bs_engine B) now headers) (\<lambda>summaries.
     ok (sort_key (\<lambda>summary. - sm_created_at summary) summaries))))"

definition run_detail_of ::
    "run_projection \<Rightarrow> durable_event list \<Rightarrow> timestamp \<Rightarrow> run_detail" where
  "run_detail_of projection events now =
     \<lparr>rl_summary = run_summary_of projection now, rl_projection = projection,
      rl_candidates = candidate_views projection, rl_graph = graph_view_of projection,
      rl_timeline = timeline events, rl_metrics = rp_metrics projection,
      rl_ranking_rationale = (case rp_ranking projection of
        Some computed \<Rightarrow> rg_rationale computed | None \<Rightarrow> []),
      rl_integration_detail = in_last_detail (rp_integration projection)\<rparr>"

definition service_run_detail :: "'w base_services \<Rightarrow> run_id \<Rightarrow> ('w, run_detail) step" where
  "service_run_detail B run =
     then_do (current_projection (bs_engine B) run) (\<lambda>projection.
     then_do (sv_read_after (bs_engine B) run 0) (\<lambda>events.
     then_do (ask (sv_now (bs_engine B))) (\<lambda>now.
     ok (run_detail_of projection events now))))"

definition run_candidates :: "'w base_services \<Rightarrow> run_id \<Rightarrow> ('w, candidate_view list) step" where
  "run_candidates B run =
     then_do (current_projection (bs_engine B) run) (\<lambda>projection. ok (candidate_views projection))"

definition run_timeline :: "'w base_services \<Rightarrow> run_id \<Rightarrow> ('w, timeline_entry list) step" where
  "run_timeline B run = then_do (sv_read_after (bs_engine B) run 0) (\<lambda>events. ok (timeline events))"

definition run_events :: "'w base_services \<Rightarrow> run_id \<Rightarrow> u64 \<Rightarrow> nat \<Rightarrow> ('w, event_page) step" where
  "run_events B run after_sequence limit =
     then_do (bs_read_range B run after_sequence limit) (\<lambda>events.
     ok \<lparr>ep_run_id = run, ep_events = events,
         ep_next_sequence = (if events = [] then after_sequence else de_sequence (last events)),
         ep_complete = (length events < limit)\<rparr>)"

text \<open>The calls the service passes on.\<close>

definition plan_markdown :: "'w base_services \<Rightarrow> run_id \<Rightarrow> ('w, (u32 \<times> string) option) step" where
  "plan_markdown B run = bs_read_current B run"

definition plan_version_markdown :: "'w base_services \<Rightarrow> run_id \<Rightarrow> u32 \<Rightarrow> ('w, string) step" where
  "plan_version_markdown B run version = np_read_version (bs_nodes B) run version"

definition candidate_diff :: "'w base_services \<Rightarrow> run_id \<Rightarrow> candidate_id \<Rightarrow> ('w, string) step" where
  "candidate_diff B run candidate = np_read_diff (bs_nodes B) run (Some candidate)"

definition integration_diff :: "'w base_services \<Rightarrow> run_id \<Rightarrow> ('w, string) step" where
  "integration_diff B run = np_read_diff (bs_nodes B) run None"

definition run_artifact :: "'w base_services \<Rightarrow> run_id \<Rightarrow> content_digest \<Rightarrow> ('w, string) step" where
  "run_artifact B run artifact = np_read_artifact (bs_nodes B) run artifact"

definition run_artifact_range ::
    "'w base_services \<Rightarrow> run_id \<Rightarrow> content_digest \<Rightarrow> u64 \<Rightarrow> u64 \<Rightarrow> ('w, string) step" where
  "run_artifact_range B run artifact offset wanted =
     bs_read_artifact_range B run artifact offset wanted"

definition run_of_reference :: "'w base_services \<Rightarrow> string \<Rightarrow> ('w, run_id) step" where
  "run_of_reference B reference = bs_resolve_run_reference B reference"

section \<open>Export and cleanup\<close>

definition export_run :: "'w base_services \<Rightarrow> run_id \<Rightarrow> export_request \<Rightarrow> ('w, export_outcome) step" where
  "export_run B run request =
     then_do (bs_export B run (xq_output_path request) (xq_include_worktrees request)) (\<lambda>outcome.
     then_do (append_events B run [RunExported (eo_archive_path outcome) (eo_byte_length outcome)
       (fully_redacted outcome)]) (\<lambda>_.
     ok outcome))"

definition cleanup_run :: "'w base_services \<Rightarrow> run_id \<Rightarrow> ('w, string list) step" where
  "cleanup_run B run =
     then_do (current_projection (bs_engine B) run) (\<lambda>projection.
     if \<not> run_is_terminal (rp_status projection)
     then stop (InvalidRunState run (run_status_as_str (rp_status projection)) ''cleanup'')
     else bs_remove_worktrees B run)"

section \<open>Dispatching and cancelling\<close>

record 'w application =
  ap_world :: 'w
  ap_cancellations :: "run_id \<Rightarrow> nat option"

definition in_application :: "('w, 'a) step \<Rightarrow> ('w application, 'a) step" where
  "in_application m a = (case m (ap_world a) of (r, w) \<Rightarrow> (r, a\<lparr>ap_world := w\<rparr>))"

text \<open>
  The part of \<open>dispatch\<close> before the dispatcher starts: the channel of the run is new, and the
  entry of an earlier one is replaced.
\<close>

definition open_dispatch ::
    "'w base_services \<Rightarrow> run_id \<Rightarrow> ('w application, 'w run_services) step" where
  "open_dispatch B run =
     then_do (in_application (sv_configuration (bs_engine B) run)) (\<lambda>configuration.
     then_do (in_application (engine_services B configuration)) (\<lambda>P.
     then_do (in_application (ask (bs_channel B False))) (\<lambda>channel.
     then_do (update_state (\<lambda>a. a\<lparr>ap_cancellations := (ap_cancellations a)(run \<mapsto> channel)\<rparr>)) (\<lambda>_.
     ok (dispatch_services B P channel)))))"

definition close_dispatch :: "run_id \<Rightarrow> 'w application \<Rightarrow> 'w application" where
  "close_dispatch run a = a\<lparr>ap_cancellations := (ap_cancellations a)(run := None)\<rparr>"

definition service_dispatch ::
    "'w base_services \<Rightarrow> run_id \<Rightarrow> 'w application
      \<Rightarrow> (dispatch_outcome application_result \<times> 'w application) option" where
  "service_dispatch B run a =
     (case open_dispatch B run a of
        (Inl e, b) \<Rightarrow> Some (Inl e, b)
      | (Inr S, b) \<Rightarrow>
          map_option (\<lambda>(r, w). (r, close_dispatch run (b\<lparr>ap_world := w\<rparr>)))
            (dispatch_run S run (ap_world b)))"

definition service_resume ::
    "'w base_services \<Rightarrow> run_id \<Rightarrow> 'w application
      \<Rightarrow> (dispatch_outcome application_result \<times> 'w application) option" where
  "service_resume B run a =
     (case in_application (current_projection (bs_engine B) run) a of
        (Inl e, b) \<Rightarrow> Some (Inl e, b)
      | (Inr projection, b) \<Rightarrow>
          if run_is_terminal (rp_status projection)
          then Some (Inr (Completed (rp_status projection)), b)
          else service_dispatch B run b)"

text \<open>
  Cancelling signals the dispatcher of this process when there is one, records the request, and
  without a dispatcher runs one that finds itself cancelled. An error of that one is logged only.
\<close>

definition signal_cancellation :: "'w base_services \<Rightarrow> run_id \<Rightarrow> ('w application, bool) step" where
  "signal_cancellation B run a =
     (case ap_cancellations a run of
        Some channel \<Rightarrow> (Inr True, a\<lparr>ap_world := bs_send B channel (ap_world a)\<rparr>)
      | None \<Rightarrow> (Inr False, a))"

definition finalise_cancellation ::
    "'w base_services \<Rightarrow> run_id \<Rightarrow> 'w \<Rightarrow> (unit application_result \<times> 'w) option" where
  "finalise_cancellation B run w =
     (case then_do (current_projection (bs_engine B) run) (\<lambda>projection.
         if run_is_terminal (rp_status projection) then ok None
         else
           then_do (sv_configuration (bs_engine B) run) (\<lambda>configuration.
           then_do (engine_services B configuration) (\<lambda>P.
           then_do (ask (bs_channel B True)) (\<lambda>channel.
           ok (Some (dispatch_services B P channel)))))) w of
        (Inl e, v) \<Rightarrow> Some (Inl e, v)
      | (Inr None, v) \<Rightarrow> Some (Inr (), v)
      | (Inr (Some S), v) \<Rightarrow> map_option (map_prod (\<lambda>_. Inr ()) (\<lambda>u. u)) (dispatch_run S run v))"

definition service_cancel ::
    "'w base_services \<Rightarrow> run_id \<Rightarrow> string option \<Rightarrow> 'w application
      \<Rightarrow> (unit application_result \<times> 'w application) option" where
  "service_cancel B run reason a =
     (case then_do (in_application (current_projection (bs_engine B) run)) (\<lambda>projection.
         if run_is_terminal (rp_status projection) then ok True
         else
           then_do (in_application (ask (bs_user_name B))) (\<lambda>requested_by.
           then_do (signal_cancellation B run) (\<lambda>signalled.
           then_do (in_application (record_event B run (CancellationRequested requested_by reason)))
             (\<lambda>_. ok signalled)))) a of
        (Inl e, b) \<Rightarrow> Some (Inl e, b)
      | (Inr over, b) \<Rightarrow>
          if over then Some (Inr (), b)
          else map_option (map_prod (\<lambda>r. r) (\<lambda>w. b\<lparr>ap_world := w\<rparr>))
                 (finalise_cancellation B run (ap_world b)))"

end
