(* ===== verification/Forge_Append.thy ===== *)
theory Forge_Append
  imports Forge_Service "HOL-Library.Sublist"
begin

text \<open>
  What \<open>append\<close> of the service does to the log of a run, over any store that can be recovered and
  whose lock leaves the run alone: the log grows by exactly the payloads, as the store writes them,
  and the stored projection is the replay of the longer log. A failure leaves the events of some of
  the first payloads, and a store that can still be recovered.
\<close>

locale locked_store = recoverable_store S R holds saved written
  for S :: "'w run_services" and R :: run_id
    and holds :: "'w \<Rightarrow> durable_event list \<Rightarrow> bool"
    and saved :: "'w \<Rightarrow> run_projection option"
    and written :: "event_payload \<Rightarrow> event_payload" +
  assumes lock_leaves_run: "leaves_run holds saved (sv_lock S R)"
    and unlock_leaves_run: "leaves_run holds saved (\<lambda>w. ((), sv_unlock S R w))"

text \<open>
  \<open>appended es done (p, fs) w\<close>: the log \<open>es\<close> has grown by \<open>fs\<close>, which carry the payloads \<open>done\<close>,
  and \<open>p\<close> is its replay. \<open>appended_some es payloads w\<close>: it has grown by some first ones.
\<close>

definition appended ::
    "'w run_services \<Rightarrow> run_id \<Rightarrow> ('w \<Rightarrow> durable_event list \<Rightarrow> bool) \<Rightarrow> ('w \<Rightarrow> run_projection option)
      \<Rightarrow> durable_event list \<Rightarrow> event_payload list \<Rightarrow> run_projection \<times> durable_event list \<Rightarrow> 'w \<Rightarrow> bool" where
  "appended S R holds saved es payloads progress w \<longleftrightarrow>
     map de_payload (snd progress) = payloads
     \<and> recoverable S R holds saved (es @ snd progress) w
     \<and> (\<exists>t. replay (sv_externals S) (sv_encoder S) R t (es @ snd progress) = Inr (fst progress))"

definition appended_some ::
    "'w run_services \<Rightarrow> run_id \<Rightarrow> ('w \<Rightarrow> durable_event list \<Rightarrow> bool) \<Rightarrow> ('w \<Rightarrow> run_projection option)
      \<Rightarrow> durable_event list \<Rightarrow> event_payload list \<Rightarrow> 'w \<Rightarrow> bool" where
  "appended_some S R holds saved es payloads w \<longleftrightarrow>
     (\<exists>fs. recoverable S R holds saved (es @ fs) w \<and> prefix (map de_payload fs) payloads)"

lemma appended_someI:
  "recoverable S R holds saved (es @ fs) w \<Longrightarrow> prefix (map de_payload fs) payloads \<Longrightarrow>
     appended_some S R holds saved es payloads w"
  unfolding appended_some_def by blast

lemma appended_some_all:
  "appended S R holds saved es payloads progress w \<Longrightarrow> appended_some S R holds saved es payloads w"
  unfolding appended_def by (auto intro: appended_someI)

lemma appended_some_none:
  "recoverable S R holds saved es w \<Longrightarrow> appended_some S R holds saved es payloads w"
  by (rule appended_someI [where fs = "[]"]) simp_all

definition stored_log ::
    "'w run_services \<Rightarrow> run_id \<Rightarrow> ('w \<Rightarrow> durable_event list \<Rightarrow> bool) \<Rightarrow> ('w \<Rightarrow> run_projection option)
      \<Rightarrow> durable_event list \<Rightarrow> event_payload list \<Rightarrow> run_projection \<times> durable_event list \<Rightarrow> 'w \<Rightarrow> bool" where
  "stored_log S R holds saved es payloads progress w \<longleftrightarrow>
     appended S R holds saved es payloads progress w \<and> saved w = Some (fst progress)"

text \<open>A call that leaves the run alone keeps both.\<close>

lemma leaves_run_triple:
  assumes "leaves_run holds saved m"
    and "\<And>w v es. P w \<Longrightarrow> (\<And>fs. recoverable S R holds saved fs w \<Longrightarrow> recoverable S R holds saved fs v) \<Longrightarrow>
      saved v = saved w \<Longrightarrow> (\<And>fs. holds w fs \<Longrightarrow> holds v fs) \<Longrightarrow> Q v"
    and "\<And>w. P w \<Longrightarrow> \<exists>es. holds w es"
  shows "triple P m (\<lambda>_. Q) (\<lambda>_. Q)"
  unfolding triple_def
proof (intro allI impI)
  fix w assume "P w"
  obtain r v where m: "m w = (r, v)" by fastforce
  from assms(3) [OF \<open>P w\<close>] obtain es where "holds w es" by blast
  with assms(1) m have v: "saved v = saved w" unfolding leaves_run_def by force
  have held: "holds v fs" if "holds w fs" for fs
    using assms(1) m that unfolding leaves_run_def by force
  have "recoverable S R holds saved fs v" if "recoverable S R holds saved fs w" for fs
    by (rule recoverable_same [OF that held v]) (use that in \<open>simp add: recoverable_def\<close>)
  with \<open>P w\<close> v held have "Q v" by (blast intro: assms(2))
  with m show "case m w of (Inl e, t) \<Rightarrow> Q t | (Inr a, t) \<Rightarrow> Q t" by (cases r) simp_all
qed

context recoverable_store
begin

lemma leaves_run_recoverable_triple:
  "leaves_run holds saved m \<Longrightarrow>
     triple (recoverable S R holds saved es) m (\<lambda>_. recoverable S R holds saved es)
       (\<lambda>_. recoverable S R holds saved es)"
  by (rule leaves_run_triple) (auto simp: recoverable_def)

lemma commit_payload_triple:
  "triple (appended S R holds saved es payloads progress) (commit_payload S R payload progress)
     (appended S R holds saved es (payloads @ [written payload]))
     (\<lambda>_. appended_some S R holds saved es (payloads @ [written payload]))"
  unfolding triple_def
proof (intro allI impI)
  fix w assume w: "appended S R holds saved es payloads progress w"
  obtain p fs where progress: "progress = (p, fs)" by fastforce
  from w obtain t where rec: "recoverable S R holds saved (es @ fs) w"
      and rep: "replay (sv_externals S) (sv_encoder S) R t (es @ fs) = Inr p"
      and payloads: "map de_payload fs = payloads"
    by (auto simp: appended_def progress)
  from rec have held: "holds w (es @ fs)" by (simp add: recoverable_def)
  obtain a v where app: "sv_append S R payload w = (a, v)" by fastforce
  show "case commit_payload S R payload progress w of
      (Inl e, u) \<Rightarrow> appended_some S R holds saved es (payloads @ [written payload]) u
    | (Inr q, u) \<Rightarrow> appended S R holds saved es (payloads @ [written payload]) q u"
  proof (cases a)
    case (Inl x)
    with append_failed [OF held] app have "recoverable S R holds saved (es @ fs) v"
      by (blast intro: recoverable_same [OF rec])
    then have "appended_some S R holds saved es (payloads @ [written payload]) v"
      by (rule appended_someI) (simp add: payloads)
    with app Inl show ?thesis by (simp add: commit_payload_def then_do_def)
  next
    case (Inr e)
    with append_done [OF held] app have v: "holds v ((es @ fs) @ [e])" "saved v = saved w"
        "de_payload e = written payload" by auto
    have rec_v: "recoverable S R holds saved (es @ (fs @ [e])) v"
      using recoverable_extend [OF rec v(1,2)] by simp
    have some: "appended_some S R holds saved es (payloads @ [written payload]) v"
      by (rule appended_someI [OF rec_v]) (simp add: payloads v(3))
    have all: "appended S R holds saved es (payloads @ [written payload]) (q, fs @ [e]) v"
      if "event_apply (sv_externals S) (sv_encoder S) p e = Inr q" for q
      using rec_v replay_snoc [OF rep that] by (auto simp: appended_def payloads v(3))
    show ?thesis using app Inr some all
      by (cases "event_apply (sv_externals S) (sv_encoder S) p e")
        (simp_all add: commit_payload_def step_eval lift_domain_def progress)
  qed
qed

lemma commit_payloads_triple:
  "triple (appended S R holds saved es before progress)
     (fold_each (commit_payload S R) payloads progress)
     (appended S R holds saved es (before @ map written payloads))
     (\<lambda>_. appended_some S R holds saved es (before @ map written payloads))"
proof (induction payloads arbitrary: before progress)
  case Nil
  show ?case by (simp add: triple_ok)
next
  case (Cons payload payloads)
  have shorter: "appended_some S R holds saved es (before @ map written (payload # payloads)) w"
    if "appended_some S R holds saved es (before @ [written payload]) w" for w
    using that unfolding appended_some_def by (force intro: prefix_order.trans)
  have "triple (appended S R holds saved es before progress)
     (then_do (commit_payload S R payload progress) (fold_each (commit_payload S R) payloads))
     (appended S R holds saved es (before @ map written (payload # payloads)))
     (\<lambda>_. appended_some S R holds saved es (before @ map written (payload # payloads)))"
  proof (rule triple_then)
    show "triple (appended S R holds saved es before progress) (commit_payload S R payload progress)
       (appended S R holds saved es (before @ [written payload]))
       (\<lambda>_. appended_some S R holds saved es (before @ map written (payload # payloads)))"
      by (rule triple_weaken [OF commit_payload_triple]) (use shorter in auto)
    show "triple (appended S R holds saved es (before @ [written payload]) q)
       (fold_each (commit_payload S R) payloads q)
       (appended S R holds saved es (before @ map written (payload # payloads)))
       (\<lambda>_. appended_some S R holds saved es (before @ map written (payload # payloads)))" for q
      using Cons.IH [of "before @ [written payload]" q] by simp
  qed
  then show ?case by (simp add: fun_eq_iff [symmetric])
qed

text \<open>The projection an append starts from is the replay of a prefix of the log.\<close>

lemma loaded_triple:
  "triple (recoverable S R holds saved es)
     (then_do (sv_load S R) (\<lambda>stored. case stored of
        Some projection \<Rightarrow> ok projection
      | None \<Rightarrow> then_do (ask (sv_now S)) (\<lambda>created_at.
          ok (genesis (sv_externals S) R created_at))))
     (\<lambda>p w. recoverable S R holds saved es w \<and> (\<exists>t k. k \<le> length es
        \<and> replay (sv_externals S) (sv_encoder S) R t (take k es) = Inr p))
     (\<lambda>_. recoverable S R holds saved es)"
proof (rule triple_then [where R = "\<lambda>stored w. recoverable S R holds saved es w
    \<and> (\<forall>p. stored = Some p \<longrightarrow> saved w = Some p)"])
  show "triple (recoverable S R holds saved es) (sv_load S R)
      (\<lambda>stored w. recoverable S R holds saved es w \<and> (\<forall>p. stored = Some p \<longrightarrow> saved w = Some p))
      (\<lambda>_. recoverable S R holds saved es)"
    unfolding triple_def
  proof (intro allI impI)
    fix w assume rec: "recoverable S R holds saved es w"
    then have held: "holds w es" by (simp add: recoverable_def)
    obtain l v where load: "sv_load S R w = (l, v)" by fastforce
    note v = leaves_run_recoverable [OF reads_leave_run(2) rec load]
    show "case sv_load S R w of (Inl e, t) \<Rightarrow> recoverable S R holds saved es t
      | (Inr a, t) \<Rightarrow> recoverable S R holds saved es t \<and> (\<forall>p. a = Some p \<longrightarrow> saved t = Some p)"
      using load load_done [OF held, of _ v] v by (cases l) auto
  qed
  fix stored
  show "triple (\<lambda>w. recoverable S R holds saved es w \<and> (\<forall>p. stored = Some p \<longrightarrow> saved w = Some p))
      (case stored of Some projection \<Rightarrow> ok projection
       | None \<Rightarrow> then_do (ask (sv_now S)) (\<lambda>created_at.
           ok (genesis (sv_externals S) R created_at)))
      (\<lambda>p w. recoverable S R holds saved es w \<and> (\<exists>t k. k \<le> length es
         \<and> replay (sv_externals S) (sv_encoder S) R t (take k es) = Inr p))
      (\<lambda>_. recoverable S R holds saved es)"
  proof (cases stored)
    case None
    have fresh: "\<exists>t k. k \<le> length es \<and> replay (sv_externals S) (sv_encoder S) R t (take k es)
        = Inr (genesis (sv_externals S) R now)" for now
      by (intro exI [of _ now] exI [of _ 0]) (simp add: replay_def)
    have "triple (recoverable S R holds saved es)
        (then_do (ask (sv_now S)) (\<lambda>created_at. ok (genesis (sv_externals S) R created_at)))
        (\<lambda>p w. recoverable S R holds saved es w \<and> (\<exists>t k. k \<le> length es
           \<and> replay (sv_externals S) (sv_encoder S) R t (take k es) = Inr p))
        (\<lambda>_. recoverable S R holds saved es)"
      by (rule triple_then [OF leaves_run_recoverable_triple])
        (auto intro: leaves_ask ports_leave_run triple_ok fresh)
    with None show ?thesis by simp
  next
    case (Some p)
    have "triple (\<lambda>w. recoverable S R holds saved es w \<and> saved w = Some p) (ok p)
        (\<lambda>p w. recoverable S R holds saved es w \<and> (\<exists>t k. k \<le> length es
           \<and> replay (sv_externals S) (sv_encoder S) R t (take k es) = Inr p))
        (\<lambda>_. recoverable S R holds saved es)"
      by (rule triple_ok) (auto simp: recoverable_def)
    with Some show ?thesis by simp
  qed
qed

text \<open>The end of an append: the projection and its metrics are stored, the events published.\<close>

lemma stored_log_triple:
  "triple (appended S R holds saved es payloads progress) (sv_store S (fst progress))
     (\<lambda>_. stored_log S R holds saved es payloads progress)
     (\<lambda>_. appended_some S R holds saved es payloads)"
  unfolding triple_def
proof (intro allI impI)
  fix w assume "appended S R holds saved es payloads progress w"
  then obtain t where rec: "recoverable S R holds saved (es @ snd progress) w"
      and rep: "replay (sv_externals S) (sv_encoder S) R t (es @ snd progress) = Inr (fst progress)"
      and payloads: "map de_payload (snd progress) = payloads"
    by (auto simp: appended_def)
  from rec have held: "holds w (es @ snd progress)" by (simp add: recoverable_def)
  note run = replay_run_id [OF rep]
  have new: "recoverable S R holds saved (es @ snd progress) v"
    if "holds v (es @ snd progress)" "saved v = Some (fst progress)" for v
    unfolding recoverable_def using that rep
    by (auto intro!: exI [of _ t] exI [of _ "length (es @ snd progress)"])
  obtain r v where store: "sv_store S (fst progress) w = (r, v)" by fastforce
  show "case sv_store S (fst progress) w of
      (Inl e, u) \<Rightarrow> appended_some S R holds saved es payloads u
    | (Inr a, u) \<Rightarrow> stored_log S R holds saved es payloads progress u"
  proof (cases r)
    case (Inl x)
    with store_failed [OF held run] store have v: "holds v (es @ snd progress)"
        "saved v \<in> {saved w, Some (fst progress)}" by blast+
    have "recoverable S R holds saved (es @ snd progress) v"
      using v new recoverable_same [OF rec] by blast
    then have "appended_some S R holds saved es payloads v"
      by (rule appended_someI) (simp add: payloads)
    with store Inl show ?thesis by simp
  next
    case (Inr u)
    with store_done [OF held run] store have v: "holds v (es @ snd progress)"
        "saved v = Some (fst progress)" by blast+
    with new rep payloads have "stored_log S R holds saved es payloads progress v"
      by (auto simp: stored_log_def appended_def)
    with store Inr show ?thesis by simp
  qed
qed

lemma stored_log_kept:
  assumes "leaves_run holds saved m"
  shows "triple (stored_log S R holds saved es payloads progress) m
     (\<lambda>_. stored_log S R holds saved es payloads progress)
     (\<lambda>_. appended_some S R holds saved es payloads)"
proof -
  have "triple (stored_log S R holds saved es payloads progress) m
      (\<lambda>_. stored_log S R holds saved es payloads progress)
      (\<lambda>_. stored_log S R holds saved es payloads progress)"
  proof (rule leaves_run_triple [OF assms])
    fix w assume "stored_log S R holds saved es payloads progress w"
    then show "\<exists>es. holds w es" by (auto simp: stored_log_def appended_def recoverable_def)
  qed (auto simp: stored_log_def appended_def)
  then show ?thesis
    by (rule triple_weaken) (auto simp: stored_log_def intro: appended_some_all)
qed

lemma append_locked_triple:
  "triple (recoverable S R holds saved es) (append_locked S R payloads)
     (\<lambda>events w. \<exists>p. stored_log S R holds saved es (map written payloads) (p, events) w)
     (\<lambda>_. appended_some S R holds saved es (map written payloads))"
proof -
  let ?P = "\<lambda>p w. recoverable S R holds saved es w \<and> (\<exists>t k. k \<le> length es
        \<and> replay (sv_externals S) (sv_encoder S) R t (take k es) = Inr p)"
  let ?E = "\<lambda>_ :: application_error. appended_some S R holds saved es (map written payloads)"
  have read: "triple (?P p)
      (then_do (sv_read_after S R (rp_last_event_sequence p)) (\<lambda>pending.
         lift_result (lift_domain (replay_from (sv_externals S) (sv_encoder S) p pending))))
      (\<lambda>replayed. appended S R holds saved es [] (fst replayed, [])) ?E" for p
  proof (cases "\<exists>t k. k \<le> length es
      \<and> replay (sv_externals S) (sv_encoder S) R t (take k es) = Inr p")
    case True
    then obtain t k where "k \<le> length es"
        and "replay (sv_externals S) (sv_encoder S) R t (take k es) = Inr p" by blast
    from caught_up_triple [OF this] show ?thesis
      by (rule triple_weaken) (auto simp: appended_def intro: appended_some_none)
  next
    case False
    then show ?thesis unfolding triple_def by blast
  qed
  have commits: "triple (appended S R holds saved es [] start)
      (fold_each (commit_payload S R) payloads start)
      (appended S R holds saved es (map written payloads)) ?E" for start
    using commit_payloads_triple [of es "[]" start payloads] by simp
  have finish: "triple (appended S R holds saved es (map written payloads) progress)
      (then_do (sv_store S (fst progress)) (\<lambda>_.
       then_do (sv_store_metrics S R (fst progress)) (\<lambda>_.
       then_do (for_each (snd progress) (sv_publish S)) (\<lambda>_.
       ok (snd progress)))))
      (\<lambda>events w. \<exists>p. stored_log S R holds saved es (map written payloads) (p, events) w) ?E"
    for progress
  proof -
    have published: "triple (stored_log S R holds saved es (map written payloads) progress)
        (for_each events (sv_publish S))
        (\<lambda>_. stored_log S R holds saved es (map written payloads) progress) ?E" for events
      by (rule triple_for_each) (rule stored_log_kept [OF ports_leave_run(2)])
    show ?thesis
      by (intro triple_then [OF stored_log_triple] triple_then [OF stored_log_kept]
          triple_then [OF published] ports_leave_run triple_ok) (auto intro: exI [of _ "fst progress"])
  qed
  have "append_locked S R payloads =
      then_do (then_do (sv_load S R) (\<lambda>stored. case stored of
        Some projection \<Rightarrow> ok projection
      | None \<Rightarrow> then_do (ask (sv_now S)) (\<lambda>created_at.
          ok (genesis (sv_externals S) R created_at)))) (\<lambda>projection.
      then_do (then_do (sv_read_after S R (rp_last_event_sequence projection)) (\<lambda>pending.
         lift_result (lift_domain
           (replay_from (sv_externals S) (sv_encoder S) projection pending)))) (\<lambda>replayed.
      then_do (fold_each (commit_payload S R) payloads (fst replayed, [])) (\<lambda>progress.
      then_do (sv_store S (fst progress)) (\<lambda>_.
      then_do (sv_store_metrics S R (fst progress)) (\<lambda>_.
      then_do (for_each (snd progress) (sv_publish S)) (\<lambda>_.
      ok (snd progress)))))))"
    by (simp only: append_locked_def then_do_assoc)
  moreover have "triple (recoverable S R holds saved es)
     (then_do (sv_load S R) (\<lambda>stored. case stored of
        Some projection \<Rightarrow> ok projection
      | None \<Rightarrow> then_do (ask (sv_now S)) (\<lambda>created_at.
          ok (genesis (sv_externals S) R created_at)))) ?P ?E"
    by (rule triple_weaken [OF loaded_triple]) (auto intro: appended_some_none)
  ultimately show ?thesis
    by (simp only:) (intro triple_then [OF _ triple_then [OF read]] triple_then [OF commits] finish)
qed

end

context locked_store
begin

lemma under_lock_triple:
  assumes "triple (recoverable S R holds saved es) m Q E"
    and "\<And>a w. Q a w \<Longrightarrow> Q a (sv_unlock S R w)" and "\<And>e w. E e w \<Longrightarrow> E e (sv_unlock S R w)"
    and "\<And>e w. recoverable S R holds saved es w \<Longrightarrow> E e w"
  shows "triple (recoverable S R holds saved es) (under_lock S R m) Q E"
  unfolding under_lock_def
proof (rule triple_then)
  show "triple (recoverable S R holds saved es) (sv_lock S R)
      (\<lambda>_. recoverable S R holds saved es) E"
    by (rule triple_weaken [OF leaves_run_recoverable_triple [OF lock_leaves_run]])
      (auto intro: assms(4))
  show "triple (recoverable S R holds saved es)
      (\<lambda>w. case m w of (r, v) \<Rightarrow> (r, sv_unlock S R v)) Q E"
    using assms(1-3) by (auto simp: triple_def split: prod.splits sum.splits)
qed

lemma unlock_kept:
  assumes "recoverable S R holds saved es w"
  shows "recoverable S R holds saved es (sv_unlock S R w)" and "saved (sv_unlock S R w) = saved w"
  using leaves_run_recoverable [OF unlock_leaves_run assms, of "()"] by simp_all

lemma append_events_triple:
  assumes "bs_engine B = S"
  shows "triple (recoverable S R holds saved es) (append_events B R payloads)
     (\<lambda>events w. \<exists>p. stored_log S R holds saved es (map written payloads) (p, events) w)
     (\<lambda>_. appended_some S R holds saved es (map written payloads))"
  unfolding append_events_def assms
proof (rule under_lock_triple [OF append_locked_triple])
  fix events w
  assume "\<exists>p. stored_log S R holds saved es (map written payloads) (p, events) w"
  then show "\<exists>p. stored_log S R holds saved es (map written payloads) (p, events) (sv_unlock S R w)"
    by (auto simp: stored_log_def appended_def unlock_kept)
next
  fix w assume "appended_some S R holds saved es (map written payloads) w"
  then show "appended_some S R holds saved es (map written payloads) (sv_unlock S R w)"
    unfolding appended_some_def by (auto intro: unlock_kept)
qed (rule appended_some_none)

end

end
