(* ===== verification/Forge_Locks.thy ===== *)
theory Forge_Locks
  imports Forge_Append
begin

text \<open>
  \<open>store/locks.rs\<close>: the lock of a run is a lock on a file of its directory, tried up to sixty times
  with a pause between. \<open>lk_try\<close> is \<open>try_lock_exclusive\<close>, \<open>lk_release\<close> is \<open>unlock\<close>, \<open>lk_sleep\<close> the
  pause. The ports of the engine over the files, with these locks, are a \<open>locked_store\<close>.
\<close>

definition acquire_attempts :: nat where "acquire_attempts = 60"

record 'e lock_calls =
  lk_try :: "path \<Rightarrow> 'e \<Rightarrow> (io_error + bool) \<times> 'e"
  lk_release :: "path \<Rightarrow> 'e \<Rightarrow> io_error option \<times> 'e"
  lk_sleep :: "'e \<Rightarrow> 'e"

text \<open>The file is created empty when it is not there.\<close>

definition open_lock_file ::
    "file_store \<Rightarrow> 'e operating_system \<Rightarrow> run_id \<Rightarrow> ('e file_world, path) step" where
  "open_lock_file F os run =
     (let path = dispatcher_lock_file (fs_externals F) (fs_root F) run
      in then_do (ensure_directory os (butlast path)) (\<lambda>_.
         then_do (system_call os ''open lock file'' path) (\<lambda>_.
         then_do (look (path_exists path)) (\<lambda>present.
         then_do (if present then ok () else update_state (put_file path (BytesFile []))) (\<lambda>_.
         ok path)))))"

definition try_exclusive :: "'e lock_calls \<Rightarrow> string \<Rightarrow> path \<Rightarrow> ('e file_world, bool) step" where
  "try_exclusive L action path =
     then_do (outside (lk_try L path)) (\<lambda>r.
       case r of
         Inl error \<Rightarrow> stop (storage_error (path_display path) action (io_message error))
       | Inr acquired \<Rightarrow> ok acquired)"

fun acquire_within ::
    "'e lock_calls \<Rightarrow> run_id \<Rightarrow> path \<Rightarrow> nat \<Rightarrow> ('e file_world, unit) step" where
  "acquire_within L run path 0 = stop (RunLocked run)"
| "acquire_within L run path (Suc n) =
     then_do (try_exclusive L ''lock'' path) (\<lambda>acquired.
       if acquired then ok ()
       else then_do (update_state (\<lambda>w. w\<lparr>fw_outside := lk_sleep L (fw_outside w)\<rparr>)) (\<lambda>_.
            acquire_within L run path n))"

definition lock_acquire ::
    "file_store \<Rightarrow> 'e operating_system \<Rightarrow> 'e lock_calls \<Rightarrow> run_id \<Rightarrow> ('e file_world, unit) step" where
  "lock_acquire F os L run =
     then_do (open_lock_file F os run) (\<lambda>path. acquire_within L run path acquire_attempts)"

definition is_locked ::
    "file_store \<Rightarrow> 'e operating_system \<Rightarrow> 'e lock_calls \<Rightarrow> run_id \<Rightarrow> ('e file_world, bool) step" where
  "is_locked F os L run =
     then_do (open_lock_file F os run) (\<lambda>path.
     then_do (try_exclusive L ''probe lock'' path) (\<lambda>acquired.
       if acquired
       then then_do (outside (lk_release L path)) (\<lambda>fault.
              case fault of
                None \<Rightarrow> ok False
              | Some error \<Rightarrow> stop (storage_error (path_display path) ''unlock'' (io_message error)))
       else ok True))"

text \<open>Releasing the guard ignores how \<open>unlock\<close> ends.\<close>

definition lock_release ::
    "file_store \<Rightarrow> 'e lock_calls \<Rightarrow> run_id \<Rightarrow> 'e file_world \<Rightarrow> 'e file_world" where
  "lock_release F L run w =
     w\<lparr>fw_outside := snd (lk_release L (dispatcher_lock_file (fs_externals F) (fs_root F) run)
        (fw_outside w))\<rparr>"

definition locked_services ::
    "file_store \<Rightarrow> 'e operating_system \<Rightarrow> 'e lock_calls \<Rightarrow> 'e host \<Rightarrow> 'e file_world run_services" where
  "locked_services F os L H = (file_services F os H)\<lparr>
     sv_lock := lock_acquire F os L, sv_unlock := lock_release F L\<rparr>"

section \<open>When a lock is acquired\<close>

text \<open>The outside world after \<open>n\<close> tries that found the lock held.\<close>

definition after_try :: "'e lock_calls \<Rightarrow> path \<Rightarrow> 'e \<Rightarrow> 'e" where
  "after_try L path e = lk_sleep L (snd (lk_try L path e))"

definition held_at :: "'e lock_calls \<Rightarrow> path \<Rightarrow> 'e \<Rightarrow> nat \<Rightarrow> (io_error + bool)" where
  "held_at L path e k = fst (lk_try L path ((after_try L path ^^ k) e))"

lemma held_later: "held_at L path (after_try L path e) k = held_at L path e (Suc k)"
  by (simp add: held_at_def funpow_swap1)

lemma acquire_again:
  "fst (lk_try L path (fw_outside w)) = Inr False \<Longrightarrow>
     acquire_within L run path (Suc n) w
       = acquire_within L run path n (w\<lparr>fw_outside := after_try L path (fw_outside w)\<rparr>)"
  by (simp add: try_exclusive_def outside_def step_eval after_try_def case_prod_unfold)

lemma acquire_held:
  "(\<And>k. k < n \<Longrightarrow> held_at L path (fw_outside w) k = Inr False) \<Longrightarrow>
     acquire_within L run path n w
       = (Inl (RunLocked run), w\<lparr>fw_outside := (after_try L path ^^ n) (fw_outside w)\<rparr>)"
proof (induction n arbitrary: w)
  case (Suc n)
  let ?v = "w\<lparr>fw_outside := after_try L path (fw_outside w)\<rparr>"
  have "acquire_within L run path n ?v
      = (Inl (RunLocked run), ?v\<lparr>fw_outside := (after_try L path ^^ n) (fw_outside ?v)\<rparr>)"
    using Suc.prems [of "Suc _"] by (intro Suc.IH) (simp add: held_later)
  moreover have "fst (lk_try L path (fw_outside w)) = Inr False"
    using Suc.prems [of 0] by (simp add: held_at_def)
  ultimately show ?case
    by (simp only: acquire_again) (simp add: funpow_swap1)
qed (simp add: stop_def)

lemma acquire_freed:
  "(\<And>k. k < n \<Longrightarrow> held_at L path (fw_outside w) k = Inr False) \<Longrightarrow>
     held_at L path (fw_outside w) n = Inr True \<Longrightarrow> n < m \<Longrightarrow>
     \<exists>v. acquire_within L run path m w = (Inr (), v)"
proof (induction n arbitrary: w m)
  case 0
  then obtain l where "m = Suc l" by (cases m) auto
  with 0 show ?case
    by (simp add: try_exclusive_def outside_def step_eval held_at_def case_prod_unfold)
next
  case (Suc n)
  from Suc.prems(3) obtain l where m: "m = Suc l" and l: "n < l" by (cases m) auto
  let ?v = "w\<lparr>fw_outside := after_try L path (fw_outside w)\<rparr>"
  have "\<exists>v. acquire_within L run path l ?v = (Inr (), v)"
    using Suc.prems(1) [of "Suc _"] Suc.prems(2)
    by (intro Suc.IH [OF _ _ l]) (simp_all add: held_later)
  moreover have "fst (lk_try L path (fw_outside w)) = Inr False"
    using Suc.prems(1) [of 0] by (simp add: held_at_def)
  ultimately show ?case by (simp only: m acquire_again)
qed

section \<open>Locks leave the run alone\<close>

lemma acquire_within_leaves:
  "leaves_run (run_files F os R redactor) (saved_projection F R) (acquire_within L run path n)"
proof (induction n)
  case (Suc n)
  have pause: "leaves_run (run_files F os R redactor) (saved_projection F R)
      (update_state (\<lambda>w. w\<lparr>fw_outside := f (fw_outside w)\<rparr>))" for f
    by (rule leaves_files) (simp add: same_files_def update_state_def)
  show ?case
    by (simp, unfold try_exclusive_def)
      (intro leaves_then leaves_if leaves_pure leaves_sum leaves_outside pause Suc)
qed (simp add: leaves_pure)

lemma lock_acquire_leaves:
  "leaves_run (run_files F os R redactor) (saved_projection F R) (lock_acquire F os L run)"
proof -
  have "other_name (dispatcher_lock_file X base run)" for X base
    by (simp add: dispatcher_lock_file_def other_name_def)
  then show ?thesis
    unfolding lock_acquire_def open_lock_file_def Let_def
    by (intro leaves_rules leaves_directories leaves_call leaves_put acquire_within_leaves)
qed

lemma relocked_fields:
  "sv_externals (S\<lparr>sv_lock := l, sv_unlock := u\<rparr>) = sv_externals S"
  "sv_encoder (S\<lparr>sv_lock := l, sv_unlock := u\<rparr>) = sv_encoder S"
  "sv_append (S\<lparr>sv_lock := l, sv_unlock := u\<rparr>) = sv_append S"
  "sv_read_after (S\<lparr>sv_lock := l, sv_unlock := u\<rparr>) = sv_read_after S"
  "sv_verify_chain (S\<lparr>sv_lock := l, sv_unlock := u\<rparr>) = sv_verify_chain S"
  "sv_load (S\<lparr>sv_lock := l, sv_unlock := u\<rparr>) = sv_load S"
  "sv_store (S\<lparr>sv_lock := l, sv_unlock := u\<rparr>) = sv_store S"
  "sv_store_metrics (S\<lparr>sv_lock := l, sv_unlock := u\<rparr>) = sv_store_metrics S"
  "sv_load_manifest (S\<lparr>sv_lock := l, sv_unlock := u\<rparr>) = sv_load_manifest S"
  "sv_store_manifest (S\<lparr>sv_lock := l, sv_unlock := u\<rparr>) = sv_store_manifest S"
  "sv_commit_attempt (S\<lparr>sv_lock := l, sv_unlock := u\<rparr>) = sv_commit_attempt S"
  "sv_publish (S\<lparr>sv_lock := l, sv_unlock := u\<rparr>) = sv_publish S"
  "sv_now (S\<lparr>sv_lock := l, sv_unlock := u\<rparr>) = sv_now S"
  "sv_jitter (S\<lparr>sv_lock := l, sv_unlock := u\<rparr>) = sv_jitter S"
  "sv_cancelled (S\<lparr>sv_lock := l, sv_unlock := u\<rparr>) = sv_cancelled S"
  "sv_execute (S\<lparr>sv_lock := l, sv_unlock := u\<rparr>) = sv_execute S"
  "sv_result_bytes (S\<lparr>sv_lock := l, sv_unlock := u\<rparr>) = sv_result_bytes S"
  "sv_logical_processors (S\<lparr>sv_lock := l, sv_unlock := u\<rparr>) = sv_logical_processors S"
  "sv_next_task (S\<lparr>sv_lock := l, sv_unlock := u\<rparr>) = sv_next_task S"
  "sv_exists (S\<lparr>sv_lock := l, sv_unlock := u\<rparr>) = sv_exists S"
  "sv_configuration (S\<lparr>sv_lock := l, sv_unlock := u\<rparr>) = sv_configuration S"
  "sv_task_markdown (S\<lparr>sv_lock := l, sv_unlock := u\<rparr>) = sv_task_markdown S"
  by simp_all

lemma relocked_store:
  assumes "recoverable_store S R holds saved written"
  shows "recoverable_store (S\<lparr>sv_lock := l, sv_unlock := u\<rparr>) R holds saved written"
  using assms unfolding recoverable_store_def recoverable_store_axioms_def run_store_def
    relocked_fields .

locale file_locks = file_runs F os H cx redactor
  for F :: file_store and os :: "'e operating_system" and H :: "'e host"
    and cx :: run_context and redactor :: pattern_redactor +
  fixes L :: "'e lock_calls"

sublocale file_locks \<subseteq> locked: locked_store "locked_services F os L H" "cx_run_id cx"
    "run_files F os (cx_run_id cx) redactor" "saved_projection F (cx_run_id cx)"
    "written_payload F redactor"
proof (intro locked_store.intro locked_store_axioms.intro)
  show "recoverable_store (locked_services F os L H) (cx_run_id cx)
      (run_files F os (cx_run_id cx) redactor) (saved_projection F (cx_run_id cx))
      (written_payload F redactor)"
    unfolding locked_services_def by (rule relocked_store) (rule files.recoverable_store_axioms)
  show "leaves_run (run_files F os (cx_run_id cx) redactor) (saved_projection F (cx_run_id cx))
      (sv_lock (locked_services F os L H) (cx_run_id cx))"
    by (simp add: locked_services_def lock_acquire_leaves)
  show "leaves_run (run_files F os (cx_run_id cx) redactor) (saved_projection F (cx_run_id cx))
      (\<lambda>w. ((), sv_unlock (locked_services F os L H) (cx_run_id cx) w))"
    by (rule leaves_files) (simp add: locked_services_def lock_release_def same_files_def)
qed

section \<open>Appending to the files of a run\<close>

context file_locks
begin

lemma append_run:
  assumes "bs_engine B = locked_services F os L H"
    and "recoverable (bs_engine B) (cx_run_id cx) (run_files F os (cx_run_id cx) redactor)
      (saved_projection F (cx_run_id cx)) es w"
    and "append_events B (cx_run_id cx) payloads w = (r, v)"
  shows "case r of
      Inr events \<Rightarrow> map de_payload events = map (written_payload F redactor) payloads
        \<and> run_files F os (cx_run_id cx) redactor v (es @ events)
        \<and> (\<exists>t p. saved_projection F (cx_run_id cx) v = Some p
             \<and> replay (fs_externals F) (fs_encoder F) (cx_run_id cx) t (es @ events) = Inr p)
    | Inl _ \<Rightarrow> appended_some (bs_engine B) (cx_run_id cx) (run_files F os (cx_run_id cx) redactor)
        (saved_projection F (cx_run_id cx)) es (map (written_payload F redactor) payloads) v"
proof -
  note t = locked.append_events_triple [OF assms(1)]
  have services: "sv_externals (locked_services F os L H) = fs_externals F"
      "sv_encoder (locked_services F os L H) = fs_encoder F"
    by (simp_all add: locked_services_def file_services_def)
  show ?thesis
  proof (cases r)
    case (Inl x)
    then show ?thesis using triple_failure [OF t] assms by simp
  next
    case (Inr events)
    with triple_success [OF t] assms obtain p where
      "stored_log (locked_services F os L H) (cx_run_id cx) (run_files F os (cx_run_id cx) redactor)
        (saved_projection F (cx_run_id cx)) es (map (written_payload F redactor) payloads)
        (p, events) v" by fastforce
    with Inr show ?thesis by (auto simp: stored_log_def appended_def recoverable_def services)
  qed
qed

end

text \<open>An append calls no node.\<close>

lemma append_without_nodes:
  assumes "bs_engine B = locked_services F os L H"
    and "bs_engine B' = locked_services F os L (without_nodes H)"
  shows "append_events B' R payloads = append_events B R payloads"
proof -
  let ?S = "bs_engine B" and ?T = "bs_engine B'"
  have same: "sv_externals ?T = sv_externals ?S" "sv_encoder ?T = sv_encoder ?S"
      "sv_append ?T = sv_append ?S" "sv_now ?T = sv_now ?S" "sv_store ?T = sv_store ?S"
      "sv_store_metrics ?T = sv_store_metrics ?S" "sv_load ?T = sv_load ?S"
      "sv_read_after ?T = sv_read_after ?S" "sv_publish ?T = sv_publish ?S"
      "sv_lock ?T = sv_lock ?S" "sv_unlock ?T = sv_unlock ?S"
    by (simp_all add: assms locked_services_def file_services_def without_nodes_def)
  have commits: "commit_payload ?T = commit_payload ?S"
    by (intro ext) (simp only: commit_payload_def same)
  show ?thesis
    by (simp only: append_events_def under_lock_def append_locked_def commits same)
qed

lemma recoverable_locked:
  "recoverable (locked_services F os L H) = recoverable (file_services F os H)"
  by (intro ext) (simp add: recoverable_def locked_services_def)

lemma append_events_files:
  assumes "clean_system os" and "bs_engine B = locked_services F os L H"
    and "recoverable (bs_engine B) R (run_files F os R redactor) (saved_projection F R) es w"
    and "append_events B R payloads w = (r, v)"
  shows "case r of
      Inr events \<Rightarrow> map de_payload events = map (written_payload F redactor) payloads
        \<and> run_files F os R redactor v (es @ events)
        \<and> (\<exists>t p. saved_projection F R v = Some p
             \<and> replay (fs_externals F) (fs_encoder F) R t (es @ events) = Inr p)
    | Inl _ \<Rightarrow> appended_some (bs_engine B) R (run_files F os R redactor) (saved_projection F R) es
        (map (written_payload F redactor) payloads) v"
proof -
  let ?S = "locked_services F os L (without_nodes H)"
  let ?B = "B\<lparr>bs_engine := ?S\<rparr>"
  have engine: "bs_engine ?B = ?S" by simp
  obtain cx :: run_context where cx: "cx_run_id cx = R"
    by (metis run_context.select_convs(1))
  have same: "recoverable ?S = recoverable (bs_engine B)"
    unfolding assms(2) recoverable_locked by (rule recoverable_services)
  have runs: "file_locks F os (without_nodes H) cx redactor"
    unfolding file_locks_def by (rule file_runs_without_nodes [OF assms(1)])
  have "append_events ?B R payloads w = (r, v)"
    using append_without_nodes [OF assms(2), of ?B R payloads] assms(4) by simp
  from file_locks.append_run [OF runs, of ?B L es w payloads r v] this assms(3)
  show ?thesis by (simp only: cx engine same appended_some_def)
qed

end
