(* ===== verification/Forge_Node_Results.thy ===== *)
theory Forge_Node_Results
  imports Forge_Node_Finish
begin

text \<open>
  What a node may hand to the engine: every output of \<open>execute_call\<close> has a failure exactly when it
  failed and names a successor the graph allows, so the engine refuses the result of an attempt only
  for reasons of its own. The retry decision of the engine replaces the successor of a failed
  output; \<open>route_refused\<close> says when the successor it chooses is none of the graph's.
\<close>

section \<open>What a step yields\<close>

definition yields :: "('a \<Rightarrow> bool) \<Rightarrow> ('w, 'a) step \<Rightarrow> bool" where
  "yields Q m \<longleftrightarrow> (\<forall>w a v. m w = (Inr a, v) \<longrightarrow> Q a)"

lemma yieldsD: "yields Q m \<Longrightarrow> m w = (Inr a, v) \<Longrightarrow> Q a"
  unfolding yields_def by blast

lemma yields_then: "(\<And>a. yields Q (f a)) \<Longrightarrow> yields Q (then_do m f)"
  by (auto simp: yields_def then_do_Inr)

lemma yields_ok: "Q a \<Longrightarrow> yields Q (ok a)"
  by (simp add: yields_def ok_def)

lemma yields_stop: "yields Q (stop e)"
  by (simp add: yields_def stop_def)

lemma yields_if: "(b \<Longrightarrow> yields Q m) \<Longrightarrow> (\<not> b \<Longrightarrow> yields Q n) \<Longrightarrow> yields Q (if b then m else n)"
  by simp

lemma yields_option:
  "(x = None \<Longrightarrow> yields Q m) \<Longrightarrow> (\<And>a. x = Some a \<Longrightarrow> yields Q (f a)) \<Longrightarrow>
     yields Q (case x of None \<Rightarrow> m | Some a \<Rightarrow> f a)"
  by (cases x) simp_all

lemma yields_sum:
  "(\<And>e. yields Q (g e)) \<Longrightarrow> (\<And>a. yields Q (f a)) \<Longrightarrow>
     yields Q (case x of Inl e \<Rightarrow> g e | Inr a \<Rightarrow> f a)"
  by (cases x) simp_all

lemma yields_prod: "(\<And>a b. yields Q (f a b)) \<Longrightarrow> yields Q (case x of (a, b) \<Rightarrow> f a b)"
  by (cases x) simp

lemma yields_action_required:
  "(\<And>s. yields Q (g s)) \<Longrightarrow>
     yields Q (case error of ErrorUserActionRequired s \<Rightarrow> g s | _ \<Rightarrow> stop error)"
  by (cases error) (simp_all add: yields_stop)

lemmas yields_rules = yields_then yields_stop yields_if yields_option yields_sum yields_prod
  yields_action_required yields_ok

section \<open>Outputs the graph allows\<close>

definition next_allowed :: "node_id \<Rightarrow> node_id option \<Rightarrow> bool" where
  "next_allowed node next \<longleftrightarrow> (\<forall>m. next = Some m \<longrightarrow> node_accepts_successor node m)"

definition output_ok :: "node_id \<Rightarrow> node_output \<Rightarrow> bool" where
  "output_ok node output \<longleftrightarrow>
     no_status output \<in> {node_status.Succeeded, node_status.Failed, node_status.Paused}
     \<and> (no_status output = node_status.Succeeded \<longrightarrow> no_failure output = None)
     \<and> (no_status output = node_status.Failed \<longrightarrow> no_failure output \<noteq> None)
     \<and> next_allowed node (no_next output)"

lemma output_ok_frame [simp]:
  "output_ok n (with_patch p o') = output_ok n o'" "output_ok n (with_events es o') = output_ok n o'"
  "output_ok n (with_event e o') = output_ok n o'" "output_ok n (with_artifacts a o') = output_ok n o'"
  "output_ok n (with_evidence v o') = output_ok n o'" "output_ok n (with_metrics m o') = output_ok n o'"
  "output_ok n (with_warning s o') = output_ok n o'"
  by (simp_all add: output_ok_def output_simps)

lemma output_ok_new [simp]:
  "output_ok n (output_succeeded next) = next_allowed n next"
  "output_ok n (output_failed failure next) = next_allowed n next" "output_ok n output_paused"
  by (auto simp: output_ok_def output_simps next_allowed_def)

lemma output_ok_warnings [simp]: "output_ok n (fold with_warning ws o') = output_ok n o'"
  by (induction ws arbitrary: o') simp_all

lemma next_allowed_simps [simp]:
  "next_allowed n None" "next_allowed n (Some m) = node_accepts_successor n m"
  by (simp_all add: next_allowed_def)

lemmas output_ok_simps = node_accepts_successor_def refused_def refused_plainly_def paused_with_def
  exhausted_output_def

lemma prepare_ok: "yields (output_ok Prepare) (prepare_execute P cx c)"
  unfolding prepare_execute_def prepare_environment_def Let_def
  by (intro yields_rules) (simp_all add: output_ok_simps)

lemma plan_ok: "yields (output_ok Plan) (plan_execute P cx c)"
  unfolding plan_execute_def plan_judged_def plan_written_def Let_def
  by (intro yields_rules) (simp_all add: output_ok_simps)

lemma fan_out_ok: "yields (output_ok FanOut) (fan_out_execute P cx c)"
  unfolding fan_out_execute_def by (intro yields_rules) (simp_all add: output_ok_simps)

lemma implement_ok: "yields (output_ok ImplementCandidate) (implement_execute P cx c)"
  unfolding implement_execute_def
  by (intro yields_rules) (simp_all add: implement_output_def Let_def output_ok_simps)

lemma repair_ok: "yields (output_ok RepairCandidate) (repair_execute P cx c)"
  unfolding repair_execute_def Let_def
  by (intro yields_rules) (simp_all add: repair_output_def repair_exhausted_def Let_def output_ok_simps)

lemma test_ok: "yields (output_ok TestCandidate) (test_execute P cx c)"
  unfolding test_execute_def by (intro yields_rules) (simp_all add: output_ok_simps)

lemma review_ok: "yields (output_ok ReviewCandidate) (review_execute P cx c)"
  unfolding review_execute_def by (intro yields_rules) (simp_all add: output_ok_simps)

lemma join_output_ok: "output_ok Join (join_output entries evidence)"
  by (simp add: join_output_def Let_def output_ok_simps split: option.split)

lemma join_ok: "yields (output_ok Join) (join_execute P cx c)"
  unfolding join_execute_def by (intro yields_rules) (rule join_output_ok)

lemma promote_next_ok: "output_ok IntegrateWinner (promote_next p w detail evidence)"
  by (simp add: promote_next_def Let_def output_ok_simps)

lemma integrate_ok: "yields (output_ok IntegrateWinner) (integrate_execute P cx c)"
  unfolding integrate_execute_def integrate_patch_def Let_def
  by (intro yields_rules) (simp_all add: promote_next_ok output_ok_simps)

lemma final_gate_ok:
  assumes "node_accepts_successor node next" and "node_accepts_successor node IntegrateWinner"
  shows "output_ok node (final_gate_output p w event passed next detail artifacts metrics evidence)"
  using assms by (auto simp: final_gate_output_def finish_with_promotion_def Let_def
      exhausted_output_def split: option.split)

lemma final_test_ok: "yields (output_ok FinalTest) (final_test_execute P cx c)"
  unfolding final_test_execute_def
  by (intro yields_rules final_gate_ok) (simp_all add: output_ok_simps)

lemma final_review_ok: "yields (output_ok FinalReview) (final_review_execute P cx c)"
  unfolding final_review_execute_def
  by (intro yields_rules final_gate_ok) (simp_all add: output_ok_simps)

lemma commit_ok: "yields (output_ok Commit) (commit_execute P cx c)"
  unfolding commit_execute_def commit_paths_def Let_def
  by (intro yields_rules) (simp_all add: commit_output_def output_ok_simps)

lemma execute_call_ok: "yields (output_ok (nc_node c)) (execute_call P cx c)"
proof (cases "nc_node c")
qed (simp_all add: execute_call_def prepare_ok plan_ok fan_out_ok implement_ok test_ok review_ok
    repair_ok join_ok integrate_ok final_test_ok final_review_ok commit_ok yields_stop)

section \<open>The result of an attempt\<close>

lemma warned_builder [simp]:
  "nb_run_id (fold builder_warning ws b) = nb_run_id b"
  "nb_candidate_id (fold builder_warning ws b) = nb_candidate_id b"
  "nb_node_id (fold builder_warning ws b) = nb_node_id b"
  "nb_started_at (fold builder_warning ws b) = nb_started_at b"
  "nb_state_patch (fold builder_warning ws b) = nb_state_patch b"
  by (induction ws arbitrary: b) (simp_all add: builder_warning_def)

lemma attempt_builder_fields [simp]:
  "nb_candidate_id (attempt_builder cx node candidate attempt s output) = candidate"
  "nb_node_id (attempt_builder cx node candidate attempt s output) = node"
  "nb_started_at (attempt_builder cx node candidate attempt s output) = s"
  "nb_state_patch (attempt_builder cx node candidate attempt s output) = no_state_patch output"
  by (simp_all add: attempt_builder_def Let_def node_result_builder_new_def builder_candidate_def
      builder_metrics_def builder_artifacts_def builder_patch_def split: option.split)

lemmas builder_ends = builder_succeeded_def builder_failed_def builder_paused_def
  builder_cancelled_def builder_finish_def

text \<open>The fields of a result the validation reads.\<close>

lemma attempt_result_fields:
  "nr_schema_version (attempt_result cx node candidate attempt s f output) = 1"
  "nr_node_id (attempt_result cx node candidate attempt s f output) = node"
  "nr_candidate_id (attempt_result cx node candidate attempt s f output) = candidate"
  "nr_started_at (attempt_result cx node candidate attempt s f output) = s"
  "nr_finished_at (attempt_result cx node candidate attempt s f output) = f"
  "nr_state_patch (attempt_result cx node candidate attempt s f output) = no_state_patch output"
  by (cases "no_status output";
      simp add: attempt_result_def Let_def builder_ends node_result_schema_version_def)+

lemma attempt_result_status:
  "nr_status (attempt_result cx node candidate attempt s f output)
    = (if no_status output = node_status.Interrupted then node_status.Cancelled else no_status output)"
  "nr_failure (attempt_result cx node candidate attempt s f output)
    = (if no_status output = node_status.Failed then Some (failure_or_missing (no_failure output))
       else None)"
  "no_status output \<in> {node_status.Succeeded, node_status.Failed} \<Longrightarrow>
    nr_next (attempt_result cx node candidate attempt s f output) = no_next output"
  by (cases "no_status output"; simp add: attempt_result_def Let_def builder_ends)+

lemma attempt_result_valid_iff:
  "node_result_validate (attempt_result cx node candidate attempt s f output) = Inr () \<longleftrightarrow>
     s \<le> f \<and> (node_scope_of node = CandidateScope \<longleftrightarrow> candidate \<noteq> None)
     \<and> (no_status output \<in> {node_status.Succeeded, node_status.Failed}
          \<longrightarrow> next_allowed node (no_next output))
     \<and> patch_ok (no_state_patch output)"
proof (cases "no_status output \<in> {node_status.Succeeded, node_status.Failed}")
  case True
  then show ?thesis
    unfolding node_result_validate_iff next_allowed_def attempt_result_fields
      attempt_result_status(1,2) attempt_result_status(3) [OF True]
    by auto
next
  case False
  then show ?thesis
    unfolding node_result_validate_iff attempt_result_fields attempt_result_status(1,2) by auto
qed

section \<open>The successor the retry decision chooses\<close>

definition route_refused :: "node_id \<Rightarrow> retry_decision \<Rightarrow> bool" where
  "route_refused node decision \<longleftrightarrow>
     (case decision of
        RetrySameNode \<Rightarrow> node \<noteq> IntegrateWinner
      | RouteToRepair \<Rightarrow> node \<notin> {TestCandidate, ReviewCandidate}
      | FailCandidate \<Rightarrow> node \<notin> {TestCandidate, ReviewCandidate, RepairCandidate}
      | _ \<Rightarrow> False)"

lemma same_node_successor: "node_accepts_successor node node \<longleftrightarrow> node = IntegrateWinner"
  by (cases node) (simp_all add: node_accepts_successor_def)

lemma repair_successor:
  "node_accepts_successor node RepairCandidate \<longleftrightarrow> node \<in> {TestCandidate, ReviewCandidate}"
  by (cases node) (simp_all add: node_accepts_successor_def)

lemma join_successor:
  "node_accepts_successor node Join \<longleftrightarrow> node \<in> {TestCandidate, ReviewCandidate, RepairCandidate}"
  by (cases node) (simp_all add: node_accepts_successor_def)

text \<open>The output after the decision, whatever the retry event did to the run.\<close>

lemma decided_output:
  assumes "apply_retry_decision S cx node candidate decision output d = (Inr settled, t)"
    and "route_refused node decision"
  shows "no_status settled = no_status output \<and> \<not> next_allowed node (no_next settled)"
  using assms
  by (cases decision) (auto simp: apply_retry_decision_def then_do_Inr ok_def route_refused_def
      same_node_successor repair_successor join_successor)

text \<open>
  An attempt whose failure is routed to a node the graph does not allow ends in an error, and so
  does the dispatch: its result is never stored.
\<close>

lemma refused_route_fails:
  assumes "no_status output = node_status.Failed" and "no_failure output = Some failure"
    and "route_refused node (decide_retry cx node candidate attempt failure (dp_projection d))"
  shows "\<exists>e. fst (finalise_attempt S cx node candidate attempt started_at output d) = Inl e"
proof (rule ccontr)
  assume no_error: "\<not> ?thesis"
  obtain r t where out: "finalise_attempt S cx node candidate attempt started_at output d = (r, t)"
    by fastforce
  with no_error obtain b where "r = Inr b" by (cases r) auto
  with out obtain f d1 settled d2 where asked: "ask_world (sv_now S) d = (Inr f, d1)"
      and settle: "settle_output S cx node candidate attempt output d1 = (Inr settled, d2)"
      and valid: "node_result_validate
        (attempt_result cx node candidate attempt started_at f settled) = Inr ()"
    unfolding finalise_attempt_def Let_def
    by (auto simp: then_do_Inr lift_result_def lift_domain_def)
  from asked have "dp_projection d1 = dp_projection d"
    by (auto simp: ask_world_def split: prod.splits)
  with settle assms have "apply_retry_decision S cx node candidate
      (decide_retry cx node candidate attempt failure (dp_projection d)) output d1 = (Inr settled, d2)"
    by (auto simp: settle_output_def then_do_def look_def)
  from decided_output [OF this assms(3)] valid assms(1) show False
    by (simp add: attempt_result_valid_iff)
qed

end
