(* ===== verification/Forge_Promotion.thy ===== *)
theory Forge_Promotion
  imports Forge_Node_Results Forge_Replay
begin

text \<open>
  Integration ends. When a candidate cannot be integrated, or a final gate fails, the nodes ask for
  the promotion of the next candidate of the ranking. The candidates that are promotable, were not
  attempted and are not the winner are \<^emph>\<open>open\<close>; each promotion takes one of them, and no other event
  of an integration opens one.
\<close>

section \<open>Open candidates\<close>

definition is_open :: "candidate_record \<Rightarrow> bool" where
  "is_open candidate_entry \<longleftrightarrow>
     cr_promotable candidate_entry \<and> \<not> cr_integration_attempted candidate_entry"

definition open_candidates :: "run_projection \<Rightarrow> candidate_id set" where
  "open_candidates p =
     {i. \<exists>c. candidate_of p i = Some c \<and> is_open c \<and> rp_winner p \<noteq> Some i}"

lemma open_registered: "open_candidates p \<subseteq> cr_id ` set (rp_candidates p)"
  by (auto simp: open_candidates_def candidate_of_def dest!: find_SomeD)

lemma finite_open: "finite (open_candidates p)"
  using open_registered by (rule finite_subset) simp

lemma open_bound: "card (open_candidates p) \<le> length (rp_candidates p)"
proof -
  have "card (open_candidates p) \<le> card (cr_id ` set (rp_candidates p))"
    by (intro card_mono open_registered) simp
  also have "\<dots> \<le> length (rp_candidates p)"
    by (rule le_trans [OF card_image_le card_length]) simp
  finally show ?thesis .
qed

section \<open>Events that open nothing\<close>

lemma find_update_first:
  assumes "\<And>c. find (\<lambda>c. k c = j) xs = Some c \<Longrightarrow> k (f c) = j"
  shows "find (\<lambda>c. k c = i) (update_first (\<lambda>c. k c = j) f xs)
    = (if i = j then map_option f (find (\<lambda>c. k c = i) xs) else find (\<lambda>c. k c = i) xs)"
  using assms by (induction xs) auto

lemma candidate_of_modify:
  assumes "\<And>c. candidate_of p j = Some c \<Longrightarrow> cr_id (f c) = j"
  shows "candidate_of (modify_candidate j f p) i
    = (if i = j then map_option f (candidate_of p i) else candidate_of p i)"
  using find_update_first [of cr_id j "rp_candidates p" f i] assms
  by (simp add: candidate_of_def modify_candidate_def)

lemma candidate_of_found: "candidate_of p i = Some c \<Longrightarrow> cr_id c = i"
  by (auto simp: candidate_of_def dest: find_SomeD)

text \<open>The relation between the projections before and after an event that opens nothing.\<close>

definition opens_nothing :: "run_projection \<Rightarrow> run_projection \<Rightarrow> bool" where
  "opens_nothing p q \<longleftrightarrow>
     rp_winner q = rp_winner p
     \<and> (\<forall>i c'. candidate_of q i = Some c' \<and> is_open c' \<longrightarrow>
          (\<exists>c. candidate_of p i = Some c \<and> is_open c))"

lemma opens_nothing_subset: "opens_nothing p q \<Longrightarrow> open_candidates q \<subseteq> open_candidates p"
  by (fastforce simp: opens_nothing_def open_candidates_def)

lemma opens_nothing_same:
  "rp_winner q = rp_winner p \<Longrightarrow> rp_candidates q = rp_candidates p \<Longrightarrow> opens_nothing p q"
  by (auto simp: opens_nothing_def candidate_of_def)

lemma opens_nothing_modify:
  assumes "\<And>c. candidate_of p j = Some c \<Longrightarrow> cr_id (f c) = j \<and> (is_open (f c) \<longrightarrow> is_open c)"
    and "rp_candidates q = rp_candidates (modify_candidate j f p)" and "rp_winner q = rp_winner p"
  shows "opens_nothing p q"
proof -
  have "candidate_of q i = candidate_of (modify_candidate j f p) i" for i
    by (simp add: candidate_of_def assms(2))
  with candidate_of_modify [of p j f] assms(1,3) show ?thesis
    by (auto simp: opens_nothing_def split: if_splits)
qed

lemma opens_nothing_with:
  assumes "with_candidate j f p = Inr r"
    and "\<And>c d. f c = Inr d \<Longrightarrow> cr_id d = cr_id c \<and> (is_open d \<longrightarrow> is_open c)"
    and "rp_candidates q = rp_candidates r" and "rp_winner q = rp_winner r"
  shows "opens_nothing p q"
proof -
  from assms(1) obtain c d where c: "candidate_of p j = Some c" and d: "f c = Inr d"
      and r: "r = modify_candidate j (\<lambda>_. d) p"
    unfolding with_candidate_Inr by blast
  show ?thesis
    by (rule opens_nothing_modify [of p j "\<lambda>_. d"])
      (use c d assms(2) [OF d] assms(3,4) r candidate_of_found [OF c]
        in \<open>auto simp: modify_candidate_def\<close>)
qed

definition calm_event :: "event_payload \<Rightarrow> bool" where
  "calm_event payload \<longleftrightarrow>
     (case payload of
        CandidateRegistered _ _ _ _ _ _ \<Rightarrow> False
      | WinnerSelected _ _ \<Rightarrow> False
      | CandidatePromotionRequested _ _ _ \<Rightarrow> False
      | _ \<Rightarrow> True)"

lemma change_status_open:
  "change_candidate_status a b t c = Inr d \<Longrightarrow> cr_id d = cr_id c \<and> (is_open d \<longrightarrow> is_open c)"
  by (auto simp: change_candidate_status_def is_open_def guard_Inr)

lemma repair_started_open:
  "cr_id (repair_started used fingerprint c) = cr_id c"
  "is_open (repair_started used fingerprint c) = is_open c"
  by (simp_all add: repair_started_def is_open_def Let_def observe_failure_fingerprint_def
      split: option.split)

lemma gate_duration_opens_nothing: "opens_nothing p (add_gate_duration candidate duration p)"
proof (cases candidate)
  case (Some j)
  show ?thesis
    by (rule opens_nothing_modify [of p j
          "\<lambda>c. c\<lparr>cr_gate_duration := sat_add (cr_gate_duration c) duration\<rparr>"])
      (auto simp: Some add_gate_duration_def is_open_def modify_candidate_def
        dest: candidate_of_found)
qed (simp add: add_gate_duration_def opens_nothing_same)

lemma integration_opens_nothing:
  "opens_nothing p (reduce_integration_attempted candidate applied detail p)"
  by (rule opens_nothing_modify [of p candidate "\<lambda>c. let marked = c\<lparr>cr_integration_attempted := True\<rparr>
            in if \<not> applied then marked\<lparr>cr_promotable := False\<rparr> else marked"])
    (auto simp: reduce_integration_attempted_def is_open_def modify_candidate_def Let_def
      dest: candidate_of_found)

lemma opens_nothing_frame:
  "opens_nothing p q \<Longrightarrow> rp_candidates r = rp_candidates q \<Longrightarrow> rp_winner r = rp_winner q \<Longrightarrow>
     opens_nothing p r"
  by (simp add: opens_nothing_def candidate_of_def)

lemma gate_durations_frame:
  "rp_winner (add_gate_duration candidate duration p) = rp_winner p"
  "rp_candidates (add_gate_duration candidate duration (modify_metrics f p))
    = rp_candidates (add_gate_duration candidate duration p)"
  by (simp_all add: add_gate_duration_def modify_candidate_def modify_metrics_def split: option.split)

lemma metrics_frame [simp]:
  "rp_candidates (modify_metrics f p) = rp_candidates p"
  "rp_winner (modify_metrics f p) = rp_winner p"
  by (simp_all add: modify_metrics_def)

lemma calm_opens_nothing:
  assumes "reduce e t s p = Inr q" and "calm_event e"
  shows "opens_nothing p q"
proof (cases e)
  case (CandidateStatusChanged candidate a b reason)
  with assms(1) have "with_candidate candidate (change_candidate_status a b t) p = Inr q" by simp
  then show ?thesis by (rule opens_nothing_with) (auto dest: change_status_open)
next
  case (CandidateDiffRecorded candidate digest files changed)
  with assms(1) obtain r where "with_candidate candidate (\<lambda>c. Inr (c\<lparr>cr_diff_digest := Some digest,
      cr_changed_files := files, cr_changed_lines := changed\<rparr>)) p = Inr r"
      and "rp_candidates q = rp_candidates r" and "rp_winner q = rp_winner r"
    by (auto simp: reduce_candidate_diff_def)
  then show ?thesis by (elim opens_nothing_with) (auto simp: is_open_def)
next
  case (CandidateRepairStarted candidate used budget fingerprint)
  with assms(1) obtain r where "with_candidate candidate
      (\<lambda>c. Inr (repair_started used fingerprint c)) p = Inr r"
      and "rp_candidates q = rp_candidates r" and "rp_winner q = rp_winner r"
    by (auto simp: reduce_repair_started_def)
  then show ?thesis by (elim opens_nothing_with) (auto simp: repair_started_open)
next
  case (CandidateScored candidate score)
  with assms(1) have "with_candidate candidate (\<lambda>c. Inr (c\<lparr>cr_score := Some score\<rparr>)) p = Inr q"
    by simp
  then show ?thesis by (rule opens_nothing_with) (auto simp: is_open_def)
next
  case (CandidateExcluded candidate reasons)
  with assms(1) have "with_candidate candidate
      (\<lambda>c. Inr (c\<lparr>cr_exclusion_reasons := reasons, cr_promotable := False\<rparr>)) p = Inr q"
    by simp
  then show ?thesis by (rule opens_nothing_with) (auto simp: is_open_def)
next
  case (TestEvidenceRecorded candidate node passed commands failing coverage duration)
  with assms(1) show ?thesis
    by (intro opens_nothing_frame [OF gate_duration_opens_nothing [of p candidate duration]])
      (auto simp: reduce_test_evidence_def Let_def gate_durations_frame)
next
  case (ReviewEvidenceRecorded candidate node passed providers failing blockers duration)
  with assms(1) show ?thesis
    by (intro opens_nothing_frame [OF gate_duration_opens_nothing [of p candidate duration]])
      (auto simp: reduce_review_evidence_def Let_def gate_durations_frame)
next
  case (IntegrationAttempted candidate applied detail)
  with assms(1) integration_opens_nothing [of p candidate applied detail] show ?thesis by auto
qed (use assms in \<open>auto simp: calm_event_def reduce_run_created_def reduce_run_status_def
    reduce_baseline_def reduce_configuration_def reduce_plan_version_def reduce_plan_decision_def
    reduce_plan_invalidated_def reduce_commit_created_def reduce_process_supervision_def
    reduce_run_exported_def reduce_node_started_def accumulate_duration_def guard_Inr Let_def
    intro!: opens_nothing_same dest!: close_attempt_Inr\<close>)

section \<open>Promotions\<close>

lemma next_promotable_open:
  assumes "next_promotable p w = Some n" and "rp_winner p = Some w"
  shows "n \<in> open_candidates p"
proof -
  from assms(1) obtain computed entry where "rp_ranking p = Some computed"
      and best: "min_by_key rank_or_last (filter (may_be_promoted p w) (rg_entries computed))
        = Some entry" and n: "n = rk_candidate_id entry"
    by (auto simp: next_promotable_def bind_eq_Some_conv)
  from min_by_key_Some [OF best] have "may_be_promoted p w entry" by simp
  with n assms(2) show ?thesis
    by (auto simp: may_be_promoted_def open_candidates_def is_open_def split: option.splits)
qed

text \<open>The events that end a failed integration of \<open>w\<close>, after events that open nothing.\<close>

lemma promotion_shrinks:
  assumes "opens_nothing p q" and "rp_winner p = Some w" and "next_promotable p w = Some n"
    and "reduce (CandidateExcluded w reasons) t s q = Inr r"
    and "reduce (CandidatePromotionRequested w (Some n) detail) t' s' r = Inr u"
  shows "card (open_candidates u) < card (open_candidates p)"
proof -
  have "opens_nothing q r" using assms(4) by (rule calm_opens_nothing) (simp add: calm_event_def)
  then have sub: "open_candidates r \<subseteq> open_candidates p"
    using opens_nothing_subset [OF assms(1)] opens_nothing_subset by blast
  have winner: "rp_winner r = Some w"
    using assms(1,2) \<open>opens_nothing q r\<close> by (simp add: opens_nothing_def)
  have u: "u = reduce_promotion w (Some n) r" using assms(5) by simp
  have flags: "candidate_of u i = (if i = w
      then map_option (\<lambda>c. c\<lparr>cr_promotable := False\<rparr>) (candidate_of r i) else candidate_of r i)" for i
  proof -
    have "candidate_of u i = candidate_of (modify_candidate w (\<lambda>c. c\<lparr>cr_promotable := False\<rparr>) r) i"
      by (simp add: u reduce_promotion_def candidate_of_def)
    then show ?thesis
      using candidate_of_modify [of r w "\<lambda>c. c\<lparr>cr_promotable := False\<rparr>" i]
      by (simp add: candidate_of_found)
  qed
  have "open_candidates u \<subseteq> open_candidates r - {n}"
    using flags winner
    by (auto simp: open_candidates_def is_open_def u reduce_promotion_def split: if_splits)
  also have "\<dots> \<subseteq> open_candidates p - {n}" using sub by blast
  also have "\<dots> \<subset> open_candidates p" using next_promotable_open [OF assms(3,2)] by blast
  finally show ?thesis by (rule psubset_card_mono [OF finite_open])
qed

text \<open>Applying events, each at its own time.\<close>

definition apply_stamped ::
    "(event_payload \<times> timestamp \<times> u64) list \<Rightarrow> run_projection \<Rightarrow> run_projection domain_result" where
  "apply_stamped stamped p = try_fold (\<lambda>q (e, t, s). reduce e t s q) p stamped"

lemma apply_stamped_Cons:
  "apply_stamped ((e, t, s) # es) p = and_then (reduce e t s p) (apply_stamped es)"
proof -
  have "apply_stamped es = (\<lambda>q. try_fold (\<lambda>q (e, t, s). reduce e t s q) q es)"
    by (rule ext) (simp add: apply_stamped_def)
  then show ?thesis by (simp add: apply_stamped_def)
qed

lemma apply_stamped_Nil [simp]: "apply_stamped [] p = Inr p"
  by (simp add: apply_stamped_def)

lemma promotion_events_shrink:
  assumes "map fst stamped = e # promotion_events p w detail" and "calm_event e"
    and "rp_winner p = Some w" and "next_promotable p w \<noteq> None"
    and "apply_stamped stamped p = Inr u"
  shows "card (open_candidates u) < card (open_candidates p)"
proof -
  from assms(4) obtain n where n: "next_promotable p w = Some n" by blast
  with assms(1) obtain t1 s1 t2 s2 t3 s3 where stamped: "stamped = [(e, t1, s1),
      (CandidateExcluded w [IntegrationFailed detail], t2, s2),
      (CandidatePromotionRequested w (Some n) detail, t3, s3)]"
    by (auto simp: promotion_events_def map_eq_Cons_conv)
  with assms(5) obtain q r where first: "reduce e t1 s1 p = Inr q"
      and second: "reduce (CandidateExcluded w [IntegrationFailed detail]) t2 s2 q = Inr r"
      and third: "reduce (CandidatePromotionRequested w (Some n) detail) t3 s3 r = Inr u"
    by (auto simp: apply_stamped_Cons)
  from promotion_shrinks [OF calm_opens_nothing [OF first assms(2)] assms(3) n second third]
  show ?thesis .
qed

lemma promote_events_shape:
  "promote_events p w detail
    = IntegrationAttempted w False (Some detail) # promotion_events p w detail"
  by (simp add: promote_events_def promotion_events_def)

section \<open>What the nodes of the integration emit\<close>

definition promotes :: "run_projection \<Rightarrow> node_output \<Rightarrow> bool" where
  "promotes p output \<longleftrightarrow>
     (\<exists>w e detail. rp_winner p = Some w \<and> next_promotable p w \<noteq> None \<and> calm_event e
        \<and> no_events output = e # promotion_events p w detail)"

lemma promote_next_promotes:
  assumes "rp_winner p = Some w" and "no_next (promote_next p w detail evidence) = Some IntegrateWinner"
  shows "promotes p (promote_next p w detail evidence)"
proof -
  have "next_promotable p w \<noteq> None"
    using assms(2)
    by (simp add: promote_next_def Let_def exhausted_output_def output_simps split: if_splits)
  moreover from this obtain n where "next_promotable p w = Some n" by blast
  then have "no_events (promote_next p w detail evidence)
      = IntegrationAttempted w False (Some detail) # promotion_events p w detail"
    by (simp add: promote_next_def Let_def output_simps promote_events_shape)
  ultimately show ?thesis using assms(1) unfolding promotes_def
    by (intro exI [of _ w] exI [of _ "IntegrationAttempted w False (Some detail)"] exI [of _ detail])
      (simp add: calm_event_def)
qed

lemma final_gate_promotes:
  assumes "rp_winner p = Some w" and "calm_event event" and "next \<noteq> IntegrateWinner"
    and "no_next (final_gate_output p w event passed next detail artifacts metrics evidence)
      = Some IntegrateWinner"
  shows "promotes p (final_gate_output p w event passed next detail artifacts metrics evidence)"
proof -
  have failing: "\<not> passed" and found: "next_promotable p w \<noteq> None"
    using assms(3,4) by (auto simp: final_gate_output_def finish_with_promotion_def Let_def
        exhausted_output_def output_simps split: if_splits option.splits)
  then have "no_events (final_gate_output p w event passed next detail artifacts metrics evidence)
      = event # promotion_events p w detail"
    by (auto simp: final_gate_output_def finish_with_promotion_def Let_def output_simps)
  with assms(1,2) found show ?thesis unfolding promotes_def
    by (intro exI [of _ w] exI [of _ event] exI [of _ detail]) simp
qed

definition promotes_if_asked :: "run_projection \<Rightarrow> node_output \<Rightarrow> bool" where
  "promotes_if_asked p output \<longleftrightarrow> (no_next output = Some IntegrateWinner \<longrightarrow> promotes p output)"

lemma yields_lift_bind:
  "(\<And>a. r = Inr a \<Longrightarrow> yields Q (f a)) \<Longrightarrow> yields Q (then_do (lift_result r) f)"
  by (cases r) (auto simp: yields_def then_do_def lift_result_def)

lemma integrate_promotes: "yields (promotes_if_asked (nc_projection c)) (integrate_execute P cx c)"
  unfolding integrate_execute_def
proof (rule yields_then, rule yields_lift_bind)
  fix baseline winner
  assume "ok_or (Internal ''no winner is selected for integration'') (rp_winner (nc_projection c))
    = Inr winner"
  then have winner: "rp_winner (nc_projection c) = Some winner"
    by (cases "rp_winner (nc_projection c)") auto
  show "yields (promotes_if_asked (nc_projection c))
    (then_do (lift_result (lift_domain (branch_name_from_str
       (worktree_role_branch (np_externals P) (cx_run_id cx) Integration None)))) (\<lambda>branch.
     then_do (np_create_worktree P (ef_repository_path (cx_configuration cx)) (cx_run_id cx) None
       Integration baseline branch) (\<lambda>handle.
     then_do (np_reset_worktree P (wk_path handle) baseline) (\<lambda>_.
     then_do (load_dirty_snapshot P cx c) (\<lambda>snapshot.
     then_do (case snapshot of
         Some taken \<Rightarrow> np_apply_snapshot P (wk_path handle) taken | None \<Rightarrow> ok ()) (\<lambda>_.
     then_do (unwrap_or [] (np_read_diff P (cx_run_id cx) (Some winner)))
       (integrate_patch P cx c winner (wk_path handle))))))))"
    unfolding integrate_patch_def Let_def
    by (intro yields_rules)
      (auto simp: promotes_if_asked_def promote_next_promotes [OF winner] output_simps)
qed

lemma winner_of_Inr: "winner_of c = Inr w \<Longrightarrow> rp_winner (nc_projection c) = Some w"
  by (cases "rp_winner (nc_projection c)") (auto simp: winner_of_def)

lemma final_test_promotes: "yields (promotes_if_asked (nc_projection c)) (final_test_execute P cx c)"
  unfolding final_test_execute_def
proof (rule yields_then, rule yields_then, rule yields_lift_bind)
  fix worktree baseline winner assume "winner_of c = Inr winner"
  note winner = winner_of_Inr [OF this]
  show "yields (promotes_if_asked (nc_projection c))
    (then_do (prepare_gate P cx c None worktree baseline) (\<lambda>gate.
     then_do (run_test_gate P cx c gate) (\<lambda>(evidence, artifacts, printed).
     ok (final_gate_output (nc_projection c) winner (test_event cx None FinalTest evidence)
       (all_required_passed evidence) FinalReview
       (''the final tests failed in the integration worktree: ''
         @ join_str '', '' (map fst (failed_required evidence)))
       artifacts (final_test_metrics P evidence)
       (printed_evidence P (final_test_input cx winner) printed)))))"
    by (intro yields_rules) (auto simp: promotes_if_asked_def test_event_def calm_event_def
        intro!: final_gate_promotes winner)
qed

lemma final_review_promotes:
  "yields (promotes_if_asked (nc_projection c)) (final_review_execute P cx c)"
  unfolding final_review_execute_def
proof (rule yields_then, rule yields_then, rule yields_lift_bind)
  fix worktree baseline winner assume "winner_of c = Inr winner"
  note winner = winner_of_Inr [OF this]
  show "yields (promotes_if_asked (nc_projection c))
    (then_do (prepare_gate P cx c None worktree baseline) (\<lambda>gate.
     then_do (run_review_gate P cx c gate) (\<lambda>(review, stored, duration, printed).
     ok (final_gate_output (nc_projection c) winner (review_event None FinalReview review duration)
       (review_gate_passed review) CommitApproval
       (''the final review failed in the integration worktree: ''
         @ join_str '', '' (failed_required_providers review))
       stored (final_review_metrics review)
       (printed_evidence P (final_review_input cx winner) printed)))))"
    by (intro yields_rules) (auto simp: promotes_if_asked_def review_event_def calm_event_def
        intro!: final_gate_promotes winner)
qed

lemma execute_call_promotes:
  assumes "execute_call P cx c w = (Inr output, v)"
    and "nc_node c \<in> {IntegrateWinner, FinalTest, FinalReview}"
    and "no_next output = Some IntegrateWinner"
  shows "promotes (nc_projection c) output"
proof -
  have "yields (promotes_if_asked (nc_projection c)) (execute_call P cx c)"
    using assms(2) by (auto simp: execute_call_def integrate_promotes final_test_promotes
        final_review_promotes)
  from yieldsD [OF this assms(1)] assms(3) show ?thesis by (simp add: promotes_if_asked_def)
qed

lemma promotes_shrinks:
  assumes "promotes p output" and "map fst stamped = no_events output"
    and "apply_stamped stamped p = Inr u"
  shows "card (open_candidates u) < card (open_candidates p)"
  using assms promotion_events_shrink unfolding promotes_def by metis

section \<open>A run of the integration\<close>

text \<open>
  \<open>integration_run P p k q\<close>: from \<open>p\<close> the run reaches \<open>q\<close> through events that neither register nor
  choose a candidate, and through \<open>k\<close> outputs of integration nodes that ask for a promotion.
\<close>

inductive integration_run ::
    "'w node_ports \<Rightarrow> run_projection \<Rightarrow> nat \<Rightarrow> run_projection \<Rightarrow> bool" for P p where
  integration_start: "integration_run P p 0 p"
| integration_calm: "integration_run P p k q \<Longrightarrow> calm_event e \<Longrightarrow> reduce e t s q = Inr r \<Longrightarrow>
    integration_run P p k r"
| integration_promoted: "integration_run P p k q \<Longrightarrow> nc_projection c = q \<Longrightarrow>
    nc_node c \<in> {IntegrateWinner, FinalTest, FinalReview} \<Longrightarrow>
    execute_call P cx c w = (Inr output, v) \<Longrightarrow> no_next output = Some IntegrateWinner \<Longrightarrow>
    map fst stamped = no_events output \<Longrightarrow> apply_stamped stamped q = Inr r \<Longrightarrow>
    integration_run P p (Suc k) r"

lemma integration_run_bound:
  "integration_run P p k q \<Longrightarrow> k + card (open_candidates q) \<le> card (open_candidates p)"
proof (induction rule: integration_run.induct)
  case (integration_calm k q e t s r)
  have "card (open_candidates r) \<le> card (open_candidates q)"
    using calm_opens_nothing [OF integration_calm(3,2)]
    by (intro card_mono finite_open opens_nothing_subset)
  with integration_calm.IH show ?case by simp
next
  case (integration_promoted k q c cx w out v stamped r)
  have "promotes q out"
    using execute_call_promotes [OF integration_promoted(4,3,5)] integration_promoted(2) by simp
  from promotes_shrinks [OF this integration_promoted(6,7)] integration_promoted.IH
  show ?case by simp
qed simp

end
