(* ===== verification/Forge_Node_Facts.thy ===== *)
theory Forge_Node_Facts
  imports Forge_Node_Results
begin

text \<open>
  What the nodes do with the world: which candidate the join node chooses and on what evidence,
  which commits and which agent invocations are ever requested. That a call is only made with
  arguments in a set is stated by replacing the port: a node cannot tell a port from one that
  differs from it outside that set.
\<close>

section \<open>Join\<close>

text \<open>A candidate whose stored evidence passes the gates.\<close>

definition passed_gates :: "'w node_ports \<Rightarrow> run_context \<Rightarrow> candidate_record \<Rightarrow> bool" where
  "passed_gates P cx k \<longleftrightarrow>
     (\<exists>tests review patch w1 v1 w2 v2 w3 v3.
        np_read_test_evidence P (cx_run_id cx) (Some (cr_id k)) w1 = (Inr tests, v1)
        \<and> np_read_review P (cx_run_id cx) (Some (cr_id k)) w2 = (Inr (Some review), v2)
        \<and> np_read_diff P (cx_run_id cx) (Some (cr_id k)) w3 = (Inr patch, v3)
        \<and> (\<forall>evidence. tests = Some evidence \<longrightarrow> all_required_passed evidence)
        \<and> review_gate_passed review \<and> blocker_policy_issues review = [] \<and> patch \<noteq> []
        \<and> cr_status k \<notin> {candidate_status.Cancelled, candidate_status.Interrupted})"

lemma unwrap_or_Inr: "unwrap_or d m w = (Inr a, v) \<Longrightarrow> a \<noteq> d \<Longrightarrow> m w = (Inr a, v)"
  by (auto simp: unwrap_or_def caught_def then_do_def ok_def split: prod.splits sum.splits)

lemma eligibility_of_iff:
  assumes "eo_eligible (eligibility_of configuration k tests review patch applies)"
  shows "all_required_passed tests \<and> review_gate_passed review \<and> blocker_policy_issues review = []
    \<and> patch \<noteq> [] \<and> cr_status k \<notin> {candidate_status.Cancelled, candidate_status.Interrupted}"
  using assms
  unfolding eligibility_of_def evaluate_eligibility_iff review_gate_passed_def by simp

lemma join_candidate_entry:
  assumes "join_candidate P cx k w = (Inr entry, v)"
  shows "rk_candidate_id entry = cr_id k" and "rk_score entry \<noteq> None \<longleftrightarrow> rk_eligible entry"
    and "rk_eligible entry \<Longrightarrow> passed_gates P cx k"
proof -
  from assms obtain found_tests w1 found_review w2 patch w3 applies w4 where
    tests: "np_read_test_evidence P (cx_run_id cx) (Some (cr_id k)) w = (Inr found_tests, w1)"
    and review: "np_read_review P (cx_run_id cx) (Some (cr_id k)) w1 = (Inr found_review, w2)"
    and patch: "unwrap_or [] (np_read_diff P (cx_run_id cx) (Some (cr_id k))) w2 = (Inr patch, w3)"
    and entry: "entry = (let outcome = eligibility_of (cx_configuration cx) k
        (case found_tests of Some t \<Rightarrow> t | None \<Rightarrow> test_evidence_default)
        (case found_review of Some r \<Rightarrow> r | None \<Rightarrow> \<lparr>ag_reports = []\<rparr>) patch applies
      in \<lparr>rk_candidate_id = cr_id k, rk_eligible = eo_eligible outcome,
          rk_score = (if eo_eligible outcome then Some (score_build k
            (case found_review of Some r \<Rightarrow> r | None \<Rightarrow> \<lparr>ag_reports = []\<rparr>)
            (case found_tests of Some t \<Rightarrow> t | None \<Rightarrow> test_evidence_default)) else None),
          rk_exclusion_reasons = eo_reasons outcome, rk_rank = None\<rparr>)"
    unfolding join_candidate_def Let_def then_do_Inr by (auto simp: ok_def)
  show "rk_candidate_id entry = cr_id k" and "rk_score entry \<noteq> None \<longleftrightarrow> rk_eligible entry"
    by (simp_all add: entry Let_def)
  let ?tests = "case found_tests of Some t \<Rightarrow> t | None \<Rightarrow> test_evidence_default"
  let ?review = "case found_review of Some r \<Rightarrow> r | None \<Rightarrow> \<lparr>ag_reports = []\<rparr>"
  assume "rk_eligible entry"
  then have "eo_eligible (eligibility_of (cx_configuration cx) k ?tests ?review patch applies)"
    by (simp add: entry Let_def)
  note gates = eligibility_of_iff [OF this]
  from gates obtain aggregated where found: "found_review = Some aggregated"
    by (cases found_review) (auto simp: review_gate_passed_def has_required_provider_def)
  from gates unwrap_or_Inr [OF patch] tests review found
  show "passed_gates P cx k" unfolding passed_gates_def
    by (intro exI [of _ found_tests] exI [of _ aggregated] exI [of _ patch] exI [of _ w]
        exI [of _ w1] exI [of _ w2] exI [of _ w3]) auto
qed

lemma join_candidates_entries:
  assumes "join_candidates P cx ks es w = (Inr entries, v)"
  shows "\<exists>joined. entries = es @ joined
    \<and> list_all2 (\<lambda>k e. \<exists>w v. join_candidate P cx k w = (Inr e, v)) ks joined"
  using assms
proof (induction ks arbitrary: es w)
  case (Cons k ks)
  then obtain e u where first: "join_candidate P cx k w = (Inr e, u)"
      and "join_candidates P cx ks (es @ [e]) u = (Inr entries, v)"
    by (auto simp: then_do_Inr)
  from Cons.IH [OF this(2)] obtain joined where "entries = (es @ [e]) @ joined"
      and "list_all2 (\<lambda>k e. \<exists>w v. join_candidate P cx k w = (Inr e, v)) ks joined" by blast
  with first show ?case by (intro exI [of _ "e # joined"]) auto
qed (auto simp: ok_def)

lemma join_execute_entries:
  assumes "join_execute P cx c w = (Inr output, v)"
  shows "\<exists>entries evidence. output = join_output entries evidence
    \<and> list_all2 (\<lambda>k e. rk_candidate_id e = cr_id k \<and> (rk_score e \<noteq> None \<longleftrightarrow> rk_eligible e)
         \<and> (rk_eligible e \<longrightarrow> passed_gates P cx k))
        (rp_candidates (nc_projection c)) entries"
proof -
  from assms obtain entries evidence u where "output = join_output entries evidence"
      and joined: "\<exists>u t. join_candidates P cx (rp_candidates (nc_projection c)) [] u = (Inr entries, t)"
    unfolding join_execute_def by (auto simp: then_do_Inr ok_def)
  moreover from joined obtain u t where
      "join_candidates P cx (rp_candidates (nc_projection c)) [] u = (Inr entries, t)" by blast
  from join_candidates_entries [OF this] have
    "list_all2 (\<lambda>k e. rk_candidate_id e = cr_id k \<and> (rk_score e \<noteq> None \<longleftrightarrow> rk_eligible e)
         \<and> (rk_eligible e \<longrightarrow> passed_gates P cx k)) (rp_candidates (nc_projection c)) entries"
    by (auto elim!: list_all2_mono dest: join_candidate_entry)
  ultimately show ?thesis by blast
qed

text \<open>
  What the join decides when nobody writes to the evidence meanwhile: reads give the same answer in
  every world.
\<close>

definition evidence_fixed :: "'w node_ports \<Rightarrow> run_id \<Rightarrow> (candidate_id \<Rightarrow> test_evidence option)
    \<Rightarrow> (candidate_id \<Rightarrow> aggregated_review option) \<Rightarrow> (candidate_id \<Rightarrow> string) \<Rightarrow> bool" where
  "evidence_fixed P run tests reviews patches \<longleftrightarrow>
     (\<forall>i w. fst (np_read_test_evidence P run (Some i) w) = Inr (tests i)
        \<and> fst (np_read_review P run (Some i) w) = Inr (reviews i)
        \<and> fst (np_read_diff P run (Some i) w) = Inr (patches i))"

definition gates_pass ::
    "candidate_record \<Rightarrow> test_evidence option \<Rightarrow> aggregated_review option \<Rightarrow> string \<Rightarrow> bool" where
  "gates_pass k tests review patch \<longleftrightarrow>
     (case tests of Some evidence \<Rightarrow> all_required_passed evidence | None \<Rightarrow> True)
     \<and> (case review of
          Some aggregated \<Rightarrow> review_gate_passed aggregated \<and> blocker_policy_issues aggregated = []
        | None \<Rightarrow> False)
     \<and> patch \<noteq> [] \<and> cr_status k \<notin> {candidate_status.Cancelled, candidate_status.Interrupted}"

lemma passed_gates_fixed:
  assumes "passed_gates P cx k" and "evidence_fixed P (cx_run_id cx) tests reviews patches"
  shows "gates_pass k (tests (cr_id k)) (reviews (cr_id k)) (patches (cr_id k))"
  using assms unfolding passed_gates_def evidence_fixed_def gates_pass_def
  by (fastforce split: option.split dest: arg_cong [where f = fst])

definition decision_of_join :: "('k \<Rightarrow> candidate_id) \<Rightarrow> ('k \<Rightarrow> bool) \<Rightarrow> 'k list \<Rightarrow> node_output \<Rightarrow> bool" where
  "decision_of_join name passes ks output \<longleftrightarrow>
     (case sp_winner (no_state_patch output) of
        Some winner \<Rightarrow>
          no_next output = Some IntegrateWinner
          \<and> last (no_events output) = WinnerSelected winner 1
          \<and> (\<exists>k \<in> set ks. name k = winner \<and> passes k)
          \<and> (\<exists>score. CandidateScored winner score \<in> set (no_events output)
               \<and> (\<forall>j other. CandidateScored j other \<in> set (no_events output) \<longrightarrow> score \<le> other))
      | None \<Rightarrow>
          no_next output = None \<and> sp_run_status (no_state_patch output) = Some Exhausted
          \<and> (\<forall>k \<in> set ks. \<exists>reasons. CandidateExcluded (name k) reasons \<in> set (no_events output)))"

lemma entry_event_scored:
  "entry_event e = CandidateScored i s \<longleftrightarrow> rk_candidate_id e = i \<and> rk_score e = Some s"
  by (auto simp: entry_event_def split: option.split)

lemma join_output_decides:
  assumes "list_all2 (\<lambda>k e. rk_candidate_id e = name k \<and> (rk_score e \<noteq> None \<longleftrightarrow> rk_eligible e)
      \<and> (rk_eligible e \<longrightarrow> passes k)) ks entries"
  shows "decision_of_join name passes ks (join_output entries evidence)"
proof (cases "rg_winner (rank_candidates entries)")
  case None
  then have unranked: "\<not> rankable e" if "e \<in> set entries" for e
    using ranking_winner_exists that by blast
  have "\<exists>reasons. CandidateExcluded (name k) reasons \<in> entry_event ` set entries" if "k \<in> set ks" for k
  proof -
    from assms that obtain e where "e \<in> set entries" "rk_candidate_id e = name k"
        "rk_score e \<noteq> None \<longleftrightarrow> rk_eligible e" by (fastforce simp: list_all2_conv_all_nth in_set_conv_nth)
    with unranked [of e] have "entry_event e = CandidateExcluded (name k) (rk_exclusion_reasons e)"
      by (auto simp: rankable_def entry_event_def)
    with \<open>e \<in> set entries\<close> show ?thesis by force
  qed
  with None show ?thesis
    by (simp add: decision_of_join_def join_output_def Let_def output_simps state_patch_default_def)
next
  case (Some winner)
  obtain e where e: "e \<in> set entries" and winner: "rk_candidate_id e = winner" and "rankable e"
      and least: "\<forall>d \<in> set entries. rankable d \<longrightarrow> the (rk_score e) \<le> the (rk_score d)"
    using ranking_winner_least [OF Some] by blast
  then obtain s where s: "rk_score e = Some s" and eligible: "rk_eligible e"
    by (auto simp: rankable_def)
  have scored: "rankable d" if "d \<in> set entries" "rk_score d \<noteq> None" for d
    using assms that by (auto simp: list_all2_conv_all_nth in_set_conv_nth rankable_def)
  have first: "CandidateScored winner s \<in> entry_event ` set entries"
    using e s winner by (intro image_eqI [of _ _ e]) (simp_all add: entry_event_def)
  have best: "s \<le> other" if "CandidateScored j other \<in> entry_event ` set entries" for j other
  proof -
    from that obtain d where "d \<in> set entries" "rk_score d = Some other"
      by (auto simp: entry_event_scored dest!: sym [of _ "entry_event _"])
    with scored [of d] least s show ?thesis by auto
  qed
  have "\<exists>k \<in> set ks. name k = winner \<and> passes k"
    using assms e winner eligible by (fastforce simp: list_all2_conv_all_nth in_set_conv_nth)
  with Some first best show ?thesis
    by (auto simp: decision_of_join_def join_output_def Let_def output_simps state_patch_default_def)
qed

lemma join_execute_decides:
  assumes "evidence_fixed P (cx_run_id cx) tests reviews patches"
    and "join_execute P cx c w = (Inr output, v)"
  shows "decision_of_join cr_id
    (\<lambda>k. gates_pass k (tests (cr_id k)) (reviews (cr_id k)) (patches (cr_id k)))
    (rp_candidates (nc_projection c)) output"
proof -
  obtain entries evidence where out: "output = join_output entries evidence"
      and entries: "list_all2 (\<lambda>k e. rk_candidate_id e = cr_id k \<and> (rk_score e \<noteq> None \<longleftrightarrow> rk_eligible e)
         \<and> (rk_eligible e \<longrightarrow> passed_gates P cx k)) (rp_candidates (nc_projection c)) entries"
    using join_execute_entries [OF assms(2)] by blast
  show ?thesis
    unfolding out
    by (rule join_output_decides)
      (use entries in \<open>auto elim!: list_all2_mono dest: passed_gates_fixed [OF _ assms(1)]\<close>)
qed

section \<open>Commit\<close>

definition write_allowed :: "'w node_ports \<Rightarrow> path_policy \<Rightarrow> string \<Rightarrow> bool" where
  "write_allowed P policy path \<longleftrightarrow>
     (\<exists>relative. path_parse path = Inr relative
        \<and> evaluate_path policy (glob_pattern_matcher (np_compile_glob P)) relative Write = Inr ())"

lemma refused_path_None:
  "refused_path P policy paths = Inr None \<longleftrightarrow> (\<forall>path \<in> set paths. write_allowed P policy path)"
proof (induction paths)
  case (Cons path paths)
  show ?case
  proof (cases "path_parse path")
    case (Inr relative)
    with Cons show ?thesis
      by (cases "evaluate_path policy (glob_pattern_matcher (np_compile_glob P)) relative Write")
        (auto simp: write_allowed_def lift_domain_def)
  qed (simp add: write_allowed_def lift_domain_def)
qed simp

lemma refused_path_frame [simp]:
  "refused_path (P\<lparr>np_create_commit := f\<rparr>) policy paths = refused_path P policy paths"
  by (induction paths) (simp_all cong: sum.case_cong)

lemma commit_request_frame [simp]:
  "commit_request_of (P\<lparr>np_create_commit := f\<rparr>) cx c worktree branch paths
    = commit_request_of P cx c worktree branch paths"
  by (simp add: commit_request_of_def commit_subject_def to_imperative_def Let_def)

lemma then_do_lifted [simp]:
  "then_do (lift_result (Inr a)) f = f a" "then_do (lift_result (Inl e)) f = stop e"
  by (simp_all add: fun_eq_iff then_do_def lift_result_def stop_def)

lemma commit_paths_frame:
  assumes "\<And>r v. \<forall>path \<in> set (cq_paths r). write_allowed P (ef_path_policy (cx_configuration cx)) path
      \<Longrightarrow> f r v = np_create_commit P r v"
  shows "commit_paths (P\<lparr>np_create_commit := f\<rparr>) cx c worktree evidence paths w
    = commit_paths P cx c worktree evidence paths w"
proof (cases "refused_path P (ef_path_policy (cx_configuration cx)) paths = Inr None")
  case True
  then have "f (commit_request_of P cx c worktree branch paths)
      = np_create_commit P (commit_request_of P cx c worktree branch paths)" for branch
    by (intro ext assms) (simp add: commit_request_of_def refused_path_None)
  with True show ?thesis by (simp add: commit_paths_def Let_def)
next
  case False
  then show ?thesis
    by (cases "refused_path P (ef_path_policy (cx_configuration cx)) paths")
      (auto simp: commit_paths_def Let_def)
qed

lemma commit_requests_allowed:
  assumes "\<And>r v. \<forall>path \<in> set (cq_paths r). write_allowed P (ef_path_policy (cx_configuration cx)) path
      \<Longrightarrow> f r v = np_create_commit P r v"
  shows "commit_execute (P\<lparr>np_create_commit := f\<rparr>) cx c w = commit_execute P cx c w"
proof -
  have "commit_paths (P\<lparr>np_create_commit := f\<rparr>) cx c worktree evidence paths
      = commit_paths P cx c worktree evidence paths" for worktree evidence paths
    by (rule ext) (rule commit_paths_frame [OF assms])
  then have "commit_paths (P\<lparr>np_create_commit := f\<rparr>) cx c worktree evidence
      = commit_paths P cx c worktree evidence" for worktree evidence
    by (rule ext)
  then show ?thesis
    by (simp add: commit_execute_def integration_worktree_def resolve_worktree_def heikas_home_def
        Let_def cong: if_cong option.case_cong)
qed

text \<open>The port that commits only what the policy allows, and does anything else with other requests.\<close>

definition guarded_commit :: "'w node_ports \<Rightarrow> path_policy \<Rightarrow> (commit_request \<Rightarrow> ('w, commit_outcome) step)
    \<Rightarrow> commit_request \<Rightarrow> ('w, commit_outcome) step" where
  "guarded_commit P policy otherwise request =
     (if list_all (write_allowed P policy) (cq_paths request)
      then np_create_commit P request else otherwise request)"

lemma commit_guarded:
  "commit_execute (P\<lparr>np_create_commit :=
     guarded_commit P (ef_path_policy (cx_configuration cx)) otherwise\<rparr>) cx c
   = commit_execute P cx c"
  by (rule ext, rule commit_requests_allowed) (simp add: guarded_commit_def list_all_iff)

end
