(* ===== verification/Forge_Node_Calls.thy ===== *)
theory Forge_Node_Calls
  imports Forge_Node_Facts
begin

text \<open>
  Which agent invocations the nodes make: the planner's, which may change nothing, and for the two
  nodes that edit, one in the worktree of the candidate of the call, under the path policy and the
  commands of the configuration.
\<close>

definition allowed_invocation :: "run_context \<Rightarrow> node_call \<Rightarrow> agent_invocation \<Rightarrow> bool" where
  "allowed_invocation cx c i \<longleftrightarrow>
     ai_run_id i = cx_run_id cx
     \<and> tp_path_policy (ai_tool_policy i) = ef_path_policy (cx_configuration cx)
     \<and> (if nc_node c = Plan
        then ai_role i = Planner \<and> \<not> may_change_files (ai_tool_policy i) \<and> ai_commands i = []
        else nc_node c \<in> {ImplementCandidate, RepairCandidate}
          \<and> (\<exists>candidate candidate_entry home. nc_candidate c = Some candidate
               \<and> candidate_of (nc_projection c) candidate = Some candidate_entry
               \<and> ai_candidate_id i = Some candidate
               \<and> ai_worktree i = path_join home (cr_worktree_relative_path candidate_entry)
               \<and> ai_commands i = ef_commands (cx_configuration cx)
               \<and> (nc_node c = RepairCandidate \<longrightarrow> has_repair_budget candidate_entry)))"

section \<open>A port that no helper uses\<close>

lemma then_do_cong:
  assumes "m = n" and "\<And>a u v. n u = (Inr a, v) \<Longrightarrow> f a = g a"
  shows "then_do m f = then_do n g"
proof
  fix w show "then_do m f w = then_do n g w"
    using assms(2) by (auto simp: assms(1) then_do_def split: prod.splits sum.splits)
qed

lemmas branch_cong = if_cong option.case_cong sum.case_cong prod.case_cong

lemma home_frame [simp]:
  "heikas_home (P\<lparr>np_invoke := f\<rparr>) = heikas_home P"
  "resolve_worktree (P\<lparr>np_invoke := f\<rparr>) = resolve_worktree P"
  by (simp_all add: heikas_home_def resolve_worktree_def fun_eq_iff)

lemma support_frame [simp]:
  "candidate_worktree (P\<lparr>np_invoke := f\<rparr>) cx c candidate = candidate_worktree P cx c candidate"
  "integration_worktree (P\<lparr>np_invoke := f\<rparr>) cx = integration_worktree P cx"
  "approved_plan (P\<lparr>np_invoke := f\<rparr>) cx c = approved_plan P cx c"
  "load_dirty_snapshot (P\<lparr>np_invoke := f\<rparr>) cx c = load_dirty_snapshot P cx c"
  "plan_expected_files (P\<lparr>np_invoke := f\<rparr>) cx c = plan_expected_files P cx c"
  "redacted_streams (P\<lparr>np_invoke := f\<rparr>) = redacted_streams P"
  by (simp_all add: candidate_worktree_def integration_worktree_def approved_plan_def load_dirty_snapshot_def plan_expected_files_def
      redacted_streams_def fun_eq_iff cong: branch_cong)

lemma executable_frame [simp]:
  "missing_executable (P\<lparr>np_invoke := f\<rparr>) commands = missing_executable P commands"
  by (induction commands) (simp_all cong: branch_cong)

lemma prepare_frame [simp]: "prepare_execute (P\<lparr>np_invoke := f\<rparr>) cx c = prepare_execute P cx c"
proof -
  have "prepare_environment (P\<lparr>np_invoke := f\<rparr>) cx evidence facts dirty = prepare_environment P cx evidence facts dirty"
      for evidence facts dirty
    by (rule ext) (simp add: prepare_environment_def prepare_events_def Let_def cong: branch_cong)
  then show ?thesis
    by (simp add: prepare_execute_def take_snapshot_def Let_def cong: branch_cong)
qed

lemma agent_evidence_frame [simp]:
  "agent_evidence (P\<lparr>np_invoke := f\<rparr>) input prompt outcome = agent_evidence P input prompt outcome"
  "repair_evidence (P\<lparr>np_invoke := f\<rparr>) input outcome = repair_evidence P input outcome"
  by (simp_all add: agent_evidence_def repair_evidence_def)

lemma plan_judged_frame [simp]:
  "plan_judged (P\<lparr>np_invoke := f\<rparr>) cx c evidence prompt outcome = plan_judged P cx c evidence prompt outcome"
  "previous_plan_evidence (P\<lparr>np_invoke := f\<rparr>) cx c = previous_plan_evidence P cx c"
  by (simp_all add: plan_judged_def plan_written_def previous_plan_evidence_def Let_def cong: branch_cong)

lemma fan_out_frame [simp]: "fan_out_execute (P\<lparr>np_invoke := f\<rparr>) cx c = fan_out_execute P cx c"
proof -
  have one: "fan_out_candidate (P\<lparr>np_invoke := f\<rparr>) cx baseline snapshot home o' =
      fan_out_candidate P cx baseline snapshot home o'" for baseline snapshot home o'
    by (simp add: fan_out_candidate_def Let_def cong: branch_cong)
  have "fan_out_candidates (P\<lparr>np_invoke := f\<rparr>) cx baseline snapshot home os es =
      fan_out_candidates P cx baseline snapshot home os es" for baseline snapshot home os es
    by (induction os arbitrary: es) (simp_all add: one)
  then show ?thesis by (simp add: fan_out_execute_def)
qed

lemma gates_frame [simp]:
  "prepare_gate (P\<lparr>np_invoke := f\<rparr>) cx c candidate worktree baseline
    = prepare_gate P cx c candidate worktree baseline"
  "run_providers (P\<lparr>np_invoke := f\<rparr>) gate = run_providers P gate"
  "printed_evidence (P\<lparr>np_invoke := f\<rparr>) input printed = printed_evidence P input printed"
  by (simp_all add: prepare_gate_def run_providers_def printed_evidence_def)

lemma store_artifacts_frame [simp]:
  "store_artifacts (P\<lparr>np_invoke := f\<rparr>) cx artifacts references = store_artifacts P cx artifacts references"
  by (induction artifacts arbitrary: references) simp_all

lemma run_gates_frame [simp]:
  "run_test_gate (P\<lparr>np_invoke := f\<rparr>) cx c gate = run_test_gate P cx c gate"
  "run_review_gate (P\<lparr>np_invoke := f\<rparr>) cx c gate = run_review_gate P cx c gate"
  by (simp_all add: run_test_gate_def run_review_gate_def Let_def)

lemma candidate_gates_frame [simp]:
  "test_execute (P\<lparr>np_invoke := f\<rparr>) cx c = test_execute P cx c"
  "review_execute (P\<lparr>np_invoke := f\<rparr>) cx c = review_execute P cx c"
  by (simp_all add: test_execute_def test_metrics_def review_execute_def cong: branch_cong)

lemma join_frame [simp]: "join_execute (P\<lparr>np_invoke := f\<rparr>) cx c = join_execute P cx c"
proof -
  have one: "join_candidate (P\<lparr>np_invoke := f\<rparr>) cx k = join_candidate P cx k" for k
    by (simp add: join_candidate_def check_patch_def Let_def cong: branch_cong)
  have "join_candidates (P\<lparr>np_invoke := f\<rparr>) cx ks es = join_candidates P cx ks es" for ks es
    by (induction ks arbitrary: es) (simp_all add: one)
  then show ?thesis by (simp add: join_execute_def join_input_def)
qed

lemma final_gates_frame [simp]:
  "final_test_execute (P\<lparr>np_invoke := f\<rparr>) cx c = final_test_execute P cx c"
  "final_review_execute (P\<lparr>np_invoke := f\<rparr>) cx c = final_review_execute P cx c"
  by (simp_all add: final_test_execute_def final_review_execute_def final_test_metrics_def)

lemma integrate_frame [simp]: "integrate_execute (P\<lparr>np_invoke := f\<rparr>) cx c = integrate_execute P cx c"
proof -
  have "integrate_patch (P\<lparr>np_invoke := f\<rparr>) cx c winner worktree = integrate_patch P cx c winner worktree"
      for winner worktree
    by (rule ext) (simp add: integrate_patch_def Let_def cong: branch_cong)
  then show ?thesis by (simp add: integrate_execute_def cong: branch_cong)
qed

lemma refused_path_invoke_frame [simp]:
  "refused_path (P\<lparr>np_invoke := f\<rparr>) policy paths = refused_path P policy paths"
  by (induction paths) (simp_all cong: branch_cong)

lemma commit_frame [simp]: "commit_execute (P\<lparr>np_invoke := f\<rparr>) cx c = commit_execute P cx c"
proof -
  have "commit_request_of (P\<lparr>np_invoke := f\<rparr>) cx c worktree branch paths
      = commit_request_of P cx c worktree branch paths" for worktree branch paths
    by (simp add: commit_request_of_def commit_subject_def to_imperative_def Let_def)
  then have "commit_paths (P\<lparr>np_invoke := f\<rparr>) cx c worktree evidence
      = commit_paths P cx c worktree evidence" for worktree evidence
    by (intro ext) (simp add: commit_paths_def Let_def cong: branch_cong)
  then show ?thesis by (simp add: commit_execute_def Let_def cong: branch_cong)
qed

section \<open>The nodes that invoke an agent\<close>

lemma plan_invocation_allowed: "nc_node c = Plan \<Longrightarrow> allowed_invocation cx c (plan_invocation cx prompt)"
  by (simp add: allowed_invocation_def plan_invocation_def Let_def tool_policy_read_only_def
      may_change_files_def)

lemma editing_invocation_allowed:
  assumes "nc_node c \<in> {ImplementCandidate, RepairCandidate}" and "nc_candidate c = Some candidate"
    and "candidate_of (nc_projection c) candidate = Some candidate_entry"
    and "worktree = path_join home (cr_worktree_relative_path candidate_entry)"
    and "nc_node c = RepairCandidate \<longrightarrow> has_repair_budget candidate_entry"
  shows "allowed_invocation cx c (editing_invocation cx role candidate_entry candidate worktree prompt)"
  using assms by (auto simp: allowed_invocation_def editing_invocation_def Let_def
      tool_policy_editing_def)

lemma candidate_worktree_Inr:
  assumes "candidate_worktree P cx c candidate u = (Inr worktree, v)"
    and "candidate_of (nc_projection c) candidate = Some candidate_entry"
  shows "\<exists>home. worktree = path_join home (cr_worktree_relative_path candidate_entry)"
  using assms by (auto simp: candidate_worktree_def resolve_worktree_def then_do_Inr ok_def)

lemma candidate_required_Inr:
  "candidate_required cx c message u = (Inr candidate, v) \<longleftrightarrow> nc_candidate c = Some candidate \<and> v = u"
  by (cases "nc_candidate c") (auto simp: candidate_required_def lift_result_def)

lemma candidate_recorded_Inr:
  "candidate_recorded cx c candidate u = (Inr candidate_entry, v) \<longleftrightarrow>
     candidate_of (nc_projection c) candidate = Some candidate_entry \<and> v = u"
  by (cases "candidate_of (nc_projection c) candidate")
    (auto simp: candidate_recorded_def lift_result_def)

lemma plan_calls:
  assumes "nc_node c = Plan" and "\<And>i. allowed_invocation cx c i \<Longrightarrow> f i = np_invoke P i"
  shows "plan_execute (P\<lparr>np_invoke := f\<rparr>) cx c = plan_execute P cx c"
  using assms(1) by (simp add: plan_execute_def assms(2) plan_invocation_allowed)

lemma record_diff_frame [simp]: "record_diff (P\<lparr>np_invoke := f\<rparr>) cx = record_diff P cx"
  by (simp add: record_diff_def fun_eq_iff)

lemma collect_evidence_frame [simp]: "collect_evidence (P\<lparr>np_invoke := f\<rparr>) cx = collect_evidence P cx"
  by (simp add: collect_evidence_def fun_eq_iff)

text \<open>What the first calls of an editing node establish about its invocation.\<close>

lemma editing_agrees:
  assumes "candidate_required cx c message u = (Inr candidate, v)"
    and "candidate_recorded cx c candidate u1 = (Inr candidate_entry, v1)"
    and "candidate_worktree P cx c candidate u2 = (Inr worktree, v2)"
    and "nc_node c \<in> {ImplementCandidate, RepairCandidate}"
    and "nc_node c = RepairCandidate \<longrightarrow> has_repair_budget candidate_entry"
    and agrees: "\<And>i. allowed_invocation cx c i \<Longrightarrow> f i = np_invoke P i"
  shows "f (editing_invocation cx role candidate_entry candidate worktree prompt)
    = np_invoke P (editing_invocation cx role candidate_entry candidate worktree prompt)"
proof -
  from assms(1,2) have "nc_candidate c = Some candidate"
      and found: "candidate_of (nc_projection c) candidate = Some candidate_entry"
    by (simp_all add: candidate_required_Inr candidate_recorded_Inr)
  moreover from candidate_worktree_Inr [OF assms(3) found] obtain home where
      "worktree = path_join home (cr_worktree_relative_path candidate_entry)" by blast
  ultimately show ?thesis using assms(4,5) by (intro agrees editing_invocation_allowed)
qed

lemma implement_calls:
  assumes "nc_node c = ImplementCandidate"
    and agrees: "\<And>i. allowed_invocation cx c i \<Longrightarrow> f i = np_invoke P i"
  shows "implement_execute (P\<lparr>np_invoke := f\<rparr>) cx c = implement_execute P cx c"
  unfolding implement_execute_def support_frame
proof (intro then_do_cong refl, goal_cases)
  case (1 candidate u v candidate_entry u1 v1 worktree u2 v2)
  from editing_agrees [OF this(1-3) _ _ agrees] assms(1) show ?case by (simp cong: branch_cong)
qed

lemma repair_calls:
  assumes "nc_node c = RepairCandidate"
    and agrees: "\<And>i. allowed_invocation cx c i \<Longrightarrow> f i = np_invoke P i"
  shows "repair_execute (P\<lparr>np_invoke := f\<rparr>) cx c = repair_execute P cx c"
  unfolding repair_execute_def support_frame
proof (intro then_do_cong if_cong refl, goal_cases)
  case (1 candidate u v candidate_entry u1 v1 worktree u2 v2)
  from editing_agrees [OF 1(1,2,4) _ _ agrees] assms(1) 1(3) show ?case
    by (simp add: Let_def cong: branch_cong)
qed

lemma agent_calls:
  assumes "\<And>i. allowed_invocation cx c i \<Longrightarrow> f i = np_invoke P i"
  shows "execute_call (P\<lparr>np_invoke := f\<rparr>) cx c = execute_call P cx c"
proof (cases "nc_node c")
  case Plan
  then show ?thesis using plan_calls [OF Plan assms] by (simp add: execute_call_def)
next
  case ImplementCandidate
  then show ?thesis using implement_calls [OF ImplementCandidate assms] by (simp add: execute_call_def)
next
  case RepairCandidate
  then show ?thesis using repair_calls [OF RepairCandidate assms] by (simp add: execute_call_def)
qed (simp_all add: execute_call_def)

text \<open>The agent that answers the allowed invocations, and does anything else with the others.\<close>

definition guarded_invoke :: "'w node_ports \<Rightarrow> run_context \<Rightarrow> node_call
    \<Rightarrow> (agent_invocation \<Rightarrow> ('w, agent_outcome) step) \<Rightarrow> agent_invocation \<Rightarrow> ('w, agent_outcome) step" where
  "guarded_invoke P cx c otherwise invocation =
     (if allowed_invocation cx c invocation then np_invoke P invocation else otherwise invocation)"

lemma calls_guarded:
  "execute_call (P\<lparr>np_invoke := guarded_invoke P cx c otherwise\<rparr>) cx c = execute_call P cx c"
  by (rule agent_calls) (simp add: guarded_invoke_def)

end
