(* ===== verification/Forge_Progress.thy ===== *)
theory Forge_Progress
  imports Forge_Run_Store
begin

text \<open>
  When the loop of \<open>dispatcher.rs\<close> makes progress, and when it does not: a candidate that is not
  terminal and has no node to run keeps the run at its candidates, and nothing in the loop changes
  that.
\<close>

definition can_advance :: "run_projection \<Rightarrow> candidate_id \<Rightarrow> bool" where
  "can_advance projection candidate =
     (case next_candidate_step projection candidate of RunCandidateNode node \<Rightarrow> True | _ \<Rightarrow> False)"

definition stalled :: "run_projection \<Rightarrow> bool" where
  "stalled projection \<longleftrightarrow>
     next_run_step projection = RunCandidates
     \<and> list_all (\<lambda>c. \<not> can_advance projection c) (active_candidates projection)"

lemma stalled_turn:
  assumes "\<not> can_advance (dp_projection d) c"
  shows "drive_turn S cx c d = (Inr True, d)"
  using assms
  by (cases "next_candidate_step (dp_projection d) c")
    (simp_all add: drive_turn_def can_advance_def step_eval)

definition settled_tasks :: "candidate_id list \<Rightarrow> candidate_task list \<Rightarrow> bool" where
  "settled_tasks candidates tasks \<longleftrightarrow>
     list_all (\<lambda>task. ct_candidate task \<in> set candidates \<and> ct_outcome task \<in> {None, Some (Inr ())}) tasks"

lemma settled_tasks_update:
  assumes "settled_tasks cs tasks" and "i < length tasks"
  shows "settled_tasks cs (tasks[i := (tasks ! i)\<lparr>ct_outcome := Some (Inr ())\<rparr>])"
  using assms set_update_subset_insert [of tasks i "(tasks ! i)\<lparr>ct_outcome := Some (Inr ())\<rparr>"]
  by (auto simp: settled_tasks_def list_all_iff dest: nth_mem)

lemma settled_joined: "settled_tasks cs tasks \<Longrightarrow> joined_result tasks = Inr ()"
proof -
  assume "settled_tasks cs tasks"
  then have "first_error tasks = None"
    unfolding settled_tasks_def by (induction tasks) auto
  then show ?thesis by (simp add: joined_result_def)
qed

lemma stalled_run_tasks:
  assumes "list_all (\<lambda>c. \<not> can_advance (dp_projection d) c) cs" and "settled_tasks cs tasks"
    and "run_tasks S cx n tasks d = Some (tasks', t)"
  shows "dp_projection t = dp_projection d \<and> settled_tasks cs tasks'"
proof (rule conjunct1 [OF run_tasks_invariant
    [where I = "\<lambda>ts u. dp_projection u = dp_projection d \<and> settled_tasks cs ts", OF assms(3)]])
  show "dp_projection d = dp_projection d \<and> settled_tasks cs tasks" using assms(2) by simp
next
  fix i ts u ts' v
  assume i: "i < length ts" and u: "dp_projection u = dp_projection d \<and> settled_tasks cs ts"
    and turn: "task_turn S cx i ts u = (ts', v)"
  have "ct_candidate (ts ! i) \<in> set cs" using i u by (simp add: settled_tasks_def list_all_length)
  with assms(1) u have "\<not> can_advance (dp_projection u) (ct_candidate (ts ! i))"
    by (simp add: list_all_iff)
  from stalled_turn [OF this] turn u settled_tasks_update [OF _ i, of cs]
  show "dp_projection v = dp_projection d \<and> settled_tasks cs ts'"
    by (auto simp: task_turn_def)
qed simp

text \<open>A turn of a stalled run starts its tasks, sees them end and changes nothing it looks at.\<close>

lemma stalled_run_turn:
  assumes "stalled (dp_projection d)" and "\<And>w. \<exists>n v. sv_logical_processors S w = (Inr n, v)"
    and "run_turn S cx d = Some (r, t)"
  shows "r = Inr None \<and> dp_projection t = dp_projection d"
proof -
  let ?cs = "active_candidates (dp_projection d)"
  from assms(1) have step: "next_run_step (dp_projection d) = RunCandidates"
    and stuck: "list_all (\<lambda>c. \<not> can_advance (dp_projection d) c) ?cs" by (simp_all add: stalled_def)
  obtain n v where host: "sv_logical_processors S (dp_world d) = (Inr n, v)" using assms(2) by blast
  show ?thesis
  proof (cases "?cs = []")
    case True
    with assms(3) step show ?thesis by (auto simp: run_turn_def run_candidate_subgraphs_def)
  next
    case False
    let ?k = "unat (max (effective_parallelism (ef_budgets (cx_configuration cx)) n) 1)"
    from assms(3) step host False obtain tasks' where
      run: "run_tasks S cx ?k (map spawn_task ?cs) (d\<lparr>dp_world := v\<rparr>) = Some (tasks', t)"
      and r: "r = map_ok (\<lambda>_. None) (joined_result tasks')"
      by (auto simp: run_turn_def run_candidate_subgraphs_def on_world_def Let_def)
    have "settled_tasks ?cs (map spawn_task ?cs)"
      by (simp add: settled_tasks_def list_all_iff spawn_task_def)
    from stalled_run_tasks [OF _ this run] stuck have
      "dp_projection t = dp_projection d" "settled_tasks ?cs tasks'" by simp_all
    with r settled_joined show ?thesis by simp
  qed
qed

lemma stalled_run_loop:
  assumes "stalled (dp_projection d)" and "\<And>w. \<exists>n v. sv_logical_processors S w = (Inr n, v)"
  shows "run_loop S cx d = None"
proof (rule ccontr)
  assume "run_loop S cx d \<noteq> None"
  then obtain y where y: "run_loop S cx d = Some y" by blast
  have "S = S \<longrightarrow> cx = cx \<longrightarrow> stalled (dp_projection d) \<longrightarrow> False"
  proof (rule run_loop.raw_induct [where P = "\<lambda>S' cx' d y. S' = S \<longrightarrow> cx' = cx \<longrightarrow>
      stalled (dp_projection d) \<longrightarrow> False", OF _ y], intro impI)
    fix loop :: "'a run_services \<Rightarrow> run_context \<Rightarrow> 'a dispatcher
      \<Rightarrow> (dispatch_outcome application_result \<times> 'a dispatcher) option"
    fix S' cx' d y
    assume IH: "\<And>S' cx' d y. loop S' cx' d = Some y \<Longrightarrow>
        S' = S \<longrightarrow> cx' = cx \<longrightarrow> stalled (dp_projection d) \<longrightarrow> False"
      and body: "(case run_turn S' cx' d of None \<Rightarrow> None
        | Some (result, t) \<Rightarrow>
            (case result of Inl e \<Rightarrow> Some (Inl e, t)
             | Inr found \<Rightarrow> (case found of None \<Rightarrow> loop S' cx' t
                 | Some outcome \<Rightarrow> Some (Inr outcome, t)))) = Some y"
      and eqs: "S' = S" "cx' = cx" and st: "stalled (dp_projection d)"
    from body obtain r t where turn: "run_turn S cx d = Some (r, t)"
      by (cases "run_turn S cx d") (auto simp: eqs)
    from stalled_run_turn [OF st assms(2) turn] have "r = Inr None" "stalled (dp_projection t)"
      using st by simp_all
    with body turn IH show False by (auto simp: eqs)
  qed
  with assms(1) show False by blast
qed

end
