(* ===== verification/Forge_Samples.thy ===== *)
theory Forge_Samples
  imports Forge_Log_Recovery Forge_Walks Forge_Scheduler Forge_Errors Forge_Paths Forge_Configuration
begin

text \<open>
  Concrete inputs on which the properties are exercised: crates replaced by small functions,
  logs of sealed events, and a codec that knows the events it is given.
\<close>

section \<open>Crates\<close>

definition hex_byte :: "char \<Rightarrow> string" where
  "hex_byte c = [chr (65 + byte c div 16), chr (65 + byte c mod 16)]"

definition print_int :: "int \<Rightarrow> string" where
  "print_int t = (if t < 0 then [CHR ''-''] else []) @ nat_dec (nat \<bar>t\<bar>)"

definition sample_crates :: externals where
  "sample_crates =
     \<lparr>blake3_hex = (\<lambda>b. concat (map hex_byte b)), uuid_simple = (\<lambda>u. nat_dec (unat u)),
      uuid_hyphenated = (\<lambda>u. nat_dec (unat u)),
      rfc3339 = print_int\<rparr>"

text \<open>The same with a constant digest, for the samples that do not need distinct ones.\<close>

definition constant_crates :: externals where
  "constant_crates = sample_crates\<lparr>blake3_hex := (\<lambda>_. ''h'')\<rparr>"

lemma hex_byte_inject: "hex_byte a = hex_byte b \<longleftrightarrow> a = b"
proof
  assume "hex_byte a = hex_byte b"
  then have digits: "chr (65 + byte a div 16) = chr (65 + byte b div 16)"
      "chr (65 + byte a mod 16) = chr (65 + byte b mod 16)"
    by (simp_all add: hex_byte_def)
  have "65 + byte c div 16 < 256" "65 + byte c mod 16 < 256" for c
    using byte_less [of c] by linarith+
  then have "byte a div 16 = byte b div 16" "byte a mod 16 = byte b mod 16"
    using arg_cong [OF digits(1), of byte] arg_cong [OF digits(2), of byte] by simp_all
  then have "byte a = byte b" by (metis mod_mult_div_eq)
  then show "a = b" by (simp add: char_eq_byte)
qed simp

lemma length_hex_byte: "length (hex_byte c) = 2"
  by (simp add: hex_byte_def)

lemma hex_inject: "concat (map hex_byte a) = concat (map hex_byte b) \<longleftrightarrow> a = b"
proof
  show "concat (map hex_byte a) = concat (map hex_byte b) \<Longrightarrow> a = b"
  proof (induction a arbitrary: b)
    case Nil
    then show ?case by (cases b) (simp_all add: hex_byte_def)
  next
    case (Cons x a)
    then obtain y b' where b: "b = y # b'" by (cases b) (auto simp: hex_byte_def)
    with Cons.prems have "hex_byte x = hex_byte y \<and> concat (map hex_byte a) = concat (map hex_byte b')"
      by (simp add: length_hex_byte append_eq_append_conv)
    with Cons.IH b show ?case by (simp add: hex_byte_inject)
  qed
qed simp

lemma hex_no_separator: "unit_separator \<notin> set (concat (map hex_byte b))"
proof -
  have "unit_separator \<notin> set (hex_byte c)" for c
  proof -
    have "65 + byte c div 16 < 256" "65 + byte c mod 16 < 256"
      using byte_less [of c] by linarith+
    then show ?thesis by (simp add: hex_byte_def char_eq_byte unit_separator_def)
  qed
  then show ?thesis by auto
qed

lemma nat_dec_no_separator: "unit_separator \<notin> set (nat_dec n)"
proof
  assume "unit_separator \<in> set (nat_dec n)"
  then have "is_ascii_digit unit_separator" by (rule nat_dec_digits)
  then show False by (simp add: is_ascii_digit_def unit_separator_def)
qed

lemma minus_not_digit: "\<not> is_ascii_digit (CHR ''-'')"
  by (simp add: is_ascii_digit_def byte_def)

lemma minus_no_separator: "unit_separator \<noteq> CHR ''-''"
  by (simp add: char_eq_byte unit_separator_def byte_literals)

lemma print_int_inject: "print_int s = print_int t \<longleftrightarrow> s = t"
proof
  assume eq: "print_int s = print_int t"
  have start: "nat_dec n = CHR ''-'' # r \<Longrightarrow> False" for n r
    using nat_dec_digits [of "CHR ''-''" n] minus_not_digit by (metis list.set_intros(1))
  show "s = t"
  proof (cases "s < 0 \<longleftrightarrow> t < 0")
    case True
    with eq have "nat \<bar>s\<bar> = nat \<bar>t\<bar>" by (cases "t < 0") (simp_all add: print_int_def)
    with True show ?thesis by linarith
  next
    case False
    then show ?thesis
      using eq start [of "nat \<bar>s\<bar>" "nat_dec (nat \<bar>t\<bar>)"] start [of "nat \<bar>t\<bar>" "nat_dec (nat \<bar>s\<bar>)"]
      by (cases "s < 0"; cases "t < 0") (auto simp: print_int_def simp del: abs_of_neg abs_of_nonneg)
  qed
qed simp

lemma print_int_no_separator: "unit_separator \<notin> set (print_int t)"
  unfolding print_int_def set_append Un_iff using nat_dec_no_separator minus_no_separator by auto

lemma sample_printing: "printing_ok sample_crates"
  unfolding printing_ok_def sample_crates_def externals.select_convs inj_def
  using hex_no_separator nat_dec_no_separator print_int_no_separator
  by (simp only: print_int_inject nat_dec_inject word_unat_eq_iff) blast

lemma sample_digest_inject: "inj_on (blake3_hex sample_crates) A"
  by (simp add: inj_on_def sample_crates_def hex_inject)

section \<open>Logs\<close>

definition named_encoder :: payload_encoder where
  "named_encoder payload = Inr (payload_type_name payload)"

fun sealed_log :: "externals \<Rightarrow> run_id \<Rightarrow> nat \<Rightarrow> string \<Rightarrow> event_payload list \<Rightarrow> durable_event list" where
  "sealed_log X run n h [] = []"
| "sealed_log X run n h (p # ps) =
     (case event_seal X named_encoder (of_nat (Suc n)) (EventId (of_nat n)) run (int n) h p of
        Inl _ \<Rightarrow> []
      | Inr e \<Rightarrow> e # sealed_log X run (Suc n) (chain_hash X e) ps)"

definition sample_history :: "event_payload list \<Rightarrow> durable_event list" where
  "sample_history ps = sealed_log constant_crates (RunId 7) 0 genesis_hash ps"

definition sample_replay :: "durable_event list \<Rightarrow> run_projection domain_result" where
  "sample_replay es = replay constant_crates named_encoder (RunId 7) 0 es"

lemma named_seal:
  "event_seal X named_encoder s i r t h p =
     Inr \<lparr>de_schema_version = 1, de_sequence = s, de_event_id = i, de_run_id = r,
          de_candidate_id = payload_candidate_id p, de_node_id = payload_node_id p,
          de_attempt = payload_attempt p, de_recorded_at = t,
          de_event_type = payload_type_name p, de_previous_hash = h,
          de_payload_hash = blake3_hex X (payload_type_name p), de_payload = p\<rparr>"
  by (simp add: event_seal_def hash_payload_def named_encoder_def event_schema_version_def
      digest_of_bytes_def)

lemma constant_chain: "chain_hash constant_crates e = ''h''"
  by (simp add: chain_hash_def constant_crates_def digest_of_str_def digest_of_bytes_def)

text \<open>What evaluates the replay of a sample history.\<close>

lemmas sample_eval = sample_history_def sample_replay_def replay_def named_seal constant_chain
  event_apply_def event_verify_def hash_payload_def named_encoder_def event_schema_version_def
  digest_of_bytes_def genesis_def stamp_event_def modify_metrics_def

lemma replayed_case:
  "(case r of Inl _ \<Rightarrow> False | Inr p \<Rightarrow> P p) \<longleftrightarrow> (\<exists>p. r = Inr p \<and> P p)"
  by (cases r) simp_all

section \<open>Files\<close>

text \<open>An encoder that knows one payload, its event, and a codec for that event and a next one.\<close>

definition single_encoder :: payload_encoder where
  "single_encoder payload =
     (if payload = CancellationRequested ''ada'' None then Inr ''c'' else Inl ''unsupported'')"

definition single_event :: durable_event where
  "single_event =
     \<lparr>de_schema_version = 1, de_sequence = 1, de_event_id = EventId 1, de_run_id = RunId 7,
      de_candidate_id = None, de_node_id = None, de_attempt = None, de_recorded_at = 5,
      de_event_type = ''cancellation_requested'', de_previous_hash = genesis_hash,
      de_payload_hash = blake3_hex sample_crates ''c'',
      de_payload = CancellationRequested ''ada'' None\<rparr>"

definition second_event :: durable_event where
  "second_event = single_event\<lparr>de_event_id := EventId 2\<rparr>"

definition sample_codec :: event_codec where
  "sample_codec =
     \<lparr>ec_encode = (\<lambda>e. if e = single_event then Inr ''first''
                       else if e = second_event then Inr ''second'' else Inl ''unknown''),
      ec_decode = (\<lambda>b. if b = ''first'' then Some single_event
                       else if b = ''second'' then Some second_event else None)\<rparr>"

lemma sample_events_differ [simp]: "second_event \<noteq> single_event" "single_event \<noteq> second_event"
proof -
  have "de_event_id second_event \<noteq> de_event_id single_event"
    by (simp add: second_event_def single_event_def)
  then show "second_event \<noteq> single_event" "single_event \<noteq> second_event" by metis+
qed

lemma letter_bytes:
  "byte (CHR ''f'') = 102" "byte (CHR ''i'') = 105" "byte (CHR ''r'') = 114" "byte (CHR ''s'') = 115"
  "byte (CHR ''t'') = 116" "byte (CHR ''e'') = 101" "byte (CHR ''c'') = 99" "byte (CHR ''o'') = 111"
  "byte (CHR ''n'') = 110" "byte (CHR ''d'') = 100"
  by (simp_all add: byte_def)

lemma sample_lines_clean:
  "newline \<notin> set ''first''" "newline \<notin> set ''second''"
  "last ''first'' \<noteq> carriage_return" "last ''second'' \<noteq> carriage_return"
  "last ''sec'' \<noteq> carriage_return"
  by (simp_all add: char_eq_byte newline_def carriage_return_def letter_bytes)

lemma sample_encode_cases:
  "ec_encode sample_codec e = Inr b \<Longrightarrow>
     (e = single_event \<and> b = ''first'') \<or> (e = second_event \<and> b = ''second'')"
  by (simp add: sample_codec_def split: if_splits)

lemma sample_codec_ok: "codec_ok sample_codec"
  unfolding codec_ok_def
proof (intro allI impI)
  fix e b assume "ec_encode sample_codec e = Inr b"
  from sample_encode_cases [OF this]
  show "b \<noteq> [] \<and> newline \<notin> set b \<and> last b \<noteq> carriage_return \<and> ec_decode sample_codec b = Some e"
    using sample_lines_clean by (elim disjE conjE) (simp_all only: sample_codec_def, simp_all)
qed

lemma sample_log_bytes: "log_bytes sample_codec [single_event] = Some (''first'' @ [newline])"
  by (simp add: sample_codec_def maximum_record_bytes_def)

definition sample_log :: event_log where
  "sample_log = event_log_new ''events.jsonl'' (Some (''first'' @ [newline])) []"

lemma single_event_sealed:
  "event_seal sample_crates single_encoder 1 (EventId 1) (RunId 7) 5 genesis_hash
     (CancellationRequested ''ada'' None) = Inr single_event"
  "event_seal sample_crates single_encoder 1 (EventId 2) (RunId 7) 5 genesis_hash
     (CancellationRequested ''ada'' None) = Inr second_event"
  by (simp_all add: event_seal_def single_encoder_def hash_payload_def digest_of_bytes_def
      single_event_def second_event_def event_schema_version_def payload_candidate_id_def
      payload_node_id_def payload_attempt_def)

lemma sample_encodings:
  "ec_encode sample_codec single_event = Inr ''first''"
  "ec_encode sample_codec second_event = Inr ''second''"
  by (simp_all add: sample_codec_def)

text \<open>An empty log whose tail is cached.\<close>

definition opened_log :: event_log where
  "opened_log = (event_log_new ''events.jsonl'' None [])
     \<lparr>lg_tail := Some \<lparr>ct_sequence = 0, ct_hash = genesis_hash\<rparr>\<rparr>"

lemma opened_log_holds: "log_holds sample_crates single_encoder sample_codec opened_log []"
  by (simp add: log_holds_def opened_log_def event_log_new_def sample_codec_ok
      verified_prefix_empty_def chain_end_def)

lemma single_event_verified:
  "event_verify sample_crates single_encoder single_event 1 genesis_hash = Inr ()"
  by (simp add: event_verify_iff single_event_def single_encoder_def hash_payload_Inr)

lemma sample_log_holds: "log_holds sample_crates single_encoder sample_codec sample_log [single_event]"
  unfolding log_holds_def
  by (intro conjI exI [of _ "[]"] exI [of _ "[single_event]"])
    (simp_all add: sample_codec_ok single_event_verified sample_log_def event_log_new_def
      sample_log_bytes verified_prefix_empty_def chain_end_def del: log_bytes.simps(2))

section \<open>Projections\<close>

definition sample_attempt :: "node_id \<Rightarrow> candidate_id option \<Rightarrow> node_attempt_record" where
  "sample_attempt node candidate =
     (started_record node candidate 1 0 1)\<lparr>na_status := node_attempt_status.Succeeded,
       na_finished_at := Some 0\<rparr>"

definition sample_plan :: plan_history where
  "sample_plan =
     \<lparr>ph_versions = [\<lparr>pv_version = 1, pv_hash = ''plan'', pv_created_at = 0,
          pv_author = AgentAuthor, pv_revision_note = None, pv_byte_length = 4\<rparr>],
      ph_approval = Some \<lparr>pa_id = ApprovalId 1, pa_decision = Approved, pa_plan_version = 1,
          pa_plan_hash = ''plan'', pa_decided_at = 0, pa_local_user = ''ada'', pa_note = None\<rparr>\<rparr>"

definition sample_candidate :: candidate_record where
  "sample_candidate =
     (candidate_record_new ''c01-0000'' 1 (strategy_for_ordinal 1) ''b'' ''branch'' ''worktree'' 2)
       \<lparr>cr_status := Eligible, cr_started_at := Some 0, cr_finished_at := Some 0\<rparr>"

text \<open>A run whose winner passed every gate and waits for the commit.\<close>

definition commit_ready :: run_projection where
  "commit_ready =
     (genesis constant_crates (RunId 7) 0)
       \<lparr>rp_status := Integrating, rp_plan := sample_plan,
        rp_attempts := [sample_attempt Prepare None], rp_candidates := [sample_candidate],
        rp_ranking := Some (rank_candidates []), rp_winner := Some ''c01-0000'',
        rp_commit_policy := Manual, rp_commit_approved := True,
        rp_integration := \<lparr>in_attempted_candidates = [''c01-0000''],
          in_applied_candidate = Some ''c01-0000'', in_final_tests_passed = Some True,
          in_final_review_passed = Some True, in_last_detail = None\<rparr>\<rparr>"

lemmas commit_ready_eval = commit_ready_def genesis_def sample_plan_def sample_attempt_def
  sample_candidate_def candidate_record_new_def started_record_def next_run_step_def
  completed_successfully_def plan_gate_of_def plan_current_def next_approved_step_def
  all_candidates_terminal_def next_integration_step_def

lemma commit_ready_step: "next_run_step commit_ready = RunNode Commit"
  by (simp add: commit_ready_eval)

section \<open>Ranked candidates\<close>

definition sample_score :: "u64 \<Rightarrow> candidate_id \<Rightarrow> score_tuple" where
  "sample_score medium i = ScoreTuple 0 0 0 medium 0 0 0 Missing 0 10 0 0 i"

definition sample_entry :: "u64 \<Rightarrow> candidate_id \<Rightarrow> ranked_candidate" where
  "sample_entry medium i =
     \<lparr>rk_candidate_id = i, rk_eligible = True, rk_score = Some (sample_score medium i),
      rk_exclusion_reasons = [], rk_rank = None\<rparr>"

definition sample_entries :: "ranked_candidate list" where
  "sample_entries = [sample_entry 2 ''c01'', sample_entry 1 ''c02'',
     (sample_entry 0 ''c03'')\<lparr>rk_eligible := False\<rparr>]"

lemma sample_entries_named: "scores_named sample_entries"
  and sample_entries_distinct: "distinct (map rk_candidate_id sample_entries)"
  by (simp_all add: scores_named_def sample_entries_def sample_entry_def sample_score_def)

lemma sample_scores_less:
  "sample_score 1 ''c02'' < sample_score 2 ''c01''" "sample_score 0 ''c03'' < sample_score 1 ''c02''"
  by (simp_all add: less_score_tuple_def score_key_def sample_score_def)

section \<open>A configuration\<close>

definition sample_command :: "command_kind \<Rightarrow> command_id \<Rightarrow> command_specification" where
  "sample_command kind name =
     \<lparr>cs_id = name, cs_kind = kind, cs_program = ''make'', cs_args = [name],
      cs_working_subdirectory = None, cs_timeout = 60, cs_required = True,
      cs_report_format = NoReport, cs_report_path = None, cs_environment = [],
      cs_success_exit_codes = []\<rparr>"

definition sample_configuration :: effective_configuration where
  "sample_configuration =
     \<lparr>ef_schema_version = 1, ef_repository_path = ''/work/app'', ef_budgets = run_budgets_default,
      ef_commit_policy = Manual, ef_agent = agent_configuration_default,
      ef_quality = quality_configuration_default\<lparr>qc_profile := Standard\<rparr>,
      ef_git = git_configuration_default,
      ef_commands = [sample_command Test ''test'', sample_command Lint ''lint''],
      ef_path_policy = path_policy_default, ef_redaction = redaction_configuration_default,
      ef_retry = retry_policy_default, ef_timeouts = node_timeouts_default,
      ef_environment_allowlist = [], ef_demonstration_mode = False,
      ef_repository_trust = trust_decision_default, ef_command_source = UserSource,
      ef_detection_notes = []\<rparr>"

definition digit_crates :: externals where
  "digit_crates = sample_crates\<lparr>uuid_simple := (\<lambda>_. replicate 32 (CHR ''7''))\<rparr>"

lemma digit_crates_ok: "uuid_simple_ok digit_crates"
  by (simp add: uuid_simple_ok_def digit_crates_def list_all_iff is_ascii_digit_def byte_def)

end
