(* ===== verification/Forge_File_Samples.thy ===== *)
theory Forge_File_Samples
  imports Forge_File_Runs Forge_Progress Forge_Samples
begin

text \<open>A store over files, an operating system in which every call succeeds, and a run in them.\<close>

definition sample_system :: "unit operating_system" where
  "sample_system =
     \<lparr>os_now = (\<lambda>e. (0, e)), os_event_id = (\<lambda>e. (EventId 1, e)),
      os_append_fault = (\<lambda>path content e.
        (if length (case content of Some s \<Rightarrow> s | None \<Rightarrow> []) < 2 ^ 63 then None
         else Some (OpenFault ''File too large (os error 27)''), e)),
      os_call = (\<lambda>action path e. (None, e)), os_temporary = (\<lambda>e. (''1.0'', e)),
      os_environment = (\<lambda>name. if name = ''HOME'' then Some ''/home/ada'' else None),
      os_regex = (\<lambda>pattern. Some (\<lambda>text. text))\<rparr>"

lemma sample_system_clean: "clean_system sample_system"
  by (simp add: clean_system_def sample_system_def)

text \<open>A codec of documents that encodes none of the payloads: appending them is refused.\<close>

definition sample_documents :: document_codec where
  "sample_documents =
     \<lparr>dk_payload_to_json = (\<lambda>payload. Inl (Serialisation ''unsupported'')),
      dk_payload_from_json = (\<lambda>document. Inl (Serialisation ''unsupported'')),
      dk_file_to_json = (\<lambda>document. Inl (Serialisation ''unsupported'')),
      dk_file_from_json = (\<lambda>document redacted. document),
      dk_decode_message = (\<lambda>path. ''expected value'')\<rparr>"

definition sample_store :: file_store where
  "sample_store =
     \<lparr>fs_externals = sample_crates, fs_encoder = single_encoder, fs_codec = sample_codec,
      fs_documents = sample_documents, fs_root = [''data'']\<rparr>"

definition sample_descriptor :: run_descriptor where
  "sample_descriptor =
     \<lparr>rd_schema_version = 1, rd_run_id = RunId 7, rd_created_at = 0,
      rd_repository_path = ''/work/app'', rd_configuration = sample_configuration\<rparr>"

definition sample_redactor :: pattern_redactor where
  "sample_redactor = redactor_for_configuration (os_regex sample_system)
     (os_environment sample_system) (ef_redaction sample_configuration)"

definition sample_world :: "unit file_world" where
  "sample_world =
     \<lparr>fw_files = [(descriptor_path sample_store (RunId 7), DescriptorFile sample_descriptor)],
      fw_directories = [], fw_logs = (\<lambda>run. sample_log), fw_redactors = (\<lambda>run. None),
      fw_outside = ()\<rparr>"

definition sample_host :: "unit host" where
  "sample_host =
     \<lparr>ho_publish = (\<lambda>event e. (Inr (), e)), ho_jitter = (\<lambda>e. (Finite False 1, e)),
      ho_cancelled = (\<lambda>e. (False, e)), ho_execute = (\<lambda>cx call w. (ExecutionTimedOut, w)),
      ho_result_bytes = (\<lambda>result. Inr []), ho_logical_processors = (\<lambda>e. (Inr 8, e)),
      ho_next_task = (\<lambda>n e. (0, e)), ho_lock = (\<lambda>run e. (Inr (), e)), ho_unlock = (\<lambda>run e. e)\<rparr>"

definition sample_context :: run_context where
  "sample_context =
     \<lparr>cx_run_id = RunId 7, cx_repository = ''/work/app'',
      cx_configuration = sample_configuration, cx_task_markdown = ''Fix it''\<rparr>"

interpretation sample: file_runs sample_store sample_system sample_host sample_context sample_redactor
  by unfold_locales (simp_all add: sample_system_clean leaves_run_def sample_host_def)

lemma sample_run_files:
  "run_files sample_store sample_system (RunId 7) sample_redactor sample_world [single_event]"
  by (simp add: run_files_def redacts_with_def sample_world_def sample_store_def sample_log_holds
      sample_redactor_def sample_descriptor_def file_at_def)
    (simp add: sample_log_def event_log_new_def)

lemma sample_payloads_kept:
  "recovery_payloads_kept (written_payload sample_store sample_redactor)"
  by (simp add: recovery_payloads_kept_def written_payload_def redact_payload_def sample_store_def
      sample_documents_def)

lemma sample_write: "p \<noteq> [] \<Longrightarrow> \<exists>v. write_atomic sample_system p c w = (Inr (), v)"
  by (simp add: write_atomic_def ensure_directory_def sync_directory_def system_call_def
      tolerant_call_def outside_def sample_system_def step_eval Let_def)

text \<open>A recovery of the sample run replays its event and succeeds.\<close>

definition sample_projection :: run_projection where
  "sample_projection =
     (case replay_from sample_crates single_encoder (genesis sample_crates (RunId 7) 0) [single_event]
      of Inr (p, n) \<Rightarrow> p | Inl e \<Rightarrow> genesis sample_crates (RunId 7) 0)"

lemma sample_replayed:
  "replay_from sample_crates single_encoder (genesis sample_crates (RunId 7) 0) [single_event]
     = Inr (sample_projection, 1)"
  "open_attempts sample_projection = []" "rp_run_id sample_projection = RunId 7"
  "rp_status sample_projection = Created" "rp_cancellation_requested sample_projection"
  "rp_candidates sample_projection = []"
proof -
  have fields: "de_run_id single_event = RunId 7" "de_sequence single_event = 1"
      "de_payload single_event = CancellationRequested ''ada'' None"
    by (simp_all add: single_event_def)
  have *: "\<exists>p. replay_from sample_crates single_encoder (genesis sample_crates (RunId 7) 0) [single_event]
      = Inr (p, 1) \<and> open_attempts p = [] \<and> rp_run_id p = RunId 7 \<and> rp_status p = Created
        \<and> rp_cancellation_requested p \<and> rp_candidates p = []"
    by (simp add: replay_from_def replay_from_step_def event_apply_def genesis_def single_event_verified
        stamp_event_def modify_metrics_def open_attempts_def fields)
  then show "replay_from sample_crates single_encoder (genesis sample_crates (RunId 7) 0) [single_event]
     = Inr (sample_projection, 1)"
  "open_attempts sample_projection = []" "rp_run_id sample_projection = RunId 7"
  "rp_status sample_projection = Created" "rp_cancellation_requested sample_projection"
  "rp_candidates sample_projection = []"
    by (auto simp: sample_projection_def)
qed

lemma sample_store_fields:
  "fs_externals sample_store = sample_crates" "fs_encoder sample_store = single_encoder"
  "fs_codec sample_store = sample_codec" "fs_documents sample_store = sample_documents"
  by (simp_all add: sample_store_def)

lemma sample_stores:
  "\<exists>v. store_store sample_store sample_system q w = (Inr (), v)"
  "\<exists>v. store_store_metrics sample_store sample_system run q w = (Inr (), v)"
  unfolding store_store_def store_store_metrics_def
  by (rule sample_write, simp add: state_file_def metrics_file_def)+

lemma sample_recovers:
  assumes "run_files sample_store sample_system (RunId 7) sample_redactor w [single_event]"
    and "file_at (state_path sample_store (RunId 7)) w = None"
  shows "\<exists>v. recover (file_services sample_store sample_system H) (RunId 7) w
    = (Inr sample_projection, v)"
proof -
  let ?S = "file_services sample_store sample_system H"
  let ?verify = "store_verify_chain sample_store (RunId 7)"
  let ?read = "store_read_after sample_store (RunId 7) 0"
  have holds: "log_holds sample_crates single_encoder sample_codec (fw_logs v (RunId 7)) [single_event]"
    if "run_files sample_store sample_system (RunId 7) sample_redactor v [single_event]" for v
    using that by (simp add: run_files_def sample_store_fields)
  have on_log: "fst (f (fw_logs v0 (RunId 7))) = r \<Longrightarrow> \<exists>v. on_log (RunId 7) f v0 = (r, v)"
      for f :: "event_log \<Rightarrow> chain_verification application_result \<times> event_log" and r v0
    by (cases "f (fw_logs v0 (RunId 7))") (simp add: on_log_def)
  have read_log: "fst (f (fw_logs v0 (RunId 7))) = r \<Longrightarrow> \<exists>v. on_log (RunId 7) f v0 = (r, v)"
      for f :: "event_log \<Rightarrow> durable_event list application_result \<times> event_log" and r v0
    by (cases "f (fw_logs v0 (RunId 7))") (simp add: on_log_def)
  obtain a v where verify: "?verify w = (Inr a, v)"
    using log_reads_hold(5) [OF holds [OF assms(1)]]
    unfolding store_verify_chain_def sample_store_fields by (blast dest: on_log)
  have files: "run_files sample_store sample_system (RunId 7) sample_redactor v [single_event]"
    using log_reads_leave(1) [of sample_store sample_system "RunId 7" sample_redactor] assms(1) verify
    unfolding leaves_run_def by (metis snd_conv)
  have state: "file_at (state_path sample_store (RunId 7)) v = None"
    using verify assms(2) by (auto simp: store_verify_chain_def on_log_def split: prod.splits)
  have load: "store_load sample_store sample_system (RunId 7) v = (Inr None, v)"
    using state by (simp add: store_load_def read_document_def step_eval state_path_def)
  obtain u where read: "?read v = (Inr [single_event], u)"
    using log_read_after_suffix(1) [OF holds [OF files], of 0]
    unfolding store_read_after_def sample_store_fields by (auto dest!: read_log)
  have reads: "sv_verify_chain ?S = store_verify_chain sample_store"
      "sv_load ?S = store_load sample_store sample_system" "sv_externals ?S = sample_crates"
    by (simp_all add: file_services_def sample_store_fields)
  have now: "sv_now ?S v = (0, v)" by (simp add: file_services_def beyond_def sample_system_def)
  have stored: "stored_projection ?S (RunId 7) w = (Inr (genesis sample_crates (RunId 7) 0), v)"
    using verify load now by (simp add: stored_projection_def reads then_do_def ask_def ok_def)
  obtain x where x: "store_store sample_store sample_system sample_projection u = (Inr (), x)"
    using sample_stores(1) by blast
  obtain y where y: "store_store_metrics sample_store sample_system (RunId 7) sample_projection x
      = (Inr (), y)" using sample_stores(2) by blast
  have services: "sv_read_after ?S = store_read_after sample_store" "sv_externals ?S = sample_crates"
      "sv_encoder ?S = single_encoder" "sv_store ?S = store_store sample_store sample_system"
      "sv_store_metrics ?S = store_store_metrics sample_store sample_system"
    by (simp_all add: file_services_def sample_store_fields)
  have "explained sample_projection = sample_projection"
    by (simp add: explained_def sample_replayed)
  then have "finish_recovery ?S (RunId 7) sample_projection 1 u = (Inr sample_projection, y)"
    using x y by (simp add: finish_recovery_def sample_replayed services step_eval)
  moreover have "rp_last_event_sequence (genesis sample_crates (RunId 7) 0) = 0"
    by (simp add: genesis_def)
  ultimately have "recover ?S (RunId 7) w = (Inr sample_projection, y)"
    using stored read sample_replayed(1)
    by (simp add: recover_def services then_do_def lift_result_def lift_domain_def)
  then show ?thesis by blast
qed

text \<open>
  A dispatcher of the sample run: its run is to be cancelled, and the event that says so is refused
  by the codec, which ends the loop with an error.
\<close>

definition sample_dispatcher :: "unit file_world dispatcher" where
  "sample_dispatcher = \<lparr>dp_world = sample_world, dp_projection = sample_projection\<rparr>"

lemma sample_unsaved: "saved_projection sample_store (RunId 7) sample_world = None"
  and sample_stateless: "file_at (state_path sample_store (RunId 7)) sample_world = None"
  by (simp_all add: saved_projection_def sample_world_def file_at_def state_path_def descriptor_path_def
      state_file_def run_descriptor_file_def)

lemma sample_replay_projection:
  "replay sample_crates single_encoder (RunId 7) 0 [single_event] = Inr sample_projection"
proof -
  have "length [single_event] < 2 ^ 64" by simp
  have "chain_verified sample_crates single_encoder 0 genesis_hash [single_event]"
    by (simp add: single_event_verified)
  with replay_from_applied [of sample_crates single_encoder "genesis sample_crates (RunId 7) 0"
      genesis_hash "[single_event]" 0] sample_replayed(1)
  show ?thesis by (simp add: replay_def replay_from_def genesis_fields)
qed

lemma sample_recoverable:
  "recoverable (file_services sample_store sample_system H) (RunId 7)
     (run_files sample_store sample_system (RunId 7) sample_redactor)
     (saved_projection sample_store (RunId 7)) [single_event] sample_world"
  using sample_run_files sample_unsaved by (simp add: recoverable_def)

lemma sample_lagging:
  "lagging (file_services sample_store sample_system H) (RunId 7)
     (run_files sample_store sample_system (RunId 7) sample_redactor)
     (saved_projection sample_store (RunId 7)) [single_event] sample_dispatcher"
  unfolding lagging_def
  by (intro exI [of _ 0] exI [of _ "[]"])
    (simp add: sample_recoverable sample_dispatcher_def, simp add: file_services_def
      sample_store_fields sample_replay_projection)

lemma sample_loop_ends:
  "\<exists>stopped. run_loop (file_services sample_store sample_system H) sample_context sample_dispatcher
      = Some (Inl (Serialisation ''unsupported''), stopped)
    \<and> run_files sample_store sample_system (RunId 7) sample_redactor (dp_world stopped) [single_event]
    \<and> file_at (state_path sample_store (RunId 7)) (dp_world stopped) = None"
proof -
  let ?S = "file_services sample_store sample_system H"
  have "redacts_with sample_store sample_system (RunId 7) sample_redactor sample_world"
    using sample_run_files by (simp add: run_files_def)
  from redactor_for_run [OF sample_system_clean this] obtain v where
    v: "redactor_for sample_store sample_system (RunId 7) sample_world = (Inr sample_redactor, v)"
      "file_at (state_path sample_store (RunId 7)) v = None"
    using sample_stateless by auto
  have files: "run_files sample_store sample_system (RunId 7) sample_redactor v [single_event]"
    using redactor_for_leaves [OF sample_system_clean, of sample_store "RunId 7" sample_redactor]
      sample_run_files v(1) unfolding leaves_run_def by (metis snd_conv)
  have "store_append sample_store sample_system (RunId 7) payload sample_world
      = (Inl (Serialisation ''unsupported''), v)" for payload
    using v(1) by (simp add: store_append_def redact_payload_def sample_store_fields
        sample_documents_def step_eval)
  then have commit: "commit_event ?S sample_context payload sample_dispatcher
      = (Inl (Serialisation ''unsupported''), sample_dispatcher\<lparr>dp_world := v\<rparr>)" for payload
    by (simp add: commit_event_def file_services_def sample_context_def sample_dispatcher_def
        on_world_def then_do_def)
  have step: "next_run_step (dp_projection sample_dispatcher) = CancelRun"
    by (simp add: next_run_step_def sample_dispatcher_def sample_replayed)
  have "finish_cancelled ?S sample_context sample_dispatcher
      = (Inl (Serialisation ''unsupported''), sample_dispatcher\<lparr>dp_world := v\<rparr>)"
    using commit
    by (simp add: finish_cancelled_def ensure_run_status_def step_eval sample_dispatcher_def
        sample_replayed run_transition_to_def lift_domain_def)
  then have "run_turn ?S sample_context sample_dispatcher
      = Some (Inl (Serialisation ''unsupported''), sample_dispatcher\<lparr>dp_world := v\<rparr>)"
    using step by (simp add: run_turn_def then_do_def)
  then have "run_loop ?S sample_context sample_dispatcher
      = Some (Inl (Serialisation ''unsupported''), sample_dispatcher\<lparr>dp_world := v\<rparr>)"
    by (subst run_loop.simps) simp
  with files v(2) show ?thesis by (auto simp: sample_dispatcher_def)
qed

section \<open>A stalled run\<close>

text \<open>A run whose only candidate is being implemented and paused for its user.\<close>

definition paused_run :: run_projection where
  "paused_run =
     (genesis constant_crates (RunId 7) 0)
       \<lparr>rp_status := RunningCandidates, rp_plan := sample_plan,
        rp_candidates := [sample_candidate\<lparr>cr_status := Implementing\<rparr>],
        rp_attempts := [sample_attempt Prepare None,
          (sample_attempt ImplementCandidate (Some ''c01-0000''))
            \<lparr>na_status := node_attempt_status.Paused\<rparr>]\<rparr>"

lemma paused_run_stalled: "stalled paused_run"
  by (simp add: stalled_def paused_run_def genesis_def sample_plan_def sample_attempt_def
      sample_candidate_def candidate_record_new_def started_record_def next_run_step_def
      completed_successfully_def plan_gate_of_def plan_current_def next_approved_step_def
      all_candidates_terminal_def active_candidates_def can_advance_def next_candidate_step_def
      candidate_of_def last_attempt_of_def step_after_attempt_def)

end
