(* ===== verification/Forge_Node_Samples.thy ===== *)
theory Forge_Node_Samples
  imports Forge_File_Nodes Forge_Promotion Forge_Node_Calls Forge_File_Samples
begin

text \<open>
  Ports and a call on which the nodes are run: every port answers at once and the world does not
  matter. The tests of the integration fail, the stored evidence of a candidate passes.
\<close>

definition sample_execution :: "command_outcome \<Rightarrow> command_execution_record" where
  "sample_execution outcome =
     \<lparr>ce_command_id = ''test'', ce_required = True, ce_outcome = outcome, ce_exit_code = None,
      ce_duration = 0, ce_stdout_artifact = None, ce_stderr_artifact = None,
      ce_stdout_truncated = False, ce_stderr_truncated = False, ce_tests_total = None,
      ce_tests_failed = None, ce_tests_skipped = None, ce_failures = [],
      ce_line_coverage_percent = None, ce_detail = None\<rparr>"

definition sample_tests :: "command_outcome \<Rightarrow> test_evidence" where
  "sample_tests outcome =
     \<lparr>te_commands = [sample_execution outcome], te_line_coverage_percent = None,
      te_total_duration = 0\<rparr>"

definition sample_report :: review_report where
  "sample_report =
     \<lparr>rr_schema_version = 1, rr_provider = ''local'', rr_required = True, rr_advisory = False,
      rr_passed = True, rr_quality_gate = quality_gate_outcome.Passed, rr_issues = [],
      rr_metrics = \<lparr>rm_line_coverage_percent = None, rm_branch_coverage_percent = None,
        rm_changed_lines = None, rm_changed_files = None, rm_analysed_files = None,
        rm_duplicated_lines = None\<rparr>,
      rr_artifacts = [], rr_started_at = 0, rr_finished_at = 0, rr_failure_summary = None\<rparr>"

definition sample_review :: aggregated_review where
  "sample_review = \<lparr>ag_reports = [sample_report]\<rparr>"

definition sample_provider :: "'w review_provider" where
  "sample_provider =
     \<lparr>vp_name = ''local'', vp_required = True, vp_advisory = False, vp_available = ok True,
      vp_review = (\<lambda>gate. ok \<lparr>rv_report = sample_report, rv_artifacts = []\<rparr>)\<rparr>"

definition sample_ports :: "'w node_ports" where
  "sample_ports =
     \<lparr>np_externals = sample_crates, np_read_attempt_result = (\<lambda>run key. ok None),
      np_store_artifact = (\<lambda>run label path bytes truncated. stop (Internal ''full'')),
      np_read_artifact = (\<lambda>run digest. stop (ArtifactNotFound digest)),
      np_write_version = (\<lambda>run version markdown author note_text instant. stop (Internal ''full'')),
      np_read_version = (\<lambda>run version. ok ''# Plan''),
      np_write_diff = (\<lambda>run candidate patch. stop (Internal ''full'')),
      np_read_diff = (\<lambda>run candidate. ok ''diff''),
      np_write_test_evidence = (\<lambda>run candidate attempt tests. ok ()),
      np_read_test_evidence = (\<lambda>run candidate. ok (Some (sample_tests command_outcome.Passed))),
      np_write_review = (\<lambda>run candidate attempt review. ok ()),
      np_read_review = (\<lambda>run candidate. ok (Some sample_review)),
      np_write_ranking = (\<lambda>run computed. ok ()),
      np_now = (\<lambda>w. (0, w)),
      np_facts = ok \<lparr>hf_operating_system = ''linux'', hf_architecture = ''x86_64'',
        hf_logical_processors = 4, hf_heikas_home = ''/data'', hf_data_root_writable = True\<rparr>,
      np_disk_space = (\<lambda>location. ok \<lparr>dk_available_bytes = 0, dk_total_bytes = 0\<rparr>),
      np_probe_executable = (\<lambda>program. ok None), np_path_exists = (\<lambda>location w. (True, w)),
      np_inspect = (\<lambda>repository. stop (Internal ''git'')),
      np_capture_dirty_snapshot = (\<lambda>repository. stop (Internal ''git'')),
      np_create_worktree = (\<lambda>repository run candidate role baseline branch. stop (Internal ''git'')),
      np_apply_snapshot = (\<lambda>worktree snapshot. ok ()),
      np_diff_against_baseline = (\<lambda>worktree baseline. stop (Internal ''git'')),
      np_apply_patch = (\<lambda>worktree patch. ok ()),
      np_check_patch_applies = (\<lambda>worktree patch. ok (Inr ())),
      np_reset_worktree = (\<lambda>worktree baseline. ok ()),
      np_create_commit = (\<lambda>request. stop (Internal ''git'')),
      np_changed_paths = (\<lambda>worktree baseline. ok [''src/lib.rs'']),
      np_list_paths = (\<lambda>repository limit. ok []),
      np_capabilities = stop (Internal ''agent''), np_invoke = (\<lambda>invocation. stop (Internal ''agent'')),
      np_run_tests = (\<lambda>gate commands.
        ok \<lparr>tg_evidence = sample_tests command_outcome.Failed, tg_artifacts = []\<rparr>),
      np_reviews = [sample_provider], np_redactor = sample_redactor,
      np_configuration_digest = (\<lambda>configuration. Inr ''digest''),
      np_tests_json = (\<lambda>tests. Inr []), np_review_json = (\<lambda>review. Inr []),
      np_ranking_json = (\<lambda>computed. Inr []), np_json_f64 = (\<lambda>x. JNull),
      np_compile_glob = (\<lambda>pattern. None), np_lowercase = (\<lambda>s. s), np_uppercase = (\<lambda>s. s)\<rparr>"

lemma sample_ports_plain: "gates_name_plainly sample_ports"
  by (simp add: gates_name_plainly_def names_plainly_def sample_ports_def sample_provider_def
      plain_artifacts_def ok_def)

lemma sample_port_fields [simp]:
  "np_read_test_evidence sample_ports run candidate = ok (Some (sample_tests command_outcome.Passed))"
  "np_read_review sample_ports run candidate = ok (Some sample_review)"
  "np_read_diff sample_ports run candidate = ok ''diff''"
  "np_write_ranking sample_ports run computed = ok ()"
  "np_write_test_evidence sample_ports run candidate attempt tests = ok ()"
  "np_facts sample_ports = ok \<lparr>hf_operating_system = ''linux'', hf_architecture = ''x86_64'',
     hf_logical_processors = 4, hf_heikas_home = ''/data'', hf_data_root_writable = True\<rparr>"
  "np_path_exists sample_ports location w = (True, w)"
  "np_check_patch_applies sample_ports worktree patch = ok (Inr ())"
  "np_changed_paths sample_ports worktree baseline = ok [''src/lib.rs'']"
  "np_run_tests sample_ports gate commands
     = ok \<lparr>tg_evidence = sample_tests command_outcome.Failed, tg_artifacts = []\<rparr>"
  "np_tests_json sample_ports tests = Inr []" "np_ranking_json sample_ports computed = Inr []"
  by (simp_all add: sample_ports_def)

section \<open>An integration whose final tests fail\<close>

definition sample_ranked :: "u32 \<Rightarrow> candidate_id \<Rightarrow> ranked_candidate" where
  "sample_ranked rank i = (sample_entry 0 i)\<lparr>rk_rank := Some rank\<rparr>"

definition integrating_run :: run_projection where
  "integrating_run = (genesis constant_crates (RunId 7) 0)
     \<lparr>rp_status := Integrating, rp_baseline_commit := Some ''b'',
      rp_candidates := [sample_candidate\<lparr>cr_promotable := True\<rparr>,
        sample_candidate\<lparr>cr_id := ''c02-0000'', cr_promotable := True\<rparr>],
      rp_ranking := Some \<lparr>rg_entries = [sample_ranked 1 ''c01-0000'', sample_ranked 2 ''c02-0000''],
        rg_winner = Some ''c01-0000'', rg_rationale = []\<rparr>,
      rp_winner := Some ''c01-0000''\<rparr>"

lemma integrating_run_fields [simp]:
  "rp_baseline_commit integrating_run = Some ''b''" "rp_winner integrating_run = Some ''c01-0000''"
  "rp_plan integrating_run = plan_history_default"
  by (simp_all add: integrating_run_def genesis_def)

definition sample_call :: "node_id \<Rightarrow> node_call" where
  "sample_call node =
     \<lparr>nc_node = node, nc_candidate = None, nc_attempt = 1, nc_projection = integrating_run\<rparr>"

lemmas sample_call_eval = sample_call_def integrating_run_def genesis_def sample_candidate_def
  candidate_record_new_def sample_context_def

lemma sample_joins_candidate:
  assumes "cr_status k = Eligible"
  shows "\<exists>e. join_candidate sample_ports sample_context k w = (Inr e, w) \<and> rankable e"
  by (simp add: join_candidate_def check_patch_def unwrap_or_def caught_def ask_def step_eval
      integration_worktree_def resolve_worktree_def heikas_home_def rankable_def eligibility_of_def
      evaluate_eligibility_iff sample_tests_def sample_execution_def all_required_passed_def
      failed_required_def missing_required_def outcome_is_pass_def sample_review_def
      sample_report_def has_required_provider_def required_reports_passed_def
      blocker_policy_issues_def review_line_coverage_percent_def last_some_def Let_def assms)

lemma sample_joins:
  "\<exists>out winner. join_execute sample_ports sample_context (sample_call Join) w = (Inr out, w)
     \<and> sp_winner (no_state_patch out) = Some winner"
proof -
  let ?first = "sample_candidate\<lparr>cr_promotable := True\<rparr>"
  let ?second = "sample_candidate\<lparr>cr_id := ''c02-0000'', cr_promotable := True\<rparr>"
  obtain e f where e: "join_candidate sample_ports sample_context ?first w = (Inr e, w)" "rankable e"
      and f: "join_candidate sample_ports sample_context ?second w = (Inr f, w)"
    using sample_joins_candidate [of ?first] sample_joins_candidate [of ?second]
    by (fastforce simp: sample_candidate_def)
  have candidates: "rp_candidates integrating_run = [?first, ?second]"
    by (simp add: integrating_run_def)
  obtain evidence where "join_execute sample_ports sample_context (sample_call Join) w
      = (Inr (join_output [e, f] evidence), w)"
    by (simp add: join_execute_def call_baseline_def sample_call_def step_eval candidates e f)
  moreover from e(2) obtain winner where "rg_winner (rank_candidates [e, f]) = Some winner"
    using ranking_winner_exists [of "[e, f]"] by auto
  ultimately show ?thesis by (simp add: join_output_def Let_def output_simps)
qed

definition sample_final_output :: node_output where
  "sample_final_output = final_gate_output integrating_run ''c01-0000''
     (test_event sample_context None FinalTest (sample_tests command_outcome.Failed)) False FinalReview
     ''the final tests failed in the integration worktree: test'' []
     (final_test_metrics (sample_ports :: unit node_ports) (sample_tests command_outcome.Failed))
     (printed_evidence (sample_ports :: unit node_ports) (final_test_input sample_context ''c01-0000'') [])"

lemma sample_final_test:
  "execute_call sample_ports sample_context (sample_call FinalTest) () = (Inr sample_final_output, ())"
proof -
  have totals: "recompute_totals (sample_tests command_outcome.Failed) = sample_tests command_outcome.Failed"
    "failed_required (sample_tests command_outcome.Failed) = [(''test'', failure_summary (sample_execution command_outcome.Failed))]"
    "\<not> all_required_passed (sample_tests command_outcome.Failed)"
    by (simp_all add: recompute_totals_def sample_tests_def sample_execution_def failed_required_def
        all_required_passed_def last_some_def outcome_is_pass_def sat_add_def saturate_def Let_def)
  show ?thesis
    by (simp add: execute_call_def final_test_execute_def call_baseline_def sample_call_def step_eval
        winner_of_def prepare_gate_def run_test_gate_def sample_final_output_def totals
        integration_worktree_def resolve_worktree_def heikas_home_def unwrap_or_def caught_def
        plan_expected_files_def plan_current_def plan_history_default_def Let_def)
qed

lemma sample_promotable: "next_promotable integrating_run ''c01-0000'' = Some ''c02-0000''"
  by (simp add: next_promotable_def integrating_run_def may_be_promoted_def sample_ranked_def
      sample_entry_def candidate_of_def sample_candidate_def candidate_record_new_def)

lemma sample_promotes: "\<exists>q. integration_run (sample_ports :: unit node_ports) integrating_run 1 q"
proof -
  let ?stamped = "map (\<lambda>e. (e, 0, 0)) (no_events sample_final_output)"
  have asked: "no_next sample_final_output = Some IntegrateWinner"
    by (simp add: sample_final_output_def final_gate_output_def finish_with_promotion_def Let_def
        sample_promotable output_simps)
  have found: "candidate_of integrating_run ''c01-0000'' \<noteq> None"
    by (simp add: candidate_of_def integrating_run_def sample_candidate_def candidate_record_new_def)
  obtain q where tested: "reduce (test_event sample_context None FinalTest
      (sample_tests command_outcome.Failed)) 0 0 integrating_run = Inr q"
      and "rp_candidates q = rp_candidates integrating_run"
    by (simp add: test_event_def reduce_test_evidence_def Let_def add_gate_duration_def)
  with found obtain c where "candidate_of q ''c01-0000'' = Some c"
    by (auto simp: candidate_of_def)
  with tested have "\<exists>q. apply_stamped ?stamped integrating_run = Inr q"
    by (simp add: sample_final_output_def final_gate_output_def finish_with_promotion_def Let_def
        sample_promotable output_simps promotion_events_def apply_stamped_Cons with_candidate_def)
  then obtain q where "apply_stamped ?stamped integrating_run = Inr q" by blast
  from integration_promoted [OF integration_start _ _ sample_final_test asked _ this]
  show ?thesis by (auto simp: sample_call_def comp_def)
qed

end
