(* ===== verification/Forge_Service_Samples.thy ===== *)
theory Forge_Service_Samples
  imports Forge_Locks Forge_Node_Samples
begin

text \<open>A service over the sample files: its lock is free and everything else answers at once.\<close>

definition sample_lock_calls :: "unit lock_calls" where
  "sample_lock_calls =
     \<lparr>lk_try = (\<lambda>path e. (Inr True, e)), lk_release = (\<lambda>path e. (None, e)), lk_sleep = (\<lambda>e. e)\<rparr>"

interpretation sample_locks: file_locks sample_store sample_system sample_host sample_context
  sample_redactor sample_lock_calls
  by (rule file_locks.intro) (rule sample.file_runs_axioms)

definition sample_factory :: "'w runtime_factory" where
  "sample_factory =
     \<lparr>rn_agent_driver = (\<lambda>configuration. ok \<lparr>dr_capabilities = np_capabilities sample_ports,
        dr_invoke = np_invoke sample_ports\<rparr>),
      rn_test_runner = (\<lambda>configuration. ok (np_run_tests sample_ports)),
      rn_review_providers = (\<lambda>configuration. ok (np_reviews sample_ports)),
      rn_redactor = (\<lambda>configuration. ok sample_redactor)\<rparr>"

definition sample_base :: "unit file_world base_services" where
  "sample_base =
     \<lparr>bs_engine = locked_services sample_store sample_system sample_lock_calls sample_host,
      bs_nodes = sample_ports, bs_factory = sample_factory,
      bs_expired = (\<lambda>call w. (False, w)), bs_channel = (\<lambda>first w. (0, w)),
      bs_send = (\<lambda>channel w. w), bs_receiver = (\<lambda>channel w. (False, w)),
      bs_detect = (\<lambda>path. ok sample_configuration), bs_resolve = (\<lambda>request. ok sample_configuration),
      bs_export = (\<lambda>run path worktrees. stop (Internal ''full'')),
      bs_initialise = store_initialise sample_store sample_system, bs_headers = ok [],
      bs_remove_worktrees = store_remove_worktrees sample_store sample_system,
      bs_resolve_run_reference = (\<lambda>reference. ok (RunId 7)),
      bs_read_range = store_read_range sample_store,
      bs_read_current = store_read_current sample_store sample_system,
      bs_read_artifact_range = store_read_artifact_range sample_store sample_system,
      bs_new_run_id = (\<lambda>w. (RunId 7, w)), bs_new_approval_id = (\<lambda>w. (ApprovalId 1, w)),
      bs_user_name = (\<lambda>w. (''ada'', w))\<rparr>"

lemma sample_base_engine:
  "bs_engine sample_base = locked_services sample_store sample_system sample_lock_calls sample_host"
  by (simp add: sample_base_def)

lemma sample_base_recoverable:
  "recoverable (bs_engine sample_base) (RunId 7)
     (run_files sample_store sample_system (RunId 7) sample_redactor)
     (saved_projection sample_store (RunId 7)) [single_event] sample_world"
  unfolding sample_base_engine recoverable_locked by (rule sample_recoverable)

end
