(* ===== verification/Forge_Filesystem.thy ===== *)
theory Forge_Filesystem
  imports Forge_Files Forge_Paths
begin

text \<open>
  \<open>infrastructure/src/paths.rs\<close> over a file system with symbolic links. A node sits at its resolved
  path, the list of the components from the root; \<open>resolve\<close> is what the kernel does with a path, one
  component at a time, and \<open>canonicalize\<close>, \<open>exists\<close>, \<open>metadata\<close> and \<open>symlink_metadata\<close> of the
  standard library rest on it. The paths the code builds by joining proper segments to a resolved
  path are lists of components as well.
\<close>

section \<open>The file system\<close>

datatype fs_node =
    DirectoryNode
  | RegularNode string
  | LinkNode string
  | SpecialNode

text \<open>
  \<open>fy_fault\<close> is the error of looking at a node (a permission, a failing disk), \<open>fy_links\<close> how many
  links the kernel follows in one path and \<open>fy_current\<close> the current directory.
\<close>

record filesystem =
  fy_node :: "path \<Rightarrow> fs_node option"
  fy_fault :: "path \<Rightarrow> io_error option"
  fy_links :: nat
  fy_current :: path

datatype resolve_error = TooManyLinks | Fault io_error

definition not_found :: io_error where
  "not_found = \<lparr>io_kind = NotFound, io_raw = Some 2, io_message = missing_file\<rparr>"

definition not_a_directory :: io_error where
  "not_a_directory =
     \<lparr>io_kind = OtherKind, io_raw = Some 20, io_message = ''Not a directory (os error 20)''\<rparr>"

definition link_loop :: io_error where
  "link_loop =
     \<lparr>io_kind = OtherKind, io_raw = Some 40,
      io_message = ''Too many levels of symbolic links (os error 40)''\<rparr>"

primrec resolve_fault :: "resolve_error \<Rightarrow> io_error" where
  "resolve_fault TooManyLinks = link_loop"
| "resolve_fault (Fault e) = e"

definition components :: "string \<Rightarrow> string list" where
  "components s = filter (\<lambda>part. part \<noteq> [] \<and> part \<noteq> ''.'') (split_char (CHR ''/'') s)"

definition is_absolute :: "string \<Rightarrow> bool" where "is_absolute s \<longleftrightarrow> starts_with ''/'' s"

definition node_at :: "filesystem \<Rightarrow> path \<Rightarrow> resolve_error + fs_node" where
  "node_at fs p =
     (if p = [] then Inr DirectoryNode
      else case fy_fault fs p of
             Some e \<Rightarrow> Inl (Fault e)
           | None \<Rightarrow> (case fy_node fs p of None \<Rightarrow> Inl (Fault not_found) | Some node \<Rightarrow> Inr node))"

text \<open>
  The walk of the kernel: the directory reached, the components left and the links that may still
  be followed. It returns the resolved path and the links that are left.
\<close>

function resolve ::
    "filesystem \<Rightarrow> nat \<Rightarrow> path \<Rightarrow> string list \<Rightarrow> resolve_error + path \<times> nat" where
  "resolve fs links here [] = Inr (here, links)"
| "resolve fs links here (c # cs) =
     and_then (node_at fs here) (\<lambda>node.
     if node \<noteq> DirectoryNode then Inl (Fault not_a_directory)
     else if c = ''..'' then resolve fs links (butlast here) cs
     else and_then (node_at fs (here @ [c])) (\<lambda>found.
       case found of
         LinkNode target \<Rightarrow>
           if links = 0 then Inl TooManyLinks
           else resolve fs (links - 1) (if is_absolute target then [] else here)
             (components target @ cs)
       | _ \<Rightarrow> resolve fs links (here @ [c]) cs))"
  by pat_completeness auto

termination by (relation "measures [\<lambda>(fs, links, here, cs). links, \<lambda>(fs, links, here, cs). length cs]")
  auto

definition canonical :: "filesystem \<Rightarrow> path \<Rightarrow> resolve_error + path" where
  "canonical fs p = map_ok fst (resolve fs (fy_links fs) [] p)"

text \<open>\<open>std::fs::canonicalize\<close> of a path as it is written.\<close>

definition canonicalize :: "filesystem \<Rightarrow> string \<Rightarrow> resolve_error + path" where
  "canonicalize fs s =
     map_ok fst (resolve fs (fy_links fs) (if is_absolute s then [] else fy_current fs) (components s))"

definition absolute_display :: "path \<Rightarrow> string" where
  "absolute_display p = ''/'' @ join_str ''/'' p"

text \<open>The metadata of what a path leads to, and of the path itself.\<close>

definition metadata :: "filesystem \<Rightarrow> path \<Rightarrow> resolve_error + fs_node" where
  "metadata fs p = and_then (canonical fs p) (node_at fs)"

definition symlink_metadata :: "filesystem \<Rightarrow> path \<Rightarrow> resolve_error + fs_node" where
  "symlink_metadata fs p =
     (if p = [] then Inr DirectoryNode
      else and_then (canonical fs (butlast p)) (\<lambda>parent.
           and_then (node_at fs parent) (\<lambda>node.
             if node \<noteq> DirectoryNode then Inl (Fault not_a_directory)
             else node_at fs (parent @ [last p]))))"

definition path_is_present :: "filesystem \<Rightarrow> path \<Rightarrow> bool" where
  "path_is_present fs p \<longleftrightarrow> is_ok (metadata fs p)"

definition is_directory :: "filesystem \<Rightarrow> path \<Rightarrow> bool" where
  "is_directory fs p \<longleftrightarrow> metadata fs p = Inr DirectoryNode"

definition is_regular :: "fs_node \<Rightarrow> bool" where
  "is_regular node \<longleftrightarrow> (case node of RegularNode _ \<Rightarrow> True | _ \<Rightarrow> False)"

definition is_file :: "filesystem \<Rightarrow> path \<Rightarrow> bool" where
  "is_file fs p \<longleftrightarrow> (case metadata fs p of Inr node \<Rightarrow> is_regular node | Inl _ \<Rightarrow> False)"

section \<open>Confinement\<close>

definition canonical_root :: "filesystem \<Rightarrow> string \<Rightarrow> path application_result" where
  "canonical_root fs s =
     map_err (\<lambda>e. Storage (''could not resolve `'' @ s @ ''`: '' @ io_message (resolve_fault e)))
       (canonicalize fs s)"

definition canonical_path :: "filesystem \<Rightarrow> path \<Rightarrow> path application_result" where
  "canonical_path fs p =
     map_err (\<lambda>e. Storage (''could not resolve `'' @ absolute_display p @ ''`: ''
       @ io_message (resolve_fault e))) (canonical fs p)"

text \<open>\<open>normalise_absolute\<close> on the components of a path, where \<open>pop\<close> stops at the root.\<close>

definition normalise_absolute :: "path \<Rightarrow> path" where
  "normalise_absolute p = lexical_walk [] p"

function nearest_existing_ancestor :: "filesystem \<Rightarrow> path \<Rightarrow> path" where
  "nearest_existing_ancestor fs p =
     (if path_is_present fs p \<or> p = [] then p else nearest_existing_ancestor fs (butlast p))"
  by pat_completeness auto

termination by (relation "measure (\<lambda>(fs, p). length p)") auto

declare nearest_existing_ancestor.simps [simp del]

definition escapes :: "string \<Rightarrow> application_error" where
  "escapes path = Domain (PathEscapesWorktree path)"

definition resolve_without_escape :: "filesystem \<Rightarrow> path \<Rightarrow> path \<Rightarrow> path application_result" where
  "resolve_without_escape fs base candidate =
     (let existing = nearest_existing_ancestor fs candidate
      in and_then (canonical_path fs existing) (\<lambda>ancestor.
         if \<not> below base ancestor then Inl (escapes (absolute_display candidate))
         else
           let normalised = normalise_absolute (ancestor @ drop (length existing) candidate)
           in if \<not> below base normalised then Inl (escapes (absolute_display candidate))
              else Inr normalised))"

record confined_path =
  cf_relative :: relative_path
  cf_absolute :: path

definition confine ::
    "filesystem \<Rightarrow> pattern_matcher \<Rightarrow> string \<Rightarrow> string \<Rightarrow> path_access \<Rightarrow> path_policy
      \<Rightarrow> confined_path application_result" where
  "confine fs matcher worktree raw access policy =
     and_then (lift_domain (path_parse raw)) (\<lambda>relative.
     and_then (lift_domain (evaluate_path policy matcher relative access)) (\<lambda>_.
     and_then (canonical_root fs worktree) (\<lambda>base.
     and_then (resolve_without_escape fs base (base @ path_segments relative)) (\<lambda>resolved.
     Inr \<lparr>cf_relative = relative, cf_absolute = resolved\<rparr>))))"

text \<open>A path of the file system under a root, with forward slashes.\<close>

definition relative_within :: "path \<Rightarrow> path \<Rightarrow> string option" where
  "relative_within base absolute =
     (if below base absolute
      then Some (normalise_separators (join_str ''/'' (drop (length base) absolute))) else None)"

section \<open>Reading a file of a repository\<close>

text \<open>
  The file system does not change during a call, so the file that is read is the one that was
  inspected, and the check of the code that it has not grown meanwhile always passes.
\<close>

definition maximum_repository_configuration_bytes :: u64 where
  "maximum_repository_configuration_bytes = 65536"
definition maximum_repository_report_bytes :: u64 where
  "maximum_repository_report_bytes = 16777216"

definition read_confined_file ::
    "filesystem \<Rightarrow> string \<Rightarrow> string \<Rightarrow> u64 \<Rightarrow> string option application_result" where
  "read_confined_file fs base relative maximum_bytes =
     and_then (lift_domain (path_parse relative)) (\<lambda>parsed.
     and_then (canonical_root fs base) (\<lambda>resolved_root.
     let candidate = resolved_root @ path_segments parsed in
     case symlink_metadata fs candidate of
       Inl e \<Rightarrow>
         if io_kind (resolve_fault e) = NotFound then Inr None
         else Inl (storage_error (absolute_display candidate) ''inspect'' (io_message (resolve_fault e)))
     | Inr (LinkNode target) \<Rightarrow>
         Inl (ErrorPolicyViolation (''`'' @ relative @ ''` is a symbolic link, which is never followed when reading from a repository''))
     | Inr (RegularNode contents) \<Rightarrow>
         if unat maximum_bytes < length contents
         then Inl (ErrorPolicyViolation (''`'' @ relative @ ''` is '' @ nat_dec (length contents)
           @ '' bytes, which exceeds the '' @ dec maximum_bytes @ '' byte limit for a repository file''))
         else
           and_then (canonical_path fs candidate) (\<lambda>resolved.
           if \<not> below resolved_root resolved then Inl (escapes relative)
           else Inr (Some contents))
     | Inr _ \<Rightarrow>
         Inl (ErrorPolicyViolation (''`'' @ relative @ ''` is not a regular file, so it is not read''))))"

definition confined_working_directory ::
    "filesystem \<Rightarrow> string \<Rightarrow> string option \<Rightarrow> path application_result" where
  "confined_working_directory fs worktree subdirectory =
     and_then (canonical_root fs worktree) (\<lambda>base.
     case subdirectory of
       None \<Rightarrow> Inr base
     | Some name \<Rightarrow>
         and_then (lift_domain (path_parse name)) (\<lambda>parsed.
         let candidate = base @ path_segments parsed in
         case symlink_metadata fs candidate of
           Inr (LinkNode target) \<Rightarrow>
             Inl (ErrorPolicyViolation (''the working subdirectory `'' @ name
               @ ''` is a symbolic link, which may not be entered''))
         | _ \<Rightarrow>
             and_then (resolve_without_escape fs base candidate) (\<lambda>resolved.
             if \<not> is_directory fs resolved
             then Inl (InvalidConfiguration (''the working subdirectory `'' @ name
               @ ''` does not exist in the worktree''))
             else Inr resolved)))"

section \<open>Canonical paths\<close>

definition written_name :: "string \<Rightarrow> bool" where
  "written_name c \<longleftrightarrow> c \<noteq> [] \<and> c \<noteq> ''.''"

definition plain_name :: "string \<Rightarrow> bool" where
  "plain_name c \<longleftrightarrow> written_name c \<and> c \<noteq> ''..''"

text \<open>
  A path is straight when the walk goes along it as it is written: its proper prefixes are
  directories, every component is there, and none is a link.
\<close>

definition plain_step :: "filesystem \<Rightarrow> path \<Rightarrow> string \<Rightarrow> bool" where
  "plain_step fs here c \<longleftrightarrow>
     plain_name c \<and> node_at fs here = Inr DirectoryNode
     \<and> (\<exists>node. node_at fs (here @ [c]) = Inr node \<and> (\<forall>target. node \<noteq> LinkNode target))"

fun straight :: "filesystem \<Rightarrow> path \<Rightarrow> string list \<Rightarrow> bool" where
  "straight fs here [] \<longleftrightarrow> True"
| "straight fs here (c # cs) \<longleftrightarrow> plain_step fs here c \<and> straight fs (here @ [c]) cs"

lemma written_components: "list_all written_name (components s)"
  by (auto simp: components_def list_all_iff written_name_def)

lemma straight_append:
  "straight fs here (xs @ ys) \<longleftrightarrow> straight fs here xs \<and> straight fs (here @ xs) ys"
  by (induction fs here xs rule: straight.induct) auto

lemma resolve_plain_step:
  "plain_step fs here c \<Longrightarrow>
     resolve fs links here (c # cs) = resolve fs links (here @ [c]) cs"
  by (auto simp: plain_step_def plain_name_def split: fs_node.split)

lemma resolve_straight:
  "straight fs here cs \<Longrightarrow> resolve fs links here cs = Inr (here @ cs, links)"
  by (induction fs here cs rule: straight.induct) (simp_all add: resolve_plain_step del: resolve.simps(2))

lemma straight_plain: "straight fs here cs \<Longrightarrow> list_all plain_name cs"
  by (induction fs here cs rule: straight.induct) (auto simp: plain_step_def)

lemma lexical_walk_plain: "list_all plain_name ss \<Longrightarrow> lexical_walk here ss = here @ ss"
  by (induction here ss rule: lexical_walk.induct) (auto simp: plain_name_def written_name_def)

lemma proper_plain: "list_all proper_segment ss \<Longrightarrow> list_all plain_name ss"
  by (auto simp: list_all_iff proper_segment_def plain_name_def written_name_def)

lemma straight_butlast: "straight fs [] here \<Longrightarrow> straight fs [] (butlast here)"
  by (cases here rule: rev_cases) (simp_all add: straight_append)

lemma straight_node:
  assumes "straight fs [] p"
  obtains node where "node_at fs p = Inr node"
proof (cases p rule: rev_cases)
  case Nil
  then show ?thesis using that by (simp add: node_at_def)
next
  case (snoc q c)
  with assms have "plain_step fs q c" by (simp add: straight_append)
  then show ?thesis using snoc that by (auto simp: plain_step_def)
qed

text \<open>The cases of one step of the walk that does not fail at once.\<close>

lemma resolve_step_cases:
  assumes "node_at fs here = Inr DirectoryNode" and "c \<noteq> ''..''" and "written_name c"
    and "node_at fs (here @ [c]) = Inr node"
  obtains (link) target where "node = LinkNode target" | (plain) "plain_step fs here c"
proof (cases "\<exists>target. node = LinkNode target")
  case False
  with assms have "plain_step fs here c"
    by (auto simp: plain_step_def plain_name_def)
  then show ?thesis by (rule plain)
qed (use link in blast)

lemma resolve_is_straight:
  "resolve fs links here cs = Inr (p, left) \<Longrightarrow> straight fs [] here \<Longrightarrow> list_all written_name cs
    \<Longrightarrow> straight fs [] p \<and> left \<le> links"
proof (induction links arbitrary: here cs rule: less_induct)
  case (less links)
  from less.prems show ?case
  proof (induction cs arbitrary: here)
    case (Cons c cs)
    from Cons.prems(1) have dir: "node_at fs here = Inr DirectoryNode"
      by (cases "node_at fs here") (auto split: if_splits)
    show ?case
    proof (cases "c = ''..''")
      case True
      with Cons.prems dir have "resolve fs links (butlast here) cs = Inr (p, left)" by simp
      with Cons.IH Cons.prems straight_butlast show ?thesis by simp
    next
      case False
      from Cons.prems(1) dir False obtain node where node: "node_at fs (here @ [c]) = Inr node"
        by (cases "node_at fs (here @ [c])") auto
      from Cons.prems(3) have name: "written_name c" "list_all written_name cs" by simp_all
      from dir False name(1) node show ?thesis
      proof (cases rule: resolve_step_cases)
        case (link target)
        then have fewer: "links - 1 < links" and "resolve fs (links - 1)
            (if is_absolute target then [] else here) (components target @ cs) = Inr (p, left)"
          using Cons.prems(1) dir False node by (auto split: if_splits)
        from less.IH [OF this] Cons.prems(2) name(2) fewer show ?thesis
          by (cases "is_absolute target") (simp_all add: written_components)
      next
        case plain
        then have "resolve fs links (here @ [c]) cs = Inr (p, left)"
          using Cons.prems(1) by (simp only: resolve_plain_step)
        then show ?thesis
          using Cons.IH Cons.prems(2) name(2) plain by (simp add: straight_append)
      qed
    qed
  qed simp
qed

lemma resolve_append:
  "resolve fs links here (xs @ ys) =
     and_then (resolve fs links here xs) (\<lambda>(reached, left). resolve fs left reached ys)"
proof (induction links arbitrary: here xs rule: less_induct)
  case (less links)
  show ?case
  proof (induction xs arbitrary: here)
    case (Cons c cs)
    then show ?case
      using less.IH [of "links - 1" _ "components _ @ cs"]
      by (cases "node_at fs here"; cases "node_at fs (here @ [c])")
        (auto split: fs_node.split)
  qed simp
qed

text \<open>With more links to follow the walk fails for the same other reasons.\<close>

lemma resolve_fault_links:
  "resolve fs links here cs = Inl (Fault e) \<Longrightarrow> links \<le> extra
    \<Longrightarrow> resolve fs extra here cs = Inl (Fault e)"
proof (induction links arbitrary: extra here cs rule: less_induct)
  case (less links)
  from less.prems show ?case
  proof (induction cs arbitrary: here)
    case (Cons c cs)
    show ?case
    proof (cases "node_at fs here = Inr DirectoryNode \<and> c \<noteq> ''..''
        \<and> (\<exists>target. node_at fs (here @ [c]) = Inr (LinkNode target))")
      case True
      then obtain target where link: "node_at fs (here @ [c]) = Inr (LinkNode target)" by blast
      from True Cons.prems(1) link have positive: "links \<noteq> 0" by (auto split: if_splits)
      from Cons.prems(1) True link positive have "resolve fs (links - 1)
          (if is_absolute target then [] else here) (components target @ cs) = Inl (Fault e)"
        by simp
      moreover have "links - 1 < links" and "links - 1 \<le> extra - 1" and "extra \<noteq> 0"
        using positive Cons.prems(2) by auto
      ultimately show ?thesis
        using less.IH [of "links - 1" "if is_absolute target then [] else here"
          "components target @ cs" "extra - 1"] True link by simp
    next
      case False
      have same: "resolve fs links start cs = Inl (Fault e)
          \<Longrightarrow> resolve fs extra start cs = Inl (Fault e)" for start
        using Cons.IH [of start] Cons.prems(2) by blast
      show ?thesis
      proof (cases "node_at fs here")
        case (Inr node)
        with False Cons.prems(1) same [of "butlast here"] same [of "here @ [c]"] show ?thesis
          by (cases "node_at fs (here @ [c])") (auto split: fs_node.splits if_split_asm)
      qed (use Cons.prems(1) in simp)
    qed
  qed simp
qed

text \<open>Canonical paths lead to themselves, and so does the base of a confinement.\<close>

lemma canonical_straight: "straight fs [] p \<Longrightarrow> canonical fs p = Inr p"
  by (simp add: canonical_def resolve_straight)

lemma canonical_is_straight:
  assumes "canonical fs p = Inr q" and "list_all written_name p"
  shows "straight fs [] q"
  using assms resolve_is_straight [of fs "fy_links fs" "[]" p q]
  by (auto simp: canonical_def map_ok_Inr)

lemma canonical_root_straight:
  assumes "canonical_root fs s = Inr base" and "straight fs [] (fy_current fs)"
  shows "straight fs [] base"
proof -
  obtain left where "resolve fs (fy_links fs) (if is_absolute s then [] else fy_current fs)
      (components s) = Inr (base, left)"
    using assms(1) by (auto simp: canonical_root_def canonicalize_def map_ok_Inr map_err_Inr)
  then show ?thesis
    using resolve_is_straight written_components assms(2) by fastforce
qed

lemma present_straight: "straight fs [] p \<Longrightarrow> path_is_present fs p"
  using straight_node [of fs p] canonical_straight [of fs p]
  by (auto simp: metadata_def path_is_present_def is_ok_iff)

text \<open>Nothing is there at a path only when the walk along it fails.\<close>

lemma absent_fails:
  assumes "\<not> path_is_present fs p" and "list_all written_name p"
  shows "\<exists>e. canonical fs p = Inl e"
proof (rule ccontr)
  assume "\<nexists>e. canonical fs p = Inl e"
  then obtain q where q: "canonical fs p = Inr q" by (cases "canonical fs p") auto
  then have "straight fs [] q" using assms(2) by (rule canonical_is_straight)
  then obtain node where "node_at fs q = Inr node" by (rule straight_node)
  with q assms(1) show False by (simp add: path_is_present_def metadata_def)
qed

lemma nearest_existing_ancestor_spec:
  "path_is_present fs base \<Longrightarrow>
     \<exists>above rest. segments = above @ rest
       \<and> nearest_existing_ancestor fs (base @ segments) = base @ above
       \<and> (\<forall>s more. rest = s # more \<longrightarrow> \<not> path_is_present fs (base @ above @ [s]))"
proof (induction segments rule: rev_induct)
  case Nil
  then show ?case by (simp add: nearest_existing_ancestor.simps)
next
  case (snoc s segments)
  show ?case
  proof (cases "path_is_present fs (base @ segments @ [s])")
    case True
    then show ?thesis
      by (intro exI [of _ "segments @ [s]"] exI [of _ "[]"]) (simp add: nearest_existing_ancestor.simps)
  next
    case False
    then have step: "nearest_existing_ancestor fs (base @ segments @ [s])
        = nearest_existing_ancestor fs (base @ segments)"
      by (subst nearest_existing_ancestor.simps) (simp add: butlast_append)
    from snoc obtain above rest where split: "segments = above @ rest"
      and near: "nearest_existing_ancestor fs (base @ segments) = base @ above"
      and next_one: "\<forall>s more. rest = s # more \<longrightarrow> \<not> path_is_present fs (base @ above @ [s])"
      by blast
    with False step show ?thesis
      by (intro exI [of _ above] exI [of _ "rest @ [s]"]) (cases rest; auto)
  qed
qed

section \<open>A confined path\<close>

lemma confine_Inr:
  assumes "confine fs matcher worktree raw access policy = Inr c"
  obtains base where "path_parse raw = Inr (cf_relative c)"
    and "evaluate_path policy matcher (cf_relative c) access = Inr ()"
    and "canonical_root fs worktree = Inr base"
    and "resolve_without_escape fs base (base @ path_segments (cf_relative c)) = Inr (cf_absolute c)"
  using assms by (auto simp: confine_def lift_domain_def)

lemma resolve_without_escape_Inr:
  assumes "resolve_without_escape fs base candidate = Inr p"
  obtains ancestor where "canonical fs (nearest_existing_ancestor fs candidate) = Inr ancestor"
    and "below base ancestor"
    and "p = normalise_absolute (ancestor @ drop (length (nearest_existing_ancestor fs candidate)) candidate)"
    and "below base p"
  using assms
  by (auto simp: resolve_without_escape_def canonical_path_def map_err_Inr Let_def
      split: if_splits)

text \<open>
  A path that was resolved without escape is below its base, and unless the kernel gave up on the
  number of links, it is either canonical or leads nowhere: opening it follows no link.
\<close>

lemma resolved_leads_to_itself:
  assumes found: "resolve_without_escape fs base (base @ segments) = Inr p"
    and base: "straight fs [] base" and segments: "list_all plain_name segments"
    and links: "\<And>k. canonical fs (take k (base @ segments)) \<noteq> Inl TooManyLinks"
    and opened: "canonical fs p = Inr q"
  shows "q = p"
proof -
  obtain above rest where split: "segments = above @ rest"
    and near: "nearest_existing_ancestor fs (base @ segments) = base @ above"
    and absent: "\<And>s more. rest = s # more \<Longrightarrow> \<not> path_is_present fs (base @ above @ [s])"
    using nearest_existing_ancestor_spec [OF present_straight [OF base]] by blast
  obtain ancestor where canon: "canonical fs (base @ above) = Inr ancestor"
    and p: "p = normalise_absolute (ancestor @ rest)"
    using found unfolding split near [unfolded split]
    by (elim resolve_without_escape_Inr) (simp add: near [unfolded split])
  have proper: "list_all plain_name (base @ above @ rest)"
    using straight_plain [OF base] segments split by simp
  then have written: "list_all written_name (base @ above @ rest)"
    by (auto simp: list_all_iff plain_name_def)
  have ancestor: "straight fs [] ancestor"
    using canon written by (intro canonical_is_straight) auto
  then have p: "p = ancestor @ rest"
    using straight_plain proper unfolding p normalise_absolute_def
    by (subst lexical_walk_plain) auto
  show ?thesis
  proof (cases rest)
    case Nil
    with p ancestor opened show ?thesis by (simp add: canonical_straight)
  next
    case (Cons s more)
    have "\<exists>e. canonical fs (base @ above @ [s]) = Inl e"
      using absent [OF Cons] written Cons by (intro absent_fails) auto
    then obtain fault where failed: "canonical fs (base @ above @ [s]) = Inl fault" ..
    from links [of "length base + length above + 1"] have "fault \<noteq> TooManyLinks"
      using failed split Cons by auto
    then obtain e where "fault = Fault e" by (cases fault) auto
    moreover obtain left where left: "resolve fs (fy_links fs) [] (base @ above) = Inr (ancestor, left)"
      using canon by (auto simp: canonical_def map_ok_Inr)
    moreover have fewer: "left \<le> fy_links fs"
      using resolve_is_straight [OF left] written by simp
    moreover have "resolve fs (fy_links fs) [] (base @ above @ [s]) = resolve fs left ancestor [s]"
      using resolve_append [of fs "fy_links fs" "[]" "base @ above" "[s]"] left
      by (simp del: resolve.simps)
    ultimately have "resolve fs left ancestor [s] = Inl (Fault e)"
      using failed by (simp add: canonical_def del: resolve.simps)
    then have "resolve fs (fy_links fs) ancestor [s] = Inl (Fault e)"
      using fewer by (rule resolve_fault_links)
    moreover have "resolve fs (fy_links fs) [] p = resolve fs (fy_links fs) ancestor ([s] @ more)"
      using resolve_append [of fs "fy_links fs" "[]" ancestor "[s] @ more"] resolve_straight [OF ancestor]
      unfolding p Cons by (simp del: resolve.simps)
    ultimately have "canonical fs p = Inl (Fault e)"
      using resolve_append [of fs "fy_links fs" ancestor "[s]" more]
      unfolding canonical_def by (simp del: resolve.simps)
    with opened show ?thesis by simp
  qed
qed

lemma confine_leads_to_itself:
  assumes found: "confine fs matcher worktree raw access policy = Inr c"
    and current: "straight fs [] (fy_current fs)"
    and links: "\<And>base k. canonical_root fs worktree = Inr base
      \<Longrightarrow> canonical fs (take k (base @ path_segments (cf_relative c))) \<noteq> Inl TooManyLinks"
    and opened: "canonical fs (cf_absolute c) = Inr q"
  shows "q = cf_absolute c"
proof -
  from found obtain base where parsed: "path_parse raw = Inr (cf_relative c)"
    and base: "canonical_root fs worktree = Inr base"
    and p: "resolve_without_escape fs base (base @ path_segments (cf_relative c)) = Inr (cf_absolute c)"
    by (rule confine_Inr)
  have "straight fs [] base" using base current by (rule canonical_root_straight)
  moreover have "list_all plain_name (path_segments (cf_relative c))"
    using parsed by (intro proper_plain path_parse_segments)
  ultimately show ?thesis using p links [OF base] opened by (rule_tac resolved_leads_to_itself)
qed

text \<open>A file that is read is the one that is at the path, and no larger than allowed.\<close>

lemma read_confined_file_Some:
  assumes "read_confined_file fs base relative bound = Inr (Some contents)"
  obtains resolved_root parsed resolved where "canonical_root fs base = Inr resolved_root"
    and "path_parse relative = Inr parsed"
    and "symlink_metadata fs (resolved_root @ path_segments parsed) = Inr (RegularNode contents)"
    and "length contents \<le> unat bound"
    and "canonical fs (resolved_root @ path_segments parsed) = Inr resolved"
    and "below resolved_root resolved"
proof -
  from assms obtain parsed resolved_root where parsed: "path_parse relative = Inr parsed"
    and base: "canonical_root fs base = Inr resolved_root"
    by (auto simp: read_confined_file_def lift_domain_def)
  show ?thesis
  proof (cases "symlink_metadata fs (resolved_root @ path_segments parsed)")
    case (Inr node)
    with assms parsed base that show ?thesis
      by (cases node)
        (auto simp: read_confined_file_def lift_domain_def canonical_path_def split: if_splits)
  qed (use assms parsed base in
      \<open>simp add: read_confined_file_def lift_domain_def split: if_splits\<close>)
qed

end
