(* ===== verification/Forge_Plain.thy ===== *)
theory Forge_Plain
  imports Forge_Paths
begin

text \<open>
  Text without anything to strip, and paths that parse to themselves: on the names of the samples the
  scans of \<open>trim\<close> and \<open>path_parse\<close> need not be run.
\<close>

lemma chr_is:
  assumes "n < 256"
  shows "chr n = c \<longleftrightarrow> of_char c = n" and "c = chr n \<longleftrightarrow> of_char c = n"
  using assms by (auto simp: char_eq_byte) (auto simp: byte_def)

definition plain_char :: "char \<Rightarrow> bool" where
  "plain_char c \<longleftrightarrow> 32 < byte c \<and> byte c < 127"

lemma whitespace_edges:
  assumes "w \<in> set whitespace"
  shows "w \<noteq> []" and "\<not> plain_char (hd w)" and "\<not> plain_char (last w)"
  using assms by (auto simp: whitespace_def plain_char_def)

lemma strip_plain:
  assumes "\<And>w. w \<in> set ws \<Longrightarrow> w \<noteq> [] \<Longrightarrow> \<not> plain_char (hd w)" and "plain_char c"
  shows "strip_any ws (c # s) = c # s"
proof -
  have "\<not> (w \<noteq> [] \<and> starts_with w (c # s))" if "w \<in> set ws" for w
    using assms(1) [OF that] assms(2) by (cases w) (auto simp: starts_with_def)
  then have "find (\<lambda>w. w \<noteq> [] \<and> starts_with w (c # s)) ws = None"
    by (simp add: find_None_iff)
  then show ?thesis by (subst strip_any.simps) simp
qed

lemma trim_plain:
  assumes "s \<noteq> []" and "plain_char (hd s)" and "plain_char (last s)"
  shows "trim s = s"
proof -
  from assms obtain c t where s: "s = c # t" by (cases s) auto
  with assms have "trim_start s = s"
    by (auto simp: trim_start_def intro!: strip_plain dest: whitespace_edges)
  moreover have "trim_end s = s"
  proof -
    from assms obtain d r where r: "rev s = d # r" by (cases "rev s") auto
    with assms have "plain_char d" by (metis hd_rev list.sel(1))
    then have "strip_any (map rev whitespace) (d # r) = d # r"
      by (intro strip_plain) (auto simp: hd_rev dest: whitespace_edges)
    with r show ?thesis by (metis trim_end_def rev_rev_ident)
  qed
  ultimately show ?thesis by (simp add: trim_def)
qed

lemma collect_segments_proper:
  "list_all (\<lambda>x. x \<notin> {'''', ''.'', ''..''}) xs \<Longrightarrow> collect_segments raw xs = Inr xs"
  by (induction xs) auto

definition plain_path :: "string \<Rightarrow> bool" where
  "plain_path s \<longleftrightarrow>
     s \<noteq> [] \<and> list_all (\<lambda>c. plain_char c \<and> byte c \<notin> {58, 92, 126}) s
     \<and> list_all (\<lambda>x. x \<notin> {'''', ''.'', ''..''}) (split_char (CHR ''/'') s)"

lemma path_parse_plain:
  assumes "plain_path s"
  shows "path_parse s = Inr s"
proof -
  have plain: "plain_char c \<and> byte c \<notin> {58, 92, 126}" if "c \<in> set s" for c
    using assms that by (auto simp: plain_path_def list_all_iff)
  have s: "s \<noteq> []" and segments: "collect_segments s (split_char (CHR ''/'') s)
      = Inr (split_char (CHR ''/'') s)"
    using assms by (auto simp: plain_path_def intro: collect_segments_proper)
  have trimmed: "trim s = s" using s plain by (intro trim_plain) auto
  have absent: "c \<notin> set s" if "byte c \<le> 32 \<or> byte c \<in> {58, 92, 126}" for c
    using plain [of c] that by (auto simp: plain_char_def)
  have "nul \<notin> set s" "newline \<notin> set s" "carriage_return \<notin> set s"
    by (rule absent, simp add: nul_def newline_def carriage_return_def)+
  moreover have "normalise_separators s = s"
    using absent [of backslash] by (auto simp: normalise_separators_def backslash_def intro!: map_idI)
  moreover have "\<not> starts_with ''~'' s"
  proof
    assume "starts_with ''~'' s"
    then have "CHR ''~'' \<in> set s" by (cases s) (auto simp: starts_with_def)
    with absent [of "CHR ''~''"] show False by (simp add: byte_literals)
  qed
  moreover have "\<not> starts_with ''/'' s"
  proof
    assume "starts_with ''/'' s"
    then obtain t where "s = CHR ''/'' # t" by (cases s) (auto simp: starts_with_def)
    with assms show False by (simp add: plain_path_def)
  qed
  moreover have "\<not> has_windows_drive_prefix s"
  proof
    assume "has_windows_drive_prefix s"
    then have "CHR '':'' \<in> set s"
      by (metis One_nat_def Suc_1 Suc_le_lessD has_windows_drive_prefix_def nth_mem)
    with absent [of "CHR '':''"] show False by (simp add: byte_literals)
  qed
  ultimately show ?thesis
    by (simp add: path_parse_def trimmed Let_def segments s join_split split_char_not_Nil)
qed

end
