(* ===== verification/Forge_Filesystem_Samples.thy ===== *)
theory Forge_Filesystem_Samples
  imports Forge_Filesystem Forge_Plain
begin

text \<open>
  A small tree with links on which \<open>Forge_Filesystem\<close> is evaluated: what confinement returns and
  refuses there, and two paths it lets through that it should not.
\<close>

section \<open>A sample tree\<close>

definition tree :: "(path \<times> fs_node) list \<Rightarrow> nat \<Rightarrow> filesystem" where
  "tree nodes links =
     \<lparr>fy_node = map_of nodes, fy_fault = \<lambda>p. None, fy_links = links, fy_current = []\<rparr>"

definition sample_tree :: filesystem where
  "sample_tree = tree
     [([''work''], DirectoryNode),
      ([''work'', ''.git''], DirectoryNode),
      ([''work'', ''.git'', ''config''], RegularNode ''secret''),
      ([''work'', ''core''], DirectoryNode),
      ([''work'', ''src''], LinkNode ''core''),
      ([''work'', ''notes''], LinkNode ''.git''),
      ([''work'', ''out''], LinkNode ''/etc''),
      ([''work'', ''core'', ''out''], LinkNode ''/etc''),
      ([''etc''], DirectoryNode),
      ([''etc'', ''passwd''], RegularNode ''users'')] 40"

definition spelled :: pattern_matcher where "spelled pattern path \<longleftrightarrow> pattern = path"

definition sample_policy :: path_policy where
  "sample_policy = path_policy_default\<lparr>pp_protected_patterns := [''.git/config'']\<rparr>"

text \<open>The walk, one component at a time.\<close>

lemma walk_steps:
  "node_at fs here = Inr DirectoryNode \<Longrightarrow> c \<noteq> ''..'' \<Longrightarrow> node_at fs (here @ [c]) = Inr DirectoryNode
     \<Longrightarrow> resolve fs links here (c # cs) = resolve fs links (here @ [c]) cs"
  "node_at fs here = Inr DirectoryNode \<Longrightarrow> c \<noteq> ''..''
     \<Longrightarrow> node_at fs (here @ [c]) = Inr (RegularNode contents)
     \<Longrightarrow> resolve fs links here (c # cs) = resolve fs links (here @ [c]) cs"
  "node_at fs here = Inr DirectoryNode \<Longrightarrow> c \<noteq> ''..''
     \<Longrightarrow> node_at fs (here @ [c]) = Inr (LinkNode target)
     \<Longrightarrow> resolve fs links here (c # cs) =
           (if links = 0 then Inl TooManyLinks
            else resolve fs (links - 1) (if is_absolute target then [] else here)
              (components target @ cs))"
  "node_at fs here = Inr DirectoryNode \<Longrightarrow> c \<noteq> ''..'' \<Longrightarrow> node_at fs (here @ [c]) = Inl e
     \<Longrightarrow> resolve fs links here (c # cs) = Inl e"
  by simp_all

definition shallow_tree :: filesystem where "shallow_tree = sample_tree\<lparr>fy_links := 1\<rparr>"

lemma tree_fields:
  "fy_links sample_tree = 40" "fy_links shallow_tree = 1"
  "fy_current sample_tree = []" "fy_current shallow_tree = []"
  "node_at shallow_tree = node_at sample_tree"
  by (simp_all add: shallow_tree_def sample_tree_def tree_def node_at_def fun_eq_iff)

lemma tree_nodes:
  "node_at sample_tree [] = Inr DirectoryNode"
  "node_at sample_tree [''work''] = Inr DirectoryNode"
  "node_at sample_tree [''work'', ''.git''] = Inr DirectoryNode"
  "node_at sample_tree [''work'', ''.git'', ''config''] = Inr (RegularNode ''secret'')"
  "node_at sample_tree [''work'', ''core''] = Inr DirectoryNode"
  "node_at sample_tree [''work'', ''core'', ''new.rs''] = Inl (Fault not_found)"
  "node_at sample_tree [''work'', ''core'', ''out''] = Inr (LinkNode ''/etc'')"
  "node_at sample_tree [''work'', ''src''] = Inr (LinkNode ''core'')"
  "node_at sample_tree [''work'', ''notes''] = Inr (LinkNode ''.git'')"
  "node_at sample_tree [''work'', ''out''] = Inr (LinkNode ''/etc'')"
  "node_at sample_tree [''etc''] = Inr DirectoryNode"
  "node_at sample_tree [''etc'', ''passwd''] = Inr (RegularNode ''users'')"
  by (simp_all add: node_at_def sample_tree_def tree_def)

lemma tree_targets:
  "components ''/work'' = [''work'']" "components ''core'' = [''core'']"
  "components ''.git'' = [''.git'']" "components ''/etc'' = [''etc'']"
  "is_absolute ''/work''" "\<not> is_absolute ''core''" "\<not> is_absolute ''.git''" "is_absolute ''/etc''"
  by (simp_all add: components_def is_absolute_def starts_with_def)

lemmas plain_evaluation = path_parse_plain plain_path_def plain_char_def path_segments_def byte_def

lemma path_new:
  "path_parse ''src/new.rs'' = Inr ''src/new.rs''" "path_segments ''src/new.rs'' = [''src'', ''new.rs'']"
  by (simp_all add: plain_evaluation)

lemma path_passwd:
  "path_parse ''out/passwd'' = Inr ''out/passwd''" "path_segments ''out/passwd'' = [''out'', ''passwd'']"
  by (simp_all add: plain_evaluation)

lemma path_config:
  "path_parse ''notes/config'' = Inr ''notes/config''" "path_segments ''notes/config'' = [''notes'', ''config'']"
  by (simp_all add: plain_evaluation)

lemma path_out:
  "path_parse ''src/out'' = Inr ''src/out''" "path_segments ''src/out'' = [''src'', ''out'']"
  by (simp_all add: plain_evaluation)

lemmas sample_paths = path_new path_passwd path_config path_out

lemma sample_permitted:
  "evaluate_path sample_policy spelled ''src/new.rs'' Write = Inr ()"
  "evaluate_path sample_policy spelled ''out/passwd'' Write = Inr ()"
  "evaluate_path sample_policy spelled ''notes/config'' Write = Inr ()"
  "evaluate_path sample_policy spelled ''src/out'' Write = Inr ()"
  by (simp_all add: evaluate_path_def sample_policy_def path_policy_default_def
      default_sensitive_patterns_def spelled_def)

lemmas tree_walks = confine_def lift_domain_def canonical_root_def canonicalize_def
  resolve_without_escape_def nearest_existing_ancestor.simps path_is_present_def metadata_def
  canonical_path_def canonical_def normalise_absolute_def below_def walk_steps

lemma sample_tree_confines:
  "confine sample_tree spelled ''/work'' ''src/new.rs'' Write sample_policy
     = Inr \<lparr>cf_relative = ''src/new.rs'', cf_absolute = [''work'', ''core'', ''new.rs'']\<rparr>"
  "confine sample_tree spelled ''/work'' ''out/passwd'' Write sample_policy
     = Inl (escapes (absolute_display [''work'', ''out'', ''passwd'']))"
  by (simp_all add: tree_walks tree_fields tree_nodes tree_targets sample_paths sample_permitted
      del: resolve.simps(2))

lemma sample_base: "canonical_root sample_tree ''/work'' = Inr [''work'']"
  by (simp add: tree_walks tree_fields tree_nodes tree_targets del: resolve.simps(2))

lemma sample_walks_end:
  assumes "canonical_root sample_tree ''/work'' = Inr base"
  shows "canonical sample_tree (take k (base @ path_segments ''src/new.rs'')) \<noteq> Inl TooManyLinks"
proof -
  have "k = 0 \<or> k = 1 \<or> k = 2 \<or> 2 < k" by arith
  with assms show ?thesis
    by (elim disjE) (auto simp: sample_base sample_paths take_Cons' canonical_def walk_steps tree_fields
        tree_nodes tree_targets not_found_def simp del: resolve.simps(2))
qed

text \<open>
  The policy is asked about the path as it is written: a link of the worktree leads to a path that
  the policy protects.
\<close>

lemma protected_path_refused:
  "evaluate_path sample_policy spelled ''.git/config'' Write
     = Inl (PathProtected ''.git/config'' ''.git/config'')"
  by (simp_all add: evaluate_path_def sample_policy_def path_policy_default_def
      default_sensitive_patterns_def spelled_def)

lemma link_reaches_protected_path:
  "confine sample_tree spelled ''/work'' ''notes/config'' Write sample_policy
     = Inr \<lparr>cf_relative = ''notes/config'', cf_absolute = [''work'', ''.git'', ''config'']\<rparr>"
  by (simp_all add: tree_walks tree_fields tree_nodes tree_targets sample_paths sample_permitted
      del: resolve.simps(2))

text \<open>
  When the path needs more links than the kernel follows, the code takes it for one that does not
  exist yet; the path it returns needs fewer links and leads out of the worktree. The tree below
  gives up after one link where Linux does after forty.
\<close>

lemma exhausted_links_lead_out:
  "confine shallow_tree spelled ''/work'' ''src/out'' Write sample_policy
     = Inr \<lparr>cf_relative = ''src/out'', cf_absolute = [''work'', ''core'', ''out'']\<rparr>"
  "canonical shallow_tree [''work'', ''core'', ''out''] = Inr [''etc'']"
  by (simp_all add: tree_walks tree_fields tree_nodes tree_targets sample_paths sample_permitted
      del: resolve.simps(2))

end
