(* ===== verification/Forge_Detection.thy ===== *)
theory Forge_Detection
  imports Forge_Filesystem "HOL-Library.Option_ord"
begin

text \<open>
  \<open>infrastructure/src/configuration/detection.rs\<close>: the survey of a repository that declares no
  commands. It looks at the names of the tracked files, at a \<open>package.json\<close> and at a \<open>.gitignore\<close>, and
  proposes commands. Parsing JSON belongs to the JSON crate.
\<close>

section \<open>Ecosystems\<close>

datatype ecosystem = RustProject | GoProject | PythonProject | NodeProject | CmakeProject

primrec ecosystem_as_str :: "ecosystem \<Rightarrow> string" where
  "ecosystem_as_str RustProject = ''rust''"
| "ecosystem_as_str GoProject = ''go''"
| "ecosystem_as_str PythonProject = ''python''"
| "ecosystem_as_str NodeProject = ''node''"
| "ecosystem_as_str CmakeProject = ''cmake''"

text \<open>The order derived from the declaration.\<close>

primrec ecosystem_rank :: "ecosystem \<Rightarrow> nat" where
  "ecosystem_rank RustProject = 0"
| "ecosystem_rank GoProject = 1"
| "ecosystem_rank PythonProject = 2"
| "ecosystem_rank NodeProject = 3"
| "ecosystem_rank CmakeProject = 4"

primrec markers :: "ecosystem \<Rightarrow> string list" where
  "markers RustProject = [''Cargo.toml'']"
| "markers GoProject = [''go.mod'']"
| "markers PythonProject = [''pyproject.toml'', ''setup.py'', ''setup.cfg'', ''requirements.txt'']"
| "markers NodeProject = [''package.json'']"
| "markers CmakeProject = [''CMakeLists.txt'']"

definition aggregates_subdirectories :: "ecosystem \<Rightarrow> bool" where
  "aggregates_subdirectories e \<longleftrightarrow> e \<in> {RustProject, GoProject}"

definition surveyed_markers :: "string list" where
  "surveyed_markers =
     [''CMakeLists.txt'', ''Cargo.toml'', ''go.mod'', ''package.json'', ''pyproject.toml'',
      ''setup.py'', ''setup.cfg'', ''requirements.txt'']"

definition maximum_manifest_bytes :: u64 where "maximum_manifest_bytes = 1048576"
definition maximum_survey_depth :: nat where "maximum_survey_depth = 3"

definition vendored_segments :: "string list" where
  "vendored_segments =
     [''node_modules'', ''vendor'', ''third_party'', ''thirdparty'', ''target'', ''dist'', ''build'',
      ''out'', ''.venv'', ''venv'', ''__pycache__'', ''site-packages'']"

record detected_module =
  dm_ecosystem :: ecosystem
  dm_directory :: "string option"
  dm_marker :: string

definition module_label :: "detected_module \<Rightarrow> string" where
  "module_label self =
     (case dm_directory self of
        Some directory \<Rightarrow> ecosystem_as_str (dm_ecosystem self) @ '' in `'' @ directory @ ''`''
      | None \<Rightarrow> ecosystem_as_str (dm_ecosystem self) @ '' at the repository root'')"

record survey_decline =
  sd_subject :: string
  sd_detail :: string

record project_survey =
  pj_modules :: "detected_module list"
  pj_commands :: "command_specification list"
  pj_declines :: "survey_decline list"
  pj_tracked_listing_available :: bool

definition survey_default :: project_survey where
  "survey_default =
     \<lparr>pj_modules = [], pj_commands = [], pj_declines = [], pj_tracked_listing_available = False\<rparr>"

definition describe_kinds :: "project_survey \<Rightarrow> string" where
  "describe_kinds self =
     (if pj_modules self = [] then ''unknown''
      else join_str '', ''
        (sort (remdups (map (\<lambda>m. ecosystem_as_str (dm_ecosystem m)) (pj_modules self)))))"

section \<open>Paths of tracked files\<close>

definition directory_of :: "string \<Rightarrow> string option" where
  "directory_of path =
     (let pieces = split_char (CHR ''/'') path
      in if length pieces < 2 then None else Some (join_str ''/'' (butlast pieces)))"

definition file_name_of :: "string \<Rightarrow> string" where
  "file_name_of path = last (split_char (CHR ''/'') path)"

definition depth_of :: "string option \<Rightarrow> nat" where
  "depth_of directory =
     (case directory of Some d \<Rightarrow> length (split_char (CHR ''/'') d) | None \<Rightarrow> 0)"

definition is_vendored :: "string \<Rightarrow> bool" where
  "is_vendored path \<longleftrightarrow>
     list_ex (\<lambda>segment. segment \<in> set vendored_segments \<or> starts_with ''.'' segment)
       (split_char (CHR ''/'') path)"

definition within_directory :: "string option \<Rightarrow> string \<Rightarrow> bool" where
  "within_directory directory path \<longleftrightarrow>
     (case directory of Some d \<Rightarrow> starts_with (d @ ''/'') path | None \<Rightarrow> True)"

definition module_relative :: "string option \<Rightarrow> string \<Rightarrow> string" where
  "module_relative directory path =
     (case directory of
        Some d \<Rightarrow> (case strip_prefix (d @ ''/'') path of Some r \<Rightarrow> r | None \<Rightarrow> path)
      | None \<Rightarrow> path)"

text \<open>\<open>is_test_path\<close> of \<open>quality/integrity.rs\<close>.\<close>

definition is_test_path :: "string \<Rightarrow> bool" where
  "is_test_path path \<longleftrightarrow>
     (let lowered = to_ascii_lowercase path;
          name = last (split_char (CHR ''/'') lowered)
      in list_ex (\<lambda>segment. segment \<in> {''tests'', ''test'', ''spec'', ''__tests__''})
           (split_char (CHR ''/'') lowered)
         \<or> starts_with ''test_'' name \<or> contains_str ''_test.'' name \<or> contains_str ''.test.'' name
         \<or> contains_str ''.spec.'' name \<or> contains_str ''_spec.'' name)"

section \<open>Proposals\<close>

record proposal =
  pn_suffix :: string
  pn_kind :: command_kind
  pn_program :: string
  pn_args :: "string list"
  pn_timeout_seconds :: u32
  pn_required :: bool
  pn_report_format :: report_format

text \<open>Characters that are not ASCII are several bytes here, each a hyphen; the runs are merged.\<close>

definition slug_of :: "string \<Rightarrow> string" where
  "slug_of directory =
     (let mapped = map (\<lambda>c. if is_ascii_alphanumeric c then ascii_lower c else CHR ''-'') directory
      in chars_take 40 (join_str ''-''
           (filter (\<lambda>segment. segment \<noteq> []) (split_char (CHR ''-'') mapped))))"

definition propose :: "detected_module \<Rightarrow> proposal \<Rightarrow> command_specification option" where
  "propose m p =
     (let identifier = (case dm_directory m of
            Some directory \<Rightarrow> ecosystem_as_str (dm_ecosystem m) @ ''-'' @ slug_of directory @ ''-''
              @ pn_suffix p
          | None \<Rightarrow> ecosystem_as_str (dm_ecosystem m) @ ''-'' @ pn_suffix p)
      in case command_id_from_str identifier of
           Inl _ \<Rightarrow> None
         | Inr command_id \<Rightarrow>
             let specification =
               \<lparr>cs_id = command_id, cs_kind = pn_kind p, cs_program = pn_program p,
                cs_args = pn_args p, cs_working_subdirectory = dm_directory m,
                cs_timeout = timeout_clamped (pn_timeout_seconds p) maximum_command_timeout_seconds,
                cs_required = pn_required p, cs_report_format = pn_report_format p,
                cs_report_path = None, cs_environment = [], cs_success_exit_codes = [0]\<rparr>
             in if is_ok (command_specification_validate specification)
                then Some specification else None)"

definition push_proposal :: "detected_module \<Rightarrow> proposal \<Rightarrow> project_survey \<Rightarrow> project_survey" where
  "push_proposal m p survey =
     (case propose m p of
        Some specification \<Rightarrow>
          survey\<lparr>pj_commands := pj_commands survey @ [specification]\<rparr>
      | None \<Rightarrow> survey)"

definition decline :: "string \<Rightarrow> string \<Rightarrow> project_survey \<Rightarrow> project_survey" where
  "decline subject detail survey =
     survey\<lparr>pj_declines := pj_declines survey @ [\<lparr>sd_subject = subject, sd_detail = detail\<rparr>]\<rparr>"

definition proposal_of ::
    "string \<Rightarrow> command_kind \<Rightarrow> string \<Rightarrow> string list \<Rightarrow> u32 \<Rightarrow> bool \<Rightarrow> report_format \<Rightarrow> proposal" where
  "proposal_of suffix kind program arguments seconds required format =
     \<lparr>pn_suffix = suffix, pn_kind = kind, pn_program = program, pn_args = arguments,
      pn_timeout_seconds = seconds, pn_required = required, pn_report_format = format\<rparr>"

definition rust_proposals :: "proposal list" where
  "rust_proposals =
     [proposal_of ''format'' Format ''cargo'' [''fmt'', ''--all'', ''--'', ''--check''] 180 False NoReport,
      proposal_of ''lint'' Lint ''cargo'' [''clippy'', ''--workspace'', ''--all-targets''] 900 False NoReport,
      proposal_of ''test'' Test ''cargo'' [''test'', ''--workspace'', ''--no-fail-fast''] 1800 True
        CargoTestText]"

definition propose_rust :: "detected_module \<Rightarrow> project_survey \<Rightarrow> project_survey" where
  "propose_rust m survey = foldl (\<lambda>survey p. push_proposal m p survey) survey rust_proposals"

definition go_proposals :: "proposal list" where
  "go_proposals =
     [proposal_of ''lint'' Lint ''go'' [''vet'', ''./...''] 600 False NoReport,
      proposal_of ''test'' Test ''go'' [''test'', ''-count=1'', ''-json'', ''./...''] 1800 True GoTestJson]"

definition propose_go :: "detected_module \<Rightarrow> project_survey \<Rightarrow> project_survey" where
  "propose_go m survey = foldl (\<lambda>survey p. push_proposal m p survey) survey go_proposals"

definition python_lint :: proposal where
  "python_lint = proposal_of ''lint'' Lint ''python3'' [''-m'', ''ruff'', ''check'', ''.''] 600 False NoReport"
definition python_test :: proposal where
  "python_test = proposal_of ''test'' Test ''python3'' [''-m'', ''pytest'', ''-q''] 1800 True PytestText"

definition has_python_tests :: "string option \<Rightarrow> string list \<Rightarrow> bool" where
  "has_python_tests directory tracked \<longleftrightarrow>
     list_ex (\<lambda>path. let relative = module_relative directory path
         in ends_with ''.py'' relative \<and> is_test_path relative)
       (filter (\<lambda>path. \<not> is_vendored path \<and> within_directory directory path) tracked)"

definition propose_python ::
    "detected_module \<Rightarrow> string list \<Rightarrow> project_survey \<Rightarrow> project_survey" where
  "propose_python m tracked survey =
     (let survey = push_proposal m python_lint survey
      in if \<not> has_python_tests (dm_directory m) tracked
         then decline (module_label m)
           ''no tracked Python test file was found, so no test command was proposed'' survey
         else push_proposal m python_test survey)"

section \<open>Node\<close>

definition node_runners :: "string list" where "node_runners = [''vitest'', ''jest'', ''mocha'']"

definition node_managers :: "(string \<times> string \<times> string list) list" where
  "node_managers =
     [(''package-lock.json'', ''npm'', [''ci'', ''--ignore-scripts'']),
      (''pnpm-lock.yaml'', ''pnpm'', [''install'', ''--frozen-lockfile'', ''--ignore-scripts'']),
      (''yarn.lock'', ''yarn'', [''install'', ''--immutable'', ''--mode=skip-build'']),
      (''bun.lockb'', ''bun'', [''install'', ''--frozen-lockfile'', ''--ignore-scripts''])]"

fun json_member :: "string \<Rightarrow> json_value \<Rightarrow> json_value option" where
  "json_member key (JObject entries) = map_of entries key"
| "json_member key _ = None"

fun json_text :: "json_value \<Rightarrow> string option" where
  "json_text (JString s) = Some s"
| "json_text _ = None"

definition declared_script :: "json_value option \<Rightarrow> string \<Rightarrow> string option" where
  "declared_script manifest name =
     Option.bind manifest (\<lambda>document.
     Option.bind (json_member ''scripts'' document) (\<lambda>scripts.
     Option.bind (json_member name scripts) json_text))"

definition script_mentions :: "json_value option \<Rightarrow> string \<Rightarrow> bool" where
  "script_mentions manifest runner \<longleftrightarrow>
     (case declared_script manifest ''test'' of Some s \<Rightarrow> contains_str runner s | None \<Rightarrow> False)"

definition depends_on :: "json_value option \<Rightarrow> string \<Rightarrow> string \<Rightarrow> bool" where
  "depends_on manifest table runner \<longleftrightarrow>
     Option.bind (Option.bind manifest (json_member table)) (json_member runner) \<noteq> None"

definition recognised_node_runner :: "json_value option \<Rightarrow> string option" where
  "recognised_node_runner manifest =
     (if script_mentions manifest ''node --test'' \<or> script_mentions manifest ''node:test''
      then Some ''the Node built in test runner''
      else find (\<lambda>runner. depends_on manifest ''devDependencies'' runner
             \<or> depends_on manifest ''dependencies'' runner \<or> script_mentions manifest runner)
           node_runners)"

definition beside :: "string option \<Rightarrow> string \<Rightarrow> string" where
  "beside directory name = (case directory of Some d \<Rightarrow> d @ ''/'' @ name | None \<Rightarrow> name)"

definition read_manifest ::
    "filesystem \<Rightarrow> (string \<Rightarrow> json_value option) \<Rightarrow> string \<Rightarrow> string option \<Rightarrow> json_value option" where
  "read_manifest fs from_json repository directory =
     (case read_confined_file fs repository (beside directory ''package.json'') maximum_manifest_bytes of
        Inr (Some bytes) \<Rightarrow> from_json bytes
      | _ \<Rightarrow> None)"

definition node_install :: "string \<Rightarrow> string list \<Rightarrow> proposal" where
  "node_install program install = proposal_of ''install'' Build program install 1800 True NoReport"
definition node_lint :: "string \<Rightarrow> proposal" where
  "node_lint program = proposal_of ''lint'' Lint program [''run'', ''lint''] 900 False NoReport"
definition node_test :: "string \<Rightarrow> proposal" where
  "node_test program = proposal_of ''test'' Test program [''run'', ''test''] 1800 True NodeTestText"

definition propose_node ::
    "filesystem \<Rightarrow> (string \<Rightarrow> json_value option) \<Rightarrow> string \<Rightarrow> detected_module \<Rightarrow> string list
      \<Rightarrow> project_survey \<Rightarrow> project_survey" where
  "propose_node fs from_json repository m tracked survey =
     (let manifest = read_manifest fs from_json repository (dm_directory m)
      in if declared_script manifest ''test'' = None
         then decline (module_label m)
           ''`package.json` declares no `test` script, so no test command was proposed'' survey
         else case recognised_node_runner manifest of
           None \<Rightarrow> decline (module_label m)
             ''the test runner could not be identified from `package.json`, so the number of tests it executes could not be read and no test command was proposed. Vitest, Jest, Mocha and the Node built in runner are recognised'' survey
         | Some runner \<Rightarrow>
             (case find (\<lambda>(lockfile, _, _). beside (dm_directory m) lockfile \<in> set tracked) node_managers of
                None \<Rightarrow> decline (module_label m)
                  ''no tracked lockfile was found, so dependencies cannot be installed reproducibly in a clean worktree and no test command was proposed'' survey
              | Some (_, program, install) \<Rightarrow>
                  let survey = push_proposal m (node_install program install) survey;
                      survey = (if declared_script manifest ''lint'' \<noteq> None
                        then push_proposal m (node_lint program) survey else survey);
                      survey = push_proposal m (node_test program) survey
                  in decline (module_label m)
                    (''the test command was proposed on the understanding that it reports its results through ''
                     @ runner @ '', and dependencies are installed without running lifecycle scripts'') survey))"

section \<open>CMake\<close>

definition ignores_build :: "string \<Rightarrow> bool" where
  "ignores_build contents \<longleftrightarrow>
     list_ex (\<lambda>line_text.
       let trimmed = rev (dropWhile (\<lambda>c. c = CHR ''/'') (rev (trim line_text)))
       in trimmed = ''build'' \<or> trimmed = ''/build'') (lines contents)"

definition cmake_proposals :: "proposal list" where
  "cmake_proposals =
     [proposal_of ''configure'' Build ''cmake'' [''-S'', ''.'', ''-B'', ''build''] 900 True NoReport,
      proposal_of ''build'' Build ''cmake'' [''--build'', ''build''] 1800 True NoReport,
      proposal_of ''test'' Test ''ctest''
        [''--test-dir'', ''build'', ''--no-tests=error'', ''--output-on-failure''] 1800 True CTestText]"

definition propose_cmake ::
    "filesystem \<Rightarrow> string \<Rightarrow> detected_module \<Rightarrow> project_survey \<Rightarrow> project_survey" where
  "propose_cmake fs repository m survey =
     (let ignored =
        (case read_confined_file fs repository (beside (dm_directory m) ''.gitignore'')
            maximum_manifest_bytes of
           Inr (Some bytes) \<Rightarrow> utf8_valid bytes \<and> ignores_build bytes
         | _ \<Rightarrow> False)
      in if \<not> ignored
         then decline (module_label m)
           ''no tracked `.gitignore` ignores a `build` directory, so a configured build would appear in the candidate diff and no test command was proposed'' survey
         else foldl (\<lambda>survey p. push_proposal m p survey) survey cmake_proposals)"

section \<open>The survey\<close>

definition surveyed_ecosystems :: "ecosystem list" where
  "surveyed_ecosystems = [RustProject, GoProject, NodeProject, PythonProject, CmakeProject]"

definition modules_of_path :: "string \<Rightarrow> detected_module list" where
  "modules_of_path path =
     (let directory = directory_of path
      in if is_vendored path \<or> maximum_survey_depth < depth_of directory then []
         else map (\<lambda>e. \<lparr>dm_ecosystem = e, dm_directory = directory, dm_marker = file_name_of path\<rparr>)
           (filter (\<lambda>e. file_name_of path \<in> set (markers e)) surveyed_ecosystems))"

definition module_order :: "detected_module \<Rightarrow> nat \<times> nat \<times> string option" where
  "module_order m = (depth_of (dm_directory m), ecosystem_rank (dm_ecosystem m), dm_directory m)"

definition covers :: "detected_module \<Rightarrow> detected_module \<Rightarrow> bool" where
  "covers existing m \<longleftrightarrow>
     dm_ecosystem existing = dm_ecosystem m
     \<and> (aggregates_subdirectories (dm_ecosystem existing) \<or> dm_directory existing = dm_directory m)"

definition select_module :: "detected_module list \<Rightarrow> detected_module \<Rightarrow> detected_module list" where
  "select_module selected m =
     (if list_ex (\<lambda>existing. covers existing m) selected then selected else selected @ [m])"

definition select_modules :: "string list \<Rightarrow> detected_module list" where
  "select_modules tracked =
     foldl select_module [] (sort_key module_order (concat (map modules_of_path tracked)))"

definition propose_module ::
    "filesystem \<Rightarrow> (string \<Rightarrow> json_value option) \<Rightarrow> string \<Rightarrow> string list \<Rightarrow> project_survey
      \<Rightarrow> detected_module \<Rightarrow> project_survey" where
  "propose_module fs from_json repository tracked survey m =
     (case dm_ecosystem m of
        RustProject \<Rightarrow> propose_rust m survey
      | GoProject \<Rightarrow> propose_go m survey
      | PythonProject \<Rightarrow> propose_python m tracked survey
      | NodeProject \<Rightarrow> propose_node fs from_json repository m tracked survey
      | CmakeProject \<Rightarrow> propose_cmake fs repository m survey)"

definition survey_project ::
    "filesystem \<Rightarrow> (string \<Rightarrow> json_value option) \<Rightarrow> string \<Rightarrow> string list option \<Rightarrow> project_survey" where
  "survey_project fs from_json repository listing =
     (case listing of
        None \<Rightarrow> decline ''repository''
          ''the tracked file listing could not be read, so no project could be surveyed'' survey_default
      | Some tracked \<Rightarrow>
          let selected = select_modules tracked;
              survey = foldl (propose_module fs from_json repository tracked)
                (survey_default\<lparr>pj_tracked_listing_available := True\<rparr>) selected;
              survey = survey\<lparr>pj_modules := selected\<rparr>
          in case catalogue_validate (pj_commands survey) of
               Inl error \<Rightarrow>
                 (decline ''repository''
                   (''the proposed commands were discarded because they are not a valid catalogue: ''
                    @ domain_error_display error) survey)\<lparr>pj_commands := []\<rparr>
             | Inr _ \<Rightarrow> survey)"

section \<open>What a survey proposes\<close>

definition known_proposals :: "proposal list" where
  "known_proposals =
     rust_proposals @ go_proposals @ [python_lint, python_test] @ cmake_proposals
     @ concat (map (\<lambda>(_, program, install).
         [node_install program install, node_lint program, node_test program]) node_managers)"

definition proposed_by :: "detected_module list \<Rightarrow> project_survey \<Rightarrow> bool" where
  "proposed_by ms survey \<longleftrightarrow>
     (\<forall>c \<in> set (pj_commands survey).
        \<exists>m \<in> set ms. \<exists>p \<in> set known_proposals. propose m p = Some c)"

lemma proposed_by_push:
  "proposed_by ms survey \<Longrightarrow> m \<in> set ms \<Longrightarrow> p \<in> set known_proposals
    \<Longrightarrow> proposed_by ms (push_proposal m p survey)"
  by (auto simp: proposed_by_def push_proposal_def split: option.split)

lemma proposed_by_decline [simp]: "proposed_by ms (decline subject detail survey) = proposed_by ms survey"
  by (simp add: proposed_by_def decline_def)

lemma proposed_by_all:
  "proposed_by ms survey \<Longrightarrow> m \<in> set ms \<Longrightarrow> set ps \<subseteq> set known_proposals
    \<Longrightarrow> proposed_by ms (foldl (\<lambda>survey p. push_proposal m p survey) survey ps)"
  by (induction ps arbitrary: survey) (auto intro: proposed_by_push)

lemma known_parts:
  "set rust_proposals \<subseteq> set known_proposals" "set go_proposals \<subseteq> set known_proposals"
  "set cmake_proposals \<subseteq> set known_proposals"
  "python_lint \<in> set known_proposals" "python_test \<in> set known_proposals"
  "(lockfile, program, install) \<in> set node_managers \<Longrightarrow> node_install program install \<in> set known_proposals"
  "(lockfile, program, install) \<in> set node_managers \<Longrightarrow> node_lint program \<in> set known_proposals"
  "(lockfile, program, install) \<in> set node_managers \<Longrightarrow> node_test program \<in> set known_proposals"
  by (auto simp: known_proposals_def)

lemma proposed_by_node:
  assumes "proposed_by ms survey" and "m \<in> set ms"
  shows "proposed_by ms (propose_node fs from_json repository m tracked survey)"
proof -
  let ?found = "find (\<lambda>(lockfile, _, _). beside (dm_directory m) lockfile \<in> set tracked) node_managers"
  have "entry \<in> set node_managers" if "?found = Some entry" for entry
    using find_SomeD [OF that] ..
  then show ?thesis
    using assms
    by (auto simp: propose_node_def Let_def split: option.splits prod.splits
        intro!: proposed_by_push known_parts)
qed

lemma proposed_by_module:
  "proposed_by ms survey \<Longrightarrow> m \<in> set ms \<Longrightarrow>
     proposed_by ms (propose_module fs from_json repository tracked survey m)"
  by (cases "dm_ecosystem m")
    (auto simp: propose_module_def propose_rust_def propose_go_def propose_python_def
      propose_cmake_def Let_def intro!: proposed_by_all proposed_by_push proposed_by_node known_parts)

lemma proposed_by_modules:
  "proposed_by ms survey \<Longrightarrow> set selected \<subseteq> set ms \<Longrightarrow>
     proposed_by ms (foldl (propose_module fs from_json repository tracked) survey selected)"
  by (induction selected arbitrary: survey) (auto intro: proposed_by_module)

lemma survey_proposes:
  assumes "survey = survey_project fs from_json repository listing"
  shows "proposed_by (pj_modules survey) survey"
proof (cases listing)
  case None
  then show ?thesis by (simp add: assms survey_project_def proposed_by_def decline_def survey_default_def)
next
  case (Some tracked)
  have "proposed_by (select_modules tracked) (foldl (propose_module fs from_json repository tracked)
      (survey_default\<lparr>pj_tracked_listing_available := True\<rparr>) (select_modules tracked))"
    by (rule proposed_by_modules) (simp_all add: proposed_by_def survey_default_def)
  then show ?thesis
    by (auto simp: assms Some survey_project_def Let_def proposed_by_def decline_def split: sum.split)
qed

lemma survey_commands_valid:
  "catalogue_validate (pj_commands (survey_project fs from_json repository listing)) = Inr ()"
proof -
  have none: "catalogue_validate [] = Inr ()" by (simp add: catalogue_validate_def)
  then show ?thesis
    by (auto simp: survey_project_def Let_def decline_def survey_default_def
        split: option.split sum.split)
qed

lemma propose_fields:
  assumes "propose m p = Some c"
  shows "cs_program c = pn_program p" and "cs_args c = pn_args p"
    and "cs_working_subdirectory c = dm_directory m" and "cs_environment c = []"
    and "cs_report_path c = None" and "cs_kind c = pn_kind p" and "cs_required c = pn_required p"
  using assms by (auto simp: propose_def Let_def split: sum.splits if_splits)

text \<open>Every module is where a tracked file that marks it is, near the root and not vendored.\<close>

lemma beside_split: "beside (directory_of path) (file_name_of path) = path"
proof -
  let ?pieces = "split_char (CHR ''/'') path"
  have join: "path = join_str ''/'' ?pieces" by (simp add: join_split)
  show ?thesis
  proof (cases "length ?pieces < 2")
    case True
    then obtain x where "?pieces = [x]"
      using split_char_not_Nil [of "CHR ''/''" path] by (cases ?pieces) auto
    with join show ?thesis by (simp add: beside_def directory_of_def file_name_of_def)
  next
    case False
    have join_snoc: "xs \<noteq> [] \<Longrightarrow> join_str ''/'' (xs @ [x]) = join_str ''/'' xs @ ''/'' @ x" for xs x
      by (induction "''/''" xs rule: join_str.induct) auto
    have "butlast ?pieces \<noteq> []" using False by (cases ?pieces rule: rev_cases) auto
    then have "join_str ''/'' (butlast ?pieces @ [last ?pieces])
        = join_str ''/'' (butlast ?pieces) @ ''/'' @ last ?pieces" by (rule join_snoc)
    with join False show ?thesis by (simp add: beside_def directory_of_def file_name_of_def Let_def)
  qed
qed

lemma modules_of_path_marked:
  assumes "m \<in> set (modules_of_path path)"
  shows "beside (dm_directory m) (dm_marker m) = path" and "\<not> is_vendored path"
    and "dm_marker m \<in> set (markers (dm_ecosystem m))" and "depth_of (dm_directory m) \<le> 3"
  using assms beside_split [of path]
  by (auto simp: modules_of_path_def Let_def maximum_survey_depth_def split: if_splits)

lemma select_module_subset: "set (select_module selected m) \<subseteq> insert m (set selected)"
  by (auto simp: select_module_def)

lemma select_modules_subset:
  "set (select_modules tracked) \<subseteq> (\<Union>path \<in> set tracked. set (modules_of_path path))"
proof -
  have "set (foldl select_module selected ms) \<subseteq> set selected \<union> set ms" for selected ms
    by (induction ms arbitrary: selected) (use select_module_subset in fastforce)+
  from this [of "[]"] show ?thesis by (simp add: select_modules_def) fastforce
qed

lemma surveyed_modules_marked:
  assumes "m \<in> set (pj_modules (survey_project fs from_json repository listing))"
  shows "\<exists>tracked. listing = Some tracked \<and> beside (dm_directory m) (dm_marker m) \<in> set tracked
    \<and> \<not> is_vendored (beside (dm_directory m) (dm_marker m))
    \<and> dm_marker m \<in> set (markers (dm_ecosystem m)) \<and> depth_of (dm_directory m) \<le> 3"
proof (cases listing)
  case None
  with assms show ?thesis by (simp add: survey_project_def decline_def survey_default_def)
next
  case (Some tracked)
  with assms have "m \<in> set (select_modules tracked)"
    by (simp add: survey_project_def decline_def Let_def split: sum.splits)
  with select_modules_subset obtain path where "path \<in> set tracked" and "m \<in> set (modules_of_path path)"
    by blast
  with modules_of_path_marked Some show ?thesis by auto
qed

text \<open>No two selected modules cover one another, so a workspace is proposed once.\<close>

lemma select_modules_distinct: "distinct (select_modules tracked)"
proof -
  have "distinct selected \<Longrightarrow> distinct (foldl select_module selected ms)" for selected ms
    by (induction ms arbitrary: selected)
      (auto simp: select_module_def covers_def list_ex_iff)
  from this [of "[]"] show ?thesis by (simp add: select_modules_def)
qed

end
