(* ===== verification/Forge_Documents.thy ===== *)
theory Forge_Documents
  imports Forge_Configuration Forge_Redaction
begin

text \<open>
  \<open>document.rs\<close> of \<open>infrastructure/src/configuration\<close> and the part of \<open>resolver.rs\<close> that applies such
  a document: the authority gate, which decides for every setting whether a repository may change
  it, the layers of a configuration, and the rendering of a configuration as a document. Reading
  TOML belongs to the \<open>toml\<close> crate.
\<close>

section \<open>Documents\<close>

record run_section =
  rs_candidates :: "u8 option"
  rs_max_parallel_candidates :: "u8 option"
  rs_max_repairs_per_candidate :: "u32 option"
  rs_commit_policy :: "string option"
  rs_require_clean_repository :: "bool option"
  rs_wall_clock_seconds :: "u32 option"
  rs_max_output_bytes_per_stream :: "u64 option"

record agent_section =
  as_driver :: "string option"
  as_model :: "string option"
  as_endpoint :: "string option"
  as_api_key_environment_variable :: "string option"
  as_executable :: "string option"
  as_extra_arguments :: "string list option"
  as_max_turns :: "u32 option"
  as_timeout_seconds :: "u32 option"
  as_network :: "network_policy option"
  as_fixture_script :: "string option"

record sonar_scanner_section =
  sx_enabled :: "bool option"
  sx_program :: "string option"
  sx_arguments :: "string list option"
  sx_host_url :: "string option"
  sx_project_key :: "string option"
  sx_token_environment_variable :: "string option"
  sx_wait_for_quality_gate :: "bool option"
  sx_timeout_seconds :: "u32 option"

record sonar_mcp_section =
  mx_enabled :: "bool option"
  mx_program :: "string option"
  mx_arguments :: "string list option"
  mx_token_environment_variable :: "string option"
  mx_project_key :: "string option"
  mx_timeout_seconds :: "u32 option"

record ai_review_section =
  ay_enabled :: "bool option"
  ay_advisory_only :: "bool option"
  ay_gate_rules :: "string list option"

record quality_section =
  qs_profile :: "string option"
  qs_minimum_line_coverage :: "f64 option"
  qs_protect_existing_tests :: "bool option"
  qs_sonar_scanner :: "sonar_scanner_section option"
  qs_sonar_mcp :: "sonar_mcp_section option"
  qs_ai_review :: "ai_review_section option"

record git_section =
  gs_branch_prefix :: "string option"
  gs_author_name :: "string option"
  gs_include_dirty :: "bool option"

record policy_section =
  ly_protected_paths :: "string list option"
  ly_sensitive_paths :: "string list option"
  ly_maximum_read_bytes :: "u64 option"
  ly_maximum_write_bytes :: "u64 option"

record redaction_section =
  rdx_secret_environment_variables :: "string list option"
  rdx_additional_patterns :: "string list option"
  rdx_redact_home_prefix :: "bool option"

record environment_section =
  es_allowlist :: "string list option"

record command_section =
  ks_id :: string
  ks_program :: string
  ks_args :: "string list"
  ks_kind :: string
  ks_timeout_seconds :: "u32 option"
  ks_required :: "bool option"
  ks_report_format :: "string option"
  ks_report_path :: "string option"
  ks_working_subdirectory :: "string option"
  ks_success_exit_codes :: "int list option"
  ks_environment :: "(string \<times> string) list option"

record forge_document =
  fd_schema_version :: "u32 option"
  fd_run :: "run_section option"
  fd_agent :: "agent_section option"
  fd_quality :: "quality_section option"
  fd_git :: "git_section option"
  fd_policy :: "policy_section option"
  fd_redaction :: "redaction_section option"
  fd_environment :: "environment_section option"
  fd_commands :: "command_section list option"

text \<open>The defaults of the structures, where every setting is absent.\<close>

definition run_section_default :: run_section where
  "run_section_default =
     \<lparr>rs_candidates = None, rs_max_parallel_candidates = None, rs_max_repairs_per_candidate = None,
      rs_commit_policy = None, rs_require_clean_repository = None, rs_wall_clock_seconds = None,
      rs_max_output_bytes_per_stream = None\<rparr>"

definition quality_section_default :: quality_section where
  "quality_section_default =
     \<lparr>qs_profile = None, qs_minimum_line_coverage = None, qs_protect_existing_tests = None,
      qs_sonar_scanner = None, qs_sonar_mcp = None, qs_ai_review = None\<rparr>"

definition forge_document_default :: forge_document where
  "forge_document_default =
     \<lparr>fd_schema_version = None, fd_run = None, fd_agent = None, fd_quality = None, fd_git = None,
      fd_policy = None, fd_redaction = None, fd_environment = None, fd_commands = None\<rparr>"

definition configuration_schema_version :: u32 where "configuration_schema_version = 1"

text \<open>
  \<open>parse_document\<close> on the content of a file: \<open>not_utf8\<close> is the text of the standard library for bytes
  that are not UTF-8, \<open>from_toml\<close> the decoder of the \<open>toml\<close> crate.
\<close>

definition parse_document ::
    "(string \<Rightarrow> string) \<Rightarrow> (string \<Rightarrow> string + forge_document) \<Rightarrow> string \<Rightarrow> string
      \<Rightarrow> forge_document application_result" where
  "parse_document not_utf8 from_toml path bytes =
     (if \<not> utf8_valid bytes
      then Inl (InvalidConfiguration (quoted path @ '' is not valid UTF-8: '' @ not_utf8 bytes))
      else
        and_then (map_err (\<lambda>e. InvalidConfiguration (quoted path @ '' could not be parsed: '' @ e))
          (from_toml bytes)) (\<lambda>document.
        case fd_schema_version document of
          None \<Rightarrow> Inr document
        | Some version \<Rightarrow>
            if version \<noteq> configuration_schema_version
            then Inl (InvalidConfiguration (quoted path @ '' declares schema version ''
              @ dec version @ '' but '' @ dec configuration_schema_version @ '' is required''))
            else Inr document))"

section \<open>The authority gate\<close>

record authority_gate =
  gt_authority :: configuration_authority
  gt_trusted :: bool
  gt_withheld :: "withheld_setting list"

definition user_gate :: authority_gate where
  "user_gate = \<lparr>gt_authority = UserAuthority, gt_trusted = True, gt_withheld = []\<rparr>"

definition repository_gate :: "bool \<Rightarrow> authority_gate" where
  "repository_gate trusted =
     \<lparr>gt_authority = RepositoryAuthority, gt_trusted = trusted, gt_withheld = []\<rparr>"

definition is_user :: "authority_gate \<Rightarrow> bool" where
  "is_user self \<longleftrightarrow> gt_authority self = UserAuthority"

definition withhold :: "string \<Rightarrow> withheld_reason \<Rightarrow> authority_gate \<Rightarrow> authority_gate" where
  "withhold setting reason self =
     (if list_ex (\<lambda>entry. wh_setting entry = setting \<and> wh_reason entry = reason) (gt_withheld self)
      then self
      else self\<lparr>gt_withheld := gt_withheld self
        @ [\<lparr>wh_setting = setting, wh_reason = reason\<rparr>]\<rparr>)"

definition owner_only :: "string \<Rightarrow> authority_gate \<Rightarrow> bool \<times> authority_gate" where
  "owner_only setting self =
     (if is_user self then (True, self) else (False, withhold setting UserConfigurationOnly self))"

definition requires_trust :: "string \<Rightarrow> authority_gate \<Rightarrow> bool \<times> authority_gate" where
  "requires_trust setting self =
     (if is_user self \<or> gt_trusted self then (True, self)
      else (False, withhold setting RequiresRepositoryTrust self))"

definition never_relaxes :: "string \<Rightarrow> bool \<Rightarrow> authority_gate \<Rightarrow> bool \<times> authority_gate" where
  "never_relaxes setting would_relax self =
     (if is_user self \<or> \<not> would_relax then (True, self)
      else (False, withhold setting WouldWeakenPolicy self))"

section \<open>Layers\<close>

text \<open>
  A layer is what is being configured (the configuration, or a part of it) with the gate. A setting
  that is present asks the gate about the current value, and changes it when it may; \<open>parsed_setting\<close>
  is one whose value is parsed only then.
\<close>

type_synonym 'c layer = "'c \<times> authority_gate"

fun setting ::
    "'a option \<Rightarrow> ('a \<Rightarrow> 'c \<Rightarrow> authority_gate \<Rightarrow> bool \<times> authority_gate) \<Rightarrow> ('a \<Rightarrow> 'c \<Rightarrow> 'c)
      \<Rightarrow> 'c layer \<Rightarrow> 'c layer" where
  "setting None permit change layer = layer"
| "setting (Some v) permit change (c, gate) =
     (case permit v c gate of (allowed, gate) \<Rightarrow> (if allowed then change v c else c, gate))"

fun parsed_setting ::
    "'a option \<Rightarrow> (authority_gate \<Rightarrow> bool \<times> authority_gate) \<Rightarrow> ('a \<Rightarrow> 'b application_result)
      \<Rightarrow> ('b \<Rightarrow> 'c \<Rightarrow> 'c) \<Rightarrow> 'c layer \<Rightarrow> 'c layer application_result" where
  "parsed_setting None permit parse change layer = Inr layer"
| "parsed_setting (Some raw) permit parse change (c, gate) =
     (case permit gate of (allowed, gate) \<Rightarrow>
        if allowed then map_ok (\<lambda>v. (change v c, gate)) (parse raw) else Inr (c, gate))"

text \<open>A setting that every authority may change, but a repository only as \<open>merge\<close> allows.\<close>

fun merged_setting ::
    "'a option \<Rightarrow> ('a \<Rightarrow> 'c \<Rightarrow> 'c) \<Rightarrow> ('a \<Rightarrow> 'c \<Rightarrow> 'c) \<Rightarrow> 'c layer \<Rightarrow> 'c layer" where
  "merged_setting None replace merge layer = layer"
| "merged_setting (Some v) replace merge (c, gate) =
     ((if is_user gate then replace v c else merge v c), gate)"

fun in_order :: "('c layer \<Rightarrow> 'c layer application_result) list \<Rightarrow> 'c layer
      \<Rightarrow> 'c layer application_result" where
  "in_order [] layer = Inr layer"
| "in_order (f # fs) layer = and_then (f layer) (in_order fs)"

text \<open>A part of the configuration, configured by itself.\<close>

definition inside_part ::
    "('c \<Rightarrow> 'p) \<Rightarrow> ('p \<Rightarrow> 'c \<Rightarrow> 'c) \<Rightarrow> ('p layer \<Rightarrow> 'p layer) \<Rightarrow> 'c layer \<Rightarrow> 'c layer" where
  "inside_part get_part set_part f layer =
     (case f (get_part (fst layer), snd layer) of (part, gate) \<Rightarrow> (set_part part (fst layer), gate))"

definition sure :: "('c layer \<Rightarrow> 'c layer) \<Rightarrow> 'c layer \<Rightarrow> 'c layer application_result" where
  "sure f layer = Inr (f layer)"

definition list_union :: "string list \<Rightarrow> string list \<Rightarrow> string list" where
  "list_union current additional =
     foldl (\<lambda>merged v. if v \<in> set merged then merged else merged @ [v]) current additional"

section \<open>Applying a document\<close>

type_synonym configuration_step =
  "effective_configuration layer \<Rightarrow> effective_configuration layer application_result"

definition change_budgets ::
    "(run_budgets \<Rightarrow> run_budgets) \<Rightarrow> effective_configuration \<Rightarrow> effective_configuration" where
  "change_budgets f c = c\<lparr>ef_budgets := f (ef_budgets c)\<rparr>"

definition change_agent ::
    "(agent_configuration \<Rightarrow> agent_configuration) \<Rightarrow> effective_configuration \<Rightarrow> effective_configuration" where
  "change_agent f c = c\<lparr>ef_agent := f (ef_agent c)\<rparr>"

definition change_quality ::
    "(quality_configuration \<Rightarrow> quality_configuration) \<Rightarrow> effective_configuration
      \<Rightarrow> effective_configuration" where
  "change_quality f c = c\<lparr>ef_quality := f (ef_quality c)\<rparr>"

definition change_git ::
    "(git_configuration \<Rightarrow> git_configuration) \<Rightarrow> effective_configuration \<Rightarrow> effective_configuration" where
  "change_git f c = c\<lparr>ef_git := f (ef_git c)\<rparr>"

definition change_policy ::
    "(path_policy \<Rightarrow> path_policy) \<Rightarrow> effective_configuration \<Rightarrow> effective_configuration" where
  "change_policy f c = c\<lparr>ef_path_policy := f (ef_path_policy c)\<rparr>"

definition change_redaction ::
    "(redaction_configuration \<Rightarrow> redaction_configuration) \<Rightarrow> effective_configuration
      \<Rightarrow> effective_configuration" where
  "change_redaction f c = c\<lparr>ef_redaction := f (ef_redaction c)\<rparr>"

lemmas change_parts = change_budgets_def change_agent_def change_quality_def change_git_def
  change_policy_def change_redaction_def

subsection \<open>The section \<open>run\<close>\<close>

fun apply_candidates :: "u8 option \<Rightarrow> configuration_step" where
  "apply_candidates None layer = Inr layer"
| "apply_candidates (Some candidates) layer =
     and_then (lift_domain (candidate_count_new candidates)) (\<lambda>parsed.
       Inr (setting (Some parsed)
         (\<lambda>v c. never_relaxes ''run.candidates'' (bd_candidates (ef_budgets c) < v))
         (\<lambda>v. change_budgets (\<lambda>b. b\<lparr>bd_candidates := v\<rparr>)) layer))"

definition run_steps :: "run_section \<Rightarrow> configuration_step list" where
  "run_steps run =
     [apply_candidates (rs_candidates run),
      sure (setting (rs_max_parallel_candidates run)
        (\<lambda>v c. never_relaxes ''run.max_parallel_candidates''
          (bd_max_parallel_candidates (ef_budgets c) < v))
        (\<lambda>v. change_budgets (\<lambda>b. b\<lparr>bd_max_parallel_candidates := v\<rparr>))),
      sure (setting (rs_max_repairs_per_candidate run)
        (\<lambda>v c. never_relaxes ''run.max_repairs_per_candidate''
          (bd_max_repairs_per_candidate (ef_budgets c) < v))
        (\<lambda>v. change_budgets (\<lambda>b. b\<lparr>bd_max_repairs_per_candidate := v\<rparr>))),
      sure (setting (rs_wall_clock_seconds run)
        (\<lambda>v c. never_relaxes ''run.wall_clock_seconds'' (bd_wall_clock_seconds (ef_budgets c) < v))
        (\<lambda>v. change_budgets (\<lambda>b. b\<lparr>bd_wall_clock_seconds := v\<rparr>))),
      sure (setting (rs_max_output_bytes_per_stream run)
        (\<lambda>v c. never_relaxes ''run.max_output_bytes_per_stream''
          (bd_max_output_bytes_per_stream (ef_budgets c) < v))
        (\<lambda>v. change_budgets (\<lambda>b. b\<lparr>bd_max_output_bytes_per_stream := v\<rparr>))),
      parsed_setting (rs_commit_policy run) (owner_only ''run.commit_policy'')
        (\<lambda>raw. lift_domain (commit_policy_from_str raw)) (\<lambda>v c. c\<lparr>ef_commit_policy := v\<rparr>),
      sure (setting (rs_require_clean_repository run)
        (\<lambda>v c. never_relaxes ''run.require_clean_repository''
          (gc_require_clean_repository (ef_git c) \<and> \<not> v))
        (\<lambda>v. change_git (\<lambda>g. g\<lparr>gc_require_clean_repository := v\<rparr>)))]"

subsection \<open>The section \<open>agent\<close>\<close>

definition agent_steps :: "agent_section \<Rightarrow> configuration_step list" where
  "agent_steps agent =
     [parsed_setting (as_driver agent) (requires_trust ''agent.driver'') agent_driver_from_str
        (\<lambda>v. change_agent (\<lambda>a. a\<lparr>ac_driver := v\<rparr>)),
      sure (setting (as_model agent) (\<lambda>v c. owner_only ''agent.model'')
        (\<lambda>v. change_agent (\<lambda>a. a\<lparr>ac_model := Some v\<rparr>))),
      sure (setting (as_endpoint agent) (\<lambda>v c. owner_only ''agent.endpoint'')
        (\<lambda>v. change_agent (\<lambda>a. a\<lparr>ac_endpoint := Some v\<rparr>))),
      sure (setting (as_api_key_environment_variable agent)
        (\<lambda>v c. owner_only ''agent.api_key_environment_variable'')
        (\<lambda>v. change_agent (\<lambda>a. a\<lparr>ac_api_key_environment_variable := Some v\<rparr>))),
      sure (setting (as_executable agent) (\<lambda>v c. owner_only ''agent.executable'')
        (\<lambda>v. change_agent (\<lambda>a. a\<lparr>ac_executable := Some v\<rparr>))),
      sure (setting (as_extra_arguments agent) (\<lambda>v c. owner_only ''agent.extra_arguments'')
        (\<lambda>v. change_agent (\<lambda>a. a\<lparr>ac_extra_arguments := v\<rparr>))),
      sure (setting (as_max_turns agent)
        (\<lambda>v c. never_relaxes ''agent.max_turns'' (ac_max_turns (ef_agent c) < v))
        (\<lambda>v c. change_budgets (\<lambda>b. b\<lparr>bd_max_agent_turns := v\<rparr>)
          (change_agent (\<lambda>a. a\<lparr>ac_max_turns := v\<rparr>) c))),
      sure (setting (as_timeout_seconds agent)
        (\<lambda>v c. never_relaxes ''agent.timeout_seconds'' (to_agent_seconds (ef_timeouts c) < v))
        (\<lambda>v c. (change_agent
            (\<lambda>a. a\<lparr>ac_timeout := timeout_clamped v maximum_command_timeout_seconds\<rparr>) c)
          \<lparr>ef_timeouts := (ef_timeouts c)\<lparr>to_agent_seconds := v\<rparr>\<rparr>)),
      sure (setting (as_network agent)
        (\<lambda>v c. never_relaxes ''agent.network''
          (permissiveness_rank (ac_network (ef_agent c)) < permissiveness_rank v))
        (\<lambda>v. change_agent (\<lambda>a. a\<lparr>ac_network := v\<rparr>))),
      sure (setting (as_fixture_script agent) (\<lambda>v c. requires_trust ''agent.fixture_script'')
        (\<lambda>v. change_agent (\<lambda>a. a\<lparr>ac_fixture_script := Some v\<rparr>)))]"

subsection \<open>The section \<open>quality\<close>\<close>

text \<open>A sequence of settings that cannot fail.\<close>

definition settings :: "('c layer \<Rightarrow> 'c layer) list \<Rightarrow> 'c layer \<Rightarrow> 'c layer" where
  "settings fs layer = foldl (\<lambda>layer f. f layer) layer fs"

text \<open>A setting that is taken over from every authority.\<close>

definition unguarded :: "'a \<Rightarrow> 'c \<Rightarrow> authority_gate \<Rightarrow> bool \<times> authority_gate" where
  "unguarded v c gate = (True, gate)"

definition scanner_settings ::
    "sonar_scanner_section \<Rightarrow> (sonar_scanner_configuration layer \<Rightarrow> sonar_scanner_configuration layer) list" where
  "scanner_settings s =
     [setting (sx_enabled s)
        (\<lambda>v c. never_relaxes ''quality.sonar_scanner.enabled'' (ss_enabled c \<and> \<not> v))
        (\<lambda>v c. c\<lparr>ss_enabled := v\<rparr>),
      setting (sx_program s) (\<lambda>v c. requires_trust ''quality.sonar_scanner.program'')
        (\<lambda>v c. c\<lparr>ss_program := v\<rparr>),
      setting (sx_arguments s) (\<lambda>v c. requires_trust ''quality.sonar_scanner.arguments'')
        (\<lambda>v c. c\<lparr>ss_arguments := v\<rparr>),
      setting (sx_host_url s) (\<lambda>v c. owner_only ''quality.sonar_scanner.host_url'')
        (\<lambda>v c. c\<lparr>ss_host_url := v\<rparr>),
      setting (sx_project_key s) unguarded (\<lambda>v c. c\<lparr>ss_project_key := Some v\<rparr>),
      setting (sx_token_environment_variable s)
        (\<lambda>v c. owner_only ''quality.sonar_scanner.token_environment_variable'')
        (\<lambda>v c. c\<lparr>ss_token_environment_variable := Some v\<rparr>),
      setting (sx_wait_for_quality_gate s)
        (\<lambda>v c. never_relaxes ''quality.sonar_scanner.wait_for_quality_gate''
          (ss_wait_for_quality_gate c \<and> \<not> v))
        (\<lambda>v c. c\<lparr>ss_wait_for_quality_gate := v\<rparr>),
      setting (sx_timeout_seconds s) unguarded
        (\<lambda>v c. c\<lparr>ss_timeout := timeout_clamped v maximum_command_timeout_seconds\<rparr>)]"

definition apply_scanner ::
    "sonar_scanner_section \<Rightarrow> sonar_scanner_configuration layer \<Rightarrow> sonar_scanner_configuration layer" where
  "apply_scanner s = settings (scanner_settings s)"

definition mcp_settings ::
    "sonar_mcp_section \<Rightarrow> (sonar_mcp_configuration layer \<Rightarrow> sonar_mcp_configuration layer) list" where
  "mcp_settings s =
     [setting (mx_enabled s)
        (\<lambda>v c. never_relaxes ''quality.sonar_mcp.enabled'' (sm_enabled c \<and> \<not> v))
        (\<lambda>v c. c\<lparr>sm_enabled := v\<rparr>),
      setting (mx_program s) (\<lambda>v c. requires_trust ''quality.sonar_mcp.program'')
        (\<lambda>v c. c\<lparr>sm_program := v\<rparr>),
      setting (mx_arguments s) (\<lambda>v c. requires_trust ''quality.sonar_mcp.arguments'')
        (\<lambda>v c. c\<lparr>sm_arguments := v\<rparr>),
      setting (mx_token_environment_variable s)
        (\<lambda>v c. owner_only ''quality.sonar_mcp.token_environment_variable'')
        (\<lambda>v c. c\<lparr>sm_token_environment_variable := Some v\<rparr>),
      setting (mx_project_key s) unguarded (\<lambda>v c. c\<lparr>sm_project_key := Some v\<rparr>),
      setting (mx_timeout_seconds s) unguarded
        (\<lambda>v c. c\<lparr>sm_timeout := timeout_clamped v maximum_command_timeout_seconds\<rparr>)]"

definition apply_mcp ::
    "sonar_mcp_section \<Rightarrow> sonar_mcp_configuration layer \<Rightarrow> sonar_mcp_configuration layer" where
  "apply_mcp s = settings (mcp_settings s)"

definition ai_settings ::
    "ai_review_section \<Rightarrow> (ai_review_configuration layer \<Rightarrow> ai_review_configuration layer) list" where
  "ai_settings s =
     [setting (ay_enabled s) unguarded (\<lambda>v c. c\<lparr>ax_enabled := v\<rparr>),
      setting (ay_advisory_only s)
        (\<lambda>v c. never_relaxes ''quality.ai_review.advisory_only'' (\<not> ax_advisory_only c \<and> v))
        (\<lambda>v c. c\<lparr>ax_advisory_only := v\<rparr>),
      merged_setting (ay_gate_rules s) (\<lambda>v c. c\<lparr>ax_gate_rules := v\<rparr>)
        (\<lambda>v c. c\<lparr>ax_gate_rules := list_union (ax_gate_rules c) v\<rparr>)]"

definition apply_ai ::
    "ai_review_section \<Rightarrow> ai_review_configuration layer \<Rightarrow> ai_review_configuration layer" where
  "apply_ai s = settings (ai_settings s)"

fun when_present :: "'a option \<Rightarrow> ('a \<Rightarrow> 'c layer \<Rightarrow> 'c layer) \<Rightarrow> 'c layer \<Rightarrow> 'c layer" where
  "when_present None f layer = layer"
| "when_present (Some v) f layer = f v layer"

fun apply_profile :: "string option \<Rightarrow> configuration_step" where
  "apply_profile None layer = Inr layer"
| "apply_profile (Some profile) layer =
     and_then (lift_domain (quality_profile_from_str profile)) (\<lambda>parsed.
       Inr (setting (Some parsed)
         (\<lambda>v c. never_relaxes ''quality.profile''
           (strictness_rank v < strictness_rank (qc_profile (ef_quality c))))
         (\<lambda>v. change_quality (\<lambda>q. q\<lparr>qc_profile := v\<rparr>)) layer))"

definition lowers_coverage :: "f64 \<Rightarrow> f64 option \<Rightarrow> bool" where
  "lowers_coverage coverage minimum \<longleftrightarrow>
     (case minimum of None \<Rightarrow> False | Some current \<Rightarrow> f64_less coverage current)"

definition quality_steps :: "quality_section \<Rightarrow> configuration_step list" where
  "quality_steps quality =
     [apply_profile (qs_profile quality),
      sure (setting (qs_minimum_line_coverage quality)
        (\<lambda>v c. never_relaxes ''quality.minimum_line_coverage''
          (lowers_coverage v (qc_minimum_line_coverage (ef_quality c))))
        (\<lambda>v. change_quality (\<lambda>q. q\<lparr>qc_minimum_line_coverage := Some v\<rparr>))),
      sure (setting (qs_protect_existing_tests quality)
        (\<lambda>v c. never_relaxes ''quality.protect_existing_tests''
          (qc_protect_existing_tests (ef_quality c) \<and> \<not> v))
        (\<lambda>v. change_quality (\<lambda>q. q\<lparr>qc_protect_existing_tests := v\<rparr>))),
      sure (when_present (qs_sonar_scanner quality) (\<lambda>s.
        inside_part (\<lambda>c. qc_sonar_scanner (ef_quality c))
          (\<lambda>p. change_quality (\<lambda>q. q\<lparr>qc_sonar_scanner := p\<rparr>)) (apply_scanner s))),
      sure (when_present (qs_sonar_mcp quality) (\<lambda>s.
        inside_part (\<lambda>c. qc_sonar_mcp (ef_quality c))
          (\<lambda>p. change_quality (\<lambda>q. q\<lparr>qc_sonar_mcp := p\<rparr>)) (apply_mcp s))),
      sure (when_present (qs_ai_review quality) (\<lambda>s.
        inside_part (\<lambda>c. qc_ai_review (ef_quality c))
          (\<lambda>p. change_quality (\<lambda>q. q\<lparr>qc_ai_review := p\<rparr>)) (apply_ai s)))]"

subsection \<open>The sections \<open>git\<close>, \<open>policy\<close> and \<open>redaction\<close>\<close>

definition git_steps :: "git_section \<Rightarrow> configuration_step list" where
  "git_steps git =
     [sure (setting (gs_branch_prefix git) (\<lambda>v c. owner_only ''git.branch_prefix'')
        (\<lambda>v. change_git (\<lambda>g. g\<lparr>gc_branch_prefix := v\<rparr>))),
      sure (setting (gs_author_name git) (\<lambda>v c. owner_only ''git.author_name'')
        (\<lambda>v. change_git (\<lambda>g. g\<lparr>gc_author_name := v\<rparr>))),
      sure (setting (gs_include_dirty git) (\<lambda>v c. owner_only ''git.include_dirty'')
        (\<lambda>v. change_git (\<lambda>g. g\<lparr>gc_include_dirty := v\<rparr>)))]"

definition policy_steps :: "policy_section \<Rightarrow> configuration_step list" where
  "policy_steps policy =
     [sure (merged_setting (ly_protected_paths policy)
        (\<lambda>v. change_policy (\<lambda>p. p\<lparr>pp_protected_patterns := v\<rparr>))
        (\<lambda>v. change_policy (\<lambda>p. p\<lparr>pp_protected_patterns := list_union (pp_protected_patterns p) v\<rparr>))),
      sure (merged_setting (ly_sensitive_paths policy)
        (\<lambda>v. change_policy (\<lambda>p. p\<lparr>pp_sensitive_patterns := v\<rparr>))
        (\<lambda>v. change_policy (\<lambda>p. p\<lparr>pp_sensitive_patterns := list_union (pp_sensitive_patterns p) v\<rparr>))),
      sure (merged_setting (ly_maximum_read_bytes policy)
        (\<lambda>v. change_policy (\<lambda>p. p\<lparr>pp_maximum_read_bytes := v\<rparr>))
        (\<lambda>v. change_policy (\<lambda>p. p\<lparr>pp_maximum_read_bytes := min v (pp_maximum_read_bytes p)\<rparr>))),
      sure (merged_setting (ly_maximum_write_bytes policy)
        (\<lambda>v. change_policy (\<lambda>p. p\<lparr>pp_maximum_write_bytes := v\<rparr>))
        (\<lambda>v. change_policy (\<lambda>p. p\<lparr>pp_maximum_write_bytes := min v (pp_maximum_write_bytes p)\<rparr>)))]"

definition redaction_steps :: "redaction_section \<Rightarrow> configuration_step list" where
  "redaction_steps redaction =
     [sure (merged_setting (rdx_secret_environment_variables redaction)
        (\<lambda>v. change_redaction (\<lambda>r. r\<lparr>rc_secret_environment_variables := v\<rparr>))
        (\<lambda>v. change_redaction (\<lambda>r. r\<lparr>rc_secret_environment_variables :=
          list_union (rc_secret_environment_variables r) v\<rparr>))),
      sure (merged_setting (rdx_additional_patterns redaction)
        (\<lambda>v. change_redaction (\<lambda>r. r\<lparr>rc_additional_patterns := v\<rparr>))
        (\<lambda>v. change_redaction (\<lambda>r. r\<lparr>rc_additional_patterns :=
          list_union (rc_additional_patterns r) v\<rparr>))),
      sure (setting (rdx_redact_home_prefix redaction)
        (\<lambda>v c. never_relaxes ''redaction.redact_home_prefix''
          (rc_redact_home_prefix (ef_redaction c) \<and> \<not> v))
        (\<lambda>v. change_redaction (\<lambda>r. r\<lparr>rc_redact_home_prefix := v\<rparr>)))]"

subsection \<open>The environment\<close>

text \<open>The variables of every platform but Windows.\<close>

definition essential_environment_variables :: "string list" where
  "essential_environment_variables =
     [''PATH'', ''HOME'', ''LANG'', ''LC_ALL'', ''TMPDIR'', ''SHELL'', ''USER'', ''LOGNAME'',
      ''TERM'', ''TZ'']"

fun apply_allowlist ::
    "string list option \<Rightarrow> effective_configuration layer \<Rightarrow> effective_configuration layer" where
  "apply_allowlist None layer = layer"
| "apply_allowlist (Some allowlist) (c, gate) =
     (if is_user gate
      then (c\<lparr>ef_environment_allowlist := list_union essential_environment_variables allowlist\<rparr>, gate)
      else if list_ex (\<lambda>name. name \<notin> set (ef_environment_allowlist c)) allowlist
      then (c, withhold ''environment.allowlist'' WouldWeakenPolicy gate)
      else (c, gate))"

definition environment_steps :: "environment_section \<Rightarrow> configuration_step list" where
  "environment_steps environment = [sure (apply_allowlist (es_allowlist environment))]"

subsection \<open>The commands\<close>

definition option_ok :: "('a \<Rightarrow> 'e + 'b) \<Rightarrow> 'a option \<Rightarrow> 'e + 'b option" where
  "option_ok f v = (case v of None \<Rightarrow> Inr None | Some a \<Rightarrow> map_ok Some (f a))"

definition convert_command :: "command_section \<Rightarrow> command_specification application_result" where
  "convert_command s =
     and_then (lift_domain (command_id_from_str (ks_id s))) (\<lambda>command_id.
     and_then (lift_domain (command_kind_from_str (ks_kind s))) (\<lambda>kind.
     and_then (lift_domain (option_ok report_format_from_str (ks_report_format s))) (\<lambda>report_format.
     let specification =
       \<lparr>cs_id = command_id, cs_kind = kind, cs_program = ks_program s, cs_args = ks_args s,
        cs_working_subdirectory = ks_working_subdirectory s,
        cs_timeout = timeout_clamped (case ks_timeout_seconds s of None \<Rightarrow> 600 | Some t \<Rightarrow> t)
          maximum_command_timeout_seconds,
        cs_required = (case ks_required s of None \<Rightarrow> True | Some r \<Rightarrow> r),
        cs_report_format = (case report_format of None \<Rightarrow> NoReport | Some f \<Rightarrow> f),
        cs_report_path = ks_report_path s,
        cs_environment = (case ks_environment s of None \<Rightarrow> [] | Some e \<Rightarrow> e),
        cs_success_exit_codes = (case ks_success_exit_codes s of None \<Rightarrow> [0] | Some e \<Rightarrow> e)\<rparr>
     in map_ok (\<lambda>_. specification) (lift_domain (command_specification_validate specification)))))"

definition convert_commands :: "command_section list \<Rightarrow> command_catalogue application_result" where
  "convert_commands = try_fold (\<lambda>catalogue s. map_ok (\<lambda>c. catalogue @ [c]) (convert_command s)) []"

fun apply_commands :: "command_section list option \<Rightarrow> configuration_step" where
  "apply_commands None layer = Inr layer"
| "apply_commands (Some commands) (c, gate) =
     (case requires_trust ''commands'' gate of (allowed, gate) \<Rightarrow>
        if allowed then
          map_ok (\<lambda>catalogue.
            (c\<lparr>ef_commands := catalogue,
               ef_command_source := if is_user gate then UserSource else RepositorySource\<rparr>, gate))
            (convert_commands commands)
        else Inr (c, gate))"

definition section_steps :: "'s option \<Rightarrow> ('s \<Rightarrow> configuration_step list) \<Rightarrow> configuration_step list" where
  "section_steps present steps = (case present of None \<Rightarrow> [] | Some s \<Rightarrow> steps s)"

definition document_steps :: "forge_document \<Rightarrow> configuration_step list" where
  "document_steps document =
     section_steps (fd_run document) run_steps
     @ section_steps (fd_agent document) agent_steps
     @ section_steps (fd_quality document) quality_steps
     @ section_steps (fd_git document) git_steps
     @ section_steps (fd_policy document) policy_steps
     @ section_steps (fd_redaction document) redaction_steps
     @ section_steps (fd_environment document) environment_steps
     @ [apply_commands (fd_commands document)]"

definition apply_document :: "forge_document \<Rightarrow> configuration_step" where
  "apply_document document = in_order (document_steps document)"

section \<open>Rendering a configuration\<close>

definition hex_upper :: "nat \<Rightarrow> char" where
  "hex_upper n = (if n < 10 then chr (48 + n) else chr (55 + n))"

definition quote_mark :: char where "quote_mark = chr 34"
definition tabulator :: char where "tabulator = chr 9"

text \<open>A control character below 256, as \<open>\u{:04X}\<close> writes it after a backslash and a \<open>u\<close>.\<close>

definition unicode_escape :: "nat \<Rightarrow> string" where
  "unicode_escape n = [backslash, CHR ''u'', CHR ''0'', CHR ''0'', hex_upper (n div 16), hex_upper (n mod 16)]"

text \<open>
  \<open>toml_string\<close> on the bytes of a text: the control characters above ASCII are the two bytes \<open>C2 80\<close> to
  \<open>C2 9F\<close>.
\<close>

fun toml_escape :: "string \<Rightarrow> string" where
  "toml_escape [] = []"
| "toml_escape (c # s) =
     (if c = quote_mark then [backslash, quote_mark] @ toml_escape s
      else if c = backslash then [backslash, backslash] @ toml_escape s
      else if c = newline then [backslash, CHR ''n''] @ toml_escape s
      else if c = carriage_return then [backslash, CHR ''r''] @ toml_escape s
      else if c = tabulator then [backslash, CHR ''t''] @ toml_escape s
      else if byte c < 32 \<or> byte c = 127 then unicode_escape (byte c) @ toml_escape s
      else if byte c = 194 \<and> s \<noteq> [] \<and> byte (hd s) < 160
      then unicode_escape (byte (hd s)) @ toml_escape (tl s)
      else c # toml_escape s)"

definition toml_string :: "string \<Rightarrow> string" where
  "toml_string v = [quote_mark] @ toml_escape v @ [quote_mark]"

definition bracketed :: "string list \<Rightarrow> string" where
  "bracketed items = ''['' @ join_str '', '' items @ '']''"

definition toml_string_array :: "string list \<Rightarrow> string" where
  "toml_string_array values = bracketed (map toml_string values)"

definition toml_bool :: "bool \<Rightarrow> string" where
  "toml_bool b = (if b then ''true'' else ''false'')"

definition toml_line :: "string \<Rightarrow> string \<Rightarrow> string" where
  "toml_line key v = key @ '' = '' @ v @ [newline]"

definition toml_optional :: "string \<Rightarrow> ('a \<Rightarrow> string) \<Rightarrow> 'a option \<Rightarrow> string" where
  "toml_optional key show v = (case v of None \<Rightarrow> [] | Some a \<Rightarrow> toml_line key (show a))"

definition toml_when :: "bool \<Rightarrow> string \<Rightarrow> string" where
  "toml_when present line_text = (if present then line_text else [])"

definition render_command :: "command_specification \<Rightarrow> string" where
  "render_command command =
     ''[[commands]]'' @ [newline]
     @ toml_line ''id'' (toml_string (cs_id command))
     @ toml_line ''program'' (toml_string (cs_program command))
     @ toml_line ''args'' (toml_string_array (cs_args command))
     @ toml_line ''kind'' (toml_string (command_kind_as_str (cs_kind command)))
     @ toml_line ''timeout_seconds'' (dec (cs_timeout command))
     @ toml_line ''required'' (toml_bool (cs_required command))
     @ toml_optional ''working_subdirectory'' toml_string (cs_working_subdirectory command)
     @ toml_when (cs_success_exit_codes command \<noteq> [0])
         (toml_line ''success_exit_codes'' (bracketed (map int_dec (cs_success_exit_codes command))))
     @ toml_when (cs_environment command \<noteq> [])
         (toml_line ''environment'' (bracketed (map
           (\<lambda>(name, v). bracketed [toml_string name, toml_string v]) (cs_environment command))))
     @ toml_when (cs_report_format command \<noteq> NoReport)
         (toml_line ''report_format'' (toml_string (report_format_as_str (cs_report_format command))))
     @ toml_optional ''report_path'' toml_string (cs_report_path command)
     @ [newline]"

text \<open>\<open>show_f64\<close> is the \<open>Display\<close> of a floating point number in the standard library.\<close>

definition render_document :: "(f64 \<Rightarrow> string) \<Rightarrow> effective_configuration \<Rightarrow> string" where
  "render_document show_f64 c =
     toml_line ''schema_version'' (dec configuration_schema_version) @ [newline]
     @ ''[run]'' @ [newline]
     @ toml_line ''candidates'' (dec (bd_candidates (ef_budgets c)))
     @ toml_line ''max_parallel_candidates'' (dec (bd_max_parallel_candidates (ef_budgets c)))
     @ toml_line ''max_repairs_per_candidate'' (dec (bd_max_repairs_per_candidate (ef_budgets c)))
     @ toml_line ''commit_policy'' (toml_string (commit_policy_as_str (ef_commit_policy c)))
     @ toml_line ''require_clean_repository'' (toml_bool (gc_require_clean_repository (ef_git c)))
     @ [newline]
     @ ''[agent]'' @ [newline]
     @ toml_line ''driver'' (toml_string (agent_driver_as_str (ac_driver (ef_agent c))))
     @ toml_optional ''model'' toml_string (ac_model (ef_agent c))
     @ toml_optional ''endpoint'' toml_string (ac_endpoint (ef_agent c))
     @ toml_line ''max_turns'' (dec (ac_max_turns (ef_agent c)))
     @ toml_line ''timeout_seconds'' (dec (ac_timeout (ef_agent c)))
     @ toml_line ''network'' (toml_string (network_policy_as_str (ac_network (ef_agent c))))
     @ [newline]
     @ ''[quality]'' @ [newline]
     @ toml_line ''profile'' (toml_string (quality_profile_as_str (qc_profile (ef_quality c))))
     @ toml_optional ''minimum_line_coverage'' show_f64 (qc_minimum_line_coverage (ef_quality c))
     @ toml_line ''protect_existing_tests'' (toml_bool (qc_protect_existing_tests (ef_quality c)))
     @ [newline]
     @ concat (map render_command (ef_commands c))
     @ ''[git]'' @ [newline]
     @ toml_line ''branch_prefix'' (toml_string (gc_branch_prefix (ef_git c)))
     @ toml_line ''author_name'' (toml_string (gc_author_name (ef_git c)))
     @ [newline]
     @ ''[policy]'' @ [newline]
     @ toml_line ''protected_paths'' (toml_string_array (pp_protected_patterns (ef_path_policy c)))
     @ toml_line ''sensitive_paths'' (toml_string_array (pp_sensitive_patterns (ef_path_policy c)))"

end
