(* ===== verification/Forge_Tightening.thy ===== *)
theory Forge_Tightening
  imports Forge_Documents
begin

text \<open>
  What a document of a repository can do to the configuration of its user: it tightens it. The rules
  that carry the proof from the gate over the settings to a whole document are those of the locale
  \<open>gated\<close>, interpreted for the configuration and for its parts.
\<close>

section \<open>Settings under a gate\<close>

definition keeps_layer ::
    "(authority_gate \<Rightarrow> bool) \<Rightarrow> ('c \<Rightarrow> 'c \<Rightarrow> bool) \<Rightarrow> ('c layer \<Rightarrow> 'c layer) \<Rightarrow> bool" where
  "keeps_layer admitted tight f \<longleftrightarrow>
     (\<forall>c gate. admitted gate \<longrightarrow> admitted (snd (f (c, gate))) \<and> tight c (fst (f (c, gate))))"

definition keeps_step ::
    "(authority_gate \<Rightarrow> bool) \<Rightarrow> ('c \<Rightarrow> 'c \<Rightarrow> bool) \<Rightarrow> ('c layer \<Rightarrow> 'c layer application_result) \<Rightarrow> bool" where
  "keeps_step admitted tight f \<longleftrightarrow>
     (\<forall>c gate d left. admitted gate \<longrightarrow> f (c, gate) = Inr (d, left) \<longrightarrow> admitted left \<and> tight c d)"

text \<open>What the gate answers leaves it as it is, or withholds a setting.\<close>

definition asks :: "(authority_gate \<Rightarrow> bool \<times> authority_gate) \<Rightarrow> bool" where
  "asks permit \<longleftrightarrow> (\<forall>gate. snd (permit gate) = gate \<or> (\<exists>s r. snd (permit gate) = withhold s r gate))"

lemma asks_gate [simp]:
  "asks (owner_only s)" "asks (requires_trust s)" "asks (never_relaxes s b)" "asks (unguarded v c)"
  by (auto simp: asks_def owner_only_def requires_trust_def never_relaxes_def unguarded_def)

lemma gate_answers:
  "fst (owner_only s gate) \<longleftrightarrow> is_user gate"
  "fst (requires_trust s gate) \<longleftrightarrow> is_user gate \<or> gt_trusted gate"
  "fst (never_relaxes s b gate) \<longleftrightarrow> is_user gate \<or> \<not> b"
  "fst (unguarded v c gate)"
  by (auto simp: owner_only_def requires_trust_def never_relaxes_def unguarded_def)

locale gated =
  fixes admitted :: "authority_gate \<Rightarrow> bool" and tight :: "'c \<Rightarrow> 'c \<Rightarrow> bool"
  assumes refl: "tight c c"
    and trans: "tight c d \<Longrightarrow> tight d e \<Longrightarrow> tight c e"
    and withheld: "admitted gate \<Longrightarrow> admitted (withhold s r gate)"
begin

lemma answered: "asks permit \<Longrightarrow> admitted gate \<Longrightarrow> admitted (snd (permit gate))"
  unfolding asks_def by (metis withheld)

lemma setting_keeps:
  assumes "\<And>v c. asks (permit v c)"
    and "\<And>v c gate. present = Some v \<Longrightarrow> admitted gate \<Longrightarrow> fst (permit v c gate) \<Longrightarrow> tight c (change v c)"
  shows "keeps_layer admitted tight (setting present permit change)"
proof (cases present)
  case None
  then show ?thesis by (simp add: keeps_layer_def refl)
next
  case (Some v)
  with assms show ?thesis
    by (auto simp: keeps_layer_def refl split_beta answered)
qed

lemma merged_keeps:
  assumes "\<And>v c gate. present = Some v \<Longrightarrow> admitted gate \<Longrightarrow> is_user gate \<Longrightarrow> tight c (replace v c)"
    and "\<And>v c. present = Some v \<Longrightarrow> tight c (merge v c)"
  shows "keeps_layer admitted tight (merged_setting present replace merge)"
  using assms by (cases present) (auto simp: keeps_layer_def refl)

lemma present_keeps:
  "(\<And>v. present = Some v \<Longrightarrow> keeps_layer admitted tight (f v)) \<Longrightarrow>
     keeps_layer admitted tight (when_present present f)"
  by (cases present) (auto simp: keeps_layer_def refl)

lemma part_keeps:
  assumes "keeps_layer admitted fits f"
    and "\<And>c p. fits (get_part c) p \<Longrightarrow> tight c (set_part p c)"
  shows "keeps_layer admitted tight (inside_part get_part set_part f)"
  using assms by (simp add: keeps_layer_def inside_part_def split_beta)

lemma settings_keeps:
  "list_all (keeps_layer admitted tight) fs \<Longrightarrow> keeps_layer admitted tight (settings fs)"
proof (induction fs)
  case Nil
  then show ?case by (simp add: keeps_layer_def settings_def refl)
next
  case (Cons f fs)
  then have f: "keeps_layer admitted tight f" and fs: "keeps_layer admitted tight (settings fs)"
    by simp_all
  show ?case
    unfolding keeps_layer_def
  proof (intro allI impI)
    fix c gate assume gate: "admitted gate"
    obtain d left where d: "f (c, gate) = (d, left)" by fastforce
    with f gate have "admitted left" "tight c d" by (metis keeps_layer_def fst_conv snd_conv)+
    moreover have "settings (f # fs) (c, gate) = settings fs (d, left)"
      by (simp add: settings_def d)
    ultimately show "admitted (snd (settings (f # fs) (c, gate)))
        \<and> tight c (fst (settings (f # fs) (c, gate)))"
      using fs trans unfolding keeps_layer_def by metis
  qed
qed

lemma sure_keeps: "keeps_layer admitted tight f \<Longrightarrow> keeps_step admitted tight (sure f)"
  unfolding keeps_step_def keeps_layer_def sure_def by (metis fst_conv snd_conv sum.inject(2))

lemma parsed_keeps:
  assumes "asks permit"
    and "\<And>raw v c gate. present = Some raw \<Longrightarrow> admitted gate \<Longrightarrow> fst (permit gate)
      \<Longrightarrow> parse raw = Inr v \<Longrightarrow> tight c (change v c)"
  shows "keeps_step admitted tight (parsed_setting present permit parse change)"
proof (cases present)
  case None
  then show ?thesis by (simp add: keeps_step_def refl)
next
  case (Some raw)
  have "admitted (snd (permit gate))" if "admitted gate" for gate
    using assms(1) that by (rule answered)
  with Some assms(2) show ?thesis
    by (auto simp: keeps_step_def refl split_beta split: if_splits)
qed

lemma in_order_keeps:
  "list_all (keeps_step admitted tight) fs \<Longrightarrow> keeps_step admitted tight (in_order fs)"
proof (induction fs)
  case Nil
  then show ?case by (simp add: keeps_step_def refl)
next
  case (Cons f fs)
  then have f: "keeps_step admitted tight f" and fs: "keeps_step admitted tight (in_order fs)"
    by simp_all
  show ?case
    unfolding keeps_step_def
  proof (intro allI impI)
    fix c gate e last_gate
    assume gate: "admitted gate" and run: "in_order (f # fs) (c, gate) = Inr (e, last_gate)"
    from run obtain d left where d: "f (c, gate) = Inr (d, left)"
      and rest: "in_order fs (d, left) = Inr (e, last_gate)" by auto
    from f gate d have "admitted left \<and> tight c d" unfolding keeps_step_def by blast
    moreover from this fs rest have "admitted last_gate \<and> tight d e" unfolding keeps_step_def by blast
    ultimately show "admitted last_gate \<and> tight c e" using trans by blast
  qed
qed

end

lemma section_keeps:
  "(\<And>s. present = Some s \<Longrightarrow> list_all P (steps s)) \<Longrightarrow> list_all P (section_steps present steps)"
  by (cases present) (simp_all add: section_steps_def)

lemma all_of: "list_all P [] = True" "list_all P (x # xs) = (P x \<and> list_all P xs)"
  by simp_all

section \<open>What it means to tighten\<close>

definition implied :: "bool \<Rightarrow> bool \<Rightarrow> bool" where "implied old new \<longleftrightarrow> (old \<longrightarrow> new)"

definition unless_trusted :: "bool \<Rightarrow> 'a \<Rightarrow> 'a \<Rightarrow> bool" where
  "unless_trusted trusted old new \<longleftrightarrow> trusted \<or> new = old"

definition budgets_tighten :: "run_budgets \<Rightarrow> run_budgets \<Rightarrow> bool" where
  "budgets_tighten old new \<longleftrightarrow>
     bd_candidates new \<le> bd_candidates old
     \<and> bd_max_parallel_candidates new \<le> bd_max_parallel_candidates old
     \<and> bd_max_repairs_per_candidate new \<le> bd_max_repairs_per_candidate old
     \<and> bd_wall_clock_seconds new \<le> bd_wall_clock_seconds old
     \<and> bd_max_output_bytes_per_stream new \<le> bd_max_output_bytes_per_stream old
     \<and> bd_max_total_artifact_bytes new = bd_max_total_artifact_bytes old"

definition agent_tightens :: "bool \<Rightarrow> agent_configuration \<Rightarrow> agent_configuration \<Rightarrow> bool" where
  "agent_tightens trusted old new \<longleftrightarrow>
     unless_trusted trusted (ac_driver old) (ac_driver new)
     \<and> ac_model new = ac_model old \<and> ac_endpoint new = ac_endpoint old
     \<and> ac_api_key_environment_variable new = ac_api_key_environment_variable old
     \<and> ac_executable new = ac_executable old \<and> ac_extra_arguments new = ac_extra_arguments old
     \<and> ac_max_turns new \<le> ac_max_turns old
     \<and> permissiveness_rank (ac_network new) \<le> permissiveness_rank (ac_network old)
     \<and> unless_trusted trusted (ac_fixture_script old) (ac_fixture_script new)"

definition scanner_tightens ::
    "bool \<Rightarrow> sonar_scanner_configuration \<Rightarrow> sonar_scanner_configuration \<Rightarrow> bool" where
  "scanner_tightens trusted old new \<longleftrightarrow>
     implied (ss_enabled old) (ss_enabled new)
     \<and> unless_trusted trusted (ss_program old) (ss_program new)
     \<and> unless_trusted trusted (ss_arguments old) (ss_arguments new)
     \<and> ss_host_url new = ss_host_url old
     \<and> ss_token_environment_variable new = ss_token_environment_variable old
     \<and> implied (ss_wait_for_quality_gate old) (ss_wait_for_quality_gate new)"

definition mcp_tightens :: "bool \<Rightarrow> sonar_mcp_configuration \<Rightarrow> sonar_mcp_configuration \<Rightarrow> bool" where
  "mcp_tightens trusted old new \<longleftrightarrow>
     implied (sm_enabled old) (sm_enabled new)
     \<and> unless_trusted trusted (sm_program old) (sm_program new)
     \<and> unless_trusted trusted (sm_arguments old) (sm_arguments new)
     \<and> sm_token_environment_variable new = sm_token_environment_variable old"

text \<open>Whether the review by a model runs at all is left to the repository.\<close>

definition ai_tightens :: "ai_review_configuration \<Rightarrow> ai_review_configuration \<Rightarrow> bool" where
  "ai_tightens old new \<longleftrightarrow>
     implied (ax_advisory_only new) (ax_advisory_only old)
     \<and> set (ax_gate_rules old) \<subseteq> set (ax_gate_rules new)"

text \<open>A minimum that is set is not lowered; NaN is compared with nothing.\<close>

definition coverage_tightens :: "f64 option \<Rightarrow> f64 option \<Rightarrow> bool" where
  "coverage_tightens old new \<longleftrightarrow>
     (case old of
        None \<Rightarrow> True
      | Some v \<Rightarrow> v \<noteq> NaN \<longrightarrow> (\<exists>w. new = Some w \<and> w \<noteq> NaN \<and> \<not> f64_less w v))"

definition quality_tightens :: "bool \<Rightarrow> quality_configuration \<Rightarrow> quality_configuration \<Rightarrow> bool" where
  "quality_tightens trusted old new \<longleftrightarrow>
     strictness_rank (qc_profile old) \<le> strictness_rank (qc_profile new)
     \<and> coverage_tightens (qc_minimum_line_coverage old) (qc_minimum_line_coverage new)
     \<and> implied (qc_protect_existing_tests old) (qc_protect_existing_tests new)
     \<and> scanner_tightens trusted (qc_sonar_scanner old) (qc_sonar_scanner new)
     \<and> mcp_tightens trusted (qc_sonar_mcp old) (qc_sonar_mcp new)
     \<and> ai_tightens (qc_ai_review old) (qc_ai_review new)"

definition git_tightens :: "git_configuration \<Rightarrow> git_configuration \<Rightarrow> bool" where
  "git_tightens old new \<longleftrightarrow>
     gc_branch_prefix new = gc_branch_prefix old \<and> gc_author_name new = gc_author_name old
     \<and> gc_include_dirty new = gc_include_dirty old
     \<and> implied (gc_require_clean_repository old) (gc_require_clean_repository new)"

definition policy_tightens :: "path_policy \<Rightarrow> path_policy \<Rightarrow> bool" where
  "policy_tightens old new \<longleftrightarrow>
     set (pp_protected_patterns old) \<subseteq> set (pp_protected_patterns new)
     \<and> set (pp_sensitive_patterns old) \<subseteq> set (pp_sensitive_patterns new)
     \<and> pp_approved_protected_paths new = pp_approved_protected_paths old
     \<and> pp_maximum_read_bytes new \<le> pp_maximum_read_bytes old
     \<and> pp_maximum_write_bytes new \<le> pp_maximum_write_bytes old"

definition redaction_tightens :: "redaction_configuration \<Rightarrow> redaction_configuration \<Rightarrow> bool" where
  "redaction_tightens old new \<longleftrightarrow>
     set (rc_secret_environment_variables old) \<subseteq> set (rc_secret_environment_variables new)
     \<and> set (rc_additional_patterns old) \<subseteq> set (rc_additional_patterns new)
     \<and> implied (rc_redact_home_prefix old) (rc_redact_home_prefix new)"

text \<open>
  The limits of the agent are kept twice, in its configuration and in the budgets and timeouts; the
  code only compares one of the two.
\<close>

definition aligned :: "effective_configuration \<Rightarrow> bool" where
  "aligned c \<longleftrightarrow>
     bd_max_agent_turns (ef_budgets c) = ac_max_turns (ef_agent c)
     \<and> ac_timeout (ef_agent c)
       = timeout_clamped (to_agent_seconds (ef_timeouts c)) maximum_command_timeout_seconds"

definition limits_tighten :: "effective_configuration \<Rightarrow> effective_configuration \<Rightarrow> bool" where
  "limits_tighten old new \<longleftrightarrow>
     to_agent_seconds (ef_timeouts new) \<le> to_agent_seconds (ef_timeouts old)
     \<and> to_command_seconds (ef_timeouts new) = to_command_seconds (ef_timeouts old)
     \<and> to_review_seconds (ef_timeouts new) = to_review_seconds (ef_timeouts old)
     \<and> to_git_seconds (ef_timeouts new) = to_git_seconds (ef_timeouts old)
     \<and> (aligned old \<longrightarrow> aligned new
          \<and> bd_max_agent_turns (ef_budgets new) \<le> bd_max_agent_turns (ef_budgets old)
          \<and> ac_timeout (ef_agent new) \<le> ac_timeout (ef_agent old))"

definition tightens :: "bool \<Rightarrow> effective_configuration \<Rightarrow> effective_configuration \<Rightarrow> bool" where
  "tightens trusted old new \<longleftrightarrow>
     budgets_tighten (ef_budgets old) (ef_budgets new)
     \<and> agent_tightens trusted (ef_agent old) (ef_agent new)
     \<and> quality_tightens trusted (ef_quality old) (ef_quality new)
     \<and> git_tightens (ef_git old) (ef_git new)
     \<and> policy_tightens (ef_path_policy old) (ef_path_policy new)
     \<and> redaction_tightens (ef_redaction old) (ef_redaction new)
     \<and> limits_tighten old new
     \<and> ef_commit_policy new = ef_commit_policy old
     \<and> ef_environment_allowlist new = ef_environment_allowlist old
     \<and> ef_retry new = ef_retry old
     \<and> ef_demonstration_mode new = ef_demonstration_mode old
     \<and> unless_trusted trusted (ef_commands old) (ef_commands new)
     \<and> unless_trusted trusted (ef_command_source old) (ef_command_source new)"

lemmas tightens_parts = budgets_tighten_def agent_tightens_def quality_tightens_def
  git_tightens_def policy_tightens_def redaction_tightens_def

lemma implied_order:
  "implied b b" "implied a b \<Longrightarrow> implied b c \<Longrightarrow> implied a c"
  "unless_trusted t x x" "unless_trusted t x y \<Longrightarrow> unless_trusted t y z \<Longrightarrow> unless_trusted t x z"
  by (auto simp: implied_def unless_trusted_def)

lemma f64_not_less_trans:
  "\<not> f64_less b a \<Longrightarrow> \<not> f64_less c b \<Longrightarrow> a \<noteq> NaN \<Longrightarrow> b \<noteq> NaN \<Longrightarrow> c \<noteq> NaN \<Longrightarrow> \<not> f64_less c a"
  by (cases a; cases b; cases c) auto

lemma f64_not_less_self: "\<not> f64_less a a"
  by (cases a) auto

lemma coverage_order:
  "coverage_tightens m m"
  "coverage_tightens m n \<Longrightarrow> coverage_tightens n k \<Longrightarrow> coverage_tightens m k"
  by (auto simp: coverage_tightens_def f64_not_less_self split: option.splits
      dest: f64_not_less_trans)

lemma parts_refl:
  "budgets_tighten b b" "agent_tightens t a a" "scanner_tightens t s s" "mcp_tightens t m m"
  "ai_tightens x x" "git_tightens g g" "policy_tightens p p" "redaction_tightens r r"
  by (simp_all add: tightens_parts scanner_tightens_def mcp_tightens_def ai_tightens_def implied_order)

lemma budgets_trans: "budgets_tighten a b \<Longrightarrow> budgets_tighten b c \<Longrightarrow> budgets_tighten a c"
  by (auto simp: budgets_tighten_def)

lemma agent_trans: "agent_tightens t a b \<Longrightarrow> agent_tightens t b c \<Longrightarrow> agent_tightens t a c"
  by (auto simp: agent_tightens_def intro: implied_order)

lemma scanner_trans: "scanner_tightens t a b \<Longrightarrow> scanner_tightens t b c \<Longrightarrow> scanner_tightens t a c"
  by (auto simp: scanner_tightens_def intro: implied_order)

lemma mcp_trans: "mcp_tightens t a b \<Longrightarrow> mcp_tightens t b c \<Longrightarrow> mcp_tightens t a c"
  by (auto simp: mcp_tightens_def intro: implied_order)

lemma ai_trans: "ai_tightens a b \<Longrightarrow> ai_tightens b c \<Longrightarrow> ai_tightens a c"
  by (auto simp: ai_tightens_def implied_def)

lemma quality_trans: "quality_tightens t a b \<Longrightarrow> quality_tightens t b c \<Longrightarrow> quality_tightens t a c"
  unfolding quality_tightens_def
  by (auto intro: implied_order coverage_order scanner_trans mcp_trans ai_trans)

lemma git_trans: "git_tightens a b \<Longrightarrow> git_tightens b c \<Longrightarrow> git_tightens a c"
  by (auto simp: git_tightens_def implied_def)

lemma policy_trans: "policy_tightens a b \<Longrightarrow> policy_tightens b c \<Longrightarrow> policy_tightens a c"
  by (auto simp: policy_tightens_def)

lemma redaction_trans: "redaction_tightens a b \<Longrightarrow> redaction_tightens b c \<Longrightarrow> redaction_tightens a c"
  by (auto simp: redaction_tightens_def implied_def)

lemma limits_trans: "limits_tighten a b \<Longrightarrow> limits_tighten b c \<Longrightarrow> limits_tighten a c"
  unfolding limits_tighten_def by (auto intro: order_trans)

lemma tightens_refl: "tightens t c c"
  by (simp add: tightens_def parts_refl quality_tightens_def coverage_order limits_tighten_def
      implied_order)

lemma tightens_trans: "tightens t a b \<Longrightarrow> tightens t b c \<Longrightarrow> tightens t a c"
  unfolding tightens_def
  by (elim conjE, intro conjI)
    (auto intro: budgets_trans agent_trans quality_trans git_trans policy_trans redaction_trans
      limits_trans implied_order)

section \<open>A document of a repository tightens\<close>

definition of_repository :: "bool \<Rightarrow> authority_gate \<Rightarrow> bool" where
  "of_repository trusted gate \<longleftrightarrow> \<not> is_user gate \<and> (gt_trusted gate \<longrightarrow> trusted)"

lemma of_repository_withhold [simp]:
  "of_repository trusted (withhold s r gate) = of_repository trusted gate"
  by (simp add: of_repository_def withhold_def is_user_def)

lemma of_repository_gate [simp]: "of_repository trusted (repository_gate trusted)"
  by (simp add: of_repository_def repository_gate_def is_user_def)

lemma repository_answers:
  "of_repository t gate \<Longrightarrow> fst (owner_only s gate) = False"
  "of_repository t gate \<Longrightarrow> fst (requires_trust s gate) = gt_trusted gate"
  "of_repository t gate \<Longrightarrow> fst (never_relaxes s b gate) = (\<not> b)"
  "of_repository t gate \<Longrightarrow> is_user gate = False"
  by (auto simp: of_repository_def gate_answers)

lemma repository_trusted: "of_repository t gate \<Longrightarrow> gt_trusted gate \<Longrightarrow> t"
  by (simp add: of_repository_def)

interpretation whole: gated "of_repository t" "tightens t" for t
  by unfold_locales (auto intro: tightens_refl tightens_trans)

interpretation scanner: gated "of_repository t" "scanner_tightens t" for t
  by unfold_locales (auto intro: parts_refl scanner_trans)

interpretation mcp: gated "of_repository t" "mcp_tightens t" for t
  by unfold_locales (auto intro: parts_refl mcp_trans)

interpretation ai: gated "of_repository t" ai_tightens for t
  by unfold_locales (auto intro: parts_refl ai_trans)

lemmas part_relations = scanner_tightens_def mcp_tightens_def ai_tightens_def implied_def
  unless_trusted_def

lemma set_list_union [simp]: "set (list_union xs ys) = set xs \<union> set ys"
proof (induction ys arbitrary: xs)
  case (Cons y ys)
  have "list_union xs (y # ys) = list_union (if y \<in> set xs then xs else xs @ [y]) ys"
    by (simp add: list_union_def)
  with Cons show ?case by auto
qed (simp add: list_union_def)

lemma scanner_keeps: "keeps_layer (of_repository t) (scanner_tightens t) (apply_scanner s)"
  unfolding apply_scanner_def scanner_settings_def
  by (rule scanner.settings_keeps, unfold all_of, intro conjI TrueI;
    rule scanner.setting_keeps)
    (auto simp: repository_answers part_relations dest: repository_trusted)

lemma mcp_keeps: "keeps_layer (of_repository t) (mcp_tightens t) (apply_mcp s)"
  unfolding apply_mcp_def mcp_settings_def
  by (rule mcp.settings_keeps, unfold all_of, intro conjI TrueI; rule mcp.setting_keeps)
    (auto simp: repository_answers part_relations dest: repository_trusted)

lemma ai_keeps: "keeps_layer (of_repository t) ai_tightens (apply_ai s)"
  unfolding apply_ai_def ai_settings_def
  by (rule ai.settings_keeps, unfold all_of, intro conjI TrueI;
    (rule ai.setting_keeps | rule ai.merged_keeps))
    (auto simp: repository_answers part_relations dest: repository_trusted)

lemma tightens_change:
  "budgets_tighten (ef_budgets c) (f (ef_budgets c))
    \<Longrightarrow> bd_max_agent_turns (f (ef_budgets c)) = bd_max_agent_turns (ef_budgets c)
    \<Longrightarrow> tightens t c (change_budgets f c)"
  "agent_tightens t (ef_agent c) (h (ef_agent c))
    \<Longrightarrow> ac_max_turns (h (ef_agent c)) = ac_max_turns (ef_agent c)
    \<Longrightarrow> ac_timeout (h (ef_agent c)) = ac_timeout (ef_agent c) \<Longrightarrow> tightens t c (change_agent h c)"
  "quality_tightens t (ef_quality c) (k (ef_quality c)) \<Longrightarrow> tightens t c (change_quality k c)"
  "git_tightens (ef_git c) (l (ef_git c)) \<Longrightarrow> tightens t c (change_git l c)"
  "policy_tightens (ef_path_policy c) (m (ef_path_policy c)) \<Longrightarrow> tightens t c (change_policy m c)"
  "redaction_tightens (ef_redaction c) (n (ef_redaction c)) \<Longrightarrow> tightens t c (change_redaction n c)"
  by (simp_all add: tightens_def change_parts parts_refl quality_tightens_def coverage_order
      limits_tighten_def aligned_def implied_order)

lemma tightens_turns:
  "v \<le> ac_max_turns (ef_agent c) \<Longrightarrow>
     tightens t c (change_budgets (\<lambda>b. b\<lparr>bd_max_agent_turns := v\<rparr>)
       (change_agent (\<lambda>a. a\<lparr>ac_max_turns := v\<rparr>) c))"
  by (simp add: tightens_def change_parts parts_refl quality_tightens_def coverage_order
      limits_tighten_def aligned_def implied_order budgets_tighten_def agent_tightens_def)

lemma timeout_clamped_mono: "v \<le> w \<Longrightarrow> timeout_clamped v upper \<le> timeout_clamped w upper"
  unfolding timeout_clamped_def by (intro max.mono min.mono) auto

lemma tightens_timeout:
  "v \<le> to_agent_seconds (ef_timeouts c) \<Longrightarrow>
     tightens t c ((change_agent
         (\<lambda>a. a\<lparr>ac_timeout := timeout_clamped v maximum_command_timeout_seconds\<rparr>) c)
       \<lparr>ef_timeouts := (ef_timeouts c)\<lparr>to_agent_seconds := v\<rparr>\<rparr>)"
  by (simp add: tightens_def change_parts parts_refl quality_tightens_def coverage_order
      limits_tighten_def aligned_def implied_order agent_tightens_def timeout_clamped_mono)

lemmas gate_rules = repository_answers not_less implied_def unless_trusted_def

lemma candidates_keep: "keeps_step (of_repository t) (tightens t) (apply_candidates present)"
proof (cases present)
  case None
  then show ?thesis by (simp add: keeps_step_def tightens_refl)
next
  case (Some n)
  have step: "keeps_layer (of_repository t) (tightens t) (setting (Some p)
      (\<lambda>v c. never_relaxes ''run.candidates'' (bd_candidates (ef_budgets c) < v))
      (\<lambda>v. change_budgets (\<lambda>b. b\<lparr>bd_candidates := v\<rparr>)))" for p
    by (rule whole.setting_keeps)
      (auto intro!: tightens_change simp: gate_rules budgets_tighten_def)
  have "keeps_step (of_repository t) (tightens t) (sure (setting (Some p)
      (\<lambda>v c. never_relaxes ''run.candidates'' (bd_candidates (ef_budgets c) < v))
      (\<lambda>v. change_budgets (\<lambda>b. b\<lparr>bd_candidates := v\<rparr>))))" for p
    by (rule whole.sure_keeps) (rule step)
  with Some show ?thesis
    unfolding keeps_step_def sure_def by (simp del: setting.simps) blast
qed

lemma run_keeps: "list_all (keeps_step (of_repository t) (tightens t)) (run_steps run)"
  unfolding run_steps_def all_of
  by (intro conjI TrueI candidates_keep;
      ((rule whole.sure_keeps, rule whole.setting_keeps) | rule whole.parsed_keeps))
    (auto intro!: tightens_change simp: gate_rules budgets_tighten_def git_tightens_def)

lemma agent_keeps: "list_all (keeps_step (of_repository t) (tightens t)) (agent_steps agent)"
  unfolding agent_steps_def all_of
  by (intro conjI TrueI; ((rule whole.sure_keeps, rule whole.setting_keeps) | rule whole.parsed_keeps))
    (auto intro!: tightens_change tightens_turns tightens_timeout simp: gate_rules agent_tightens_def
      dest: repository_trusted)

lemma git_keeps: "list_all (keeps_step (of_repository t) (tightens t)) (git_steps git)"
  unfolding git_steps_def all_of
  by (intro conjI TrueI; rule whole.sure_keeps, rule whole.setting_keeps)
    (auto simp: gate_rules)

lemma policy_keeps: "list_all (keeps_step (of_repository t) (tightens t)) (policy_steps policy)"
  unfolding policy_steps_def all_of
  by (intro conjI TrueI; rule whole.sure_keeps, rule whole.merged_keeps)
    (auto intro!: tightens_change simp: policy_tightens_def gate_rules)

lemma redaction_keeps: "list_all (keeps_step (of_repository t) (tightens t)) (redaction_steps r)"
  unfolding redaction_steps_def all_of
  by (intro conjI TrueI; rule whole.sure_keeps, (rule whole.merged_keeps | rule whole.setting_keeps))
    (auto intro!: tightens_change simp: redaction_tightens_def gate_rules)

lemma environment_keeps: "list_all (keeps_step (of_repository t) (tightens t)) (environment_steps e)"
proof -
  have "keeps_layer (of_repository t) (tightens t) (apply_allowlist names)" for names
    by (cases names) (auto simp: keeps_layer_def repository_answers tightens_refl)
  then show ?thesis
    unfolding environment_steps_def all_of by (intro conjI TrueI whole.sure_keeps)
qed

lemma commands_keep: "keeps_step (of_repository t) (tightens t) (apply_commands commands)"
proof (cases commands)
  case None
  then show ?thesis by (simp add: keeps_step_def tightens_refl)
next
  case (Some sections)
  have gate: "of_repository t (snd (requires_trust s gate))" if "of_repository t gate" for s gate
    using that by (rule whole.answered [rotated]) simp
  have change: "tightens True c (c\<lparr>ef_commands := x, ef_command_source := y\<rparr>)" for c x y
    by (simp add: tightens_def parts_refl quality_tightens_def coverage_order limits_tighten_def
        aligned_def implied_order unless_trusted_def)
  show ?thesis
    using Some gate change
    by (auto simp: keeps_step_def split_beta tightens_refl repository_answers
      dest: repository_trusted split: if_split_asm)
qed

text \<open>The minimum coverage a document names is a number.\<close>

definition names_number :: "forge_document \<Rightarrow> bool" where
  "names_number document \<longleftrightarrow>
     (case fd_quality document of
        None \<Rightarrow> True
      | Some quality \<Rightarrow> qs_minimum_line_coverage quality \<noteq> Some NaN)"

lemma quality_part_tightens:
  "scanner_tightens t (qc_sonar_scanner q) s \<Longrightarrow> quality_tightens t q (q\<lparr>qc_sonar_scanner := s\<rparr>)"
  "mcp_tightens t (qc_sonar_mcp q) m \<Longrightarrow> quality_tightens t q (q\<lparr>qc_sonar_mcp := m\<rparr>)"
  "ai_tightens (qc_ai_review q) a \<Longrightarrow> quality_tightens t q (q\<lparr>qc_ai_review := a\<rparr>)"
  by (simp_all add: quality_tightens_def parts_refl coverage_order implied_order)

lemma profile_keeps: "keeps_step (of_repository t) (tightens t) (apply_profile present)"
proof (cases present)
  case None
  then show ?thesis by (simp add: keeps_step_def tightens_refl)
next
  case (Some raw)
  have step: "keeps_layer (of_repository t) (tightens t) (setting (Some p)
      (\<lambda>v c. never_relaxes ''quality.profile''
        (strictness_rank v < strictness_rank (qc_profile (ef_quality c))))
      (\<lambda>v. change_quality (\<lambda>q. q\<lparr>qc_profile := v\<rparr>)))" for p
    by (rule whole.setting_keeps)
      (auto intro!: tightens_change simp: gate_rules quality_tightens_def parts_refl coverage_order)
  have "keeps_step (of_repository t) (tightens t) (sure (setting (Some p)
      (\<lambda>v c. never_relaxes ''quality.profile''
        (strictness_rank v < strictness_rank (qc_profile (ef_quality c))))
      (\<lambda>v. change_quality (\<lambda>q. q\<lparr>qc_profile := v\<rparr>))))" for p
    by (rule whole.sure_keeps) (rule step)
  with Some show ?thesis
    unfolding keeps_step_def sure_def by (simp del: setting.simps) blast
qed

lemma coverage_keeps:
  assumes "present \<noteq> Some NaN"
  shows "keeps_layer (of_repository t) (tightens t) (setting present
    (\<lambda>v c. never_relaxes ''quality.minimum_line_coverage''
      (lowers_coverage v (qc_minimum_line_coverage (ef_quality c))))
    (\<lambda>v. change_quality (\<lambda>q. q\<lparr>qc_minimum_line_coverage := Some v\<rparr>)))"
  using assms
  by (intro whole.setting_keeps)
    (auto intro!: tightens_change simp: gate_rules quality_tightens_def parts_refl lowers_coverage_def
      coverage_tightens_def split: option.splits)

lemma quality_keeps:
  assumes "qs_minimum_line_coverage quality \<noteq> Some NaN"
  shows "list_all (keeps_step (of_repository t) (tightens t)) (quality_steps quality)"
proof -
  have scanner: "keeps_layer (of_repository t) (tightens t) (inside_part (\<lambda>c. qc_sonar_scanner (ef_quality c))
      (\<lambda>p. change_quality (\<lambda>q. q\<lparr>qc_sonar_scanner := p\<rparr>)) (apply_scanner s))" for s
    by (rule whole.part_keeps [OF scanner_keeps]) (intro tightens_change quality_part_tightens)
  have mcp: "keeps_layer (of_repository t) (tightens t) (inside_part (\<lambda>c. qc_sonar_mcp (ef_quality c))
      (\<lambda>p. change_quality (\<lambda>q. q\<lparr>qc_sonar_mcp := p\<rparr>)) (apply_mcp s))" for s
    by (rule whole.part_keeps [OF mcp_keeps]) (intro tightens_change quality_part_tightens)
  have ai: "keeps_layer (of_repository t) (tightens t) (inside_part (\<lambda>c. qc_ai_review (ef_quality c))
      (\<lambda>p. change_quality (\<lambda>q. q\<lparr>qc_ai_review := p\<rparr>)) (apply_ai s))" for s
    by (rule whole.part_keeps [OF ai_keeps]) (intro tightens_change quality_part_tightens)
  have protect: "keeps_layer (of_repository t) (tightens t) (setting (qs_protect_existing_tests quality)
      (\<lambda>v c. never_relaxes ''quality.protect_existing_tests''
        (qc_protect_existing_tests (ef_quality c) \<and> \<not> v))
      (\<lambda>v. change_quality (\<lambda>q. q\<lparr>qc_protect_existing_tests := v\<rparr>)))"
    by (rule whole.setting_keeps)
      (auto intro!: tightens_change simp: gate_rules quality_tightens_def parts_refl coverage_order)
  show ?thesis
    unfolding quality_steps_def all_of
    by (intro conjI TrueI profile_keeps whole.sure_keeps coverage_keeps [OF assms] protect
        whole.present_keeps scanner mcp ai)
qed

text \<open>Whatever a repository writes into its document, applying it tightens the configuration.\<close>

lemma document_keeps:
  assumes "names_number document"
  shows "keeps_step (of_repository t) (tightens t) (apply_document document)"
proof -
  have "list_all (keeps_step (of_repository t) (tightens t)) (document_steps document)"
    unfolding document_steps_def list_all_append
    using assms
    by (intro conjI section_keeps run_keeps agent_keeps quality_keeps git_keeps policy_keeps
        redaction_keeps environment_keeps)
      (auto simp: commands_keep names_number_def)
  then show ?thesis unfolding apply_document_def by (rule whole.in_order_keeps)
qed

lemma repository_document_tightens:
  assumes "apply_document document (c, repository_gate trusted) = Inr (d, gate)"
    and "names_number document"
  shows "tightens trusted c d"
  using document_keeps [OF assms(2), of trusted] assms(1) of_repository_gate
  unfolding keeps_step_def by blast

section \<open>The limits of the agent stay aligned\<close>

interpretation alignment: gated "\<lambda>_. True" "\<lambda>c d. aligned c \<longrightarrow> aligned d"
  by unfold_locales auto

lemma aligned_change:
  "bd_max_agent_turns (f (ef_budgets c)) = bd_max_agent_turns (ef_budgets c)
    \<Longrightarrow> aligned (change_budgets f c) = aligned c"
  "ac_max_turns (h (ef_agent c)) = ac_max_turns (ef_agent c)
    \<Longrightarrow> ac_timeout (h (ef_agent c)) = ac_timeout (ef_agent c) \<Longrightarrow> aligned (change_agent h c) = aligned c"
  "aligned (change_quality k c) = aligned c" "aligned (change_git l c) = aligned c"
  "aligned (change_policy m c) = aligned c" "aligned (change_redaction n c) = aligned c"
  "aligned (c\<lparr>ef_commit_policy := p\<rparr>) = aligned c"
  "aligned (c\<lparr>ef_commands := x, ef_command_source := y\<rparr>) = aligned c"
  "aligned (c\<lparr>ef_environment_allowlist := z\<rparr>) = aligned c"
  by (simp_all add: aligned_def change_parts)

abbreviation stays_aligned :: "configuration_step \<Rightarrow> bool" where
  "stays_aligned \<equiv> keeps_step (\<lambda>_. True) (\<lambda>c d. aligned c \<longrightarrow> aligned d)"

lemma parsed_first_aligned:
  "stays_aligned (apply_candidates present)" "stays_aligned (apply_profile raw)"
  by (cases present; force simp: keeps_step_def aligned_change split_beta)
    (cases raw; force simp: keeps_step_def aligned_change split_beta)

lemma layers_aligned:
  "keeps_layer (\<lambda>_. True) (\<lambda>c d. aligned c \<longrightarrow> aligned d) (apply_allowlist names)"
  "keeps_layer (\<lambda>_. True) (\<lambda>c d. aligned c \<longrightarrow> aligned d)
     (when_present present (\<lambda>s. inside_part (\<lambda>c. k (ef_quality c)) (\<lambda>p. change_quality (l p)) (h s)))"
  by (cases names; simp add: keeps_layer_def aligned_change)
    (cases present; simp add: keeps_layer_def aligned_change inside_part_def split_beta)

lemma commands_aligned: "stays_aligned (apply_commands commands)"
  by (cases commands) (auto simp: keeps_step_def aligned_change split_beta split: if_splits)

lemma aligned_limits:
  "aligned (change_budgets (\<lambda>b. b\<lparr>bd_max_agent_turns := v\<rparr>) (change_agent (\<lambda>a. a\<lparr>ac_max_turns := v\<rparr>) c))
     \<longleftrightarrow> ac_timeout (ef_agent c)
       = timeout_clamped (to_agent_seconds (ef_timeouts c)) maximum_command_timeout_seconds"
  "aligned ((change_agent
       (\<lambda>a. a\<lparr>ac_timeout := timeout_clamped v maximum_command_timeout_seconds\<rparr>) c)
       \<lparr>ef_timeouts := (ef_timeouts c)\<lparr>to_agent_seconds := v\<rparr>\<rparr>)
     \<longleftrightarrow> bd_max_agent_turns (ef_budgets c) = ac_max_turns (ef_agent c)"
  by (auto simp: aligned_def change_parts)

lemma steps_aligned:
  "list_all stays_aligned (run_steps run)" "list_all stays_aligned (agent_steps agent)"
  "list_all stays_aligned (quality_steps quality)" "list_all stays_aligned (git_steps git)"
  "list_all stays_aligned (policy_steps policy)" "list_all stays_aligned (redaction_steps redaction)"
  "list_all stays_aligned (environment_steps environment)"
  unfolding run_steps_def agent_steps_def quality_steps_def git_steps_def policy_steps_def
    redaction_steps_def environment_steps_def all_of
  by (intro conjI TrueI parsed_first_aligned alignment.sure_keeps alignment.parsed_keeps
      alignment.setting_keeps alignment.merged_keeps layers_aligned;
    simp add: aligned_change aligned_limits; simp add: aligned_def)+

lemma document_aligned:
  assumes "apply_document document (c, gate) = Inr (d, left)" and "aligned c"
  shows "aligned d"
proof -
  have "list_all stays_aligned (document_steps document)"
    unfolding document_steps_def list_all_append
    by (intro conjI section_keeps steps_aligned) (simp add: commands_aligned)
  then have "stays_aligned (apply_document document)"
    unfolding apply_document_def by (rule alignment.in_order_keeps)
  then show ?thesis using assms unfolding keeps_step_def by blast
qed

end
