(* ===== verification/Forge_Resolver.thy ===== *)
theory Forge_Resolver
  imports Forge_Requests Forge_Detection Forge_Tightening Forge_Node_Ports
begin

text \<open>
  The rest of \<open>resolver.rs\<close> and \<open>trust.rs\<close> of \<open>infrastructure/src/configuration\<close>: the trust a user has
  granted to the documents of repositories, kept in a file of the store, and the layers of which the
  configuration of a run consists (the defaults, the document of the user, the document of the
  repository under the gate, and the survey when nothing declares a command).
\<close>

section \<open>The resolver\<close>

text \<open>
  \<open>rv_tree\<close> is the file system of the repositories as a state of the outside world shows it;
  \<open>rv_list_paths\<close> is \<open>git ls-files\<close> through the port, and the three last fields belong to the TOML
  and JSON crates and to the message of the standard library for bytes that are not UTF-8.
\<close>

record 'e resolver =
  rv_root :: path
  rv_externals :: externals
  rv_codec :: document_codec
  rv_system :: "'e operating_system"
  rv_tree :: "'e \<Rightarrow> filesystem"
  rv_list_paths :: "string \<Rightarrow> nat \<Rightarrow> ('e file_world, string list) step"
  rv_from_toml :: "string \<Rightarrow> string + forge_document"
  rv_not_utf8 :: "string \<Rightarrow> string"
  rv_from_json :: "string \<Rightarrow> json_value option"

definition tree_now :: "'e resolver \<Rightarrow> 'e file_world \<Rightarrow> filesystem" where
  "tree_now R w = rv_tree R (fw_outside w)"

section \<open>The trust store\<close>

definition trust_schema_version :: u32 where "trust_schema_version = 1"

definition trust_document_default :: trust_document where
  "trust_document_default = \<lparr>tt_schema_version = trust_schema_version, tt_repositories = []\<rparr>"

definition trust_path :: "'e resolver \<Rightarrow> path" where
  "trust_path R = config_directory (rv_root R) @ [''trusted-repositories.json'']"

definition identity_of :: "filesystem \<Rightarrow> string \<Rightarrow> string" where
  "identity_of fs repository =
     normalise_separators
       (case canonicalize fs repository of Inr p \<Rightarrow> absolute_display p | Inl _ \<Rightarrow> repository)"

definition trust_load :: "'e resolver \<Rightarrow> ('e file_world, trust_document) step" where
  "trust_load R =
     then_do (read_document (rv_codec R) (rv_system R) trust_kind (trust_path R)) (\<lambda>document.
     ok (case document of None \<Rightarrow> trust_document_default | Some d \<Rightarrow> d))"

definition trust_store :: "'e resolver \<Rightarrow> trust_document \<Rightarrow> ('e file_world, unit) step" where
  "trust_store R document = write_atomic (rv_system R) (trust_path R) (TrustFile document)"

definition trust_lookup :: "string \<Rightarrow> trust_document \<Rightarrow> repository_trust_record option" where
  "trust_lookup identity document =
     find (\<lambda>entry. tr_repository_path entry = identity) (tt_repositories document)"

definition record_for ::
    "'e resolver \<Rightarrow> string \<Rightarrow> ('e file_world, repository_trust_record option) step" where
  "record_for R repository =
     then_do (look (\<lambda>w. identity_of (tree_now R w) repository)) (\<lambda>identity.
     then_do (trust_load R) (\<lambda>document. ok (trust_lookup identity document)))"

definition trust_forget :: "string \<Rightarrow> trust_document \<Rightarrow> trust_document" where
  "trust_forget identity document =
     document\<lparr>tt_repositories :=
       filter (\<lambda>entry. tr_repository_path entry \<noteq> identity) (tt_repositories document)\<rparr>"

definition trust_insert :: "repository_trust_record \<Rightarrow> trust_document \<Rightarrow> trust_document" where
  "trust_insert entry document =
     (let document = trust_forget (tr_repository_path entry)
            (document\<lparr>tt_schema_version := trust_schema_version\<rparr>)
      in document\<lparr>tt_repositories :=
           sort_key tr_repository_path (tt_repositories document @ [entry])\<rparr>)"

definition grant ::
    "'e resolver \<Rightarrow> string \<Rightarrow> content_digest \<Rightarrow> timestamp
      \<Rightarrow> ('e file_world, repository_trust_record) step" where
  "grant R repository digest granted_at =
     then_do (look (\<lambda>w. identity_of (tree_now R w) repository)) (\<lambda>identity.
     then_do (trust_load R) (\<lambda>document.
     let entry = \<lparr>tr_repository_path = identity, tr_configuration_digest = digest,
                  tr_granted_at = granted_at\<rparr>
     in then_do (trust_store R (trust_insert entry document)) (\<lambda>_. ok entry)))"

definition revoke :: "'e resolver \<Rightarrow> string \<Rightarrow> ('e file_world, bool) step" where
  "revoke R repository =
     then_do (look (\<lambda>w. identity_of (tree_now R w) repository)) (\<lambda>identity.
     then_do (trust_load R) (\<lambda>document.
     let left = trust_forget identity document
     in if length (tt_repositories left) = length (tt_repositories document) then ok False
        else then_do (trust_store R left) (\<lambda>_. ok True)))"

definition trusted_repositories ::
    "'e resolver \<Rightarrow> ('e file_world, repository_trust_record list) step" where
  "trusted_repositories R = then_do (trust_load R) (\<lambda>document. ok (tt_repositories document))"

section \<open>The layers\<close>

definition base_configuration :: "string \<Rightarrow> effective_configuration" where
  "base_configuration repository =
     \<lparr>ef_schema_version = configuration_schema_version, ef_repository_path = repository,
      ef_budgets = run_budgets_default, ef_commit_policy = Manual,
      ef_agent = agent_configuration_default,
      ef_quality = quality_configuration_default\<lparr>qc_profile := Standard\<rparr>,
      ef_git = git_configuration_default, ef_commands = [], ef_path_policy = path_policy_default,
      ef_redaction = redaction_configuration_default, ef_retry = retry_policy_default,
      ef_timeouts = node_timeouts_default,
      ef_environment_allowlist = essential_environment_variables,
      ef_demonstration_mode = False, ef_repository_trust = trust_decision_default,
      ef_command_source = NothingDetected [], ef_detection_notes = []\<rparr>"

text \<open>\<open>fs::read\<close> of a file that may be missing.\<close>

definition read_optional_bytes ::
    "'e operating_system \<Rightarrow> path \<Rightarrow> ('e file_world, string option) step" where
  "read_optional_bytes os path =
     then_do (look (\<lambda>w. Option.bind (file_at path w) bytes_kind)) (\<lambda>content.
       case content of
         None \<Rightarrow> ok None
       | Some bytes \<Rightarrow>
           then_do (tolerant_call os ''read'' path (\<lambda>error. io_kind error = NotFound)) (\<lambda>found.
             ok (if found then Some bytes else None)))"

definition parsed_document ::
    "'e resolver \<Rightarrow> string \<Rightarrow> string \<Rightarrow> forge_document application_result" where
  "parsed_document R = parse_document (rv_not_utf8 R) (rv_from_toml R)"

definition read_user_document :: "'e resolver \<Rightarrow> ('e file_world, forge_document option) step" where
  "read_user_document R =
     (let path = user_configuration_file (rv_root R)
      in then_do (read_optional_bytes (rv_system R) path) (\<lambda>content.
         lift_result (option_ok (parsed_document R (path_display path)) content)))"

definition user_layer ::
    "string \<Rightarrow> forge_document option \<Rightarrow> effective_configuration application_result" where
  "user_layer repository document =
     (case document of
        None \<Rightarrow> Inr (base_configuration repository)
      | Some d \<Rightarrow> map_ok fst (apply_document d (base_configuration repository, user_gate)))"

definition read_repository_bytes ::
    "'e resolver \<Rightarrow> string \<Rightarrow> ('e file_world, string option) step" where
  "read_repository_bytes R repository =
     then_do (look (tree_now R)) (\<lambda>fs.
     lift_result (read_confined_file fs repository repository_configuration_relative_path
       maximum_repository_configuration_bytes))"

definition repository_document_path :: "string \<Rightarrow> string" where
  "repository_document_path repository = repository @ ''/'' @ repository_configuration_relative_path"

definition resolve_trust :: "'e resolver \<Rightarrow> string \<Rightarrow> content_digest \<Rightarrow> ('e file_world, bool) step" where
  "resolve_trust R repository digest =
     then_do (record_for R repository) (\<lambda>found.
     ok (case found of None \<Rightarrow> False | Some entry \<Rightarrow> tr_configuration_digest entry = digest))"

definition trust_decision :: "bool \<Rightarrow> content_digest \<Rightarrow> authority_gate \<Rightarrow> repository_trust_decision" where
  "trust_decision trusted digest gate =
     \<lparr>td_state = (if trusted then Trusted else Untrusted),
      td_configuration_digest = Some digest, td_withheld = gt_withheld gate\<rparr>"

definition repository_layer ::
    "'e resolver \<Rightarrow> string \<Rightarrow> effective_configuration
      \<Rightarrow> ('e file_world, effective_configuration) step" where
  "repository_layer R repository configuration =
     then_do (read_repository_bytes R repository) (\<lambda>content.
     case content of
       None \<Rightarrow> ok (configuration\<lparr>ef_repository_trust := trust_decision_default\<rparr>)
     | Some bytes \<Rightarrow>
         let digest = digest_of_bytes (rv_externals R) bytes in
         then_do (lift_result (parsed_document R (repository_document_path repository) bytes)) (\<lambda>document.
         then_do (resolve_trust R repository digest) (\<lambda>trusted.
         then_do (lift_result (apply_document document (configuration, repository_gate trusted)))
           (\<lambda>(layered, gate).
         ok (layered\<lparr>ef_repository_trust := trust_decision trusted digest gate\<rparr>)))))"

section \<open>The survey\<close>

definition maximum_surveyed_paths :: nat where "maximum_surveyed_paths = 20000"

definition survey ::
    "'e resolver \<Rightarrow> string \<Rightarrow> ('e file_world, project_survey) step" where
  "survey R repository =
     then_do (caught (rv_list_paths R repository maximum_surveyed_paths)) (\<lambda>tracked.
     then_do (look (tree_now R)) (\<lambda>fs.
     ok (survey_project fs (rv_from_json R) repository
       (case tracked of Inr paths \<Rightarrow> Some paths | Inl _ \<Rightarrow> None))))"

definition source_of_survey :: "project_survey \<Rightarrow> command_catalogue_source" where
  "source_of_survey s =
     (if \<not> pj_tracked_listing_available s
      then NotSurveyed ''the tracked file listing could not be read''
      else if pj_modules s = [] then NothingDetected surveyed_markers
      else DetectedSource (describe_kinds s))"

definition notes_of_survey :: "project_survey \<Rightarrow> string list" where
  "notes_of_survey s =
     (if pj_tracked_listing_available s
      then map (\<lambda>d. sd_subject d @ '': '' @ sd_detail d) (pj_declines s) else [])"

definition with_survey :: "project_survey \<Rightarrow> effective_configuration \<Rightarrow> effective_configuration" where
  "with_survey s configuration =
     configuration\<lparr>ef_command_source := source_of_survey s, ef_detection_notes := notes_of_survey s,
       ef_commands := pj_commands s\<rparr>"

definition detect :: "'e resolver \<Rightarrow> string \<Rightarrow> ('e file_world, effective_configuration) step" where
  "detect R repository =
     then_do (read_user_document R) (\<lambda>document.
     then_do (lift_result (user_layer repository document)) (\<lambda>user.
     then_do (repository_layer R repository user) (\<lambda>configuration.
     if ef_commands configuration \<noteq> [] then ok configuration
     else then_do (survey R repository) (\<lambda>s. ok (with_survey s configuration)))))"

definition resolve_configuration ::
    "'e resolver \<Rightarrow> create_run_request \<Rightarrow> ('e file_world, effective_configuration) step" where
  "resolve_configuration R request =
     then_do (look (tree_now R)) (\<lambda>fs.
     then_do (lift_result (canonical_root fs (cq_repository_path request))) (\<lambda>repository.
     then_do (detect R (absolute_display repository)) (\<lambda>configuration.
     ok (configuration\<lparr>ef_repository_path := absolute_display repository\<rparr>))))"

section \<open>Writing and trusting a document\<close>

definition located :: "filesystem \<Rightarrow> string \<Rightarrow> path" where
  "located fs s = (if is_absolute s then [] else fy_current fs) @ components s"

definition write_repository_configuration ::
    "(f64 \<Rightarrow> string) \<Rightarrow> 'e resolver \<Rightarrow> string \<Rightarrow> effective_configuration \<Rightarrow> ('e file_world, path) step" where
  "write_repository_configuration show_f64 R repository configuration =
     (let document = render_document show_f64 configuration in
     then_do (look (\<lambda>w. located (tree_now R w) (repository_document_path repository))) (\<lambda>path.
     then_do (write_atomic (rv_system R) path (BytesFile document)) (\<lambda>_.
     then_do (outside (os_now (rv_system R))) (\<lambda>now.
     then_do (grant R repository (digest_of_str (rv_externals R) document) now) (\<lambda>_. ok path)))))"

definition repository_trust ::
    "'e resolver \<Rightarrow> string \<Rightarrow> ('e file_world, repository_trust_decision) step" where
  "repository_trust R repository =
     then_do (detect R repository) (\<lambda>configuration. ok (ef_repository_trust configuration))"

definition trust_repository ::
    "'e resolver \<Rightarrow> string \<Rightarrow> ('e file_world, repository_trust_record) step" where
  "trust_repository R repository =
     (let path = repository_document_path repository in
     then_do (read_repository_bytes R repository) (\<lambda>content.
     case content of
       None \<Rightarrow> stop (InvalidConfiguration (''`'' @ path @ ''` does not exist, so there is nothing to trust''))
     | Some bytes \<Rightarrow>
         then_do (lift_result (parsed_document R path bytes)) (\<lambda>_.
         then_do (outside (os_now (rv_system R))) (\<lambda>now.
         grant R repository (digest_of_bytes (rv_externals R) bytes) now))))"

definition revoke_repository_trust :: "'e resolver \<Rightarrow> string \<Rightarrow> ('e file_world, bool) step" where
  "revoke_repository_trust = revoke"

end
