(* ===== verification/Forge_Trust.thy ===== *)
theory Forge_Trust
  imports Forge_Resolver Forge_File_Runs
begin

text \<open>
  What the resolver guarantees: which layers a configuration consists of, that a document counts as
  trusted only when the trust store holds the digest of its very bytes, and what granting and
  revoking do to the store.
\<close>

section \<open>The trust document\<close>

lemma trust_lookup_forget:
  "trust_lookup i (trust_forget identity document)
     = (if i = identity then None else trust_lookup i document)"
proof -
  have "find (\<lambda>e. tr_repository_path e = i) (filter (\<lambda>e. tr_repository_path e \<noteq> identity) entries)
      = (if i = identity then None else find (\<lambda>e. tr_repository_path e = i) entries)" for entries
    by (induction entries) auto
  from this [of "tt_repositories document"] show ?thesis
    by (simp add: trust_lookup_def trust_forget_def)
qed

text \<open>Sorting by the path keeps the order of the entries of one path.\<close>

lemma find_sort_key: "find (\<lambda>e. k e = i) (sort_key k xs) = find (\<lambda>e. k e = i) xs"
proof -
  have find_filter: "find p ys = find p (filter p ys)" for p and ys :: "'a list"
    by (induction ys) auto
  have "filter (\<lambda>e. k e = i) (sort_key k xs) = filter (\<lambda>e. k e = i) xs"
    by (rule sort_key_stable)
  then show ?thesis by (subst (1 2) find_filter) simp
qed

lemma trust_lookup_insert:
  "trust_lookup i (trust_insert entry document)
     = (if i = tr_repository_path entry then Some entry else trust_lookup i document)"
proof -
  have snoc: "find p (xs @ [e]) = (case find p xs of None \<Rightarrow> if p e then Some e else None | Some x \<Rightarrow> Some x)"
    for p xs and e :: repository_trust_record by (induction xs) auto
  have "trust_lookup i (trust_insert entry document)
      = find (\<lambda>e. tr_repository_path e = i)
          (tt_repositories (trust_forget (tr_repository_path entry) document) @ [entry])"
    by (simp add: trust_insert_def trust_lookup_def find_sort_key trust_forget_def Let_def)
  then show ?thesis
    using trust_lookup_forget [of i "tr_repository_path entry" document]
    by (simp add: snoc trust_lookup_def split: option.split)
qed

lemma trust_insert_sorted:
  "sorted (map tr_repository_path (tt_repositories (trust_insert entry document)))"
  by (simp add: trust_insert_def Let_def)

text \<open>The document the store holds, where a missing file is the empty document.\<close>

definition stored_trust :: "'e resolver \<Rightarrow> 'e file_world \<Rightarrow> trust_document option" where
  "stored_trust R w =
     (case file_at (trust_path R) w of
        None \<Rightarrow> Some trust_document_default
      | Some content \<Rightarrow> trust_kind content)"

section \<open>Reading\<close>

lemma system_call_files:
  assumes "system_call os action p w = (r, v)"
  shows "fw_files v = fw_files w"
proof -
  obtain fault e where "os_call os action p (fw_outside w) = (fault, e)" by fastforce
  with assms show ?thesis
    by (cases fault) (auto simp: system_call_def then_do_def outside_def ok_def stop_def)
qed

lemma tolerant_call_files:
  assumes "tolerant_call os action p tolerated w = (r, v)"
  shows "fw_files v = fw_files w"
proof -
  obtain fault e where "os_call os action p (fw_outside w) = (fault, e)" by fastforce
  with assms show ?thesis
    by (cases fault) (auto simp: tolerant_call_def then_do_def outside_def ok_def stop_def split: if_splits)
qed

lemma file_at_same: "fw_files v = fw_files w \<Longrightarrow> file_at p v = file_at p w"
  by (simp add: file_at_def)

lemma trust_load_reads:
  assumes "trust_load R w = (Inr document, v)"
  shows "stored_trust R w = Some document" and "fw_files v = fw_files w"
proof -
  from assms obtain found where found: "read_document (rv_codec R) (rv_system R) trust_kind
      (trust_path R) w = (Inr found, v)"
    and document: "document = (case found of None \<Rightarrow> trust_document_default | Some d \<Rightarrow> d)"
    by (auto simp: trust_load_def then_do_Inr ok_def)
  show "stored_trust R w = Some document" and "fw_files v = fw_files w"
  proof (atomize (full), cases "file_at (trust_path R) w")
    case None
    then show "stored_trust R w = Some document \<and> fw_files v = fw_files w"
      using found document by (auto simp: read_document_def then_do_Inr look_def ok_def stored_trust_def)
  next
    case (Some content)
    with found obtain u where call: "system_call (rv_system R) ''read'' (trust_path R) w = (Inr (), u)"
      and rest: "(case trust_kind content of Some v \<Rightarrow> ok (Some v)
        | None \<Rightarrow> stop (Serialisation (''`'' @ path_display (trust_path R)
            @ ''` could not be decoded: '' @ dk_decode_message (rv_codec R) (trust_path R)))) u = (Inr found, v)"
      by (auto simp: read_document_def then_do_Inr look_def)
    from rest obtain d where "trust_kind content = Some d" "found = Some d" "v = u"
      by (cases "trust_kind content") (auto simp: ok_def stop_def)
    with Some document system_call_files [OF call]
    show "stored_trust R w = Some document \<and> fw_files v = fw_files w"
      by (simp add: stored_trust_def)
  qed
qed

lemma record_for_reads:
  assumes "record_for R repository w = (Inr found, v)"
  obtains document where "stored_trust R w = Some document" and "fw_files v = fw_files w"
    and "found = trust_lookup (identity_of (tree_now R w) repository) document"
proof -
  from assms obtain document where load: "trust_load R w = (Inr document, v)"
    and found: "found = trust_lookup (identity_of (tree_now R w) repository) document"
    by (auto simp: record_for_def then_do_Inr look_def ok_def)
  show ?thesis by (rule that [OF trust_load_reads [OF load] found])
qed

section \<open>The layers of a configuration\<close>

lemma read_user_document_files:
  assumes "read_user_document R w = (r, v)"
  shows "fw_files v = fw_files w"
proof -
  let ?p = "user_configuration_file (rv_root R)"
  have "fw_files u = fw_files w" if "read_optional_bytes (rv_system R) ?p w = (content, u)" for content u
  proof (cases "Option.bind (file_at ?p w) bytes_kind")
    case None
    with that show ?thesis by (simp add: read_optional_bytes_def then_do_def look_def ok_def)
  next
    case (Some bytes)
    obtain q t where call: "tolerant_call (rv_system R) ''read'' ?p (\<lambda>error. io_kind error = NotFound) w
        = (q, t)" by fastforce
    with that Some have "u = t"
      by (cases q) (auto simp: read_optional_bytes_def then_do_def look_def ok_def)
    with tolerant_call_files [OF call] show ?thesis by simp
  qed
  moreover obtain content u where read: "read_optional_bytes (rv_system R) ?p w = (content, u)"
    by fastforce
  moreover have "v = u"
    using assms read
    by (cases content) (auto simp: read_user_document_def Let_def then_do_def lift_result_def)
  ultimately show ?thesis by blast
qed

text \<open>What is read of a repository, and whether the minimum it names is a number.\<close>

definition repository_document ::
    "'e resolver \<Rightarrow> string \<Rightarrow> 'e file_world \<Rightarrow> (string \<times> forge_document) option" where
  "repository_document R repository w =
     (case read_confined_file (tree_now R w) repository repository_configuration_relative_path
         maximum_repository_configuration_bytes of
        Inr (Some bytes) \<Rightarrow>
          (case parsed_document R (repository_document_path repository) bytes of
             Inr document \<Rightarrow> Some (bytes, document)
           | Inl _ \<Rightarrow> None)
      | _ \<Rightarrow> None)"

lemma repository_layer_Inr:
  assumes "repository_layer R repository user w = (Inr layered, v)"
  shows "case repository_document R repository w of
      None \<Rightarrow> layered = user\<lparr>ef_repository_trust := trust_decision_default\<rparr>
    | Some (bytes, document) \<Rightarrow> \<exists>trusted d gate.
        resolve_trust R repository (digest_of_bytes (rv_externals R) bytes) w = (Inr trusted, v)
        \<and> apply_document document (user, repository_gate trusted) = Inr (d, gate)
        \<and> layered = d\<lparr>ef_repository_trust :=
            trust_decision trusted (digest_of_bytes (rv_externals R) bytes) gate\<rparr>"
proof -
  let ?read = "read_confined_file (tree_now R w) repository repository_configuration_relative_path
    maximum_repository_configuration_bytes"
  from assms obtain content where read: "?read = Inr content"
    by (auto simp: repository_layer_def read_repository_bytes_def then_do_Inr look_def lift_result_def)
  show ?thesis
  proof (cases content)
    case None
    with read assms show ?thesis
      by (simp add: repository_layer_def read_repository_bytes_def then_do_Inr look_def lift_result_def
          repository_document_def ok_def)
  next
    case (Some bytes)
    let ?digest = "digest_of_bytes (rv_externals R) bytes"
    from read assms Some obtain document trusted d gate where
      parsed: "parsed_document R (repository_document_path repository) bytes = Inr document"
      and trust: "resolve_trust R repository ?digest w = (Inr trusted, v)"
      and applied: "apply_document document (user, repository_gate trusted) = Inr (d, gate)"
      and layered: "layered = d\<lparr>ef_repository_trust := trust_decision trusted ?digest gate\<rparr>"
      by (auto simp: repository_layer_def read_repository_bytes_def then_do_Inr look_def lift_result_def
          ok_def Let_def)
    with read Some show ?thesis by (auto simp: repository_document_def)
  qed
qed

lemma base_aligned: "aligned (base_configuration repository)"
  by (simp add: aligned_def base_configuration_def run_budgets_default_def agent_configuration_default_def
      node_timeouts_default_def)

lemma user_layer_aligned:
  assumes "user_layer repository document = Inr user"
  shows "aligned user"
  using assms base_aligned
  by (cases document) (auto simp: user_layer_def dest: document_aligned)

lemma tightens_trust [simp]:
  "tightens t c (d\<lparr>ef_repository_trust := trust\<rparr>) = tightens t c d"
  by (simp add: tightens_def limits_tighten_def aligned_def)

lemma repository_layer_tightens:
  assumes "repository_layer R repository user w = (Inr layered, v)"
    and "\<And>bytes document. repository_document R repository w = Some (bytes, document)
      \<Longrightarrow> names_number document"
  shows "tightens (td_state (ef_repository_trust layered) = Trusted) user layered"
proof (cases "repository_document R repository w")
  case None
  with repository_layer_Inr [OF assms(1)] show ?thesis by (simp add: tightens_refl)
next
  case (Some found)
  then obtain bytes document where found: "repository_document R repository w = Some (bytes, document)"
    by (cases found) auto
  with repository_layer_Inr [OF assms(1)] obtain trusted d gate where
    applied: "apply_document document (user, repository_gate trusted) = Inr (d, gate)"
    and layered: "layered = d\<lparr>ef_repository_trust :=
      trust_decision trusted (digest_of_bytes (rv_externals R) bytes) gate\<rparr>" by auto
  have "(td_state (ef_repository_trust layered) = Trusted) = trusted"
    by (simp add: layered trust_decision_def)
  with repository_document_tightens [OF applied assms(2) [OF found]] layered show ?thesis by simp
qed

lemma detect_Inr:
  assumes "detect R repository w = (Inr c, v)"
  obtains document user layered u x where "read_user_document R w = (Inr document, u)"
    and "user_layer repository document = Inr user"
    and "repository_layer R repository user u = (Inr layered, x)"
    and "if ef_commands layered \<noteq> [] then c = layered \<and> v = x
      else \<exists>s. survey R repository x = (Inr s, v) \<and> c = with_survey s layered"
  using assms
  by (auto simp: detect_def then_do_Inr lift_result_def ok_def split: if_splits)

lemma survey_valid:
  assumes "survey R repository w = (Inr s, v)"
  shows "catalogue_validate (pj_commands s) = Inr ()" and "proposed_by (pj_modules s) s"
  using assms survey_commands_valid survey_proposes
  by (auto simp: survey_def then_do_Inr ok_def look_def)

text \<open>Only the very bytes that were trusted count as trusted.\<close>

lemma trusted_is_recorded:
  assumes "detect R repository w = (Inr c, v)"
    and "td_state (ef_repository_trust c) = Trusted"
  shows "\<exists>u bytes document store entry. repository_document R repository u = Some (bytes, document)
    \<and> td_configuration_digest (ef_repository_trust c) = Some (digest_of_bytes (rv_externals R) bytes)
    \<and> stored_trust R w = Some store
    \<and> trust_lookup (identity_of (tree_now R u) repository) store = Some entry
    \<and> tr_configuration_digest entry = digest_of_bytes (rv_externals R) bytes"
proof -
  from assms(1) obtain document user layered u x where read: "read_user_document R w = (Inr document, u)"
    and layer: "repository_layer R repository user u = (Inr layered, x)"
    and c: "if ef_commands layered \<noteq> [] then c = layered \<and> v = x
      else \<exists>s. survey R repository x = (Inr s, v) \<and> c = with_survey s layered"
    by (rule detect_Inr)
  have same: "ef_repository_trust c = ef_repository_trust layered"
    using c by (auto simp: with_survey_def split: if_splits)
  show ?thesis
  proof (cases "repository_document R repository u")
    case None
    with repository_layer_Inr [OF layer] assms(2) same show ?thesis by (simp add: trust_decision_default_def)
  next
    case (Some found)
    then obtain bytes doc where found: "repository_document R repository u = Some (bytes, doc)"
      by (cases found) auto
    let ?digest = "digest_of_bytes (rv_externals R) bytes"
    from found repository_layer_Inr [OF layer] obtain trusted d gate where
      trust: "resolve_trust R repository ?digest u = (Inr trusted, x)"
      and layered: "layered = d\<lparr>ef_repository_trust := trust_decision trusted ?digest gate\<rparr>" by auto
    with assms(2) same have "trusted" by (simp add: trust_decision_def split: if_splits)
    with trust obtain entry where looked: "record_for R repository u = (Inr (Some entry), x)"
      and digest: "tr_configuration_digest entry = ?digest"
      by (auto simp: resolve_trust_def then_do_Inr ok_def split: option.splits)
    from looked obtain store where stored: "stored_trust R u = Some store"
      and found_entry: "Some entry = trust_lookup (identity_of (tree_now R u) repository) store"
      by (rule record_for_reads)
    have "stored_trust R w = Some store"
      using stored file_at_same [OF read_user_document_files [OF read]] by (simp add: stored_trust_def)
    moreover have "td_configuration_digest (ef_repository_trust c) = Some ?digest"
      by (simp add: same layered trust_decision_def)
    ultimately show ?thesis using found digest found_entry [symmetric] by blast
  qed
qed

section \<open>Granting and revoking\<close>

lemma trust_store_writes:
  assumes "trust_store R document w = (Inr (), v)"
  shows "stored_trust R v = Some document"
proof -
  let ?p = "trust_path R"
  have distinct: "?p \<noteq> temporary_sibling ?p unique" for unique
    by (simp add: trust_path_def temporary_sibling_def)
  have "triple (\<lambda>w. True) (write_atomic (rv_system R) ?p (TrustFile document))
      (\<lambda>_ w. file_at ?p w = Some (TrustFile document))
      (\<lambda>_ w. True \<or> file_at ?p w = Some (TrustFile document))"
  proof (rule write_atomic_triple)
    show "?p \<noteq> []" by (simp add: trust_path_def)
    show "steady (\<lambda>w. True)" by (simp add: steady_def)
    show "steady (\<lambda>w. file_at ?p w = Some (TrustFile document))" by (simp add: steady_def file_at_def)
  qed (simp_all add: file_at_moved distinct)
  from triple_success [OF this] have "file_at ?p v = Some (TrustFile document)"
    using assms by (simp add: trust_store_def)
  then show ?thesis by (simp add: stored_trust_def)
qed

lemma grant_records:
  assumes "grant R repository digest granted_at w = (Inr entry, v)"
  obtains store where "stored_trust R w = Some store"
    and "stored_trust R v = Some (trust_insert entry store)"
    and "entry = \<lparr>tr_repository_path = identity_of (tree_now R w) repository,
      tr_configuration_digest = digest, tr_granted_at = granted_at\<rparr>"
proof -
  let ?entry = "\<lparr>tr_repository_path = identity_of (tree_now R w) repository,
      tr_configuration_digest = digest, tr_granted_at = granted_at\<rparr>"
  from assms obtain store u where load: "trust_load R w = (Inr store, u)"
    and stored: "trust_store R (trust_insert ?entry store) u = (Inr (), v)" and entry: "entry = ?entry"
    by (auto simp: grant_def then_do_Inr look_def ok_def Let_def)
  show ?thesis
    using trust_store_writes [OF stored] entry by (intro that [OF trust_load_reads(1) [OF load]]) auto
qed

lemma revoke_forgets:
  assumes "revoke R repository w = (Inr removed, v)"
  obtains store where "stored_trust R w = Some store"
    and "stored_trust R v = Some (trust_forget (identity_of (tree_now R w) repository) store)"
    and "removed \<longleftrightarrow> trust_lookup (identity_of (tree_now R w) repository) store \<noteq> None"
proof -
  let ?i = "identity_of (tree_now R w) repository"
  from assms obtain store u where load: "trust_load R w = (Inr store, u)"
    and rest: "(if length (tt_repositories (trust_forget ?i store)) = length (tt_repositories store)
      then ok False else then_do (trust_store R (trust_forget ?i store)) (\<lambda>_. ok True)) u
        = (Inr removed, v)"
    by (auto simp: revoke_def then_do_Inr look_def Let_def)
  have shorter: "length (tt_repositories (trust_forget ?i store)) = length (tt_repositories store)
      \<longleftrightarrow> trust_lookup ?i store = None"
  proof -
    have "length (filter p xs) = length xs \<longleftrightarrow> (\<forall>x \<in> set xs. p x)" for p and xs :: "repository_trust_record list"
      using length_filter_less [of _ xs p] by (metis filter_True less_irrefl)
    then show ?thesis by (auto simp: trust_forget_def trust_lookup_def find_None_iff_set)
  qed
  have store: "stored_trust R w = Some store" and same: "stored_trust R u = stored_trust R w"
    using trust_load_reads(1) [OF load] file_at_same [OF trust_load_reads(2) [OF load]]
    by (simp_all add: stored_trust_def)
  show ?thesis
  proof (cases "trust_lookup ?i store = None")
    case True
    then have "filter (\<lambda>entry. tr_repository_path entry \<noteq> ?i) (tt_repositories store)
        = tt_repositories store"
      by (simp add: trust_lookup_def find_None_iff_set)
    then have "trust_forget ?i store = store" by (simp add: trust_forget_def)
    with True rest shorter have ended: "u = v" "removed = False" by (simp_all add: ok_def)
    show ?thesis
      by (rule that [OF store]) (use True store same ended \<open>trust_forget ?i store = store\<close> in simp_all)
  next
    case False
    with rest shorter have "trust_store R (trust_forget ?i store) u = (Inr (), v)" and "removed"
      by (auto simp: then_do_Inr ok_def)
    show ?thesis
      by (rule that [OF store trust_store_writes]) (use \<open>removed\<close> False \<open>trust_store R _ u = _\<close> in simp_all)
  qed
qed

end
