(* ===== verification/Forge_Resolver_Samples.thy ===== *)
theory Forge_Resolver_Samples
  imports Forge_Trust Forge_File_Samples Forge_Filesystem_Samples
begin

text \<open>
  A repository with a small document, on which the resolver is evaluated, and the settings a
  repository can relax although the code means to let it only tighten them.
\<close>

section \<open>A repository\<close>

definition forge_tree :: filesystem where
  "forge_tree =
     \<lparr>fy_node = map_of
        [([''w''], DirectoryNode), ([''w'', ''.heikas''], DirectoryNode),
         ([''w'', ''.heikas'', ''forge.toml''], RegularNode ''one''),
         ([''w'', ''Cargo.toml''], RegularNode '''')],
      fy_fault = \<lambda>p. None, fy_links = 40, fy_current = []\<rparr>"

definition sample_document :: forge_document where
  "sample_document = forge_document_default
     \<lparr>fd_run := Some (run_section_default
        \<lparr>rs_max_parallel_candidates := Some 1, rs_commit_policy := Some ''automatic''\<rparr>)\<rparr>"

definition sample_resolver :: "unit resolver" where
  "sample_resolver =
     \<lparr>rv_root = [''data''], rv_externals = sample_crates, rv_codec = sample_documents,
      rv_system = sample_system, rv_tree = \<lambda>e. forge_tree,
      rv_list_paths = \<lambda>repository limit. ok [''Cargo.toml''],
      rv_from_toml = \<lambda>text. if text = ''one'' then Inr sample_document else Inl ''expected a table'',
      rv_not_utf8 = \<lambda>bytes. ''invalid utf-8 sequence'', rv_from_json = \<lambda>text. None\<rparr>"

lemma resolver_fields:
  "rv_root sample_resolver = [''data'']" "rv_system sample_resolver = sample_system"
  "rv_from_toml sample_resolver ''one'' = Inr sample_document"
  "tree_now sample_resolver w = forge_tree" "rv_codec sample_resolver = sample_documents"
  "rv_list_paths sample_resolver repository limit = ok [''Cargo.toml'']"
  by (simp_all add: sample_resolver_def tree_now_def)

lemma forge_path:
  "path_parse repository_configuration_relative_path = Inr ''.heikas/forge.toml''"
  "path_segments ''.heikas/forge.toml'' = [''.heikas'', ''forge.toml'']"
  by (simp_all add: repository_configuration_relative_path_def plain_evaluation)

lemma forge_root: "components ''/w'' = [''w'']" "is_absolute ''/w''"
  by (simp_all add: components_def is_absolute_def starts_with_def)

lemma forge_nodes:
  "node_at forge_tree [] = Inr DirectoryNode"
  "node_at forge_tree [''w''] = Inr DirectoryNode"
  "node_at forge_tree [''w'', ''.heikas''] = Inr DirectoryNode"
  "node_at forge_tree [''w'', ''.heikas'', ''forge.toml''] = Inr (RegularNode ''one'')"
  "fy_links forge_tree = 40" "fy_current forge_tree = []"
  by (simp_all add: node_at_def forge_tree_def)

lemma forge_tree_file:
  "read_confined_file forge_tree ''/w'' repository_configuration_relative_path
     maximum_repository_configuration_bytes = Inr (Some ''one'')"
  by (simp add: read_confined_file_def symlink_metadata_def forge_path forge_root forge_nodes tree_walks
      maximum_repository_configuration_bytes_def del: resolve.simps(2))

lemma sample_files_missing:
  "file_at (user_configuration_file [''data'']) sample_world = None"
  "file_at [''data'', ''config'', ''trusted-repositories.json''] sample_world = None"
  by (simp_all add: sample_world_def file_at_def user_configuration_file_def config_directory_def
      descriptor_path_def run_descriptor_file_def run_directory_def runs_directory_def sample_store_def)

lemma sample_user: "read_user_document sample_resolver sample_world = (Inr None, sample_world)"
  by (simp add: read_user_document_def read_optional_bytes_def resolver_fields sample_files_missing
      step_eval option_ok_def Let_def)

lemma sample_found:
  "repository_document sample_resolver ''/w'' sample_world = Some (''one'', sample_document)"
  by (simp add: repository_document_def resolver_fields forge_tree_file parsed_document_def
      parse_document_def sample_document_def forge_document_default_def utf8_valid.simps byte_def)

lemma sample_untrusted:
  "resolve_trust sample_resolver ''/w'' digest sample_world = (Inr False, sample_world)"
  by (simp add: resolve_trust_def record_for_def trust_load_def read_document_def resolver_fields
      trust_path_def config_directory_def sample_files_missing step_eval trust_document_default_def
      trust_lookup_def)

definition sample_layered :: effective_configuration where
  "sample_layered = change_budgets (\<lambda>b. b\<lparr>bd_max_parallel_candidates := 1\<rparr>) (base_configuration ''/w'')"

definition sample_gate :: authority_gate where
  "sample_gate = withhold ''run.commit_policy'' UserConfigurationOnly (repository_gate False)"

lemma sample_applied:
  "apply_document sample_document (base_configuration ''/w'', repository_gate False)
     = Inr (sample_layered, sample_gate)"
  by (simp add: apply_document_def document_steps_def section_steps_def sample_document_def
      forge_document_default_def run_section_default_def run_steps_def sure_def never_relaxes_def
      owner_only_def repository_gate_def is_user_def sample_layered_def sample_gate_def
      base_configuration_def run_budgets_default_def default_candidates_def)

lemma sample_repository_layer:
  "repository_layer sample_resolver ''/w'' (base_configuration ''/w'') sample_world
     = (Inr (sample_layered\<lparr>ef_repository_trust :=
          trust_decision False (digest_of_bytes sample_crates ''one'') sample_gate\<rparr>), sample_world)"
proof -
  have "parsed_document sample_resolver (repository_document_path ''/w'') ''one'' = Inr sample_document"
    using sample_found
    by (simp add: repository_document_def resolver_fields forge_tree_file split: sum.splits)
  then show ?thesis
    by (simp add: repository_layer_def read_repository_bytes_def resolver_fields forge_tree_file
        sample_untrusted sample_applied step_eval Let_def) (simp add: sample_resolver_def)
qed

lemma sample_commands: "ef_commands sample_layered = []"
  by (simp add: sample_layered_def change_budgets_def base_configuration_def)

lemma sample_detected:
  obtains c v where "detect sample_resolver ''/w'' sample_world = (Inr c, v)"
    and "bd_max_parallel_candidates (ef_budgets c) = 1"
    and "td_withheld (ef_repository_trust c)
      = [\<lparr>wh_setting = ''run.commit_policy'', wh_reason = UserConfigurationOnly\<rparr>]"
proof -
  obtain s where "survey sample_resolver ''/w'' sample_world = (Inr s, sample_world)"
    by (simp add: survey_def resolver_fields caught_def step_eval)
  then have "detect sample_resolver ''/w'' sample_world
      = (Inr (with_survey s (sample_layered\<lparr>ef_repository_trust :=
          trust_decision False (digest_of_bytes sample_crates ''one'') sample_gate\<rparr>)), sample_world)"
    by (simp add: detect_def sample_user user_layer_def sample_repository_layer sample_commands step_eval)
  then show ?thesis
    by (rule that) (simp_all add: with_survey_def sample_layered_def change_budgets_def trust_decision_def
        sample_gate_def withhold_def repository_gate_def)
qed

text \<open>The same repository once its document is trusted.\<close>

definition trusting_world :: "unit file_world" where
  "trusting_world = put_file [''data'', ''config'', ''trusted-repositories.json'']
     (TrustFile (trust_insert \<lparr>tr_repository_path = ''/w'',
        tr_configuration_digest = digest_of_bytes sample_crates ''one'', tr_granted_at = 0\<rparr>
        trust_document_default)) sample_world"

lemma forge_identity: "identity_of forge_tree ''/w'' = ''/w''"
proof -
  have "canonicalize forge_tree ''/w'' = Inr [''w'']"
    by (simp add: forge_root forge_nodes tree_walks del: resolve.simps(2))
  moreover have "normalise_separators (absolute_display [''w'']) = ''/w''"
    by (simp add: normalise_separators_def absolute_display_def backslash_def chr_is)
  ultimately show ?thesis by (simp add: identity_of_def)
qed

lemma trusting_files:
  "file_at (user_configuration_file [''data'']) trusting_world = None"
  "file_at [''data'', ''config'', ''trusted-repositories.json''] trusting_world
     = Some (TrustFile (trust_insert \<lparr>tr_repository_path = ''/w'',
        tr_configuration_digest = digest_of_bytes sample_crates ''one'', tr_granted_at = 0\<rparr>
        trust_document_default))"
  using sample_files_missing(1)
  by (simp_all add: trusting_world_def user_configuration_file_def config_directory_def)

lemma trusting_user: "read_user_document sample_resolver trusting_world = (Inr None, trusting_world)"
  by (simp add: read_user_document_def read_optional_bytes_def resolver_fields trusting_files
      step_eval option_ok_def Let_def)

lemma sample_trusted:
  "\<exists>v. resolve_trust sample_resolver ''/w'' (digest_of_bytes sample_crates ''one'') trusting_world
     = (Inr True, v)"
  by (simp add: resolve_trust_def record_for_def trust_load_def read_document_def resolver_fields
      trust_path_def config_directory_def trusting_files step_eval forge_identity trust_lookup_insert
      system_call_def outside_def sample_system_def)

lemma trusted_detected:
  obtains c v where "detect sample_resolver ''/w'' trusting_world = (Inr c, v)"
    and "td_state (ef_repository_trust c) = Trusted"
proof -
  let ?digest = "digest_of_bytes sample_crates ''one''"
  obtain u where trusted: "resolve_trust sample_resolver ''/w'' ?digest trusting_world = (Inr True, u)"
    using sample_trusted ..
  have applied: "apply_document sample_document (base_configuration ''/w'', repository_gate True)
      = Inr (sample_layered, withhold ''run.commit_policy'' UserConfigurationOnly (repository_gate True))"
    by (simp add: apply_document_def document_steps_def section_steps_def sample_document_def
        forge_document_default_def run_section_default_def run_steps_def sure_def never_relaxes_def
        owner_only_def repository_gate_def is_user_def sample_layered_def
        base_configuration_def run_budgets_default_def default_candidates_def)
  have parsed: "parsed_document sample_resolver (repository_document_path ''/w'') ''one'' = Inr sample_document"
    using sample_found
    by (simp add: repository_document_def resolver_fields forge_tree_file split: sum.splits)
  have externals: "rv_externals sample_resolver = sample_crates" by (simp add: sample_resolver_def)
  obtain layered where layer: "repository_layer sample_resolver ''/w'' (base_configuration ''/w'')
      trusting_world = (Inr layered, u)" and commands: "ef_commands layered = []"
    and state: "td_state (ef_repository_trust layered) = Trusted"
    using trusted applied parsed
    by (simp add: repository_layer_def read_repository_bytes_def resolver_fields forge_tree_file
        externals sample_commands step_eval Let_def trust_decision_def)
  obtain s where "survey sample_resolver ''/w'' u = (Inr s, u)"
    by (simp add: survey_def resolver_fields caught_def step_eval)
  with layer commands have "detect sample_resolver ''/w'' trusting_world = (Inr (with_survey s layered), u)"
    by (simp add: detect_def trusting_user user_layer_def step_eval)
  then show ?thesis by (rule that) (simp add: with_survey_def state)
qed

section \<open>A survey\<close>

lemma sample_selected:
  "select_modules [''Cargo.toml'']
     = [\<lparr>dm_ecosystem = RustProject, dm_directory = None, dm_marker = ''Cargo.toml''\<rparr>]"
  by code_simp

abbreviation sample_survey :: project_survey where
  "sample_survey \<equiv> survey_project forge_tree (\<lambda>s. None) ''/w'' (Some [''Cargo.toml''])"

abbreviation sample_crate :: detected_module where
  "sample_crate \<equiv> \<lparr>dm_ecosystem = RustProject, dm_directory = None, dm_marker = ''Cargo.toml''\<rparr>"

lemma sample_identifiers:
  "command_id_from_str ''rust-format'' = Inr ''rust-format''"
  "command_id_from_str ''rust-lint'' = Inr ''rust-lint''"
  "command_id_from_str ''rust-test'' = Inr ''rust-test''"
  by (simp_all add: command_id_from_str_def is_ascii_lowercase_def is_ascii_digit_def byte_def)

lemma sample_pushed:
  assumes "p \<in> set rust_proposals"
  shows "\<exists>c. propose sample_crate p = Some c \<and> cs_id c = ''rust-'' @ pn_suffix p \<and> cs_kind c = pn_kind p"
proof -
  have "command_id_from_str (''rust-'' @ pn_suffix p) = Inr (''rust-'' @ pn_suffix p)"
    using assms by (auto simp: rust_proposals_def proposal_of_def sample_identifiers)
  moreover have "trim ''cargo'' \<noteq> []" "newline \<notin> set ''cargo''" "carriage_return \<notin> set ''cargo''"
    "nul \<notin> set ''cargo''"
    by (simp_all add: trim_plain plain_char_def byte_def newline_def carriage_return_def nul_def
        chr_is)
  moreover have "try_each check_argument (pn_args p) = Inr ()"
    using assms
    by (auto simp: rust_proposals_def proposal_of_def check_argument_def nul_def chr_is)
  ultimately show ?thesis
    using assms
    by (auto simp: propose_def rust_proposals_def proposal_of_def command_specification_validate_def
        optional_path_ok_def reads_stdout_only_def Let_def)
qed

lemma sample_surveyed:
  obtains c where "c \<in> set (pj_commands sample_survey)" and "cs_kind c = Test"
proof -
  obtain a b c where proposed: "propose sample_crate (rust_proposals ! 0) = Some a"
      "propose sample_crate (rust_proposals ! 1) = Some b" "propose sample_crate (rust_proposals ! 2) = Some c"
    and ids: "cs_id a = ''rust-format''" "cs_id b = ''rust-lint''" "cs_id c = ''rust-test''"
    and kind: "cs_kind c = Test"
    using sample_pushed [of "rust_proposals ! 0"] sample_pushed [of "rust_proposals ! 1"]
      sample_pushed [of "rust_proposals ! 2"]
    by (auto simp: rust_proposals_def proposal_of_def)
  have valid: "command_specification_validate x = Inr ()" if "propose sample_crate p = Some x" for x p
    using that by (auto simp: propose_def Let_def is_ok_iff split: sum.splits if_splits)
  have "catalogue_validate [a, b, c] = Inr ()"
    using valid proposed ids by (auto simp: catalogue_validate_iff)
  moreover have "pj_commands (foldl (\<lambda>s p. push_proposal sample_crate p s) empty rust_proposals)
      = pj_commands empty @ [a, b, c]" for empty
    using proposed by (simp add: rust_proposals_def push_proposal_def)
  ultimately have "pj_commands sample_survey = [a, b, c]"
    by (simp add: survey_project_def sample_selected propose_module_def propose_rust_def Let_def
        survey_default_def)
  then show ?thesis by (intro that [of c]) (simp_all add: kind)
qed

lemma sample_module: "m \<in> set (pj_modules sample_survey) \<Longrightarrow> dm_directory m = None"
  by (simp add: survey_project_def sample_selected Let_def decline_def split: sum.splits)

section \<open>What a repository can relax\<close>

definition quality_document :: "quality_section \<Rightarrow> forge_document" where
  "quality_document quality = forge_document_default\<lparr>fd_quality := Some quality\<rparr>"

lemmas quality_evaluation = quality_document_def apply_document_def document_steps_def
  section_steps_def forge_document_default_def quality_section_default_def quality_steps_def sure_def
  never_relaxes_def repository_gate_def is_user_def lowers_coverage_def change_quality_def

text \<open>
  The user asks for the strict profile, which stands for a minimum of 80; the repository names 0, and
  nothing is withheld, since no minimum was set.
\<close>

lemma repository_lowers_strict_minimum:
  assumes "qc_profile (ef_quality c) = Strict" and "qc_minimum_line_coverage (ef_quality c) = None"
  shows "\<exists>d. apply_document (quality_document
        (quality_section_default\<lparr>qs_minimum_line_coverage := Some (Finite False 0)\<rparr>))
      (c, repository_gate False) = Inr (d, repository_gate False)
    \<and> minimum_line_coverage c = Some (Finite False 80)
    \<and> minimum_line_coverage d = Some (Finite False 0)"
  using assms by (simp add: quality_evaluation minimum_line_coverage_def)

text \<open>A minimum that is not a number replaces any other, and no coverage is below it.\<close>

lemma repository_sets_nan_minimum:
  "\<exists>d. apply_document (quality_document
        (quality_section_default\<lparr>qs_minimum_line_coverage := Some NaN\<rparr>))
      (c, repository_gate False) = Inr (d, repository_gate False)
    \<and> qc_minimum_line_coverage (ef_quality d) = Some NaN \<and> \<not> f64_less coverage NaN"
  by (cases "qc_minimum_line_coverage (ef_quality c)"; cases coverage)
    (simp_all add: quality_evaluation)

text \<open>The review by a model that the user enabled is switched off.\<close>

lemma repository_disables_ai_review:
  "\<exists>d. apply_document (quality_document (quality_section_default\<lparr>qs_ai_review :=
        Some \<lparr>ay_enabled = Some False, ay_advisory_only = None, ay_gate_rules = None\<rparr>\<rparr>))
      (c, repository_gate False) = Inr (d, repository_gate False)
    \<and> \<not> ax_enabled (qc_ai_review (ef_quality d))"
  by (simp add: quality_evaluation inside_part_def apply_ai_def settings_def ai_settings_def
      unguarded_def)

end
