(* ===== verification/Forge_Patterns.thy ===== *)
theory Forge_Patterns
  imports Forge_Redaction
begin

text \<open>
  Searching and splitting text as the standard library does: \<open>find\<close>, \<open>matches\<close>, \<open>split\<close> by a string,
  \<open>split_once\<close>, \<open>rsplit_once\<close> and \<open>split_whitespace\<close>, on the bytes of a text.
\<close>

fun find_str :: "string \<Rightarrow> string \<Rightarrow> nat option" where
  "find_str p [] = (if p = [] then Some 0 else None)"
| "find_str p (c # s) =
     (if starts_with p (c # s) then Some 0 else map_option Suc (find_str p s))"

text \<open>The matches of a pattern that is not empty do not overlap.\<close>

function match_count :: "string \<Rightarrow> string \<Rightarrow> nat" where
  "match_count p s =
     (if p = [] \<or> s = [] then 0
      else if starts_with p s then Suc (match_count p (drop (length p) s))
      else match_count p (tl s))"
  by pat_completeness auto

termination by (relation "measure (\<lambda>(p, s). length s)") auto

declare match_count.simps [simp del]

lemma find_str_bound: "find_str p s = Some i \<Longrightarrow> i + length p \<le> length s"
proof (induction p s arbitrary: i rule: find_str.induct)
  case (2 p c s)
  show ?case
  proof (cases "starts_with p (c # s)")
    case True
    with 2(2) starts_with_length [OF True] show ?thesis by simp
  next
    case False
    with 2 show ?thesis by auto
  qed
qed (simp split: if_splits)

text \<open>\<open>split\<close> by a separator that is not empty.\<close>

function split_str :: "string \<Rightarrow> string \<Rightarrow> string list" where
  "split_str separator s =
     (if separator = [] then [s]
      else case find_str separator s of
             None \<Rightarrow> [s]
           | Some i \<Rightarrow> take i s # split_str separator (drop (i + length separator) s))"
  by pat_completeness auto

termination
proof (relation "measure (\<lambda>(separator, s). length s)")
  fix separator s :: string and i
  assume "separator \<noteq> []" and "find_str separator s = Some i"
  with find_str_bound [of separator s i] show "((separator, drop (i + length separator) s),
      (separator, s)) \<in> measure (\<lambda>(separator, s). length s)"
    by (cases separator) auto
qed simp

declare split_str.simps [simp del]

definition split_once :: "string \<Rightarrow> string \<Rightarrow> (string \<times> string) option" where
  "split_once separator s =
     map_option (\<lambda>i. (take i s, drop (i + length separator) s)) (find_str separator s)"

definition rsplit_once :: "string \<Rightarrow> string \<Rightarrow> (string \<times> string) option" where
  "rsplit_once separator s =
     map_option (\<lambda>(a, b). (rev b, rev a)) (split_once (rev separator) (rev s))"

definition starts_space :: "string \<Rightarrow> bool" where
  "starts_space s \<longleftrightarrow> list_ex (\<lambda>w. w \<noteq> [] \<and> starts_with w s) whitespace"

fun take_word :: "string \<Rightarrow> string" where
  "take_word [] = []"
| "take_word (c # s) = (if starts_space (c # s) then [] else c # take_word s)"

lemma trim_start_head:
  assumes "trim_start s = c # t"
  shows "\<not> starts_space (c # t)" and "length (c # t) \<le> length s"
proof -
  have "find (\<lambda>w. w \<noteq> [] \<and> starts_with w (strip_any ws s)) ws = None" for ws
    by (induction ws s rule: strip_any.induct) (subst strip_any.simps, simp split: option.split)
  from this [of whitespace] assms show "\<not> starts_space (c # t)"
    by (auto simp: trim_start_def starts_space_def list_ex_iff find_None_iff_set)
  show "length (c # t) \<le> length s"
    using strip_any_suffix [of s whitespace] assms by (auto simp: trim_start_def)
qed

function split_whitespace :: "string \<Rightarrow> string list" where
  "split_whitespace s =
     (let t = trim_start s
      in if t = [] then [] else take_word t # split_whitespace (drop (length (take_word t)) t))"
  by pat_completeness auto

termination
proof (relation "measure length")
  fix s t :: string
  assume t: "t = trim_start s" and "t \<noteq> []"
  then obtain c u where "trim_start s = c # u" by (cases "trim_start s") auto
  with trim_start_head [of s c u] t
  show "(drop (length (take_word t)) t, s) \<in> measure length" by auto
qed simp

declare split_whitespace.simps [simp del]

section \<open>Bytes as text\<close>

text \<open>
  \<open>String::from_utf8_lossy\<close>: how many bytes the next character takes, or how many belong to a
  broken one, which the replacement character stands for.
\<close>

definition byte_at :: "nat \<Rightarrow> nat \<Rightarrow> nat \<Rightarrow> string \<Rightarrow> bool" where
  "byte_at i low high s \<longleftrightarrow> i < length s \<and> byte_in low high (s ! i)"

definition utf8_step :: "string \<Rightarrow> nat \<times> bool" where
  "utf8_step s =
     (let a = byte (hd s) in
      if a < 128 then (1, True)
      else if byte_in 194 223 (hd s) then if byte_at 1 128 191 s then (2, True) else (1, False)
      else if byte_in 224 239 (hd s) then
        if \<not> byte_at 1 (if a = 224 then 160 else 128) (if a = 237 then 159 else 191) s then (1, False)
        else if \<not> byte_at 2 128 191 s then (2, False)
        else (3, True)
      else if byte_in 240 244 (hd s) then
        if \<not> byte_at 1 (if a = 240 then 144 else 128) (if a = 244 then 143 else 191) s then (1, False)
        else if \<not> byte_at 2 128 191 s then (2, False)
        else if \<not> byte_at 3 128 191 s then (3, False)
        else (4, True)
      else (1, False))"

definition replacement_character :: string where
  "replacement_character = map chr [239, 191, 189]"

lemma utf8_step_positive: "utf8_step s = (n, valid) \<Longrightarrow> 0 < n"
  by (auto simp: utf8_step_def Let_def split: if_splits)

function utf8_lossy :: "string \<Rightarrow> string" where
  "utf8_lossy s =
     (if s = [] then []
      else case utf8_step s of (n, valid) \<Rightarrow>
        (if valid then take n s else replacement_character) @ utf8_lossy (drop n s))"
  by pat_completeness auto

termination
  by (relation "measure length") (auto dest: utf8_step_positive [OF sym])

declare utf8_lossy.simps [simp del]

text \<open>Text that is valid is kept as it is.\<close>

lemma utf8_valid_step:
  assumes "utf8_valid (a # s)"
  shows "\<exists>n. utf8_step (a # s) = (n, True) \<and> utf8_valid (drop n (a # s))"
proof -
  consider (one) "byte a < 128" | (two) "128 \<le> byte a" "byte_in 194 223 a"
    | (three) "128 \<le> byte a" "\<not> byte_in 194 223 a" "byte_in 224 239 a"
    | (four) "128 \<le> byte a" "\<not> byte_in 194 223 a" "\<not> byte_in 224 239 a" by linarith
  then show ?thesis
  proof cases
    case one
    with assms show ?thesis by (simp add: utf8_step_def)
  next
    case two
    with assms obtain b t where "s = b # t" "byte_in 128 191 b" "utf8_valid t"
      by (cases s) auto
    with two show ?thesis by (simp add: utf8_step_def byte_at_def)
  next
    case three
    with assms obtain b c u where "s = b # c # u" and "byte_in 128 191 c" and "utf8_valid u"
      and "byte_in (if byte a = 224 then 160 else 128) (if byte a = 237 then 159 else 191) b"
      by (cases s; cases "tl s") auto
    with three show ?thesis
      by (simp only: utf8_step_def byte_at_def Let_def list.sel) simp
  next
    case four
    with assms obtain b c d v where "s = b # c # d # v" and "byte_in 240 244 a"
      and "byte_in 128 191 c" and "byte_in 128 191 d" and "utf8_valid v"
      and "byte_in (if byte a = 240 then 144 else 128) (if byte a = 244 then 143 else 191) b"
      by (cases s; cases "tl s"; cases "tl (tl s)") auto
    with four show ?thesis
      by (simp only: utf8_step_def byte_at_def Let_def list.sel) (simp add: numeral_3_eq_3)
  qed
qed

lemma utf8_lossy_valid: "utf8_valid s \<Longrightarrow> utf8_lossy s = s"
proof (induction s rule: utf8_lossy.induct)
  case (1 s)
  show ?case
  proof (cases s)
    case Nil
    then show ?thesis by (simp add: utf8_lossy.simps)
  next
    case (Cons a t)
    with 1(2) utf8_valid_step [of a t] obtain n where step: "utf8_step s = (n, True)"
      and rest: "utf8_valid (drop n s)" by blast
    from 1(1) [OF _ step [symmetric] rest] Cons have "utf8_lossy (drop n s) = drop n s" by simp
    with step Cons show ?thesis by (subst utf8_lossy.simps) simp
  qed
qed

end
