(* ===== verification/Forge_Integrity.thy ===== *)
theory Forge_Integrity
  imports Forge_Detection Forge_Patterns Forge_Ports Forge_Steps
begin

text \<open>
  \<open>infrastructure/src/quality/integrity.rs\<close>: what a candidate did to the tests and the quality
  configuration that were there before it. The check compares counts of markers in the text of the
  baseline, through the git port, and in the worktree.
\<close>

section \<open>Markers\<close>

definition integrity_provider :: string where "integrity_provider = ''test-integrity''"

definition test_function_markers :: "string list" where
  "test_function_markers =
     [''#[test]'', ''#[tokio::test]'', ''#[rstest]'', ''#[test_case'', ''def test_'', ''func Test'',
      ''it('', ''test('', ''describe('', ''@Test'']"

definition skip_markers :: "string list" where
  "skip_markers =
     [''#[ignore]'', ''#[ignore ='', ''@pytest.mark.skip'', ''pytest.skip('', ''@unittest.skip'',
      ''it.skip('', ''test.skip('', ''describe.skip('', ''xit('', ''xdescribe('', ''t.Skip('',
      ''@Disabled'']"

definition assertion_markers :: "string list" where
  "assertion_markers =
     [''assert!'', ''assert_eq!'', ''assert_ne!'', ''debug_assert'', ''assert '', ''assertEqual'',
      ''expect('', ''assert.'', ''t.Error'', ''t.Fatal'', ''should.'', ''verify('']"

definition quality_configuration_files :: "string list" where
  "quality_configuration_files =
     [''clippy.toml'', ''.clippy.toml'', ''rustfmt.toml'', ''.rustfmt.toml'', ''tarpaulin.toml'',
      ''.eslintrc'', ''.eslintrc.json'', ''.eslintrc.cjs'', ''eslint.config.js'',
      ''eslint.config.mjs'', ''.prettierrc'', ''tsconfig.json'', ''pyproject.toml'', ''setup.cfg'',
      ''.flake8'', ''jest.config.js'', ''vitest.config.ts'', ''sonar-project.properties'',
      ''codecov.yml'', ''.heikas/forge.toml'']"

definition coverage_keys :: "string list" where
  "coverage_keys =
     [''minimum_line_coverage'', ''fail_under'', ''coverageThreshold'', ''lines'', ''statements'',
      ''branches'', ''functions'', ''min_coverage'']"

definition count_markers :: "string \<Rightarrow> string list \<Rightarrow> nat" where
  "count_markers s patterns = sum_list (map (\<lambda>marker. match_count marker s) patterns)"

definition declares_tests :: "string \<Rightarrow> bool" where
  "declares_tests s \<longleftrightarrow> 0 < count_markers s test_function_markers"

definition is_quality_configuration :: "string \<Rightarrow> bool" where
  "is_quality_configuration path \<longleftrightarrow>
     (let lowered = to_ascii_lowercase path
      in list_ex (\<lambda>candidate. lowered = candidate \<or> ends_with (''/'' @ candidate) lowered)
           quality_configuration_files)"

section \<open>Issues\<close>

definition integrity_issue ::
    "externals \<Rightarrow> string \<Rightarrow> string \<Rightarrow> issue_severity \<Rightarrow> string \<Rightarrow> bool \<Rightarrow> review_issue" where
  "integrity_issue X path rule_id severity message approved =
     (let final_message = (if approved
            then message @ ''. The approved plan names this path, so the finding is advisory.''
            else message)
      in \<lparr>ri_provider = integrity_provider,
          ri_fingerprint = compute_fingerprint X integrity_provider rule_id (Some path) final_message,
          ri_rule_id = rule_id, ri_category = TestIntegrity,
          ri_severity = (if approved then Medium else severity), ri_file = Some path,
          ri_line = None, ri_column = None, ri_message = final_message,
          ri_help_reference = None, ri_is_new = True\<rparr>)"

text \<open>\<open>str::parse\<close> to a floating point number, of digits and points that start with a digit.\<close>

definition decimal_f64 :: "string \<Rightarrow> f64 option" where
  "decimal_f64 digits =
     (case split_char (CHR ''.'') digits of
        [whole] \<Rightarrow> if whole = [] then None else Some (mk_f64 False (of_nat (dec_value whole)))
      | [whole, fraction] \<Rightarrow>
          Some (mk_f64 False (of_nat (dec_value (whole @ fraction)) / 10 ^ length fraction))
      | _ \<Rightarrow> None)"

definition separates_value :: "char \<Rightarrow> bool" where
  "separates_value c \<longleftrightarrow> c \<in> {CHR '':'', CHR ''='', CHR '' '', chr 34, chr 39, chr 9}"

definition leading_digits :: "string \<Rightarrow> string" where
  "leading_digits s =
     (case s of
        [] \<Rightarrow> []
      | c # _ \<Rightarrow> if is_ascii_digit c
                then takeWhile (\<lambda>c. is_ascii_digit c \<or> c = CHR ''.'') s else [])"

definition extract_numeric :: "string \<Rightarrow> string \<Rightarrow> f64 option" where
  "extract_numeric s key =
     (case find_str key s of
        None \<Rightarrow> None
      | Some i \<Rightarrow> decimal_f64 (leading_digits (dropWhile separates_value (drop (i + length key) s))))"

definition threshold_issue ::
    "externals \<Rightarrow> (f64 \<Rightarrow> string) \<Rightarrow> string \<Rightarrow> string \<Rightarrow> string \<Rightarrow> bool \<Rightarrow> string \<Rightarrow> review_issue option" where
  "threshold_issue X show_f64 path baseline current approved key =
     (case (extract_numeric baseline key, extract_numeric current key) of
        (Some before, Some after) \<Rightarrow>
          if f64_less (f64_add after f64_epsilon) before
          then Some (integrity_issue X path ''coverage-threshold-reduced'' Blocker
            (quoted path @ '' reduced '' @ quoted key @ '' from '' @ show_f64 before @ '' to ''
             @ show_f64 after) approved)
          else None
      | _ \<Rightarrow> None)"

definition coverage_threshold_issues ::
    "externals \<Rightarrow> (f64 \<Rightarrow> string) \<Rightarrow> string \<Rightarrow> string \<Rightarrow> string \<Rightarrow> bool \<Rightarrow> review_issue list" where
  "coverage_threshold_issues X show_f64 path baseline current approved =
     List.map_filter (threshold_issue X show_f64 path baseline current approved) coverage_keys"

definition configuration_issues ::
    "externals \<Rightarrow> (f64 \<Rightarrow> string) \<Rightarrow> string \<Rightarrow> string \<Rightarrow> string option \<Rightarrow> bool \<Rightarrow> review_issue list" where
  "configuration_issues X show_f64 path baseline current approved =
     (if \<not> is_quality_configuration path then []
      else case current of
             Some text \<Rightarrow> coverage_threshold_issues X show_f64 path baseline text approved
           | None \<Rightarrow> [integrity_issue X path ''quality-configuration-deleted'' Blocker
               (''the quality configuration '' @ quoted path @ '' was deleted'') approved])"

definition issue_when :: "bool \<Rightarrow> review_issue \<Rightarrow> review_issue list" where
  "issue_when found reported = (if found then [reported] else [])"

definition test_file_issues ::
    "externals \<Rightarrow> string \<Rightarrow> string \<Rightarrow> string \<Rightarrow> bool \<Rightarrow> review_issue list" where
  "test_file_issues X path baseline current approved =
     (let tests = (\<lambda>s. count_markers s test_function_markers);
          skips = (\<lambda>s. count_markers s skip_markers);
          assertions = (\<lambda>s. count_markers s assertion_markers)
      in issue_when (tests current < tests baseline)
           (integrity_issue X path ''existing-test-removed'' Blocker
             (quoted path @ '' declared '' @ nat_dec (tests baseline)
              @ '' tests at the baseline but now declares '' @ nat_dec (tests current)) approved)
         @ issue_when (skips baseline < skips current)
           (integrity_issue X path ''test-skip-marker-added'' Blocker
             (quoted path @ '' added '' @ nat_dec (skips current - skips baseline)
              @ '' skip markers relative to the baseline'') approved)
         @ issue_when (assertions current + 1 < assertions baseline)
           (integrity_issue X path ''test-assertions-weakened'' High
             (quoted path @ '' fell from '' @ nat_dec (assertions baseline) @ '' assertions to ''
              @ nat_dec (assertions current)) approved))"

text \<open>The body of the loop, for a path whose baseline is text.\<close>

definition compared_issues ::
    "externals \<Rightarrow> (f64 \<Rightarrow> string) \<Rightarrow> string \<Rightarrow> string \<Rightarrow> string option \<Rightarrow> bool \<Rightarrow> review_issue list" where
  "compared_issues X show_f64 path baseline current approved =
     configuration_issues X show_f64 path baseline current approved
     @ (if \<not> is_test_path path \<and> \<not> declares_tests baseline then []
        else case current of
               None \<Rightarrow> [integrity_issue X path ''existing-test-file-deleted'' Blocker
                 (''the existing test file '' @ quoted path @ '' was deleted'') approved]
             | Some text \<Rightarrow> test_file_issues X path baseline text approved)"

section \<open>The check\<close>

text \<open>\<open>read_to_string\<close> of a path joined to the worktree, which follows links.\<close>

definition read_text_file :: "filesystem \<Rightarrow> string \<Rightarrow> string option" where
  "read_text_file fs path =
     (case and_then (canonicalize fs path) (node_at fs) of
        Inr (RegularNode bytes) \<Rightarrow> if utf8_valid bytes then Some bytes else None
      | _ \<Rightarrow> None)"

definition joined :: "string \<Rightarrow> string \<Rightarrow> string" where
  "joined base relative = (if is_absolute relative then relative else base @ ''/'' @ relative)"

definition read_current :: "filesystem \<Rightarrow> string \<Rightarrow> string \<Rightarrow> string option" where
  "read_current fs worktree relative = read_text_file fs (joined worktree relative)"

definition approved_by_plan :: "gate_context \<Rightarrow> string \<Rightarrow> bool" where
  "approved_by_plan context path \<longleftrightarrow>
     list_ex (\<lambda>expected. trim_char (CHR ''`'') expected = path) (gx_plan_expected_files context)"

text \<open>\<open>file_at_commit\<close> is the git port and \<open>tree\<close> the file system in a state.\<close>

definition path_issues ::
    "externals \<Rightarrow> (f64 \<Rightarrow> string) \<Rightarrow> (string \<Rightarrow> commit_hash \<Rightarrow> string \<Rightarrow> ('w, string option) step)
      \<Rightarrow> ('w \<Rightarrow> filesystem) \<Rightarrow> gate_context \<Rightarrow> string \<Rightarrow> ('w, review_issue list) step" where
  "path_issues X show_f64 file_at_commit tree context path =
     then_do (file_at_commit (gx_repository context) (gx_baseline context) path) (\<lambda>baseline.
     case baseline of
       None \<Rightarrow> ok []
     | Some bytes \<Rightarrow>
         if \<not> utf8_valid bytes then ok []
         else then_do (look (\<lambda>w. read_current (tree w) (gx_worktree context) path)) (\<lambda>current.
           ok (compared_issues X show_f64 path bytes current (approved_by_plan context path))))"

fun each_path :: "(string \<Rightarrow> ('w, 'a list) step) \<Rightarrow> string list \<Rightarrow> ('w, 'a list) step" where
  "each_path f [] = ok []"
| "each_path f (path # paths) =
     then_do (f path) (\<lambda>found. then_do (each_path f paths) (\<lambda>rest. ok (found @ rest)))"

definition integrity_evaluate ::
    "externals \<Rightarrow> (f64 \<Rightarrow> string) \<Rightarrow> (string \<Rightarrow> commit_hash \<Rightarrow> string \<Rightarrow> ('w, string option) step)
      \<Rightarrow> ('w \<Rightarrow> filesystem) \<Rightarrow> gate_context \<Rightarrow> ('w, review_issue list) step" where
  "integrity_evaluate X show_f64 file_at_commit tree context =
     (if \<not> qc_protect_existing_tests (ef_quality (gx_configuration context)) then ok []
      else each_path (path_issues X show_f64 file_at_commit tree context) (gx_changed_paths context))"

section \<open>What is reported\<close>

definition blocks :: "review_issue \<Rightarrow> bool" where "blocks i \<longleftrightarrow> ri_severity i = Blocker"

lemma integrity_issue_severity [simp]:
  "ri_severity (integrity_issue X path rule severity message approved) =
     (if approved then Medium else severity)"
  by (simp add: integrity_issue_def Let_def)

text \<open>A path the plan does not name has no blocking issue only when its tests are intact.\<close>

lemma unblocked_tests_intact:
  assumes "\<not> list_ex blocks (compared_issues X show_f64 path baseline current False)"
    and "is_test_path path \<or> declares_tests baseline"
  shows "\<exists>text. current = Some text
    \<and> count_markers baseline test_function_markers \<le> count_markers text test_function_markers
    \<and> count_markers text skip_markers \<le> count_markers baseline skip_markers"
  using assms
  by (cases current)
    (auto simp: compared_issues_def blocks_def test_file_issues_def issue_when_def Let_def
      split: if_splits)

lemma unblocked_thresholds_kept:
  assumes "\<not> list_ex blocks (compared_issues X show_f64 path baseline current False)"
    and "is_quality_configuration path"
  shows "\<exists>text. current = Some text \<and> (\<forall>key \<in> set coverage_keys. \<forall>before after.
    extract_numeric baseline key = Some before \<longrightarrow> extract_numeric text key = Some after
      \<longrightarrow> \<not> f64_less (f64_add after f64_epsilon) before)"
proof (cases current)
  case None
  with assms show ?thesis by (auto simp: compared_issues_def configuration_issues_def blocks_def)
next
  case (Some content)
  have "\<not> f64_less (f64_add after f64_epsilon) before"
    if key: "key \<in> set coverage_keys" and before: "extract_numeric baseline key = Some before"
      and after: "extract_numeric content key = Some after" for key before after
  proof
    assume "f64_less (f64_add after f64_epsilon) before"
    then obtain i where "threshold_issue X show_f64 path baseline content False key = Some i"
      and block: "blocks i"
      by (simp add: threshold_issue_def before after blocks_def)
    with key have "i \<in> set (coverage_threshold_issues X show_f64 path baseline content False)"
      by (auto simp: coverage_threshold_issues_def List.map_filter_def image_iff intro!: bexI [of _ key])
    with assms Some block show False
      by (auto simp: compared_issues_def configuration_issues_def list_ex_iff)
  qed
  with Some show ?thesis by blast
qed

end
