(* ===== verification/Forge_Reports.thy ===== *)
theory Forge_Reports
  imports Forge_Patterns Forge_Commands
begin

text \<open>
  \<open>infrastructure/src/quality/reports.rs\<close>: the readers of what test runners and analysers print. The
  events of an XML document belong to the \<open>quick_xml\<close> crate, and the decoders of JSON records to the
  code its derive macros generate; both are arguments. Counts are \<open>u32\<close> and wrap, as in a release
  build.
\<close>

section \<open>Summaries\<close>

record test_summary =
  ts_total :: u32
  ts_failed :: u32
  ts_skipped :: u32
  ts_failures :: "test_failure_detail list"

definition test_summary_default :: test_summary where
  "test_summary_default = \<lparr>ts_total = 0, ts_failed = 0, ts_skipped = 0, ts_failures = []\<rparr>"

text \<open>The three ways a reader counts tests.\<close>

definition add_passed :: "u32 \<Rightarrow> test_summary \<Rightarrow> test_summary" where
  "add_passed n s = s\<lparr>ts_total := ts_total s + n\<rparr>"

definition add_failed :: "u32 \<Rightarrow> test_summary \<Rightarrow> test_summary" where
  "add_failed n s = s\<lparr>ts_total := ts_total s + n, ts_failed := ts_failed s + n\<rparr>"

definition add_skipped :: "u32 \<Rightarrow> test_summary \<Rightarrow> test_summary" where
  "add_skipped n s = s\<lparr>ts_total := ts_total s + n, ts_skipped := ts_skipped s + n\<rparr>"

section \<open>JUnit\<close>

type_synonym attributes = "(string \<times> string) list"

text \<open>\<open>Otherwise\<close> stands for the end of an element, a comment and the like.\<close>

datatype xml_event =
    StartElement string attributes
  | EmptyElement string attributes
  | TextEvent
  | Otherwise
  | EndOfFile
  | Malformed

record junit_state =
  ju_summary :: test_summary
  ju_suite :: string
  ju_case :: string
  ju_file :: "string option"
  ju_line :: "u32 option"

definition junit_start :: junit_state where
  "junit_start =
     \<lparr>ju_summary = test_summary_default, ju_suite = [], ju_case = [], ju_file = None, ju_line = None\<rparr>"

definition attribute_or_empty :: "attributes \<Rightarrow> string \<Rightarrow> string" where
  "attribute_or_empty attributes key =
     (case map_of attributes key of Some v \<Rightarrow> v | None \<Rightarrow> [])"

definition junit_element :: "string \<Rightarrow> attributes \<Rightarrow> junit_state \<Rightarrow> junit_state" where
  "junit_element name attributes state =
     (let summary = ju_summary state in
      if name = ''testsuite'' then state\<lparr>ju_suite := attribute_or_empty attributes ''name''\<rparr>
      else if name = ''testcase'' then
        state\<lparr>ju_case := attribute_or_empty attributes ''name'',
          ju_suite := (case map_of attributes ''classname'' of
              Some classname \<Rightarrow> if classname \<noteq> [] then classname else ju_suite state
            | None \<Rightarrow> ju_suite state),
          ju_file := map_of attributes ''file'',
          ju_line := Option.bind (map_of attributes ''line'') parse_unsigned,
          ju_summary := summary\<lparr>ts_total := ts_total summary + 1\<rparr>\<rparr>
      else if name \<in> {''failure'', ''error''} then
        state\<lparr>ju_summary := summary\<lparr>ts_failed := ts_failed summary + 1,
          ts_failures := ts_failures summary @
            [\<lparr>tf_suite = ju_suite state, tf_case = ju_case state,
              tf_message = (case map_of attributes ''message'' of
                Some message \<Rightarrow> message | None \<Rightarrow> ''the test failed''),
              tf_file = ju_file state, tf_line = ju_line state\<rparr>]\<rparr>\<rparr>
      else if name = ''skipped'' then
        state\<lparr>ju_summary := summary\<lparr>ts_skipped := ts_skipped summary + 1\<rparr>\<rparr>
      else state)"

text \<open>The event that follows a failure is read and dropped, whatever it is.\<close>

definition after_element :: "string \<Rightarrow> xml_event list \<Rightarrow> xml_event list" where
  "after_element name events = (if name \<in> {''failure'', ''error''} then drop 1 events else events)"

function junit_loop :: "xml_event list \<Rightarrow> junit_state \<Rightarrow> test_summary" where
  "junit_loop [] state = ju_summary state"
| "junit_loop (event # events) state =
     (case event of
        StartElement name attributes \<Rightarrow>
          junit_loop (after_element name events) (junit_element name attributes state)
      | EmptyElement name attributes \<Rightarrow>
          junit_loop (after_element name events) (junit_element name attributes state)
      | EndOfFile \<Rightarrow> ju_summary state
      | Malformed \<Rightarrow> ju_summary state
      | _ \<Rightarrow> junit_loop events state)"
  by pat_completeness auto

termination
  by (relation "measure (\<lambda>(events, state). length events)") (auto simp: after_element_def)

definition parse_junit_xml ::
    "(string \<Rightarrow> xml_event list) \<Rightarrow> string \<Rightarrow> test_summary application_result" where
  "parse_junit_xml xml_events contents = Inr (junit_loop (xml_events contents) junit_start)"

section \<open>LCOV\<close>

definition count_or_zero :: "string \<Rightarrow> u64" where
  "count_or_zero v = (case parse_unsigned (trim v) of Some n \<Rightarrow> n | None \<Rightarrow> 0)"

definition lcov_line :: "u64 \<times> u64 \<Rightarrow> string \<Rightarrow> u64 \<times> u64" where
  "lcov_line counts line_text =
     (case counts of (found, hit) \<Rightarrow>
        case strip_prefix ''LF:'' line_text of
          Some v \<Rightarrow> (found + count_or_zero v, hit)
        | None \<Rightarrow>
            (case strip_prefix ''LH:'' line_text of
               Some v \<Rightarrow> (found, hit + count_or_zero v)
             | None \<Rightarrow> (found, hit)))"

definition parse_lcov_coverage :: "string \<Rightarrow> f64 option" where
  "parse_lcov_coverage contents =
     (case foldl lcov_line (0, 0) (lines contents) of (found, hit) \<Rightarrow>
        if found = 0 then None
        else Some (f64_mul (f64_div (f64_of_nat (unat hit)) (f64_of_nat (unat found))) (f64_of_nat 100)))"

section \<open>Cargo\<close>

record cargo_test_event =
  ce2_kind :: "string option"
  ce2_event :: "string option"
  ce2_name :: "string option"
  ce2_stdout :: "string option"
  ce2_passed :: "u32 option"
  ce2_failed :: "u32 option"
  ce2_ignored :: "u32 option"

definition split_test_name :: "string \<Rightarrow> string \<times> string" where
  "split_test_name name =
     (case rsplit_once ''::'' name of Some parts \<Rightarrow> parts | None \<Rightarrow> (''tests'', name))"

definition or_else :: "'a \<Rightarrow> 'a option \<Rightarrow> 'a" where
  "or_else otherwise v = (case v of Some a \<Rightarrow> a | None \<Rightarrow> otherwise)"

definition failure_at :: "string \<Rightarrow> string \<Rightarrow> string \<Rightarrow> test_failure_detail" where
  "failure_at suite case_name message =
     \<lparr>tf_suite = suite, tf_case = case_name, tf_message = chars_take 4000 message,
      tf_file = None, tf_line = None\<rparr>"

definition cargo_event :: "test_summary \<Rightarrow> cargo_test_event \<Rightarrow> test_summary" where
  "cargo_event summary event =
     (if ce2_kind event = Some ''test'' \<and> ce2_event event = Some ''ok'' then add_passed 1 summary
      else if ce2_kind event = Some ''test'' \<and> ce2_event event = Some ''ignored''
      then add_skipped 1 summary
      else if ce2_kind event = Some ''test'' \<and> ce2_event event = Some ''failed'' then
        (case split_test_name (or_else ''unknown'' (ce2_name event)) of (suite, case_name) \<Rightarrow>
          (add_failed 1 summary)\<lparr>ts_failures := ts_failures summary
             @ [failure_at suite case_name (or_else ''the test failed'' (ce2_stdout event))]\<rparr>)
      else if ce2_kind event = Some ''suite'' \<and> ce2_event event \<in> {Some ''ok'', Some ''failed''}
              \<and> ts_total summary = 0 then
        summary\<lparr>ts_total := or_else 0 (ce2_passed event) + or_else 0 (ce2_failed event)
            + or_else 0 (ce2_ignored event),
          ts_failed := or_else 0 (ce2_failed event), ts_skipped := or_else 0 (ce2_ignored event)\<rparr>
      else summary)"

text \<open>A line that is not a record is passed over.\<close>

definition decoded_lines :: "(string \<Rightarrow> 'a option) \<Rightarrow> string \<Rightarrow> 'a list" where
  "decoded_lines decode contents = List.map_filter decode (lines contents)"

definition parse_cargo_test_json :: "(string \<Rightarrow> cargo_test_event option) \<Rightarrow> string \<Rightarrow> test_summary" where
  "parse_cargo_test_json decode contents =
     foldl cargo_event test_summary_default (decoded_lines decode contents)"

text \<open>The first two words of a field, the first of them a count.\<close>

definition count_and_label :: "string \<Rightarrow> (u32 \<times> string) option" where
  "count_and_label field =
     (case split_whitespace field of
        v # label # _ \<Rightarrow> map_option (\<lambda>n. (n, label)) (parse_unsigned v)
      | _ \<Rightarrow> None)"

definition cargo_field :: "test_summary \<Rightarrow> string \<Rightarrow> test_summary" where
  "cargo_field summary field =
     (case count_and_label field of
        None \<Rightarrow> summary
      | Some (n, label) \<Rightarrow>
          if label = ''passed'' then add_passed n summary
          else if label = ''failed'' then add_failed n summary
          else if label = ''ignored'' then add_skipped n summary
          else summary)"

definition cargo_line :: "test_summary \<Rightarrow> string \<Rightarrow> test_summary" where
  "cargo_line summary line_text =
     (case Option.bind (strip_prefix ''test result:'' (trim line_text)) (split_once ''.'') of
        None \<Rightarrow> summary
      | Some (_, counts) \<Rightarrow> foldl cargo_field summary (split_char (CHR '';'') counts))"

definition parse_cargo_test_summary :: "string \<Rightarrow> test_summary" where
  "parse_cargo_test_summary contents = foldl cargo_line test_summary_default (lines contents)"

section \<open>SARIF\<close>

record sarif_result =
  sf_rule_id :: "string option"
  sf_level :: "string option"
  sf_message_text :: "string option"
  sf_locations :: "(string option \<times> u32 option \<times> u32 option) option list"

text \<open>
  A location is the URI, the line and the column of its physical location, when it has one; a run
  has the name and the rules of the driver of its tool, when it names one.
\<close>

record sarif_run =
  sf_driver :: "(string option \<times> (string option \<times> string option) list) option"
  sf_results :: "sarif_result list"

definition sarif_severity :: "string option \<Rightarrow> issue_severity" where
  "sarif_severity level =
     (if level = Some ''error'' then High
      else if level = Some ''warning'' then Medium
      else if level = Some ''note'' then Low
      else if level = Some ''none'' then Info
      else Medium)"

definition sarif_issue ::
    "externals \<Rightarrow> string \<Rightarrow> (string \<times> string option) list \<Rightarrow> sarif_result \<Rightarrow> review_issue" where
  "sarif_issue X tool_name help_uris result =
     (let rule_id = or_else ''unknown'' (sf_rule_id result);
          message = or_else ''an analysis rule reported a finding'' (sf_message_text result);
          location = (case sf_locations result of
              Some place # _ \<Rightarrow> place
            | _ \<Rightarrow> (None, None, None))
      in \<lparr>ri_provider = tool_name,
          ri_fingerprint = compute_fingerprint X tool_name rule_id (fst location) message,
          ri_rule_id = rule_id, ri_category = Security, ri_severity = sarif_severity (sf_level result),
          ri_file = fst location, ri_line = fst (snd location), ri_column = snd (snd location),
          ri_message = message,
          ri_help_reference = (case find (\<lambda>(rule, _). rule = rule_id) help_uris of
              Some (_, uri) \<Rightarrow> uri | None \<Rightarrow> None),
          ri_is_new = True\<rparr>)"

definition sarif_run_issues :: "externals \<Rightarrow> string \<Rightarrow> sarif_run \<Rightarrow> review_issue list" where
  "sarif_run_issues X provider run =
     (let tool_name = or_else provider (Option.bind (sf_driver run) fst);
          help_uris = (case sf_driver run of
              Some (_, rules) \<Rightarrow> map (\<lambda>(rule, uri). (or_else [] rule, uri)) rules
            | None \<Rightarrow> [])
      in map (sarif_issue X tool_name help_uris) (sf_results run))"

definition parse_sarif ::
    "externals \<Rightarrow> (string \<Rightarrow> string + sarif_run list) \<Rightarrow> string \<Rightarrow> string
      \<Rightarrow> review_issue list application_result" where
  "parse_sarif X decode contents provider =
     map_ok (\<lambda>runs. concat (map (sarif_run_issues X provider) runs))
       (map_err Serialisation (decode contents))"

section \<open>Pytest\<close>

text \<open>A field of the summary line, and whether it was one.\<close>

definition pytest_field :: "test_summary \<times> bool \<Rightarrow> string \<Rightarrow> test_summary \<times> bool" where
  "pytest_field state field =
     (case state of (summary, recognised) \<Rightarrow>
        case count_and_label (trim (hd (split_str '' in '' (trim field)))) of
          None \<Rightarrow> state
        | Some (n, label) \<Rightarrow>
            if label \<in> {''passed'', ''xpassed''} then (add_passed n summary, True)
            else if label \<in> {''failed'', ''error'', ''errors''} then (add_failed n summary, True)
            else if label \<in> {''skipped'', ''deselected'', ''xfailed''} then (add_skipped n summary, True)
            else state)"

fun pytest_lines :: "string list \<Rightarrow> test_summary" where
  "pytest_lines [] = test_summary_default"
| "pytest_lines (line_text # rest) =
     (let trimmed = trim (trim_char (CHR ''='') (trim line_text))
      in if starts_with ''no tests ran'' trimmed then test_summary_default
         else if \<not> contains_str '' in '' trimmed then pytest_lines rest
         else case foldl pytest_field (test_summary_default, False) (split_char (CHR '','') trimmed) of
                (summary, recognised) \<Rightarrow> if recognised then summary else pytest_lines rest)"

definition parse_pytest_summary :: "string \<Rightarrow> test_summary" where
  "parse_pytest_summary contents = pytest_lines (rev (lines contents))"

section \<open>Go\<close>

record go_test_event =
  go_action :: "string option"
  go_test :: "string option"
  go_package :: "string option"
  go_output :: "string option"

definition record_output ::
    "string \<Rightarrow> string \<Rightarrow> (string \<Rightarrow> string option) \<Rightarrow> string \<Rightarrow> string option" where
  "record_output key output outputs =
     (let entry = or_else [] (outputs key)
      in outputs(key \<mapsto> (if length entry < 4000 then entry @ output else entry)))"

definition go_event ::
    "test_summary \<times> (string \<Rightarrow> string option) \<Rightarrow> go_test_event
      \<Rightarrow> test_summary \<times> (string \<Rightarrow> string option)" where
  "go_event state event =
     (case state of (summary, outputs) \<Rightarrow>
        case go_test event of
          None \<Rightarrow> state
        | Some test \<Rightarrow>
            let package = or_else [] (go_package event); key = package @ ''::'' @ test
            in if go_action event = Some ''output'' then
                 (case go_output event of
                    Some output \<Rightarrow> (summary, record_output key output outputs)
                  | None \<Rightarrow> state)
               else if go_action event = Some ''pass'' then (add_passed 1 summary, outputs)
               else if go_action event = Some ''skip'' then (add_skipped 1 summary, outputs)
               else if go_action event = Some ''fail'' then
                 ((add_failed 1 summary)\<lparr>ts_failures := ts_failures summary
                    @ [failure_at package test (or_else ''the test failed'' (outputs key))]\<rparr>, outputs)
               else state)"

definition parse_go_test_json :: "(string \<Rightarrow> go_test_event option) \<Rightarrow> string \<Rightarrow> test_summary" where
  "parse_go_test_json decode contents =
     fst (foldl go_event (test_summary_default, \<lambda>key. None) (decoded_lines decode contents))"

section \<open>Node\<close>

definition leading_count :: "string \<Rightarrow> u32 option" where
  "leading_count s = (case split_whitespace s of w # _ \<Rightarrow> parse_unsigned w | [] \<Rightarrow> None)"

definition node_tap_line :: "test_summary \<Rightarrow> string \<Rightarrow> test_summary" where
  "node_tap_line summary rest =
     (case split_whitespace rest of
        label # v # _ \<Rightarrow>
          (case parse_unsigned v of
             None \<Rightarrow> summary
           | Some n \<Rightarrow>
               if label = ''pass'' then add_passed n summary
               else if label = ''fail'' then add_failed n summary
               else if label \<in> {''skipped'', ''todo'', ''cancelled''} then add_skipped n summary
               else summary)
      | _ \<Rightarrow> summary)"

text \<open>A field of the summary of Jest or Vitest.\<close>

definition node_field :: "test_summary \<Rightarrow> string \<Rightarrow> test_summary" where
  "node_field summary raw =
     (let field = trim raw in
      case leading_count field of
        None \<Rightarrow> summary
      | Some n \<Rightarrow>
          if ends_with ''passed'' field then add_passed n summary
          else if ends_with ''failed'' field then add_failed n summary
          else if ends_with ''skipped'' field \<or> ends_with ''todo'' field then add_skipped n summary
          else summary)"

definition counted ::
    "(u32 \<Rightarrow> test_summary \<Rightarrow> test_summary) \<Rightarrow> string \<Rightarrow> test_summary \<Rightarrow> test_summary" where
  "counted add s summary = (case leading_count s of Some n \<Rightarrow> add n summary | None \<Rightarrow> summary)"

definition node_line :: "test_summary \<Rightarrow> string \<Rightarrow> test_summary" where
  "node_line summary line_text =
     (let trimmed = trim line_text in
      case strip_prefix ''# '' trimmed of
        Some rest \<Rightarrow> node_tap_line summary rest
      | None \<Rightarrow>
      (case strip_prefix ''Tests:'' trimmed of
        Some rest \<Rightarrow> foldl node_field summary (split_char (CHR '','') rest)
      | None \<Rightarrow>
      (case strip_prefix ''Tests '' trimmed of
        Some rest \<Rightarrow>
          foldl node_field summary (split_char (CHR ''|'') (hd (split_char (CHR ''('') rest)))
      | None \<Rightarrow>
          if ends_with ''passing'' trimmed \<or> contains_str ''passing ('' trimmed
          then counted add_passed trimmed summary
          else if ends_with ''pending'' trimmed then counted add_skipped trimmed summary
          else if ends_with ''failing'' trimmed then counted add_failed trimmed summary
          else summary)))"

definition parse_node_test_summary :: "string \<Rightarrow> test_summary" where
  "parse_node_test_summary contents = foldl node_line test_summary_default (lines contents)"

section \<open>CTest\<close>

fun ctest_lines :: "string list \<Rightarrow> test_summary" where
  "ctest_lines [] = test_summary_default"
| "ctest_lines (line_text # rest) =
     (case split_once ''tests passed,'' (trim line_text) of
        None \<Rightarrow> ctest_lines rest
      | Some (_, after) \<Rightarrow>
          (case leading_count after of
             None \<Rightarrow> ctest_lines rest
           | Some failed \<Rightarrow>
               let total = (case split_str ''out of'' after of
                     _ # piece # _ \<Rightarrow> or_else failed (leading_count piece)
                   | _ \<Rightarrow> failed)
               in test_summary_default\<lparr>ts_total := total, ts_failed := failed\<rparr>))"

definition parse_ctest_summary :: "string \<Rightarrow> test_summary" where
  "parse_ctest_summary contents = ctest_lines (lines contents)"

end
