(* ===== verification/Forge_Quality.thy ===== *)
theory Forge_Quality
  imports Forge_Integrity Forge_Reports
begin

text \<open>
  \<open>application/src/ports/process.rs\<close>, \<open>request_for_command\<close> of \<open>infrastructure/src/process/mod.rs\<close>,
  and \<open>infrastructure/src/quality/test_runner.rs\<close>: a command of the catalogue becomes a process, and
  what the process left becomes a record of the evidence. The process runner, the file at a commit, the
  clock and the environment are ports over a world \<open>'w\<close>, and \<open>qp_tree\<close> is its file system. The
  decoders of reports belong to \<open>serde_json\<close> and \<open>quick_xml\<close>.
\<close>

section \<open>Processes\<close>

record process_request =
  pq_program :: string
  pq_args :: "string list"
  pq_working_directory :: string
  pq_environment :: "(string \<times> string) list"
  pq_stdin :: "string option"
  pq_timeout_seconds :: u32
  pq_max_output_bytes :: u64
  pq_label :: string

record process_outcome =
  pu_exit_code :: "int option"
  pu_signal :: "int option"
  pu_timed_out :: bool
  pu_cancelled :: bool
  pu_duration :: duration_ms
  pu_stdout :: string
  pu_stderr :: string
  pu_stdout_truncated :: bool
  pu_stderr_truncated :: bool
  pu_process_id :: "u32 option"
  pu_children_terminated :: u32

definition stdout_text :: "process_outcome \<Rightarrow> string" where
  "stdout_text self = utf8_lossy (pu_stdout self)"

definition stderr_text :: "process_outcome \<Rightarrow> string" where
  "stderr_text self = utf8_lossy (pu_stderr self)"

definition process_succeeded :: "process_outcome \<Rightarrow> bool" where
  "process_succeeded self \<longleftrightarrow>
     pu_exit_code self = Some 0 \<and> \<not> pu_timed_out self \<and> \<not> pu_cancelled self"

record mcp_issue =
  mi_rule :: string
  mi_severity :: string
  mi_message :: string
  mi_component :: "string option"
  mi_line :: "u32 option"

record mcp_tool_evidence =
  me_tool_calls :: "string list"
  me_quality_gate :: "string option"
  me_issues :: "mcp_issue list"

record report_decoders =
  qd_xml_events :: "string \<Rightarrow> xml_event list"
  qd_cargo_event :: "string \<Rightarrow> cargo_test_event option"
  qd_go_event :: "string \<Rightarrow> go_test_event option"
  qd_sarif :: "string \<Rightarrow> string + sarif_run list"
  qd_mcp_evidence :: "string \<Rightarrow> mcp_tool_evidence option"
  qd_show_f64 :: "f64 \<Rightarrow> string"

record 'w quality_ports =
  qp_run :: "process_request \<Rightarrow> ('w, process_outcome) step"
  qp_probe_executable :: "string \<Rightarrow> ('w, string option) step"
  qp_cancelled :: "'w \<Rightarrow> bool"
  qp_file_at_commit :: "string \<Rightarrow> commit_hash \<Rightarrow> string \<Rightarrow> ('w, string option) step"
  qp_clock :: "'w \<Rightarrow> timestamp \<times> 'w"
  qp_variable :: "'w \<Rightarrow> string \<Rightarrow> string option"
  qp_tree :: "'w \<Rightarrow> filesystem"
  qp_digests :: externals
  qp_decoders :: report_decoders

definition request_for_command ::
    "filesystem \<Rightarrow> command_specification \<Rightarrow> string \<Rightarrow> u64 \<Rightarrow> process_request application_result" where
  "request_for_command fs specification worktree max_output_bytes =
     and_then (confined_working_directory fs worktree (cs_working_subdirectory specification))
       (\<lambda>working_directory.
     Inr \<lparr>pq_program = cs_program specification, pq_args = cs_args specification,
       pq_working_directory = absolute_display working_directory,
       pq_environment = cs_environment specification, pq_stdin = None,
       pq_timeout_seconds = cs_timeout specification,
       pq_max_output_bytes = max_output_bytes, pq_label = cs_id specification\<rparr>)"

section \<open>Reports in the worktree\<close>

definition evidence_relative_root :: "gate_context \<Rightarrow> string" where
  "evidence_relative_root context =
     (case gx_candidate_id context of
        Some candidate \<Rightarrow> ''candidates/'' @ candidate @ ''/reports''
      | None \<Rightarrow> ''integration/reports'')"

definition gate_scope :: "gate_context \<Rightarrow> string" where
  "gate_scope context =
     (case gx_candidate_id context of Some candidate \<Rightarrow> candidate | None \<Rightarrow> ''integration'')"

definition read_report ::
    "filesystem \<Rightarrow> string \<Rightarrow> command_specification \<Rightarrow> string option application_result" where
  "read_report fs worktree specification =
     (case cs_report_path specification of
        None \<Rightarrow> Inr None
      | Some relative \<Rightarrow>
          and_then (confined_working_directory fs worktree (cs_working_subdirectory specification))
            (\<lambda>base.
          and_then (read_confined_file fs (absolute_display base) relative
            maximum_repository_report_bytes) (\<lambda>found.
          Inr (case found of
                 Some bytes \<Rightarrow> if utf8_valid bytes then Some bytes else None
               | None \<Rightarrow> None))))"

text \<open>What the match on the report format gives: the summary, the coverage, whether the report is
  missing, and the artifact of it.\<close>

record report_reading =
  rx_summary :: test_summary
  rx_coverage :: "f64 option"
  rx_missing :: bool
  rx_artifacts :: "gate_artifact list"

definition no_reading :: report_reading where
  "no_reading =
     \<lparr>rx_summary = test_summary_default, rx_coverage = None, rx_missing = False, rx_artifacts = []\<rparr>"

definition report_artifact ::
    "gate_context \<Rightarrow> command_specification \<Rightarrow> string \<Rightarrow> string \<Rightarrow> string \<Rightarrow> string \<Rightarrow> gate_artifact" where
  "report_artifact context specification label suffix media_type contents =
     \<lparr>ga_label = gate_scope context @ ''-'' @ cs_id specification @ label,
      ga_relative_path = evidence_relative_root context @ ''/'' @ cs_id specification @ suffix,
      ga_media_type = media_type, ga_bytes = contents, ga_truncated = False\<rparr>"

definition when_reported ::
    "filesystem \<Rightarrow> gate_context \<Rightarrow> command_specification
      \<Rightarrow> (string \<Rightarrow> report_reading application_result) \<Rightarrow> report_reading application_result" where
  "when_reported fs context specification reading =
     and_then (read_report fs (gx_worktree context) specification) (\<lambda>found.
     case found of
       Some contents \<Rightarrow> reading contents
     | None \<Rightarrow> Inr (no_reading\<lparr>rx_missing := True\<rparr>))"

definition read_evidence ::
    "report_decoders \<Rightarrow> filesystem \<Rightarrow> gate_context \<Rightarrow> command_specification \<Rightarrow> process_outcome
      \<Rightarrow> report_reading application_result" where
  "read_evidence D fs context specification outcome =
     (let printed = (\<lambda>summary. Inr (no_reading\<lparr>rx_summary := summary\<rparr>)) in
      case cs_report_format specification of
        NoReport \<Rightarrow> Inr no_reading
      | CargoTestJson \<Rightarrow> printed (parse_cargo_test_json (qd_cargo_event D) (stdout_text outcome))
      | CargoTestText \<Rightarrow> printed (parse_cargo_test_summary (stdout_text outcome))
      | GoTestJson \<Rightarrow> printed (parse_go_test_json (qd_go_event D) (stdout_text outcome))
      | PytestText \<Rightarrow> printed (parse_pytest_summary (stdout_text outcome))
      | NodeTestText \<Rightarrow> printed (parse_node_test_summary (stdout_text outcome))
      | CTestText \<Rightarrow> printed (parse_ctest_summary (stdout_text outcome))
      | JUnitXml \<Rightarrow> when_reported fs context specification (\<lambda>contents.
          and_then (parse_junit_xml (qd_xml_events D) contents) (\<lambda>summary.
          Inr (no_reading\<lparr>rx_summary := summary, rx_artifacts :=
            [report_artifact context specification ''-junit'' ''-junit.xml'' ''application/xml''
              contents]\<rparr>)))
      | Lcov \<Rightarrow> when_reported fs context specification (\<lambda>contents.
          Inr (no_reading\<lparr>rx_coverage := parse_lcov_coverage contents, rx_artifacts :=
            [report_artifact context specification ''-lcov'' ''-coverage.info'' ''text/plain''
              contents]\<rparr>))
      | format \<Rightarrow> when_reported fs context specification (\<lambda>contents.
          Inr (no_reading\<lparr>rx_artifacts :=
            [report_artifact context specification ''-report'' ''-report''
              (if format = Sarif then ''application/sarif+json'' else ''text/plain'') contents]\<rparr>)))"

section \<open>Records\<close>

definition limit_failures :: "test_failure_detail list \<Rightarrow> test_failure_detail list" where
  "limit_failures failures = take 50 failures"

definition last_lines :: "string \<Rightarrow> string" where
  "last_lines s = join_str [newline] (rev (take 12 (rev (lines s))))"

definition failure_detail :: "process_outcome \<Rightarrow> test_summary \<Rightarrow> string" where
  "failure_detail outcome summary =
     (if 0 < ts_failed summary
      then dec (ts_failed summary) @ '' of '' @ dec (ts_total summary) @ '' tests failed''
      else
        let tail = last_lines (stderr_text outcome) in
        if trim tail = [] then
          let stdout_tail = last_lines (stdout_text outcome) in
          if trim stdout_tail = [] then
            (case pu_exit_code outcome of
               Some code \<Rightarrow> ''the command exited with status '' @ int_dec code
             | None \<Rightarrow> ''the command failed without an exit status'')
          else stdout_tail
        else tail)"

definition no_executed_tests :: string where
  "no_executed_tests = ''the test command executed no tests, counting skipped and ignored tests as not executed, so it is no evidence that the change is correct''"

definition executed_tests :: "test_summary \<Rightarrow> u32" where
  "executed_tests summary = sat_sub (ts_total summary) (ts_skipped summary)"

definition executed_nothing :: "command_specification \<Rightarrow> test_summary \<Rightarrow> bool" where
  "executed_nothing specification summary \<longleftrightarrow>
     counts_executed_tests (cs_report_format specification) \<and> cs_kind specification = Test
     \<and> executed_tests summary = 0"

definition record_outcome ::
    "command_specification \<Rightarrow> process_outcome \<Rightarrow> test_summary \<Rightarrow> bool \<Rightarrow> command_outcome" where
  "record_outcome specification outcome summary report_missing =
     (if pu_cancelled outcome then command_outcome.Cancelled
      else if pu_timed_out outcome then TimedOut
      else if \<not> exit_is_success specification (pu_exit_code outcome) \<or> 0 < ts_failed summary
      then command_outcome.Failed
      else if cs_required specification \<and> (report_missing \<or> executed_nothing specification summary)
      then ReportMissing
      else command_outcome.Passed)"

definition record_detail ::
    "command_specification \<Rightarrow> process_outcome \<Rightarrow> test_summary \<Rightarrow> command_outcome \<Rightarrow> string option" where
  "record_detail specification outcome summary command_outcome =
     (case command_outcome of
        command_outcome.Failed \<Rightarrow>
          if executed_nothing specification summary
          then Some (no_executed_tests @ ''. '' @ failure_detail outcome summary)
          else Some (failure_detail outcome summary)
      | ReportMissing \<Rightarrow>
          if executed_nothing specification summary then Some no_executed_tests
          else Some (''the required report '' @ quoted (or_else [] (cs_report_path specification))
            @ '' was not produced'')
      | _ \<Rightarrow> None)"

definition stream_artifact ::
    "gate_context \<Rightarrow> command_specification \<Rightarrow> string \<Rightarrow> string \<Rightarrow> bool \<Rightarrow> gate_artifact" where
  "stream_artifact context specification name bytes truncated =
     \<lparr>ga_label = gate_scope context @ ''-'' @ cs_id specification @ ''-'' @ name,
      ga_relative_path =
        evidence_relative_root context @ ''/'' @ cs_id specification @ ''-'' @ name @ ''.log'',
      ga_media_type = ''text/plain'', ga_bytes = bytes, ga_truncated = truncated\<rparr>"

definition build_record ::
    "externals \<Rightarrow> report_decoders \<Rightarrow> filesystem \<Rightarrow> gate_context \<Rightarrow> command_specification
      \<Rightarrow> process_outcome \<Rightarrow> gate_artifact list
      \<Rightarrow> ((command_execution_record \<times> bool) \<times> gate_artifact list) application_result" where
  "build_record X D fs context specification outcome artifacts =
     and_then (read_evidence D fs context specification outcome) (\<lambda>reading.
     let summary = rx_summary reading;
         coverage = (if cs_kind specification = command_kind.Coverage \<and> rx_coverage reading = None
           then parse_lcov_coverage (stdout_text outcome) else rx_coverage reading);
         counted_any = (counts_executed_tests (cs_report_format specification)
           \<or> 0 < ts_total summary);
         counted_tests = (\<lambda>n. if counted_any then Some n else None);
         command_outcome = record_outcome specification outcome summary (rx_missing reading)
     in Inr ((\<lparr>ce_command_id = cs_id specification, ce_required = cs_required specification,
           ce_outcome = command_outcome, ce_exit_code = pu_exit_code outcome,
           ce_duration = pu_duration outcome,
           ce_stdout_artifact = Some (digest_of_bytes X (pu_stdout outcome)),
           ce_stderr_artifact = Some (digest_of_bytes X (pu_stderr outcome)),
           ce_stdout_truncated = pu_stdout_truncated outcome,
           ce_stderr_truncated = pu_stderr_truncated outcome,
           ce_tests_total = counted_tests (ts_total summary),
           ce_tests_failed = counted_tests (ts_failed summary),
           ce_tests_skipped = counted_tests (ts_skipped summary),
           ce_failures = limit_failures (ts_failures summary),
           ce_line_coverage_percent = coverage,
           ce_detail = record_detail specification outcome summary command_outcome\<rparr>,
           \<not> rx_missing reading),
         artifacts
         @ [stream_artifact context specification ''stdout'' (pu_stdout outcome)
              (pu_stdout_truncated outcome),
            stream_artifact context specification ''stderr'' (pu_stderr outcome)
              (pu_stderr_truncated outcome)]
         @ rx_artifacts reading))"

section \<open>The test gate\<close>

definition cancelled_record :: "command_specification \<Rightarrow> command_execution_record" where
  "cancelled_record specification =
     \<lparr>ce_command_id = cs_id specification, ce_required = cs_required specification,
      ce_outcome = command_outcome.Cancelled, ce_exit_code = None, ce_duration = 0,
      ce_stdout_artifact = None, ce_stderr_artifact = None, ce_stdout_truncated = False,
      ce_stderr_truncated = False, ce_tests_total = None, ce_tests_failed = None,
      ce_tests_skipped = None, ce_failures = [], ce_line_coverage_percent = None,
      ce_detail = Some ''the run was cancelled before this command started''\<rparr>"

text \<open>A command of the catalogue run to its end: both gates start one this way.\<close>

definition run_process ::
    "'w quality_ports \<Rightarrow> gate_context \<Rightarrow> command_specification \<Rightarrow> ('w, process_outcome) step" where
  "run_process Q context specification =
     then_do (look (qp_tree Q)) (\<lambda>fs.
     then_do (lift_result (request_for_command fs specification (gx_worktree context)
       (bd_max_output_bytes_per_stream (ef_budgets (gx_configuration context))))) (\<lambda>request.
     qp_run Q request))"

definition run_recorded ::
    "'w quality_ports \<Rightarrow> gate_context \<Rightarrow> command_specification \<Rightarrow> gate_artifact list
      \<Rightarrow> ('w, command_execution_record \<times> gate_artifact list) step" where
  "run_recorded Q context specification artifacts =
     then_do (run_process Q context specification) (\<lambda>outcome.
     then_do (look (qp_tree Q)) (\<lambda>fs.
     then_do (lift_result (build_record (qp_digests Q) (qp_decoders Q) fs context specification
       outcome artifacts)) (\<lambda>((recorded, produced), produced_artifacts).
     ok (recorded, produced_artifacts))))"

fun run_commands ::
    "'w quality_ports \<Rightarrow> gate_context \<Rightarrow> command_specification list \<Rightarrow> command_execution_record list
      \<Rightarrow> gate_artifact list \<Rightarrow> ('w, command_execution_record list \<times> gate_artifact list) step" where
  "run_commands Q context [] records artifacts = ok (records, artifacts)"
| "run_commands Q context (specification # specifications) records artifacts =
     then_do (look (qp_cancelled Q)) (\<lambda>cancelled.
     if cancelled
     then run_commands Q context specifications (records @ [cancelled_record specification]) artifacts
     else
     then_do (run_recorded Q context specification artifacts) (\<lambda>(recorded, produced).
     run_commands Q context specifications (records @ [recorded]) produced))"

definition run_tests ::
    "'w quality_ports \<Rightarrow> gate_context \<Rightarrow> command_specification list \<Rightarrow> ('w, test_gate_output) step" where
  "run_tests Q context commands =
     then_do (run_commands Q context commands [] []) (\<lambda>(records, artifacts).
     ok \<lparr>tg_evidence = recompute_totals \<lparr>te_commands = records, te_line_coverage_percent = None,
           te_total_duration = 0\<rparr>,
         tg_artifacts = artifacts\<rparr>)"

end
