(* ===== verification/Forge_Local_Review.thy ===== *)
theory Forge_Local_Review
  imports Forge_Quality Forge_Node_Ports
begin

text \<open>
  \<open>infrastructure/src/quality/local_provider.rs\<close>: the review every run has, which runs the review
  commands of the catalogue, compares the tests with the baseline and requires a command of every
  kind its profile names.
\<close>

definition local_provider_name :: string where "local_provider_name = ''local''"

definition local_issue ::
    "externals \<Rightarrow> string \<Rightarrow> issue_category \<Rightarrow> issue_severity \<Rightarrow> string \<Rightarrow> review_issue" where
  "local_issue X rule_id category severity message =
     \<lparr>ri_provider = local_provider_name,
      ri_fingerprint = compute_fingerprint X local_provider_name rule_id None message,
      ri_rule_id = rule_id, ri_category = category, ri_severity = severity, ri_file = None,
      ri_line = None, ri_column = None, ri_message = message, ri_help_reference = None,
      ri_is_new = True\<rparr>"

section \<open>A command\<close>

definition local_artifact ::
    "gate_context \<Rightarrow> command_specification \<Rightarrow> string \<Rightarrow> string \<Rightarrow> string \<Rightarrow> string \<Rightarrow> bool
      \<Rightarrow> gate_artifact" where
  "local_artifact context specification label suffix media_type bytes truncated =
     \<lparr>ga_label = local_provider_name @ ''-'' @ cs_id specification @ ''-'' @ label,
      ga_relative_path =
        evidence_relative_root context @ ''/review-'' @ cs_id specification @ suffix,
      ga_media_type = media_type, ga_bytes = bytes, ga_truncated = truncated\<rparr>"

text \<open>The SARIF report of a command that has one: its issues, whether it is missing, its artifact.\<close>

definition sarif_report ::
    "externals \<Rightarrow> report_decoders \<Rightarrow> filesystem \<Rightarrow> gate_context \<Rightarrow> command_specification
      \<Rightarrow> (review_issue list \<times> bool \<times> gate_artifact list) application_result" where
  "sarif_report X D fs context specification =
     (if cs_report_format specification \<noteq> Sarif then Inr ([], False, [])
      else case Option.bind (cs_report_path specification) (read_current fs (gx_worktree context)) of
             None \<Rightarrow> Inr ([], True, [])
           | Some contents \<Rightarrow>
               map_ok (\<lambda>issues.
                 (map (ri_category_update (\<lambda>_. default_issue_category (cs_kind specification))) issues,
                  False,
                  [local_artifact context specification ''sarif'' ''.sarif''
                    ''application/sarif+json'' contents False]))
                 (parse_sarif X (qd_sarif D) contents (cs_id specification)))"

definition command_succeeded :: "command_specification \<Rightarrow> process_outcome \<Rightarrow> bool \<Rightarrow> bool" where
  "command_succeeded specification outcome report_missing \<longleftrightarrow>
     exit_is_success specification (pu_exit_code outcome) \<and> \<not> pu_timed_out outcome
     \<and> \<not> pu_cancelled outcome \<and> \<not> (report_missing \<and> cs_required specification)"

definition command_message :: "command_specification \<Rightarrow> process_outcome \<Rightarrow> bool \<Rightarrow> string" where
  "command_message specification outcome report_missing =
     (if report_missing then ''the command '' @ quoted (cs_id specification)
        @ '' did not produce the required report ''
        @ quoted (or_else [] (cs_report_path specification))
      else if pu_timed_out outcome
      then ''the command '' @ quoted (cs_id specification) @ '' exceeded its timeout''
      else ''the command '' @ quoted (cs_id specification) @ '' failed with status ''
        @ (case pu_exit_code outcome of Some code \<Rightarrow> int_dec code | None \<Rightarrow> ''unknown''))"

definition command_issues ::
    "externals \<Rightarrow> command_specification \<Rightarrow> process_outcome \<Rightarrow> bool \<Rightarrow> review_issue list" where
  "command_issues X specification outcome report_missing =
     (if command_succeeded specification outcome report_missing then []
      else [local_issue X (''command.'' @ cs_id specification)
        (default_issue_category (cs_kind specification))
        (if cs_required specification then Blocker else Medium)
        (command_message specification outcome report_missing)])"

definition review_command ::
    "'w quality_ports \<Rightarrow> gate_context \<Rightarrow> command_specification \<Rightarrow> review_issue list
      \<Rightarrow> gate_artifact list \<Rightarrow> ('w, bool \<times> review_issue list \<times> gate_artifact list) step" where
  "review_command Q context specification issues artifacts =
     then_do (run_process Q context specification) (\<lambda>outcome.
     then_do (look (qp_tree Q)) (\<lambda>fs.
     then_do (lift_result (sarif_report (qp_digests Q) (qp_decoders Q) fs context specification))
       (\<lambda>(found, report_missing, report).
     ok (command_succeeded specification outcome report_missing,
       issues @ found @ command_issues (qp_digests Q) specification outcome report_missing,
       artifacts
       @ [local_artifact context specification ''stdout'' ''-stdout.log'' ''text/plain''
            (pu_stdout outcome) (pu_stdout_truncated outcome),
          local_artifact context specification ''stderr'' ''-stderr.log'' ''text/plain''
            (pu_stderr outcome) (pu_stderr_truncated outcome)]
       @ report))))"

fun review_commands ::
    "'w quality_ports \<Rightarrow> gate_context \<Rightarrow> command_specification list \<Rightarrow> bool \<Rightarrow> review_issue list
      \<Rightarrow> gate_artifact list \<Rightarrow> ('w, bool \<times> review_issue list \<times> gate_artifact list) step" where
  "review_commands Q context [] all_passed issues artifacts = ok (all_passed, issues, artifacts)"
| "review_commands Q context (specification # specifications) all_passed issues artifacts =
     then_do (review_command Q context specification issues artifacts)
       (\<lambda>(passed, found, produced).
     review_commands Q context specifications
       (all_passed \<and> \<not> (cs_required specification \<and> \<not> passed)) found produced)"

section \<open>The report\<close>

definition uncovered_kinds :: "effective_configuration \<Rightarrow> command_kind list" where
  "uncovered_kinds configuration =
     filter (\<lambda>kind. \<not> list_ex (\<lambda>command. cs_kind command = kind)
         (catalogue_review_phase (ef_commands configuration)))
       (required_review_kinds configuration)"

definition missing_kind_issue ::
    "externals \<Rightarrow> effective_configuration \<Rightarrow> command_kind \<Rightarrow> review_issue" where
  "missing_kind_issue X configuration kind =
     local_issue X (''missing.'' @ command_kind_as_str kind) issue_category.Policy Blocker
       (''the '' @ quality_profile_as_str (qc_profile (ef_quality configuration))
        @ '' quality profile requires a '' @ quoted (command_kind_as_str kind)
        @ '' command but none is configured'')"

definition artifact_reference_of :: "externals \<Rightarrow> gate_artifact \<Rightarrow> review_artifact_reference" where
  "artifact_reference_of X artifact =
     \<lparr>ra_label = ga_label artifact, ra_relative_path = ga_relative_path artifact,
      ra_media_type = ga_media_type artifact, ra_digest = digest_of_bytes X (ga_bytes artifact),
      ra_byte_length = of_nat (length (ga_bytes artifact))\<rparr>"

definition blocker_summary :: "review_issue list \<Rightarrow> string" where
  "blocker_summary issues =
     join_str ''; '' (take 5 (map ri_message (filter (\<lambda>i. ri_severity i = Blocker) issues)))"

definition local_report ::
    "externals \<Rightarrow> gate_context \<Rightarrow> bool \<Rightarrow> review_issue list \<Rightarrow> gate_artifact list \<Rightarrow> timestamp
      \<Rightarrow> timestamp \<Rightarrow> review_report" where
  "local_report X context passed issues artifacts started_at finished_at =
     \<lparr>rr_schema_version = review_report_schema_version, rr_provider = local_provider_name,
      rr_required = True, rr_advisory = False, rr_passed = passed,
      rr_quality_gate = (if passed then quality_gate_outcome.Passed
        else quality_gate_outcome.Failed),
      rr_issues = issues,
      rr_metrics =
        \<lparr>rm_line_coverage_percent = None, rm_branch_coverage_percent = None,
         rm_changed_lines = None,
         rm_changed_files = Some (of_nat (length (gx_changed_paths context))),
         rm_analysed_files = Some (of_nat (length (gx_changed_paths context))),
         rm_duplicated_lines = None\<rparr>,
      rr_artifacts = map (artifact_reference_of X) artifacts,
      rr_started_at = started_at, rr_finished_at = finished_at,
      rr_failure_summary = (if passed then None else Some (blocker_summary issues))\<rparr>"

definition local_review :: "'w quality_ports \<Rightarrow> gate_context \<Rightarrow> ('w, review_gate_output) step" where
  "local_review Q context =
     then_do (ask (qp_clock Q)) (\<lambda>started_at.
     let configuration = gx_configuration context in
     then_do (review_commands Q context (catalogue_review_phase (ef_commands configuration))
       True [] []) (\<lambda>(commands_passed, issues, artifacts).
     then_do (integrity_evaluate (qp_digests Q) (qd_show_f64 (qp_decoders Q)) (qp_file_at_commit Q)
       (qp_tree Q) context) (\<lambda>integrity_issues.
     then_do (ask (qp_clock Q)) (\<lambda>finished_at.
     ok \<lparr>rv_report = local_report (qp_digests Q) context
           (commands_passed \<and> \<not> list_ex blocks integrity_issues \<and> uncovered_kinds configuration = [])
           (issues @ integrity_issues
            @ map (missing_kind_issue (qp_digests Q) configuration) (uncovered_kinds configuration))
           artifacts started_at finished_at,
         rv_artifacts = artifacts\<rparr>))))"

definition local_provider :: "'w quality_ports \<Rightarrow> 'w review_provider" where
  "local_provider Q =
     \<lparr>vp_name = local_provider_name, vp_required = True, vp_advisory = False,
      vp_available = ok True, vp_review = local_review Q\<rparr>"

text \<open>\<open>show_percent\<close> is \<open>{:.2}\<close>, which the standard library prints.\<close>

definition coverage_issue ::
    "externals \<Rightarrow> (f64 \<Rightarrow> string) \<Rightarrow> f64 option \<Rightarrow> f64 option \<Rightarrow> review_issue option" where
  "coverage_issue X show_percent measured required =
     Option.bind required (\<lambda>required.
     let reported = (\<lambda>message. Some (local_issue X ''coverage.threshold'' issue_category.Coverage
           Blocker message))
     in case measured of
          Some found \<Rightarrow>
            if f64_less (f64_add found f64_epsilon) required
            then reported (''line coverage '' @ show_percent found @ ''% is below the required ''
              @ show_percent required @ ''%'')
            else None
        | None \<Rightarrow> reported (''line coverage was not measured but '' @ show_percent required
            @ ''% is required''))"

end
