(* ===== verification/Forge_Providers.thy ===== *)
theory Forge_Providers
  imports Forge_Local_Review
begin

text \<open>
  The review providers a configuration can add: \<open>infrastructure/src/quality/sonar.rs\<close>, which runs a
  scanner or the adapter of a server and reads what it reports, and
  \<open>infrastructure/src/quality/ai_review.rs\<close>, which asks an agent that may only read.
\<close>

section \<open>What the providers share\<close>

text \<open>A report without metrics and artifacts.\<close>

definition plain_report ::
    "string \<Rightarrow> bool \<Rightarrow> bool \<Rightarrow> quality_gate_outcome \<Rightarrow> review_issue list \<Rightarrow> timestamp \<Rightarrow> timestamp
      \<Rightarrow> string option \<Rightarrow> review_report" where
  "plain_report provider required passed gate issues started_at finished_at summary =
     \<lparr>rr_schema_version = review_report_schema_version, rr_provider = provider,
      rr_required = required, rr_advisory = \<not> required, rr_passed = passed,
      rr_quality_gate = gate, rr_issues = issues,
      rr_metrics =
        \<lparr>rm_line_coverage_percent = None, rm_branch_coverage_percent = None,
         rm_changed_lines = None, rm_changed_files = None, rm_analysed_files = None,
         rm_duplicated_lines = None\<rparr>,
      rr_artifacts = [], rr_started_at = started_at, rr_finished_at = finished_at,
      rr_failure_summary = summary\<rparr>"

definition gate_decision :: "bool \<Rightarrow> quality_gate_outcome" where
  "gate_decision passed =
     (if passed then quality_gate_outcome.Passed else quality_gate_outcome.Failed)"

definition token_environment ::
    "('w \<Rightarrow> string \<Rightarrow> string option) \<Rightarrow> string option \<Rightarrow> 'w \<Rightarrow> (string \<times> string) list" where
  "token_environment variable name w =
     (case Option.bind name (variable w) of
        Some v \<Rightarrow> [(''SONAR_TOKEN'', v)] | None \<Rightarrow> [])"

definition output_artifact ::
    "gate_context \<Rightarrow> string \<Rightarrow> string \<Rightarrow> string \<Rightarrow> string \<Rightarrow> bool \<Rightarrow> gate_artifact" where
  "output_artifact context label name media_type bytes truncated =
     \<lparr>ga_label = label, ga_relative_path = evidence_relative_root context @ ''/'' @ name,
      ga_media_type = media_type, ga_bytes = bytes, ga_truncated = truncated\<rparr>"

definition tool_request ::
    "gate_context \<Rightarrow> string \<Rightarrow> string list \<Rightarrow> (string \<times> string) list \<Rightarrow> timeout_seconds \<Rightarrow> string
      \<Rightarrow> process_request" where
  "tool_request context program args environment timeout label =
     \<lparr>pq_program = program, pq_args = args, pq_working_directory = gx_worktree context,
      pq_environment = environment, pq_stdin = None, pq_timeout_seconds = timeout,
      pq_max_output_bytes = bd_max_output_bytes_per_stream (ef_budgets (gx_configuration context)),
      pq_label = label\<rparr>"

definition tool_available :: "'w quality_ports \<Rightarrow> bool \<Rightarrow> string \<Rightarrow> ('w, bool) step" where
  "tool_available Q enabled program =
     (if \<not> enabled then ok False
      else then_do (qp_probe_executable Q program) (\<lambda>found. ok (found \<noteq> None)))"

section \<open>The scanner\<close>

definition scanner_name :: string where "scanner_name = ''sonar-scanner''"

definition scanner_arguments :: "sonar_scanner_configuration \<Rightarrow> gate_context \<Rightarrow> string list" where
  "scanner_arguments configuration context =
     ss_arguments configuration @ [''-Dsonar.host.url='' @ ss_host_url configuration]
     @ (case ss_project_key configuration of
          Some key \<Rightarrow> [''-Dsonar.projectKey='' @ key] | None \<Rightarrow> [])
     @ (if ss_wait_for_quality_gate configuration then [''-Dsonar.qualitygate.wait=true''] else [])
     @ [''-Dsonar.projectBaseDir='' @ utf8_lossy (gx_worktree context)]"

definition scanner_issue ::
    "externals \<Rightarrow> sonar_scanner_configuration \<Rightarrow> process_outcome \<Rightarrow> review_issue" where
  "scanner_issue X configuration outcome =
     (let message = ''the SonarQube scanner reported a failing quality gate with status ''
        @ (case pu_exit_code outcome of Some code \<Rightarrow> int_dec code | None \<Rightarrow> ''unknown'')
      in \<lparr>ri_provider = scanner_name,
          ri_fingerprint = compute_fingerprint X scanner_name ''quality-gate'' None message,
          ri_rule_id = ''quality-gate'', ri_category = Maintainability, ri_severity = Blocker,
          ri_file = None, ri_line = None, ri_column = None, ri_message = message,
          ri_help_reference = Some (ss_host_url configuration), ri_is_new = True\<rparr>)"

definition scanner_review ::
    "'w quality_ports \<Rightarrow> sonar_scanner_configuration \<Rightarrow> gate_context \<Rightarrow> ('w, review_gate_output) step" where
  "scanner_review Q configuration context =
     then_do (ask (qp_clock Q)) (\<lambda>started_at.
     then_do (look (token_environment (qp_variable Q) (ss_token_environment_variable configuration)))
       (\<lambda>environment.
     then_do (qp_run Q (tool_request context (ss_program configuration)
       (scanner_arguments configuration context) environment (ss_timeout configuration) scanner_name))
       (\<lambda>outcome.
     let passed = process_succeeded outcome in
     then_do (ask (qp_clock Q)) (\<lambda>finished_at.
     ok \<lparr>rv_report = plain_report scanner_name True passed (gate_decision passed)
           (if passed then [] else [scanner_issue (qp_digests Q) configuration outcome])
           started_at finished_at
           (if passed then None else Some (trim (stderr_text outcome))),
         rv_artifacts =
           [output_artifact context (scanner_name @ ''-stdout'') ''sonar-scanner-stdout.log''
              ''text/plain'' (pu_stdout outcome) (pu_stdout_truncated outcome),
            output_artifact context (scanner_name @ ''-stderr'') ''sonar-scanner-stderr.log''
              ''text/plain'' (pu_stderr outcome) (pu_stderr_truncated outcome)]\<rparr>))))"

definition scanner_provider ::
    "'w quality_ports \<Rightarrow> sonar_scanner_configuration \<Rightarrow> 'w review_provider" where
  "scanner_provider Q configuration =
     \<lparr>vp_name = scanner_name, vp_required = ss_enabled configuration, vp_advisory = False,
      vp_available = tool_available Q (ss_enabled configuration) (ss_program configuration),
      vp_review = scanner_review Q configuration\<rparr>"

section \<open>The adapter of the server\<close>

definition mcp_name :: string where "mcp_name = ''sonar-mcp''"

definition to_ascii_uppercase :: "string \<Rightarrow> string" where
  "to_ascii_uppercase = map (\<lambda>c. if is_ascii_lowercase c then chr (byte c - 32) else c)"

definition map_severity :: "string \<Rightarrow> issue_severity" where
  "map_severity s =
     (let upper = to_ascii_uppercase s in
      if upper = ''BLOCKER'' then Blocker
      else if upper = ''CRITICAL'' then Critical
      else if upper = ''MAJOR'' then High
      else if upper = ''MINOR'' then Medium
      else if upper = ''INFO'' then issue_severity.Info
      else Medium)"

definition mcp_review_issue :: "externals \<Rightarrow> mcp_issue \<Rightarrow> review_issue" where
  "mcp_review_issue X found =
     \<lparr>ri_provider = mcp_name,
      ri_fingerprint = compute_fingerprint X mcp_name (mi_rule found) (mi_component found)
        (mi_message found),
      ri_rule_id = mi_rule found, ri_category = Maintainability,
      ri_severity = map_severity (mi_severity found), ri_file = mi_component found,
      ri_line = mi_line found, ri_column = None, ri_message = mi_message found,
      ri_help_reference = None, ri_is_new = True\<rparr>"

definition missing_tools :: "mcp_tool_evidence \<Rightarrow> string list" where
  "missing_tools evidence =
     filter (\<lambda>tool. \<not> list_ex (contains_str tool) (me_tool_calls evidence))
       [''quality_gate'', ''issues'', ''security_hotspots'']"

definition mcp_passed :: "mcp_tool_evidence \<Rightarrow> bool" where
  "mcp_passed evidence =
     (case me_quality_gate evidence of
        Some gate \<Rightarrow> eq_ignore_ascii_case gate ''ok'' \<or> eq_ignore_ascii_case gate ''passed''
      | None \<Rightarrow> False)"

definition mcp_evidence ::
    "report_decoders \<Rightarrow> process_outcome \<Rightarrow> mcp_tool_evidence application_result" where
  "mcp_evidence D outcome =
     (case qd_mcp_evidence D (trim (stdout_text outcome)) of
        None \<Rightarrow> Inl (QualityProvider
          ''the SonarQube MCP adapter produced no structured tool evidence'')
      | Some evidence \<Rightarrow>
          if missing_tools evidence \<noteq> []
          then Inl (QualityProvider (
            ''the SonarQube MCP adapter did not record the required tool calls: ''
            @ join_str '', '' (missing_tools evidence)))
          else Inr evidence)"

definition mcp_arguments :: "sonar_mcp_configuration \<Rightarrow> string list" where
  "mcp_arguments configuration =
     sm_arguments configuration
     @ (case sm_project_key configuration of Some key \<Rightarrow> [''--project'', key] | None \<Rightarrow> [])"

definition mcp_review ::
    "'w quality_ports \<Rightarrow> sonar_mcp_configuration \<Rightarrow> gate_context \<Rightarrow> ('w, review_gate_output) step" where
  "mcp_review Q configuration context =
     then_do (ask (qp_clock Q)) (\<lambda>started_at.
     then_do (look (token_environment (qp_variable Q) (sm_token_environment_variable configuration)))
       (\<lambda>environment.
     then_do (qp_run Q (tool_request context (sm_program configuration) (mcp_arguments configuration)
       environment (sm_timeout configuration) mcp_name)) (\<lambda>outcome.
     then_do (lift_result (mcp_evidence (qp_decoders Q) outcome)) (\<lambda>evidence.
     let passed = mcp_passed evidence in
     then_do (ask (qp_clock Q)) (\<lambda>finished_at.
     ok \<lparr>rv_report = plain_report mcp_name True passed (gate_decision passed)
           (map (mcp_review_issue (qp_digests Q)) (me_issues evidence)) started_at finished_at
           (if passed then None else Some (''the SonarQube quality gate reported ''
             @ quoted (or_else ''unknown'' (me_quality_gate evidence)))),
         rv_artifacts =
           [output_artifact context (mcp_name @ ''-stdout'') ''sonar-mcp-stdout.json''
              ''application/json'' (pu_stdout outcome) (pu_stdout_truncated outcome)]\<rparr>)))))"

definition mcp_provider :: "'w quality_ports \<Rightarrow> sonar_mcp_configuration \<Rightarrow> 'w review_provider" where
  "mcp_provider Q configuration =
     \<lparr>vp_name = mcp_name, vp_required = sm_enabled configuration, vp_advisory = False,
      vp_available = tool_available Q (sm_enabled configuration) (sm_program configuration),
      vp_review = mcp_review Q configuration\<rparr>"

definition value_as_string :: "json_value \<Rightarrow> string" where
  "value_as_string v = or_else [] (json_as_str v)"

section \<open>The advisory review\<close>

definition ai_review_name :: string where "ai_review_name = ''ai-review''"

definition review_facts :: "gate_context \<Rightarrow> prompt_facts" where
  "review_facts context =
     \<lparr>pf_task_title = ''Advisory review of the candidate change'', pf_task_body = [],
      pf_repository_summary = ''Changed paths: '' @ join_str '', '' (gx_changed_paths context),
      pf_approved_plan_hash = None, pf_approved_plan = None, pf_strategy = None,
      pf_strategy_emphasis = None, pf_allowed_commands = [],
      pf_protected_paths = pp_protected_patterns (ef_path_policy (gx_configuration context)),
      pf_previous_evidence = gx_changed_paths context, pf_expected_files = [], pf_attempt = 1\<rparr>"

definition review_invocation :: "gate_context \<Rightarrow> prompt_contract \<Rightarrow> agent_invocation" where
  "review_invocation context prompt =
     (let configuration = gx_configuration context in
     \<lparr>ai_run_id = gx_run_id context, ai_candidate_id = gx_candidate_id context,
      ai_role = Reviewer, ai_strategy = None, ai_worktree = gx_worktree context,
      ai_prompt = prompt,
      ai_tool_policy = tool_policy_read_only (ef_path_policy configuration) 60, ai_commands = [],
      ai_environment_allowlist = ef_environment_allowlist configuration,
      ai_network = ac_network (ef_agent configuration),
      ai_time_budget_seconds = min (ac_timeout (ef_agent configuration)) 600,
      ai_turn_budget = 12, ai_output_budget_bytes = 262144\<rparr>)"

fun json_as_array :: "json_value \<Rightarrow> json_value list option" where
  "json_as_array (JArray items) = Some items"
| "json_as_array _ = None"

fun json_as_u64 :: "json_value \<Rightarrow> u64 option" where
  "json_as_u64 (JNumber digits) = parse_unsigned digits"
| "json_as_u64 _ = None"

definition text_at :: "string \<Rightarrow> json_value \<Rightarrow> string option" where
  "text_at key finding = Option.bind (json_get key finding) json_as_str"

definition parsed_or :: "'a \<Rightarrow> (string \<Rightarrow> 'e + 'a) \<Rightarrow> string option \<Rightarrow> 'a" where
  "parsed_or otherwise parse found =
     (case found of
        Some s \<Rightarrow> (case parse s of Inr v \<Rightarrow> v | Inl _ \<Rightarrow> otherwise) | None \<Rightarrow> otherwise)"

definition parse_finding :: "externals \<Rightarrow> string list \<Rightarrow> json_value \<Rightarrow> review_issue option" where
  "parse_finding X gate_rules finding =
     Option.bind (text_at ''rule_id'' finding) (\<lambda>rule_id.
     Option.bind (text_at ''message'' finding) (\<lambda>message.
     let severity = parsed_or Low issue_severity_from_str (text_at ''severity'' finding);
         category = parsed_or Maintainability issue_category_from_str (text_at ''category'' finding)
     in Some
       \<lparr>ri_provider = ai_review_name,
        ri_fingerprint = compute_fingerprint X ai_review_name rule_id (text_at ''file'' finding)
          message,
        ri_rule_id = rule_id, ri_category = category,
        ri_severity = (if rule_id \<in> set gate_rules then Blocker else min severity Medium),
        ri_file = text_at ''file'' finding,
        ri_line = map_option ucast (Option.bind (json_get ''line'' finding) json_as_u64),
        ri_column = None, ri_message = message, ri_help_reference = None, ri_is_new = True\<rparr>))"

definition parse_findings :: "externals \<Rightarrow> json_value \<Rightarrow> string list \<Rightarrow> review_issue list" where
  "parse_findings X response gate_rules =
     (case Option.bind (json_get ''findings'' response) json_as_array of
        None \<Rightarrow> []
      | Some findings \<Rightarrow> List.map_filter (parse_finding X gate_rules) findings)"

definition ai_review ::
    "'w quality_ports \<Rightarrow> (agent_invocation \<Rightarrow> ('w, agent_outcome) step) \<Rightarrow> ai_review_configuration
      \<Rightarrow> gate_context \<Rightarrow> ('w, review_gate_output) step" where
  "ai_review Q invoke configuration context =
     then_do (ask (qp_clock Q)) (\<lambda>started_at.
     then_do (lift_result (render_prompt (qp_digests Q) Reviewer (review_facts context))) (\<lambda>prompt.
     then_do (invoke (review_invocation context prompt)) (\<lambda>outcome.
     let issues = (case ao_structured_response outcome of
           Some response \<Rightarrow> parse_findings (qp_digests Q) response (ax_gate_rules configuration)
         | None \<Rightarrow> []);
         gated = list_ex (\<lambda>i. ri_severity i = Blocker) issues
     in
     then_do (ask (qp_clock Q)) (\<lambda>finished_at.
     ok \<lparr>rv_report = plain_report ai_review_name False (\<not> gated)
           (if gated then quality_gate_outcome.Failed else NotApplicable) issues
           started_at finished_at
           (if gated
            then Some ''a configured deterministic rule converted an advisory finding into a gate''
            else None),
         rv_artifacts = []\<rparr>))))"

definition ai_available ::
    "('w, agent_capabilities) step \<Rightarrow> ai_review_configuration \<Rightarrow> ('w, bool) step" where
  "ai_available capabilities configuration =
     (if \<not> ax_enabled configuration then ok False
      else then_do capabilities (\<lambda>found. ok (ak_available found)))"

definition ai_provider ::
    "'w quality_ports \<Rightarrow> ('w, agent_capabilities) step \<Rightarrow> (agent_invocation \<Rightarrow> ('w, agent_outcome) step)
      \<Rightarrow> ai_review_configuration \<Rightarrow> 'w review_provider" where
  "ai_provider Q capabilities invoke configuration =
     \<lparr>vp_name = ai_review_name, vp_required = False, vp_advisory = True,
      vp_available = ai_available capabilities configuration,
      vp_review = ai_review Q invoke configuration\<rparr>"

section \<open>The providers of a run\<close>

text \<open>
  \<open>review_providers\<close> of \<open>infrastructure/src/runtime.rs\<close>. \<open>agent_driver\<close> is the driver of the
  configuration, as its \<open>capabilities\<close> and its \<open>invoke\<close>.
\<close>

definition review_providers ::
    "'w quality_ports
      \<Rightarrow> ('w, ('w, agent_capabilities) step \<times> (agent_invocation \<Rightarrow> ('w, agent_outcome) step)) step
      \<Rightarrow> effective_configuration \<Rightarrow> ('w, 'w review_provider list) step" where
  "review_providers Q agent_driver configuration =
     (let quality = ef_quality configuration;
          fixed = [local_provider Q]
            @ (if ss_enabled (qc_sonar_scanner quality)
               then [scanner_provider Q (qc_sonar_scanner quality)] else [])
            @ (if sm_enabled (qc_sonar_mcp quality)
               then [mcp_provider Q (qc_sonar_mcp quality)] else [])
      in if \<not> ax_enabled (qc_ai_review quality) then ok fixed
         else then_do agent_driver (\<lambda>(capabilities, invoke).
           ok (fixed @ [ai_provider Q capabilities invoke (qc_ai_review quality)])))"

end
