(* ===== verification/Forge_Gate_Evidence.thy ===== *)
theory Forge_Gate_Evidence
  imports Forge_Providers Forge_Node_Gates
begin

text \<open>
  What the evidence of a gate stands for when the ports of the nodes are the test runner and the
  review providers: a command counts as passed only after its process ran, ended in time and exited
  successfully, and a review passes only when the tests of the baseline are still there.
\<close>

section \<open>Tests\<close>

definition clean_reading :: "command_specification \<Rightarrow> report_reading \<Rightarrow> bool" where
  "clean_reading specification reading \<longleftrightarrow>
     ts_failed (rx_summary reading) = 0
     \<and> (cs_required specification \<longrightarrow>
          \<not> rx_missing reading \<and> \<not> executed_nothing specification (rx_summary reading))"

lemma executed_nothing_iff:
  "executed_nothing specification summary \<longleftrightarrow>
     counts_executed_tests (cs_report_format specification) \<and> cs_kind specification = Test
     \<and> ts_total summary \<le> ts_skipped summary"
proof -
  have "sat_sub a b = 0 \<longleftrightarrow> a \<le> b" for a b :: u32
    by (simp add: word_le_nat_alt unat_sat_sub flip: unat_eq_0)
  then show ?thesis by (simp add: executed_nothing_def executed_tests_def)
qed

lemma record_outcome_passed:
  "record_outcome specification outcome (rx_summary reading) (rx_missing reading)
       = command_outcome.Passed \<longleftrightarrow>
     exit_is_success specification (pu_exit_code outcome) \<and> \<not> pu_timed_out outcome
     \<and> \<not> pu_cancelled outcome \<and> clean_reading specification reading"
  by (auto simp: record_outcome_def clean_reading_def word_gt_0)

text \<open>A process of the command ran in some state, and what it left is in order.\<close>

definition process_ran ::
    "'w quality_ports \<Rightarrow> gate_context \<Rightarrow> command_specification \<Rightarrow> process_outcome \<Rightarrow> 'w \<Rightarrow> bool" where
  "process_ran Q context specification outcome v \<longleftrightarrow>
     (\<exists>u request. request_for_command (qp_tree Q u) specification (gx_worktree context)
         (bd_max_output_bytes_per_stream (ef_budgets (gx_configuration context))) = Inr request
       \<and> qp_run Q request u = (Inr outcome, v))
     \<and> exit_is_success specification (pu_exit_code outcome) \<and> \<not> pu_timed_out outcome
     \<and> \<not> pu_cancelled outcome"

definition ran_clean :: "'w quality_ports \<Rightarrow> gate_context \<Rightarrow> command_specification \<Rightarrow> bool" where
  "ran_clean Q context specification \<longleftrightarrow>
     (\<exists>outcome v reading. process_ran Q context specification outcome v
       \<and> read_evidence (qp_decoders Q) (qp_tree Q v) context specification outcome = Inr reading
       \<and> clean_reading specification reading)"

definition recorded_for ::
    "'w quality_ports \<Rightarrow> gate_context \<Rightarrow> command_specification \<Rightarrow> command_execution_record \<Rightarrow> bool" where
  "recorded_for Q context specification entry \<longleftrightarrow>
     ce_command_id entry = cs_id specification \<and> ce_required entry = cs_required specification
     \<and> (ce_outcome entry = command_outcome.Passed \<longrightarrow> ran_clean Q context specification)"

lemma run_process_ran:
  assumes "run_process Q context specification w = (Inr outcome, v)"
  obtains request where "request_for_command (qp_tree Q w) specification (gx_worktree context)
      (bd_max_output_bytes_per_stream (ef_budgets (gx_configuration context))) = Inr request"
    and "qp_run Q request w = (Inr outcome, v)"
  using assms
  by (auto simp: run_process_def then_do_Inr look_def lift_result_def)

lemma build_record_entry:
  assumes "build_record X D fs context specification outcome artifacts = Inr ((entry, produced), out)"
  obtains reading where "read_evidence D fs context specification outcome = Inr reading"
    and "ce_command_id entry = cs_id specification" and "ce_required entry = cs_required specification"
    and "ce_outcome entry
      = record_outcome specification outcome (rx_summary reading) (rx_missing reading)"
  using assms by (auto simp: build_record_def Let_def)

lemma run_recorded_for:
  assumes "run_recorded Q context specification artifacts w = (Inr (entry, out), v)"
  shows "recorded_for Q context specification entry"
proof -
  from assms obtain outcome u produced where ran: "run_process Q context specification w = (Inr outcome, u)"
    and built: "build_record (qp_digests Q) (qp_decoders Q) (qp_tree Q u) context specification outcome
      artifacts = Inr ((entry, produced), out)"
    by (auto simp: run_recorded_def then_do_Inr look_def lift_result_def ok_def)
  obtain reading where
    reading: "read_evidence (qp_decoders Q) (qp_tree Q u) context specification outcome = Inr reading"
    and entry: "ce_command_id entry = cs_id specification"
      "ce_required entry = cs_required specification"
      "ce_outcome entry
        = record_outcome specification outcome (rx_summary reading) (rx_missing reading)"
    using build_record_entry [OF built] by blast
  obtain request where "request_for_command (qp_tree Q w) specification (gx_worktree context)
      (bd_max_output_bytes_per_stream (ef_budgets (gx_configuration context))) = Inr request"
    and "qp_run Q request w = (Inr outcome, u)"
    using run_process_ran [OF ran] by blast
  with reading entry show ?thesis
    by (auto simp: recorded_for_def ran_clean_def process_ran_def record_outcome_passed)
qed

lemma cancelled_recorded [simp]:
  "recorded_for Q context specification (cancelled_record specification)"
  by (simp add: recorded_for_def cancelled_record_def)

lemma run_commands_recorded:
  assumes "run_commands Q context specifications records artifacts w = (Inr (out, produced), v)"
  shows "\<exists>entries. out = records @ entries
    \<and> list_all2 (recorded_for Q context) specifications entries"
  using assms
proof (induction specifications arbitrary: records artifacts w)
  case Nil
  then show ?case by (simp add: ok_def)
next
  case (Cons c cs)
  show ?case
  proof (cases "qp_cancelled Q w")
    case True
    with Cons.prems have "run_commands Q context cs
        (records @ [cancelled_record c]) artifacts w = (Inr (out, produced), v)"
      by (simp add: then_do_def look_def)
    from Cons.IH [OF this] obtain entries where
      "out = records @ cancelled_record c # entries"
      "list_all2 (recorded_for Q context) cs entries" by auto
    then show ?thesis by (intro exI [of _ "cancelled_record c # entries"]) simp
  next
    case False
    with Cons.prems obtain entry found u where
      entry: "run_recorded Q context c artifacts w = (Inr (entry, found), u)"
      and rest: "run_commands Q context cs (records @ [entry]) found u
        = (Inr (out, produced), v)"
      by (auto simp: then_do_Inr look_def)
    from Cons.IH [OF rest] obtain entries where "out = records @ entry # entries"
      "list_all2 (recorded_for Q context) cs entries" by auto
    with run_recorded_for [OF entry] show ?thesis
      by (intro exI [of _ "entry # entries"]) simp
  qed
qed

lemma run_tests_recorded:
  assumes "run_tests Q context specifications w = (Inr output, v)"
  shows "list_all2 (recorded_for Q context) specifications (te_commands (tg_evidence output))"
proof -
  from assms obtain records artifacts where
    "run_commands Q context specifications [] [] w = (Inr (records, artifacts), v)"
    and "te_commands (tg_evidence output) = records"
    by (auto simp: run_tests_def then_do_Inr ok_def recompute_totals_def)
  with run_commands_recorded show ?thesis by fastforce
qed

text \<open>Evidence that passes stands for a clean run of every required command.\<close>

lemma passing_evidence_ran:
  assumes "run_tests Q context specifications w = (Inr output, v)"
    and "all_required_passed (tg_evidence output)"
    and "specification \<in> set specifications" and "cs_required specification"
  shows "ran_clean Q context specification"
proof -
  from assms(3) obtain i where i: "i < length specifications" "specifications ! i = specification"
    by (auto simp: in_set_conv_nth)
  let ?entries = "te_commands (tg_evidence output)"
  from run_tests_recorded [OF assms(1)] i
  have recorded: "recorded_for Q context specification (?entries ! i)"
    and len: "i < length ?entries" by (auto simp: list_all2_conv_all_nth)
  with assms(4) have "ce_required (?entries ! i)" by (simp add: recorded_for_def)
  with len assms(2) have "ce_outcome (?entries ! i) = command_outcome.Passed"
    by (auto simp: all_required_passed_def list_all_iff outcome_is_pass_def)
  with recorded show ?thesis by (simp add: recorded_for_def)
qed

lemma recompute_totals_commands [simp]:
  "all_required_passed (recompute_totals e) = all_required_passed e"
  by (simp add: recompute_totals_def all_required_passed_def)

lemma test_gate_ran:
  assumes "run_test_gate (P\<lparr>np_run_tests := run_tests Q\<rparr>) cx c gate w = (Inr (evidence, rest), v)"
    and "all_required_passed evidence"
    and "specification \<in> set (catalogue_test_phase (ef_commands (cx_configuration cx)))"
    and "cs_required specification"
  shows "ran_clean Q gate specification"
proof -
  from assms(1) obtain tests u where
    "run_tests Q gate (catalogue_test_phase (ef_commands (cx_configuration cx))) w = (Inr tests, u)"
    and "evidence = recompute_totals (tg_evidence tests)"
    by (auto simp: run_test_gate_def then_do_Inr ok_def Let_def)
  with assms show ?thesis by (auto intro: passing_evidence_ran)
qed

text \<open>The node passes a candidate on only with such evidence.\<close>

lemma test_node_ran:
  assumes "test_execute (P\<lparr>np_run_tests := run_tests Q\<rparr>) cx c w = (Inr result, v)"
    and "no_next result = Some ReviewCandidate"
    and "command \<in> set (catalogue_test_phase (ef_commands (cx_configuration cx)))"
    and "cs_required command"
  shows "\<exists>gate. gx_candidate_id gate = nc_candidate c
    \<and> gx_configuration gate = cx_configuration cx \<and> ran_clean Q gate command"
proof -
  let ?P = "P\<lparr>np_run_tests := run_tests Q\<rparr>"
  from assms(1) obtain candidate worktree baseline gate evidence artifacts printed u1 u2 u3 u4 where
    candidate: "candidate_required cx c ''the test node requires a candidate'' w = (Inr candidate, u1)"
    and gate: "prepare_gate ?P cx c (Some candidate) worktree baseline u2 = (Inr gate, u3)"
    and tests: "run_test_gate ?P cx c gate u3 = (Inr (evidence, artifacts, printed), u4)"
    and result: "result = with_evidence (printed_evidence ?P (test_input cx c candidate) printed)
       (with_metrics (test_metrics ?P cx evidence)
       (with_artifacts artifacts
       (with_event (test_event cx (Some candidate) TestCandidate evidence)
       (if all_required_passed evidence then output_succeeded (Some ReviewCandidate)
        else output_failed (tests_failure (np_externals ?P) evidence) None))))"
    unfolding test_execute_def then_do_Inr lift_result_def ok_def by auto
  from result assms(2) have "all_required_passed evidence"
    by (auto simp: with_evidence_def with_metrics_def with_artifacts_def with_event_def
      output_failed_def split: if_splits)
  from test_gate_ran [OF tests this assms(3, 4)] have "ran_clean Q gate command" .
  moreover from candidate have "nc_candidate c = Some candidate"
    by (cases "nc_candidate c") (auto simp: candidate_required_def lift_result_def)
  moreover from gate have "gx_candidate_id gate = Some candidate"
    and "gx_configuration gate = cx_configuration cx"
    by (auto simp: prepare_gate_def then_do_Inr ok_def gate_context_of_def)
  ultimately show ?thesis by metis
qed

section \<open>The local review\<close>

definition reviewed_clean :: "'w quality_ports \<Rightarrow> gate_context \<Rightarrow> command_specification \<Rightarrow> bool" where
  "reviewed_clean Q context specification \<longleftrightarrow>
     (\<exists>outcome v issues report. process_ran Q context specification outcome v
       \<and> sarif_report (qp_digests Q) (qp_decoders Q) (qp_tree Q v) context specification
           = Inr (issues, False, report))"

lemma review_command_clean:
  assumes "review_command Q context specification issues artifacts w = (Inr (True, out), v)"
    and "cs_required specification"
  shows "reviewed_clean Q context specification"
proof -
  from assms obtain outcome u found missing report where
    ran: "run_process Q context specification w = (Inr outcome, u)"
    and sarif: "sarif_report (qp_digests Q) (qp_decoders Q) (qp_tree Q u) context specification
      = Inr (found, missing, report)"
    and fine: "command_succeeded specification outcome missing"
    by (auto simp: review_command_def then_do_Inr look_def lift_result_def ok_def)
  obtain request where "request_for_command (qp_tree Q w) specification (gx_worktree context)
      (bd_max_output_bytes_per_stream (ef_budgets (gx_configuration context))) = Inr request"
    and "qp_run Q request w = (Inr outcome, u)"
    using run_process_ran [OF ran] by blast
  with fine have "process_ran Q context specification outcome u"
    by (auto simp: process_ran_def command_succeeded_def)
  moreover from fine assms(2) have "\<not> missing" by (simp add: command_succeeded_def)
  ultimately show ?thesis using sarif by (auto simp: reviewed_clean_def)
qed

lemma review_commands_clean:
  assumes "review_commands Q context cs all_passed issues artifacts w = (Inr (True, out), v)"
  shows "all_passed \<and> (\<forall>c \<in> set cs. cs_required c \<longrightarrow> reviewed_clean Q context c)"
  using assms
proof (induction cs arbitrary: all_passed issues artifacts w)
  case Nil
  then show ?case by (simp add: ok_def)
next
  case (Cons c cs)
  from Cons.prems obtain passed found produced u where
    first: "review_command Q context c issues artifacts w = (Inr (passed, found, produced), u)"
    and rest: "review_commands Q context cs (all_passed \<and> \<not> (cs_required c \<and> \<not> passed)) found
      produced u = (Inr (True, out), v)"
    by (auto simp: then_do_Inr)
  from Cons.IH [OF rest] have head: "all_passed \<and> \<not> (cs_required c \<and> \<not> passed)"
    and tail: "\<forall>c \<in> set cs. cs_required c \<longrightarrow> reviewed_clean Q context c" by auto
  from head first have "cs_required c \<Longrightarrow> reviewed_clean Q context c"
    using review_command_clean [of Q "context" c issues artifacts w "(found, produced)" u] by auto
  with head tail show ?case by auto
qed

section \<open>Existing tests\<close>

lemma each_path_covers:
  assumes "each_path f paths w = (Inr out, v)" and "path \<in> set paths"
  shows "\<exists>u u' found. f path u = (Inr found, u') \<and> set found \<subseteq> set out"
  using assms
proof (induction paths arbitrary: w out)
  case (Cons p ps)
  from Cons.prems obtain found rest u where
    first: "f p w = (Inr found, u)" and later: "each_path f ps u = (Inr rest, v)"
    and out: "out = found @ rest"
    by (auto simp: then_do_Inr ok_def)
  show ?case
  proof (cases "path = p")
    case True
    with first out show ?thesis by (intro exI [of _ w] exI [of _ u] exI [of _ found]) simp
  next
    case False
    with Cons.prems have "path \<in> set ps" by simp
    from Cons.IH [OF later this] obtain t t' issues where
      "f path t = (Inr issues, t')" "set issues \<subseteq> set rest" by blast
    with out show ?thesis by (intro exI [of _ t] exI [of _ t'] exI [of _ issues]) auto
  qed
qed simp

text \<open>What the baseline declares is declared by the worktree, and nothing more of it is skipped.\<close>

definition tests_kept :: "string \<Rightarrow> string option \<Rightarrow> bool" where
  "tests_kept baseline current \<longleftrightarrow>
     (\<exists>content. current = Some content
       \<and> count_markers baseline test_function_markers \<le> count_markers content test_function_markers
       \<and> count_markers content skip_markers \<le> count_markers baseline skip_markers)"

definition baseline_tests_kept :: "'w quality_ports \<Rightarrow> gate_context \<Rightarrow> string \<Rightarrow> bool" where
  "baseline_tests_kept Q context path \<longleftrightarrow>
     (\<exists>u v found. qp_file_at_commit Q (gx_repository context) (gx_baseline context) path u
         = (Inr found, v)
       \<and> (\<forall>baseline. found = Some baseline \<longrightarrow> utf8_valid baseline
            \<longrightarrow> is_test_path path \<or> declares_tests baseline
            \<longrightarrow> tests_kept baseline (read_current (qp_tree Q v) (gx_worktree context) path)))"

lemma path_unblocked:
  assumes "path_issues X show_f64 (qp_file_at_commit Q) (qp_tree Q) context path u = (Inr found, v)"
    and "\<not> list_ex blocks found" and "\<not> approved_by_plan context path"
  shows "baseline_tests_kept Q context path"
proof -
  from assms(1) obtain at_commit t where
    commit: "qp_file_at_commit Q (gx_repository context) (gx_baseline context) path u
      = (Inr at_commit, t)"
    and rest: "(case at_commit of
       None \<Rightarrow> ok []
     | Some bytes \<Rightarrow>
         if \<not> utf8_valid bytes then ok []
         else then_do (look (\<lambda>w. read_current (qp_tree Q w) (gx_worktree context) path)) (\<lambda>current.
           ok (compared_issues X show_f64 path bytes current (approved_by_plan context path)))) t
      = (Inr found, v)"
    unfolding path_issues_def then_do_Inr by blast
  have "tests_kept baseline (read_current (qp_tree Q t) (gx_worktree context) path)"
    if "at_commit = Some baseline" "utf8_valid baseline"
      "is_test_path path \<or> declares_tests baseline" for baseline
  proof -
    from rest that assms(3) have "found = compared_issues X show_f64 path baseline
        (read_current (qp_tree Q t) (gx_worktree context) path) False"
      by (auto simp: step_eval)
    with assms(2) unblocked_tests_intact [of X show_f64 path baseline] that(3) show ?thesis
      unfolding tests_kept_def by blast
  qed
  with commit show ?thesis by (auto simp: baseline_tests_kept_def)
qed

lemma integrity_unblocked:
  assumes "integrity_evaluate X show_f64 (qp_file_at_commit Q) (qp_tree Q) context w = (Inr out, v)"
    and "\<not> list_ex blocks out"
    and "qc_protect_existing_tests (ef_quality (gx_configuration context))"
    and "path \<in> set (gx_changed_paths context)" and "\<not> approved_by_plan context path"
  shows "baseline_tests_kept Q context path"
proof -
  from assms(1, 3) have "each_path (path_issues X show_f64 (qp_file_at_commit Q) (qp_tree Q) context)
      (gx_changed_paths context) w = (Inr out, v)"
    by (simp add: integrity_evaluate_def)
  from each_path_covers [OF this assms(4)] obtain u u' found where
    "path_issues X show_f64 (qp_file_at_commit Q) (qp_tree Q) context path u = (Inr found, u')"
    and "set found \<subseteq> set out" by blast
  moreover from this(2) assms(2) have "\<not> list_ex blocks found" by (auto simp: list_ex_iff)
  ultimately show ?thesis using path_unblocked [OF _ _ assms(5)] by metis
qed

text \<open>What a passing local review stands for.\<close>

definition review_stands :: "'w quality_ports \<Rightarrow> gate_context \<Rightarrow> bool" where
  "review_stands Q context \<longleftrightarrow>
     (\<forall>c \<in> set (catalogue_review_phase (ef_commands (gx_configuration context))).
        cs_required c \<longrightarrow> reviewed_clean Q context c)
     \<and> (\<forall>kind \<in> set (required_review_kinds (gx_configuration context)).
          \<exists>c \<in> set (catalogue_review_phase (ef_commands (gx_configuration context))). cs_kind c = kind)
     \<and> (qc_protect_existing_tests (ef_quality (gx_configuration context)) \<longrightarrow>
          (\<forall>path \<in> set (gx_changed_paths context).
             approved_by_plan context path \<or> baseline_tests_kept Q context path))"

lemma local_review_stands:
  assumes "local_review Q context w = (Inr result, v)" and "rr_passed (rv_report result)"
  shows "review_stands Q context"
proof -
  let ?c = "gx_configuration context"
  from assms(1) obtain started issues artifacts found finished passed u1 u2 u3 where
    commands: "review_commands Q context (catalogue_review_phase (ef_commands ?c)) True [] [] u1
      = (Inr (passed, issues, artifacts), u2)"
    and integrity: "integrity_evaluate (qp_digests Q) (qd_show_f64 (qp_decoders Q))
      (qp_file_at_commit Q) (qp_tree Q) context u2 = (Inr found, u3)"
    and report: "rv_report result = local_report (qp_digests Q) context
      (passed \<and> \<not> list_ex blocks found \<and> uncovered_kinds ?c = [])
      (issues @ found @ map (missing_kind_issue (qp_digests Q) ?c) (uncovered_kinds ?c))
      artifacts started finished"
    by (auto simp: local_review_def then_do_Inr ok_def Let_def)
  from report assms(2) have passed and unblocked: "\<not> list_ex blocks found"
    and kinds: "uncovered_kinds ?c = []" by (simp_all add: local_report_def)
  with commands have "\<forall>c \<in> set (catalogue_review_phase (ef_commands ?c)).
      cs_required c \<longrightarrow> reviewed_clean Q context c"
    using review_commands_clean by fastforce
  moreover from kinds have "\<forall>kind \<in> set (required_review_kinds ?c).
      \<exists>c \<in> set (catalogue_review_phase (ef_commands ?c)). cs_kind c = kind"
    by (auto simp: uncovered_kinds_def filter_empty_conv list_ex_iff)
  moreover from integrity_unblocked [OF integrity unblocked]
  have "qc_protect_existing_tests (ef_quality ?c) \<longrightarrow>
      (\<forall>path \<in> set (gx_changed_paths context).
         approved_by_plan context path \<or> baseline_tests_kept Q context path)" by blast
  ultimately show ?thesis by (simp add: review_stands_def)
qed

section \<open>The review node\<close>

lemma providers_step:
  assumes "run_providers_from (p # ps) gate reports artifacts duration w = (Inr (review, rest), v)"
  obtains added a d u where "run_providers_from ps gate (reports @ added) a d u = (Inr (review, rest), v)"
proof -
  from assms obtain available u where step: "(if \<not> available then if vp_required p
        then stop (QualityProvider (''the required review provider `'' @ vp_name p
          @ ''` is not available''))
        else run_providers_from ps gate reports artifacts duration
      else then_do (vp_review p gate) (\<lambda>found.
        then_do (lift_result (lift_domain (review_report_validate (rv_report found)))) (\<lambda>_.
        run_providers_from ps gate (reports @ [rv_report found]) (artifacts @ rv_artifacts found)
          (sat_add duration (duration_since (rr_finished_at (rv_report found))
            (rr_started_at (rv_report found))))))) u = (Inr (review, rest), v)"
    by (auto simp: then_do_Inr)
  show thesis
  proof (cases available)
    case True
    with step obtain r a d t where
      "run_providers_from ps gate (reports @ [r]) a d t = (Inr (review, rest), v)"
      by (auto simp: then_do_Inr lift_result_def)
    then show thesis by (rule that)
  next
    case False
    with step have "run_providers_from ps gate (reports @ []) artifacts duration u
        = (Inr (review, rest), v)"
      by (auto simp: stop_def split: if_splits)
    then show thesis by (rule that)
  qed
qed

lemma providers_keep_reports:
  "run_providers_from providers gate reports artifacts duration w = (Inr (review, rest), v)
     \<Longrightarrow> set reports \<subseteq> set (ag_reports review)"
proof (induction providers arbitrary: reports artifacts duration w)
  case (Cons p ps)
  from Cons.prems obtain added a d u where
    "run_providers_from ps gate (reports @ added) a d u = (Inr (review, rest), v)"
    by (rule providers_step)
  from Cons.IH [OF this] show ?case by simp
qed (auto simp: ok_def)

lemma providers_report:
  assumes "run_providers_from providers gate reports artifacts duration w = (Inr (review, rest), v)"
    and "provider \<in> set providers" and "vp_available provider = ok True"
  shows "\<exists>u u' found. vp_review provider gate u = (Inr found, u')
    \<and> rv_report found \<in> set (ag_reports review)"
  using assms
proof (induction providers arbitrary: reports artifacts duration w)
  case (Cons p ps)
  show ?case
  proof (cases "provider = p")
    case True
    with Cons.prems obtain found u u' a d where "vp_review p gate u = (Inr found, u')"
      and rest: "run_providers_from ps gate (reports @ [rv_report found]) a d u'
        = (Inr (review, rest), v)"
      by (auto simp: then_do_Inr ok_def lift_result_def)
    moreover from providers_keep_reports [OF rest] have "rv_report found \<in> set (ag_reports review)"
      by simp
    ultimately show ?thesis using True by blast
  next
    case False
    with Cons.prems have "provider \<in> set ps" by simp
    from Cons.prems(1) obtain added a d u where
      "run_providers_from ps gate (reports @ added) a d u = (Inr (review, rest), v)"
      by (rule providers_step)
    from Cons.IH [OF this \<open>provider \<in> set ps\<close> Cons.prems(3)] show ?thesis .
  qed
qed simp

lemma local_provider_listed:
  assumes "review_providers Q driver configuration w = (Inr providers, v)"
  shows "local_provider Q \<in> set providers"
  using assms by (auto simp: review_providers_def then_do_Inr ok_def Let_def split: if_splits)

lemma local_provider_simps [simp]:
  "vp_available (local_provider Q) = ok True" "vp_review (local_provider Q) = local_review Q"
  by (simp_all add: local_provider_def)

lemma local_review_required:
  "local_review Q context w = (Inr result, v) \<Longrightarrow> rr_required (rv_report result)"
  by (auto simp: local_review_def then_do_Inr ok_def Let_def local_report_def)

lemma passed_gate_stands:
  assumes "run_providers (P\<lparr>np_reviews := providers\<rparr>) gate w = (Inr (review, rest), v)"
    and "local_provider Q \<in> set providers" and "review_gate_passed review"
  shows "review_stands Q gate"
proof -
  from assms(1) have "run_providers_from providers gate [] [] 0 w = (Inr (review, rest), v)"
    by (simp add: run_providers_def)
  from providers_report [OF this assms(2)] obtain u u' found where
    found: "local_review Q gate u = (Inr found, u')"
    and listed: "rv_report found \<in> set (ag_reports review)" by auto
  from local_review_required [OF found] listed assms(3) have "rr_passed (rv_report found)"
    by (auto simp: review_gate_passed_def required_reports_passed_def list_all_iff)
  with found show ?thesis by (rule local_review_stands)
qed

lemma review_node_stands:
  assumes "local_provider Q \<in> set providers"
    and "review_execute (P\<lparr>np_reviews := providers\<rparr>) cx c w = (Inr result, v)"
    and "sp_candidate_status (no_state_patch result) = Some Eligible"
  shows "\<exists>gate. gx_candidate_id gate = nc_candidate c
    \<and> gx_configuration gate = cx_configuration cx \<and> review_stands Q gate"
proof -
  let ?P = "P\<lparr>np_reviews := providers\<rparr>"
  from assms(2) obtain candidate worktree baseline gate review stored duration printed u1 u2 u3 u4 where
    candidate: "candidate_required cx c ''the review node requires a candidate'' w = (Inr candidate, u1)"
    and gate: "prepare_gate ?P cx c (Some candidate) worktree baseline u2 = (Inr gate, u3)"
    and reviewed: "run_review_gate ?P cx c gate u3 = (Inr (review, stored, duration, printed), u4)"
    and result: "result = with_evidence (printed_evidence ?P (review_input cx c candidate) printed)
       (with_metrics (review_metrics_json review duration)
       (if review_gate_passed review
        then with_patch (state_patch_default\<lparr>sp_candidate_status := Some Eligible\<rparr>)
          (with_artifacts stored
          (with_event (review_event (Some candidate) ReviewCandidate review duration)
          (output_succeeded (Some Join))))
        else with_artifacts stored
          (with_event (review_event (Some candidate) ReviewCandidate review duration)
          (output_failed (review_failure (np_externals ?P) review) None))))"
    unfolding review_execute_def then_do_Inr lift_result_def ok_def by auto
  from result assms(3) have passed: "review_gate_passed review"
    by (auto simp: output_simps state_patch_default_def split: if_splits)
  from reviewed obtain rest u where "run_providers ?P gate u3 = (Inr (review, rest), u)"
    by (auto simp: run_review_gate_def then_do_Inr ok_def)
  from passed_gate_stands [OF this assms(1) passed] have "review_stands Q gate" .
  moreover from candidate have "nc_candidate c = Some candidate"
    by (cases "nc_candidate c") (auto simp: candidate_required_def lift_result_def)
  moreover from gate have "gx_candidate_id gate = Some candidate"
    and "gx_configuration gate = cx_configuration cx"
    by (auto simp: prepare_gate_def then_do_Inr ok_def gate_context_of_def)
  ultimately show ?thesis by metis
qed

section \<open>The advisory review\<close>

definition reads_only :: "gate_context \<Rightarrow> agent_invocation \<Rightarrow> bool" where
  "reads_only context invocation \<longleftrightarrow>
     ai_role invocation = Reviewer \<and> ai_worktree invocation = gx_worktree context
     \<and> \<not> may_change_files (ai_tool_policy invocation) \<and> ai_commands invocation = []
     \<and> tp_path_policy (ai_tool_policy invocation) = ef_path_policy (gx_configuration context)
     \<and> ai_network invocation = ac_network (ef_agent (gx_configuration context))"

lemma review_invocation_reads: "reads_only context (review_invocation context prompt)"
  by (simp add: reads_only_def review_invocation_def Let_def tool_policy_read_only_def
      may_change_files_def)

lemma advisory_invocation:
  "ai_review Q (\<lambda>invocation. if reads_only context invocation then invoke invocation
     else otherwise invocation) configuration context = ai_review Q invoke configuration context"
  by (simp add: ai_review_def review_invocation_reads)

lemma parse_finding_capped:
  assumes "parse_finding X gate_rules finding = Some i" and "Medium < ri_severity i"
  shows "ri_rule_id i \<in> set gate_rules"
proof (rule ccontr)
  assume "ri_rule_id i \<notin> set gate_rules"
  with assms(1) obtain severity where "ri_severity i = min severity Medium"
    by (auto simp: parse_finding_def Let_def bind_eq_Some_conv split: if_splits)
  with assms(2) show False by simp
qed

lemma parse_findings_capped:
  assumes "i \<in> set (parse_findings X response gate_rules)" and "Medium < ri_severity i"
  shows "ri_rule_id i \<in> set gate_rules"
  using assms parse_finding_capped
  by (auto simp: parse_findings_def List.map_filter_def split: option.splits)

definition findings_of ::
    "externals \<Rightarrow> ai_review_configuration \<Rightarrow> agent_outcome \<Rightarrow> review_issue list" where
  "findings_of X configuration outcome =
     (case ao_structured_response outcome of
        Some response \<Rightarrow> parse_findings X response (ax_gate_rules configuration) | None \<Rightarrow> [])"

lemma findings_capped:
  "i \<in> set (findings_of X configuration outcome) \<Longrightarrow> Medium < ri_severity i
     \<Longrightarrow> ri_rule_id i \<in> set (ax_gate_rules configuration)"
  by (auto simp: findings_of_def dest: parse_findings_capped split: option.splits)

lemma ai_review_report:
  assumes "ai_review Q invoke configuration context w = (Inr result, v)"
  obtains outcome where
    "rr_issues (rv_report result) = findings_of (qp_digests Q) configuration outcome"
    and "rr_passed (rv_report result) \<longleftrightarrow>
      \<not> list_ex (\<lambda>i. ri_severity i = Blocker) (findings_of (qp_digests Q) configuration outcome)"
    and "\<not> rr_required (rv_report result)"
  using assms
  by (auto simp: ai_review_def then_do_Inr ok_def Let_def plain_report_def findings_of_def)

lemma ai_review_gated:
  assumes "ai_review Q invoke configuration context w = (Inr result, v)"
  shows "i \<in> set (rr_issues (rv_report result)) \<Longrightarrow> Medium < ri_severity i
      \<Longrightarrow> ri_rule_id i \<in> set (ax_gate_rules configuration)"
    and "\<not> rr_passed (rv_report result) \<Longrightarrow>
      \<exists>i \<in> set (rr_issues (rv_report result)). ri_rule_id i \<in> set (ax_gate_rules configuration)"
    and "\<not> rr_required (rv_report result)"
proof -
  obtain outcome where issues:
      "rr_issues (rv_report result) = findings_of (qp_digests Q) configuration outcome"
    and passed: "rr_passed (rv_report result) \<longleftrightarrow>
      \<not> list_ex (\<lambda>i. ri_severity i = Blocker) (findings_of (qp_digests Q) configuration outcome)"
    and optional: "\<not> rr_required (rv_report result)"
    using ai_review_report [OF assms] by blast
  show "ri_rule_id i \<in> set (ax_gate_rules configuration)"
    if "i \<in> set (rr_issues (rv_report result))" "Medium < ri_severity i"
    using that findings_capped by (simp add: issues)
  show "\<exists>i \<in> set (rr_issues (rv_report result)). ri_rule_id i \<in> set (ax_gate_rules configuration)"
    if "\<not> rr_passed (rv_report result)"
    using that findings_capped [of _ "qp_digests Q" configuration outcome]
    by (auto simp: issues passed list_ex_iff less_issue_severity_def intro!: bexI)
  show "\<not> rr_required (rv_report result)" by (rule optional)
qed

end
