(* ===== verification/Forge_Gate_Samples.thy ===== *)
theory Forge_Gate_Samples
  imports Forge_Gate_Evidence Forge_Node_Samples Forge_Filesystem_Samples
begin

text \<open>
  The gates on ports that answer at once: every directory is there, the file \<open>lib.rs\<close> declares a
  test in the baseline and in the worktree, every process exits with zero and prints one line, the
  record of a test that succeeded.
\<close>

definition open_tree :: filesystem where
  "open_tree =
     \<lparr>fy_node = (\<lambda>p. Some (if p \<noteq> [] \<and> last p = ''lib.rs'' then RegularNode ''#[test]''
        else DirectoryNode)),
      fy_fault = (\<lambda>p. None), fy_links = 40, fy_current = []\<rparr>"

definition sample_stdout :: string where
  "sample_stdout = ''ok''"

definition sample_decoders :: report_decoders where
  "sample_decoders =
     \<lparr>qd_xml_events = (\<lambda>s. []), qd_cargo_event = (\<lambda>s. Some \<lparr>ce2_kind = Some ''test'',
        ce2_event = Some s, ce2_name = None, ce2_stdout = None, ce2_passed = None, ce2_failed = None,
        ce2_ignored = None\<rparr>), qd_go_event = (\<lambda>s. None),
      qd_sarif = (\<lambda>s. Inr []), qd_mcp_evidence = (\<lambda>s. None), qd_show_f64 = (\<lambda>x. [])\<rparr>"

definition sample_outcome :: process_outcome where
  "sample_outcome =
     \<lparr>pu_exit_code = Some 0, pu_signal = None, pu_timed_out = False, pu_cancelled = False,
      pu_duration = 5, pu_stdout = sample_stdout, pu_stderr = [], pu_stdout_truncated = False,
      pu_stderr_truncated = False, pu_process_id = None, pu_children_terminated = 0\<rparr>"

definition sample_quality :: "unit quality_ports" where
  "sample_quality =
     \<lparr>qp_run = (\<lambda>request. ok sample_outcome), qp_probe_executable = (\<lambda>program. ok None),
      qp_cancelled = (\<lambda>w. False),
      qp_file_at_commit = (\<lambda>repository commit path. ok (Some ''#[test]'')),
      qp_clock = (\<lambda>w. (0, w)), qp_variable = (\<lambda>w name. None), qp_tree = (\<lambda>w. open_tree),
      qp_digests = sample_crates, qp_decoders = sample_decoders\<rparr>"

definition counted_command :: command_specification where
  "counted_command = (sample_command Test ''test'')\<lparr>cs_report_format := CargoTestJson\<rparr>"

definition gate_run_context :: run_context where
  "gate_run_context = sample_context\<lparr>cx_configuration := sample_configuration\<lparr>ef_commands :=
     [counted_command, sample_command Lint ''lint'']\<rparr>\<rparr>"

definition gate_ports :: "unit node_ports" where
  "gate_ports = sample_ports\<lparr>np_store_artifact := (\<lambda>run label path bytes truncated.
     ok \<lparr>sa_id = ''h'', sa_label = label, sa_relative_path = path, sa_media_type = [],
       sa_byte_length = 0, sa_truncated = truncated\<rparr>)\<rparr>"

definition gate_call :: "node_id \<Rightarrow> node_call" where
  "gate_call node = (sample_call node)\<lparr>nc_candidate := Some ''c01-0000''\<rparr>"

lemma counted_command_fields:
  "cs_required counted_command" "cs_kind counted_command = Test"
  "counts_executed_tests (cs_report_format counted_command)"
  by (simp_all add: counted_command_def sample_command_def counts_executed_tests_def)

section \<open>What is read\<close>

lemma sample_text: "utf8_valid ''#[test]''" "utf8_valid sample_stdout"
  by (simp_all add: sample_stdout_def byte_def)

lemma sample_line: "lines sample_stdout = [''ok'']"
  by (simp add: lines_def sample_stdout_def newline_def chr_is)

lemma sample_report_read:
  "parse_cargo_test_json (qd_cargo_event sample_decoders) (stdout_text sample_outcome)
     = test_summary_default\<lparr>ts_total := 1\<rparr>"
proof -
  have "stdout_text sample_outcome = sample_stdout"
    using sample_text(2) by (simp add: stdout_text_def sample_outcome_def utf8_lossy_valid)
  then show ?thesis
    by (simp add: parse_cargo_test_json_def decoded_lines_def sample_line sample_decoders_def
        List.map_filter_def cargo_event_def add_passed_def test_summary_default_def)
qed

lemma open_node:
  "node_at open_tree p = Inr (if p \<noteq> [] \<and> last p = ''lib.rs'' then RegularNode ''#[test]''
     else DirectoryNode)"
  by (simp add: node_at_def open_tree_def)

lemma open_directory:
  "here = [] \<or> last here \<noteq> ''lib.rs'' \<Longrightarrow> c \<noteq> ''..'' \<Longrightarrow>
     resolve open_tree links here (c # cs) =
       (if c = ''lib.rs'' \<and> cs \<noteq> [] then Inl (Fault not_a_directory)
        else resolve open_tree links (here @ [c]) cs)"
  by (cases cs) (auto simp: open_node)

lemma slash_absolute [simp]: "is_absolute (CHR ''/'' # s)"
  by (simp add: is_absolute_def starts_with_def)

lemma open_worktree: "canonical_root open_tree ''/data/worktree'' = Inr [''data'', ''worktree'']"
proof -
  have parts: "components ''/data/worktree'' = [''data'', ''worktree'']"
    by (simp add: components_def)
  show ?thesis
    by (simp add: canonical_root_def canonicalize_def parts open_directory
        del: resolve.simps(2))
qed

lemma open_current: "read_current open_tree ''/data/worktree'' ''src/lib.rs'' = Some ''#[test]''"
proof -
  have parts: "components ''/data/worktree/src/lib.rs'' = [''data'', ''worktree'', ''src'', ''lib.rs'']"
    by (simp add: components_def)
  have "canonicalize open_tree ''/data/worktree/src/lib.rs'' = Inr [''data'', ''worktree'', ''src'', ''lib.rs'']"
    by (simp add: canonicalize_def parts open_directory del: resolve.simps(2))
  moreover have not_absolute: "\<not> is_absolute ''src/lib.rs''"
    by (simp add: is_absolute_def starts_with_def)
  ultimately show ?thesis
    by (simp add: read_current_def read_text_file_def joined_def open_node sample_text
        del: utf8_valid.simps)
qed

section \<open>Commands\<close>

lemma sample_quality_fields [simp]:
  "qp_run sample_quality request w = (Inr sample_outcome, w)" "qp_tree sample_quality w = open_tree"
  "qp_cancelled sample_quality w = False" "qp_clock sample_quality w = (0, w)"
  "qp_decoders sample_quality = sample_decoders"
  "qp_file_at_commit sample_quality repository commit path w = (Inr (Some ''#[test]''), w)"
  by (simp_all add: sample_quality_def ok_def)

lemma sample_process:
  assumes "gx_worktree gate = ''/data/worktree''" and "cs_working_subdirectory command = None"
  shows "run_process sample_quality gate command w = (Inr sample_outcome, w)"
  using assms
  by (simp add: run_process_def step_eval request_for_command_def confined_working_directory_def
      open_worktree)

lemma sample_recorded:
  assumes "gx_worktree gate = ''/data/worktree''"
  shows "\<exists>entry out. run_recorded sample_quality gate counted_command artifacts w = (Inr (entry, out), w)
    \<and> ce_outcome entry = command_outcome.Passed"
proof -
  have counted: "cs_working_subdirectory counted_command = None"
    "cs_report_format counted_command = CargoTestJson" "cs_kind counted_command = Test"
    "cs_success_exit_codes counted_command = []"
    by (simp_all add: counted_command_def sample_command_def)
  have reading: "read_evidence sample_decoders open_tree gate counted_command sample_outcome
      = Inr (no_reading\<lparr>rx_summary := test_summary_default\<lparr>ts_total := 1\<rparr>\<rparr>)"
    by (simp add: read_evidence_def counted sample_report_read)
  have "record_outcome counted_command sample_outcome (test_summary_default\<lparr>ts_total := 1\<rparr>) False
      = command_outcome.Passed"
    by (simp add: record_outcome_def executed_nothing_def executed_tests_def counted
        sample_outcome_def exit_is_success_def test_summary_default_def sat_sub_def saturate_def
        counts_executed_tests_def)
  then show ?thesis
    by (simp add: run_recorded_def sample_process assms counted step_eval build_record_def reading
        no_reading_def Let_def)
qed

lemma sample_run_tests:
  assumes "gx_worktree gate = ''/data/worktree''"
  shows "\<exists>out. run_tests sample_quality gate [counted_command] w = (Inr out, w)
    \<and> all_required_passed (tg_evidence out)"
proof -
  obtain entry out where "run_recorded sample_quality gate counted_command [] w = (Inr (entry, out), w)"
    and "ce_outcome entry = command_outcome.Passed"
    using sample_recorded [OF assms] by blast
  then show ?thesis
    by (simp add: run_tests_def step_eval all_required_passed_def recompute_totals_def
        outcome_is_pass_def)
qed

section \<open>The nodes\<close>

definition sample_gate :: gate_context where
  "sample_gate = gate_context_of gate_run_context (Some ''c01-0000'') ''/data/worktree'' ''b''
     [''src/lib.rs''] []"

lemma sample_gate_prepared:
  "np_changed_paths P = np_changed_paths gate_ports \<Longrightarrow>
   prepare_gate P gate_run_context (gate_call node) (Some ''c01-0000'') ''/data/worktree'' ''b'' w
     = (Inr sample_gate, w)"
  by (simp add: prepare_gate_def gate_ports_def unwrap_or_def caught_def step_eval
      plan_expected_files_def gate_call_def sample_call_def plan_current_def
      plan_history_default_def sample_gate_def)

lemma sample_worktree:
  "np_facts P = np_facts gate_ports \<Longrightarrow>
   candidate_worktree P gate_run_context (gate_call node) ''c01-0000'' w = (Inr ''/data/worktree'', w)"
  by (simp add: candidate_worktree_def step_eval gate_call_def sample_call_def integrating_run_def
      candidate_of_def sample_candidate_def candidate_record_new_def resolve_worktree_def
      heikas_home_def gate_ports_def path_join_def starts_with_def ends_with_def)

lemma gate_call_fields [simp]:
  "nc_candidate (gate_call node) = Some ''c01-0000''"
  "call_baseline (gate_call node) = Inr ''b''" "nc_attempt (gate_call node) = 1"
  by (simp_all add: gate_call_def sample_call_def call_baseline_def)

lemma gate_commands:
  "catalogue_test_phase (ef_commands (cx_configuration gate_run_context)) = [counted_command]"
  "catalogue_review_phase (ef_commands (cx_configuration gate_run_context)) = [sample_command Lint ''lint'']"
  by (simp_all add: catalogue_test_phase_def catalogue_review_phase_def is_review_phase_def
      is_test_phase_def gate_run_context_def sample_configuration_def counted_command_def
      sample_command_def)

lemma sample_stored:
  "np_store_artifact P = np_store_artifact gate_ports \<Longrightarrow>
     \<exists>refs. store_artifacts P cx artifacts references w = (Inr refs, w)"
  by (induction artifacts arbitrary: references) (simp_all add: step_eval gate_ports_def)

lemma sample_test_node:
  "\<exists>result. test_execute (gate_ports\<lparr>np_run_tests := run_tests sample_quality\<rparr>) gate_run_context
       (gate_call TestCandidate) () = (Inr result, ())
     \<and> no_next result = Some ReviewCandidate"
proof -
  let ?P = "gate_ports\<lparr>np_run_tests := run_tests sample_quality\<rparr>"
  have "gx_worktree sample_gate = ''/data/worktree''" by (simp add: sample_gate_def gate_context_of_def)
  from sample_run_tests [OF this] obtain out where
    tests: "run_tests sample_quality sample_gate [counted_command] () = (Inr out, ())"
    and passed: "all_required_passed (tg_evidence out)" by blast
  obtain refs where "store_artifacts ?P gate_run_context (tg_artifacts out) [] () = (Inr refs, ())"
    using sample_stored [of ?P] by fastforce
  moreover have "np_write_test_evidence gate_ports = (\<lambda>run candidate attempt tests. ok ())"
    "np_tests_json gate_ports = (\<lambda>tests. Inr [])"
    by (simp_all add: gate_ports_def sample_ports_def)
  ultimately have "\<exists>rest. run_test_gate ?P gate_run_context (gate_call TestCandidate) sample_gate ()
      = (Inr (recompute_totals (tg_evidence out), rest), ())"
    by (simp add: run_test_gate_def gate_commands tests step_eval Let_def)
  with passed show ?thesis
    by (auto simp: test_execute_def candidate_required_def step_eval sample_worktree
        sample_gate_prepared output_simps)
qed

lemma sample_local_review:
  "\<exists>result. local_review sample_quality sample_gate () = (Inr result, ())
     \<and> rr_passed (rv_report result) \<and> review_report_validate (rv_report result) = Inr ()"
proof -
  have gate: "gx_worktree sample_gate = ''/data/worktree''" "gx_changed_paths sample_gate = [''src/lib.rs'']"
    "gx_configuration sample_gate = cx_configuration gate_run_context"
    "gx_plan_expected_files sample_gate = []"
    by (simp_all add: sample_gate_def gate_context_of_def)
  have kept: "compared_issues X show_f64 path ''#[test]'' (Some ''#[test]'') False = []"
    if "\<not> is_quality_configuration path" for X show_f64 path
    using that by (simp add: compared_issues_def configuration_issues_def test_file_issues_def
        issue_when_def Let_def)
  have "\<not> is_quality_configuration ''src/lib.rs''"
    by (simp add: is_quality_configuration_def quality_configuration_files_def Let_def
        to_ascii_lowercase_def ends_with_def ascii_lower_def is_ascii_uppercase_def
        byte_def)
  then have integrity: "integrity_evaluate X show_f64 (qp_file_at_commit sample_quality)
      (qp_tree sample_quality) sample_gate () = (Inr [], ())" for X show_f64
    by (simp add: integrity_evaluate_def gate path_issues_def step_eval sample_text open_current kept
        approved_by_plan_def)
  have lint: "cs_working_subdirectory (sample_command Lint ''lint'') = None"
    "cs_report_format (sample_command Lint ''lint'') = NoReport"
    "cs_success_exit_codes (sample_command Lint ''lint'') = []"
    by (simp_all add: sample_command_def)
  have "command_succeeded (sample_command Lint ''lint'') sample_outcome False"
    by (simp add: command_succeeded_def sample_outcome_def exit_is_success_def lint)
  then have "\<exists>issues artifacts. review_commands sample_quality sample_gate
      [sample_command Lint ''lint''] True [] [] () = (Inr (True, issues, artifacts), ())"
    by (simp add: review_command_def sample_process gate lint step_eval sarif_report_def)
  moreover have "required_review_kinds (cx_configuration gate_run_context) = [Lint]"
    by (simp add: required_review_kinds_def gate_run_context_def sample_configuration_def)
  then have "uncovered_kinds (cx_configuration gate_run_context) = []"
    by (simp add: uncovered_kinds_def gate_commands) (simp add: sample_command_def)
  moreover have "trim ''local'' \<noteq> []"
    by (simp add: trim_plain plain_char_def byte_def)
  ultimately show ?thesis
    by (auto simp: local_review_def ask_def step_eval gate gate_commands integrity Let_def
        local_report_def review_report_validate_iff review_report_schema_version_def
        local_provider_name_def)
qed

definition no_driver ::
    "(unit, (unit, agent_capabilities) step \<times> (agent_invocation \<Rightarrow> (unit, agent_outcome) step)) step" where
  "no_driver = stop (Internal ''agent'')"

lemma sample_review_providers:
  "review_providers sample_quality no_driver (cx_configuration gate_run_context) ()
     = (Inr [local_provider sample_quality], ())"
  by (simp add: review_providers_def gate_run_context_def sample_configuration_def
      quality_configuration_default_def ok_def Let_def)

lemma sample_review_node:
  "\<exists>result. review_execute (gate_ports\<lparr>np_reviews := [local_provider sample_quality]\<rparr>)
       gate_run_context (gate_call ReviewCandidate) () = (Inr result, ())
     \<and> sp_candidate_status (no_state_patch result) = Some Eligible"
proof -
  let ?P = "gate_ports\<lparr>np_reviews := [local_provider sample_quality]\<rparr>"
  obtain reviewed where review: "local_review sample_quality sample_gate () = (Inr reviewed, ())"
    and passed: "rr_passed (rv_report reviewed)"
    and valid: "review_report_validate (rv_report reviewed) = Inr ()"
    using sample_local_review by blast
  from valid have "\<exists>rest. run_providers ?P sample_gate ()
      = (Inr (\<lparr>ag_reports = [rv_report reviewed]\<rparr>, rest), ())"
    by (simp add: run_providers_def step_eval review lift_domain_def)
  then obtain artifacts duration where ran: "run_providers ?P sample_gate ()
      = (Inr (\<lparr>ag_reports = [rv_report reviewed]\<rparr>, artifacts, duration), ())" by auto
  obtain refs where "store_artifacts ?P gate_run_context artifacts [] () = (Inr refs, ())"
    using sample_stored [of ?P] by fastforce
  moreover have "np_write_review gate_ports = (\<lambda>run candidate attempt review. ok ())"
    "np_review_json gate_ports = (\<lambda>review. Inr [])"
    by (simp_all add: gate_ports_def sample_ports_def)
  ultimately have "\<exists>rest. run_review_gate ?P gate_run_context (gate_call ReviewCandidate) sample_gate ()
      = (Inr (\<lparr>ag_reports = [rv_report reviewed]\<rparr>, rest), ())"
    by (simp add: run_review_gate_def ran step_eval)
  moreover have "review_gate_passed \<lparr>ag_reports = [rv_report reviewed]\<rparr>"
    using passed local_review_required [OF review]
    by (simp add: review_gate_passed_def required_reports_passed_def has_required_provider_def)
  ultimately show ?thesis
    by (auto simp: review_execute_def candidate_required_def step_eval sample_worktree
        sample_gate_prepared output_simps state_patch_default_def)
qed

section \<open>An advisory finding\<close>

definition sample_finding :: json_value where
  "sample_finding = JObject
     [(''findings'', JArray [JObject [(''rule_id'', JString ''unsafe''), (''message'', JString ''m''),
        (''severity'', JString ''low'')]])]"

definition sample_agent :: agent_outcome where
  "sample_agent =
     \<lparr>ao_exit_reason = AgentCompleted, ao_model_identity = [], ao_driver = LocalAgent,
      ao_tool_calls = [], ao_usage = \<lparr>us_input_tokens = None, us_output_tokens = None,
        us_cost_minor_units = None, us_cost_currency = None\<rparr>,
      ao_structured_response = Some sample_finding, ao_stdout = [], ao_stderr = [],
      ao_changed_paths = [], ao_duration = 0, ao_diagnostics = []\<rparr>"

lemma sample_findings:
  "\<exists>i. parse_findings X sample_finding rules = [i] \<and> ri_rule_id i = ''unsafe''
     \<and> ri_severity i = (if ''unsafe'' \<in> set rules then Blocker else Low)"
proof -
  have "parsed_or Low issue_severity_from_str (Some ''low'') = Low"
    by (simp add: parsed_or_def issue_severity_from_str_def to_ascii_lowercase_def Let_def
        ascii_lower_def is_ascii_uppercase_def byte_def
        severity_strings.parse_as_str [of _ Low, simplified])
  then show ?thesis
    by (simp add: parse_findings_def sample_finding_def parse_finding_def text_at_def
        List.map_filter_def Let_def min_def less_eq_issue_severity_def)
qed

lemma sample_advice:
  "\<exists>result v. ai_review sample_quality (\<lambda>invocation. ok sample_agent)
       \<lparr>ax_enabled = True, ax_advisory_only = True, ax_gate_rules = rules\<rparr> sample_gate () = (Inr result, v)
     \<and> rr_passed (rv_report result) = (''unsafe'' \<notin> set rules)"
proof -
  obtain i where found: "parse_findings (qp_digests sample_quality) sample_finding rules = [i]"
    and i: "ri_severity i = (if ''unsafe'' \<in> set rules then Blocker else Low)"
    using sample_findings by blast
  have "\<exists>prompt. render_prompt X Reviewer facts = Inr prompt" for X facts
    by (simp add: render_prompt_def)
  then obtain prompt where "render_prompt (qp_digests sample_quality) Reviewer
      (review_facts sample_gate) = Inr prompt" by blast
  then show ?thesis
    by (simp add: ai_review_def ask_def step_eval sample_agent_def found i Let_def plain_report_def)
qed

end
