(* ===== verification/Spec2Isabelle.thy ===== *)
theory Spec2Isabelle
  imports Forge_Service_Samples Forge_Errors Forge_Ranking Forge_Paths Forge_Commands
    Forge_Filesystem_Samples Forge_Resolver_Samples Forge_Gate_Samples
begin

text \<open>
  HeikasForge runs coding agents on a repository: a run writes a plan, asks for its approval, lets
  several candidates implement it in worktrees of their own, tests, reviews and repairs them, ranks
  the eligible ones, integrates the winner behind final gates and commits it. Everything a run does
  is an event in an append-only file of hash-chained records; the state of a run is the projection
  of its events, and the scheduler decides the next step from the projection alone.

  \<^bold>\<open>Theories\<close>

  \<^item> \<open>Forge_Prelude\<close>, \<open>Forge_Text\<close>: machine integers with the saturating operations of the standard
    library, \<open>Result\<close> as a sum with \<open>and_then\<close> for the \<open>?\<close> operator, loops that stop at the first
    error, and the string operations the sources use.
  \<^item> \<open>Forge_Vocabulary\<close>: the shared enumerations and two interfaces as locales, \<open>string_enum\<close> (an
    enumeration with distinct printed forms and the parser that searches them) and
    \<open>transition_table\<close> (a status machine given by its allowed successors). Both are interpreted on
    every enumeration and status machine of the domain crate.
  \<^item> \<open>Forge_Run\<close> (\<open>run.rs\<close>), \<open>Forge_Graph\<close> (\<open>graph.rs\<close>), \<open>Forge_Clock\<close> (\<open>clock.rs\<close>), \<open>Forge_Float\<close>
    (the double-precision operations that are used), \<open>Forge_Failure\<close> (\<open>failure.rs\<close>, \<open>retry.rs\<close>,
    \<open>budget.rs\<close>), \<open>Forge_Identity\<close> (\<open>identity.rs\<close>), \<open>Forge_Paths\<close> (\<open>path_policy.rs\<close>),
    \<open>Forge_Review\<close> (\<open>review.rs\<close>), \<open>Forge_Commands\<close> (\<open>command.rs\<close>, \<open>test_evidence.rs\<close>),
    \<open>Forge_Score\<close> and \<open>Forge_Ranking\<close> (\<open>score.rs\<close>), \<open>Forge_Candidate\<close> (\<open>candidate.rs\<close>),
    \<open>Forge_Plan\<close> (\<open>plan.rs\<close>), \<open>Forge_Node\<close> (\<open>node.rs\<close>), \<open>Forge_Event\<close> (\<open>event.rs\<close>) and \<open>Forge_State\<close>
    (\<open>state.rs\<close>): the domain crate, one record per struct, one datatype per enumeration and one
    definition per function.
  \<^item> \<open>Forge_Replay\<close>, \<open>Forge_History\<close>, \<open>Forge_Walks\<close>: what the reducer keeps. The first proves the
    invariant \<open>projection_wf\<close> for every payload, the second relates replaying, catching up and the
    hash chain, the third follows statuses, candidates and attempts through a history.
  \<^item> \<open>Forge_Scheduler\<close> (\<open>engine/scheduler.rs\<close>) and \<open>Forge_Errors\<close> (\<open>error.rs\<close> of the application).
  \<^item> \<open>Forge_Event_Log\<close> (\<open>store/event_log.rs\<close> and the line append of \<open>atomic.rs\<close>), byte by byte, and
    \<open>Forge_Log_Recovery\<close>, where \<open>log_holds\<close> relates a log file and its caches to the list of events
    it holds: loading, appending and crashing refine the obvious operations on that list.
  \<^item> \<open>Forge_Configuration\<close> (\<open>configuration.rs\<close>): the settings of a run, their defaults and validation.
  \<^item> \<open>Forge_Steps\<close>: steps over a state that may fail, their triples and invariants; \<open>Forge_Engine\<close> and
    \<open>Forge_Dispatcher\<close> (\<open>engine/services.rs\<close>, \<open>context.rs\<close>, \<open>dispatcher.rs\<close>): the ports as functions
    over a world, committing events, executing and finalising attempts, candidate tasks and the loop.
    \<open>Forge_Recovery\<close> (\<open>engine/recovery.rs\<close>): what a new process does with an unfinished run.
  \<^item> \<open>Forge_Run_Store\<close>: what the engine relies on in the store of a run, the locales \<open>run_store\<close>,
    \<open>recoverable_store\<close> and \<open>dispatching\<close>. Every operation of the dispatcher keeps its projection
    equal to the replay of the log unless it fails, and leaves a recoverable run when it fails.
    \<open>Forge_Progress\<close>: when the loop makes no progress.
  \<^item> \<open>Forge_Redaction\<close> (\<open>redaction.rs\<close>), \<open>Forge_Files\<close> (\<open>layout.rs\<close>, \<open>atomic.rs\<close>) and \<open>Forge_Store\<close>
    (\<open>file_store.rs\<close>): the run store over files, in which every system call may fail.
    \<open>Forge_File_Runs\<close> proves the laws of the locales for it (the locale \<open>file_runs\<close> and its
    sublocales), which carries the lemmas of the engine over to files.
  \<^item> \<open>Forge_Ports\<close> (\<open>ports/\<close>), \<open>Forge_Prompt\<close> (\<open>prompt.rs\<close>), \<open>Forge_Node_Ports\<close> (\<open>nodes/support.rs\<close>),
    \<open>Forge_Node_Start\<close>, \<open>Forge_Node_Work\<close>, \<open>Forge_Node_Gates\<close>, \<open>Forge_Node_Finish\<close> (the files of
    \<open>nodes/\<close>): every node, as steps over the record \<open>node_ports\<close> of the services it calls.
    \<open>Forge_Node_Results\<close> shows which outputs the nodes can return, \<open>Forge_Promotion\<close> that integration
    ends, \<open>Forge_Node_Facts\<close> and \<open>Forge_Node_Calls\<close> which commits and agents are asked for, and
    \<open>Forge_Node_Runs\<close> with its locale \<open>leaving_ports\<close> that nodes keep off the log. \<open>Forge_File_Nodes\<close>
    puts the nodes over the file store and under their timeout, and proves the laws of the locale.
  \<^item> \<open>Forge_Views\<close> (\<open>usecases/views.rs\<close>), \<open>Forge_Requests\<close> (\<open>model/request.rs\<close>), \<open>Forge_Locks\<close>
    (\<open>store/locks.rs\<close>) and \<open>Forge_Service\<close> (\<open>usecases/service.rs\<close>): the application service, whose
    operations record events under the lock of a run. \<open>Forge_Append\<close> shows that an append refines
    the extension of the list of events, and that the lock is given back.
  \<^item> \<open>Forge_Filesystem\<close> (\<open>paths.rs\<close> of the infrastructure): paths over a file system with symbolic
    links, the walk of the kernel, confinement and confined reads; where a confined path leads.
  \<^item> \<open>Forge_Documents\<close>, \<open>Forge_Resolver\<close> and \<open>Forge_Detection\<close> (\<open>configuration/\<close>): the documents of a
    user and a repository, the gate between them, the layers of a configuration, the trust store and
    the survey of a project. \<open>Forge_Tightening\<close> states with its locale \<open>gated\<close> what the gate keeps,
    \<open>Forge_Trust\<close> what a repository can change and when it counts as trusted.
  \<^item> \<open>Forge_Patterns\<close> (searching and splitting of the standard library), \<open>Forge_Integrity\<close>
    (\<open>quality/integrity.rs\<close>), \<open>Forge_Reports\<close> (\<open>reports.rs\<close>), \<open>Forge_Quality\<close> (\<open>test_runner.rs\<close>,
    \<open>process/mod.rs\<close>), \<open>Forge_Local_Review\<close> (\<open>local_provider.rs\<close>) and \<open>Forge_Providers\<close> (\<open>sonar.rs\<close>,
    \<open>ai_review.rs\<close>, the choice of providers in \<open>runtime.rs\<close>): the test runner and the review providers
    over the record \<open>quality_ports\<close>. \<open>Forge_Gate_Evidence\<close> puts them behind the ports of the test and
    review nodes and shows what the evidence that lets a candidate through stands for.
  \<^item> \<open>Forge_Plain\<close>, \<open>Forge_Samples\<close>, \<open>Forge_File_Samples\<close>, \<open>Forge_Node_Samples\<close>, \<open>Forge_Service_Samples\<close>,
    \<open>Forge_Filesystem_Samples\<close>, \<open>Forge_Resolver_Samples\<close> and \<open>Forge_Gate_Samples\<close>: the concrete inputs
    of the witnesses and the counterexamples of the findings.

  \<^bold>\<open>Conventions\<close>

  The fields of a record carry a two-letter prefix of its struct. A \<open>u64\<close> is a \<open>64 word\<close> that wraps
  as a release build does; timestamps are nanoseconds in \<open>int\<close>. Code of other crates is a parameter:
  \<open>externals\<close> holds the digest, the printers of identifiers and dates, \<open>payload_encoder\<close>,
  \<open>event_codec\<close> and \<open>document_codec\<close> the JSON encoders, \<open>operating_system\<close> the outcomes of system
  calls, functions the glob matcher and the regex crate. What is relied on of them stands as a
  hypothesis where it is used (\<open>printing_ok\<close>, \<open>codec_ok\<close>, \<open>clean_system\<close>, injectivity on the hashed
  materials). Loops are structural or terminate by a measure on the unread input; the loop of a run
  and the tasks of its candidates may run for ever and are partial functions, whose result is \<open>None\<close>
  then. Candidate tasks interleave by turns: a turn is one node of one task, and the world chooses
  the task among those that hold a permit. \<open>sync_tree\<close> recurses to the depth of the deepest path.

  \<^bold>\<open>Not modelled\<close>

  The adapters to git and to agents with the tools they offer, the supervision of processes, the
  HTTP interface, the command line, diagnostics, exports, and the lint of the repository itself. The
  conversion of XML attributes belongs to the events a report reader is given. The file system does
  not change during one call of a reader, and tasks do not interleave within a node. The permissions
  of files are not modelled. How an attempt at the lock file ends is a parameter of \<open>Forge_Locks\<close>; the
  runs over the file store are those of one process at a time.
\<close>

section \<open>The event log and the projection\<close>

text \<open>C1. Replaying a log never leaves the invariant of the projection: candidates are distinct,
  sorted by ordinal, started once they leave \<open>Pending\<close>, finished once settled, and not promotable
  once excluded; attempts have distinct keys and are finished exactly when closed; plan versions
  are distinct and ascending and the approval names one of them; a recovery reason is present only
  while recovery is required.\<close>

theorem replay_keeps_invariant:
  assumes "replay X enc run created_at events = Inr p"
  shows "projection_wf p"
  using assms by (rule replay_wf)

theorem replay_keeps_invariant_witness:
  "\<exists>p. sample_replay (sample_history [RunStatusChanged Created Validating None,
      BaselineResolved ''b'' ''main'' False,
      CandidateRegistered ''c01-0000'' 1 (strategy_for_ordinal 1) ''branch'' ''worktree'' 2]) = Inr p
    \<and> length (rp_candidates p) = 1 \<and> projection_wf p"
proof -
  have "\<exists>p. sample_replay (sample_history [RunStatusChanged Created Validating None,
      BaselineResolved ''b'' ''main'' False,
      CandidateRegistered ''c01-0000'' 1 (strategy_for_ordinal 1) ''branch'' ''worktree'' 2]) = Inr p
    \<and> length (rp_candidates p) = 1"
    unfolding replayed_case [symmetric]
    by (simp add: sample_eval reduce_run_status_def run_transition_to_def reduce_baseline_def
        reduce_candidate_registered_def candidate_of_def)
  then show ?thesis using replay_keeps_invariant unfolding sample_replay_def by blast
qed

text \<open>C2. Catching up is exact: a projection replayed from the first events of a log, continued
  with the whole log by \<open>replay_from\<close>, becomes the projection of the full replay and applies only
  the events it had not seen.\<close>

theorem catching_up_is_replaying:
  assumes "replay X enc run created_at (take n events) = Inr p"
    and "replay X enc run created_at events = Inr q" and "length events < 2 ^ 64"
  shows "replay_from X enc p events = Inr (q, of_nat (length events - n))"
proof -
  have "replay X enc run created_at (take n events @ drop n events) = Inr q"
    using assms(2) by simp
  moreover have "length (take n events) + length (drop n events) < 2 ^ 64"
    using assms(3) by (simp add: min_def)
  ultimately show ?thesis using catch_up [OF assms(1)] by fastforce
qed

theorem catching_up_is_replaying_witness:
  "\<exists>p q. sample_replay (take 1 (sample_history [RunStatusChanged Created Validating None,
         RunStatusChanged Validating Planning None])) = Inr p
    \<and> replay_from constant_crates named_encoder p
        (sample_history [RunStatusChanged Created Validating None,
         RunStatusChanged Validating Planning None]) = Inr (q, 1)
    \<and> rp_status p = Validating \<and> rp_status q = Planning"
proof -
  let ?es = "sample_history [RunStatusChanged Created Validating None,
         RunStatusChanged Validating Planning None]"
  have "\<exists>p. sample_replay (take 1 ?es) = Inr p \<and> rp_status p = Validating"
    and "\<exists>q. sample_replay ?es = Inr q \<and> rp_status q = Planning"
    unfolding replayed_case [symmetric]
    by (simp_all add: sample_eval reduce_run_status_def run_transition_to_def)
  moreover have "length ?es = 2" by (simp add: sample_eval)
  ultimately show ?thesis
    using catching_up_is_replaying [of constant_crates named_encoder "RunId 7" 0 1 ?es]
    unfolding sample_replay_def by fastforce
qed



text \<open>C4. Statuses only move along the transition tables, through the whole history of a run: between
  any two points of a log the run status moves by a walk of allowed transitions, and once it is
  terminal it stays what it is.\<close>

theorem run_status_walks:
  assumes "replay X enc run created_at (take n events) = Inr p"
    and "replay X enc run created_at events = Inr q"
  shows "(\<exists>ss. try_fold run_transition_to (rp_status p) ss = Inr (rp_status q))
    \<and> (run_is_terminal (rp_status p) \<longrightarrow> rp_status q = rp_status p)"
proof -
  have "try_fold (event_apply X enc) p (drop n events) = Inr q"
    by (rule replay_continues [OF assms(1,2)])
  then have walk: "run_walk (rp_status p) (rp_status q)" by (rule applied_walks [THEN conjunct1])
  then show ?thesis using run_walk_terminal unfolding run_walk_def by blast
qed

theorem run_status_walks_witness:
  "\<exists>p q. sample_replay (take 2 (sample_history [RunStatusChanged Created Validating None,
         RunStatusChanged Validating run_status.Failed None, RecoveryStarted 2 0])) = Inr p
    \<and> sample_replay (sample_history [RunStatusChanged Created Validating None,
         RunStatusChanged Validating run_status.Failed None, RecoveryStarted 2 0]) = Inr q
    \<and> rp_status p = run_status.Failed \<and> rp_status q = run_status.Failed"
proof -
  let ?es = "sample_history [RunStatusChanged Created Validating None,
         RunStatusChanged Validating run_status.Failed None, RecoveryStarted 2 0]"
  have "\<exists>p. sample_replay (take 2 ?es) = Inr p \<and> rp_status p = run_status.Failed"
    and "\<exists>q. sample_replay ?es = Inr q \<and> True"
    unfolding replayed_case [symmetric]
    by (simp_all add: sample_eval reduce_run_status_def run_transition_to_def)
  then obtain p q where p: "sample_replay (take 2 ?es) = Inr p" "rp_status p = run_status.Failed"
      and q: "sample_replay ?es = Inr q" by blast
  from run_status_walks [OF p(1) [unfolded sample_replay_def] q [unfolded sample_replay_def]] p(2)
  have "rp_status q = run_status.Failed" by simp
  with p q show ?thesis by blast
qed



text \<open>C6. A closed attempt is never written again: every attempt that is finished in the projection
  of the first events of a log is in the projection of the whole log, unchanged.\<close>

theorem closed_attempts_final:
  assumes "replay X enc run created_at (take n events) = Inr p"
    and "replay X enc run created_at events = Inr q"
    and "r \<in> set (rp_attempts p)" and "na_status r \<noteq> Started"
  shows "r \<in> set (rp_attempts q)"
proof -
  have "try_fold (event_apply X enc) p (drop n events) = Inr q"
    by (rule replay_continues [OF assms(1,2)])
  then have "attempts_kept p q" using applied_walks by blast
  then show ?thesis using assms(3,4) by (auto simp: attempts_kept_def attempt_is_open_def)
qed

theorem closed_attempts_final_witness:
  "\<exists>p q r. sample_replay (take 2 (sample_history [NodeStarted Prepare None 1 None,
        NodeSucceeded Prepare None 1 4 None ''d'', NodeStarted Prepare None 2 None])) = Inr p
    \<and> sample_replay (sample_history [NodeStarted Prepare None 1 None,
        NodeSucceeded Prepare None 1 4 None ''d'', NodeStarted Prepare None 2 None]) = Inr q
    \<and> na_duration r = 4 \<and> r \<in> set (rp_attempts p) \<and> r \<in> set (rp_attempts q)"
proof -
  let ?es = "sample_history [NodeStarted Prepare None 1 None,
        NodeSucceeded Prepare None 1 4 None ''d'', NodeStarted Prepare None 2 None]"
  have "\<exists>p. sample_replay (take 2 ?es) = Inr p
      \<and> (\<exists>r \<in> set (rp_attempts p). na_duration r = 4 \<and> na_status r \<noteq> Started)"
    and "\<exists>q. sample_replay ?es = Inr q \<and> True"
    unfolding replayed_case [symmetric]
    by (simp_all add: sample_eval reduce_node_started_def attempt_key_def started_record_def
        close_attempt_def attempt_is_open_def closed_record_def accumulate_duration_def)
  then obtain p q r where p: "sample_replay (take 2 ?es) = Inr p" and q: "sample_replay ?es = Inr q"
      and r: "r \<in> set (rp_attempts p)" "na_duration r = 4" "na_status r \<noteq> Started" by blast
  from closed_attempts_final [OF p [unfolded sample_replay_def] q [unfolded sample_replay_def] r(1,3)]
  have "r \<in> set (rp_attempts q)" .
  with p q r show ?thesis by blast
qed

text \<open>C7. An attempt number handed out for a node is new: unless a recorded attempt already has the
  largest number, no recorded attempt of the node and candidate carries the next one, so
  \<open>NodeStarted\<close> with it is accepted.\<close>

theorem next_attempt_accepted:
  assumes "\<And>r. r \<in> set (rp_attempts p) \<Longrightarrow> na_attempt r \<noteq> - 1"
  shows "\<exists>q. reduce (NodeStarted node candidate (next_attempt_number p node candidate) template)
      instant sequence p = Inr q
    \<and> rp_attempts q = rp_attempts p
        @ [started_record node candidate (next_attempt_number p node candidate) instant sequence]"
proof -
  have "\<not> list_ex (\<lambda>r. attempt_key r = (node, candidate, next_attempt_number p node candidate))
      (rp_attempts p)"
    using next_attempt_fresh [where p = p and n = node and c = candidate, OF assms]
    unfolding list_ex_iff by (metis image_eqI)
  then show ?thesis by (simp add: reduce_node_started_def modify_metrics_def)
qed

theorem next_attempt_accepted_witness:
  "\<exists>q. reduce (NodeStarted Prepare None (next_attempt_number commit_ready Prepare None) None)
      0 9 commit_ready = Inr q
    \<and> rp_attempts q = [sample_attempt Prepare None, started_record Prepare None 2 0 9]"
proof -
  have attempts: "rp_attempts commit_ready = [sample_attempt Prepare None]"
    by (simp add: commit_ready_def)
  have "next_attempt_number commit_ready Prepare None = 2"
    by (simp add: next_attempt_number_def latest_attempt_def attempts sample_attempt_def
        started_record_def attempt_next_def sat_add_def saturate_def)
  moreover have "na_attempt r \<noteq> - 1" if "r \<in> set (rp_attempts commit_ready)" for r
    using that by (simp add: attempts sample_attempt_def started_record_def)
  ultimately show ?thesis
    using next_attempt_accepted [of commit_ready Prepare None None 0 9] attempts by simp
qed

section \<open>The log file\<close>









section \<open>Choosing the winner\<close>

text \<open>C12. The winner of a ranking is the best rankable candidate: it is eligible, it has a score, and no
  eligible candidate with a score has a smaller one in the deterministic order; there is a winner
  exactly when some candidate is rankable.\<close>

theorem winner_is_best:
  "case rg_winner (rank_candidates entries) of
     Some w \<Rightarrow> \<exists>e s. e \<in> set entries \<and> rk_candidate_id e = w \<and> rk_eligible e \<and> rk_score e = Some s
       \<and> (\<forall>d t. d \<in> set entries \<and> rk_eligible d \<and> rk_score d = Some t \<longrightarrow> s \<le> t)
   | None \<Rightarrow> \<forall>e. e \<notin> set entries \<or> \<not> rk_eligible e \<or> rk_score e = None"
proof (cases "rg_winner (rank_candidates entries)")
  case None
  then show ?thesis using ranking_winner_exists [of entries] by (auto simp: rankable_def)
next
  case (Some w)
  from ranking_winner_least [OF this] obtain e where "e \<in> set entries" "rk_candidate_id e = w"
      "rankable e" "\<forall>d \<in> set entries. rankable d \<longrightarrow> the (rk_score e) \<le> the (rk_score d)" by blast
  with Some show ?thesis by (fastforce simp: rankable_def)
qed

theorem winner_is_best_witness:
  "rg_winner (rank_candidates sample_entries) = Some ''c02''"
proof -
  have ids: "rk_candidate_id e \<in> {''c01'', ''c02'', ''c03''}" if "e \<in> set sample_entries" for e
    using that by (auto simp: sample_entries_def sample_entry_def)
  have members: "sample_entry 1 ''c02'' \<in> set sample_entries" by (simp add: sample_entries_def)
  show ?thesis
  proof (cases "rg_winner (rank_candidates sample_entries)")
    case None
    with winner_is_best [of sample_entries]
    have "\<forall>e. e \<notin> set sample_entries \<or> \<not> rk_eligible e \<or> rk_score e = None" by simp
    from spec [OF this, of "sample_entry 1 ''c02''"] members show ?thesis
      by (simp add: sample_entry_def)
  next
    case (Some w)
    with winner_is_best [of sample_entries] obtain e s where e: "e \<in> set sample_entries"
        "rk_candidate_id e = w" "rk_eligible e" "rk_score e = Some s"
        "\<And>d t. d \<in> set sample_entries \<Longrightarrow> rk_eligible d \<Longrightarrow> rk_score d = Some t \<Longrightarrow> s \<le> t" by auto
    have "s \<le> sample_score 1 ''c02''" by (rule e(5) [OF members]) (simp_all add: sample_entry_def)
    with sample_scores_less e(1-4) have "e = sample_entry 1 ''c02''"
      by (auto simp: sample_entries_def sample_entry_def)
    with e(2) Some show ?thesis by (simp add: sample_entry_def)
  qed
qed

text \<open>C13. Ranking is deterministic: it does not depend on the order in which the candidates arrive, when
  their identifiers are distinct and every score carries the identifier of its candidate.\<close>

theorem ranking_deterministic:
  assumes "mset entries = mset others" and "distinct (map rk_candidate_id entries)"
    and "\<And>e s. e \<in> set entries \<Longrightarrow> rk_score e = Some s \<Longrightarrow> score_candidate_id s = rk_candidate_id e"
  shows "rank_candidates entries = rank_candidates others"
  by (rule ranking_order_independent [OF assms(1,2)])
    (use assms(3) in \<open>auto simp: scores_named_def list_all_iff split: option.splits\<close>)

theorem ranking_deterministic_witness:
  "rank_candidates (rev sample_entries) = rank_candidates sample_entries"
  by (rule ranking_deterministic)
    (auto simp: sample_entries_def sample_entry_def sample_score_def)

text \<open>C14. A candidate is eligible exactly when it was neither cancelled nor interrupted, every required
  test passed and reported, a required review provider reported and all required reports passed
  without blocker policy findings, a required change is present and applies, coverage is not below
  the threshold, and neither budget is exhausted.\<close>

theorem eligible_exactly_when:
  "eo_eligible (evaluate_eligibility input review) \<longleftrightarrow>
     el_candidate_status input \<noteq> candidate_status.Cancelled
     \<and> el_candidate_status input \<noteq> candidate_status.Interrupted
     \<and> el_required_tests_passed input \<and> el_failed_test_commands input = []
     \<and> el_missing_test_commands input = []
     \<and> has_required_provider review \<and> required_reports_passed review
     \<and> blocker_policy_issues review = []
     \<and> \<not> (el_diff_is_empty input \<and> el_change_required input) \<and> el_diff_applies input = Inr ()
     \<and> (case (el_coverage_percent input, el_minimum_line_coverage input) of
          (Some measured, Some required) \<Rightarrow> \<not> f64_less (f64_add measured f64_epsilon) required
        | _ \<Rightarrow> True)
     \<and> \<not> el_repair_budget_exhausted input \<and> el_time_budget_exceeded input = None"
  unfolding evaluate_eligibility_iff
  by (cases "el_coverage_percent input"; cases "el_minimum_line_coverage input") auto

text \<open>The entries of a ranking are the given candidates, each exactly once and unchanged but for the
  rank, in score order with the unscored last, and the rankable ones are numbered 1, 2, 3, ... in
  that order while the others have no rank.\<close>

lemma ranking_entries_ranked:
  "mset (map (\<lambda>e. e\<lparr>rk_rank := None\<rparr>) (rg_entries (rank_candidates entries)))
     = mset (map (\<lambda>e. e\<lparr>rk_rank := None\<rparr>) entries)
   \<and> sorted (map ranked_key (rg_entries (rank_candidates entries)))
   \<and> map rk_rank (rg_entries (rank_candidates entries))
     = map (\<lambda>i. if rankable (rg_entries (rank_candidates entries) ! i)
               then Some (of_nat (length (filter rankable
                      (take (i + 1) (rg_entries (rank_candidates entries))))))
               else None)
         [0..<length entries]"
  by (intro conjI ranking_entries_permutation [unfolded unranked_def] ranking_entries_sorted
      ranking_ranks_count)

text \<open>The tests of a candidate count as passed exactly when every required command ran, passed, and
  wrote its report; and the failure fingerprint is absent exactly when no command failed, so a
  repair loop sees a fingerprint for every failure.\<close>

lemma required_tests_decide:
  "(all_required_passed e \<longleftrightarrow> failed_required e = [] \<and> missing_required e = [])
   \<and> (failure_fingerprint X e = None \<longleftrightarrow>
        list_all (\<lambda>r. outcome_is_pass (ce_outcome r)) (te_commands e))"
  using all_required_passed_iff [of e] failure_fingerprint_None_iff [of X e]
  by (simp add: list_all_iff)

section \<open>Scheduling\<close>

text \<open>C15. No step beyond the plan gate without approval: when the scheduler asks for a node other than
  preparation and planning, for the candidates or for the commit approval, the current plan version
  exists and the recorded decision approved exactly its hash, preparation succeeded, and the run is
  neither settled nor cancelled.\<close>

theorem plan_gate_holds:
  assumes "next_run_step p = step"
    and "step \<in> {RunNode n | n. n \<notin> {Prepare, Plan}} \<union> {RunCandidates, AwaitCommitApproval}"
  shows "\<exists>v a. plan_current (rp_plan p) = Some v \<and> ph_approval (rp_plan p) = Some a
      \<and> pa_decision a = Approved \<and> pa_plan_hash a = pv_hash v
      \<and> completed_successfully p Prepare None
      \<and> \<not> run_is_terminal (rp_status p) \<and> \<not> rp_cancellation_requested p"
proof -
  have "past_plan_gate (next_run_step p)" using assms by (auto simp: past_plan_gate_def)
  from next_run_step_past_gate [OF this] show ?thesis by (auto simp: plan_is_approved_iff)
qed

theorem plan_gate_holds_witness:
  "\<exists>a. ph_approval (rp_plan commit_ready) = Some a \<and> pa_decision a = Approved"
  using plan_gate_holds [OF commit_ready_step] by auto

text \<open>C16. The commit is dispatched only behind every gate: the winner is the candidate that was applied,
  final tests and final review passed on it, nothing was committed yet, and under the manual policy
  the commit was approved; with the policy \<open>NoCommit\<close> it is never dispatched.\<close>

theorem commit_only_behind_gates:
  assumes "next_run_step p = RunNode Commit"
  shows "\<exists>w. rp_winner p = Some w \<and> in_applied_candidate (rp_integration p) = Some w
      \<and> in_final_tests_passed (rp_integration p) = Some True
      \<and> in_final_review_passed (rp_integration p) = Some True
      \<and> rp_commit p = None \<and> rp_commit_policy p \<noteq> NoCommit
      \<and> (rp_commit_policy p = Manual \<longrightarrow> rp_commit_approved p)"
  using assms by (rule commit_step_guarded)

theorem commit_only_behind_gates_witness:
  "in_applied_candidate (rp_integration commit_ready) = rp_winner commit_ready
   \<and> rp_commit commit_ready = None \<and> rp_commit_policy commit_ready \<noteq> NoCommit"
  using commit_only_behind_gates [OF commit_ready_step] by force

text \<open>C17. How a run ends: the scheduler finishes an unsettled run only as exhausted, with all candidates
  settled and no winner, or as succeeded, with a commit or with the policy \<open>NoCommit\<close> and both final
  gates passed. It dispatches only run-scoped nodes, and never the two approvals.\<close>

theorem finish_only_when_done:
  assumes "\<not> run_is_terminal (rp_status p)"
  shows "case next_run_step p of
      Finish s \<Rightarrow>
        (s = Exhausted \<and> rp_winner p = None \<and> all_candidates_terminal p)
        \<or> (s = run_status.Succeeded \<and> rp_commit p \<noteq> None)
        \<or> (s = run_status.Succeeded \<and> rp_commit_policy p = NoCommit
            \<and> in_final_tests_passed (rp_integration p) = Some True
            \<and> in_final_review_passed (rp_integration p) = Some True)
    | RunNode n \<Rightarrow> node_scope_of n = RunScope \<and> n \<noteq> Approval \<and> n \<noteq> CommitApproval
    | _ \<Rightarrow> True"
  using finish_step_cases [of p] dispatched_nodes_run_scoped [of p] assms
  by (cases "next_run_step p") auto

theorem finish_only_when_done_witness:
  "\<not> run_is_terminal (rp_status commit_ready) \<and> next_run_step commit_ready = RunNode Commit
   \<and> node_scope_of Commit = RunScope"
proof -
  have "\<not> run_is_terminal (rp_status commit_ready)" by (simp add: commit_ready_def)
  with finish_only_when_done [of commit_ready] show ?thesis by (simp add: commit_ready_step)
qed

text \<open>C18. Every path of the node graph from preparation to the commit passes the plan approval, the join,
  both final gates and the commit approval.\<close>

theorem graph_gates_commit:
  assumes "node_walk Prepare path" and "last (Prepare # path) = Commit"
  shows "{Approval, Join, FinalTest, FinalReview, CommitApproval} \<subseteq> set path"
  using node_walk_gates [OF assms] by blast

theorem graph_gates_commit_witness:
  "FinalReview \<in> set [Plan, Approval, FanOut, ImplementCandidate, TestCandidate, ReviewCandidate,
     Join, IntegrateWinner, FinalTest, FinalReview, CommitApproval, Commit]"
  using graph_gates_commit [of "[Plan, Approval, FanOut, ImplementCandidate, TestCandidate,
     ReviewCandidate, Join, IntegrateWinner, FinalTest, FinalReview, CommitApproval, Commit]"]
  by (simp add: node_accepts_successor_def)

text \<open>The drawn graph is the transition relation: its edges are exactly the pairs the node table
  accepts, each drawn once.\<close>

lemma drawn_graph_exact:
  "distinct (map (\<lambda>e. (edge_from e, edge_to e)) graph_edges)
   \<and> set (map (\<lambda>e. (edge_from e, edge_to e)) graph_edges)
     = {(a, b). node_validate_transition a b = Inr ()}"
  using graph_edges_exact by (auto simp: node_validate_transition_def split: if_splits)

section \<open>Nodes, failures and retries\<close>

text \<open>What a node result must satisfy: validation accepts a result exactly when its schema version is
  known, it does not finish before it starts, it names a candidate exactly for candidate nodes, a
  failure is present for failed and absent for succeeded results, the next node of a finished one is
  a permitted successor, and it changed at most ten million lines.\<close>

lemma node_result_accepted_exactly_when:
  "node_result_validate r = Inr () \<longleftrightarrow>
     nr_schema_version r = 1 \<and> nr_started_at r \<le> nr_finished_at r
     \<and> (node_scope_of (nr_node_id r) = CandidateScope \<longleftrightarrow> nr_candidate_id r \<noteq> None)
     \<and> \<not> (nr_status r = node_status.Succeeded \<and> nr_failure r \<noteq> None)
     \<and> \<not> (nr_status r = node_status.Failed \<and> nr_failure r = None)
     \<and> (nr_status r \<in> {node_status.Paused, node_status.Cancelled, node_status.Interrupted}
        \<or> (case nr_next r of Some n \<Rightarrow> node_accepts_successor (nr_node_id r) n | None \<Rightarrow> True))
     \<and> (case sp_changed_lines (nr_state_patch r) of Some n \<Rightarrow> n \<le> 10000000 | None \<Rightarrow> True)"
  unfolding node_result_validate_iff patch_ok_def
  by (cases "nr_next r"; cases "nr_status r") auto



section \<open>Configuration, identifiers and paths\<close>

text \<open>A configuration is accepted exactly when its budgets are, each command is valid and the
  command identifiers are distinct, the author name and the branch prefix are not blank, a test
  command and one command of each kind the quality profile requires are declared, and the
  demonstration agent is configured only in demonstration mode.\<close>

lemma configuration_accepted_exactly_when:
  "configuration_validate c = Inr () \<longleftrightarrow>
     run_budgets_validate (ef_budgets c) = Inr ()
     \<and> list_all (\<lambda>s. command_specification_validate s = Inr ()) (ef_commands c)
     \<and> distinct (map cs_id (ef_commands c))
     \<and> trim (gc_author_name (ef_git c)) \<noteq> [] \<and> trim (gc_branch_prefix (ef_git c)) \<noteq> []
     \<and> insert Test (case qc_profile (ef_quality c) of
          Standard \<Rightarrow> {Lint}
        | Strict \<Rightarrow> {Format, Lint, Audit, SecretScan, StaticAnalysis, command_kind.Policy})
        \<subseteq> cs_kind ` set (ef_commands c)
     \<and> \<not> (ac_driver (ef_agent c) = FakeAgent \<and> \<not> ef_demonstration_mode c)"
proof -
  have covered: "(\<forall>kind \<in> K. \<exists>s \<in> set (ef_commands c). cs_kind s = kind)
      \<longleftrightarrow> K \<subseteq> cs_kind ` set (ef_commands c)" for K by auto
  have kinds: "set (Test # required_review_kinds c) = insert Test (case qc_profile (ef_quality c) of
          Standard \<Rightarrow> {Lint}
        | Strict \<Rightarrow> {Format, Lint, Audit, SecretScan, StaticAnalysis, command_kind.Policy})"
    by (simp add: required_review_kinds_def split: quality_profile.split)
  show ?thesis
    unfolding configuration_validate_iff catalogue_validate_iff list_all_iff covered kinds by blast
qed

text \<open>A path that is accepted stays inside the directory it is resolved against: none of its
  segments is empty, \<open>.\<close> or \<open>..\<close> or holds a separator, and walking them from any root ends
  exactly below that root.\<close>

lemma accepted_paths_confined:
  assumes "path_parse raw = Inr p"
  shows "p \<noteq> [] \<and> list_all proper_segment (path_segments p)
    \<and> lexical_walk directory (path_segments p) = directory @ path_segments p"
  using path_parse_segments [OF assms] path_parse_confined [OF assms] by simp

lemma accepted_paths_confined_witness:
  "path_parse ''src/lib.rs'' = Inr ''src/lib.rs''
   \<and> lexical_walk [''home'', ''run''] (path_segments ''src/lib.rs'')
     = [''home'', ''run'', ''src'', ''lib.rs'']"
proof -
  have parsed: "path_parse ''src/lib.rs'' = Inr ''src/lib.rs''"
    by (simp add: plain_evaluation)
  have "path_segments ''src/lib.rs'' = [''src'', ''lib.rs'']" by (simp add: path_segments_def)
  with accepted_paths_confined [OF parsed, of "[''home'', ''run'']"] parsed show ?thesis by simp
qed


text \<open>C21. The identifier derived for a candidate is accepted by the parser, gives its ordinal back,
  and differs from the identifiers of the other ordinals of the run.\<close>

theorem candidate_ids_round_trip:
  assumes "uuid_simple_ok X" and "ordinal_new v = Inr v" and "ordinal_new w = Inr w"
  shows "candidate_id_from_str (candidate_id_derive X run v) = Inr (candidate_id_derive X run v)
    \<and> candidate_id_ordinal (candidate_id_derive X run v) = Some v
    \<and> (candidate_id_derive X run v = candidate_id_derive X run w \<longleftrightarrow> v = w)"
  using candidate_id_derive_valid [OF assms(2,1)] candidate_id_derive_ordinal [OF assms(2)]
    candidate_id_derive_inject [OF assms(2,3)] by blast

theorem candidate_ids_round_trip_witness:
  "candidate_id_ordinal (candidate_id_derive digit_crates (RunId 7) 3) = Some 3
   \<and> candidate_id_derive digit_crates (RunId 7) 3 \<noteq> candidate_id_derive digit_crates (RunId 7) 5"
  using candidate_ids_round_trip [OF digit_crates_ok, of 3 5 "RunId 7"]
  by (simp add: ordinal_new_def ordinal_max_def)

section \<open>The engine over the run store\<close>





text \<open>C24. A run whose candidates are not all terminal but have no node to run never ends its loop: as
  long as the host answers how many processors it has, the dispatcher starts the tasks again for
  ever. A candidate whose last attempt was paused is in this state.\<close>

theorem stalled_run_never_ends:
  assumes "next_run_step (dp_projection d) = RunCandidates"
    and "list_all (\<lambda>c. \<nexists>node. next_candidate_step (dp_projection d) c = RunCandidateNode node)
      (active_candidates (dp_projection d))"
    and "\<And>w. \<exists>processors v. sv_logical_processors S w = (Inr processors, v)"
  shows "run_loop S cx d = None"
proof (rule stalled_run_loop [OF _ assms(3)])
  have "\<not> can_advance p c \<longleftrightarrow> (\<nexists>node. next_candidate_step p c = RunCandidateNode node)" for p c
    by (auto simp: can_advance_def split: candidate_step.split)
  with assms(1,2) show "stalled (dp_projection d)" by (simp add: stalled_def)
qed

theorem stalled_run_never_ends_witness:
  "run_loop (file_services sample_store sample_system sample_host) sample_context
     \<lparr>dp_world = sample_world, dp_projection = paused_run\<rparr> = None"
proof (rule stalled_run_never_ends)
  show "next_run_step (dp_projection \<lparr>dp_world = sample_world, dp_projection = paused_run\<rparr>)
      = RunCandidates"
    using paused_run_stalled by (simp add: stalled_def)
  have "can_advance p c \<longleftrightarrow> (\<exists>node. next_candidate_step p c = RunCandidateNode node)" for p c
    by (auto simp: can_advance_def split: candidate_step.split)
  with paused_run_stalled show "list_all
      (\<lambda>c. \<nexists>node. next_candidate_step
        (dp_projection \<lparr>dp_world = sample_world, dp_projection = paused_run\<rparr>) c = RunCandidateNode node)
      (active_candidates (dp_projection \<lparr>dp_world = sample_world, dp_projection = paused_run\<rparr>))"
    by (simp add: stalled_def)
  show "\<exists>processors v. sv_logical_processors
      (file_services sample_store sample_system sample_host) w = (Inr processors, v)" for w
    by (simp add: file_services_def sample_host_def beyond_def)
qed


section \<open>The nodes\<close>

text \<open>C26. Whatever a node returns is a legal result: it has succeeded, failed or paused, carries a
  failure exactly when it failed, and the validation of its attempt accepts it as soon as the clock
  did not go backwards, the call is of the scope of the node, and the patch stays within its bound.
  In particular the successor it names is one the graph allows.\<close>

theorem node_outputs_legal:
  assumes "execute_call P cx c w = (Inr output, v)"
  shows "no_status output \<in> {node_status.Succeeded, node_status.Failed, node_status.Paused}
    \<and> (no_status output = node_status.Succeeded \<longrightarrow> no_failure output = None)
    \<and> (no_status output = node_status.Failed \<longrightarrow> no_failure output \<noteq> None)
    \<and> (node_result_validate (attempt_result cx (nc_node c) candidate attempt started finished output)
         = Inr ()
       \<longleftrightarrow> started \<le> finished \<and> (node_scope_of (nc_node c) = CandidateScope \<longleftrightarrow> candidate \<noteq> None)
         \<and> state_patch_validate (no_state_patch output) = Inr ())"
proof -
  from yieldsD [OF execute_call_ok assms] have "output_ok (nc_node c) output" .
  then show ?thesis
    by (auto simp: output_ok_def attempt_result_valid_iff state_patch_validate_iff)
qed

theorem node_outputs_legal_witness:
  "node_result_validate (attempt_result sample_context FinalTest None 1 0 1 sample_final_output)
    = Inr ()"
  using node_outputs_legal [OF sample_final_test, of None 1 0 1]
  by (simp add: sample_call_def sample_final_output_def final_gate_output_def finish_with_promotion_def
      node_scope_of_def sample_promotable output_simps state_patch_default_def state_patch_validate_def Let_def)

text \<open>C27. The route the dispatcher chooses for a failure may be none of the graph's: a node that is
  retried, unless it is the integration, a failure sent to the repair node from any node but the two
  gates, and a candidate that is given up from any node but the gates and the repair. Then
  the result of the attempt is refused and the dispatch ends with an error. A node that timed out
  and may be tried again is such a case.\<close>

theorem refused_route_stops:
  assumes "no_status output = node_status.Failed" and "no_failure output = Some failure"
    and "decide_retry cx node candidate attempt failure (dp_projection d) = decision"
    and "decision = RetrySameNode \<and> node \<noteq> IntegrateWinner
      \<or> decision = RouteToRepair \<and> node \<notin> {TestCandidate, ReviewCandidate}
      \<or> decision = FailCandidate \<and> node \<notin> {TestCandidate, ReviewCandidate, RepairCandidate}"
  shows "\<exists>e d'. finalise_attempt S cx node candidate attempt started output d = (Inl e, d')"
proof -
  have "route_refused node (decide_retry cx node candidate attempt failure (dp_projection d))"
    using assms(3,4) by (auto simp: route_refused_def)
  from refused_route_fails [OF assms(1,2) this] show ?thesis
    by (metis prod.collapse)
qed

theorem refused_route_stops_witness:
  "\<exists>e d'. finalise_attempt (file_services sample_store sample_system sample_host) sample_context
     TestCandidate (Some ''c01-0000'') 1 0 (node_timed_out TestCandidate 900) sample_dispatcher
     = (Inl e, d')"
proof -
  let ?failure = "with_remedy
    ''Increase the node timeout in the configuration or reduce the task scope.''
    (node_failure_new TransientInfrastructure ''node_timeout''
      (''node '' @ node_as_str TestCandidate @ '' exceeded its '' @ dec (900 :: u64) @ '' second budget''))"
  have transient: "nf_class ?failure = TransientInfrastructure"
    by (simp add: with_remedy_def node_failure_new_def)
  have "decide_retry sample_context TestCandidate (Some ''c01-0000'') 1 failure
      (dp_projection sample_dispatcher) = RetrySameNode"
      if "nf_class failure = TransientInfrastructure" for failure
    by (simp add: decide_retry_def that classify_retry_def sample_context_def
        sample_configuration_def permits_attempt_def retry_policy_default_def)
  from this [OF transient] show ?thesis
    by (intro refused_route_stops [of _ ?failure _ _ _ _ _ RetrySameNode])
      (simp_all add: node_timed_out_def output_simps)
qed

text \<open>C28. Integration ends: however often it is retried with the next candidate, the final gates and
  the integration ask for at most as many promotions as there are candidates, as long as no
  candidate is registered or chosen anew meanwhile.\<close>

theorem integration_ends:
  assumes "integration_run P p promotions q"
  shows "promotions \<le> length (rp_candidates p)"
  using integration_run_bound [OF assms] open_bound [of p] by linarith

theorem integration_ends_witness:
  "\<exists>q. integration_run (sample_ports :: unit node_ports) integrating_run 1 q
    \<and> 1 \<le> length (rp_candidates integrating_run)"
  using sample_promotes integration_ends by blast



text \<open>C30. No commit is asked for that would write a path the policy refuses: the commit node cannot tell
  the port from one that only obeys requests whose paths may all be written, whatever that one does
  with the others.\<close>

theorem commits_stay_in_policy:
  "commit_execute (P\<lparr>np_create_commit := (\<lambda>request.
       if list_all (write_allowed P (ef_path_policy (cx_configuration cx))) (cq_paths request)
       then np_create_commit P request else otherwise request)\<rparr>) cx c
   = commit_execute P cx c"
  using commit_guarded [of P cx otherwise c] unfolding guarded_commit_def .






text \<open>C34. A path a file tool accepts is one the policy permits as it is written, below the canonical
  worktree, and it is never led anywhere else by a link: opened as it is, it leads to itself. The
  kernel must not have given up on the number of links along the written path, which the code does
  not tell from a path that does not exist.\<close>

theorem confined_paths_stay:
  assumes "confine fs matcher worktree raw access policy = Inr c"
    and "straight fs [] (fy_current fs)"
    and "\<And>base k. canonical_root fs worktree = Inr base
      \<Longrightarrow> canonical fs (take k (base @ path_segments (cf_relative c))) \<noteq> Inl TooManyLinks"
  shows "evaluate_path policy matcher (cf_relative c) access = Inr ()
    \<and> (\<exists>base. canonical_root fs worktree = Inr base \<and> below base (cf_absolute c))
    \<and> (\<forall>q. canonical fs (cf_absolute c) = Inr q \<longrightarrow> q = cf_absolute c)"
proof -
  have "\<exists>base. canonical_root fs worktree = Inr base \<and> below base (cf_absolute c)"
    using assms(1) by (elim confine_Inr resolve_without_escape_Inr) blast
  moreover have "evaluate_path policy matcher (cf_relative c) access = Inr ()"
    using assms(1) by (rule confine_Inr)
  ultimately show ?thesis
    using confine_leads_to_itself [OF assms] by blast
qed

theorem confined_paths_stay_witness:
  "confine sample_tree spelled ''/work'' ''src/new.rs'' Write sample_policy
     = Inr \<lparr>cf_relative = ''src/new.rs'', cf_absolute = [''work'', ''core'', ''new.rs'']\<rparr>
   \<and> below [''work''] [''work'', ''core'', ''new.rs'']"
proof -
  have "straight sample_tree [] (fy_current sample_tree)" by (simp add: tree_fields)
  from confined_paths_stay [OF sample_tree_confines(1) this] sample_walks_end
  have "\<exists>base. canonical_root sample_tree ''/work'' = Inr base
      \<and> below base [''work'', ''core'', ''new.rs'']" by simp
  then show ?thesis by (simp add: sample_base sample_tree_confines)
qed

section \<open>The configuration of a repository\<close>



text \<open>C36. A document counts as trusted only when the trust store, before the configuration was detected, held
  the digest of exactly the bytes that were read, under the canonical path of the repository; the
  decision names that digest. A document that changed since it was trusted is untrusted again.\<close>

theorem trust_needs_recorded_digest:
  assumes "detect R repository w = (Inr c, v)"
    and "td_state (ef_repository_trust c) = Trusted"
  shows "\<exists>u bytes document store entry. repository_document R repository u = Some (bytes, document)
    \<and> td_configuration_digest (ef_repository_trust c) = Some (digest_of_bytes (rv_externals R) bytes)
    \<and> stored_trust R w = Some store
    \<and> trust_lookup (identity_of (tree_now R u) repository) store = Some entry
    \<and> tr_configuration_digest entry = digest_of_bytes (rv_externals R) bytes"
  using assms by (rule trusted_is_recorded)

theorem trust_needs_recorded_digest_witness:
  "\<exists>c v store. detect sample_resolver ''/w'' trusting_world = (Inr c, v)
    \<and> stored_trust sample_resolver trusting_world = Some store
    \<and> trust_lookup ''/w'' store \<noteq> None"
proof -
  obtain c v where run: "detect sample_resolver ''/w'' trusting_world = (Inr c, v)"
    and trusted: "td_state (ef_repository_trust c) = Trusted" by (rule trusted_detected)
  from trust_needs_recorded_digest [OF run trusted] run show ?thesis
    by (auto simp: resolver_fields forge_identity)
qed

text \<open>C37. A survey proposes nothing of its own invention: every command is one of a fixed list of programs
  with fixed arguments, run in the directory of a module without an environment, the commands form a
  valid catalogue, and every module lies where a tracked file that marks it is, near the root and
  outside vendored directories.\<close>

theorem surveyed_commands_known:
  assumes "s = survey_project fs from_json repository listing"
  shows "catalogue_validate (pj_commands s) = Inr ()
    \<and> (\<forall>c \<in> set (pj_commands s). \<exists>m \<in> set (pj_modules s). \<exists>p \<in> set known_proposals.
        cs_program c = pn_program p \<and> cs_args c = pn_args p \<and> cs_kind c = pn_kind p
        \<and> cs_working_subdirectory c = dm_directory m \<and> cs_environment c = [])
    \<and> (\<forall>m \<in> set (pj_modules s). \<exists>tracked. listing = Some tracked
        \<and> beside (dm_directory m) (dm_marker m) \<in> set tracked
        \<and> \<not> is_vendored (beside (dm_directory m) (dm_marker m))
        \<and> dm_marker m \<in> set (markers (dm_ecosystem m)) \<and> depth_of (dm_directory m) \<le> 3)"
proof (intro conjI ballI)
  show "catalogue_validate (pj_commands s) = Inr ()"
    unfolding assms by (rule survey_commands_valid)
next
  fix c assume "c \<in> set (pj_commands s)"
  with survey_proposes [OF assms] obtain m p where "m \<in> set (pj_modules s)"
    and "p \<in> set known_proposals" and "propose m p = Some c" by (auto simp: proposed_by_def)
  with propose_fields [of m p c] show "\<exists>m \<in> set (pj_modules s). \<exists>p \<in> set known_proposals.
      cs_program c = pn_program p \<and> cs_args c = pn_args p \<and> cs_kind c = pn_kind p
      \<and> cs_working_subdirectory c = dm_directory m \<and> cs_environment c = []" by blast
next
  fix m assume "m \<in> set (pj_modules s)"
  then show "\<exists>tracked. listing = Some tracked
      \<and> beside (dm_directory m) (dm_marker m) \<in> set tracked
      \<and> \<not> is_vendored (beside (dm_directory m) (dm_marker m))
      \<and> dm_marker m \<in> set (markers (dm_ecosystem m)) \<and> depth_of (dm_directory m) \<le> 3"
    unfolding assms by (rule surveyed_modules_marked)
qed

theorem surveyed_commands_known_witness:
  "\<exists>c \<in> set (pj_commands (survey_project forge_tree (\<lambda>s. None) ''/w'' (Some [''Cargo.toml'']))).
     cs_kind c = Test \<and> cs_environment c = [] \<and> cs_working_subdirectory c = None"
proof -
  let ?s = "survey_project forge_tree (\<lambda>s. None) ''/w'' (Some [''Cargo.toml''])"
  obtain c where c: "c \<in> set (pj_commands ?s)" and test: "cs_kind c = Test"
    by (rule sample_surveyed)
  from surveyed_commands_known [OF refl] c obtain m where m: "m \<in> set (pj_modules ?s)"
    and fields: "cs_working_subdirectory c = dm_directory m" "cs_environment c = []" by blast
  have "dm_directory m = None" using m by (rule sample_module)
  with c test fields show ?thesis by auto
qed

section \<open>The gates\<close>

text \<open>C38. A candidate passes the tests only by running them: when the test node, with the test runner
  behind its port, sends a candidate on to the review, then for every required command of the test
  phase a process was started with exactly the program, arguments, environment and confined
  directory of the command, it was neither cancelled nor timed out, its exit code is one the command
  accepts, its report was read and counts no failed test, the report is not missing, and a test
  command whose report counts tests executed at least one that was not skipped.\<close>

theorem tested_candidates_ran_tests:
  assumes "test_execute (P\<lparr>np_run_tests := run_tests Q\<rparr>) cx c w = (Inr result, v)"
    and "no_next result = Some ReviewCandidate"
    and "command \<in> set (catalogue_test_phase (ef_commands (cx_configuration cx)))"
    and "cs_required command"
  shows "\<exists>gate request outcome reading u t.
    gx_candidate_id gate = nc_candidate c
    \<and> request_for_command (qp_tree Q u) command (gx_worktree gate)
        (bd_max_output_bytes_per_stream (ef_budgets (cx_configuration cx))) = Inr request
    \<and> qp_run Q request u = (Inr outcome, t)
    \<and> \<not> pu_cancelled outcome \<and> \<not> pu_timed_out outcome
    \<and> exit_is_success command (pu_exit_code outcome)
    \<and> read_evidence (qp_decoders Q) (qp_tree Q t) gate command outcome = Inr reading
    \<and> ts_failed (rx_summary reading) = 0 \<and> \<not> rx_missing reading
    \<and> \<not> (counts_executed_tests (cs_report_format command) \<and> cs_kind command = Test
         \<and> ts_total (rx_summary reading) \<le> ts_skipped (rx_summary reading))"
proof -
  obtain gate where gate: "gx_candidate_id gate = nc_candidate c"
      "gx_configuration gate = cx_configuration cx" and ran: "ran_clean Q gate command"
    using test_node_ran [OF assms] by blast
  from ran assms(4) show ?thesis
    unfolding ran_clean_def process_ran_def clean_reading_def executed_nothing_iff gate(2)
    using gate(1) by blast
qed

theorem tested_candidates_ran_tests_witness:
  "\<exists>gate request outcome reading u t. gx_candidate_id gate = Some ''c01-0000''
   \<and> qp_run sample_quality request u = (Inr outcome, t)
   \<and> exit_is_success counted_command (pu_exit_code outcome)
   \<and> read_evidence sample_decoders open_tree gate counted_command outcome = Inr reading
   \<and> ts_skipped (rx_summary reading) < ts_total (rx_summary reading)"
proof -
  obtain result where "test_execute (gate_ports\<lparr>np_run_tests := run_tests sample_quality\<rparr>)
      gate_run_context (gate_call TestCandidate) () = (Inr result, ())"
    and "no_next result = Some ReviewCandidate"
    using sample_test_node by blast
  from tested_candidates_ran_tests [OF this, of counted_command] gate_commands(1)
    counted_command_fields
  obtain gate request outcome reading u t where "gx_candidate_id gate = Some ''c01-0000''"
    and "qp_run sample_quality request u = (Inr outcome, t)"
    and "exit_is_success counted_command (pu_exit_code outcome)"
    and "read_evidence sample_decoders open_tree gate counted_command outcome = Inr reading"
    and "\<not> ts_total (rx_summary reading) \<le> ts_skipped (rx_summary reading)"
    by auto
  then show ?thesis unfolding not_le by blast
qed



text \<open>C40. The advisory review only advises: the agent it starts may not change a file, run a command or
  leave the path policy and the network setting of the run, its report is never a required one, and
  what it finds is at most of medium severity, and lets the report pass, unless the user has
  configured the rule of a finding as a gate.\<close>

theorem advisory_review_only_advises:
  assumes "ai_review Q invoke configuration gate w = (Inr result, v)"
  shows "ai_review Q (\<lambda>invocation. if reads_only gate invocation then invoke invocation
      else otherwise invocation) configuration gate = ai_review Q invoke configuration gate
    \<and> \<not> rr_required (rv_report result)
    \<and> (\<forall>i \<in> set (rr_issues (rv_report result)).
         Medium < ri_severity i \<longrightarrow> ri_rule_id i \<in> set (ax_gate_rules configuration))
    \<and> (\<not> rr_passed (rv_report result) \<longrightarrow>
         (\<exists>i \<in> set (rr_issues (rv_report result)).
            ri_rule_id i \<in> set (ax_gate_rules configuration)))"
  using ai_review_gated [OF assms] by (simp add: advisory_invocation)

theorem advisory_review_only_advises_witness:
  "\<exists>result v. ai_review sample_quality (\<lambda>invocation. ok sample_agent)
       \<lparr>ax_enabled = True, ax_advisory_only = True, ax_gate_rules = [''unsafe'']\<rparr> sample_gate ()
       = (Inr result, v)
     \<and> \<not> rr_passed (rv_report result)
     \<and> (\<exists>i \<in> set (rr_issues (rv_report result)). ri_rule_id i = ''unsafe'')"
proof -
  obtain result v where advice: "ai_review sample_quality (\<lambda>invocation. ok sample_agent)
       \<lparr>ax_enabled = True, ax_advisory_only = True, ax_gate_rules = [''unsafe'']\<rparr> sample_gate ()
       = (Inr result, v)" and "\<not> rr_passed (rv_report result)"
    using sample_advice [of "[''unsafe'']"] by auto
  with advisory_review_only_advises [OF advice] show ?thesis by fastforce
qed

end
